(* ===== verification/Prelude.thy ===== *)
theory Prelude
  imports Main
begin

text \<open>
  The prelude of the development: the state-and-error monad in which every service and
  repository operation is written, its weakest-precondition calculus, the two-state
  guarantee locale by which frame conditions and invariants are carried through whole
  operations, 64-bit integer arithmetic as Go performs it, and generic list lemmas.

  An operation is a function from a state to a result and a new state.  The state survives an
  error: whatever was written before a Go function returns its error stays written (only a
  transaction undoes writes, see theory Model).
\<close>

named_theorems wp_simps \<open>weakest-precondition equations\<close>
named_theorems guar_intros \<open>introduction rules for two-state guarantees\<close>

section \<open>The state-and-error monad\<close>

type_synonym ('s, 'e, 'a) m = "'s \<Rightarrow> ('e + 'a) \<times> 's"

definition return :: "'a \<Rightarrow> ('s, 'e, 'a) m" where
  "return a = (\<lambda>s. (Inr a, s))"

definition throw :: "'e \<Rightarrow> ('s, 'e, 'a) m" where
  "throw e = (\<lambda>s. (Inl e, s))"

definition bind :: "('s, 'e, 'a) m \<Rightarrow> ('a \<Rightarrow> ('s, 'e, 'b) m) \<Rightarrow> ('s, 'e, 'b) m" where
  "bind m f = (\<lambda>s. case m s of (Inl e, s') \<Rightarrow> (Inl e, s') | (Inr a, s') \<Rightarrow> f a s')"

abbreviation andthen :: "('s, 'e, 'a) m \<Rightarrow> ('s, 'e, 'b) m \<Rightarrow> ('s, 'e, 'b) m" where
  "andthen m n \<equiv> bind m (\<lambda>_. n)"

text \<open>Go's \<open>x, err := f()\<close>: the error becomes a value that the caller inspects.\<close>

definition attempt :: "('s, 'e, 'a) m \<Rightarrow> ('s, 'e, 'e + 'a) m" where
  "attempt m = (\<lambda>s. case m s of (r, s') \<Rightarrow> (Inr r, s'))"

definition mapErr :: "('e \<Rightarrow> 'e) \<Rightarrow> ('s, 'e, 'a) m \<Rightarrow> ('s, 'e, 'a) m" where
  "mapErr g m = (\<lambda>s. case m s of (Inl e, s') \<Rightarrow> (Inl (g e), s') | (Inr a, s') \<Rightarrow> (Inr a, s'))"

definition gets :: "('s \<Rightarrow> 'a) \<Rightarrow> ('s, 'e, 'a) m" where
  "gets f = (\<lambda>s. (Inr (f s), s))"

definition ensure :: "bool \<Rightarrow> 'e \<Rightarrow> ('s, 'e, unit) m" where
  "ensure b e = (if b then return () else throw e)"

definition guard_when :: "bool \<Rightarrow> ('s, 'e, unit) m \<Rightarrow> ('s, 'e, unit) m" where
  "guard_when b m = (if b then m else return ())"

text \<open>An error that the Go code only logs (or drops) does not reach the caller.\<close>

definition ignoreErr :: "('s, 'e, 'a) m \<Rightarrow> ('s, 'e, unit) m" where
  "ignoreErr m = bind (attempt m) (\<lambda>_. return ())"

fun foreach :: "'x list \<Rightarrow> ('x \<Rightarrow> ('s, 'e, unit) m) \<Rightarrow> ('s, 'e, unit) m" where
  "foreach [] f = return ()"
| "foreach (x # xs) f = bind (f x) (\<lambda>_. foreach xs f)"

fun foldM :: "('x \<Rightarrow> 'a \<Rightarrow> ('s, 'e, 'a) m) \<Rightarrow> 'x list \<Rightarrow> 'a \<Rightarrow> ('s, 'e, 'a) m" where
  "foldM f [] a = return a"
| "foldM f (x # xs) a = bind (f x a) (foldM f xs)"

section \<open>Weakest preconditions\<close>

definition wp :: "('s, 'e, 'a) m \<Rightarrow> ('a \<Rightarrow> 's \<Rightarrow> bool) \<Rightarrow> ('e \<Rightarrow> 's \<Rightarrow> bool) \<Rightarrow> 's \<Rightarrow> bool" where
  "wp m Q E s = (case m s of (Inl e, s') \<Rightarrow> E e s' | (Inr a, s') \<Rightarrow> Q a s')"

lemma wp_return [wp_simps]: "wp (return a) Q E = Q a"
  by (simp add: wp_def return_def fun_eq_iff)

lemma wp_throw [wp_simps]: "wp (throw e) Q E = E e"
  by (simp add: wp_def throw_def fun_eq_iff)

lemma wp_bind [wp_simps]: "wp (bind m f) Q E s = wp m (\<lambda>a. wp (f a) Q E) E s"
  by (simp add: wp_def bind_def split: prod.splits sum.splits)

lemma wp_attempt [wp_simps]:
  "wp (attempt m) Q E s = wp m (\<lambda>a. Q (Inr a)) (\<lambda>e. Q (Inl e)) s"
  by (simp add: wp_def attempt_def split: prod.splits sum.splits)

lemma wp_mapErr [wp_simps]: "wp (mapErr g m) Q E s = wp m Q (\<lambda>e. E (g e)) s"
  by (simp add: wp_def mapErr_def split: prod.splits sum.splits)

lemma wp_gets [wp_simps]: "wp (gets f) Q E s = Q (f s) s"
  by (simp add: wp_def gets_def)

lemma wp_ensure [wp_simps]: "wp (ensure b e) Q E s = (if b then Q () s else E e s)"
  by (simp add: ensure_def wp_simps)

lemma wp_guard_when [wp_simps]:
  "wp (guard_when b m) Q E s = (if b then wp m Q E s else Q () s)"
  by (simp add: guard_when_def wp_simps)

lemma wp_ignoreErr [wp_simps]:
  "wp (ignoreErr m) Q E s = wp m (\<lambda>_. Q ()) (\<lambda>_. Q ()) s"
  by (simp add: ignoreErr_def wp_simps)

lemma wp_if [wp_simps]:
  "wp (if b then m else n) Q E s = (if b then wp m Q E s else wp n Q E s)"
  by simp

lemma wp_mono:
  assumes "wp m Q E s"
    and "\<And>a s'. Q a s' \<Longrightarrow> Q' a s'" and "\<And>e s'. E e s' \<Longrightarrow> E' e s'"
  shows "wp m Q' E' s"
  using assms by (auto simp: wp_def split: prod.splits sum.splits)

lemma wp_conj:
  "wp m Q E s \<Longrightarrow> wp m Q' E' s \<Longrightarrow> wp m (\<lambda>a s. Q a s \<and> Q' a s) (\<lambda>e s. E e s \<and> E' e s) s"
  by (auto simp: wp_def split: prod.splits sum.splits)

lemma wp_run: "wp m (\<lambda>a s'. m s = (Inr a, s')) (\<lambda>e s'. m s = (Inl e, s')) s"
  by (auto simp: wp_def split: prod.splits sum.splits)

lemma wp_Inr: "wp m Q E s \<Longrightarrow> m s = (Inr a, s') \<Longrightarrow> Q a s'"
  by (simp add: wp_def)

lemma wp_Inl: "wp m Q E s \<Longrightarrow> m s = (Inl e, s') \<Longrightarrow> E e s'"
  by (simp add: wp_def)

lemma wp_snd: "wp m (\<lambda>_. P) (\<lambda>_. P) s \<longleftrightarrow> P (snd (m s))"
  by (auto simp: wp_def split: prod.splits sum.splits)

lemma wp_foreach:
  assumes "I [] s"
    and step: "\<And>pre x rest s. xs = pre @ x # rest \<Longrightarrow> I pre s \<Longrightarrow>
                 wp (f x) (\<lambda>_. I (pre @ [x])) E s"
  shows "wp (foreach xs f) (\<lambda>_. I xs) E s"
proof -
  have "xs = pre @ rest \<Longrightarrow> I pre s \<Longrightarrow> wp (foreach rest f) (\<lambda>_. I xs) E s" for pre rest s
  proof (induction rest arbitrary: pre s)
    case Nil
    then show ?case by (simp add: wp_simps)
  next
    case (Cons x rest)
    have "wp (f x) (\<lambda>_. I (pre @ [x])) E s"
      using Cons.prems by (rule step)
    then show ?case
      by (auto simp: wp_simps Cons.prems(1) intro: wp_mono Cons.IH[where pre = "pre @ [x]", simplified])
  qed
  from this[of "[]" xs s] show ?thesis using assms(1) by simp
qed

lemma wp_foldM:
  assumes "I [] a s"
    and step: "\<And>pre x rest a s. xs = pre @ x # rest \<Longrightarrow> I pre a s \<Longrightarrow>
                 wp (f x a) (I (pre @ [x])) E s"
  shows "wp (foldM f xs a) (I xs) E s"
proof -
  have "xs = pre @ rest \<Longrightarrow> I pre a s \<Longrightarrow> wp (foldM f rest a) (I xs) E s" for pre rest a s
  proof (induction rest arbitrary: pre a s)
    case Nil
    then show ?case by (simp add: wp_simps)
  next
    case (Cons x rest)
    have "wp (f x a) (I (pre @ [x])) E s"
      using Cons.prems by (rule step)
    then show ?case
      by (auto simp: wp_simps Cons.prems(1) intro: wp_mono Cons.IH[where pre = "pre @ [x]", simplified])
  qed
  from this[of "[]" xs a s] show ?thesis using assms(1) by simp
qed

section \<open>Two-state guarantees\<close>

text \<open>
  A guarantee relates the state before an operation to the state after it, whatever the
  result: the new-api side is untouched, a cursor only moves forward, an invariant that held
  still holds.  The rules follow the shape of the operation.
\<close>

definition guar :: "('s \<Rightarrow> 's \<Rightarrow> bool) \<Rightarrow> ('s, 'e, 'a) m \<Rightarrow> bool" where
  "guar R m \<longleftrightarrow> (\<forall>s. R s (snd (m s)))"

lemma guarD: "guar R m \<Longrightarrow> R s (snd (m s))"
  by (simp add: guar_def)

lemma guarD': "guar R m \<Longrightarrow> m s = (r, s') \<Longrightarrow> R s s'"
  by (metis guarD snd_conv)

lemma guar_wp: "guar R m \<Longrightarrow> wp m (\<lambda>_. R s) (\<lambda>_. R s) s"
  by (simp add: wp_snd guarD)

lemma guar_if [guar_intros]: "guar R m \<Longrightarrow> guar R n \<Longrightarrow> guar R (if b then m else n)"
  by simp

lemma guar_option [guar_intros]:
  "guar R m \<Longrightarrow> (\<And>x. guar R (f x)) \<Longrightarrow> guar R (case z of None \<Rightarrow> m | Some x \<Rightarrow> f x)"
  by (cases z) auto

lemma guar_sum [guar_intros]:
  "(\<And>x. guar R (f x)) \<Longrightarrow> (\<And>x. guar R (g x)) \<Longrightarrow> guar R (case z of Inl x \<Rightarrow> f x | Inr x \<Rightarrow> g x)"
  by (cases z) auto

lemma guar_prod [guar_intros]:
  "(\<And>x y. guar R (f x y)) \<Longrightarrow> guar R (case z of (x, y) \<Rightarrow> f x y)"
  by (cases z) auto

lemma guar_prod_eq: "(\<And>x y. z = (x, y) \<Longrightarrow> guar R (f x y)) \<Longrightarrow> guar R (case z of (x, y) \<Rightarrow> f x y)"
  by (cases z) auto

lemma guar_list [guar_intros]:
  "guar R m \<Longrightarrow> (\<And>x xs. guar R (f x xs)) \<Longrightarrow> guar R (case z of [] \<Rightarrow> m | x # xs \<Rightarrow> f x xs)"
  by (cases z) auto

lemma guar_let [guar_intros]: "(\<And>x. guar R (f x)) \<Longrightarrow> guar R (let x = v in f x)"
  by simp

lemma guar_attempt [guar_intros]: "guar R m \<Longrightarrow> guar R (attempt m)"
  by (auto simp: guar_def attempt_def split: prod.splits) (metis snd_conv)

lemma guar_mapErr [guar_intros]: "guar R m \<Longrightarrow> guar R (mapErr g m)"
  by (auto simp: guar_def mapErr_def split: prod.splits sum.splits) (metis snd_conv)+

locale guarantee =
  fixes R :: "'s \<Rightarrow> 's \<Rightarrow> bool"
  assumes refl: "R s s"
    and trans: "R s t \<Longrightarrow> R t u \<Longrightarrow> R s u"
begin

lemma return [guar_intros]: "guar R (return a :: ('s, 'e, 'a) m)"
  by (simp add: guar_def return_def refl)

lemma throw [guar_intros]: "guar R (throw e :: ('s, 'e, 'a) m)"
  by (simp add: guar_def throw_def refl)

lemma gets [guar_intros]: "guar R (gets f :: ('s, 'e, 'a) m)"
  by (simp add: guar_def gets_def refl)

lemma ensure [guar_intros]: "guar R (ensure b e :: ('s, 'e, unit) m)"
  by (simp add: ensure_def return throw)

lemma bind [guar_intros]:
  fixes m :: "('s, 'e, 'a) m" and f :: "'a \<Rightarrow> ('s, 'e, 'b) m"
  assumes m: "guar R m" and f: "\<And>a. guar R (f a)"
  shows "guar R (bind m f)"
proof -
  have "R s (snd (bind m f s))" for s
    using guarD[OF m, of s]
    by (auto simp: bind_def split: prod.splits sum.splits intro: trans guarD[OF f] dest: guarD'[OF f])
  then show ?thesis by (simp add: guar_def)
qed

lemma guard_when [guar_intros]: "guar R (m :: ('s, 'e, unit) m) \<Longrightarrow> guar R (guard_when b m)"
  by (simp add: guard_when_def return)

lemma ignoreErr [guar_intros]: "guar R (m :: ('s, 'e, 'a) m) \<Longrightarrow> guar R (ignoreErr m)"
  unfolding ignoreErr_def by (intro bind guar_attempt return)

lemma foreach [guar_intros]:
  "(\<And>x. guar R (f x :: ('s, 'e, unit) m)) \<Longrightarrow> guar R (foreach xs f)"
  by (induction xs) (auto intro: return bind)

lemma foldM [guar_intros]:
  "(\<And>x a. guar R (f x a :: ('s, 'e, 'a) m)) \<Longrightarrow> guar R (foldM f xs a)"
  by (induction xs arbitrary: a) (auto intro: return bind)

end

section \<open>Go integers\<close>

text \<open>
  Go's \<open>int64\<close> (and \<open>int\<close> on the 64-bit targets) wraps silently; MySQL's \<open>BIGINT\<close> raises
  an out-of-range error instead.
\<close>

definition i64 :: "int \<Rightarrow> int" where
  "i64 x = (x + 2 ^ 63) mod 2 ^ 64 - 2 ^ 63"

definition fits64 :: "int \<Rightarrow> bool" where
  "fits64 x \<longleftrightarrow> - (2 ^ 63) \<le> x \<and> x < 2 ^ 63"

lemma i64_id [simp]: "fits64 x \<Longrightarrow> i64 x = x"
  by (simp add: i64_def fits64_def)

lemma fits64_i64 [simp]: "fits64 (i64 x)"
  unfolding i64_def fits64_def
  using pos_mod_bound[of "2 ^ 64" "x + 2 ^ 63"] pos_mod_sign[of "2 ^ 64" "x + 2 ^ 63"] by simp

lemma i64_i64_add: "i64 (i64 x + y) = i64 (x + y)"
proof -
  have "i64 x + y + 2 ^ 63 = (x + 2 ^ 63) mod 2 ^ 64 + y" by (simp add: i64_def)
  then show ?thesis by (simp add: i64_def mod_simps algebra_simps)
qed

lemma i64_add_i64: "i64 (x + i64 y) = i64 (x + y)"
  using i64_i64_add[of y x] by (simp add: add.commute)

section \<open>Decimal numerals (\<open>%d\<close>)\<close>

fun digits :: "nat \<Rightarrow> string" where
  "digits n = (if n < 10 then [char_of (48 + n)]
               else digits (n div 10) @ [char_of (48 + n mod 10)])"

declare digits.simps [simp del]

definition itoa :: "int \<Rightarrow> string" where
  "itoa i = (if i < 0 then CHR ''-'' # digits (nat (- i)) else digits (nat i))"

definition undigits :: "string \<Rightarrow> nat" where
  "undigits cs = foldl (\<lambda>a c. a * 10 + (of_char c - 48)) 0 cs"

lemma undigits_snoc: "undigits (cs @ [c]) = undigits cs * 10 + (of_char c - 48)"
  by (simp add: undigits_def)

lemma undigits_digits [simp]: "undigits (digits n) = n"
proof (induction n rule: digits.induct)
  case (1 n)
  then show ?case
    by (cases "n < 10")
       (auto simp: digits.simps[of n] undigits_snoc undigits_def of_char_of take_bit_eq_mod)
qed

lemma digits_inj [simp]: "digits m = digits n \<longleftrightarrow> m = n"
  using undigits_digits by metis

lemma digits_chars: "c \<in> set (digits n) \<Longrightarrow> 48 \<le> (of_char c :: nat) \<and> (of_char c :: nat) \<le> 57"
proof (induction n rule: digits.induct)
  case (1 n)
  then show ?case
    by (cases "n < 10") (auto simp: digits.simps[of n] of_char_of take_bit_eq_mod)
qed

lemma digits_no_minus: "CHR ''-'' # cs \<noteq> digits n"
proof
  assume *: "CHR ''-'' # cs = digits n"
  have "CHR ''-'' \<in> set (digits n)" unfolding *[symmetric] by simp
  from digits_chars[OF this] show False by simp
qed

lemma itoa_inj [simp]: "itoa i = itoa j \<longleftrightarrow> i = j"
  using digits_no_minus digits_no_minus[symmetric] by (auto simp: itoa_def)

section \<open>Tables as lists of rows\<close>

text \<open>
  \<open>UPDATE ... WHERE key = k\<close> maps over the rows; with a unique key exactly one row changes.
\<close>

definition updateKey :: "('r \<Rightarrow> 'k) \<Rightarrow> 'k \<Rightarrow> ('r \<Rightarrow> 'r) \<Rightarrow> 'r list \<Rightarrow> 'r list" where
  "updateKey key k g rows = map (\<lambda>r. if key r = k then g r else r) rows"

definition sumBy :: "('r \<Rightarrow> int) \<Rightarrow> 'r list \<Rightarrow> int" where
  "sumBy f rows = sum_list (map f rows)"

lemma sumBy_simps [simp]:
  "sumBy f [] = 0" "sumBy f (r # rs) = f r + sumBy f rs" "sumBy f (rs @ rs') = sumBy f rs + sumBy f rs'"
  by (simp_all add: sumBy_def)

lemma sumBy_nonneg: "(\<And>r. r \<in> set rows \<Longrightarrow> 0 \<le> f r) \<Longrightarrow> 0 \<le> sumBy f rows"
  by (induction rows) auto

lemma sumBy_cong: "(\<And>r. r \<in> set rows \<Longrightarrow> f r = g r) \<Longrightarrow> sumBy f rows = sumBy g rows"
  by (induction rows) auto

lemma sumBy_member:
  "(\<And>r. r \<in> set rows \<Longrightarrow> 0 \<le> f r) \<Longrightarrow> x \<in> set rows \<Longrightarrow> f x \<le> sumBy f rows"
  using sumBy_nonneg[of _ f] by (induction rows) fastforce+

lemma sumBy_map: "sumBy f (map g rows) = sumBy (\<lambda>r. f (g r)) rows"
  by (simp add: sumBy_def o_def)

lemma sumBy_filter: "sumBy f (filter P rows) = sumBy (\<lambda>r. if P r then f r else 0) rows"
  by (induction rows) auto

lemma sumBy_add: "sumBy (\<lambda>r. f r + g r) rows = sumBy f rows + sumBy g rows"
  by (induction rows) auto

lemma sumBy_0 [simp]: "sumBy (\<lambda>_. 0) rows = 0"
  by (induction rows) auto

lemma updateKey_Nil [simp]: "updateKey key k g [] = []"
  by (simp add: updateKey_def)

lemma length_updateKey [simp]: "length (updateKey key k g rows) = length rows"
  by (simp add: updateKey_def)

lemma map_updateKey_same:
  "(\<And>r. h (g r) = h r) \<Longrightarrow> map h (updateKey key k g rows) = map h rows"
  by (auto simp: updateKey_def)

lemma updateKey_notin: "k \<notin> key ` set rows \<Longrightarrow> updateKey key k g rows = rows"
  by (induction rows) (auto simp: updateKey_def)

lemma set_updateKeyD: "x \<in> set (updateKey key k g rows) \<Longrightarrow> x \<in> set rows \<or> (\<exists>r \<in> set rows. key r = k \<and> x = g r)"
  by (auto simp: updateKey_def split: if_splits)

lemma sumBy_updateKey:
  assumes "distinct (map key rows)" "r \<in> set rows" "key r = k"
  shows "sumBy f (updateKey key k g rows) = sumBy f rows - f r + f (g r)"
  using assms
proof (induction rows)
  case Nil
  then show ?case by simp
next
  case (Cons x xs)
  show ?case
  proof (cases "x = r")
    case True
    with Cons.prems have "k \<notin> key ` set xs" by auto
    then have "updateKey key k g xs = xs" by (rule updateKey_notin)
    then show ?thesis using True Cons.prems by (simp add: updateKey_def)
  next
    case False
    with Cons.prems have "key x \<noteq> k" by force
    then show ?thesis using Cons False by (simp add: updateKey_def)
  qed
qed

lemma find_key_Some: "find (\<lambda>r. P r) rows = Some x \<Longrightarrow> x \<in> set rows \<and> P x"
  by (auto simp: find_Some_iff)

lemma find_unique:
  "distinct (map key rows) \<Longrightarrow> x \<in> set rows \<Longrightarrow> find (\<lambda>r. key r = key x) rows = Some x"
  by (induction rows) (auto simp: rev_image_eqI)

lemma find_updateKey:
  assumes "\<And>r. key (g r) = key r"
  shows "find (\<lambda>r. key r = k) (updateKey key k' g rows) =
           (if k = k' then map_option g (find (\<lambda>r. key r = k) rows) else find (\<lambda>r. key r = k) rows)"
  by (induction rows) (auto simp: updateKey_def assms)

text \<open>\<open>ORDER BY key LIMIT 1\<close>.\<close>

definition firstBy :: "('r \<Rightarrow> 'k::linorder) \<Rightarrow> ('r \<Rightarrow> bool) \<Rightarrow> 'r list \<Rightarrow> 'r option" where
  "firstBy key P rows = (case sort_key key (filter P rows) of [] \<Rightarrow> None | r # _ \<Rightarrow> Some r)"

lemma firstBy_Some: "firstBy key P rows = Some r \<Longrightarrow> r \<in> set rows \<and> P r"
proof -
  assume "firstBy key P rows = Some r"
  then obtain rs where "sort_key key (filter P rows) = r # rs"
    by (auto simp: firstBy_def split: list.splits)
  then have "r \<in> set (sort_key key (filter P rows))" by simp
  then show ?thesis by simp
qed

lemma firstBy_None: "firstBy key P rows = None \<longleftrightarrow> (\<forall>r \<in> set rows. \<not> P r)"
proof -
  have "firstBy key P rows = None \<longleftrightarrow> sort_key key (filter P rows) = []"
    by (auto simp: firstBy_def split: list.splits)
  also have "\<dots> \<longleftrightarrow> set (sort_key key (filter P rows)) = {}" by (simp only: set_empty)
  also have "\<dots> \<longleftrightarrow> (\<forall>r \<in> set rows. \<not> P r)" unfolding set_sort set_filter by auto
  finally show ?thesis .
qed

lemma firstBy_least:
  assumes "firstBy key P rows = Some r" "x \<in> set rows" "P x"
  shows "key r \<le> key x"
proof -
  obtain rs where e: "sort_key key (filter P rows) = r # rs"
    using assms(1) by (auto simp: firstBy_def split: list.splits)
  have "x \<in> set (sort_key key (filter P rows))" using assms by simp
  moreover have "sorted (map key (r # rs))" using sorted_sort_key[of key "filter P rows"] by (simp add: e)
  ultimately show ?thesis by (auto simp: e)
qed

end
