(* ===== verification/Apperr.thy ===== *)
theory Apperr
  imports Prelude
begin

text \<open>
  The error values of the program: the platform error of \<open>pkg/apperr\<close>, the upstream error of
  \<open>adapter/newapi/errors.go\<close>, the sentinel errors of \<open>repo\<close> and the driver errors beneath them,
  with the chain walking of Go's \<open>errors.Is\<close> and \<open>errors.As\<close>.  The human-readable messages
  (which are not part of any decision) are left out; codes, HTTP statuses, classes and causes
  are kept.  \<open>NilUpstream\<close> is a nil \<open>*UpstreamError\<close> in a non-nil \<open>error\<close>, which one method of
  the adapter returns for its success; the service only logs it.
\<close>

section \<open>Error values\<close>

datatype err_class = ClassNonRetryable | ClassRetryable | ClassAuthExpired

record upstream_error =
  ue_step :: string
  ue_http :: int
  ue_code :: int
  ue_class :: err_class

datatype err =
    App (ae_code: int) (ae_http: int) (ae_cause: "err option")
  | Upstream upstream_error
  | ErrNotFound
  | ErrConflict
  | ErrOptimisticLock
  | ErrInsufficientBalance
  | ErrIdempotentInProgress
  | ErrConcurrentSettlement
  | NoRows
  | SqlError int
  | DriverError
  | CtxError
  | Deadlock
  | OutOfFuel
  | NilUpstream

text \<open>\<open>errors.Is(e, target)\<close>: the error or one of the errors it wraps is the target.\<close>

fun errorsIs :: "err \<Rightarrow> err \<Rightarrow> bool" where
  "errorsIs (App c h cause) t =
     (App c h cause = t \<or> (case cause of None \<Rightarrow> False | Some e \<Rightarrow> errorsIs e t))"
| "errorsIs e t = (e = t)"

text \<open>\<open>errors.As\<close> for the two structured error types.\<close>

fun asApp :: "err \<Rightarrow> err option" where
  "asApp (App c h cause) = Some (App c h cause)"
| "asApp e = None"

fun asUpstream :: "err \<Rightarrow> upstream_error option" where
  "asUpstream (App c h cause) = (case cause of None \<Rightarrow> None | Some e \<Rightarrow> asUpstream e)"
| "asUpstream (Upstream u) = Some u"
| "asUpstream e = None"

section \<open>\<open>pkg/apperr\<close>\<close>

definition WithCause :: "err \<Rightarrow> err \<Rightarrow> err" where
  "WithCause e c = (case e of App code http _ \<Rightarrow> App code http (Some c) | _ \<Rightarrow> e)"

definition newErr :: "int \<Rightarrow> int \<Rightarrow> err" where
  "newErr code http = App code http None"

definition Unauthenticated :: err where "Unauthenticated = newErr 10001 401"
definition SessionExpired :: err where "SessionExpired = newErr 10003 401"
definition Forbidden :: err where "Forbidden = newErr 10401 403"
definition ReadonlyBlocked :: err where "ReadonlyBlocked = newErr 10402 403"
definition MoneyRedline :: err where "MoneyRedline = newErr 10403 403"
definition InvalidParam :: err where "InvalidParam = newErr 20001 422"
definition BadRequest :: err where "BadRequest = newErr 20001 400"
definition NotFound :: err where "NotFound = newErr 30001 404"
definition Conflict :: err where "Conflict = newErr 30003 409"
definition OptimisticLock :: err where "OptimisticLock = newErr 20904 409"
definition IdempotencyInProgress :: err where "IdempotencyInProgress = newErr 20903 409"
definition Internal :: err where "Internal = newErr 50000 500"

lemmas apperr_defs =
  newErr_def Unauthenticated_def SessionExpired_def Forbidden_def ReadonlyBlocked_def
  MoneyRedline_def InvalidParam_def BadRequest_def NotFound_def Conflict_def
  OptimisticLock_def IdempotencyInProgress_def Internal_def WithCause_def

definition internal :: "err \<Rightarrow> err" where
  "internal e = WithCause Internal e"

definition FromUpstream :: "int \<Rightarrow> err \<Rightarrow> err" where
  "FromUpstream code cause =
     (let http = (if code = 50500 then 502
                  else if code = 50503 then 503
                  else if code = 50504 then 504
                  else if code = 50301 then 502
                  else if code = 50000 then 500
                  else 200)
      in App code http (Some cause))"

definition Coerce :: "err \<Rightarrow> err" where
  "Coerce e = (case asApp e of Some a \<Rightarrow> a | None \<Rightarrow> WithCause Internal e)"

section \<open>\<open>adapter/newapi/errors.go\<close>\<close>

definition Retryable :: "upstream_error \<Rightarrow> bool" where
  "Retryable u \<longleftrightarrow> ue_class u = ClassRetryable"

definition AuthExpired :: "upstream_error \<Rightarrow> bool" where
  "AuthExpired u \<longleftrightarrow> ue_class u = ClassAuthExpired"

definition IsUsernameConflict :: "err \<Rightarrow> bool" where
  "IsUsernameConflict e \<longleftrightarrow> (case asUpstream e of Some u \<Rightarrow> ue_code u = 50409 | None \<Rightarrow> False)"

definition platformCodeForBiz :: "string \<Rightarrow> int" where
  "platformCodeForBiz step =
     (if step = ''CreateUser'' then 50201
      else if step = ''CreateToken'' then 50202
      else if step = ''RevealTokenKey'' then 50203
      else 50400)"

definition classifyHTTP :: "string \<Rightarrow> int \<Rightarrow> upstream_error" where
  "classifyHTTP step status =
     (if status = 401 then
        \<lparr> ue_step = step, ue_http = status, ue_code = 50301, ue_class = ClassAuthExpired \<rparr>
      else if 400 \<le> status \<and> status < 500 then
        \<lparr> ue_step = step, ue_http = status, ue_code = platformCodeForBiz step,
          ue_class = ClassNonRetryable \<rparr>
      else if 500 \<le> status then
        \<lparr> ue_step = step, ue_http = status, ue_code = 50500, ue_class = ClassRetryable \<rparr>
      else
        \<lparr> ue_step = step, ue_http = status, ue_code = 50000, ue_class = ClassNonRetryable \<rparr>)"

definition newTransportError :: "string \<Rightarrow> bool \<Rightarrow> upstream_error" where
  "newTransportError step timeout =
     \<lparr> ue_step = step, ue_http = 0, ue_code = (if timeout then 50504 else 50500),
       ue_class = ClassRetryable \<rparr>"

definition ErrCircuitOpen :: upstream_error where
  "ErrCircuitOpen =
     \<lparr> ue_step = ''executor'', ue_http = 0, ue_code = 50500, ue_class = ClassRetryable \<rparr>"

definition asUpstreamError :: "string \<Rightarrow> err \<Rightarrow> upstream_error" where
  "asUpstreamError step e =
     (case asUpstream e of
        Some u \<Rightarrow> u
      | None \<Rightarrow> \<lparr> ue_step = step, ue_http = 0, ue_code = 50000, ue_class = ClassNonRetryable \<rparr>)"

section \<open>\<open>service/errors.go\<close>\<close>

definition mapUpstream :: "err \<Rightarrow> err" where
  "mapUpstream e = (case asUpstream e of
      Some u \<Rightarrow> FromUpstream (ue_code u) (Upstream u)
    | None \<Rightarrow> Coerce e)"

section \<open>Properties of the error pipeline\<close>

fun isApp :: "err \<Rightarrow> bool" where
  "isApp (App c h cause) = True"
| "isApp e = False"

lemma isApp_asApp: "isApp e \<Longrightarrow> asApp e = Some e"
  by (cases e) auto

lemma isApp_Coerce [simp]: "isApp (Coerce e)"
  by (cases e) (auto simp: Coerce_def apperr_defs)

lemma isApp_mapUpstream [simp]: "isApp (mapUpstream e)"
  by (auto simp: mapUpstream_def FromUpstream_def Let_def split: option.splits)

lemma isApp_internal [simp]: "isApp (internal e)"
  by (simp add: internal_def apperr_defs)

lemma Coerce_id [simp]: "isApp e \<Longrightarrow> Coerce e = e"
  by (simp add: Coerce_def isApp_asApp)

lemma errorsIs_self [simp]: "errorsIs e e"
  by (cases e) auto

lemma errorsIs_internal [simp]: "\<not> isApp t \<Longrightarrow> errorsIs (internal e) t = errorsIs e t"
  by (cases t) (auto simp: internal_def apperr_defs)

text \<open>
  The HTTP status answered for an upstream failure: it is never 200 for the server-side
  classes (unavailable, time-out, lost credential), whatever the step was.
\<close>

lemma classify_status:
  "ae_http (mapUpstream (Upstream (classifyHTTP step status))) =
     (if status = 401 then 502
      else if 400 \<le> status \<and> status < 500 then 200
      else if 500 \<le> status then 502 else 500)"
  by (auto simp: classifyHTTP_def mapUpstream_def FromUpstream_def platformCodeForBiz_def Let_def)

end
