(* ===== verification/Model.thy ===== *)
theory Model
  imports Apperr
begin

text \<open>
  The data model (\<open>model/model.go\<close> and the row types of \<open>repo\<close>), the database as the list of
  rows of each table, and the world in which the service runs: the database, the state of the
  new-api server, the clock, the schedule of driver faults, the locks held and the number of random values
  drawn so far.

  A statement of the database takes the next entry of the fault schedule: it succeeds, fails
  without effect, or takes effect and loses its acknowledgement (the connection breaks after
  the server executed it).  Every property proved for all worlds therefore holds for every
  placement of such failures.  Times are nanoseconds since the epoch.
\<close>

section \<open>Enumerations\<close>

datatype org_status = OrgStatusActive | OrgStatusLow | OrgStatusStopped | OrgStatusHardStopped

datatype member_status =
    MemberStatusActive | MemberStatusDisabled | MemberStatusOffboarded
  | MemberStatusExpired | MemberStatusPending | MemberStatusProvisioning

datatype bootstrap_state = BootstrapPending | BootstrapDone | BootstrapFailed

datatype escrow_status = EscrowActive | EscrowHolding | EscrowMerged

datatype grant_type = GrantQuotaAdd | GrantQuotaSub | GrantModelAdd | GrantAccountTTL

datatype grant_status = GrantStatusActive | GrantStatusExpired | GrantStatusRevoked

datatype approval_state =
    ApprovalPending | ApprovalL1Approved | ApprovalApproved | ApprovalRejected
  | ApprovalAutoApprove | ApprovalCancelled

datatype request_type = ReqQuotaRaise | ReqModelOpen

datatype backfill_status = BfPending | BfRunning | BfDone | BfFailed

datatype billing_kind = BillingKindWallet | BillingKindSub

datatype role = RoleOperator | RoleOrgAdmin | RoleTeamLeader | RoleMember | RoleOther string

section \<open>Rows\<close>

text \<open>A \<open>float64\<close> is the fraction it denotes, numerator and positive denominator (see theory GoLib).\<close>

type_synonym float = "int \<times> int"

record discount_entry =
  de_pct :: float
  de_base :: float
  de_abs :: float

record organization =
  o_id :: int
  o_name :: string
  o_slug :: string
  o_timezone :: string
  o_status :: org_status
  o_user_group :: "string option"
  o_default_tier :: "int option"
  o_default_token_group :: "string option"
  o_newapi_user :: "int option"
  o_newapi_username :: "string option"
  o_access_token_enc :: string
  o_password_enc :: string
  o_created_by_platform :: bool
  o_archived :: bool
  o_billing_kind :: billing_kind
  o_billing_enabled :: bool
  o_hard_stop_enabled :: bool
  o_auto_max_quota :: int
  o_auto_max_days :: int
  o_l1_max_quota :: int
  o_discount_mode :: string
  o_entries :: "(string \<times> discount_entry) list"
  o_deleted :: bool

record member =
  m_id :: int
  m_org :: int
  m_team :: "int option"
  m_email :: string
  m_display :: "string option"
  m_role :: role
  m_tier :: "int option"
  m_group :: "string option"
  m_status :: member_status
  m_pwhash :: "string option"
  m_token :: "int option"
  m_key_masked :: "string option"
  m_rotation :: int
  m_bootstrap :: bootstrap_state
  m_epoch :: int
  m_deleted :: bool

record team =
  t_id :: int
  t_org :: int
  t_name :: string
  t_leader :: "int option"
  t_default_tier :: "int option"
  t_status :: string
  t_deleted :: bool

record tier =
  tr_id :: int
  tr_org :: int
  tr_name :: string
  tr_model_set :: "string list"
  tr_model_cap :: "(string \<times> int) list"
  tr_daily :: "int option"
  tr_weekly :: "int option"
  tr_monthly :: "int option"
  tr_group :: "string option"
  tr_default :: bool
  tr_deleted :: bool

record balance =
  b_org :: int
  b_recharged :: int
  b_consumed :: int
  b_refunded :: int
  b_balance :: int
  b_low_watermark :: int
  b_version :: int

record recharge =
  r_org :: int
  r_amount :: int
  r_amount_cny :: "int option"
  r_transfer_no :: string
  r_operator :: string
  r_note :: "string option"

record refund =
  rf_org :: int
  rf_amount :: int
  rf_reason :: string
  rf_operator :: string

record recharge_request =
  rq_id :: int
  rq_org :: int
  rq_type :: string
  rq_amount :: int
  rq_note :: "string option"
  rq_applicant :: string

record escrow_bucket =
  eb_id :: int
  eb_org :: int
  eb_seq :: int
  eb_amount :: int
  eb_status :: escrow_status
  eb_threshold :: int

record escrow_config =
  ec_org :: int
  ec_auto :: int
  ec_override :: "int option"
  ec_baseline :: "int option"
  ec_updated :: int

record ledger_row =
  l_org :: int
  l_member :: int
  l_user :: int
  l_key :: int
  l_team :: "int option"
  l_model :: string
  l_bucket :: int
  l_consumed :: int
  l_max_ts :: int

record detail_row =
  d_org :: int
  d_member :: int
  d_user :: int
  d_key :: int
  d_team :: "int option"
  d_model :: string
  d_log_id :: int
  d_prompt :: int
  d_completion :: int
  d_consumed :: int
  d_ts :: int

record cursor =
  c_org :: int
  c_ts :: int
  c_log_id :: int
  c_version :: int

record backfill_job =
  j_org :: int
  j_user :: int
  j_username :: string
  j_boundary_ts :: int
  j_boundary_id :: int
  j_cursor :: int
  j_earliest :: "int option"
  j_status :: backfill_status
  j_rows :: int
  j_error :: "err option"

record grant_payload =
  gp_delta :: int
  gp_duration :: string
  gp_model :: string

record grant =
  g_id :: int
  g_org :: int
  g_member :: int
  g_type :: grant_type
  g_payload :: grant_payload
  g_reason :: "string option"
  g_operator :: string
  g_expire :: int
  g_status :: grant_status
  g_reverted :: "int option"

record quota_policy =
  q_id :: int
  q_org :: int
  q_scope :: string
  q_scope_id :: int
  q_period :: string
  q_limit :: int
  q_anchor :: string
  q_status :: string
  q_last_reset :: "int option"

record approval_payload =
  ap_model :: string
  ap_amount :: int
  ap_duration :: string
  ap_reason :: string

record approval =
  a_id :: int
  a_org :: int
  a_applicant :: int
  a_team :: "int option"
  a_type :: request_type
  a_payload :: approval_payload
  a_state :: approval_state
  a_level2 :: bool
  a_l1 :: "int option"
  a_l2 :: "int option"
  a_reject :: "string option"

record notification =
  n_org :: int
  n_member :: int
  n_type :: string
  n_read :: bool

record support_session =
  ss_id :: int
  ss_org :: int
  ss_actor :: string
  ss_scope :: string
  ss_grant :: "string option"
  ss_state :: string
  ss_expire :: int

record key_token =
  kt_key :: int
  kt_org :: int
  kt_member :: int
  kt_token :: "int option"
  kt_name :: string
  kt_current :: bool
  kt_rotation :: int

record key_slot =
  ks_id :: int
  ks_org :: int
  ks_member :: int
  ks_primary :: bool
  ks_active :: bool

record idem_record =
  id_org :: int
  id_endpoint :: string
  id_key :: string
  id_done :: bool
  id_http :: int
  id_response :: string

text \<open>
  Audit detail is the JSON object of the source as its list of fields; values of the enumerations
  keep their type.
\<close>

datatype jval = JInt int | JStr string | JBool bool | JNull | JErr err
  | JFloat float | JStrs "string list" | JOrgStatus org_status | JGrant grant_type | JApproval approval_state

record audit_entry =
  au_org :: int
  au_actor :: string
  au_behalf :: "string option"
  au_session :: "int option"
  au_action :: string
  au_target :: string
  au_target_id :: "int option"
  au_detail :: "(string \<times> jval) list"
  au_result :: string

section \<open>The database and the world\<close>

record db =
  orgs :: "organization list"
  members :: "member list"
  teams :: "team list"
  tiers :: "tier list"
  balances :: "balance list"
  recharges :: "recharge list"
  refunds :: "refund list"
  recharge_requests :: "recharge_request list"
  buckets :: "escrow_bucket list"
  escrow_configs :: "escrow_config list"
  ledger :: "ledger_row list"
  details :: "detail_row list"
  cursors :: "cursor list"
  jobs :: "backfill_job list"
  grants :: "grant list"
  policies :: "quota_policy list"
  approvals :: "approval list"
  notifications :: "notification list"
  supports :: "support_session list"
  key_tokens :: "key_token list"
  key_slots :: "key_slot list"
  idems :: "idem_record list"
  audits :: "audit_entry list"

datatype fault = Fine | Fails | LostAck

record 'u world =
  w_db :: db
  w_up :: 'u
  w_now :: int
  w_faults :: "fault list"
  w_held :: "string list"
  w_draws :: nat

type_synonym ('u, 'a) op = "('u world, err, 'a) m"

definition empty_db :: db where
  "empty_db = \<lparr> orgs = [], members = [], teams = [], tiers = [], balances = [], recharges = [],
     refunds = [], recharge_requests = [], buckets = [], escrow_configs = [], ledger = [],
     details = [], cursors = [], jobs = [], grants = [], policies = [], approvals = [],
     notifications = [], supports = [], key_tokens = [], key_slots = [], idems = [], audits = [] \<rparr>"

text \<open>The identifier that an \<open>AUTO_INCREMENT\<close> column gives to a new row.\<close>

definition next_id :: "int list \<Rightarrow> int" where
  "next_id ids = fold max ids 0 + 1"

lemma next_id_fresh: "next_id ids \<notin> set ids"
proof -
  have "a \<le> fold max xs a" for a :: int and xs
    by (induction xs arbitrary: a) (auto intro: order_trans[OF max.cobounded2])
  moreover have "x \<in> set xs \<Longrightarrow> x \<le> fold max xs a" for a :: int and x and xs
  proof (induction xs arbitrary: a)
    case (Cons y ys)
    have "max y a \<le> fold max ys (max y a)" by (rule calculation)
    with Cons show ?case by auto
  qed simp
  ultimately show ?thesis unfolding next_id_def by (metis add.commute less_irrefl less_le_trans zless_add1_eq)
qed

end
