(* ===== verification/Effects.thy ===== *)
theory Effects
  imports Model
begin

text \<open>
  The effects of the service: database statements under the fault schedule, transactions
  (\<open>repo/tx.go\<close>), keyed locks (the use of \<open>pkg/lock\<close>) and calls of the new-api server, with
  their weakest preconditions and the guarantees they give.
\<close>

section \<open>Statements\<close>

definition stmt :: "(db \<Rightarrow> (err + 'a) \<times> db) \<Rightarrow> ('u, 'a) op" where
  "stmt f w = (case w_faults w of
      [] \<Rightarrow> (case f (w_db w) of (r, d) \<Rightarrow> (r, w\<lparr>w_db := d\<rparr>))
    | Fine # fs \<Rightarrow> (case f (w_db w) of (r, d) \<Rightarrow> (r, w\<lparr>w_db := d, w_faults := fs\<rparr>))
    | Fails # fs \<Rightarrow> (Inl DriverError, w\<lparr>w_faults := fs\<rparr>)
    | LostAck # fs \<Rightarrow> (Inl DriverError, w\<lparr>w_db := snd (f (w_db w)), w_faults := fs\<rparr>))"

definition query :: "(db \<Rightarrow> 'a) \<Rightarrow> ('u, 'a) op" where
  "query f = stmt (\<lambda>d. (Inr (f d), d))"

text \<open>\<open>QueryRow(...).Scan\<close>: the absence of a row is the error \<open>sql.ErrNoRows\<close>.\<close>

definition queryRow :: "(db \<Rightarrow> 'a option) \<Rightarrow> ('u, 'a) op" where
  "queryRow f = stmt (\<lambda>d. (case f d of None \<Rightarrow> Inl NoRows | Some a \<Rightarrow> Inr a, d))"

text \<open>A row the repository reads with the \<open>sql.ErrNoRows\<close> to \<open>ErrNotFound\<close> translation.\<close>

definition noRows :: "err \<Rightarrow> err" where
  "noRows e = (if e = NoRows then ErrNotFound else e)"

definition getRow :: "(db \<Rightarrow> 'a option) \<Rightarrow> ('u, 'a) op" where
  "getRow f = mapErr noRows (queryRow f)"

definition exec :: "(db \<Rightarrow> db) \<Rightarrow> ('u, unit) op" where
  "exec f = stmt (\<lambda>d. (Inr (), f d))"

text \<open>\<open>isDupKey\<close> (\<open>repo/db.go\<close>): MySQL error 1062.\<close>

definition isDupKey :: "err \<Rightarrow> bool" where
  "isDupKey e \<longleftrightarrow> e = SqlError 1062"

definition isAlreadyApplied :: "err \<Rightarrow> bool" where
  "isAlreadyApplied e \<longleftrightarrow> e \<in> {SqlError 1050, SqlError 1060, SqlError 1061}"

definition clock :: "('u, int) op" where
  "clock = gets w_now"

text \<open>A fresh random value: the source is a sequence of values supplied with the service.\<close>

definition draw :: "(nat \<Rightarrow> 'a) \<Rightarrow> ('u, 'a) op" where
  "draw f w = (Inr (f (w_draws w)), w\<lparr>w_draws := Suc (w_draws w)\<rparr>)"

section \<open>Transactions\<close>

definition WithTx :: "('u, 'a) op \<Rightarrow> ('u, 'a) op" where
  "WithTx body w =
     (case stmt (\<lambda>d. (Inr (), d)) w of
        (Inl e, w1) \<Rightarrow> (Inl e, w1)
      | (Inr _, w1) \<Rightarrow>
          (case body w1 of
             (Inl e, w2) \<Rightarrow> (Inl e, w2\<lparr>w_db := w_db w\<rparr>)
           | (Inr a, w2) \<Rightarrow>
               (case w_faults w2 of
                  [] \<Rightarrow> (Inr a, w2)
                | Fine # fs \<Rightarrow> (Inr a, w2\<lparr>w_faults := fs\<rparr>)
                | Fails # fs \<Rightarrow> (Inl DriverError, w2\<lparr>w_db := w_db w, w_faults := fs\<rparr>)
                | LostAck # fs \<Rightarrow> (Inl DriverError, w2\<lparr>w_faults := fs\<rparr>))))"

section \<open>Locks\<close>

text \<open>
  A Go mutex is not re-entrant: taking a lock that the same call chain already holds never
  returns; the model makes that the error \<open>Deadlock\<close>.  Acquiring a keyed lock also fails
  when the context is cancelled.
\<close>

definition holding :: "string \<Rightarrow> ('u, 'a) op \<Rightarrow> ('u, 'a) op" where
  "holding key body w =
     (if key \<in> set (w_held w) then (Inl Deadlock, w)
      else case body (w\<lparr>w_held := key # w_held w\<rparr>) of (r, w') \<Rightarrow> (r, w'\<lparr>w_held := w_held w\<rparr>))"

definition pollCtx :: "('u, unit) op" where
  "pollCtx w = (case w_faults w of
      [] \<Rightarrow> (Inr (), w)
    | f # fs \<Rightarrow> (if f = Fine then Inr () else Inl CtxError, w\<lparr>w_faults := fs\<rparr>))"

definition withLock :: "(err \<Rightarrow> err) \<Rightarrow> string \<Rightarrow> ('u, 'a) op \<Rightarrow> ('u, 'a) op" where
  "withLock g key body = bind (mapErr g pollCtx) (\<lambda>_. holding key body)"

section \<open>Calls of new-api\<close>

definition upcall :: "('u, err, 'a) m \<Rightarrow> ('u, 'a) op" where
  "upcall f w = (case f (w_up w) of (r, u) \<Rightarrow> (r, w\<lparr>w_up := u\<rparr>))"

section \<open>Weakest preconditions\<close>

lemma wp_stmt_nofault:
  "w_faults w = [] \<Longrightarrow>
   wp (stmt f) Q E w = (case f (w_db w) of (Inr a, d) \<Rightarrow> Q a (w\<lparr>w_db := d\<rparr>)
                                          | (Inl e, d) \<Rightarrow> E e (w\<lparr>w_db := d\<rparr>))"
  by (simp add: wp_def stmt_def split: prod.splits sum.splits)

lemma world_faults_id [simp]: "w_faults w = fs \<Longrightarrow> w\<lparr>w_faults := fs\<rparr> = w"
  by (cases w) simp

lemma world_db_id [simp]: "w_db w = d \<Longrightarrow> w\<lparr>w_db := d\<rparr> = w"
  by (cases w) simp

lemma wp_stmtI:
  assumes "\<And>fs r d. f (w_db w) = (Inr r, d) \<Longrightarrow> Q r (w\<lparr>w_db := d, w_faults := fs\<rparr>)"
    and "\<And>fs e d. f (w_db w) = (Inl e, d) \<Longrightarrow> E e (w\<lparr>w_db := d, w_faults := fs\<rparr>)"
    and "\<And>fs. E DriverError (w\<lparr>w_faults := fs\<rparr>)"
    and "\<And>fs. E DriverError (w\<lparr>w_db := snd (f (w_db w)), w_faults := fs\<rparr>)"
  shows "wp (stmt f) Q E w"
proof -
  have "w\<lparr>w_db := d, w_faults := w_faults w\<rparr> = w\<lparr>w_db := d\<rparr>" for d by simp
  then show ?thesis
    using assms(1)[of _ _ "w_faults w"] assms(2)[of _ _ "w_faults w"] assms
    by (auto simp: wp_def stmt_def split: prod.splits sum.splits list.splits fault.splits)
qed

lemma wp_queryI:
  assumes "\<And>fs. Q (f (w_db w)) (w\<lparr>w_faults := fs\<rparr>)"
    and "\<And>fs. E DriverError (w\<lparr>w_faults := fs\<rparr>)"
  shows "wp (query f) Q E w"
  unfolding query_def by (rule wp_stmtI) (use assms in auto)

section \<open>Transaction bodies\<close>

text \<open>
  \<open>dbval P m Q\<close>: started on a database with \<open>P\<close>, whatever the faults, \<open>m\<close> fails or leaves a
  database with \<open>Q\<close>.  Inside a transaction a failure needs no postcondition, because the
  transaction undoes what was written.
\<close>

definition dbval :: "(db \<Rightarrow> bool) \<Rightarrow> ('u, 'a) op \<Rightarrow> ('a \<Rightarrow> db \<Rightarrow> bool) \<Rightarrow> bool" where
  "dbval P m Q \<longleftrightarrow> (\<forall>w. P (w_db w) \<longrightarrow> wp m (\<lambda>a w'. Q a (w_db w')) (\<lambda>_ _. True) w)"

lemma dbvalD: "dbval P m Q \<Longrightarrow> P (w_db w) \<Longrightarrow> m w = (Inr a, w') \<Longrightarrow> Q a (w_db w')"
  by (force simp: dbval_def wp_def)

lemma dbvalI: "(\<And>w a w'. P (w_db w) \<Longrightarrow> m w = (Inr a, w') \<Longrightarrow> Q a (w_db w')) \<Longrightarrow> dbval P m Q"
  by (auto simp: dbval_def wp_def split: prod.splits sum.splits)

lemma dbval_return: "(\<And>d. P d \<Longrightarrow> Q a d) \<Longrightarrow> dbval P (return a) Q"
  by (simp add: dbval_def wp_simps)

lemma dbval_throw: "dbval P (throw e) Q"
  by (simp add: dbval_def wp_simps)

lemma dbval_bind: "dbval P m R \<Longrightarrow> (\<And>a. dbval (R a) (f a) Q) \<Longrightarrow> dbval P (bind m f) Q"
  by (fastforce simp: dbval_def wp_simps elim: wp_mono)

lemma dbval_mono: "dbval P m Q \<Longrightarrow> (\<And>d. P' d \<Longrightarrow> P d) \<Longrightarrow> (\<And>a d. Q a d \<Longrightarrow> Q' a d) \<Longrightarrow> dbval P' m Q'"
  by (fastforce simp: dbval_def elim: wp_mono)

lemma dbval_weak: "dbval P m Q \<Longrightarrow> (\<And>a d. Q a d \<Longrightarrow> Q' a d) \<Longrightarrow> dbval P m Q'"
  by (erule dbval_mono)

lemma dbval_pre: "dbval P m Q \<Longrightarrow> (\<And>d. P' d \<Longrightarrow> P d) \<Longrightarrow> dbval P' m Q"
  by (erule dbval_mono)

lemma dbval_if: "(b \<Longrightarrow> dbval P m Q) \<Longrightarrow> (\<not> b \<Longrightarrow> dbval P n Q) \<Longrightarrow> dbval P (if b then m else n) Q"
  by simp

lemma dbval_if_pre:
  "dbval (\<lambda>d. P d \<and> b) m Q \<Longrightarrow> dbval (\<lambda>d. P d \<and> \<not> b) n Q \<Longrightarrow> dbval P (if b then m else n) Q"
  by (auto simp: dbval_def)

lemma dbval_imp: "(\<And>d. P d \<Longrightarrow> dbval ((=) d) m Q) \<Longrightarrow> dbval P m Q"
  by (auto simp: dbval_def)

lemma dbval_mapErr: "dbval P m Q \<Longrightarrow> dbval P (mapErr g m) Q"
  by (auto simp: dbval_def wp_simps)

lemma dbval_stmt:
  "(\<And>d r d'. P d \<Longrightarrow> f d = (Inr r, d') \<Longrightarrow> Q r d') \<Longrightarrow> dbval P (stmt f) Q"
  unfolding dbval_def by (auto intro!: wp_stmtI)

lemma dbval_exec: "(\<And>d. P d \<Longrightarrow> Q () (f d)) \<Longrightarrow> dbval P (exec f) Q"
  unfolding exec_def by (rule dbval_stmt) auto

lemma dbval_query: "dbval P (query f) (\<lambda>a d. P d \<and> a = f d)"
  unfolding query_def by (rule dbval_stmt) auto

lemma dbval_queryRow: "dbval P (queryRow f) (\<lambda>a d. P d \<and> f d = Some a)"
  unfolding queryRow_def by (rule dbval_stmt) (auto split: option.splits)

lemma dbval_getRow: "dbval P (getRow f) (\<lambda>a d. P d \<and> f d = Some a)"
  unfolding getRow_def by (intro dbval_mapErr dbval_queryRow)

lemma dbval_gets: "dbval P (gets (\<lambda>w. f (w_db w))) (\<lambda>a d. P d \<and> a = f d)"
  by (simp add: dbval_def wp_simps)

lemma dbval_attempt_getRow:
  "dbval P (attempt (getRow f))
     (\<lambda>r d. P d \<and> (case r of Inr a \<Rightarrow> f d = Some a | Inl e \<Rightarrow> errorsIs e ErrNotFound \<longrightarrow> f d = None))"
  unfolding dbval_def getRow_def queryRow_def
  by (auto simp: wp_simps noRows_def intro!: wp_stmtI split: option.splits)

text \<open>
  A transaction commits its body as a whole or leaves the database as it was, also when the
  acknowledgement of the commit is lost.
\<close>

lemma WithTx_atomic:
  assumes "dbval P body Q" "P (w_db w)"
  shows "wp (WithTx body) (\<lambda>a w'. Q a (w_db w')) (\<lambda>_ w'. w_db w' = w_db w \<or> (\<exists>a. Q a (w_db w'))) w"
proof -
  obtain r w1 where 1: "(stmt (\<lambda>d. (Inr (), d)) :: ('a, unit) op) w = (r, w1)" by force
  have d1: "w_db w1 = w_db w"
    using 1 by (auto simp: stmt_def split: list.splits fault.splits)
  obtain r2 w2 where 2: "body w1 = (r2, w2)" by force
  have "\<And>a. r2 = Inr a \<Longrightarrow> Q a (w_db w2)"
    using dbvalD[OF assms(1), of w1] assms(2) 2 by (simp add: d1)
  then show ?thesis
    using d1 by (auto simp: wp_def WithTx_def 1 2 split: sum.splits list.splits fault.splits)
qed

lemma WithTx_inv:
  assumes "dbval P body (\<lambda>_. P)"
  shows "P (w_db w) \<Longrightarrow> P (w_db (snd (WithTx body w)))"
  using WithTx_atomic[OF assms, of w] by (auto simp: wp_def split: prod.splits sum.splits)

section \<open>Guarantees of the effects\<close>

text \<open>
  A world guarantee is a two-state guarantee that does not depend on the fault schedule and
  the locks.  A relation between the databases gives one; so does equality of the new-api side.
\<close>

definition onDb :: "(db \<Rightarrow> db \<Rightarrow> bool) \<Rightarrow> 'u world \<Rightarrow> 'u world \<Rightarrow> bool" where
  "onDb D w w' \<longleftrightarrow> D (w_db w) (w_db w')"

definition sameUp :: "'u world \<Rightarrow> 'u world \<Rightarrow> bool" where
  "sameUp w w' \<longleftrightarrow> w_up w' = w_up w"

definition sameNow :: "'u world \<Rightarrow> 'u world \<Rightarrow> bool" where
  "sameNow w w' \<longleftrightarrow> w_now w' = w_now w"

definition sameHeld :: "'u world \<Rightarrow> 'u world \<Rightarrow> bool" where
  "sameHeld w w' \<longleftrightarrow> w_held w' = w_held w"

interpretation sameUp: guarantee "sameUp :: 'u world \<Rightarrow> 'u world \<Rightarrow> bool"
  by unfold_locales (auto simp: sameUp_def)

interpretation sameNow: guarantee "sameNow :: 'u world \<Rightarrow> 'u world \<Rightarrow> bool"
  by unfold_locales (auto simp: sameNow_def)

interpretation sameHeld: guarantee "sameHeld :: 'u world \<Rightarrow> 'u world \<Rightarrow> bool"
  by unfold_locales (auto simp: sameHeld_def)

lemma sameUp_stmt [guar_intros]: "guar sameUp (stmt f)"
  by (auto simp: guar_def sameUp_def stmt_def split: list.splits fault.splits prod.splits)

lemma sameNow_stmt [guar_intros]: "guar sameNow (stmt f)"
  by (auto simp: guar_def sameNow_def stmt_def split: list.splits fault.splits prod.splits)

lemma sameHeld_stmt [guar_intros]: "guar sameHeld (stmt f)"
  by (auto simp: guar_def sameHeld_def stmt_def split: list.splits fault.splits prod.splits)

lemma sameUp_upcall_read [guar_intros]: "guar (=) f \<Longrightarrow> guar sameUp (upcall f)"
  by (auto simp: guar_def sameUp_def upcall_def split: prod.splits) (metis snd_conv)

lemma sameNow_upcall [guar_intros]: "guar sameNow (upcall f)"
  by (auto simp: guar_def sameNow_def upcall_def split: prod.splits)

lemma sameHeld_upcall [guar_intros]: "guar sameHeld (upcall f)"
  by (auto simp: guar_def sameHeld_def upcall_def split: prod.splits)

text \<open>Relations that only see the components a wrapper leaves alone pass through it.\<close>

lemma guar_WithTx_frame:
  assumes R: "guarantee R" and s: "\<And>f. guar R (stmt f :: ('u, unit) op)" and b: "guar R body"
    and ins: "\<And>w w' d fs. R w w' \<Longrightarrow> R w (w'\<lparr>w_db := d\<rparr>)"
             "\<And>w w' d fs. R w w' \<Longrightarrow> R w (w'\<lparr>w_faults := fs\<rparr>)"
  shows "guar R (WithTx body :: ('u, 'a) op)"
proof -
  have "R w (snd (WithTx body w))" for w
  proof -
    obtain r w1 where 1: "stmt (\<lambda>d. (Inr (), d)) w = (r, w1)" by force
    have R1: "R w w1" using guarD'[OF s 1] .
    obtain r2 w2 where 2: "body w1 = (r2, w2)" by force
    have R2: "R w w2" using guarantee.trans[OF R R1 guarD'[OF b 2]] .
    have "R w w2 \<Longrightarrow> R w (w2\<lparr>w_db := d, w_faults := fs\<rparr>)" for d fs using ins by blast
    with R1 R2 show ?thesis
      by (auto simp: WithTx_def 1 2 ins split: sum.splits list.splits fault.splits)
  qed
  then show ?thesis by (simp add: guar_def)
qed

lemma sameUp_WithTx [guar_intros]: "guar sameUp body \<Longrightarrow> guar sameUp (WithTx body)"
  by (rule guar_WithTx_frame) (auto simp: sameUp_def intro: sameUp.guarantee_axioms sameUp_stmt)

lemma sameNow_WithTx [guar_intros]: "guar sameNow body \<Longrightarrow> guar sameNow (WithTx body)"
  by (rule guar_WithTx_frame) (auto simp: sameNow_def intro: sameNow.guarantee_axioms sameNow_stmt)

lemma sameHeld_WithTx [guar_intros]: "guar sameHeld body \<Longrightarrow> guar sameHeld (WithTx body)"
  by (rule guar_WithTx_frame) (auto simp: sameHeld_def intro: sameHeld.guarantee_axioms sameHeld_stmt)

lemma guar_pollCtx [guar_intros]:
  "guar sameUp pollCtx" "guar sameNow pollCtx" "guar sameHeld pollCtx"
  by (auto simp: guar_def sameUp_def sameNow_def sameHeld_def pollCtx_def split: list.splits)

lemma guar_holding_frame:
  assumes b: "guar R body" and refl: "\<And>w. R w w"
    and h: "\<And>w k w'. R (w\<lparr>w_held := k\<rparr>) w' \<Longrightarrow> R w (w'\<lparr>w_held := w_held w\<rparr>)"
  shows "guar R (holding key body)"
proof -
  have "R w (snd (holding key body w))" for w
  proof -
    obtain r w' where 1: "body (w\<lparr>w_held := key # w_held w\<rparr>) = (r, w')" by force
    show ?thesis using refl h[OF guarD'[OF b 1]] by (simp add: holding_def 1)
  qed
  then show ?thesis by (simp add: guar_def)
qed

lemma sameUp_holding [guar_intros]: "guar sameUp body \<Longrightarrow> guar sameUp (holding key body)"
  by (rule guar_holding_frame) (auto simp: sameUp_def)

lemma sameNow_holding [guar_intros]: "guar sameNow body \<Longrightarrow> guar sameNow (holding key body)"
  by (rule guar_holding_frame) (auto simp: sameNow_def)

text \<open>Whatever a critical section does and however it ends, its lock is released.\<close>

lemma sameHeld_holding [guar_intros]: "guar sameHeld (holding key body)"
  by (auto simp: guar_def sameHeld_def holding_def split: prod.splits)

lemma guar_withLock [guar_intros]:
  "guar sameUp body \<Longrightarrow> guar sameUp (withLock g key body)"
  "guar sameNow body \<Longrightarrow> guar sameNow (withLock g key body)"
  "guar sameHeld (withLock g key body)"
  unfolding withLock_def
  by (intro guar_intros | assumption)+

lemma guar_query [guar_intros]:
  "guar sameUp (query f)" "guar sameNow (query f)" "guar sameHeld (query f)"
  by (simp_all add: query_def guar_intros)

lemma guar_queryRow [guar_intros]:
  "guar sameUp (queryRow f)" "guar sameNow (queryRow f)" "guar sameHeld (queryRow f)"
  by (simp_all add: queryRow_def guar_intros)

lemma guar_getRow [guar_intros]:
  "guar sameUp (getRow f)" "guar sameNow (getRow f)" "guar sameHeld (getRow f)"
  unfolding getRow_def by (intro guar_intros)+

lemma guar_exec [guar_intros]:
  "guar sameUp (exec f)" "guar sameNow (exec f)" "guar sameHeld (exec f)"
  by (simp_all add: exec_def guar_intros)

lemma guar_clock [guar_intros]:
  "guar sameUp clock" "guar sameNow clock" "guar sameHeld clock"
  unfolding clock_def by (intro guar_intros)+

lemma guar_draw [guar_intros]:
  "guar sameUp (draw f)" "guar sameNow (draw f)" "guar sameHeld (draw f)"
  by (auto simp: guar_def sameUp_def sameNow_def sameHeld_def draw_def)

lemma wp_draw [wp_simps]: "wp (draw f) Q E w = Q (f (w_draws w)) (w\<lparr>w_draws := Suc (w_draws w)\<rparr>)"
  by (simp add: wp_def draw_def)

section \<open>Guarantees on the database\<close>

text \<open>
  A preorder on databases is kept by an operation when each of its statements keeps it; a
  transaction that rolls back keeps it because it is reflexive.
\<close>

locale db_guarantee =
  fixes D :: "db \<Rightarrow> db \<Rightarrow> bool"
  assumes db_refl: "D d d"
    and db_trans: "D d e \<Longrightarrow> D e f \<Longrightarrow> D d f"

sublocale db_guarantee \<subseteq> guarantee "onDb D :: 'u world \<Rightarrow> 'u world \<Rightarrow> bool"
  by unfold_locales (auto simp: onDb_def intro: db_refl db_trans)

context db_guarantee
begin

lemma stmt [guar_intros]:
  "(\<And>d. D d (snd (f d))) \<Longrightarrow> guar (onDb D) (stmt f :: ('v, 'a) op)"
  by (auto simp: guar_def onDb_def stmt_def db_refl split: list.splits fault.splits prod.splits)
     (metis snd_conv)+

lemma query [guar_intros]: "guar (onDb D) (query f :: ('v, 'a) op)"
  unfolding query_def by (rule stmt) (simp add: db_refl)

lemma queryRow [guar_intros]: "guar (onDb D) (queryRow f :: ('v, 'a) op)"
  unfolding queryRow_def by (rule stmt) (simp add: db_refl)

lemma exec: "(\<And>d. D d (f d)) \<Longrightarrow> guar (onDb D) (exec f :: ('v, unit) op)"
  unfolding exec_def by (rule stmt) simp

lemma WithTx [guar_intros]:
  assumes b: "guar (onDb D) body"
  shows "guar (onDb D) (WithTx body :: ('v, 'a) op)"
proof -
  have "onDb D w (snd (WithTx body w))" for w
  proof -
    have s: "guar (onDb D) (stmt (\<lambda>d. (Inr (), d)) :: ('v, unit) op)"
      by (rule stmt) (simp add: db_refl)
    obtain r w1 where 1: "(stmt (\<lambda>d. (Inr (), d)) :: ('v, unit) op) w = (r, w1)" by force
    have R1: "D (w_db w) (w_db w1)" using guarD'[OF s 1] by (simp add: onDb_def)
    obtain r2 w2 where 2: "body w1 = (r2, w2)" by force
    have "D (w_db w) (w_db w2)" using db_trans[OF R1] guarD'[OF b 2] by (simp add: onDb_def)
    with R1 show ?thesis
      by (auto simp: WithTx_def 1 2 onDb_def db_refl split: sum.splits list.splits fault.splits)
  qed
  then show ?thesis by (simp add: guar_def)
qed

lemma holding [guar_intros]: "guar (onDb D) body \<Longrightarrow> guar (onDb D) (holding key body :: ('v, 'a) op)"
  by (rule guar_holding_frame) (auto simp: onDb_def db_refl)

lemma pollCtx [guar_intros]: "guar (onDb D) (pollCtx :: ('v, unit) op)"
  by (auto simp: guar_def onDb_def pollCtx_def db_refl split: list.splits)

lemma upcall [guar_intros]: "guar (onDb D) (upcall f :: ('v, 'a) op)"
  by (auto simp: guar_def onDb_def upcall_def db_refl split: prod.splits)

lemma guarantee_onDb: "guarantee (onDb D :: 'v world \<Rightarrow> 'v world \<Rightarrow> bool)"
  by unfold_locales (auto simp: onDb_def intro: db_refl db_trans)

lemma getRow [guar_intros]: "guar (onDb D) (getRow f :: ('v, 'a) op)"
  unfolding getRow_def by (intro guar_mapErr queryRow)

lemma clock [guar_intros]: "guar (onDb D) (clock :: ('v, int) op)"
  unfolding clock_def by (rule guarantee.gets[OF guarantee_onDb])

lemma draw [guar_intros]: "guar (onDb D) (draw f :: ('v, 'a) op)"
  by (simp add: guar_def onDb_def draw_def db_refl)

lemma withLock [guar_intros]:
  "guar (onDb D) body \<Longrightarrow> guar (onDb D) (withLock g key body :: ('v, 'a) op)"
  unfolding withLock_def
  by (intro guarantee.bind[OF guarantee_onDb] guar_mapErr pollCtx holding)

end

end
