(* ===== verification/Rbac.thy ===== *)
theory Rbac
  imports Effects
begin

text \<open>
  The caller and what it may do (\<open>service/rbac.go\<close>): the session claims, the role, organization,
  team and self checks, the price-hiding rule of the observation mode; and the audit trail and
  notifications every service operation writes (\<open>service/org.go\<close>, \<open>worker_ops.go\<close>,
  \<open>notify.go\<close>, \<open>repo/audit.go\<close>, \<open>repo/notification.go\<close>).
\<close>

section \<open>The new-api interface and the service\<close>

datatype quota_mode = QuotaOverride | QuotaAdd | QuotaSubtract

record log_entry =
  e_id :: int
  e_user :: int
  e_created :: int
  e_model :: string
  e_quota :: int
  e_prompt :: int
  e_completion :: int
  e_token :: int

record cred =
  cr_user :: int
  cr_token :: string

record token_spec =
  ts_name :: string
  ts_quota :: int
  ts_unlimited :: bool
  ts_models :: "string list"
  ts_group :: string
  ts_expired :: int
  ts_ips :: string

record boot_input =
  bi_org :: int
  bi_member :: int
  bi_username :: string
  bi_password :: string
  bi_display :: string
  bi_skip_token :: bool
  bi_adopt :: bool

record boot_result =
  br_user :: int
  br_access :: string

record self_info =
  si_id :: int
  si_username :: string
  si_role :: int
  si_group :: string

record user_token =
  ut_id :: int
  ut_name :: string
  ut_status :: int
  ut_group :: string
  ut_masked :: string

text \<open>
  The server behind \<open>NewapiAdapter\<close> is not part of the repository: each method is a function
  of the server state chosen by whoever instantiates the record.
\<close>

record 'u newapi =
  na_BootstrapMember :: "boot_input \<Rightarrow> ('u, err, boot_result) m"
  na_CreateToken :: "cred \<Rightarrow> token_spec \<Rightarrow> ('u, err, int) m"
  na_RevealTokenKey :: "cred \<Rightarrow> int \<Rightarrow> ('u, err, string) m"
  na_RotateToken :: "cred \<Rightarrow> int \<Rightarrow> token_spec \<Rightarrow> ('u, err, int \<times> string) m"
  na_UpdateToken :: "cred \<Rightarrow> int \<Rightarrow> token_spec \<Rightarrow> ('u, err, unit) m"
  na_SetTokenStatus :: "cred \<Rightarrow> int \<Rightarrow> bool \<Rightarrow> ('u, err, unit) m"
  na_DeleteToken :: "cred \<Rightarrow> int \<Rightarrow> ('u, err, unit) m"
  na_ManageUserQuota :: "int \<Rightarrow> quota_mode \<Rightarrow> int \<Rightarrow> ('u, err, unit) m"
  na_GetUserQuota :: "int \<Rightarrow> ('u, err, int) m"
  na_SetUserStatus :: "int \<Rightarrow> bool \<Rightarrow> ('u, err, unit) m"
  na_SetUserGroup :: "int \<Rightarrow> string \<Rightarrow> ('u, err, unit) m"
  na_ProbeAccessToken :: "cred \<Rightarrow> ('u, err, bool) m"
  na_RefreshAccessToken :: "boot_input \<Rightarrow> ('u, err, string) m"
  na_GetSelfSubscription :: "cred \<Rightarrow> ('u, err, string \<times> bool) m"
  na_SetBillingPreference :: "cred \<Rightarrow> string \<Rightarrow> ('u, err, unit) m"
  na_GetSelfInfo :: "cred \<Rightarrow> ('u, err, self_info) m"
  na_ListUserTokens :: "cred \<Rightarrow> ('u, err, user_token list) m"
  na_GetOrgUsableGroups :: "string \<Rightarrow> ('u, err, string list) m"
  na_AddOrgUsableGroup :: "string \<Rightarrow> string \<Rightarrow> ('u, err, unit) m"
  na_ReadConsumptionLogs :: "int \<Rightarrow> int \<Rightarrow> int \<Rightarrow> int \<Rightarrow> ('u, err, log_entry list \<times> int) m"
  na_ReadConsumptionLogsByUsername ::
    "string \<Rightarrow> int \<Rightarrow> int \<Rightarrow> int \<Rightarrow> int \<Rightarrow> ('u, err, log_entry list \<times> int) m"
  na_GetGroupRatio :: "string \<Rightarrow> ('u, err, float option) m"
  na_GetGroupGroupRatio :: "string \<Rightarrow> string \<Rightarrow> ('u, err, float option) m"
  na_SetOrgGroupRatios :: "string \<Rightarrow> (string \<times> float) list \<Rightarrow> ('u, err, unit) m"
  na_ListGroupRatios :: "('u, err, (string \<times> float) list) m"
  na_ListGroupModels :: "('u, err, (string \<times> string list) list) m"
  na_SumConsumedQuotaByUsername :: "string \<Rightarrow> int \<Rightarrow> ('u, err, int) m"

text \<open>
  The fields of \<open>Service\<close> that operations read.  The encryption of \<open>pkg/crypto\<close>, the password
  hash (which rejects some inputs) with its comparison, the time zone data base (the offset in force
  at a second, with the second it began and the second it ends), and the random strings the service draws
  (the \<open>n\<close>-th draw as a user name, a password, a suffix) are functions supplied with it.
\<close>

record 'u service =
  sv_up :: "'u newapi"
  sv_observe :: bool
  sv_funding :: bool
  sv_leader :: bool
  sv_windows_per_tick :: nat
  sv_retention_days :: int
  sv_encrypt :: "string \<Rightarrow> string"
  sv_decrypt :: "string \<Rightarrow> string option"
  sv_gen_username :: "nat \<Rightarrow> string"
  sv_gen_newapi_password :: "nat \<Rightarrow> string"
  sv_gen_platform_password :: "nat \<Rightarrow> string"
  sv_hash_password :: "string \<Rightarrow> string option"
  sv_check_password :: "string \<Rightarrow> string \<Rightarrow> bool"
  sv_rand_suffix :: "nat \<Rightarrow> string"
  sv_zone :: "string \<Rightarrow> (int \<Rightarrow> int \<times> int \<times> int) option"

section \<open>Claims and checks\<close>

record claims =
  cl_member :: int
  cl_org :: int
  cl_role :: role
  cl_team :: int
  cl_support :: int
  cl_scope :: string
  cl_epoch :: int
  cl_iat :: int
  cl_exp :: int

definition assertRole :: "claims \<Rightarrow> role list \<Rightarrow> ('u, unit) op" where
  "assertRole c allowed = ensure (cl_role c \<in> set allowed) Forbidden"

definition assertOrgScope :: "claims \<Rightarrow> int \<Rightarrow> ('u, unit) op" where
  "assertOrgScope c target =
     (if cl_role c = RoleOperator then return ()
      else if cl_org c \<noteq> target then throw NotFound
      else return ())"

definition mvpPriceHidden :: "'u service \<Rightarrow> claims \<Rightarrow> bool" where
  "mvpPriceHidden S c \<longleftrightarrow> sv_observe S \<and> cl_role c \<noteq> RoleOperator \<and> cl_support c = 0"

definition mvpHidePrice :: "'u service \<Rightarrow> claims \<Rightarrow> ('u, unit) op" where
  "mvpHidePrice S c = (if mvpPriceHidden S c then throw NotFound else return ())"

definition assertTeamScope :: "claims \<Rightarrow> int option \<Rightarrow> ('u, unit) op" where
  "assertTeamScope c targetTeam =
     (if cl_role c \<noteq> RoleTeamLeader then return ()
      else case targetTeam of
             None \<Rightarrow> throw Forbidden
           | Some t \<Rightarrow> if cl_team c = 0 \<or> t \<noteq> cl_team c then throw Forbidden else return ())"

definition assertSelf :: "claims \<Rightarrow> int \<Rightarrow> ('u, unit) op" where
  "assertSelf c target =
     (if cl_role c = RoleMember \<and> cl_member c \<noteq> target then throw Forbidden else return ())"

lemmas rbac_defs = assertRole_def assertOrgScope_def mvpHidePrice_def assertTeamScope_def assertSelf_def

section \<open>Actors\<close>

fun roleString :: "role \<Rightarrow> string" where
  "roleString RoleOperator = ''operator''"
| "roleString RoleOrgAdmin = ''org_admin''"
| "roleString RoleTeamLeader = ''team_leader''"
| "roleString RoleMember = ''member''"
| "roleString (RoleOther s) = s"

definition actorOf :: "claims \<Rightarrow> string" where
  "actorOf c = roleString (cl_role c) @ '':'' @ itoa (cl_member c)"

definition isDigit :: "char \<Rightarrow> bool" where
  "isDigit c \<longleftrightarrow> 48 \<le> (of_char c :: nat) \<and> (of_char c :: nat) \<le> 57"

text \<open>\<open>strconv.ParseInt(s, 10, 64)\<close>: an optional sign, digits, and a range check.\<close>

definition parseInt :: "string \<Rightarrow> int option" where
  "parseInt s =
     (let (neg, ds) = (case s of [] \<Rightarrow> (False, [])
                       | c # cs \<Rightarrow> if c = CHR ''-'' then (True, cs)
                                    else if c = CHR ''+'' then (False, cs) else (False, s))
      in if ds = [] \<or> \<not> list_all isDigit ds then None
         else let v = (if neg then - int (undigits ds) else int (undigits ds))
              in if fits64 v then Some v else None)"

definition parseActorID :: "string \<Rightarrow> int option" where
  "parseActorID actor =
     (if CHR '':'' \<notin> set actor then None
      else let suffix = rev (takeWhile (\<lambda>c. c \<noteq> CHR '':'') (rev actor))
           in if suffix = [] then None else parseInt suffix)"

section \<open>Audit trail and notifications\<close>

definition WriteAudit :: "audit_entry \<Rightarrow> ('u, unit) op" where
  "WriteAudit e = exec (\<lambda>d. d\<lparr>audits := audits d @ [e]\<rparr>)"

definition audit :: "claims \<Rightarrow> int \<Rightarrow> string \<Rightarrow> string \<Rightarrow> int option \<Rightarrow> (string \<times> jval) list \<Rightarrow> ('u, unit) op" where
  "audit c org action target tid detail =
     ignoreErr (WriteAudit \<lparr> au_org = org,
       au_actor = (if cl_support c \<noteq> 0 then ''operator:'' @ itoa (cl_member c) else actorOf c),
       au_behalf = (if cl_support c \<noteq> 0 then Some (''org_admin@org'' @ itoa org) else None),
       au_session = (if cl_support c \<noteq> 0 then Some (cl_support c) else None),
       au_action = action, au_target = target, au_target_id = tid,
       au_detail = detail, au_result = ''ok'' \<rparr>)"

definition auditSystem :: "int \<Rightarrow> string \<Rightarrow> string \<Rightarrow> int option \<Rightarrow> (string \<times> jval) list \<Rightarrow> string \<Rightarrow> ('u, unit) op" where
  "auditSystem org action target tid detail result =
     ignoreErr (WriteAudit \<lparr> au_org = org, au_actor = ''system:quota-worker'',
       au_behalf = None, au_session = None, au_action = action, au_target = target,
       au_target_id = tid, au_detail = detail,
       au_result = (if result = '''' then ''ok'' else result) \<rparr>)"

definition CreateNotification :: "notification \<Rightarrow> ('u, unit) op" where
  "CreateNotification n = exec (\<lambda>d. d\<lparr>notifications := notifications d @ [n]\<rparr>)"

definition notify :: "int \<Rightarrow> int \<Rightarrow> string \<Rightarrow> ('u, unit) op" where
  "notify org mem ntype =
     ignoreErr (CreateNotification \<lparr> n_org = org, n_member = mem, n_type = ntype, n_read = False \<rparr>)"

definition ListOrgAdminIDs :: "int \<Rightarrow> ('u, int list) op" where
  "ListOrgAdminIDs org = query (\<lambda>d. map m_id (filter (\<lambda>m. m_org m = org \<and> m_role m = RoleOrgAdmin \<and> \<not> m_deleted m) (members d)))"

definition orgAdminIDs :: "int \<Rightarrow> ('u, int list) op" where
  "orgAdminIDs org = bind (attempt (ListOrgAdminIDs org))
     (\<lambda>r. return (case r of Inl _ \<Rightarrow> [] | Inr ids \<Rightarrow> ids))"

section \<open>Facts about the checks\<close>

lemma wp_assertRole [wp_simps]:
  "wp (assertRole c rs) Q E w = (if cl_role c \<in> set rs then Q () w else E Forbidden w)"
  by (simp add: assertRole_def wp_simps)

lemma wp_assertOrgScope [wp_simps]:
  "wp (assertOrgScope c t) Q E w =
     (if cl_role c = RoleOperator \<or> cl_org c = t then Q () w else E NotFound w)"
  by (simp add: assertOrgScope_def wp_simps)

lemma wp_assertTeamScope [wp_simps]:
  "wp (assertTeamScope c t) Q E w =
     (if cl_role c = RoleTeamLeader \<and> (t \<noteq> Some (cl_team c) \<or> cl_team c = 0) then E Forbidden w
      else Q () w)"
  by (auto simp: assertTeamScope_def wp_simps split: option.splits)

lemma wp_assertSelf [wp_simps]:
  "wp (assertSelf c t) Q E w =
     (if cl_role c = RoleMember \<and> cl_member c \<noteq> t then E Forbidden w else Q () w)"
  by (simp add: assertSelf_def wp_simps)

lemma wp_mvpHidePrice [wp_simps]:
  "wp (mvpHidePrice S c) Q E w = (if mvpPriceHidden S c then E NotFound w else Q () w)"
  by (simp add: mvpHidePrice_def wp_simps)

lemma guar_checks [guar_intros]:
  "guarantee R \<Longrightarrow> guar R (assertRole c rs)"
  "guarantee R \<Longrightarrow> guar R (assertOrgScope c t)"
  "guarantee R \<Longrightarrow> guar R (assertTeamScope c tm)"
  "guarantee R \<Longrightarrow> guar R (assertSelf c t)"
  "guarantee R \<Longrightarrow> guar R (mvpHidePrice S c)"
  unfolding rbac_defs
  by (intro guar_intros guarantee.return guarantee.throw guarantee.ensure; assumption)+

lemmas [guar_intros] = sameUp.guarantee_axioms sameNow.guarantee_axioms sameHeld.guarantee_axioms

lemma guar_audit [guar_intros]:
  "guar sameUp (audit c org act tgt tid dt)" "guar sameNow (audit c org act tgt tid dt)"
  "guar sameHeld (audit c org act tgt tid dt)"
  unfolding audit_def WriteAudit_def by (intro guar_intros)+

lemma guar_auditSystem [guar_intros]:
  "guar sameUp (auditSystem org act tgt tid dt r)" "guar sameNow (auditSystem org act tgt tid dt r)"
  "guar sameHeld (auditSystem org act tgt tid dt r)"
  unfolding auditSystem_def WriteAudit_def by (intro guar_intros)+

lemma guar_notify [guar_intros]:
  "guar sameUp (notify org m ty)" "guar sameNow (notify org m ty)" "guar sameHeld (notify org m ty)"
  unfolding notify_def CreateNotification_def by (intro guar_intros)+

text \<open>
  Writing the audit trail or a notification never reaches the other tables and never makes
  the operation fail.  A guarantee that does not look at these two tables passes through.
\<close>

locale log_frame = db_guarantee +
  assumes audits_free: "D d (d\<lparr>audits := a\<rparr>)"
    and notifications_free: "D d (d\<lparr>notifications := n\<rparr>)"
begin

lemma audit [guar_intros]: "guar (onDb D) (audit c org act tgt tid dt :: ('v, unit) op)"
  unfolding audit_def WriteAudit_def
  by (intro guarantee.ignoreErr[OF guarantee_onDb] exec audits_free)

lemma auditSystem [guar_intros]: "guar (onDb D) (auditSystem org act tgt tid dt r :: ('v, unit) op)"
  unfolding auditSystem_def WriteAudit_def
  by (intro guarantee.ignoreErr[OF guarantee_onDb] exec audits_free)

lemma notify [guar_intros]: "guar (onDb D) (notify org m ty :: ('v, unit) op)"
  unfolding notify_def CreateNotification_def
  by (intro guarantee.ignoreErr[OF guarantee_onDb] exec notifications_free)

lemma orgAdminIDs [guar_intros]: "guar (onDb D) (orgAdminIDs org :: ('v, int list) op)"
  unfolding orgAdminIDs_def ListOrgAdminIDs_def
  by (intro guarantee.bind[OF guarantee_onDb] guar_attempt query guarantee.return[OF guarantee_onDb])

lemma checks [guar_intros]:
  "guar (onDb D) (assertRole c rs :: ('v, unit) op)"
  "guar (onDb D) (assertOrgScope c t :: ('v, unit) op)"
  "guar (onDb D) (assertTeamScope c tm :: ('v, unit) op)"
  "guar (onDb D) (assertSelf c t :: ('v, unit) op)"
  "guar (onDb D) (mvpHidePrice (S :: 'v service) c :: ('v, unit) op)"
  by (intro guar_checks guarantee_onDb)+

end

section \<open>The actor string identifies the member\<close>

lemma isDigit_digits: "list_all isDigit (digits n)"
  using digits_chars by (auto simp: list_all_iff isDigit_def)

lemma digits_nonempty [simp]: "digits n \<noteq> []"
  by (subst digits.simps) simp

lemma digits_hd: "digits n = c # cs \<Longrightarrow> c \<noteq> CHR ''-'' \<and> c \<noteq> CHR ''+''"
  using digits_chars[of c n] by auto

lemma parseInt_itoa: "fits64 i \<Longrightarrow> parseInt (itoa i) = Some i"
proof (cases "i < 0")
  case True
  then show "fits64 i \<Longrightarrow> parseInt (itoa i) = Some i"
    using isDigit_digits[of "nat (- i)"] by (simp add: parseInt_def itoa_def)
next
  case False
  moreover obtain c cs where "digits (nat i) = c # cs" by (cases "digits (nat i)") auto
  ultimately show "fits64 i \<Longrightarrow> parseInt (itoa i) = Some i"
    using isDigit_digits[of "nat i"] digits_hd[of "nat i" c cs]
    by (auto simp: parseInt_def itoa_def) (metis undigits_digits int_nat_eq linorder_not_less)+
qed

lemma itoa_no_colon: "CHR '':'' \<notin> set (itoa i)"
  using digits_chars[of "CHR '':''"] by (auto simp: itoa_def)

lemma itoa_nonempty [simp]: "itoa i \<noteq> []"
  by (simp add: itoa_def)

lemma takeWhile_app_stop: "x \<in> set ys \<Longrightarrow> \<not> P x \<Longrightarrow> takeWhile P (ys @ zs) = takeWhile P ys"
  by (induction ys) auto

lemma parseActorID_suffix:
  "fits64 i \<Longrightarrow> parseActorID (pre @ '':'' @ itoa i) = Some i"
proof -
  assume "fits64 i"
  have "takeWhile (\<lambda>c. c \<noteq> CHR '':'') (rev (pre @ '':'' @ itoa i)) = rev (itoa i)"
    using itoa_no_colon[of i] by (subst rev_append) (auto simp: takeWhile_append)
  then show ?thesis
    using \<open>fits64 i\<close> by (simp add: parseActorID_def parseInt_itoa)
qed

end
