(* ===== verification/StoreMoney.thy ===== *)
theory StoreMoney
  imports Rbac
begin

text \<open>
  The money tables of the repository layer: the company balance with its recharge and refund
  journals (\<open>repo/balance.go\<close>, the balance part of \<open>repo/settlement.go\<close>) and the escrow buckets
  with their configuration (\<open>repo/escrow.go\<close>).  A \<open>BIGINT\<close> column that would leave its range
  makes the statement fail with MySQL error 1690; a duplicate key is error 1062.
\<close>

section \<open>Company balance\<close>

definition findBalance :: "int \<Rightarrow> db \<Rightarrow> balance option" where
  "findBalance org d = find (\<lambda>b. b_org b = org) (balances d)"

definition zeroBalance :: "int \<Rightarrow> balance" where
  "zeroBalance org = \<lparr> b_org = org, b_recharged = 0, b_consumed = 0, b_refunded = 0,
     b_balance = 0, b_low_watermark = 0, b_version = 0 \<rparr>"

text \<open>\<open>INSERT INTO company_balance (org_id)\<close>, with and without \<open>IGNORE\<close>.\<close>

definition insertBalanceIgnore :: "int \<Rightarrow> db \<Rightarrow> db" where
  "insertBalanceIgnore org d =
     (if findBalance org d = None then d\<lparr>balances := balances d @ [zeroBalance org]\<rparr> else d)"

definition insertBalance :: "int \<Rightarrow> db \<Rightarrow> (err + unit) \<times> db" where
  "insertBalance org d =
     (if findBalance org d = None then (Inr (), d\<lparr>balances := balances d @ [zeroBalance org]\<rparr>)
      else (Inl (SqlError 1062), d))"

definition getBalance :: "int \<Rightarrow> ('u, balance) op" where
  "getBalance org = getRow (findBalance org)"

definition getBalanceTx :: "int \<Rightarrow> ('u, balance) op" where
  "getBalanceTx org = queryRow (findBalance org)"

definition GetOrCreateBalance :: "int \<Rightarrow> ('u, balance) op" where
  "GetOrCreateBalance org =
     bind (attempt (getBalance org)) (\<lambda>r. case r of
       Inr b \<Rightarrow> return b
     | Inl e \<Rightarrow>
         if \<not> errorsIs e ErrNotFound then throw e
         else bind (attempt (stmt (insertBalance org))) (\<lambda>ir. case ir of
                Inl ie \<Rightarrow> if \<not> isDupKey ie then throw ie else getBalance org
              | Inr _ \<Rightarrow> getBalance org))"

text \<open>
  The optimistic update of a balance row: the number of rows it hit, or an out-of-range error.
\<close>

definition updateBalance :: "int \<Rightarrow> int \<Rightarrow> (balance \<Rightarrow> balance) \<Rightarrow> db \<Rightarrow> (err + nat) \<times> db" where
  "updateBalance org ver g d =
     (let hit = filter (\<lambda>b. b_org b = org \<and> b_version b = ver) (balances d)
      in if list_all (\<lambda>b. fits64 (b_balance (g b)) \<and> fits64 (b_recharged (g b)) \<and>
                          fits64 (b_consumed (g b)) \<and> fits64 (b_refunded (g b)) \<and> fits64 (b_version (g b))) hit
         then (Inr (length hit), d\<lparr>balances := map (\<lambda>b. if b_org b = org \<and> b_version b = ver then g b else b) (balances d)\<rparr>)
         else (Inl (SqlError 1690), d))"

definition rechargeRow :: "int \<Rightarrow> balance \<Rightarrow> balance" where
  "rechargeRow amount b =
     b\<lparr> b_balance := b_recharged b + amount - b_consumed b - b_refunded b,
        b_recharged := b_recharged b + amount, b_version := b_version b + 1 \<rparr>"

definition consumeRow :: "int \<Rightarrow> balance \<Rightarrow> balance" where
  "consumeRow amount b =
     b\<lparr> b_balance := b_recharged b - b_consumed b - b_refunded b - amount,
        b_consumed := b_consumed b + amount, b_version := b_version b + 1 \<rparr>"

definition refundRow :: "int \<Rightarrow> balance \<Rightarrow> balance" where
  "refundRow amount b =
     b\<lparr> b_balance := b_recharged b - b_consumed b - b_refunded b - amount,
        b_refunded := b_refunded b + amount, b_version := b_version b + 1 \<rparr>"

definition insertRecharge :: "recharge \<Rightarrow> db \<Rightarrow> (err + unit) \<times> db" where
  "insertRecharge r d =
     (if (\<exists>r' \<in> set (recharges d). r_org r' = r_org r \<and> r_transfer_no r' = r_transfer_no r)
      then (Inl (SqlError 1062), d)
      else (Inr (), d\<lparr>recharges := recharges d @ [r]\<rparr>))"

definition dupToConflict :: "err \<Rightarrow> err" where
  "dupToConflict e = (if isDupKey e then ErrConflict else e)"

definition AddRechargeTx :: "recharge \<Rightarrow> ('u, balance) op" where
  "AddRechargeTx r =
     bind (exec (insertBalanceIgnore (r_org r))) (\<lambda>_.
     bind (mapErr dupToConflict (stmt (insertRecharge r))) (\<lambda>_.
     bind (queryRow (\<lambda>d. map_option b_version (findBalance (r_org r) d))) (\<lambda>ver.
     bind (stmt (updateBalance (r_org r) ver (rechargeRow (r_amount r)))) (\<lambda>n.
     if n \<noteq> 1 then throw ErrOptimisticLock else getBalanceTx (r_org r)))))"

definition DebitBalanceTx :: "int \<Rightarrow> int \<Rightarrow> string \<Rightarrow> string \<Rightarrow> ('u, balance) op" where
  "DebitBalanceTx org amount reason operator =
     bind (getRow (\<lambda>d. map_option (\<lambda>b. (b_version b, b_balance b)) (findBalance org d))) (\<lambda>(ver, bal).
     if amount > bal then throw ErrInsufficientBalance
     else
     bind (exec (\<lambda>d. d\<lparr>refunds := refunds d @
             [\<lparr> rf_org = org, rf_amount = amount, rf_reason = reason, rf_operator = operator \<rparr>]\<rparr>)) (\<lambda>_.
     bind (stmt (updateBalance org ver (refundRow amount))) (\<lambda>n.
     if n \<noteq> 1 then throw ErrOptimisticLock else getBalanceTx org)))"

definition DeductBalanceTx :: "int \<Rightarrow> int \<Rightarrow> ('u, balance) op" where
  "DeductBalanceTx org amount =
     bind (getRow (\<lambda>d. map_option b_version (findBalance org d))) (\<lambda>ver.
     bind (stmt (updateBalance org ver (consumeRow amount))) (\<lambda>n.
     if n \<noteq> 1 then throw ErrOptimisticLock else getBalanceTx org))"

definition DeductBalance :: "int \<Rightarrow> int \<Rightarrow> ('u, balance) op" where
  "DeductBalance org amount = WithTx (DeductBalanceTx org amount)"

definition SetLowWatermark :: "int \<Rightarrow> int \<Rightarrow> ('u, unit) op" where
  "SetLowWatermark org watermark =
     bind (exec (insertBalanceIgnore org)) (\<lambda>_.
     exec (\<lambda>d. d\<lparr>balances := updateKey b_org org (\<lambda>b. b\<lparr>b_low_watermark := watermark\<rparr>) (balances d)\<rparr>))"

definition CreateRechargeRequest :: "int \<Rightarrow> string \<Rightarrow> int \<Rightarrow> string option \<Rightarrow> string \<Rightarrow> ('u, int) op" where
  "CreateRechargeRequest org ty amount note applicant =
     stmt (\<lambda>d. let i = next_id (map rq_id (recharge_requests d))
               in (Inr i, d\<lparr>recharge_requests := recharge_requests d @
                    [\<lparr> rq_id = i, rq_org = org, rq_type = ty, rq_amount = amount, rq_note = note,
                       rq_applicant = applicant \<rparr>]\<rparr>))"

text \<open>\<open>ORDER BY id DESC LIMIT ... OFFSET ...\<close>; the recharge journal is kept in id order.\<close>

definition page :: "nat \<Rightarrow> nat \<Rightarrow> 'r list \<Rightarrow> 'r list" where
  "page limit offset rows = take limit (drop offset (rev rows))"

definition ListRechargesRepo :: "int \<Rightarrow> nat \<Rightarrow> nat \<Rightarrow> ('u, recharge list \<times> nat) op" where
  "ListRechargesRepo org limit offset =
     bind (query (\<lambda>d. length (filter (\<lambda>r. r_org r = org) (recharges d)))) (\<lambda>total.
     bind (query (\<lambda>d. page limit offset (filter (\<lambda>r. r_org r = org) (recharges d)))) (\<lambda>rs.
     return (rs, total)))"

definition ListRechargeRequestsRepo :: "int \<Rightarrow> nat \<Rightarrow> nat \<Rightarrow> ('u, recharge_request list \<times> nat) op" where
  "ListRechargeRequestsRepo org limit offset =
     bind (query (\<lambda>d. length (filter (\<lambda>r. rq_org r = org) (recharge_requests d)))) (\<lambda>total.
     bind (query (\<lambda>d. page limit offset (filter (\<lambda>r. rq_org r = org) (recharge_requests d)))) (\<lambda>rs.
     return (rs, total)))"

definition ListOrgTotalConsumed :: "('u, (int \<times> int) list) op" where
  "ListOrgTotalConsumed = query (\<lambda>d. map (\<lambda>b. (b_org b, b_consumed b)) (balances d))"

section \<open>Escrow buckets\<close>

definition isBucket :: "int \<Rightarrow> escrow_status \<Rightarrow> escrow_bucket \<Rightarrow> bool" where
  "isBucket org st b \<longleftrightarrow> eb_org b = org \<and> eb_status b = st"

definition GetActiveEscrowBucket :: "int \<Rightarrow> ('u, escrow_bucket) op" where
  "GetActiveEscrowBucket org = getRow (\<lambda>d. firstBy eb_seq (isBucket org EscrowActive) (buckets d))"

definition GetActiveEscrowBucketTx :: "int \<Rightarrow> ('u, escrow_bucket) op" where
  "GetActiveEscrowBucketTx org = getRow (\<lambda>d. firstBy eb_seq (isBucket org EscrowActive) (buckets d))"

definition NextHoldingBucketTx :: "int \<Rightarrow> ('u, escrow_bucket) op" where
  "NextHoldingBucketTx org = getRow (\<lambda>d. firstBy eb_seq (isBucket org EscrowHolding) (buckets d))"

definition ListEscrowBuckets :: "int \<Rightarrow> ('u, escrow_bucket list) op" where
  "ListEscrowBuckets org = query (\<lambda>d. sort_key eb_seq (filter (\<lambda>b. eb_org b = org) (buckets d)))"

definition SumHoldingEscrow :: "int \<Rightarrow> ('u, int) op" where
  "SumHoldingEscrow org = query (\<lambda>d. sumBy eb_amount (filter (isBucket org EscrowHolding) (buckets d)))"

definition MaxEscrowSeqTx :: "int \<Rightarrow> ('u, int) op" where
  "MaxEscrowSeqTx org = query (\<lambda>d. case map eb_seq (filter (\<lambda>b. eb_org b = org) (buckets d)) of
      [] \<Rightarrow> 0 | s # ss \<Rightarrow> fold max ss s)"

definition insertBucket :: "int \<Rightarrow> int \<Rightarrow> int \<Rightarrow> escrow_status \<Rightarrow> int \<Rightarrow> db \<Rightarrow> (err + int) \<times> db" where
  "insertBucket org seq amount st threshold d =
     (if (\<exists>b \<in> set (buckets d). eb_org b = org \<and> eb_seq b = seq) then (Inl (SqlError 1062), d)
      else let i = next_id (map eb_id (buckets d))
           in (Inr i, d\<lparr>buckets := buckets d @ [\<lparr> eb_id = i, eb_org = org, eb_seq = seq,
                 eb_amount = amount, eb_status = st, eb_threshold = threshold \<rparr>]\<rparr>))"

definition CreateEscrowBucketTx :: "int \<Rightarrow> int \<Rightarrow> int \<Rightarrow> escrow_status \<Rightarrow> int \<Rightarrow> ('u, int) op" where
  "CreateEscrowBucketTx org seq amount st threshold = stmt (insertBucket org seq amount st threshold)"

definition setBucket :: "int \<Rightarrow> int \<Rightarrow> escrow_status \<Rightarrow> db \<Rightarrow> db" where
  "setBucket i amount st d =
     d\<lparr>buckets := updateKey eb_id i (\<lambda>b. b\<lparr>eb_amount := amount, eb_status := st\<rparr>) (buckets d)\<rparr>"

definition UpdateEscrowBucketTx :: "int \<Rightarrow> int \<Rightarrow> escrow_status \<Rightarrow> ('u, unit) op" where
  "UpdateEscrowBucketTx i amount st = exec (setBucket i amount st)"

text \<open>
  The loop of \<open>MergeHoldingIntoActiveTx\<close>: each round consumes the oldest holding bucket whole or
  ends, so one round more than there are holding buckets is enough fuel.
\<close>

fun mergeLoop :: "nat \<Rightarrow> int \<Rightarrow> int \<Rightarrow> int \<Rightarrow> ('u, int) op" where
  "mergeLoop 0 org remaining merged = throw OutOfFuel"
| "mergeLoop (Suc n) org remaining merged =
     (if remaining > 0 then
        bind (attempt (NextHoldingBucketTx org)) (\<lambda>r. case r of
          Inl e \<Rightarrow> if errorsIs e ErrNotFound then return merged else throw e
        | Inr h \<Rightarrow>
            let take = (if eb_amount h > remaining then remaining else eb_amount h)
            in bind (if take \<ge> eb_amount h then UpdateEscrowBucketTx (eb_id h) 0 EscrowMerged
                     else UpdateEscrowBucketTx (eb_id h) (eb_amount h - take) EscrowHolding) (\<lambda>_.
               mergeLoop n org (remaining - take) (merged + take)))
      else return merged)"

declare mergeLoop.simps [simp del]

definition holdingCount :: "int \<Rightarrow> db \<Rightarrow> nat" where
  "holdingCount org d = length (filter (isBucket org EscrowHolding) (buckets d))"

definition MergeHoldingIntoActiveTx :: "int \<Rightarrow> int \<Rightarrow> ('u, int) op" where
  "MergeHoldingIntoActiveTx org maxMerge =
     (if maxMerge \<le> 0 then return 0
      else bind (attempt (GetActiveEscrowBucketTx org)) (\<lambda>ar. case ar of
        Inl e \<Rightarrow> if errorsIs e ErrNotFound then return 0 else throw e
      | Inr active \<Rightarrow>
          bind (gets (\<lambda>w. holdingCount org (w_db w))) (\<lambda>n.
          bind (mergeLoop (n + 2) org maxMerge 0) (\<lambda>merged.
          if merged > 0
          then bind (UpdateEscrowBucketTx (eb_id active) (i64 (eb_amount active + merged)) EscrowActive) (\<lambda>_. return merged)
          else return merged))))"

text \<open>\<open>ReduceEscrowTx\<close>: the holding buckets in the order of falling \<open>seq\<close>, then bucket 1.\<close>

fun reduceHoldings :: "escrow_bucket list \<Rightarrow> int \<Rightarrow> ('u, int) op" where
  "reduceHoldings [] remaining = return remaining"
| "reduceHoldings (h # hs) remaining =
     (if remaining \<le> 0 then return remaining
      else let dec = (if remaining > eb_amount h then eb_amount h else remaining);
               newAmt = eb_amount h - dec;
               st = (if newAmt = 0 then EscrowMerged else EscrowHolding)
           in bind (UpdateEscrowBucketTx (eb_id h) newAmt st) (\<lambda>_. reduceHoldings hs (remaining - dec)))"

definition ReduceEscrowTx :: "int \<Rightarrow> int \<Rightarrow> ('u, int) op" where
  "ReduceEscrowTx org amount =
     bind (query (\<lambda>d. rev (sort_key eb_seq (filter (isBucket org EscrowHolding) (buckets d))))) (\<lambda>holdings.
     bind (reduceHoldings holdings amount) (\<lambda>remaining.
     if remaining > 0 then
       bind (attempt (GetActiveEscrowBucketTx org)) (\<lambda>ar. case ar of
         Inl e \<Rightarrow> if errorsIs e ErrNotFound then throw ErrInsufficientBalance else throw e
       | Inr active \<Rightarrow>
           let dec = (if remaining > eb_amount active then eb_amount active else remaining)
           in bind (UpdateEscrowBucketTx (eb_id active) (eb_amount active - dec) EscrowActive) (\<lambda>_.
              if remaining - dec > 0 then throw ErrInsufficientBalance else return dec))
     else return 0))"

section \<open>Escrow configuration\<close>

definition findConfig :: "int \<Rightarrow> db \<Rightarrow> escrow_config option" where
  "findConfig org d = find (\<lambda>c. ec_org c = org) (escrow_configs d)"

definition GetEscrowConfig :: "int \<Rightarrow> ('u, escrow_config) op" where
  "GetEscrowConfig org = getRow (findConfig org)"

definition EffectiveThreshold :: "escrow_config \<Rightarrow> int" where
  "EffectiveThreshold c = (case ec_override c of Some t \<Rightarrow> t | None \<Rightarrow> ec_auto c)"

text \<open>\<open>INSERT ... ON DUPLICATE KEY UPDATE\<close>; a new row starts from the column defaults.\<close>

definition defaultConfig :: "int \<Rightarrow> int \<Rightarrow> escrow_config" where
  "defaultConfig org now = \<lparr> ec_org = org, ec_auto = 50000000, ec_override = None,
     ec_baseline = None, ec_updated = now \<rparr>"

definition upsertConfig :: "int \<Rightarrow> int \<Rightarrow> (escrow_config \<Rightarrow> escrow_config) \<Rightarrow> db \<Rightarrow> db" where
  "upsertConfig org now g d =
     (if findConfig org d = None
      then d\<lparr>escrow_configs := escrow_configs d @ [g (defaultConfig org now)]\<rparr>
      else d\<lparr>escrow_configs := updateKey ec_org org g (escrow_configs d)\<rparr>)"

definition UpsertThresholdAuto :: "int \<Rightarrow> int \<Rightarrow> ('u, unit) op" where
  "UpsertThresholdAuto org auto =
     bind clock (\<lambda>now. exec (upsertConfig org now (\<lambda>c. c\<lparr>ec_auto := auto, ec_updated := now\<rparr>)))"

definition SetThresholdOverride :: "int \<Rightarrow> int option \<Rightarrow> ('u, unit) op" where
  "SetThresholdOverride org ov =
     bind clock (\<lambda>now. exec (upsertConfig org now (\<lambda>c. c\<lparr>ec_override := ov\<rparr>)))"

definition SetEscrowConsumedBaseline :: "int \<Rightarrow> int \<Rightarrow> ('u, unit) op" where
  "SetEscrowConsumedBaseline org baseline =
     bind clock (\<lambda>now. exec (upsertConfig org now (\<lambda>c. c\<lparr>ec_baseline := Some baseline\<rparr>)))"

definition GetEscrowBaselines :: "('u, (int \<times> int) list) op" where
  "GetEscrowBaselines = query (\<lambda>d. List.map_filter (\<lambda>c. map_option (Pair (ec_org c)) (ec_baseline c)) (escrow_configs d))"

definition ListEscrowOrgIDs :: "('u, int list) op" where
  "ListEscrowOrgIDs = query (\<lambda>d. remdups (map eb_org (buckets d)))"

definition SumOrgConsumed :: "int \<Rightarrow> ('u, int) op" where
  "SumOrgConsumed org = query (\<lambda>d. sumBy l_consumed (filter (\<lambda>l. l_org l = org) (ledger d)))"

text \<open>
  \<open>EscrowUsageStats\<close>: the largest hourly sum and the largest single call since
  \<open>windowStart\<close>, and the time of the organization's first call.
\<close>

definition hourOf :: "int \<Rightarrow> int" where
  "hourOf ts = ts div (3600 * 10 ^ 9)"

definition usageStats :: "int \<Rightarrow> int \<Rightarrow> db \<Rightarrow> int \<times> int" where
  "usageStats org windowStart d =
     (let rows = filter (\<lambda>r. d_org r = org \<and> d_ts r \<ge> windowStart) (details d);
          hours = remdups (map (\<lambda>r. hourOf (d_ts r)) rows)
      in (case map (\<lambda>h. sumBy d_consumed (filter (\<lambda>r. hourOf (d_ts r) = h) rows)) hours of
            [] \<Rightarrow> 0 | x # xs \<Rightarrow> fold max xs x,
          case map d_consumed rows of [] \<Rightarrow> 0 | x # xs \<Rightarrow> fold max xs x))"

definition EscrowUsageStats :: "int \<Rightarrow> int \<Rightarrow> ('u, int \<times> int \<times> int option) op" where
  "EscrowUsageStats org windowStart =
     bind (query (usageStats org windowStart)) (\<lambda>(ph, ms).
     bind (query (\<lambda>d. case map d_ts (filter (\<lambda>r. d_org r = org) (details d)) of
                        [] \<Rightarrow> None | x # xs \<Rightarrow> Some (fold min xs x))) (\<lambda>earliest.
     return (ph, ms, earliest)))"

end
