(* ===== verification/OrgCred.thy ===== *)
theory OrgCred
  imports StoreMoney
begin

text \<open>
  The organization rows (\<open>repo/org.go\<close>, the flags of \<open>repo/settlement.go\<close>) and the credential of
  an organization's pool on new-api (\<open>service/member.go\<close>): loading it, provisioning it once under
  the per-organization lock, and refreshing it after an upstream 401.
\<close>

section \<open>Organization rows\<close>

definition findOrg :: "int \<Rightarrow> db \<Rightarrow> organization option" where
  "findOrg i d = find (\<lambda>o'. o_id o' = i \<and> \<not> o_deleted o') (orgs d)"

definition GetOrganization :: "int \<Rightarrow> ('u, organization) op" where
  "GetOrganization i = getRow (findOrg i)"

text \<open>\<open>UPDATE organization SET ... WHERE id = ? AND deleted_at IS NULL\<close>.\<close>

definition updOrg :: "int \<Rightarrow> (organization \<Rightarrow> organization) \<Rightarrow> db \<Rightarrow> db" where
  "updOrg i g d = d\<lparr>orgs := map (\<lambda>o'. if o_id o' = i \<and> \<not> o_deleted o' then g o' else o') (orgs d)\<rparr>"

definition GetOrgIDByNewapiUserID :: "int \<Rightarrow> ('u, int option) op" where
  "GetOrgIDByNewapiUserID uid =
     query (\<lambda>d. map_option o_id (find (\<lambda>o'. o_newapi_user o' = Some uid \<and> \<not> o_deleted o') (orgs d)))"

definition GetOrgNewapiCred :: "int \<Rightarrow> ('u, (int \<times> string) option) op" where
  "GetOrgNewapiCred i =
     getRow (\<lambda>d. map_option (\<lambda>o'. map_option (\<lambda>uid. (uid, o_access_token_enc o')) (o_newapi_user o')) (findOrg i d))"

definition GetOrgNewapiPassword :: "int \<Rightarrow> ('u, string) op" where
  "GetOrgNewapiPassword i = getRow (\<lambda>d. map_option o_password_enc (findOrg i d))"

definition UpdateOrgAccessToken :: "int \<Rightarrow> string \<Rightarrow> ('u, unit) op" where
  "UpdateOrgAccessToken i enc = exec (updOrg i (\<lambda>o'. o'\<lparr>o_access_token_enc := enc\<rparr>))"

text \<open>
  \<open>SetOrgNewapiUser\<close> writes only while no user is recorded and reports whether it wrote; a user
  recorded with another organization violates the unique key.
\<close>

definition setOrgUser :: "int \<Rightarrow> int \<Rightarrow> string \<Rightarrow> string \<Rightarrow> string \<Rightarrow> db \<Rightarrow> (err + bool) \<times> db" where
  "setOrgUser i uid username tok pw d =
     (let free = (\<lambda>o'. o_id o' = i \<and> \<not> o_deleted o' \<and> o_newapi_user o' = None)
      in if \<not> list_ex free (orgs d) then (Inr False, d)
         else if list_ex (\<lambda>o'. o_newapi_user o' = Some uid) (orgs d) then (Inl (SqlError 1062), d)
         else (Inr True, d\<lparr>orgs := map (\<lambda>o'. if free o'
                 then o'\<lparr>o_newapi_user := Some uid, o_newapi_username := (if username = '''' then None else Some username),
                         o_access_token_enc := tok, o_password_enc := pw\<rparr> else o') (orgs d)\<rparr>))"

definition SetOrgNewapiUser :: "int \<Rightarrow> int \<Rightarrow> string \<Rightarrow> string \<Rightarrow> string \<Rightarrow> ('u, bool) op" where
  "SetOrgNewapiUser i uid username tok pw =
     mapErr dupToConflict (stmt (setOrgUser i uid username tok pw))"

definition UpdateOrgStatus :: "int \<Rightarrow> org_status \<Rightarrow> ('u, unit) op" where
  "UpdateOrgStatus i st = exec (updOrg i (\<lambda>o'. o'\<lparr>o_status := st\<rparr>))"

definition GetOrgBillingFlags :: "int \<Rightarrow> ('u, bool \<times> bool) op" where
  "GetOrgBillingFlags i =
     getRow (\<lambda>d. map_option (\<lambda>o'. (o_billing_enabled o', o_hard_stop_enabled o')) (findOrg i d))"

text \<open>These two updates carry no \<open>deleted_at\<close> predicate in the source.\<close>

definition SetOrgBillingFlags :: "int \<Rightarrow> bool option \<Rightarrow> bool option \<Rightarrow> ('u, unit) op" where
  "SetOrgBillingFlags i billing hardStop =
     bind (case billing of None \<Rightarrow> return ()
           | Some b \<Rightarrow> exec (\<lambda>d. d\<lparr>orgs := updateKey o_id i (\<lambda>o'. o'\<lparr>o_billing_enabled := b\<rparr>) (orgs d)\<rparr>)) (\<lambda>_.
     case hardStop of None \<Rightarrow> return ()
       | Some b \<Rightarrow> exec (\<lambda>d. d\<lparr>orgs := updateKey o_id i (\<lambda>o'. o'\<lparr>o_hard_stop_enabled := b\<rparr>) (orgs d)\<rparr>))"

definition ListWalletBillingOrgIDs :: "('u, int list) op" where
  "ListWalletBillingOrgIDs = query (\<lambda>d. map o_id (filter (\<lambda>o'. o_billing_kind o' = BillingKindWallet
      \<and> \<not> o_deleted o' \<and> o_newapi_user o' \<noteq> None) (orgs d)))"

section \<open>Credentials\<close>

definition err409 :: err where "err409 = newErr 20001 409"

definition hardStoppedErr :: err where "hardStoppedErr = newErr 10401 403"

definition provisionLockKey :: "int \<Rightarrow> string" where
  "provisionLockKey org = ''provision:org:'' @ itoa org"

definition decryptToken :: "'u service \<Rightarrow> string \<Rightarrow> ('u, string) op" where
  "decryptToken S enc = (case sv_decrypt S enc of None \<Rightarrow> throw Internal | Some t \<Rightarrow> return t)"

definition notFoundOrInternal :: "err \<Rightarrow> err" where
  "notFoundOrInternal e = (if errorsIs e ErrNotFound then NotFound else internal e)"

definition loadOrgCred :: "'u service \<Rightarrow> int \<Rightarrow> ('u, cred option) op" where
  "loadOrgCred S org =
     bind (mapErr notFoundOrInternal (GetOrgNewapiCred org)) (\<lambda>r. case r of
       None \<Rightarrow> return None
     | Some (uid, enc) \<Rightarrow>
         bind (decryptToken S enc) (\<lambda>t. return (Some \<lparr> cr_user = uid, cr_token = t \<rparr>)))"

definition orgCred :: "'u service \<Rightarrow> int \<Rightarrow> ('u, cred) op" where
  "orgCred S org =
     bind (mapErr internal (GetOrgNewapiCred org)) (\<lambda>r. case r of
       None \<Rightarrow> throw err409
     | Some (uid, enc) \<Rightarrow>
         bind (decryptToken S enc) (\<lambda>t. return \<lparr> cr_user = uid, cr_token = t \<rparr>))"

definition orgUserGroup :: "int \<Rightarrow> ('u, string) op" where
  "orgUserGroup org = bind (attempt (GetOrganization org)) (\<lambda>r. return (case r of
      Inr o' \<Rightarrow> (case o_user_group o' of Some g \<Rightarrow> if g \<noteq> '''' then g else ''org_'' @ itoa org
                                         | None \<Rightarrow> ''org_'' @ itoa org)
    | Inl _ \<Rightarrow> ''org_'' @ itoa org))"

definition orgNewapiUsername :: "int \<Rightarrow> ('u, string) op" where
  "orgNewapiUsername org = bind (attempt (GetOrganization org)) (\<lambda>r. return (case r of
      Inr o' \<Rightarrow> (case o_newapi_username o' of Some n \<Rightarrow> if n \<noteq> '''' then n else ''org'' @ itoa org
                                              | None \<Rightarrow> ''org'' @ itoa org)
    | Inl _ \<Rightarrow> ''org'' @ itoa org))"

definition ensureWalletOnly :: "'u service \<Rightarrow> int \<Rightarrow> cred \<Rightarrow> ('u, unit) op" where
  "ensureWalletOnly S org cred =
     bind (attempt (GetOrganization org)) (\<lambda>r. case r of
       Inl _ \<Rightarrow> return ()
     | Inr o' \<Rightarrow>
         if o_billing_kind o' \<noteq> BillingKindWallet then return ()
         else bind (attempt (upcall (na_GetSelfSubscription (sv_up S) cred))) (\<lambda>sr. case sr of
             Inl _ \<Rightarrow> return ()
           | Inr (pref, _) \<Rightarrow>
               if pref = ''wallet_only'' then return ()
               else ignoreErr (upcall (na_SetBillingPreference (sv_up S) cred ''wallet_only''))))"

text \<open>
  The bounded search for a free user name (five attempts): only a name conflict is retried.
\<close>

fun bootstrapAttempts :: "'u service \<Rightarrow> int \<Rightarrow> string \<Rightarrow> string \<Rightarrow> nat \<Rightarrow> ('u, string \<times> boot_result) op" where
  "bootstrapAttempts S org nm pw 0 = throw OutOfFuel"
| "bootstrapAttempts S org nm pw (Suc left) =
     bind (draw (sv_gen_username S)) (\<lambda>username.
      bind (attempt (upcall (na_BootstrapMember (sv_up S) \<lparr> bi_org = org, bi_member = 0,
                bi_username = username, bi_password = pw, bi_display = nm,
                bi_skip_token = True, bi_adopt = False \<rparr>))) (\<lambda>r. case r of
           Inr res \<Rightarrow> return (username, res)
         | Inl berr \<Rightarrow>
             if IsUsernameConflict berr \<and> left \<noteq> 0 then bootstrapAttempts S org nm pw left
             else throw (mapUpstream berr)))"

definition EnsureOrgProvisioned :: "'u service \<Rightarrow> int \<Rightarrow> string \<Rightarrow> ('u, cred) op" where
  "EnsureOrgProvisioned S org nm =
     bind (mapErr internal (GetOrganization org)) (\<lambda>o'.
     if o_status o' = OrgStatusHardStopped then throw hardStoppedErr
     else
     bind (loadOrgCred S org) (\<lambda>c1. case c1 of
       Some cred \<Rightarrow> bind (ensureWalletOnly S org cred) (\<lambda>_. return cred)
     | None \<Rightarrow>
     if \<not> o_created_by_platform o' then throw err409
     else
     withLock internal (provisionLockKey org) (
     bind (loadOrgCred S org) (\<lambda>c2. case c2 of
       Some cred \<Rightarrow> return cred
     | None \<Rightarrow>
     bind (draw (sv_gen_newapi_password S)) (\<lambda>pw.
     bind (bootstrapAttempts S org nm pw 5) (\<lambda>(username, res).
     bind (mapErr internal (SetOrgNewapiUser org (br_user res) username
             (sv_encrypt S (br_access res)) (sv_encrypt S pw))) (\<lambda>wrote.
     if \<not> wrote then
       bind (attempt (loadOrgCred S org)) (\<lambda>c3. case c3 of
         Inr (Some cred) \<Rightarrow> return cred
       | _ \<Rightarrow> throw Internal)
     else
     bind (orgUserGroup org) (\<lambda>grp.
     bind (ignoreErr (upcall (na_SetUserGroup (sv_up S) (br_user res) grp))) (\<lambda>_.
     bind (ignoreErr (upcall (na_ManageUserQuota (sv_up S) (br_user res) QuotaOverride 0))) (\<lambda>_.
     let cred = \<lparr> cr_user = br_user res, cr_token = br_access res \<rparr>
     in bind (ensureWalletOnly S org cred) (\<lambda>_. return cred)))))))))))"

definition EnsureFreshCred :: "'u service \<Rightarrow> int \<Rightarrow> ('u, cred) op" where
  "EnsureFreshCred S org =
     withLock internal (provisionLockKey org) (
     bind (loadOrgCred S org) (\<lambda>c. case c of
       None \<Rightarrow> throw err409
     | Some cred \<Rightarrow>
     bind (attempt (upcall (na_ProbeAccessToken (sv_up S) cred))) (\<lambda>valid.
     if valid = Inr True then return cred
     else
     bind (mapErr internal (GetOrgNewapiPassword org)) (\<lambda>pwEnc.
     bind (decryptToken S pwEnc) (\<lambda>pw.
     bind (orgNewapiUsername org) (\<lambda>username.
     bind (mapErr mapUpstream (upcall (na_RefreshAccessToken (sv_up S) \<lparr> bi_org = org,
             bi_member = 0, bi_username = username, bi_password = pw, bi_display = [], bi_skip_token = False,
             bi_adopt = False \<rparr>))) (\<lambda>newAccess.
     bind (mapErr internal (UpdateOrgAccessToken org (sv_encrypt S newAccess))) (\<lambda>_.
     return \<lparr> cr_user = cr_user cred, cr_token = newAccess \<rparr>))))))))"

definition isAuthExpired :: "err \<Rightarrow> bool" where
  "isAuthExpired e \<longleftrightarrow> (case asUpstream e of Some u \<Rightarrow> AuthExpired u | None \<Rightarrow> False)"

definition withOrgCred :: "'u service \<Rightarrow> int \<Rightarrow> (cred \<Rightarrow> ('u, 'a) op) \<Rightarrow> ('u, 'a) op" where
  "withOrgCred S org fn =
     bind (mapErr internal (GetOrganization org)) (\<lambda>o'.
     if o_status o' = OrgStatusHardStopped then throw hardStoppedErr
     else
     bind (orgCred S org) (\<lambda>cred.
     bind (attempt (fn cred)) (\<lambda>r. case r of
       Inr a \<Rightarrow> return a
     | Inl opErr \<Rightarrow>
         if \<not> isAuthExpired opErr then throw opErr
         else bind (attempt (EnsureFreshCred S org)) (\<lambda>fr. case fr of
             Inl _ \<Rightarrow> throw opErr
           | Inr fresh \<Rightarrow> fn fresh))))"

definition ReassertWalletOnly :: "'u service \<Rightarrow> ('u, unit) op" where
  "ReassertWalletOnly S =
     (if \<not> sv_funding S then return ()
      else if \<not> sv_leader S then return ()
      else bind ListWalletBillingOrgIDs (\<lambda>ids.
        foreach ids (\<lambda>org.
          bind (attempt (orgCred S org)) (\<lambda>cr. case cr of
            Inl _ \<Rightarrow> return ()
          | Inr cred \<Rightarrow>
          bind (attempt (upcall (na_GetSelfSubscription (sv_up S) cred))) (\<lambda>sr. case sr of
            Inl _ \<Rightarrow> return ()
          | Inr (pref, active) \<Rightarrow>
              bind (guard_when active (auditSystem org ''subscription_bypass_alert'' ''organization''
                      (Some org) [(''has_active_sub'', JBool True)] ''alert'')) (\<lambda>_.
              guard_when (pref \<noteq> ''wallet_only'')
                (ignoreErr (upcall (na_SetBillingPreference (sv_up S) cred ''wallet_only''))))))))) "

end
