(* ===== verification/StoreMember.thy ===== *)
theory StoreMember
  imports OrgCred
begin

text \<open>
  The rows of people and of what they may use: members and their key slots
  (\<open>repo/member.go\<close>, \<open>repo/member_key.go\<close>), teams, tiers, quota policies, temporary grants,
  approvals, support sessions and the idempotency records (\<open>repo/team.go\<close>, \<open>tier.go\<close>,
  \<open>policy.go\<close>, \<open>grant.go\<close>, \<open>approval.go\<close>, \<open>support.go\<close>, \<open>idemp.go\<close>).  The tables keep their
  rows in the order of their identifiers, which is the order \<open>ORDER BY id\<close> asks for.
\<close>

section \<open>Members\<close>

definition findMember :: "int \<Rightarrow> int \<Rightarrow> db \<Rightarrow> member option" where
  "findMember org i d = find (\<lambda>m. m_id m = i \<and> m_org m = org \<and> \<not> m_deleted m) (members d)"

definition GetMember :: "int \<Rightarrow> int \<Rightarrow> ('u, member) op" where
  "GetMember org i = getRow (findMember org i)"

definition updMember :: "int \<Rightarrow> int \<Rightarrow> (member \<Rightarrow> member) \<Rightarrow> db \<Rightarrow> db" where
  "updMember org i g d = d\<lparr>members := map (\<lambda>m. if m_id m = i \<and> m_org m = org then g m else m) (members d)\<rparr>"

definition insertMember :: "member \<Rightarrow> db \<Rightarrow> (err + int) \<times> db" where
  "insertMember m d =
     (if list_ex (\<lambda>x. m_org x = m_org m \<and> m_email x = m_email m) (members d) then (Inl (SqlError 1062), d)
      else let i = next_id (map m_id (members d))
           in (Inr i, d\<lparr>members := members d @ [m\<lparr>m_id := i, m_status := MemberStatusProvisioning,
                 m_token := None, m_key_masked := None, m_rotation := 0,
                 m_bootstrap := BootstrapPending, m_epoch := 0, m_deleted := False\<rparr>]\<rparr>))"

definition CreateMemberProvisional :: "member \<Rightarrow> ('u, int) op" where
  "CreateMemberProvisional m = mapErr dupToConflict (stmt (insertMember m))"

definition MarkBootstrapFailedAndRelease :: "int \<Rightarrow> int \<Rightarrow> ('u, unit) op" where
  "MarkBootstrapFailedAndRelease org i = exec (updMember org i (\<lambda>m. m\<lparr>
      m_bootstrap := BootstrapFailed, m_status := MemberStatusProvisioning,
      m_email := take 191 (''failed-'' @ itoa (m_id m) @ ''-'' @ m_email m)\<rparr>))"

definition ActivatePlatformAccount :: "int \<Rightarrow> int \<Rightarrow> ('u, unit) op" where
  "ActivatePlatformAccount org i = exec (updMember org i (\<lambda>m. m\<lparr>
      m_status := MemberStatusActive, m_bootstrap := BootstrapDone\<rparr>))"

definition ClearMemberToken :: "int \<Rightarrow> int \<Rightarrow> ('u, unit) op" where
  "ClearMemberToken org i = exec (updMember org i (\<lambda>m. m\<lparr>m_token := None, m_key_masked := None\<rparr>))"

definition UpdateMemberStatus :: "int \<Rightarrow> int \<Rightarrow> member_status \<Rightarrow> ('u, unit) op" where
  "UpdateMemberStatus org i st = exec (updMember org i (\<lambda>m. m\<lparr>m_status := st\<rparr>))"

definition BumpMemberSessionEpoch :: "int \<Rightarrow> int \<Rightarrow> ('u, unit) op" where
  "BumpMemberSessionEpoch org i = exec (updMember org i (\<lambda>m. m\<lparr>m_epoch := m_epoch m + 1\<rparr>))"

definition BumpOrgMembersSessionEpoch :: "int \<Rightarrow> ('u, unit) op" where
  "BumpOrgMembersSessionEpoch org = exec (\<lambda>d. d\<lparr>members :=
      map (\<lambda>m. if m_org m = org \<and> \<not> m_deleted m then m\<lparr>m_epoch := m_epoch m + 1\<rparr> else m) (members d)\<rparr>)"

definition OffboardMemberRow :: "int \<Rightarrow> int \<Rightarrow> ('u, unit) op" where
  "OffboardMemberRow org i = exec (updMember org i (\<lambda>m. if m_deleted m then m else m\<lparr>
      m_deleted := True, m_status := MemberStatusOffboarded, m_token := None, m_key_masked := None\<rparr>))"

definition RestoreOffboardedMemberRow :: "int \<Rightarrow> int \<Rightarrow> ('u, unit) op" where
  "RestoreOffboardedMemberRow org i = exec (updMember org i (\<lambda>m. if m_deleted m
      then m\<lparr>m_deleted := False, m_status := MemberStatusActive\<rparr> else m))"

definition ListOffboardedMembersRepo :: "int \<Rightarrow> nat \<Rightarrow> nat \<Rightarrow> ('u, member list \<times> nat) op" where
  "ListOffboardedMembersRepo org limit offset =
     bind (query (\<lambda>d. length (filter (\<lambda>m. m_org m = org \<and> m_deleted m) (members d)))) (\<lambda>total.
     bind (query (\<lambda>d. page limit offset (filter (\<lambda>m. m_org m = org \<and> m_deleted m) (members d)))) (\<lambda>ms.
     return (ms, total)))"

definition UpdateMemberPassword :: "int \<Rightarrow> int \<Rightarrow> string \<Rightarrow> ('u, unit) op" where
  "UpdateMemberPassword org i h = exec (updMember org i (\<lambda>m. m\<lparr>m_pwhash := Some h\<rparr>))"

definition UpdateMemberDisplayName :: "int \<Rightarrow> int \<Rightarrow> string \<Rightarrow> ('u, unit) op" where
  "UpdateMemberDisplayName org i n = exec (updMember org i (\<lambda>m. m\<lparr>m_display := Some n\<rparr>))"

definition UpdateMemberTeamTier :: "int \<Rightarrow> int \<Rightarrow> int option \<Rightarrow> int option \<Rightarrow> ('u, unit) op" where
  "UpdateMemberTeamTier org i tm tr = exec (updMember org i (\<lambda>m. m\<lparr>
      m_team := (if tm = None then m_team m else tm), m_tier := (if tr = None then m_tier m else tr)\<rparr>))"

definition UpdateMemberRole :: "int \<Rightarrow> int \<Rightarrow> role \<Rightarrow> ('u, unit) op" where
  "UpdateMemberRole org i r = exec (updMember org i (\<lambda>m. m\<lparr>m_role := r\<rparr>))"

definition ListMembersByTier :: "int \<Rightarrow> int \<Rightarrow> ('u, member list) op" where
  "ListMembersByTier org tr = query (\<lambda>d. filter (\<lambda>m. m_org m = org \<and> m_tier m = Some tr \<and> \<not> m_deleted m) (members d))"

definition GetMemberNameByID :: "int \<Rightarrow> ('u, string) op" where
  "GetMemberNameByID i = query (\<lambda>d. case find (\<lambda>m. m_id m = i) (members d) of
      None \<Rightarrow> ''''
    | Some m \<Rightarrow> (case m_display m of Some n \<Rightarrow> if n \<noteq> '''' then n else m_email m | None \<Rightarrow> m_email m))"

definition GetMemberByEmail :: "string \<Rightarrow> ('u, member) op" where
  "GetMemberByEmail email = getRow (\<lambda>d. firstBy m_id (\<lambda>m. m_email m = email \<and> \<not> m_deleted m) (members d))"

definition ListActiveOverridableMembers :: "int \<Rightarrow> ('u, member list) op" where
  "ListActiveOverridableMembers org = query (\<lambda>d. filter (\<lambda>m. m_org m = org \<and> m_bootstrap m = BootstrapDone
      \<and> m_token m \<noteq> None \<and> \<not> m_deleted m) (members d))"

text \<open>
  The attribution of a log entry: token, key slot, member.  The member row is read without
  the \<open>deleted_at\<close> predicate, so the consumption of somebody who left stays theirs.
\<close>

definition GetMemberByNewapiTokenID :: "int \<Rightarrow> ('u, (member \<times> int) option) op" where
  "GetMemberByNewapiTokenID tok =
     bind (query (\<lambda>d. find (\<lambda>k. kt_token k = Some tok) (key_tokens d))) (\<lambda>kr. case kr of
       None \<Rightarrow> return None
     | Some k \<Rightarrow>
         bind (query (\<lambda>d. find (\<lambda>m. m_id m = kt_member k \<and> m_org m = kt_org k) (members d))) (\<lambda>mr.
         return (map_option (\<lambda>m. (m, kt_key k)) mr)))"

section \<open>Key slots\<close>

definition insertSlot :: "int \<Rightarrow> int \<Rightarrow> bool \<Rightarrow> ('u, int) op" where
  "insertSlot org mem primary = stmt (\<lambda>d. let i = next_id (map ks_id (key_slots d))
     in (Inr i, d\<lparr>key_slots := key_slots d @ [\<lparr> ks_id = i, ks_org = org, ks_member = mem,
          ks_primary = primary, ks_active = True \<rparr>]\<rparr>))"

definition insertToken :: "key_token \<Rightarrow> db \<Rightarrow> (err + unit) \<times> db" where
  "insertToken k d =
     (if list_ex (\<lambda>x. kt_token x = kt_token k) (key_tokens d) then (Inl (SqlError 1062), d)
      else (Inr (), d\<lparr>key_tokens := key_tokens d @ [k]\<rparr>))"

definition insertKeyTokenTx :: "int \<Rightarrow> int \<Rightarrow> int \<Rightarrow> int \<Rightarrow> string \<Rightarrow> int \<Rightarrow> ('u, unit) op" where
  "insertKeyTokenTx key org mem tok name rot = stmt (insertToken \<lparr> kt_key = key, kt_org = org,
     kt_member = mem, kt_token = Some tok, kt_name = name, kt_current = True, kt_rotation = rot \<rparr>)"

definition ensurePrimaryKeyTx :: "int \<Rightarrow> int \<Rightarrow> int \<Rightarrow> string \<Rightarrow> int \<Rightarrow> ('u, int) op" where
  "ensurePrimaryKeyTx org mem tok name rot =
     bind (insertSlot org mem True) (\<lambda>key.
     bind (insertKeyTokenTx key org mem tok name rot) (\<lambda>_. return key))"

definition rotatePrimaryKeyTx :: "int \<Rightarrow> int \<Rightarrow> int \<Rightarrow> string \<Rightarrow> int \<Rightarrow> ('u, int) op" where
  "rotatePrimaryKeyTx org mem tok name rot =
     bind (query (\<lambda>d. firstBy ks_id (\<lambda>s. ks_member s = mem \<and> ks_org s = org \<and> ks_primary s \<and> ks_active s) (key_slots d))) (\<lambda>sr.
     case sr of
       None \<Rightarrow> ensurePrimaryKeyTx org mem tok name rot
     | Some s \<Rightarrow>
         bind (exec (\<lambda>d. d\<lparr>key_tokens := map (\<lambda>k. if kt_key k = ks_id s \<and> kt_current k
                 then k\<lparr>kt_current := False\<rparr> else k) (key_tokens d)\<rparr>)) (\<lambda>_.
         bind (insertKeyTokenTx (ks_id s) org mem tok name rot) (\<lambda>_. return (ks_id s))))"

definition CreateAdditionalKey :: "int \<Rightarrow> int \<Rightarrow> int \<Rightarrow> string \<Rightarrow> int \<Rightarrow> ('u, int) op" where
  "CreateAdditionalKey org mem tok name rot = WithTx (
     bind (insertSlot org mem False) (\<lambda>key.
     bind (insertKeyTokenTx key org mem tok name rot) (\<lambda>_. return key)))"

definition GetKeyIDByNewapiTokenID :: "int \<Rightarrow> ('u, int option) op" where
  "GetKeyIDByNewapiTokenID tok =
     query (\<lambda>d. map_option kt_key (find (\<lambda>k. kt_token k = Some tok) (key_tokens d)))"

definition FinalizeBootstrap :: "int \<Rightarrow> int \<Rightarrow> int option \<Rightarrow> string option \<Rightarrow> int \<Rightarrow> string \<Rightarrow> ('u, unit) op" where
  "FinalizeBootstrap org i tok masked rot name = WithTx (
     bind (exec (updMember org i (\<lambda>m. m\<lparr>m_token := tok, m_key_masked := masked, m_rotation := rot,
              m_bootstrap := BootstrapDone, m_status := MemberStatusActive\<rparr>))) (\<lambda>_.
     case tok of None \<Rightarrow> return ()
       | Some t \<Rightarrow> bind (ensurePrimaryKeyTx org i t name rot) (\<lambda>_. return ())))"

definition UpdateMemberKey :: "int \<Rightarrow> int \<Rightarrow> int \<Rightarrow> string \<Rightarrow> string \<Rightarrow> int \<Rightarrow> ('u, unit) op" where
  "UpdateMemberKey org i tok masked name rot = WithTx (
     bind (exec (updMember org i (\<lambda>m. m\<lparr>m_token := Some tok, m_key_masked := Some masked, m_rotation := rot\<rparr>))) (\<lambda>_.
     bind (rotatePrimaryKeyTx org i tok name rot) (\<lambda>_. return ())))"

section \<open>Teams, tiers, quota policies\<close>

definition GetTeam :: "int \<Rightarrow> int \<Rightarrow> ('u, team) op" where
  "GetTeam org i = getRow (\<lambda>d. find (\<lambda>t. t_id t = i \<and> t_org t = org \<and> \<not> t_deleted t) (teams d))"

definition findTier :: "int \<Rightarrow> int \<Rightarrow> db \<Rightarrow> tier option" where
  "findTier org i d = find (\<lambda>t. tr_id t = i \<and> tr_org t = org \<and> \<not> tr_deleted t) (tiers d)"

definition GetTier :: "int \<Rightarrow> int \<Rightarrow> ('u, tier) op" where
  "GetTier org i = getRow (findTier org i)"

definition ListTiers :: "int \<Rightarrow> ('u, tier list) op" where
  "ListTiers org = query (\<lambda>d. filter (\<lambda>t. tr_org t = org \<and> \<not> tr_deleted t) (tiers d))"

definition insertTier :: "tier \<Rightarrow> db \<Rightarrow> (err + int) \<times> db" where
  "insertTier t d =
     (if list_ex (\<lambda>x. tr_org x = tr_org t \<and> tr_name x = tr_name t) (tiers d) then (Inl (SqlError 1062), d)
      else let i = next_id (map tr_id (tiers d))
           in (Inr i, d\<lparr>tiers := tiers d @ [t\<lparr>tr_id := i, tr_deleted := False\<rparr>]\<rparr>))"

definition CreateTierRow :: "tier \<Rightarrow> ('u, int) op" where
  "CreateTierRow t = mapErr dupToConflict (stmt (insertTier t))"

text \<open>Only the row that now exists is the default; the organization points at it.\<close>

definition SetDefaultTierRow :: "int \<Rightarrow> int \<Rightarrow> ('u, unit) op" where
  "SetDefaultTierRow org i = WithTx (
     bind (getRow (findTier org i)) (\<lambda>_.
     bind (exec (\<lambda>d. d\<lparr>tiers := map (\<lambda>t. if tr_org t = org \<and> tr_default t then t\<lparr>tr_default := False\<rparr> else t) (tiers d)\<rparr>)) (\<lambda>_.
     bind (exec (\<lambda>d. d\<lparr>tiers := map (\<lambda>t. if tr_id t = i \<and> tr_org t = org then t\<lparr>tr_default := True\<rparr> else t) (tiers d)\<rparr>)) (\<lambda>_.
     exec (\<lambda>d. d\<lparr>orgs := updateKey o_id org (\<lambda>o'. o'\<lparr>o_default_tier := Some i\<rparr>) (orgs d)\<rparr>)))))"

definition CountMembersUsingTier :: "int \<Rightarrow> int \<Rightarrow> ('u, nat) op" where
  "CountMembersUsingTier org tr =
     query (\<lambda>d. length (filter (\<lambda>m. m_org m = org \<and> m_tier m = Some tr \<and> \<not> m_deleted m) (members d)))"

definition SoftDeleteTier :: "int \<Rightarrow> int \<Rightarrow> ('u, unit) op" where
  "SoftDeleteTier org i =
     bind (stmt (\<lambda>d. (Inr (findTier org i d \<noteq> None),
       d\<lparr>tiers := map (\<lambda>t. if tr_id t = i \<and> tr_org t = org then t\<lparr>tr_deleted := True\<rparr> else t) (tiers d)\<rparr>))) (\<lambda>hit.
     if hit then return () else throw ErrNotFound)"

definition ListQuotaPolicies :: "int \<Rightarrow> ('u, quota_policy list) op" where
  "ListQuotaPolicies org = query (\<lambda>d. filter (\<lambda>p. q_org p = org) (policies d))"

definition ListActivePoliciesForReset :: "('u, quota_policy list) op" where
  "ListActivePoliciesForReset = query (\<lambda>d. filter (\<lambda>p. q_status p = ''active'') (policies d))"

definition MarkPolicyReset :: "int \<Rightarrow> int \<Rightarrow> ('u, unit) op" where
  "MarkPolicyReset i t = exec (\<lambda>d. d\<lparr>policies := updateKey q_id i (\<lambda>p. p\<lparr>q_last_reset := Some t\<rparr>) (policies d)\<rparr>)"

definition samePolicyKey :: "quota_policy \<Rightarrow> quota_policy \<Rightarrow> bool" where
  "samePolicyKey p p' \<longleftrightarrow> q_org p = q_org p' \<and> q_scope p = q_scope p' \<and> q_scope_id p = q_scope_id p' \<and> q_period p = q_period p'"

definition UpsertQuotaPolicy :: "quota_policy \<Rightarrow> ('u, unit) op" where
  "UpsertQuotaPolicy p0 =
     (let p = p0\<lparr>q_anchor := (if q_anchor p0 = '''' then ''00:00'' else q_anchor p0),
                q_status := (if q_status p0 = '''' then ''active'' else q_status p0)\<rparr>
      in exec (\<lambda>d. if list_ex (samePolicyKey p) (policies d)
           then d\<lparr>policies := map (\<lambda>x. if samePolicyKey p x then x\<lparr>q_limit := q_limit p, q_anchor := q_anchor p,
                   q_status := q_status p\<rparr> else x) (policies d)\<rparr>
           else d\<lparr>policies := policies d @ [p\<lparr>q_id := next_id (map q_id (policies d)), q_last_reset := None\<rparr>]\<rparr>))"

section \<open>Grants\<close>

definition CreateGrant :: "grant \<Rightarrow> ('u, int) op" where
  "CreateGrant g = stmt (\<lambda>d. let i = next_id (map g_id (grants d))
     in (Inr i, d\<lparr>grants := grants d @ [g\<lparr>g_id := i, g_reverted := None\<rparr>]\<rparr>))"

definition GetGrant :: "int \<Rightarrow> int \<Rightarrow> ('u, grant) op" where
  "GetGrant org i = getRow (\<lambda>d. find (\<lambda>g. g_id g = i \<and> g_org g = org) (grants d))"

definition isQuotaGrant :: "grant \<Rightarrow> bool" where
  "isQuotaGrant g \<longleftrightarrow> g_type g = GrantQuotaAdd \<or> g_type g = GrantQuotaSub"

definition activeQuotaGrants :: "int \<Rightarrow> int \<Rightarrow> db \<Rightarrow> grant list" where
  "activeQuotaGrants org mem d = filter (\<lambda>g. g_org g = org \<and> g_member g = mem
      \<and> g_status g = GrantStatusActive \<and> isQuotaGrant g) (grants d)"

definition ListActiveQuotaGrants :: "int \<Rightarrow> int \<Rightarrow> ('u, grant list) op" where
  "ListActiveQuotaGrants org mem = query (activeQuotaGrants org mem)"

definition ListGrantsByMember :: "int \<Rightarrow> int \<Rightarrow> nat \<Rightarrow> nat \<Rightarrow> ('u, grant list \<times> nat) op" where
  "ListGrantsByMember org mem limit offset =
     bind (query (\<lambda>d. length (filter (\<lambda>g. g_org g = org \<and> g_member g = mem) (grants d)))) (\<lambda>total.
     bind (query (\<lambda>d. page limit offset (filter (\<lambda>g. g_org g = org \<and> g_member g = mem) (grants d)))) (\<lambda>gs.
     return (gs, total)))"

definition ListExpiredActiveGrants :: "int \<Rightarrow> nat \<Rightarrow> ('u, grant list) op" where
  "ListExpiredActiveGrants now limit = query (\<lambda>d. take limit (sort_key g_expire
      (filter (\<lambda>g. g_status g = GrantStatusActive \<and> g_expire g \<le> now) (grants d))))"

text \<open>The compare-and-set on \<open>status = 'active'\<close>: the number of rows it hit tells who won.\<close>

definition markGrant :: "int \<Rightarrow> grant_status \<Rightarrow> int \<Rightarrow> db \<Rightarrow> nat \<times> db" where
  "markGrant i st now d =
     (let hit = (\<lambda>g. g_id g = i \<and> g_status g = GrantStatusActive)
      in (length (filter hit (grants d)),
          d\<lparr>grants := map (\<lambda>g. if hit g then g\<lparr>g_status := st, g_reverted := Some now\<rparr> else g) (grants d)\<rparr>))"

definition MarkGrantReverted :: "int \<Rightarrow> grant_status \<Rightarrow> ('u, bool) op" where
  "MarkGrantReverted i st =
     bind clock (\<lambda>now. bind (stmt (\<lambda>d. case markGrant i st now d of (n, d') \<Rightarrow> (Inr n, d'))) (\<lambda>n. return (n = 1)))"

section \<open>Approvals\<close>

definition CreateApproval :: "approval \<Rightarrow> ('u, int) op" where
  "CreateApproval a = stmt (\<lambda>d. let i = next_id (map a_id (approvals d))
     in (Inr i, d\<lparr>approvals := approvals d @ [a\<lparr>a_id := i, a_l1 := None, a_l2 := None, a_reject := None\<rparr>]\<rparr>))"

definition GetApproval :: "int \<Rightarrow> int \<Rightarrow> ('u, approval) op" where
  "GetApproval org i = getRow (\<lambda>d. find (\<lambda>a. a_id a = i \<and> a_org a = org) (approvals d))"

definition ListApprovalsRepo :: "int \<Rightarrow> approval_state option \<Rightarrow> int option \<Rightarrow> int option \<Rightarrow> nat \<Rightarrow> nat \<Rightarrow> ('u, approval list \<times> nat) op" where
  "ListApprovalsRepo org st tm applicant limit offset =
     (let P = (\<lambda>a. a_org a = org \<and> (st = None \<or> st = Some (a_state a)) \<and> (tm = None \<or> tm = a_team a)
                  \<and> (applicant = None \<or> applicant = Some (a_applicant a)))
      in bind (query (\<lambda>d. length (filter P (approvals d)))) (\<lambda>total.
         bind (query (\<lambda>d. page limit offset (filter P (approvals d)))) (\<lambda>as. return (as, total))))"

datatype reviewer_col = ColL1 | ColL2 | ColNone

definition setReview :: "approval_state \<Rightarrow> reviewer_col \<Rightarrow> int \<Rightarrow> string option \<Rightarrow> approval \<Rightarrow> approval" where
  "setReview toState col reviewer reason a =
     a\<lparr>a_state := toState,
       a_l1 := (if col = ColL1 then Some reviewer else a_l1 a),
       a_l2 := (if col = ColL2 then Some reviewer else a_l2 a),
       a_reject := (case reason of Some r \<Rightarrow> Some r | None \<Rightarrow> a_reject a)\<rparr>"

definition AdvanceApproval :: "int \<Rightarrow> approval_state \<Rightarrow> approval_state \<Rightarrow> reviewer_col \<Rightarrow> int \<Rightarrow> string option \<Rightarrow> ('u, bool) op" where
  "AdvanceApproval i fromState toState col reviewer reason =
     bind (stmt (\<lambda>d. let hit = (\<lambda>a. a_id a = i \<and> a_state a = fromState)
        in (Inr (length (filter hit (approvals d))),
            d\<lparr>approvals := map (\<lambda>a. if hit a then setReview toState col reviewer reason a else a) (approvals d)\<rparr>))) (\<lambda>n.
     return (n = 1))"

section \<open>Support sessions\<close>

definition CreateSupportSession :: "support_session \<Rightarrow> ('u, int) op" where
  "CreateSupportSession ss = stmt (\<lambda>d. let i = next_id (map ss_id (supports d))
     in (Inr i, d\<lparr>supports := supports d @ [ss\<lparr>ss_id := i, ss_state := ''active''\<rparr>]\<rparr>))"

definition GetSupportSession :: "int \<Rightarrow> ('u, support_session) op" where
  "GetSupportSession i = getRow (\<lambda>d. find (\<lambda>s. ss_id s = i) (supports d))"

definition RevokeSupportSession :: "int \<Rightarrow> ('u, unit) op" where
  "RevokeSupportSession i = exec (\<lambda>d. d\<lparr>supports := map (\<lambda>s. if ss_id s = i \<and> ss_state s = ''active''
      then s\<lparr>ss_state := ''revoked''\<rparr> else s) (supports d)\<rparr>)"

section \<open>Idempotency records\<close>

definition idemKey :: "idem_record \<Rightarrow> int \<times> string \<times> string" where
  "idemKey r = (id_org r, id_endpoint r, id_key r)"

definition insertIdem :: "int \<Rightarrow> string \<Rightarrow> string \<Rightarrow> db \<Rightarrow> (err + unit) \<times> db" where
  "insertIdem org ep key d =
     (if list_ex (\<lambda>r. idemKey r = (org, ep, key)) (idems d) then (Inl (SqlError 1062), d)
      else (Inr (), d\<lparr>idems := idems d @ [\<lparr> id_org = org, id_endpoint = ep, id_key = key, id_done = False,
              id_http = 0, id_response = '''' \<rparr>]\<rparr>))"

text \<open>\<open>None\<close>: this call took the place and must run; \<open>Some r\<close>: replay the recorded answer.\<close>

definition BeginIdempotent :: "int \<Rightarrow> string \<Rightarrow> string \<Rightarrow> ('u, idem_record option) op" where
  "BeginIdempotent org ep key =
     bind (attempt (stmt (insertIdem org ep key))) (\<lambda>r. case r of
       Inr _ \<Rightarrow> return None
     | Inl e \<Rightarrow>
         if \<not> isDupKey e then throw e
         else bind (queryRow (\<lambda>d. find (\<lambda>r. idemKey r = (org, ep, key)) (idems d))) (\<lambda>rec.
              if \<not> id_done rec then throw ErrIdempotentInProgress else return (Some rec)))"

definition FinishIdempotent :: "int \<Rightarrow> string \<Rightarrow> string \<Rightarrow> int \<Rightarrow> string \<Rightarrow> ('u, unit) op" where
  "FinishIdempotent org ep key http resp = exec (\<lambda>d. d\<lparr>idems := updateKey idemKey (org, ep, key)
      (\<lambda>r. r\<lparr>id_done := True, id_http := http, id_response := resp\<rparr>) (idems d)\<rparr>)"

definition DropIdempotent :: "int \<Rightarrow> string \<Rightarrow> string \<Rightarrow> ('u, unit) op" where
  "DropIdempotent org ep key = exec (\<lambda>d. d\<lparr>idems :=
      filter (\<lambda>r. \<not> (idemKey r = (org, ep, key) \<and> \<not> id_done r)) (idems d)\<rparr>)"

end
