(* ===== verification/Validate.thy ===== *)
theory Validate
  imports Rbac
begin

text \<open>
  Input validation (\<open>service/validate.go\<close>).  A Go string is its bytes, a HOL \<open>string\<close> its
  characters, so \<open>len\<close> is \<open>length\<close>.  A multi-byte rune has only bytes above 0x7f, hence the
  rune loops that look for ASCII characters are loops over the bytes.  The three regular
  expressions are written out as the languages they denote.  The cleaning of external names
  works on runes (code points), because it truncates by runes.
\<close>

section \<open>Characters\<close>

definition code :: "char \<Rightarrow> nat" where
  "code c = of_char c"

definition isLower :: "char \<Rightarrow> bool" where "isLower c \<longleftrightarrow> 97 \<le> code c \<and> code c \<le> 122"
definition isUpper :: "char \<Rightarrow> bool" where "isUpper c \<longleftrightarrow> 65 \<le> code c \<and> code c \<le> 90"
definition isSlugEnd :: "char \<Rightarrow> bool" where "isSlugEnd c \<longleftrightarrow> isLower c \<or> isDigit c"
definition isAlnum :: "char \<Rightarrow> bool" where "isAlnum c \<longleftrightarrow> isLower c \<or> isUpper c \<or> isDigit c"

definition isControl :: "char \<Rightarrow> bool" where
  "isControl c \<longleftrightarrow> code c < 32 \<or> code c = 127"

text \<open>The class \<open>\s\<close> of Go's regular expressions.\<close>

definition isReSpace :: "char \<Rightarrow> bool" where
  "isReSpace c \<longleftrightarrow> code c \<in> {9, 10, 12, 13, 32}"

section \<open>The regular expressions\<close>

definition edgesAndMiddle :: "(char \<Rightarrow> bool) \<Rightarrow> (char \<Rightarrow> bool) \<Rightarrow> string \<Rightarrow> bool" where
  "edgesAndMiddle edge mid s \<longleftrightarrow>
     2 \<le> length s \<and> length s \<le> 64 \<and> edge (hd s) \<and> edge (last s) \<and> list_all mid (butlast (tl s))"

definition slugRe :: "string \<Rightarrow> bool" where
  "slugRe = edgesAndMiddle isSlugEnd (\<lambda>c. isSlugEnd c \<or> c = CHR ''-'')"

definition loginNameRe :: "string \<Rightarrow> bool" where
  "loginNameRe = edgesAndMiddle isAlnum (\<lambda>c. isAlnum c \<or> c \<in> {CHR ''.'', CHR ''_'', CHR ''-''})"

definition emailRe :: "string \<Rightarrow> bool" where
  "emailRe s \<longleftrightarrow>
     (let local = takeWhile (\<lambda>c. c \<noteq> CHR ''@'') s; dom = tl (dropWhile (\<lambda>c. c \<noteq> CHR ''@'') s)
      in CHR ''@'' \<in> set s \<and> CHR ''@'' \<notin> set dom \<and> list_all (\<lambda>c. \<not> isReSpace c) s \<and> local \<noteq> []
         \<and> CHR ''.'' \<in> set (butlast (tl dom)))"

section \<open>The checks\<close>

definition checkSlug :: "string \<Rightarrow> ('u, unit) op" where
  "checkSlug slug = ensure (slugRe slug) InvalidParam"

definition checkEmail :: "string \<Rightarrow> ('u, unit) op" where
  "checkEmail email = (if length email > 191 then throw InvalidParam else ensure (emailRe email) InvalidParam)"

definition checkLoginName :: "string \<Rightarrow> ('u, unit) op" where
  "checkLoginName val =
     (if length val > 191 then throw InvalidParam
      else if CHR ''@'' \<in> set val then ensure (emailRe val) InvalidParam
      else ensure (loginNameRe val) InvalidParam)"

definition maxNameLen :: nat where "maxNameLen = 128"
definition maxNoteLen :: nat where "maxNoteLen = 512"
definition maxTransferNoLen :: nat where "maxTransferNoLen = 128"
definition maxAdjustQuota :: int where "maxAdjustQuota = 100000000000000"

definition checkLen :: "string \<Rightarrow> nat \<Rightarrow> ('u, unit) op" where
  "checkLen val mx = (if length val > mx then throw InvalidParam else return ())"

definition nameForbidden :: "char \<Rightarrow> bool" where
  "nameForbidden c \<longleftrightarrow> c \<in> {CHR ''<'', CHR ''>'', CHR 0x22, CHR 0x27, CHR 0x60, CHR 0x5C}"

definition checkName :: "string \<Rightarrow> nat \<Rightarrow> ('u, unit) op" where
  "checkName val mx =
     bind (checkLen val mx) (\<lambda>_.
     if list_ex nameForbidden val then throw InvalidParam
     else if list_ex isControl val then throw InvalidParam
     else return ())"

definition textForbidden :: "char \<Rightarrow> bool" where
  "textForbidden c \<longleftrightarrow> c = CHR ''<'' \<or> c = CHR ''>''"

definition textControl :: "char \<Rightarrow> bool" where
  "textControl c \<longleftrightarrow> (code c < 32 \<and> c \<noteq> CHR 0x0A \<and> c \<noteq> CHR 0x09) \<or> code c = 127"

definition checkText :: "string \<Rightarrow> nat \<Rightarrow> ('u, unit) op" where
  "checkText val mx =
     bind (checkLen val mx) (\<lambda>_.
     if list_ex textForbidden val then throw InvalidParam
     else if list_ex textControl val then throw InvalidParam
     else return ())"

section \<open>External names\<close>

text \<open>\<open>unicode.IsSpace\<close>, the width of a rune in UTF-8, and the runes the cleaning removes.\<close>

definition runeSpace :: "nat \<Rightarrow> bool" where
  "runeSpace r \<longleftrightarrow> r \<in> {9, 10, 11, 12, 13, 32, 0x85, 0xA0, 0x1680, 0x2028, 0x2029, 0x202F, 0x205F, 0x3000}
     \<or> (0x2000 \<le> r \<and> r \<le> 0x200A)"

definition runeWidth :: "nat \<Rightarrow> nat" where
  "runeWidth r = (if r < 0x80 then 1 else if r < 0x800 then 2 else if r < 0x10000 then 3 else 4)"

definition runeRemoved :: "nat \<Rightarrow> bool" where
  "runeRemoved r \<longleftrightarrow> r \<in> {0x3C, 0x3E, 0x22, 0x27, 0x60, 0x5C} \<or> r < 0x20 \<or> r = 0x7F"

definition trimRunes :: "nat list \<Rightarrow> nat list" where
  "trimRunes rs = rev (dropWhile runeSpace (rev (dropWhile runeSpace rs)))"

definition sanitizeExternalName :: "nat list \<Rightarrow> nat list" where
  "sanitizeExternalName val =
     (let out = trimRunes (filter (\<lambda>r. \<not> runeRemoved r) val)
      in if length out > maxNameLen then take maxNameLen out else out)"

section \<open>Facts\<close>

lemma wp_checkLen [wp_simps]:
  "wp (checkLen val mx) Q E w = (if length val > mx then E InvalidParam w else Q () w)"
  by (simp add: checkLen_def wp_simps)

definition nameOk :: "string \<Rightarrow> nat \<Rightarrow> bool" where
  "nameOk val mx \<longleftrightarrow> length val \<le> mx \<and> (\<forall>c \<in> set val. \<not> nameForbidden c \<and> \<not> isControl c)"

definition textOk :: "string \<Rightarrow> nat \<Rightarrow> bool" where
  "textOk val mx \<longleftrightarrow> length val \<le> mx \<and> (\<forall>c \<in> set val. \<not> textForbidden c \<and> \<not> textControl c)"

lemma wp_checkName [wp_simps]:
  "wp (checkName val mx) Q E w = (if nameOk val mx then Q () w else E InvalidParam w)"
proof -
  have "nameOk val mx \<longleftrightarrow> length val \<le> mx \<and> \<not> list_ex nameForbidden val \<and> \<not> list_ex isControl val"
    unfolding nameOk_def list_ex_iff by blast
  then show ?thesis by (simp add: checkName_def wp_simps)
qed

lemma wp_checkText [wp_simps]:
  "wp (checkText val mx) Q E w = (if textOk val mx then Q () w else E InvalidParam w)"
proof -
  have "textOk val mx \<longleftrightarrow> length val \<le> mx \<and> \<not> list_ex textForbidden val \<and> \<not> list_ex textControl val"
    unfolding textOk_def list_ex_iff by blast
  then show ?thesis by (simp add: checkText_def wp_simps)
qed

lemma guar_validate [guar_intros]:
  "guarantee R \<Longrightarrow> guar R (checkLen val mx)"
  "guarantee R \<Longrightarrow> guar R (checkName val mx)"
  "guarantee R \<Longrightarrow> guar R (checkText val mx)"
  unfolding checkName_def checkText_def checkLen_def
  by (intro guar_intros guarantee.return guarantee.throw guarantee.bind; assumption)+

lemma set_trimRunes: "set (trimRunes rs) \<subseteq> set rs"
  by (auto simp: trimRunes_def dest!: set_dropWhileD)

lemma sanitize_clean: "r \<in> set (sanitizeExternalName val) \<Longrightarrow> \<not> runeRemoved r"
proof -
  assume "r \<in> set (sanitizeExternalName val)"
  then have "r \<in> set (trimRunes (filter (\<lambda>r. \<not> runeRemoved r) val))"
    by (auto simp: sanitizeExternalName_def Let_def split: if_splits dest: in_set_takeD)
  then have "r \<in> set (filter (\<lambda>r. \<not> runeRemoved r) val)" using set_trimRunes by blast
  then show "\<not> runeRemoved r" by simp
qed

lemma sanitize_length: "length (sanitizeExternalName val) \<le> maxNameLen"
  by (simp add: sanitizeExternalName_def Let_def)

end
