(* ===== verification/GoLib.thy ===== *)
theory GoLib
  imports Prelude
begin

text \<open>
  The parts of Go's standard library whose results decide something: \<open>float64\<close> arithmetic
  (round to nearest, ties to even, 53 bits), \<open>time.Parse(time.RFC3339, s)\<close> with the forms it
  tolerates, and the saturating subtraction of times.  Times are nanoseconds since the epoch.
\<close>

section \<open>\<open>float64\<close>\<close>

text \<open>
  A positive \<open>float64\<close> is a fraction of integers; \<open>fl\<close> rounds a positive fraction to 53
  significant bits.  The values met here are far from the ends of the exponent range.
\<close>

function bitlen :: "int \<Rightarrow> nat" where
  "bitlen n = (if n \<le> 0 then 0 else Suc (bitlen (n div 2)))"
  by auto
termination
  by (relation "measure nat") auto

declare bitlen.simps [simp del]

definition rdiv :: "int \<Rightarrow> int \<Rightarrow> int" where
  "rdiv p q = (let k = p div q; r = p mod q
               in if 2 * r < q \<or> 2 * r = q \<and> even k then k else k + 1)"

definition scale2 :: "int \<Rightarrow> int \<times> int \<Rightarrow> int \<times> int" where
  "scale2 s f = (if 0 \<le> s then (fst f * 2 ^ nat s, snd f) else (fst f, snd f * 2 ^ nat (- s)))"

definition fl :: "int \<times> int \<Rightarrow> int \<times> int" where
  "fl f = (if fst f \<le> 0 then (0, 1)
           else let d = int (bitlen (fst f)) - int (bitlen (snd f));
                    wide = scale2 (53 - d) f;
                    s = (if fst wide < 2 ^ 53 * snd wide then 53 - d else 52 - d);
                    g = scale2 s f
                in scale2 (- s) (rdiv (fst g) (snd g), 1))"

definition trunc :: "int \<times> int \<Rightarrow> int" where
  "trunc f = fst f div snd f"

text \<open>\<open>float64(n)\<close> of an integer, as an integer.\<close>

definition toFloat :: "int \<Rightarrow> int" where
  "toFloat n = (if n < 0 then - trunc (fl (- n, 1)) else trunc (fl (n, 1)))"

lemma bitlen_bounds: "0 < n \<Longrightarrow> 2 ^ (bitlen n - 1) \<le> n \<and> n < 2 ^ bitlen n \<and> 0 < bitlen n"
proof (induction n rule: bitlen.induct)
  case (1 n)
  show ?case
  proof (cases "n = 1")
    case True
    then show ?thesis by (simp add: bitlen.simps)
  next
    case False
    with 1 have "0 < n div 2" "\<not> n \<le> 0" by auto
    with 1(1) have ih: "2 ^ (bitlen (n div 2) - 1) \<le> n div 2" "n div 2 < 2 ^ bitlen (n div 2)" "0 < bitlen (n div 2)"
      by blast+
    have b: "bitlen n = Suc (bitlen (n div 2))" using 1 by (subst bitlen.simps) simp
    obtain k where k: "bitlen (n div 2) = Suc k" using ih(3) by (cases "bitlen (n div 2)") auto
    have n: "n = 2 * (n div 2) + n mod 2" "0 \<le> n mod 2" "n mod 2 < 2" by simp_all
    have "2 ^ k \<le> n div 2" "n div 2 < 2 * 2 ^ k" using ih unfolding k by simp_all
    then have "2 * 2 ^ k \<le> n" "n < 2 * (2 * 2 ^ k)" using n by linarith+
    then show ?thesis unfolding b k by simp
  qed
qed

lemma rdiv_1 [simp]: "rdiv p 1 = p"
  by (simp add: rdiv_def)

lemma rdiv_exact: "0 < q \<Longrightarrow> rdiv (k * q) q = k"
  by (simp add: rdiv_def)

lemma scale2_up: "0 \<le> s \<Longrightarrow> scale2 s (n, 1) = (n * 2 ^ nat s, 1)"
  by (simp add: scale2_def)

lemma scale2_down: "0 \<le> s \<Longrightarrow> scale2 (- s) (m, 1) = (m, 2 ^ nat s)"
  by (simp add: scale2_def)

text \<open>An integer of at most 53 bits is exact.\<close>

lemma toFloat_exact:
  assumes "0 \<le> n" "n < 2 ^ 53"
  shows "toFloat n = n"
proof (cases "n = 0")
  case True
  then show ?thesis by (simp add: toFloat_def fl_def trunc_def)
next
  case False
  let ?b = "bitlen n"
  have pos: "0 < n" using assms False by simp
  have b1: "bitlen 1 = 1" by (simp add: bitlen.simps)
  have bb: "2 ^ (?b - 1) \<le> n" "n < 2 ^ ?b" "0 < ?b" using bitlen_bounds[OF pos] by auto
  have "?b \<le> 53"
  proof (rule ccontr)
    assume "\<not> ?b \<le> 53"
    then have "(2::int) ^ 53 \<le> 2 ^ (?b - 1)" by (intro power_increasing) auto
    also have "\<dots> \<le> n" by (rule bb(1))
    finally show False using assms by simp
  qed
  have core: "fl (n, 1) = scale2 (- s) (rdiv (n * 2 ^ nat s) 1, 1) \<Longrightarrow> 0 \<le> s \<Longrightarrow> trunc (fl (n, 1)) = n" for s
    by (simp add: scale2_down trunc_def)
  have up: "scale2 (53 - (int ?b - int (bitlen 1))) (n, 1) = (n * 2 ^ nat (54 - int ?b), 1)"
    using \<open>?b \<le> 53\<close> by (simp add: scale2_up b1)
  have up': "scale2 (52 - (int ?b - int (bitlen 1))) (n, 1) = (n * 2 ^ nat (53 - int ?b), 1)"
    using \<open>?b \<le> 53\<close> by (simp add: scale2_up b1)
  have "trunc (fl (n, 1)) = n"
  proof (cases "n * 2 ^ nat (54 - int ?b) < 2 ^ 53")
    case True
    then show ?thesis
      using pos up \<open>?b \<le> 53\<close> by (intro core[of "54 - int ?b"]) (simp_all add: fl_def Let_def b1)
  next
    case False
    then show ?thesis
      using pos up up' \<open>?b \<le> 53\<close> by (intro core[of "53 - int ?b"]) (simp_all add: fl_def Let_def b1)
  qed
  then show ?thesis using assms by (simp add: toFloat_def)
qed

section \<open>Dates\<close>

definition dayNs :: int where "dayNs = 86400 * 10 ^ 9"

definition hourNs :: int where "hourNs = 3600 * 10 ^ 9"

definition isLeap :: "int \<Rightarrow> bool" where
  "isLeap y \<longleftrightarrow> y mod 4 = 0 \<and> (y mod 100 \<noteq> 0 \<or> y mod 400 = 0)"

definition daysIn :: "int \<Rightarrow> int \<Rightarrow> int" where
  "daysIn m y = (if m = 2 then (if isLeap y then 29 else 28)
                 else if m \<in> {4, 6, 9, 11} then 30 else 31)"

text \<open>Days since 1970-01-01 in the proleptic Gregorian calendar.\<close>

definition daysFromCivil :: "int \<Rightarrow> int \<Rightarrow> int \<Rightarrow> int" where
  "daysFromCivil y m d =
     (let y' = (if m \<le> 2 then y - 1 else y);
          era = y' div 400; yoe = y' mod 400;
          doy = (153 * (if m > 2 then m - 3 else m + 9) + 2) div 5 + d - 1
      in era * 146097 + (yoe * 365 + yoe div 4 - yoe div 100 + doy) - 719468)"

section \<open>\<open>time.Parse(time.RFC3339, s)\<close>\<close>

definition digit :: "char \<Rightarrow> int option" where
  "digit c = (let n = int (of_char c) in if 48 \<le> n \<and> n \<le> 57 then Some (n - 48) else None)"

text \<open>\<open>getnum(value, fixed)\<close>: two digits, or one when not \<open>fixed\<close>.\<close>

definition getnum :: "bool \<Rightarrow> string \<Rightarrow> (int \<times> string) option" where
  "getnum fixed s =
     (case s of [] \<Rightarrow> None
      | c # cs \<Rightarrow> (case digit c of None \<Rightarrow> None
          | Some a \<Rightarrow> (case cs of [] \<Rightarrow> (if fixed then None else Some (a, []))
              | c' # cs' \<Rightarrow> (case digit c' of
                    None \<Rightarrow> if fixed then None else Some (a, cs)
                  | Some b \<Rightarrow> Some (a * 10 + b, cs')))))"

definition skip :: "char \<Rightarrow> string \<Rightarrow> string option" where
  "skip c s = (case s of [] \<Rightarrow> None | x # xs \<Rightarrow> if x = c then Some xs else None)"

definition year4 :: "string \<Rightarrow> (int \<times> string) option" where
  "year4 s = (let p = take 4 s
              in if length p = 4 \<and> list_all (\<lambda>c. digit c \<noteq> None) p
                 then Some (int (undigits p), drop 4 s) else None)"

text \<open>A fraction of a second that the layout does not name; digits after the ninth are dropped.\<close>

definition fraction :: "string \<Rightarrow> int \<times> string" where
  "fraction s =
     (case s of
        p # c # cs \<Rightarrow>
          if (p = CHR ''.'' \<or> p = CHR '','') \<and> digit c \<noteq> None then
            let ds = takeWhile (\<lambda>x. digit x \<noteq> None) (c # cs);
                nine = take 9 ds
            in (int (undigits nine) * 10 ^ (9 - length nine), drop (length ds) (c # cs))
          else (0, s)
      | _ \<Rightarrow> (0, s))"

text \<open>The zone \<open>Z\<close> or \<open>+hh:mm\<close>, in seconds east of UTC; nothing may follow it.\<close>

definition zone :: "string \<Rightarrow> int option" where
  "zone s =
     (if s = ''Z'' then Some 0
      else if length s \<noteq> 6 \<or> s ! 3 \<noteq> CHR '':'' then None
      else case (getnum True (take 2 (drop 1 s)), getnum True (take 2 (drop 4 s))) of
             (Some (hr, _), Some (mm, _)) \<Rightarrow>
               if hr > 24 \<or> mm > 60 then None
               else if s ! 0 = CHR ''+'' then Some ((hr * 60 + mm) * 60)
               else if s ! 0 = CHR ''-'' then Some (- ((hr * 60 + mm) * 60))
               else None
           | _ \<Rightarrow> None)"

definition obind :: "'a option \<Rightarrow> ('a \<Rightarrow> 'b option) \<Rightarrow> 'b option" where
  "obind x f = (case x of None \<Rightarrow> None | Some a \<Rightarrow> f a)"

definition parseRFC3339 :: "string \<Rightarrow> int option" where
  "parseRFC3339 s =
     obind (year4 s) (\<lambda>(y, s). obind (skip (CHR ''-'') s) (\<lambda>s.
     obind (getnum True s) (\<lambda>(mo, s). obind (skip (CHR ''-'') s) (\<lambda>s.
     obind (getnum True s) (\<lambda>(d, s). obind (skip (CHR ''T'') s) (\<lambda>s.
     obind (getnum False s) (\<lambda>(h, s). obind (skip (CHR '':'') s) (\<lambda>s.
     obind (getnum True s) (\<lambda>(mi, s). obind (skip (CHR '':'') s) (\<lambda>s.
     obind (getnum True s) (\<lambda>(se, s).
     let (ns, s) = fraction s
     in obind (zone s) (\<lambda>off.
        if mo < 1 \<or> 12 < mo \<or> d < 1 \<or> daysIn mo y < d \<or> 23 < h \<or> 59 < mi \<or> 59 < se then None
        else Some ((daysFromCivil y mo d * 86400 + h * 3600 + mi * 60 + se - off) * 10 ^ 9 + ns)))))))))))))"

text \<open>\<open>t.Sub(u)\<close> saturates at the ends of \<open>Duration\<close>.\<close>

definition subTime :: "int \<Rightarrow> int \<Rightarrow> int" where
  "subTime t u = max (- (2 ^ 63)) (min (2 ^ 63 - 1) (t - u))"

text \<open>\<open>int(d.Hours()/24)\<close> for a duration in nanoseconds.\<close>

definition hoursOver24 :: "int \<Rightarrow> int" where
  "hoursOver24 d =
     (if d \<le> 0 then - ((- d) div dayNs)
      else let a = fl (d mod hourNs, hourNs);
               b = fl (fst a + (d div hourNs) * snd a, snd a)
           in trunc (fl (fst b, snd b * 24)))"

end
