(* ===== verification/Quota.thy ===== *)
theory Quota
  imports StoreMember Validate GoLib
begin

text \<open>
  Quotas (\<open>service/quota.go\<close>, \<open>service/worker_ops.go\<close>): the quota a member is entitled to, the one
  operation that writes it to the member's new-api token under the organization's lock, the
  temporary grants that change it, and the state changes of members.
\<close>

section \<open>The quota a member is entitled to\<close>

text \<open>\<open>orgPeriod\<close>, \<open>explicitOverride\<close>, \<open>tierPeriodLimit\<close>.\<close>

definition orgPeriod :: "quota_policy list \<Rightarrow> string" where
  "orgPeriod ps = (case find (\<lambda>p. q_scope p = ''org'' \<and> q_period p \<noteq> '''') ps of
      Some p \<Rightarrow> q_period p | None \<Rightarrow> ''monthly'')"

definition explicitOverride :: "quota_policy list \<Rightarrow> int \<Rightarrow> int option \<Rightarrow> int option" where
  "explicitOverride ps mem tm =
     (case find (\<lambda>p. q_scope p = ''member'' \<and> q_scope_id p = mem \<and> q_status p = ''active'') ps of
        Some p \<Rightarrow> Some (q_limit p)
      | None \<Rightarrow> (case tm of None \<Rightarrow> None
          | Some t \<Rightarrow> map_option q_limit
              (find (\<lambda>p. q_scope p = ''team'' \<and> q_scope_id p = t \<and> q_status p = ''active'') ps)))"

definition firstSome :: "'a option list \<Rightarrow> 'a option" where
  "firstSome xs = (case find (\<lambda>x. x \<noteq> None) xs of None \<Rightarrow> None | Some x \<Rightarrow> x)"

definition tierPeriodLimit :: "tier \<Rightarrow> string \<Rightarrow> int option" where
  "tierPeriodLimit t period =
     firstSome [if period = ''daily'' then tr_daily t else if period = ''weekly'' then tr_weekly t else tr_monthly t,
                tr_monthly t, tr_weekly t, tr_daily t]"

definition resolveBaseQuota :: "member \<Rightarrow> ('u, int) op" where
  "resolveBaseQuota m =
     bind (ListQuotaPolicies (m_org m)) (\<lambda>ps.
     case explicitOverride ps (m_id m) (m_team m) of
       Some lim \<Rightarrow> return lim
     | None \<Rightarrow>
     bind (case (m_tier m, m_team m) of
             (None, Some t) \<Rightarrow> bind (attempt (GetTeam (m_org m) t))
                (\<lambda>r. return (case r of Inr tm \<Rightarrow> t_default_tier tm | Inl _ \<Rightarrow> None))
           | (tid, _) \<Rightarrow> return tid) (\<lambda>tid1.
     bind (case tid1 of None \<Rightarrow> bind (GetOrganization (m_org m)) (\<lambda>o'. return (o_default_tier o'))
           | Some t \<Rightarrow> return (Some t)) (\<lambda>tid2.
     case tid2 of
       None \<Rightarrow> throw Internal
     | Some t \<Rightarrow>
     bind (GetTier (m_org m) t) (\<lambda>tr.
     case tierPeriodLimit tr (orgPeriod ps) of
       None \<Rightarrow> throw Internal
     | Some lim \<Rightarrow> return lim))))"

text \<open>The sum is an \<open>int64\<close> that wraps; a negative result is clamped to 0.\<close>

definition addGrants :: "int \<Rightarrow> grant list \<Rightarrow> int" where
  "addGrants base gs = fold (\<lambda>g a. i64 (a + gp_delta (g_payload g))) gs base"

definition computeOverride :: "member \<Rightarrow> ('u, int) op" where
  "computeOverride m =
     bind (resolveBaseQuota m) (\<lambda>base.
     bind (ListActiveQuotaGrants (m_org m) (m_id m)) (\<lambda>gs.
     let ov = addGrants base gs in return (if ov < 0 then 0 else ov)))"

definition gateByOrgStatus :: "'u service \<Rightarrow> int \<Rightarrow> int \<Rightarrow> ('u, int) op" where
  "gateByOrgStatus S org ov =
     (if sv_observe S then return ov
      else bind (GetOrganization org) (\<lambda>o'.
        if o_status o' \<noteq> OrgStatusStopped then return ov
        else bind (GetOrgBillingFlags org) (\<lambda>(_, hard).
          if hard then return 0 else return ov)))"

section \<open>Writing it\<close>

definition quotaLockKey :: "int \<Rightarrow> string" where
  "quotaLockKey org = ''quota-override:org:'' @ itoa org"

definition deriveTokenName :: "int \<Rightarrow> int \<Rightarrow> string" where
  "deriveTokenName mem rot = ''nexus_m'' @ itoa mem @ ''_v'' @ itoa rot"

definition memberTokenGroup :: "member \<Rightarrow> string" where
  "memberTokenGroup m = (case m_group m of Some g \<Rightarrow> if g \<noteq> '''' then g else ''default'' | None \<Rightarrow> ''default'')"

definition overrideSpec :: "member \<Rightarrow> int \<Rightarrow> token_spec" where
  "overrideSpec m final = \<lparr> ts_name = deriveTokenName (m_id m) (m_rotation m), ts_quota = final,
     ts_unlimited = False, ts_models = [], ts_group = memberTokenGroup m, ts_expired = -1, ts_ips = '''' \<rparr>"

definition applyMemberOverride :: "'u service \<Rightarrow> member \<Rightarrow> ('u, int) op" where
  "applyMemberOverride S m =
     withLock internal (quotaLockKey (m_org m)) (
     bind (computeOverride m) (\<lambda>ov.
     bind (gateByOrgStatus S (m_org m) ov) (\<lambda>final.
     if sv_observe S then return final
     else case m_token m of
       None \<Rightarrow> return final
     | Some tok \<Rightarrow>
         bind (mapErr mapUpstream (withOrgCred S (m_org m)
                (\<lambda>cred. upcall (na_UpdateToken (sv_up S) cred tok (overrideSpec m final))))) (\<lambda>_.
         return final))))"

text \<open>\<open>convergeOrgQuotas\<close> (\<open>service/settlement.go\<close>): every member who has a token, errors logged.\<close>

definition convergeOrgQuotas :: "'u service \<Rightarrow> int \<Rightarrow> ('u, unit) op" where
  "convergeOrgQuotas S org =
     bind (attempt (ListActiveOverridableMembers org)) (\<lambda>r. case r of
       Inl _ \<Rightarrow> return ()
     | Inr ms \<Rightarrow>
         bind (foreach ms (\<lambda>m. ignoreErr (applyMemberOverride S m))) (\<lambda>_.
         auditSystem org ''converge_quota'' ''organization'' (Some org) [(''members'', JInt (int (length ms)))] ''ok''))"

section \<open>Managing members\<close>

definition loadManageableMember :: "claims \<Rightarrow> int \<Rightarrow> int \<Rightarrow> ('u, member) op" where
  "loadManageableMember c org mem =
     bind (assertOrgScope c org) (\<lambda>_.
     bind (assertRole c [RoleOrgAdmin, RoleTeamLeader]) (\<lambda>_.
     bind (mapErr notFoundOrInternal (GetMember org mem)) (\<lambda>m.
     bind (guard_when (cl_role c = RoleTeamLeader) (assertTeamScope c (m_team m))) (\<lambda>_.
     if m_bootstrap m \<noteq> BootstrapDone then throw err409 else return m))))"

definition durationToExpiry :: "string \<Rightarrow> int \<Rightarrow> int option" where
  "durationToExpiry dur now =
     (if dur = ''today'' \<or> dur = '''' then Some ((now div dayNs + 1) * dayNs)
      else if dur = ''3d'' then Some (now + 72 * hourNs)
      else if dur = ''week'' then Some (now + 7 * dayNs)
      else case parseRFC3339 dur of Some t \<Rightarrow> if t > now then Some t else None | None \<Rightarrow> None)"

definition optStr :: "string \<Rightarrow> string option" where
  "optStr s = (if s = '''' then None else Some s)"

definition AdjustQuota :: "'u service \<Rightarrow> claims \<Rightarrow> int \<Rightarrow> int \<Rightarrow> int \<Rightarrow> string \<Rightarrow> string \<Rightarrow> ('u, int \<times> int \<times> int) op" where
  "AdjustQuota S c org mem delta dur reason =
     (if delta = 0 then throw InvalidParam
      else if delta > maxAdjustQuota \<or> delta < - maxAdjustQuota then throw InvalidParam
      else
      bind (checkText reason maxNoteLen) (\<lambda>_.
      bind (loadManageableMember c org mem) (\<lambda>m.
      bind clock (\<lambda>now.
      case durationToExpiry dur now of None \<Rightarrow> throw InvalidParam | Some expire \<Rightarrow>
      bind (mapErr internal (CreateGrant \<lparr> g_id = 0, g_org = org, g_member = mem,
              g_type = (if delta < 0 then GrantQuotaSub else GrantQuotaAdd),
              g_payload = \<lparr> gp_delta = delta, gp_duration = dur, gp_model = '''' \<rparr>,
              g_reason = optStr reason, g_operator = actorOf c, g_expire = expire,
              g_status = GrantStatusActive, g_reverted = None \<rparr>)) (\<lambda>gid.
      bind (applyMemberOverride S m) (\<lambda>cap.
      bind (audit c org ''adjust_quota'' ''member'' (Some mem) [(''delta'', JInt delta),
              (''duration'', JStr dur), (''new_cap'', JInt cap), (''grant_id'', JInt gid)]) (\<lambda>_.
      return (cap, gid, expire))))))))"

definition SetTempPermission :: "'u service \<Rightarrow> claims \<Rightarrow> int \<Rightarrow> int \<Rightarrow> grant_type \<Rightarrow> string \<Rightarrow> int \<Rightarrow> string \<Rightarrow> ('u, grant) op" where
  "SetTempPermission S c org mem ty model expire reason =
     bind (loadManageableMember c org mem) (\<lambda>_.
     if ty \<noteq> GrantAccountTTL \<and> ty \<noteq> GrantModelAdd then throw InvalidParam
     else bind clock (\<lambda>now.
     if expire < now then throw InvalidParam
     else if ty = GrantModelAdd \<and> model = '''' then throw InvalidParam
     else
     bind (mapErr internal (CreateGrant \<lparr> g_id = 0, g_org = org, g_member = mem, g_type = ty,
             g_payload = \<lparr> gp_delta = 0, gp_duration = '''', gp_model = model \<rparr>,
             g_reason = optStr reason, g_operator = actorOf c, g_expire = expire,
             g_status = GrantStatusActive, g_reverted = None \<rparr>)) (\<lambda>gid.
     bind (audit c org ''set_temp_permission'' ''member'' (Some mem)
             [(''type'', JGrant ty), (''model'', JStr model), (''expire_at'', JInt expire)]) (\<lambda>_.
     GetGrant org gid))))"

definition ListGrants :: "claims \<Rightarrow> int \<Rightarrow> int \<Rightarrow> nat \<Rightarrow> nat \<Rightarrow> ('u, grant list \<times> nat) op" where
  "ListGrants c org mem limit offset =
     bind (loadManageableMember c org mem) (\<lambda>_. ListGrantsByMember org mem limit offset)"

definition errOptimistic409 :: err where "errOptimistic409 = newErr 20904 409"

definition RevokeGrant :: "'u service \<Rightarrow> claims \<Rightarrow> int \<Rightarrow> int \<Rightarrow> ('u, unit) op" where
  "RevokeGrant S c org gid =
     bind (mapErr notFoundOrInternal (GetGrant org gid)) (\<lambda>g.
     bind (loadManageableMember c org (g_member g)) (\<lambda>m.
     if g_status g \<noteq> GrantStatusActive then throw err409
     else
     bind (mapErr internal (MarkGrantReverted gid GrantStatusRevoked)) (\<lambda>marked.
     if \<not> marked then throw errOptimistic409
     else
     bind (guard_when (isQuotaGrant g) (bind (applyMemberOverride S m) (\<lambda>_. return ()))) (\<lambda>_.
     audit c org ''revoke_grant'' ''member'' (Some (g_member g)) [(''grant_id'', JInt gid), (''type'', JGrant (g_type g))]))))"

definition SetMemberStatus :: "'u service \<Rightarrow> claims \<Rightarrow> int \<Rightarrow> int \<Rightarrow> bool \<Rightarrow> ('u, unit) op" where
  "SetMemberStatus S c org mem enabled =
     bind (loadManageableMember c org mem) (\<lambda>m.
     bind (case m_token m of None \<Rightarrow> return ()
           | Some tok \<Rightarrow> mapErr mapUpstream (withOrgCred S org
               (\<lambda>cred. upcall (na_SetTokenStatus (sv_up S) cred tok enabled)))) (\<lambda>_.
     bind (mapErr internal (UpdateMemberStatus org mem
             (if enabled then MemberStatusActive else MemberStatusDisabled))) (\<lambda>_.
     bind (mapErr internal (BumpMemberSessionEpoch org mem)) (\<lambda>_.
     audit c org ''set_member_status'' ''member'' (Some mem) [(''enabled'', JBool enabled)]))))"

definition OffboardMember :: "'u service \<Rightarrow> claims \<Rightarrow> int \<Rightarrow> int \<Rightarrow> ('u, unit) op" where
  "OffboardMember S c org mem =
     bind (loadManageableMember c org mem) (\<lambda>m.
     bind (case m_token m of None \<Rightarrow> return ()
           | Some tok \<Rightarrow> mapErr mapUpstream (withOrgCred S org
               (\<lambda>cred. upcall (na_DeleteToken (sv_up S) cred tok)))) (\<lambda>_.
     bind (mapErr internal (OffboardMemberRow org mem)) (\<lambda>_.
     audit c org ''offboard_member'' ''member'' (Some mem) [])))"

definition RestoreOffboardedMember :: "claims \<Rightarrow> int \<Rightarrow> int \<Rightarrow> ('u, unit) op" where
  "RestoreOffboardedMember c org mem =
     bind (assertOrgScope c org) (\<lambda>_.
     bind (assertRole c [RoleOperator, RoleOrgAdmin]) (\<lambda>_.
     bind (mapErr internal (RestoreOffboardedMemberRow org mem)) (\<lambda>_.
     audit c org ''restore_member'' ''member'' (Some mem) [])))"

definition ListOffboardedMembers :: "claims \<Rightarrow> int \<Rightarrow> nat \<Rightarrow> nat \<Rightarrow> ('u, member list \<times> nat) op" where
  "ListOffboardedMembers c org limit offset =
     bind (assertOrgScope c org) (\<lambda>_.
     bind (assertRole c [RoleOperator, RoleOrgAdmin, RoleTeamLeader]) (\<lambda>_.
     ListOffboardedMembersRepo org limit offset))"

section \<open>The expiry of grants\<close>

definition reverseGrant :: "'u service \<Rightarrow> grant \<Rightarrow> ('u, unit) op" where
  "reverseGrant S g =
     bind (attempt (GetMember (g_org g) (g_member g))) (\<lambda>r. case r of
       Inl e \<Rightarrow> if errorsIs e ErrNotFound then return () else throw e
     | Inr m \<Rightarrow>
     (case g_type g of
        GrantAccountTTL \<Rightarrow>
          bind (case m_token m of None \<Rightarrow> return ()
                | Some tok \<Rightarrow>
                    bind (mapErr mapUpstream (withOrgCred S (g_org g)
                       (\<lambda>cred. upcall (na_DeleteToken (sv_up S) cred tok)))) (\<lambda>_.
                    ClearMemberToken (g_org g) (g_member g))) (\<lambda>_.
          UpdateMemberStatus (g_org g) (g_member g) MemberStatusExpired)
      | GrantModelAdd \<Rightarrow> return ()
      | _ \<Rightarrow> (case m_token m of None \<Rightarrow> return ()
              | Some _ \<Rightarrow> bind (applyMemberOverride S m) (\<lambda>_. return ()))))"

definition ReverseExpiredGrants :: "'u service \<Rightarrow> nat \<Rightarrow> ('u, nat) op" where
  "ReverseExpiredGrants S limit =
     (if sv_observe S then return 0
      else
      bind clock (\<lambda>now.
      bind (ListExpiredActiveGrants now (if limit = 0 then 100 else limit)) (\<lambda>gs.
      foldM (\<lambda>g n.
        bind (attempt (MarkGrantReverted (g_id g) GrantStatusExpired)) (\<lambda>mr. case mr of
          Inl _ \<Rightarrow> return n
        | Inr marked \<Rightarrow>
          if \<not> marked then return n
          else
          bind (attempt (reverseGrant S g)) (\<lambda>rr. case rr of
            Inl _ \<Rightarrow> bind (auditSystem (g_org g) ''grant_expire_revert'' ''member'' (Some (g_member g))
                       [(''grant_id'', JInt (g_id g)), (''type'', JGrant (g_type g)), (''result'', JStr ''failed'')] ''failed'') (\<lambda>_. return n)
          | Inr _ \<Rightarrow> bind (auditSystem (g_org g) ''grant_expire_revert'' ''member'' (Some (g_member g))
                       [(''grant_id'', JInt (g_id g)), (''type'', JGrant (g_type g))] ''ok'') (\<lambda>_. return (n + 1))))) gs 0)))"

end
