(* ===== verification/OrgStatus.thy ===== *)
theory OrgStatus
  imports Quota
begin

text \<open>
  The service state of an organization as a function of its balance
  (\<open>recomputeOrgStatus\<close> in \<open>service/billing.go\<close>).
\<close>

definition statusTarget :: "balance \<Rightarrow> org_status" where
  "statusTarget b = (if b_balance b \<le> 0 then OrgStatusStopped
     else if b_low_watermark b > 0 \<and> b_balance b \<le> b_low_watermark b then OrgStatusLow
     else OrgStatusActive)"

definition recomputeOrgStatus :: "'u service \<Rightarrow> int \<Rightarrow> balance \<Rightarrow> ('u, unit) op" where
  "recomputeOrgStatus S org b =
     (let target = statusTarget b
      in bind (GetOrganization org) (\<lambda>o'.
         if o_status o' = OrgStatusHardStopped then return ()
         else if o_status o' = target then return ()
         else
         bind (UpdateOrgStatus org target) (\<lambda>_.
         bind (attempt (GetOrgBillingFlags org)) (\<lambda>fr.
         let hardStop = (case fr of Inr (_, h) \<Rightarrow> h | Inl _ \<Rightarrow> False)
         in bind (guard_when (hardStop \<and> (target = OrgStatusStopped \<or> o_status o' = OrgStatusStopped))
                   (convergeOrgQuotas S org)) (\<lambda>_.
            auditSystem org ''org_status_change'' ''organization'' (Some org)
              [(''from'', JOrgStatus (o_status o')), (''to'', JOrgStatus target), (''balance'', JInt (b_balance b)),
               (''hard_stop'', JStr (if hardStop then ''enabled'' else ''disabled''))] ''ok'')))))"

end
