(* ===== verification/Frames.thy ===== *)
theory Frames
  imports OrgStatus
begin

text \<open>
  What the operations on credentials, quotas and organization states can touch: of the organization
  rows the status and the new-api user with its credentials, and that user only once.  A relation
  between databases that ignores such edits, the audit trail and the notifications is kept by all of
  them, whatever new-api answers and wherever a statement fails.
\<close>

definition credEdit :: "organization \<Rightarrow> organization \<Rightarrow> bool" where
  "credEdit o1 o2 \<longleftrightarrow> o2\<lparr>o_status := o_status o1, o_newapi_user := o_newapi_user o1, o_newapi_username := o_newapi_username o1,
       o_access_token_enc := o_access_token_enc o1, o_password_enc := o_password_enc o1\<rparr> = o1
     \<and> (o_newapi_user o1 = None \<or> o_newapi_user o2 = o_newapi_user o1)"

definition credEdits :: "organization list \<Rightarrow> organization list \<Rightarrow> bool" where
  "credEdits os os' \<longleftrightarrow> list_all2 credEdit os os'"

lemma credEdit_refl [simp]: "credEdit o1 o1"
  by (simp add: credEdit_def)

lemma credEdit_trans: "credEdit a b \<Longrightarrow> credEdit b c \<Longrightarrow> credEdit a c"
  by (cases a; cases b; cases c) (auto simp: credEdit_def)

lemma credEdits_refl [simp]: "credEdits os os"
  by (simp add: credEdits_def list.rel_refl)

lemma credEdits_trans: "credEdits a b \<Longrightarrow> credEdits b c \<Longrightarrow> credEdits a c"
  unfolding credEdits_def by (rule list_all2_trans[where ?P1.0 = credEdit]) (auto intro: credEdit_trans)

lemma credEdits_map: "(\<And>o'. credEdit o' (f o')) \<Longrightarrow> credEdits os (map f os)"
  by (simp add: credEdits_def list.rel_map list.rel_refl)

locale cred_frame = log_frame +
  assumes cred_free: "credEdits (orgs d) x \<Longrightarrow> D d (d\<lparr>orgs := x\<rparr>)"
begin

lemma bind' [guar_intros]:
  fixes m :: "('v, 'a) op" and f :: "'a \<Rightarrow> ('v, 'b) op"
  shows "guar (onDb D) m \<Longrightarrow> (\<And>a. guar (onDb D) (f a)) \<Longrightarrow> guar (onDb D) (bind m f)"
  by (rule guarantee.bind[OF guarantee_onDb])

lemma basics [guar_intros]:
  "guar (onDb D) (return a :: ('v, 'a) op)" "guar (onDb D) (throw e :: ('v, 'a) op)"
  "guar (onDb D) (gets h :: ('v, 'a) op)" "guar (onDb D) (ensure b e :: ('v, unit) op)"
  "guar (onDb D) (m :: ('v, unit) op) \<Longrightarrow> guar (onDb D) (guard_when b m)"
  "guar (onDb D) (m' :: ('v, 'a) op) \<Longrightarrow> guar (onDb D) (ignoreErr m')"
  by (fact guarantee.return[OF guarantee_onDb] guarantee.throw[OF guarantee_onDb]
      guarantee.gets[OF guarantee_onDb] guarantee.ensure[OF guarantee_onDb]
      guarantee.guard_when[OF guarantee_onDb] guarantee.ignoreErr[OF guarantee_onDb])+

lemma loops [guar_intros]:
  "(\<And>x. guar (onDb D) (f x :: ('v, unit) op)) \<Longrightarrow> guar (onDb D) (foreach xs f)"
  "(\<And>x a. guar (onDb D) (g x a :: ('v, 'a) op)) \<Longrightarrow> guar (onDb D) (foldM g xs a)"
  by (fact guarantee.foreach[OF guarantee_onDb] guarantee.foldM[OF guarantee_onDb])+

lemma updOrg_cred: "(\<And>o'. credEdit o' (g o')) \<Longrightarrow> D d (updOrg i g d)"
  unfolding updOrg_def by (intro cred_free credEdits_map) simp

lemma org_rows [guar_intros]:
  "guar (onDb D) (GetOrganization org :: ('v, organization) op)"
  "guar (onDb D) (GetOrgNewapiCred org :: ('v, (int \<times> string) option) op)"
  "guar (onDb D) (GetOrgNewapiPassword org :: ('v, string) op)"
  "guar (onDb D) (GetOrgBillingFlags org :: ('v, bool \<times> bool) op)"
  "guar (onDb D) (UpdateOrgAccessToken org enc :: ('v, unit) op)"
  "guar (onDb D) (UpdateOrgStatus org st :: ('v, unit) op)"
  unfolding GetOrganization_def GetOrgNewapiCred_def GetOrgNewapiPassword_def GetOrgBillingFlags_def
    UpdateOrgAccessToken_def UpdateOrgStatus_def
  by (intro getRow exec updOrg_cred; simp add: credEdit_def)+

lemma SetOrgNewapiUser [guar_intros]:
  "guar (onDb D) (SetOrgNewapiUser i uid un tok pw :: ('v, bool) op)"
  unfolding SetOrgNewapiUser_def
  by (intro guar_mapErr stmt) (auto simp: setOrgUser_def Let_def db_refl credEdit_def intro!: cred_free credEdits_map)

lemma decryptToken [guar_intros]: "guar (onDb D) (decryptToken S enc :: ('v, string) op)"
  unfolding decryptToken_def by (intro guar_intros)

lemma loadOrgCred [guar_intros]: "guar (onDb D) (loadOrgCred S org :: ('v, cred option) op)"
  unfolding loadOrgCred_def by (intro guar_intros)

lemma orgCred [guar_intros]: "guar (onDb D) (orgCred S org :: ('v, cred) op)"
  unfolding orgCred_def by (intro guar_intros)

lemma orgUserGroup [guar_intros]: "guar (onDb D) (orgUserGroup org :: ('v, string) op)"
  unfolding orgUserGroup_def by (intro guar_intros)

lemma orgNewapiUsername [guar_intros]: "guar (onDb D) (orgNewapiUsername org :: ('v, string) op)"
  unfolding orgNewapiUsername_def by (intro guar_intros)

lemma ensureWalletOnly [guar_intros]: "guar (onDb D) (ensureWalletOnly S org c :: ('v, unit) op)"
  unfolding ensureWalletOnly_def by (intro guar_intros)

lemma bootstrapAttempts [guar_intros]:
  "guar (onDb D) (bootstrapAttempts S org nm pw k :: ('v, string \<times> boot_result) op)"
proof (induction k)
  case 0
  show ?case by (simp add: basics)
next
  case (Suc k)
  show ?case unfolding bootstrapAttempts.simps Let_def
    by (intro guar_intros Suc.IH)
qed

lemma EnsureOrgProvisioned [guar_intros]: "guar (onDb D) (EnsureOrgProvisioned S org nm :: ('v, cred) op)"
  unfolding EnsureOrgProvisioned_def Let_def by (intro guar_intros)

lemma EnsureFreshCred [guar_intros]: "guar (onDb D) (EnsureFreshCred S org :: ('v, cred) op)"
  unfolding EnsureFreshCred_def by (intro guar_intros)

lemma withOrgCred [guar_intros]:
  "(\<And>c. guar (onDb D) (fn c)) \<Longrightarrow> guar (onDb D) (withOrgCred S org fn :: ('v, 'a) op)"
  unfolding withOrgCred_def by (intro guar_intros | assumption)+

lemma resolveBaseQuota [guar_intros]: "guar (onDb D) (resolveBaseQuota m :: ('v, int) op)"
  unfolding resolveBaseQuota_def ListQuotaPolicies_def GetTeam_def GetTier_def by (intro guar_intros)

lemma computeOverride [guar_intros]: "guar (onDb D) (computeOverride m :: ('v, int) op)"
  unfolding computeOverride_def ListActiveQuotaGrants_def Let_def by (intro guar_intros)

lemma gateByOrgStatus [guar_intros]: "guar (onDb D) (gateByOrgStatus S org ov :: ('v, int) op)"
  unfolding gateByOrgStatus_def by (intro guar_intros)

lemma applyMemberOverride [guar_intros]: "guar (onDb D) (applyMemberOverride S m :: ('v, int) op)"
  unfolding applyMemberOverride_def by (intro guar_intros)

lemma convergeOrgQuotas [guar_intros]: "guar (onDb D) (convergeOrgQuotas S org :: ('v, unit) op)"
  unfolding convergeOrgQuotas_def ListActiveOverridableMembers_def by (intro guar_intros)

lemma recomputeOrgStatus [guar_intros]: "guar (onDb D) (recomputeOrgStatus S org b :: ('v, unit) op)"
  unfolding recomputeOrgStatus_def Let_def by (intro guar_intros)

end

text \<open>A relation may ignore the organization rows altogether.\<close>

locale org_frame = log_frame +
  assumes orgs_free: "D d (d\<lparr>orgs := x\<rparr>)"

sublocale org_frame \<subseteq> cred_frame
  by unfold_locales (rule orgs_free)

end
