(* ===== verification/StoreUsage.thy ===== *)
theory StoreUsage
  imports StoreMember
begin

text \<open>
  The usage tables: the settlement cursor, the hourly ledger and the per-call detail
  (\<open>repo/settlement.go\<close>, \<open>repo/usage_report.go\<close>) and the backfill jobs (\<open>repo/backfill.go\<close>).
  The ledger is additive per (organization, upstream user, key, model, hour); the detail is
  unique per upstream log identifier and inserted with \<open>INSERT IGNORE\<close>.
\<close>

section \<open>Cursor\<close>

definition findCursor :: "int \<Rightarrow> db \<Rightarrow> cursor option" where
  "findCursor org d = find (\<lambda>c. c_org c = org) (cursors d)"

definition zeroCursor :: "int \<Rightarrow> cursor" where
  "zeroCursor org = \<lparr> c_org = org, c_ts = 0, c_log_id = 0, c_version = 0 \<rparr>"

definition insertCursor :: "int \<Rightarrow> db \<Rightarrow> (err + unit) \<times> db" where
  "insertCursor org d =
     (if findCursor org d = None then (Inr (), d\<lparr>cursors := cursors d @ [zeroCursor org]\<rparr>)
      else (Inl (SqlError 1062), d))"

definition GetOrCreateCursor :: "int \<Rightarrow> ('u, cursor) op" where
  "GetOrCreateCursor org =
     bind (attempt (queryRow (findCursor org))) (\<lambda>r. case r of
       Inr c \<Rightarrow> return c
     | Inl e \<Rightarrow>
         if e \<noteq> NoRows then throw e
         else bind (attempt (stmt (insertCursor org))) (\<lambda>ir. case ir of
                Inl ie \<Rightarrow> if \<not> isDupKey ie then throw ie else return (zeroCursor org)
              | Inr _ \<Rightarrow> return (zeroCursor org)))"

definition advanceCursor :: "int \<Rightarrow> int \<Rightarrow> int \<Rightarrow> int \<Rightarrow> db \<Rightarrow> nat \<times> db" where
  "advanceCursor org ts lid ver d =
     (let hit = (\<lambda>c. c_org c = org \<and> c_version c = ver)
      in (length (filter hit (cursors d)),
          d\<lparr>cursors := map (\<lambda>c. if hit c then c\<lparr>c_ts := max (c_ts c) ts, c_log_id := max (c_log_id c) lid,
                                      c_version := c_version c + 1\<rparr> else c) (cursors d)\<rparr>))"

definition AdvanceCursorTx :: "int \<Rightarrow> int \<Rightarrow> int \<Rightarrow> int \<Rightarrow> ('u, bool) op" where
  "AdvanceCursorTx org ts lid ver =
     bind (stmt (\<lambda>d. case advanceCursor org ts lid ver d of (n, d') \<Rightarrow> (Inr n, d'))) (\<lambda>n. return (n = 1))"

section \<open>Ledger\<close>

definition sameBucket :: "ledger_row \<Rightarrow> ledger_row \<Rightarrow> bool" where
  "sameBucket a b \<longleftrightarrow> l_org a = l_org b \<and> l_user a = l_user b \<and> l_key a = l_key b
     \<and> l_model a = l_model b \<and> l_bucket a = l_bucket b"

definition addToLedger :: "ledger_row \<Rightarrow> db \<Rightarrow> (err + unit) \<times> db" where
  "addToLedger b d =
     (case find (sameBucket b) (ledger d) of
        None \<Rightarrow> (Inr (), d\<lparr>ledger := ledger d @ [b]\<rparr>)
      | Some r \<Rightarrow>
          if fits64 (l_consumed r + l_consumed b) then
            (Inr (), d\<lparr>ledger := map (\<lambda>x. if sameBucket b x
               then x\<lparr>l_consumed := l_consumed x + l_consumed b, l_max_ts := max (l_max_ts x) (l_max_ts b)\<rparr>
               else x) (ledger d)\<rparr>)
          else (Inl (SqlError 1690), d))"

definition AddToLedgerBucketTx :: "ledger_row \<Rightarrow> ('u, unit) op" where
  "AddToLedgerBucketTx b = stmt (addToLedger b)"

definition SumMemberModelToday :: "int \<Rightarrow> int \<Rightarrow> string \<Rightarrow> int \<Rightarrow> ('u, int) op" where
  "SumMemberModelToday org mem model since = query (\<lambda>d. sumBy l_consumed (filter (\<lambda>l. l_org l = org
      \<and> l_member l = mem \<and> l_model l = model \<and> l_bucket l \<ge> since) (ledger d)))"

text \<open>\<open>SELECT org_id, SUM(consumed_quota) ... GROUP BY org_id\<close>.\<close>

definition groupByOrg :: "ledger_row list \<Rightarrow> (int \<times> int) list" where
  "groupByOrg rows = map (\<lambda>org. (org, sumBy l_consumed (filter (\<lambda>l. l_org l = org) rows))) (remdups (map l_org rows))"

definition SumLedgerByOrgForBucket :: "int \<Rightarrow> ('u, (int \<times> int) list) op" where
  "SumLedgerByOrgForBucket bucket = query (\<lambda>d. groupByOrg (filter (\<lambda>l. l_bucket l = bucket) (ledger d)))"

definition SumLedgerConsumedByOrg :: "('u, (int \<times> int) list) op" where
  "SumLedgerConsumedByOrg = query (\<lambda>d. groupByOrg (ledger d))"

definition SumLedgerByOrg :: "int \<Rightarrow> ('u, int) op" where
  "SumLedgerByOrg org = query (\<lambda>d. sumBy l_consumed (filter (\<lambda>l. l_org l = org) (ledger d)))"

section \<open>Detail\<close>

definition insertIgnoreDetail :: "detail_row \<Rightarrow> detail_row list \<Rightarrow> detail_row list" where
  "insertIgnoreDetail r rows = (if list_ex (\<lambda>x. d_log_id x = d_log_id r) rows then rows else rows @ [r])"

text \<open>One statement inserts at most 500 rows.\<close>

function chunks :: "'r list \<Rightarrow> 'r list list" where
  "chunks rows = (if rows = [] then [] else take 500 rows # chunks (drop 500 rows))"
  by auto
termination
  by (relation "measure length") auto

declare chunks.simps [simp del]

definition InsertUsageDetailTx :: "detail_row list \<Rightarrow> ('u, unit) op" where
  "InsertUsageDetailTx rows =
     foreach (chunks rows) (\<lambda>ch. exec (\<lambda>d. d\<lparr>details := fold insertIgnoreDetail ch (details d)\<rparr>))"

definition FilterExistingDetailLogIDsTx :: "int list \<Rightarrow> ('u, int list) op" where
  "FilterExistingDetailLogIDsTx ids =
     foldM (\<lambda>ch out. bind (query (\<lambda>d. filter (\<lambda>i. i \<in> set ch) (map d_log_id (details d)))) (\<lambda>found.
        return (out @ found))) (chunks ids) []"

definition FilterExistingDetailLogIDs :: "int list \<Rightarrow> ('u, int list) op" where
  "FilterExistingDetailLogIDs ids = FilterExistingDetailLogIDsTx ids"

text \<open>\<open>DELETE ... WHERE log_ts < ? LIMIT 5000\<close>, repeated until a batch is not full.\<close>

fun dropFirst :: "nat \<Rightarrow> ('r \<Rightarrow> bool) \<Rightarrow> 'r list \<Rightarrow> 'r list" where
  "dropFirst n P [] = []"
| "dropFirst n P (r # rs) = (if n \<noteq> 0 \<and> P r then dropFirst (n - 1) P rs else r # dropFirst n P rs)"

definition purgeBatch :: "int \<Rightarrow> db \<Rightarrow> nat \<times> db" where
  "purgeBatch cutoff d =
     (let old = (\<lambda>r. d_ts r < cutoff)
      in (min 5000 (length (filter old (details d))), d\<lparr>details := dropFirst 5000 old (details d)\<rparr>))"

fun purgeLoop :: "nat \<Rightarrow> int \<Rightarrow> nat \<Rightarrow> ('u, nat) op" where
  "purgeLoop 0 cutoff cnt = throw OutOfFuel"
| "purgeLoop (Suc fuel) cutoff cnt =
     bind (stmt (\<lambda>d. case purgeBatch cutoff d of (n, d') \<Rightarrow> (Inr n, d'))) (\<lambda>n.
     if n < 5000 then return (cnt + n) else purgeLoop fuel cutoff (cnt + n))"

definition PurgeUsageDetailBefore :: "int \<Rightarrow> ('u, nat) op" where
  "PurgeUsageDetailBefore cutoff =
     bind (gets (\<lambda>w. length (details (w_db w)))) (\<lambda>n. purgeLoop (n div 5000 + 2) cutoff 0)"

section \<open>Backfill jobs\<close>

definition InsertBackfillJob :: "backfill_job \<Rightarrow> ('u, unit) op" where
  "InsertBackfillJob j = exec (\<lambda>d. if list_ex (\<lambda>x. j_org x = j_org j) (jobs d) then d
      else d\<lparr>jobs := jobs d @ [j\<lparr>j_earliest := None, j_status := BfPending, j_rows := 0, j_error := None\<rparr>]\<rparr>)"

definition isOpenJob :: "backfill_job \<Rightarrow> bool" where
  "isOpenJob j \<longleftrightarrow> j_status j = BfPending \<or> j_status j = BfRunning"

definition NextBackfillJob :: "('u, backfill_job option) op" where
  "NextBackfillJob = query (\<lambda>d. find isOpenJob (jobs d))"

definition findJob :: "int \<Rightarrow> db \<Rightarrow> backfill_job option" where
  "findJob org d = find (\<lambda>j. j_org j = org) (jobs d)"

definition GetBackfillJob :: "int \<Rightarrow> ('u, backfill_job option) op" where
  "GetBackfillJob org = query (findJob org)"

definition ListDoneBackfillJobs :: "('u, backfill_job list) op" where
  "ListDoneBackfillJobs = query (\<lambda>d. filter (\<lambda>j. j_status j = BfDone) (jobs d))"

definition updJob :: "int \<Rightarrow> (backfill_job \<Rightarrow> backfill_job) \<Rightarrow> db \<Rightarrow> db" where
  "updJob org g d = d\<lparr>jobs := updateKey j_org org g (jobs d)\<rparr>"

definition SetBackfillStatus :: "int \<Rightarrow> backfill_status \<Rightarrow> ('u, unit) op" where
  "SetBackfillStatus org st = exec (updJob org (\<lambda>j. j\<lparr>j_status := st, j_error := None\<rparr>))"

definition SetBackfillError :: "int \<Rightarrow> err \<Rightarrow> ('u, unit) op" where
  "SetBackfillError org e = exec (updJob org (\<lambda>j. j\<lparr>j_error := Some e\<rparr>))"

definition UpdateBackfillProgress :: "int \<Rightarrow> int \<Rightarrow> int \<Rightarrow> int \<Rightarrow> ('u, unit) op" where
  "UpdateBackfillProgress org cur addRows earliest = exec (updJob org (\<lambda>j. j\<lparr>j_cursor := cur,
      j_rows := j_rows j + addRows,
      j_earliest := (if earliest > 0 then Some (case j_earliest j of None \<Rightarrow> earliest | Some e \<Rightarrow> min e earliest)
                     else j_earliest j)\<rparr>))"

definition RequeueBackfillJob :: "int \<Rightarrow> ('u, unit) op" where
  "RequeueBackfillJob org = exec (updJob org (\<lambda>j. if j_status j = BfRunning then j
      else j\<lparr>j_status := BfPending, j_cursor := j_boundary_ts j, j_earliest := None, j_error := None\<rparr>))"

end
