(* ===== verification/Settlement.thy ===== *)
theory Settlement
  imports OrgStatus StoreUsage
begin

text \<open>
  The settlement of consumption logs (\<open>service/settlement.go\<close>).  One run reads the logs of a
  time window page by page, attributes and aggregates them into a sink, and commits ledger,
  detail, deductions and the cursor in one transaction; status changes, soft limits and audits
  follow the commit.  Go's maps are lists in the order of first insertion.
\<close>

section \<open>The sink\<close>

record bucket_agg =
  k_org :: int
  k_member :: int
  k_user :: int
  k_key :: int
  k_team :: "int option"
  k_model :: string
  k_bucket :: int
  k_consumed :: int
  k_max_ts :: int

record sink =
  sk_aggs :: "bucket_agg list"
  sk_details :: "detail_row list"
  sk_flags :: "int \<rightharpoonup> bool"
  sk_attr :: "int \<rightharpoonup> (member \<times> int) option"
  sk_orgs :: "int \<rightharpoonup> int"
  sk_alerted :: "int list"
  sk_backfill :: bool

definition newSink :: "bool \<Rightarrow> sink" where
  "newSink bf = \<lparr> sk_aggs = [], sk_details = [], sk_flags = Map.empty, sk_attr = Map.empty,
     sk_orgs = Map.empty, sk_alerted = [], sk_backfill = bf \<rparr>"

definition hourBucket :: "int \<Rightarrow> int" where
  "hourBucket sec = (sec div 3600) * 3600 * 10 ^ 9"

text \<open>The map key \<open>fmt.Sprintf("%d|%d|%d|%s|%d", ...)\<close>.\<close>

definition aggKey :: "int \<Rightarrow> int \<Rightarrow> int \<Rightarrow> string \<Rightarrow> int \<Rightarrow> string" where
  "aggKey org user key model bucketUnix =
     itoa org @ ''|'' @ itoa user @ ''|'' @ itoa key @ ''|'' @ model @ ''|'' @ itoa bucketUnix"

definition keyOf :: "bucket_agg \<Rightarrow> string" where
  "keyOf a = aggKey (k_org a) (k_user a) (k_key a) (k_model a) (k_bucket a div 10 ^ 9)"

definition addQuota :: "int \<Rightarrow> int \<Rightarrow> bucket_agg \<Rightarrow> bucket_agg" where
  "addQuota q ts a = a\<lparr>k_consumed := i64 (k_consumed a + q), k_max_ts := (if ts > k_max_ts a then ts else k_max_ts a)\<rparr>"

definition mergeAgg :: "bucket_agg \<Rightarrow> int \<Rightarrow> int \<Rightarrow> bucket_agg list \<Rightarrow> bucket_agg list" where
  "mergeAgg a q ts as =
     (if list_ex (\<lambda>x. keyOf x = keyOf a) as then updateKey keyOf (keyOf a) (addQuota q ts) as
      else as @ [addQuota q ts (a\<lparr>k_consumed := 0, k_max_ts := 0\<rparr>)])"

text \<open>The last part of \<open>ingestEntry\<close>: into the bucket and into the detail list.\<close>

definition ingestInto :: "int \<Rightarrow> int \<Rightarrow> int option \<Rightarrow> int \<Rightarrow> log_entry \<Rightarrow> sink \<Rightarrow> sink" where
  "ingestInto org mem tm key e sk =
     sk\<lparr> sk_aggs := mergeAgg \<lparr> k_org = org, k_member = mem, k_user = e_user e, k_key = key, k_team = tm,
           k_model = e_model e, k_bucket = hourBucket (e_created e), k_consumed = 0, k_max_ts = 0 \<rparr>
           (e_quota e) (e_created e) (sk_aggs sk),
         sk_details := sk_details sk @ [\<lparr> d_org = org, d_member = mem, d_user = e_user e, d_key = key,
           d_team = tm, d_model = e_model e, d_log_id = e_id e, d_prompt = e_prompt e,
           d_completion = e_completion e, d_consumed = e_quota e, d_ts = e_created e * 10 ^ 9 \<rparr>] \<rparr>"

text \<open>
  Attribution: the member who holds the token; else the organization that owns the upstream
  user (member 0, the unattributed bucket); else nobody (\<open>None\<close>).
\<close>

definition attributeToken :: "log_entry \<Rightarrow> sink \<Rightarrow> ('u, sink \<times> (member \<times> int) option) op" where
  "attributeToken e sk =
     (case sk_attr sk (e_token e) of
        Some att \<Rightarrow> return (sk, att)
      | None \<Rightarrow> bind (mapErr internal (GetMemberByNewapiTokenID (e_token e))) (\<lambda>att.
          return (sk\<lparr>sk_attr := (sk_attr sk)(e_token e \<mapsto> att)\<rparr>, att)))"

definition attributeUser :: "log_entry \<Rightarrow> sink \<Rightarrow> ('u, sink \<times> int) op" where
  "attributeUser e sk =
     (case sk_orgs sk (e_user e) of
        Some org \<Rightarrow> return (sk, org)
      | None \<Rightarrow> bind (mapErr internal (GetOrgIDByNewapiUserID (e_user e))) (\<lambda>r.
          let org = (case r of Some i \<Rightarrow> i | None \<Rightarrow> 0)
          in return (sk\<lparr>sk_orgs := (sk_orgs sk)(e_user e \<mapsto> org)\<rparr>, org)))"

definition orphanAlert :: "log_entry \<Rightarrow> member \<Rightarrow> sink \<Rightarrow> ('u, sink) op" where
  "orphanAlert e m sk =
     (if \<not> sk_backfill sk \<and> m_bootstrap m = BootstrapFailed \<and> e_token e \<notin> set (sk_alerted sk) then
        bind (auditSystem (m_org m) ''orphan_consumption'' ''member'' (Some (m_id m))
                [(''token_id'', JInt (e_token e)), (''model'', JStr (e_model e))] ''alert'') (\<lambda>_.
        return (sk\<lparr>sk_alerted := e_token e # sk_alerted sk\<rparr>))
      else return sk)"

definition cacheFlag :: "int \<Rightarrow> sink \<Rightarrow> ('u, sink) op" where
  "cacheFlag org sk =
     (if sk_backfill sk \<or> sk_flags sk org \<noteq> None then return sk
      else bind (GetOrgBillingFlags org) (\<lambda>(billing, _).
        return (sk\<lparr>sk_flags := (sk_flags sk)(org \<mapsto> billing)\<rparr>)))"

definition ingestEntry :: "log_entry \<Rightarrow> sink \<Rightarrow> ('u, sink) op" where
  "ingestEntry e sk0 =
     bind (attributeToken e sk0) (\<lambda>(sk1, att). case att of
       Some (m, key) \<Rightarrow>
         bind (orphanAlert e m sk1) (\<lambda>sk2.
         bind (cacheFlag (m_org m) sk2) (\<lambda>sk3.
         return (ingestInto (m_org m) (m_id m) (m_team m) key e sk3)))
     | None \<Rightarrow>
         bind (attributeUser e sk1) (\<lambda>(sk2, org).
         if org = 0 then return sk2
         else bind (cacheFlag org sk2) (\<lambda>sk3. return (ingestInto org 0 None 0 e sk3))))"

section \<open>The shared report segment\<close>

definition ledgerRow :: "bucket_agg \<Rightarrow> ledger_row" where
  "ledgerRow a = \<lparr> l_org = k_org a, l_member = k_member a, l_user = k_user a, l_key = k_key a,
     l_team = k_team a, l_model = k_model a, l_bucket = k_bucket a, l_consumed = k_consumed a,
     l_max_ts = k_max_ts a * 10 ^ 9 \<rparr>"

definition commitUsageOnly :: "bucket_agg list \<Rightarrow> detail_row list \<Rightarrow> ('u, unit) op" where
  "commitUsageOnly aggs rows =
     bind (foreach aggs (\<lambda>a. AddToLedgerBucketTx (ledgerRow a))) (\<lambda>_. InsertUsageDetailTx rows)"

section \<open>Reading pages\<close>

definition settlementLagSec :: int where "settlementLagSec = 5"
definition settlementMaxPages :: nat where "settlementMaxPages = 20"
definition settlementRescanOverlapSec :: int where "settlementRescanOverlapSec = 600"
definition settlementRescanMaxPages :: nat where "settlementRescanMaxPages = 5"

text \<open>
  The page loop that settlement, rescan, reconciliation and backfill share: at most \<open>n\<close> pages
  of 100, ended early when the reported total is reached.
\<close>

fun pageLoop :: "(int \<Rightarrow> ('u, log_entry list \<times> int) op) \<Rightarrow> (log_entry \<Rightarrow> 'a \<Rightarrow> ('u, 'a) op) \<Rightarrow> nat \<Rightarrow> int \<Rightarrow> 'a \<Rightarrow> ('u, 'a) op" where
  "pageLoop fetch step 0 p acc = return acc"
| "pageLoop fetch step (Suc n) p acc =
     bind (fetch p) (\<lambda>(es, total).
     bind (foldM step es acc) (\<lambda>acc'.
     if p * 100 \<ge> total then return acc' else pageLoop fetch step n (p + 1) acc'))"

definition readLogs :: "'u service \<Rightarrow> int \<Rightarrow> int \<Rightarrow> int \<Rightarrow> ('u, log_entry list \<times> int) op" where
  "readLogs S since until p = mapErr mapUpstream (upcall (na_ReadConsumptionLogs (sv_up S) since until p 100))"

text \<open>The largest window (by halving) that 20 pages hold.\<close>

function shrinkWindow :: "'u service \<Rightarrow> int \<Rightarrow> int \<Rightarrow> ('u, int) op" where
  "shrinkWindow S since untilSub =
     bind (readLogs S since untilSub 1) (\<lambda>(_, total).
     if total \<le> int settlementMaxPages * 100 then return untilSub
     else if untilSub \<le> since + 1 then return untilSub
     else shrinkWindow S since (since + (untilSub - since) div 2))"
  by auto
termination
  by (relation "measure (\<lambda>(S, since, untilSub). nat (untilSub - since))") auto

declare shrinkWindow.simps [simp del]

section \<open>One run\<close>

text \<open>Rescan (1a): entries before the window that no detail row records yet.\<close>

definition settleRescan :: "'u service \<Rightarrow> int \<Rightarrow> sink \<Rightarrow> ('u, sink) op" where
  "settleRescan S since sk =
     bind (pageLoop (readLogs S (max 0 (since - settlementRescanOverlapSec)) (since - 1))
             (\<lambda>e acc. return (if e_quota e > 0 then acc @ [e] else acc)) settlementRescanMaxPages 1 []) (\<lambda>rescan.
     if rescan = [] then return sk
     else
     bind (mapErr internal (FilterExistingDetailLogIDs (map e_id rescan))) (\<lambda>existing.
     foldM (\<lambda>e acc. if e_id e \<in> set existing then return acc else ingestEntry e acc) rescan sk))"

text \<open>Main window (1b): entries above the log-id watermark, which also moves the watermark.\<close>

definition mainStep :: "int \<Rightarrow> log_entry \<Rightarrow> sink \<times> int \<Rightarrow> ('u, sink \<times> int) op" where
  "mainStep lastID e acc =
     (case acc of (sk, maxID) \<Rightarrow>
        if e_id e \<le> lastID then return (sk, maxID)
        else let maxID' = (if e_id e > maxID then e_id e else maxID)
             in if e_quota e \<le> 0 then return (sk, maxID')
                else bind (ingestEntry e sk) (\<lambda>sk'. return (sk', maxID')))"

definition settleMain :: "'u service \<Rightarrow> int \<Rightarrow> int \<Rightarrow> int \<Rightarrow> sink \<Rightarrow> ('u, sink \<times> int) op" where
  "settleMain S since untilSub lastID sk =
     pageLoop (readLogs S since untilSub) (mainStep lastID) settlementMaxPages 1 (sk, lastID)"

definition perOrg :: "bucket_agg list \<Rightarrow> (int \<times> int) list" where
  "perOrg aggs = map (\<lambda>org. (org, fold (\<lambda>a n. i64 (n + k_consumed a)) (filter (\<lambda>a. k_org a = org) aggs) 0))
     (remdups (map k_org aggs))"

record tx_out =
  to_bal :: "(int \<times> balance) list"
  to_total :: int
  to_missing :: "int list"

definition deductStep :: "(int \<rightharpoonup> bool) \<Rightarrow> int \<times> int \<Rightarrow> tx_out \<Rightarrow> ('u, tx_out) op" where
  "deductStep flags pa acc =
     (case pa of (org, amount) \<Rightarrow>
        if amount \<le> 0 then return acc
        else if flags org \<noteq> Some True then return acc
        else bind (attempt (DeductBalanceTx org amount)) (\<lambda>r. case r of
          Inl e \<Rightarrow> if errorsIs e ErrNotFound then return (acc\<lparr>to_missing := to_missing acc @ [org]\<rparr>) else throw e
        | Inr bal \<Rightarrow> return (acc\<lparr>to_bal := to_bal acc @ [(org, bal)], to_total := i64 (to_total acc + amount)\<rparr>)))"

text \<open>The transaction (2): report segment, deductions unless observing, cursor.\<close>

definition settleTx :: "'u service \<Rightarrow> sink \<Rightarrow> int \<Rightarrow> int \<Rightarrow> int \<Rightarrow> ('u, tx_out) op" where
  "settleTx S sk untilSub maxID ver = WithTx (
     bind (commitUsageOnly (sk_aggs sk) (sk_details sk)) (\<lambda>_.
     bind (if sv_observe S then return \<lparr> to_bal = [], to_total = 0, to_missing = [] \<rparr>
           else foldM (deductStep (sk_flags sk)) (perOrg (sk_aggs sk)) \<lparr> to_bal = [], to_total = 0, to_missing = [] \<rparr>) (\<lambda>out.
     bind (AdvanceCursorTx 0 untilSub maxID ver) (\<lambda>hit.
     if hit then return out else throw ErrConcurrentSettlement))))"

definition dayStart :: "int \<Rightarrow> int" where
  "dayStart now = (now div dayNs) * dayNs"

definition checkModelSoftLimit :: "bucket_agg \<Rightarrow> ('u, unit) op" where
  "checkModelSoftLimit a =
     bind (attempt (GetMember (k_org a) (k_member a))) (\<lambda>mr. case mr of
       Inl _ \<Rightarrow> return ()
     | Inr m \<Rightarrow> (case m_tier m of None \<Rightarrow> return () | Some tid \<Rightarrow>
     bind (attempt (GetTier (k_org a) tid)) (\<lambda>tr. case tr of
       Inl _ \<Rightarrow> return ()
     | Inr t \<Rightarrow> (case map_of (tr_model_cap t) (k_model a) of None \<Rightarrow> return () | Some cap \<Rightarrow>
     if cap \<le> 0 then return ()
     else
     bind clock (\<lambda>now.
     bind (attempt (SumMemberModelToday (k_org a) (k_member a) (k_model a) (dayStart now))) (\<lambda>sr. case sr of
       Inl _ \<Rightarrow> return ()
     | Inr today \<Rightarrow>
         if i64 (today - k_consumed a) \<le> cap \<and> today > cap then
           bind (notify (k_org a) (k_member a) ''soft_limit'') (\<lambda>_.
           bind (attempt (ListOrgAdminIDs (k_org a))) (\<lambda>ar.
           bind (case ar of Inl _ \<Rightarrow> return ()
                 | Inr ids \<Rightarrow> foreach ids (\<lambda>aid. notify (k_org a) aid ''soft_limit'')) (\<lambda>_.
           auditSystem (k_org a) ''model_soft_limit_exceeded'' ''member'' (Some (k_member a))
             [(''model'', JStr (k_model a)), (''today'', JInt today), (''cap'', JInt cap)] ''ok'')))
         else return ()))))))"

text \<open>After the commit (3).\<close>

definition settleAfter :: "'u service \<Rightarrow> sink \<Rightarrow> tx_out \<Rightarrow> ('u, unit) op" where
  "settleAfter S sk out =
     bind (foreach (to_missing out) (\<lambda>org.
             auditSystem org ''settlement_missing_balance'' ''balance'' (Some org)
               [(''skipped_deduct'', JBool True)] ''alert'')) (\<lambda>_.
     bind (foreach (to_bal out) (\<lambda>(org, bal).
             bind (ignoreErr (recomputeOrgStatus S org bal)) (\<lambda>_.
             auditSystem org ''settlement_deduct'' ''balance'' (Some org)
               [(''deducted'', JInt (case map_of (perOrg (sk_aggs sk)) org of Some n \<Rightarrow> n | None \<Rightarrow> 0)),
                (''balance_after'', JInt (b_balance bal))] ''ok''))) (\<lambda>_.
     foreach (sk_aggs sk) checkModelSoftLimit))"

definition settleBaseline :: "cursor \<Rightarrow> ('u, int) op" where
  "settleBaseline cur =
     bind clock (\<lambda>now.
     bind (WithTx (bind (AdvanceCursorTx 0 (now div 10 ^ 9 - settlementLagSec) 0 (c_version cur)) (\<lambda>hit.
             if hit then return () else throw ErrConcurrentSettlement))) (\<lambda>_. return 0))"

definition settleWindow :: "'u service \<Rightarrow> cursor \<Rightarrow> int \<Rightarrow> ('u, int) op" where
  "settleWindow S cur until =
     bind (shrinkWindow S (c_ts cur) until) (\<lambda>untilSub.
     bind (settleRescan S (c_ts cur) (newSink False)) (\<lambda>sk1.
     bind (settleMain S (c_ts cur) untilSub (c_log_id cur) sk1) (\<lambda>(sk, maxID).
     bind (settleTx S sk untilSub maxID (c_version cur)) (\<lambda>out.
     bind (settleAfter S sk out) (\<lambda>_. return (to_total out))))))"

definition settleLocked :: "'u service \<Rightarrow> ('u, int) op" where
  "settleLocked S =
     bind (GetOrCreateCursor 0) (\<lambda>cur.
     if c_ts cur = 0 then settleBaseline cur
     else
     bind clock (\<lambda>now.
     let until = now div 10 ^ 9 - settlementLagSec
     in if until \<le> c_ts cur then return 0 else settleWindow S cur until))"

definition RunSettlement :: "'u service \<Rightarrow> ('u, int) op" where
  "RunSettlement S = (if \<not> sv_leader S then return 0 else holding ''settlementMu'' (settleLocked S))"

end
