(* ===== verification/SettleFrames.thy ===== *)
theory SettleFrames
  imports Frames Settlement
begin

text \<open>
  What a settlement run can touch.  Reading and attributing logs and everything after the commit
  keep every relation that ignores organization rows and the audit trail; the transaction keeps
  in addition every relation that ignores the usage tables and that a deduction keeps.
\<close>

section \<open>Reading, attributing, alerting\<close>

context org_frame
begin

lemma readLogs [guar_intros]:
  "guar (onDb D) (readLogs S since til p :: ('v, log_entry list \<times> int) op)"
  unfolding readLogs_def by (intro guar_intros)

lemma pageLoop [guar_intros]:
  "(\<And>p. guar (onDb D) (fetch p)) \<Longrightarrow> (\<And>e acc. guar (onDb D) (step e acc)) \<Longrightarrow>
   guar (onDb D) (pageLoop fetch step n p acc :: ('v, 'a) op)"
  by (induction n arbitrary: p acc) (auto intro!: guar_intros)

lemma shrinkWindow [guar_intros]: "guar (onDb D) (shrinkWindow S since til :: ('v, int) op)"
proof (induction S since til rule: shrinkWindow.induct)
  case (1 S since til)
  show ?case
    by (subst shrinkWindow.simps) (auto intro!: bind' readLogs basics 1 split: prod.splits)
qed

lemma ingestEntry [guar_intros]: "guar (onDb D) (ingestEntry e sk :: ('v, sink) op)"
  unfolding ingestEntry_def attributeToken_def attributeUser_def orphanAlert_def cacheFlag_def
    GetMemberByNewapiTokenID_def GetOrgIDByNewapiUserID_def Let_def
  by (intro guar_intros)

lemma FilterExisting [guar_intros]:
  "guar (onDb D) (FilterExistingDetailLogIDsTx ids :: ('v, int list) op)"
  "guar (onDb D) (FilterExistingDetailLogIDs ids :: ('v, int list) op)"
  unfolding FilterExistingDetailLogIDs_def FilterExistingDetailLogIDsTx_def by (intro guar_intros)+

lemma settleRescan [guar_intros]: "guar (onDb D) (settleRescan S since sk :: ('v, sink) op)"
  unfolding settleRescan_def by (intro guar_intros)

lemma settleMain [guar_intros]: "guar (onDb D) (settleMain S since til lid sk :: ('v, sink \<times> int) op)"
  unfolding settleMain_def mainStep_def Let_def by (intro guar_intros)

lemma checkModelSoftLimit [guar_intros]: "guar (onDb D) (checkModelSoftLimit a :: ('v, unit) op)"
  unfolding checkModelSoftLimit_def GetMember_def GetTier_def SumMemberModelToday_def ListOrgAdminIDs_def
  by (intro guar_intros)

lemma settleAfter [guar_intros]: "guar (onDb D) (settleAfter S sk out :: ('v, unit) op)"
  unfolding settleAfter_def by (intro guar_intros)

end

section \<open>The transaction\<close>

locale report_frame = org_frame +
  assumes ledger_free: "D d (d\<lparr>ledger := x1\<rparr>)"
    and details_free: "D d (d\<lparr>details := x2\<rparr>)"
    and advance_free: "D d (snd (advanceCursor org ts lid ver d))"
    and cursor_free: "D d (snd (insertCursor org d))"
begin

lemma commitUsageOnly [guar_intros]: "guar (onDb D) (commitUsageOnly aggs rows :: ('v, unit) op)"
  unfolding commitUsageOnly_def AddToLedgerBucketTx_def InsertUsageDetailTx_def
  by (intro guar_intros exec stmt)
     (auto simp: addToLedger_def db_refl ledger_free details_free split: option.splits)

lemma AdvanceCursorTx [guar_intros]: "guar (onDb D) (AdvanceCursorTx org ts lid ver :: ('v, bool) op)"
  unfolding AdvanceCursorTx_def
  by (intro guar_intros stmt) (use advance_free in \<open>simp add: split_beta\<close>)

lemma GetOrCreateCursor [guar_intros]: "guar (onDb D) (GetOrCreateCursor org :: ('v, cursor) op)"
  unfolding GetOrCreateCursor_def
  by (intro guar_intros stmt cursor_free)

lemma settleTx:
  "sv_observe S \<or> (\<forall>org n. guar (onDb D) (DeductBalanceTx org n :: ('v, balance) op)) \<Longrightarrow>
   guar (onDb D) (settleTx S sk til maxID ver :: ('v, tx_out) op)"
  unfolding settleTx_def deductStep_def
  by (cases "sv_observe S"; simp only: if_True if_False simp_thms;
      intro guar_intros; (elim allE)?; assumption?)

lemma RunSettlement:
  assumes "sv_observe S \<or> (\<forall>org n. guar (onDb D) (DeductBalanceTx org n :: ('v, balance) op))"
  shows "guar (onDb D) (RunSettlement S :: ('v, int) op)"
  unfolding RunSettlement_def settleLocked_def settleBaseline_def settleWindow_def Let_def
  by (intro guar_intros settleTx assms)

end

end
