(* ===== verification/Backfill.thy ===== *)
theory Backfill
  imports Settlement
begin

text \<open>
  The backfill of an organization's history (\<open>service/backfill.go\<close>): at association time the
  forward cursor is the boundary; windows below it are read downwards and committed with the
  report segment that settlement uses, never the deductions or the cursor.
\<close>

section \<open>Which logs belong to the backfill\<close>

definition belongsToBackfill :: "int \<Rightarrow> int \<Rightarrow> int \<Rightarrow> int \<Rightarrow> bool" where
  "belongsToBackfill createdAt i bTS bID \<longleftrightarrow> createdAt < bTS \<or> (createdAt = bTS \<and> i \<le> bID)"

section \<open>Status and requests\<close>

record backfill_view =
  bv_status :: "backfill_status option"
  bv_rows :: int
  bv_earliest :: "int option"
  bv_error :: "err option"

definition GetBackfillStatus :: "claims \<Rightarrow> int \<Rightarrow> ('u, backfill_view) op" where
  "GetBackfillStatus c org =
     bind (assertOrgScope c org) (\<lambda>_.
     bind (assertRole c [RoleOperator, RoleOrgAdmin]) (\<lambda>_.
     bind (mapErr internal (GetBackfillJob org)) (\<lambda>jr.
     return (case jr of
         None \<Rightarrow> \<lparr> bv_status = None, bv_rows = 0, bv_earliest = None, bv_error = None \<rparr>
       | Some j \<Rightarrow> \<lparr> bv_status = Some (j_status j), bv_rows = j_rows j, bv_earliest = j_earliest j,
                     bv_error = j_error j \<rparr>))))"

definition RequeueBackfill :: "claims \<Rightarrow> int \<Rightarrow> ('u, unit) op" where
  "RequeueBackfill c org =
     bind (assertRole c [RoleOperator]) (\<lambda>_.
     bind (mapErr internal (GetBackfillJob org)) (\<lambda>jr. case jr of
       None \<Rightarrow> throw InvalidParam
     | Some _ \<Rightarrow>
         bind (mapErr internal (RequeueBackfillJob org)) (\<lambda>_.
         audit c org ''backfill_requeue'' ''backfill'' (Some org) [])))"

text \<open>
  \<open>fmt.Errorf\<close> errors carry a message only; those that wrap another error keep it as the cause.
\<close>

definition plainErr :: err where "plainErr = App 0 0 None"

definition enqueueBackfill :: "'u service \<Rightarrow> int \<Rightarrow> int \<Rightarrow> string \<Rightarrow> ('u, unit) op" where
  "enqueueBackfill S org uid username =
     (if username = '''' then throw plainErr
      else
      bind (GetOrCreateCursor 0) (\<lambda>cur0.
      bind (if c_ts cur0 \<noteq> 0 then return cur0
            else
            bind (mapErr (WithCause plainErr) (RunSettlement S)) (\<lambda>_.
            bind (GetOrCreateCursor 0) (\<lambda>cur.
            if c_ts cur = 0 then throw plainErr else return cur))) (\<lambda>cur.
      InsertBackfillJob \<lparr> j_org = org, j_user = uid, j_username = username,
         j_boundary_ts = c_ts cur, j_boundary_id = c_log_id cur, j_cursor = c_ts cur,
         j_earliest = None, j_status = BfPending, j_rows = 0, j_error = None \<rparr>)))"

section \<open>One window\<close>

definition readUserLogs :: "'u service \<Rightarrow> string \<Rightarrow> int \<Rightarrow> int \<Rightarrow> int \<Rightarrow> ('u, log_entry list \<times> int) op" where
  "readUserLogs S username lo hi p =
     mapErr mapUpstream (upcall (na_ReadConsumptionLogsByUsername (sv_up S) username lo hi p 100))"

text \<open>The lower end of the window, halved towards the fixed upper end until 20 pages hold it.\<close>

function lowerBoundFrom :: "'u service \<Rightarrow> string \<Rightarrow> int \<Rightarrow> int \<Rightarrow> ('u, int) op" where
  "lowerBoundFrom S username lo hi =
     bind (readUserLogs S username lo hi 1) (\<lambda>(_, total).
     if total \<le> int settlementMaxPages * 100 then return lo
     else if lo \<ge> hi - 1 then return lo
     else lowerBoundFrom S username (hi - (hi - lo) div 2) hi)"
  by auto
termination
  by (relation "measure (\<lambda>(S, username, lo, hi). nat (hi - lo))") auto

declare lowerBoundFrom.simps [simp del]

definition backfillLowerBound :: "'u service \<Rightarrow> string \<Rightarrow> int \<Rightarrow> ('u, int) op" where
  "backfillLowerBound S username hi = lowerBoundFrom S username 0 hi"

definition keepEntry :: "backfill_job \<Rightarrow> log_entry \<Rightarrow> bool" where
  "keepEntry job e \<longleftrightarrow> \<not> e_quota e \<le> 0 \<and> e_user e = j_user job
     \<and> belongsToBackfill (e_created e) (e_id e) (j_boundary_ts job) (j_boundary_id job)"

text \<open>The read phase, outside the lock.\<close>

definition backfillRead :: "'u service \<Rightarrow> backfill_job \<Rightarrow> int \<Rightarrow> int \<Rightarrow> ('u, log_entry list) op" where
  "backfillRead S job lo hi =
     pageLoop (readUserLogs S (j_username job) lo hi)
       (\<lambda>e acc. return (if keepEntry job e then acc @ [e] else acc)) settlementMaxPages 1 []"

text \<open>The write phase: duplicate check, aggregation and commit in one transaction under the lock.\<close>

definition backfillStep :: "int list \<Rightarrow> log_entry \<Rightarrow> sink \<times> int \<times> int \<Rightarrow> ('u, sink \<times> int \<times> int) op" where
  "backfillStep existing e acc =
     (case acc of (sk, rows, earliest) \<Rightarrow>
        if e_id e \<in> set existing then return acc
        else bind (ingestEntry e sk) (\<lambda>sk'.
          return (sk', rows + 1, if earliest = 0 \<or> e_created e < earliest then e_created e else earliest)))"

definition backfillWrite :: "log_entry list \<Rightarrow> ('u, int \<times> int) op" where
  "backfillWrite keep = holding ''settlementMu'' (WithTx (
     bind (FilterExistingDetailLogIDsTx (map e_id keep)) (\<lambda>existing.
     bind (foldM (backfillStep existing) keep (newSink True, 0, 0)) (\<lambda>(sk, rows, earliest).
     bind (if sk_aggs sk = [] \<and> sk_details sk = [] then return ()
           else commitUsageOnly (sk_aggs sk) (sk_details sk)) (\<lambda>_.
     return (rows, earliest))))))"

text \<open>Rows added, time of the earliest (0: none), lower end of the window.\<close>

definition backfillOneWindow :: "'u service \<Rightarrow> backfill_job \<Rightarrow> int \<Rightarrow> ('u, int \<times> int \<times> int) op" where
  "backfillOneWindow S job hi =
     bind (backfillLowerBound S (j_username job) hi) (\<lambda>lo.
     bind (backfillRead S job lo hi) (\<lambda>keep.
     if keep = [] then return (0, 0, lo)
     else bind (backfillWrite keep) (\<lambda>(rows, earliest). return (rows, earliest, lo))))"

section \<open>A slice\<close>

fun sliceLoop :: "'u service \<Rightarrow> backfill_job \<Rightarrow> nat \<Rightarrow> int \<Rightarrow> ('u, int) op" where
  "sliceLoop S job 0 hi = return hi"
| "sliceLoop S job (Suc n) hi =
     (if hi \<le> 0 then return hi
      else
      bind (attempt (backfillOneWindow S job hi)) (\<lambda>r. case r of
        Inl e \<Rightarrow> bind (ignoreErr (SetBackfillError (j_org job) e)) (\<lambda>_. throw e)
      | Inr (rows, earliest, lo) \<Rightarrow>
          bind (UpdateBackfillProgress (j_org job) (lo - 1) rows earliest) (\<lambda>_.
          sliceLoop S job n (lo - 1))))"

definition RunBackfillSlice :: "'u service \<Rightarrow> ('u, unit) op" where
  "RunBackfillSlice S =
     (if \<not> sv_leader S then return ()
      else
      bind NextBackfillJob (\<lambda>jr. case jr of
        None \<Rightarrow> return ()
      | Some job \<Rightarrow>
      bind (guard_when (j_status job = BfPending) (SetBackfillStatus (j_org job) BfRunning)) (\<lambda>_.
      bind (sliceLoop S job (sv_windows_per_tick S) (j_cursor job)) (\<lambda>hi.
      guard_when (hi \<le> 0) (SetBackfillStatus (j_org job) BfDone)))))"

section \<open>Reconciliation\<close>

definition ReconcileBackfillLedger :: "'u service \<Rightarrow> ('u, unit) op" where
  "ReconcileBackfillLedger S =
     bind (GetOrCreateCursor 0) (\<lambda>cur.
     if c_ts cur \<le> 0 then return ()
     else
     bind ListDoneBackfillJobs (\<lambda>js.
     foreach js (\<lambda>j.
       bind (attempt (upcall (na_SumConsumedQuotaByUsername (sv_up S) (j_username j) (c_ts cur)))) (\<lambda>ar. case ar of
         Inl _ \<Rightarrow> return ()
       | Inr authoritative \<Rightarrow>
       bind (SumLedgerByOrg (j_org j)) (\<lambda>sum.
       guard_when (sum \<noteq> authoritative)
         (auditSystem (j_org j) ''backfill_ledger_mismatch'' ''backfill'' (Some (j_org j))
            [(''ledger_sum'', JInt sum), (''authoritative'', JInt authoritative),
             (''diff'', JInt (i64 (sum - authoritative)))] ''mismatch''))))))"

end
