(* ===== verification/BackfillFrames.thy ===== *)
theory BackfillFrames
  imports SettleFrames Backfill
begin

text \<open>
  What a slice of the historical backfill can touch: besides the organization rows and the audit
  trail only the ledger, the detail rows and the progress of its job.
\<close>

section \<open>Frames of the read phase\<close>

context org_frame
begin

lemma readUserLogs [guar_intros]:
  "guar (onDb D) (readUserLogs S name lo hi p :: ('v, log_entry list \<times> int) op)"
  unfolding readUserLogs_def by (intro guar_intros)

lemma lowerBoundFrom [guar_intros]: "guar (onDb D) (lowerBoundFrom S name lo hi :: ('v, int) op)"
proof (induction S name lo hi rule: lowerBoundFrom.induct)
  case (1 S name lo hi)
  show ?case
    by (subst lowerBoundFrom.simps) (auto intro!: bind' readUserLogs basics 1 split: prod.splits)
qed

lemma backfillLowerBound [guar_intros]: "guar (onDb D) (backfillLowerBound S name hi :: ('v, int) op)"
  unfolding backfillLowerBound_def by (intro guar_intros)

lemma backfillRead [guar_intros]: "guar (onDb D) (backfillRead S job lo hi :: ('v, log_entry list) op)"
  unfolding backfillRead_def by (intro guar_intros)

lemma backfillStep [guar_intros]: "guar (onDb D) (backfillStep ex e acc :: ('v, sink \<times> int \<times> int) op)"
  unfolding backfillStep_def by (intro guar_intros)

end

text \<open>A relation that ignores ledger, detail and the progress of the jobs is kept by a slice.\<close>

locale backfill_frame = org_frame +
  assumes ledger_free: "D d (d\<lparr>ledger := x1\<rparr>)"
    and details_free: "D d (d\<lparr>details := x2\<rparr>)"
    and job_free: "(\<And>j. j_boundary_ts (g j) = j_boundary_ts j \<and> j_boundary_id (g j) = j_boundary_id j) \<Longrightarrow> D d (updJob org g d)"
begin

lemma commitUsageOnly [guar_intros]: "guar (onDb D) (commitUsageOnly aggs rows :: ('v, unit) op)"
  unfolding commitUsageOnly_def AddToLedgerBucketTx_def InsertUsageDetailTx_def
  by (intro guar_intros exec stmt)
     (auto simp: addToLedger_def db_refl ledger_free details_free split: option.splits)

lemma job_rows [guar_intros]:
  "guar (onDb D) (SetBackfillStatus org st :: ('v, unit) op)"
  "guar (onDb D) (SetBackfillError org e :: ('v, unit) op)"
  "guar (onDb D) (UpdateBackfillProgress org cur n earliest :: ('v, unit) op)"
  "guar (onDb D) (NextBackfillJob :: ('v, backfill_job option) op)"
  unfolding SetBackfillStatus_def SetBackfillError_def UpdateBackfillProgress_def NextBackfillJob_def
  by (intro exec job_free guar_intros; simp)+

lemma backfillWrite [guar_intros]: "guar (onDb D) (backfillWrite keep :: ('v, int \<times> int) op)"
  unfolding backfillWrite_def by (intro guar_intros)

lemma backfillOneWindow [guar_intros]: "guar (onDb D) (backfillOneWindow S job hi :: ('v, int \<times> int \<times> int) op)"
  unfolding backfillOneWindow_def by (intro guar_intros)

lemma sliceLoop [guar_intros]: "guar (onDb D) (sliceLoop S job n hi :: ('v, int) op)"
proof (induction n arbitrary: hi)
  case 0
  show ?case by (simp add: basics)
next
  case (Suc n)
  show ?case unfolding sliceLoop.simps by (intro guar_intros Suc.IH)
qed

lemma RunBackfillSlice [guar_intros]: "guar (onDb D) (RunBackfillSlice S :: ('v, unit) op)"
  unfolding RunBackfillSlice_def by (intro guar_intros)

end

end
