(* ===== verification/UsageInvariant.thy ===== *)
theory UsageInvariant
  imports Settlement
begin

text \<open>
  The consistency of the two usage tables: per organization the ledger's total is the total of
  the detail rows.  The report segment keeps it when the rows it commits are new and the
  aggregates add up to them; the sink is built so that they do.
\<close>

section \<open>The invariant\<close>

definition ledgerKey :: "ledger_row \<Rightarrow> int \<times> int \<times> int \<times> string \<times> int" where
  "ledgerKey l = (l_org l, l_user l, l_key l, l_model l, l_bucket l)"

definition ledgerPart :: "int \<Rightarrow> ledger_row \<Rightarrow> int" where
  "ledgerPart org l = (if l_org l = org then l_consumed l else 0)"

definition detailPart :: "int \<Rightarrow> detail_row \<Rightarrow> int" where
  "detailPart org r = (if d_org r = org then d_consumed r else 0)"

definition aggPart :: "int \<Rightarrow> bucket_agg \<Rightarrow> int" where
  "aggPart org a = (if k_org a = org then k_consumed a else 0)"

definition usageWf :: "db \<Rightarrow> bool" where
  "usageWf d \<longleftrightarrow> distinct (map ledgerKey (ledger d)) \<and> distinct (map d_log_id (details d))"

definition usageInv :: "db \<Rightarrow> bool" where
  "usageInv d \<longleftrightarrow> usageWf d \<and> (\<forall>org. sumBy (ledgerPart org) (ledger d) = sumBy (detailPart org) (details d))"

lemma sameBucket_key: "sameBucket a b \<longleftrightarrow> ledgerKey b = ledgerKey a"
  by (auto simp: sameBucket_def ledgerKey_def)

section \<open>The ledger segment\<close>

lemma addToLedger_spec:
  assumes "distinct (map ledgerKey (ledger d))" "addToLedger b d = (Inr r, d')"
  shows "distinct (map ledgerKey (ledger d'))" "details d' = details d" "cursors d' = cursors d"
    "sumBy (ledgerPart org) (ledger d') = sumBy (ledgerPart org) (ledger d) + ledgerPart org b"
proof -
  consider (new) "find (sameBucket b) (ledger d) = None" "d' = d\<lparr>ledger := ledger d @ [b]\<rparr>"
    | (old) x where "find (sameBucket b) (ledger d) = Some x"
        "d' = d\<lparr>ledger := updateKey ledgerKey (ledgerKey b) (\<lambda>x. x\<lparr>l_consumed := l_consumed x + l_consumed b,
                 l_max_ts := max (l_max_ts x) (l_max_ts b)\<rparr>) (ledger d)\<rparr>"
    using assms(2)
    by (auto simp: addToLedger_def sameBucket_key updateKey_def split: option.splits if_splits)
  then have "distinct (map ledgerKey (ledger d')) \<and> details d' = details d \<and> cursors d' = cursors d \<and>
    sumBy (ledgerPart org) (ledger d') = sumBy (ledgerPart org) (ledger d) + ledgerPart org b"
  proof cases
    case new
    then have "ledgerKey b \<notin> ledgerKey ` set (ledger d)"
      by (auto simp: find_None_iff sameBucket_key)
    with new assms(1) show ?thesis by simp
  next
    case (old x)
    let ?g = "\<lambda>x. x\<lparr>l_consumed := l_consumed x + l_consumed b, l_max_ts := max (l_max_ts x) (l_max_ts b)\<rparr>"
    have x: "x \<in> set (ledger d)" "ledgerKey x = ledgerKey b"
      using old(1) by (auto simp: find_Some_iff sameBucket_key)
    have "sumBy (ledgerPart org) (updateKey ledgerKey (ledgerKey b) ?g (ledger d))
        = sumBy (ledgerPart org) (ledger d) - ledgerPart org x + ledgerPart org (?g x)"
      by (rule sumBy_updateKey[OF assms(1) x])
    moreover have "ledgerPart org (?g x) = ledgerPart org x + ledgerPart org b"
      using x(2) by (auto simp: ledgerPart_def ledgerKey_def)
    moreover have "map ledgerKey (updateKey ledgerKey (ledgerKey b) ?g (ledger d)) = map ledgerKey (ledger d)"
      by (rule map_updateKey_same) (simp add: ledgerKey_def)
    ultimately show ?thesis using old(2) assms(1) by simp
  qed
  then show "distinct (map ledgerKey (ledger d'))" "details d' = details d" "cursors d' = cursors d"
    "sumBy (ledgerPart org) (ledger d') = sumBy (ledgerPart org) (ledger d) + ledgerPart org b" by auto
qed

definition ledgerAt :: "(int \<Rightarrow> int) \<Rightarrow> detail_row list \<Rightarrow> cursor list \<Rightarrow> db \<Rightarrow> bool" where
  "ledgerAt f ds cs d \<longleftrightarrow> distinct (map ledgerKey (ledger d)) \<and> details d = ds \<and> cursors d = cs
     \<and> (\<forall>org. sumBy (ledgerPart org) (ledger d) = f org)"

lemma addAggs:
  "dbval (ledgerAt f ds cs) (foreach aggs (\<lambda>a. AddToLedgerBucketTx (ledgerRow a)))
     (\<lambda>_. ledgerAt (\<lambda>org. f org + sumBy (aggPart org) aggs) ds cs)"
proof (induction aggs arbitrary: f)
  case Nil
  then show ?case by (auto intro!: dbval_return)
next
  case (Cons a as)
  let ?f = "\<lambda>org. f org + aggPart org a"
  have part: "ledgerPart org (ledgerRow a) = aggPart org a" for org
    by (simp add: ledgerPart_def aggPart_def ledgerRow_def)
  have step: "dbval (ledgerAt f ds cs) (AddToLedgerBucketTx (ledgerRow a)) (\<lambda>_. ledgerAt ?f ds cs)"
    unfolding AddToLedgerBucketTx_def
    by (rule dbval_stmt) (auto simp: ledgerAt_def addToLedger_spec part)
  show ?case
    unfolding foreach.simps
    by (rule dbval_bind[OF step], rule dbval_weak[OF Cons.IH]) (simp add: add.assoc)
qed

section \<open>The detail segment\<close>

lemma concat_chunks: "concat (chunks rows) = rows"
  by (induction rows rule: chunks.induct) (subst chunks.simps, simp)

lemma insertIgnore_fresh:
  "distinct (map d_log_id (ds @ ch)) \<Longrightarrow> fold insertIgnoreDetail ch ds = ds @ ch"
proof (induction ch arbitrary: ds)
  case (Cons r ch)
  then have "insertIgnoreDetail r ds = ds @ [r]"
    by (auto simp: insertIgnoreDetail_def list_ex_iff) (metis image_eqI)
  with Cons show ?case by simp
qed simp

lemma insertChunks:
  "distinct (map d_log_id (ds @ concat chs)) \<Longrightarrow>
   dbval (ledgerAt f ds cs)
     (foreach chs (\<lambda>ch. exec (\<lambda>d. d\<lparr>details := fold insertIgnoreDetail ch (details d)\<rparr>)))
     (\<lambda>_. ledgerAt f (ds @ concat chs) cs)"
proof (induction chs arbitrary: ds)
  case Nil
  then show ?case by (auto intro!: dbval_return)
next
  case (Cons ch chs)
  have d1: "distinct (map d_log_id (ds @ ch))" using Cons.prems by (simp add: inf_sup_distrib1)
  have step: "dbval (ledgerAt f ds cs)
      (exec (\<lambda>d. d\<lparr>details := fold insertIgnoreDetail ch (details d)\<rparr>)) (\<lambda>_. ledgerAt f (ds @ ch) cs)"
    by (rule dbval_exec) (auto simp: ledgerAt_def insertIgnore_fresh[OF d1])
  show ?case
    unfolding foreach.simps
    by (rule dbval_bind[OF step], rule dbval_weak[OF Cons.IH]) (use Cons.prems in auto)
qed

text \<open>The report segment adds the aggregates to the ledger and appends the rows.\<close>

lemma commitUsageOnly_spec:
  assumes inv: "usageInv d" and fresh: "distinct (map d_log_id (details d @ rows))"
    and adds: "\<And>org. sumBy (aggPart org) aggs = sumBy (detailPart org) rows"
  shows "dbval ((=) d) (commitUsageOnly aggs rows)
           (\<lambda>_ d'. usageInv d' \<and> details d' = details d @ rows \<and> cursors d' = cursors d)"
proof -
  let ?f = "\<lambda>org. sumBy (ledgerPart org) (ledger d)"
  have 1: "dbval ((=) d) (foreach aggs (\<lambda>a. AddToLedgerBucketTx (ledgerRow a)))
     (\<lambda>_. ledgerAt (\<lambda>org. ?f org + sumBy (aggPart org) aggs) (details d) (cursors d))"
    by (rule dbval_pre[OF addAggs]) (use inv in \<open>auto simp: ledgerAt_def usageInv_def usageWf_def\<close>)
  have 2: "dbval (ledgerAt (\<lambda>org. ?f org + sumBy (aggPart org) aggs) (details d) (cursors d))
     (InsertUsageDetailTx rows) (\<lambda>_. ledgerAt (\<lambda>org. ?f org + sumBy (aggPart org) aggs) (details d @ rows) (cursors d))"
    unfolding InsertUsageDetailTx_def
    using insertChunks[of "details d" "chunks rows"] fresh by (simp add: concat_chunks)
  show ?thesis
    unfolding commitUsageOnly_def
    by (rule dbval_bind[OF 1], rule dbval_weak[OF 2])
       (use inv fresh in \<open>auto simp: ledgerAt_def usageInv_def usageWf_def adds\<close>)
qed

section \<open>The sink\<close>

text \<open>The map key of an aggregate determines its organization.\<close>

lemma takeWhile_itoa: "takeWhile (\<lambda>c. c \<noteq> CHR ''|'') (itoa i @ ''|'' @ zs) = itoa i"
proof -
  have "CHR ''|'' \<notin> set (itoa i)"
    using digits_chars[of "CHR ''|''"] by (auto simp: itoa_def)
  then show ?thesis by (auto simp: takeWhile_append)
qed

lemma aggKey_org: "aggKey o1 u1 k1 m1 b1 = aggKey o2 u2 k2 m2 b2 \<Longrightarrow> o1 = o2"
proof -
  assume "aggKey o1 u1 k1 m1 b1 = aggKey o2 u2 k2 m2 b2"
  then have "takeWhile (\<lambda>c. c \<noteq> CHR ''|'') (aggKey o1 u1 k1 m1 b1) = takeWhile (\<lambda>c. c \<noteq> CHR ''|'') (aggKey o2 u2 k2 m2 b2)"
    by simp
  then have "itoa o1 = itoa o2" unfolding aggKey_def takeWhile_itoa .
  then show ?thesis by simp
qed

lemma keyOf_org: "keyOf a = keyOf b \<Longrightarrow> k_org a = k_org b"
  unfolding keyOf_def by (rule aggKey_org)

lemma keyOf_addQuota [simp]: "keyOf (addQuota q ts a) = keyOf a"
  by (simp add: keyOf_def addQuota_def)

definition aggsWf :: "bucket_agg list \<Rightarrow> bool" where
  "aggsWf as \<longleftrightarrow> distinct (map keyOf as) \<and> (\<forall>a \<in> set as. 0 \<le> k_consumed a)"

definition sinkOk :: "sink \<Rightarrow> bool" where
  "sinkOk sk \<longleftrightarrow> aggsWf (sk_aggs sk) \<and> distinct (map d_log_id (sk_details sk))
     \<and> (\<forall>r \<in> set (sk_details sk). 0 < d_consumed r)
     \<and> (\<forall>org. sumBy (aggPart org) (sk_aggs sk) = sumBy (detailPart org) (sk_details sk))"

lemma sinkOk_new: "sinkOk (newSink bf)"
  by (simp add: sinkOk_def newSink_def aggsWf_def)

lemma mergeAgg_spec:
  assumes wf: "aggsWf as" and q: "0 < q"
    and bound: "sumBy (aggPart (k_org a)) as + q < 2 ^ 63" and zero: "k_consumed a = 0" "k_max_ts a = 0"
  shows "aggsWf (mergeAgg a q ts as)
       \<and> sumBy (aggPart org) (mergeAgg a q ts as) = sumBy (aggPart org) as + (if k_org a = org then q else 0)"
proof (cases "list_ex (\<lambda>x. keyOf x = keyOf a) as")
  case False
  have "0 \<le> sumBy (aggPart (k_org a)) as"
    using wf by (intro sumBy_nonneg) (auto simp: aggsWf_def aggPart_def)
  then have "fits64 q" using q bound by (simp add: fits64_def)
  then have "k_consumed (addQuota q ts (a\<lparr>k_consumed := 0, k_max_ts := 0\<rparr>)) = q"
    by (simp add: addQuota_def)
  moreover have "k_org (addQuota q ts (a\<lparr>k_consumed := 0, k_max_ts := 0\<rparr>)) = k_org a"
    by (simp add: addQuota_def)
  moreover have "keyOf (addQuota q ts (a\<lparr>k_consumed := 0, k_max_ts := 0\<rparr>)) = keyOf a"
    by (simp add: keyOf_def addQuota_def)
  ultimately show ?thesis
    using False wf q by (auto simp: mergeAgg_def aggsWf_def aggPart_def list_ex_iff)
next
  case True
  then obtain x where x: "x \<in> set as" "keyOf x = keyOf a" by (auto simp: list_ex_iff)
  have org: "k_org x = k_org a" by (rule keyOf_org) (rule x(2))
  have dist: "distinct (map keyOf as)" and pos: "\<And>y. y \<in> set as \<Longrightarrow> 0 \<le> k_consumed y"
    using wf by (auto simp: aggsWf_def)
  have le: "aggPart (k_org a) x \<le> sumBy (aggPart (k_org a)) as"
    by (rule sumBy_member[OF _ x(1)]) (auto simp: aggPart_def pos)
  have fits: "i64 (k_consumed x + q) = k_consumed x + q"
    using le bound pos[OF x(1)] q org by (intro i64_id) (auto simp: aggPart_def fits64_def)
  have "sumBy (aggPart org) (updateKey keyOf (keyOf a) (addQuota q ts) as)
      = sumBy (aggPart org) as - aggPart org x + aggPart org (addQuota q ts x)"
    by (rule sumBy_updateKey[OF dist x])
  moreover have "aggPart org (addQuota q ts x) = aggPart org x + (if k_org a = org then q else 0)"
    using fits org by (auto simp: aggPart_def addQuota_def)
  moreover have "aggsWf (updateKey keyOf (keyOf a) (addQuota q ts) as)"
  proof -
    have only: "y \<in> set as \<Longrightarrow> keyOf y = keyOf a \<Longrightarrow> y = x" for y
      using dist x by (metis distinct_map inj_onD)
    have "map keyOf (updateKey keyOf (keyOf a) (addQuota q ts) as) = map keyOf as"
      by (rule map_updateKey_same) simp
    moreover have "0 \<le> k_consumed y" if y: "y \<in> set (updateKey keyOf (keyOf a) (addQuota q ts) as)" for y
      using set_updateKeyD[OF y]
    proof
      assume "\<exists>r \<in> set as. keyOf r = keyOf a \<and> y = addQuota q ts r"
      then have "y = addQuota q ts x" using only by blast
      then show ?thesis using fits q pos[OF x(1)] by (simp add: addQuota_def)
    qed (rule pos)
    ultimately show ?thesis using dist by (simp add: aggsWf_def)
  qed
  ultimately show ?thesis using True by (simp add: mergeAgg_def)
qed

lemma ingestInto_ok:
  assumes ok: "sinkOk sk" and q: "0 < e_quota e" and fresh: "e_id e \<notin> d_log_id ` set (sk_details sk)"
    and bound: "sumBy d_consumed (sk_details sk) + e_quota e < 2 ^ 63"
  shows "sinkOk (ingestInto org mem tm key e sk)"
proof -
  let ?a = "\<lparr> k_org = org, k_member = mem, k_user = e_user e, k_key = key, k_team = tm,
           k_model = e_model e, k_bucket = hourBucket (e_created e), k_consumed = 0, k_max_ts = 0 \<rparr>"
  have part: "sumBy (detailPart org) (sk_details sk) \<le> sumBy d_consumed (sk_details sk)"
    using ok unfolding sinkOk_def sumBy_def
    by (intro sum_list_mono) (simp add: detailPart_def less_imp_le)
  have "sumBy (aggPart org) (sk_aggs sk) + e_quota e < 2 ^ 63"
    using ok part bound by (simp add: sinkOk_def)
  then have m: "aggsWf (mergeAgg ?a (e_quota e) (e_created e) (sk_aggs sk))
      \<and> sumBy (aggPart o') (mergeAgg ?a (e_quota e) (e_created e) (sk_aggs sk))
          = sumBy (aggPart o') (sk_aggs sk) + (if org = o' then e_quota e else 0)" for o'
    using mergeAgg_spec[of "sk_aggs sk" "e_quota e" ?a "e_created e" o'] ok q by (simp add: sinkOk_def)
  show ?thesis
    using ok fresh q m by (auto simp: sinkOk_def ingestInto_def detailPart_def)
qed

end
