(* ===== verification/Triples.thy ===== *)
theory Triples
  imports Effects
begin

text \<open>
  Partial-correctness triples on worlds: \<open>val P m Q\<close> says that \<open>m\<close>, started where \<open>P\<close> holds, ends in
  an error or gives a result with \<open>Q\<close>.  What an error leaves behind is said by guarantees; a
  triple and a guarantee together give a weakest precondition.
\<close>

definition val :: "('u world \<Rightarrow> bool) \<Rightarrow> ('u, 'a) op \<Rightarrow> ('a \<Rightarrow> 'u world \<Rightarrow> bool) \<Rightarrow> bool" where
  "val P m Q \<longleftrightarrow> (\<forall>w. P w \<longrightarrow> wp m Q (\<lambda>_ _. True) w)"

lemma valI: "(\<And>w a w'. P w \<Longrightarrow> m w = (Inr a, w') \<Longrightarrow> Q a w') \<Longrightarrow> val P m Q"
  by (auto simp: val_def wp_def split: prod.splits sum.splits)

lemma valD: "val P m Q \<Longrightarrow> P w \<Longrightarrow> m w = (Inr a, w') \<Longrightarrow> Q a w'"
  by (force simp: val_def wp_def)

lemma val_return: "(\<And>w. P w \<Longrightarrow> Q a w) \<Longrightarrow> val P (return a) Q"
  by (simp add: val_def wp_simps)

lemma val_throw: "val P (throw e) Q"
  by (simp add: val_def wp_simps)

lemma val_bind: "val P m R \<Longrightarrow> (\<And>a. val (R a) (f a) Q) \<Longrightarrow> val P (bind m f) Q"
  by (fastforce simp: val_def wp_simps elim: wp_mono)

lemma val_mono: "val P m Q \<Longrightarrow> (\<And>w. P' w \<Longrightarrow> P w) \<Longrightarrow> (\<And>a w. Q a w \<Longrightarrow> Q' a w) \<Longrightarrow> val P' m Q'"
  by (fastforce simp: val_def elim: wp_mono)

lemma val_post: "val P m Q \<Longrightarrow> (\<And>a w. Q a w \<Longrightarrow> Q' a w) \<Longrightarrow> val P m Q'"
  by (erule val_mono)

lemma val_pre: "val P m Q \<Longrightarrow> (\<And>w. P' w \<Longrightarrow> P w) \<Longrightarrow> val P' m Q"
  by (erule val_mono)

lemma val_if: "(b \<Longrightarrow> val P m Q) \<Longrightarrow> (\<not> b \<Longrightarrow> val P n Q) \<Longrightarrow> val P (if b then m else n) Q"
  by simp

lemma val_mapErr: "val P m Q \<Longrightarrow> val P (mapErr g m) Q"
  by (auto simp: val_def wp_simps)

lemma val_attempt:
  "val P m Q \<Longrightarrow> val P (attempt m) (\<lambda>r w. case r of Inr a \<Rightarrow> Q a w | Inl _ \<Rightarrow> True)"
  by (auto simp: val_def wp_simps elim: wp_mono)

lemma val_pure: "(b \<Longrightarrow> val P m Q) \<Longrightarrow> val (\<lambda>w. b \<and> P w) m Q"
  by (auto simp: val_def)

lemma val_conj: "val P m Q \<Longrightarrow> val P' m Q' \<Longrightarrow> val (\<lambda>w. P w \<and> P' w) m (\<lambda>a w. Q a w \<and> Q' a w)"
  by (fastforce simp: val_def dest: wp_conj elim: wp_mono)

lemma val_foldM:
  assumes "\<And>pre x rest acc. xs = pre @ x # rest \<Longrightarrow> val (J pre acc) (f x acc) (J (pre @ [x]))"
  shows "val (J [] acc) (foldM f xs acc) (J xs)"
  unfolding val_def
proof (intro allI impI)
  fix w assume "J [] acc w"
  then show "wp (foldM f xs acc) (J xs) (\<lambda>_ _. True) w"
    by (rule wp_foldM) (use assms in \<open>auto simp: val_def\<close>)
qed

text \<open>A property of worlds that a guarantee carries along.\<close>

lemma val_guar: "guar R m \<Longrightarrow> (\<And>w w'. P w \<Longrightarrow> R w w' \<Longrightarrow> P w') \<Longrightarrow> val P m (\<lambda>_. P)"
  by (rule valI) (metis guarD')

lemma val_query: "(\<And>w fs. P w \<Longrightarrow> P (w\<lparr>w_faults := fs\<rparr>)) \<Longrightarrow> val P (query f) (\<lambda>a w. P w \<and> a = f (w_db w))"
  unfolding val_def by (auto intro!: wp_queryI)

lemma wp_val_guar:
  assumes v: "val P m Q" and g: "guar R m" and p: "P w" and e: "\<And>w'. R w w' \<Longrightarrow> E w'"
  shows "wp m Q (\<lambda>_. E) w"
proof -
  have 1: "wp m Q (\<lambda>_ _. True) w" using v p by (simp add: val_def)
  have 2: "wp m (\<lambda>_. R w) (\<lambda>_. R w) w" by (rule guar_wp[OF g])
  show ?thesis using wp_conj[OF 1 2] by (rule wp_mono) (auto intro: e)
qed

lemma dbval_guar: "guar (onDb D) m \<Longrightarrow> (\<And>d d'. P d \<Longrightarrow> D d d' \<Longrightarrow> P d') \<Longrightarrow> dbval P m (\<lambda>_. P)"
  by (rule dbvalI) (metis guarD' onDb_def)

lemma wp_WithTx:
  assumes b: "dbval P body (\<lambda>_. Q)" and p: "P (w_db w)" and e: "E (w_db w)"
    and q: "\<And>d. Q d \<Longrightarrow> E d"
  shows "wp (WithTx body) (\<lambda>_ w'. Q (w_db w')) (\<lambda>_ w'. E (w_db w')) w"
  by (rule wp_mono[OF WithTx_atomic[OF b p]]) (use e q in auto)

end
