(* ===== verification/SettlementSafe.thy ===== *)
theory SettlementSafe
  imports BackfillFrames UsageInvariant Triples
begin

text \<open>
  No log is settled twice.  The usage tables stay consistent, and every detail row at or above
  the cursor's time has an identifier at or below the cursor's watermark, so that the main
  window, the rescan and the rows already written never meet; this holds for every schedule of
  driver faults and whatever new-api answers, as long as one run reads one list of logs.
\<close>

section \<open>The log server during one run\<close>

definition logWindow :: "log_entry list \<Rightarrow> int \<Rightarrow> int \<Rightarrow> log_entry list" where
  "logWindow logs since til = filter (\<lambda>e. since \<le> e_created e \<and> e_created e \<le> til) logs"

definition pageOf :: "log_entry list \<Rightarrow> int \<Rightarrow> log_entry list" where
  "pageOf es p = take 100 (drop (nat ((p - 1) * 100)) es)"

text \<open>
  The documented behaviour of \<open>/api/log/\<close>: a page of the logs of the closed time interval and
  their number, or an error; reading changes nothing.
\<close>

definition servesLogs :: "'u service \<Rightarrow> 'u \<Rightarrow> log_entry list \<Rightarrow> bool" where
  "servesLogs S u logs \<longleftrightarrow> (\<forall>since til p.
     case na_ReadConsumptionLogs (sv_up S) since til p 100 u of
       (Inl e, u') \<Rightarrow> u' = u
     | (Inr (es, cnt), u') \<Rightarrow> u' = u \<and> es = pageOf (logWindow logs since til) p
                                \<and> cnt = int (length (logWindow logs since til)))"

text \<open>
  A log identifier is used once and keeps its creation time \<open>tsOf\<close>, and the quota of all logs fits.
\<close>

definition logsOk :: "(int \<Rightarrow> int) \<Rightarrow> log_entry list \<Rightarrow> bool" where
  "logsOk tsOf logs \<longleftrightarrow> distinct (map e_id logs) \<and> (\<forall>e \<in> set logs. e_created e = tsOf (e_id e))
     \<and> sumBy (\<lambda>e. max 0 (e_quota e)) logs < 2 ^ 63"

section \<open>The invariant\<close>

definition coverInv :: "db \<Rightarrow> bool" where
  "coverInv d \<longleftrightarrow> distinct (map c_org (cursors d)) \<and>
     (case findCursor 0 d of None \<Rightarrow> details d = []
      | Some c \<Rightarrow> 0 \<le> c_ts c \<and> (\<forall>r \<in> set (details d). c_ts c * 10 ^ 9 \<le> d_ts r \<longrightarrow> d_log_id r \<le> c_log_id c))"

definition agrees :: "(int \<Rightarrow> int) \<Rightarrow> db \<Rightarrow> bool" where
  "agrees tsOf d \<longleftrightarrow> (\<forall>r \<in> set (details d). d_ts r = tsOf (d_log_id r) * 10 ^ 9)"

definition settleInv :: "(int \<Rightarrow> int) \<Rightarrow> db \<Rightarrow> bool" where
  "settleInv tsOf d \<longleftrightarrow> usageInv d \<and> coverInv d \<and> agrees tsOf d"

definition sameUsage :: "db \<Rightarrow> db \<Rightarrow> bool" where
  "sameUsage d d' \<longleftrightarrow> ledger d' = ledger d \<and> details d' = details d \<and> cursors d' = cursors d"

interpretation su: org_frame sameUsage
  by unfold_locales (auto simp: sameUsage_def)

lemma sameUsage_inv: "sameUsage d d' \<Longrightarrow> settleInv tsOf d' \<longleftrightarrow> settleInv tsOf d"
  by (simp add: sameUsage_def settleInv_def usageInv_def usageWf_def coverInv_def agrees_def findCursor_def cong: option.case_cong)

lemma sameUsage_sym: "sameUsage d d' \<Longrightarrow> sameUsage d' d"
  by (simp add: sameUsage_def)

section \<open>The sink holds new rows of the logs\<close>

definition fromLog :: "log_entry \<Rightarrow> detail_row \<Rightarrow> bool" where
  "fromLog e r \<longleftrightarrow> d_log_id r = e_id e \<and> d_ts r = e_created e * 10 ^ 9 \<and> d_consumed r = e_quota e"

definition loaded :: "log_entry set \<Rightarrow> sink \<Rightarrow> bool" where
  "loaded A sk \<longleftrightarrow> sinkOk sk \<and> (\<forall>r \<in> set (sk_details sk). \<exists>e \<in> A. fromLog e r)"

lemma rows_bound:
  "distinct (map d_log_id rows) \<Longrightarrow> distinct (map e_id logs) \<Longrightarrow>
   (\<And>r. r \<in> set rows \<Longrightarrow> \<exists>e \<in> set logs. fromLog e r) \<Longrightarrow>
   sumBy d_consumed rows \<le> sumBy (\<lambda>e. max 0 (e_quota e)) logs"
proof (induction rows arbitrary: logs)
  case Nil
  show ?case by (simp add: sumBy_nonneg)
next
  case (Cons r rows)
  obtain e where e: "e \<in> set logs" "fromLog e r" using Cons.prems(3)[of r] by auto
  then obtain l1 l2 where l: "logs = l1 @ e # l2" by (meson split_list)
  have "sumBy d_consumed rows \<le> sumBy (\<lambda>e. max 0 (e_quota e)) (l1 @ l2)"
  proof (rule Cons.IH)
    show "distinct (map d_log_id rows)" "distinct (map e_id (l1 @ l2))" using Cons.prems l by auto
    fix r' assume r': "r' \<in> set rows"
    then obtain e' where e': "e' \<in> set logs" "fromLog e' r'" using Cons.prems(3) by auto
    have "d_log_id r' \<noteq> d_log_id r" using Cons.prems(1) r' by (auto simp: image_iff)
    then have "e' \<noteq> e" using e e' by (auto simp: fromLog_def)
    then show "\<exists>e \<in> set (l1 @ l2). fromLog e r'" using e' l by auto
  qed
  moreover have "d_consumed r \<le> max 0 (e_quota e)" using e by (simp add: fromLog_def)
  ultimately show ?case using l by simp
qed

definition sameLoad :: "sink \<Rightarrow> sink \<Rightarrow> bool" where
  "sameLoad sk sk' \<longleftrightarrow> sk_aggs sk' = sk_aggs sk \<and> sk_details sk' = sk_details sk"

lemma sameLoad_simps [simp]:
  "sameLoad sk sk" "sameLoad sk (sk'\<lparr>sk_attr := x1\<rparr>) = sameLoad sk sk'" "sameLoad sk (sk'\<lparr>sk_orgs := x2\<rparr>) = sameLoad sk sk'"
  "sameLoad sk (sk'\<lparr>sk_flags := x3\<rparr>) = sameLoad sk sk'" "sameLoad sk (sk'\<lparr>sk_alerted := x4\<rparr>) = sameLoad sk sk'"
  by (simp_all add: sameLoad_def)

lemma loaded_same: "loaded A sk \<Longrightarrow> sameLoad sk sk' \<Longrightarrow> A \<subseteq> B \<Longrightarrow> loaded B sk'"
  by (simp add: loaded_def sinkOk_def sameLoad_def) blast

lemma loaded_ingestInto:
  assumes l: "loaded A sk" and logs: "logsOk tsOf logs" "insert e A \<subseteq> set logs" and e: "e \<notin> A" "0 < e_quota e"
  shows "loaded (insert e A) (ingestInto org mem tm key e sk)"
proof -
  have rows: "\<exists>e' \<in> insert e A. fromLog e' r" if "r \<in> set (sk_details (ingestInto org mem tm key e sk))" for r
    using l that by (auto simp: loaded_def ingestInto_def fromLog_def)
  have fresh: "e_id e \<notin> d_log_id ` set (sk_details sk)"
  proof
    assume "e_id e \<in> d_log_id ` set (sk_details sk)"
    then obtain e' where "e' \<in> A" "e_id e' = e_id e" using l by (auto simp: loaded_def fromLog_def)
    then show False using logs e by (auto simp: logsOk_def distinct_map inj_on_def)
  qed
  have "sumBy d_consumed (sk_details (ingestInto org mem tm key e sk)) \<le> sumBy (\<lambda>e. max 0 (e_quota e)) logs"
  proof (rule rows_bound)
    show "distinct (map d_log_id (sk_details (ingestInto org mem tm key e sk)))"
      using l fresh by (auto simp: ingestInto_def loaded_def sinkOk_def)
    show "distinct (map e_id logs)" using logs by (simp add: logsOk_def)
    show "\<exists>e \<in> set logs. fromLog e r" if "r \<in> set (sk_details (ingestInto org mem tm key e sk))" for r
      using rows[OF that] logs(2) by auto
  qed
  then have "sumBy d_consumed (sk_details sk) + e_quota e < 2 ^ 63"
    using logs by (simp add: ingestInto_def logsOk_def)
  then have "sinkOk (ingestInto org mem tm key e sk)"
    using l fresh e by (intro ingestInto_ok) (auto simp: loaded_def)
  then show ?thesis using rows by (simp add: loaded_def)
qed

lemma val_True: "val P m (\<lambda>_ _. True)"
  by (auto simp: val_def wp_def split: prod.splits sum.splits)

lemma val_given: "(b \<Longrightarrow> val (\<lambda>_. True) m Q) \<Longrightarrow> val (\<lambda>_. b) m Q"
  by (simp add: val_def)

lemma val_when: "(b \<Longrightarrow> val P m Q) \<Longrightarrow> val (\<lambda>w. P w \<and> b) m Q"
  by (auto simp: val_def)

lemma attributeToken_load:
  "sameLoad sk0 sk \<Longrightarrow> val (\<lambda>_. True) (attributeToken e sk) (\<lambda>r _. sameLoad sk0 (fst r))"
  unfolding attributeToken_def
  by (cases "sk_attr sk (e_token e)")
     (auto intro!: val_return val_bind[OF val_True])

lemma attributeUser_load:
  "sameLoad sk0 sk \<Longrightarrow> val (\<lambda>_. True) (attributeUser e sk) (\<lambda>r _. sameLoad sk0 (fst r))"
  unfolding attributeUser_def Let_def
  by (cases "sk_orgs sk (e_user e)")
     (auto intro!: val_return val_bind[OF val_True])

lemma orphanAlert_load:
  "sameLoad sk0 sk \<Longrightarrow> val (\<lambda>_. True) (orphanAlert e m sk) (\<lambda>sk' _. sameLoad sk0 sk')"
  unfolding orphanAlert_def by (auto intro!: val_if val_return val_bind[OF val_True])

lemma cacheFlag_load:
  "sameLoad sk0 sk \<Longrightarrow> val (\<lambda>_. True) (cacheFlag org sk) (\<lambda>sk' _. sameLoad sk0 sk')"
  unfolding cacheFlag_def by (auto intro!: val_if val_return val_bind[OF val_True] split: prod.splits)

text \<open>Attribution, alerts and caches leave the load alone; at most the last step adds to it.\<close>

definition ingested :: "log_entry \<Rightarrow> sink \<Rightarrow> sink \<Rightarrow> bool" where
  "ingested e sk0 sk' \<longleftrightarrow> (\<exists>sk. sameLoad sk0 sk \<and> (sk' = sk \<or> (\<exists>org mem tm key. sk' = ingestInto org mem tm key e sk)))"

lemma ingested_same: "sameLoad sk0 sk \<Longrightarrow> ingested e sk0 sk"
  by (auto simp: ingested_def)

lemma ingestEntry_result: "val (\<lambda>_. True) (ingestEntry e sk) (\<lambda>sk' _. ingested e sk sk')"
proof -
  have finish: "val (\<lambda>w. sameLoad sk sk3) (return (ingestInto org mem tm key e sk3)) (\<lambda>sk' _. ingested e sk sk')"
    for org mem tm key sk3 unfolding ingested_def by (rule val_return) blast
  have flag: "val (\<lambda>w. sameLoad sk sk2) (bind (cacheFlag org sk2) (\<lambda>sk3. return (ingestInto org mem tm key e sk3)))
      (\<lambda>sk' _. ingested e sk sk')" for org mem tm key sk2
    by (rule val_bind[OF _ finish]) (rule val_given, rule cacheFlag_load)
  have "val (\<lambda>w. sameLoad sk (fst r)) (case r of (sk1, att) \<Rightarrow> (case att of
       Some (m, key) \<Rightarrow>
         bind (orphanAlert e m sk1) (\<lambda>sk2.
         bind (cacheFlag (m_org m) sk2) (\<lambda>sk3.
         return (ingestInto (m_org m) (m_id m) (m_team m) key e sk3)))
     | None \<Rightarrow>
         bind (attributeUser e sk1) (\<lambda>(sk2, org).
         if org = 0 then return sk2
         else bind (cacheFlag org sk2) (\<lambda>sk3. return (ingestInto org 0 None 0 e sk3)))))
      (\<lambda>sk' _. ingested e sk sk')" for r
  proof (cases r)
    case (Pair sk1 att)
    have a: "val (\<lambda>w. sameLoad sk sk1) (orphanAlert e m sk1) (\<lambda>sk' _. sameLoad sk sk')" for m
      by (rule val_given, rule orphanAlert_load)
    have b: "val (\<lambda>w. sameLoad sk sk1) (attributeUser e sk1) (\<lambda>r _. sameLoad sk (fst r))"
      by (rule val_given, rule attributeUser_load)
    show ?thesis
      unfolding Pair
      by (cases att)
         (auto intro!: val_bind[OF a] val_bind[OF b] flag val_if val_return ingested_same split: prod.splits)
  qed
  then show ?thesis
    unfolding ingestEntry_def by (rule val_bind[OF attributeToken_load[OF sameLoad_simps(1)]])
qed

lemma ingestEntry_loaded:
  assumes l: "loaded A sk" "logsOk tsOf logs" "insert e A \<subseteq> set logs" "e \<notin> A" "0 < e_quota e"
  shows "val (\<lambda>_. True) (ingestEntry e sk) (\<lambda>sk' _. loaded (insert e A) sk')"
proof (rule val_post[OF ingestEntry_result])
  fix sk' :: sink and w :: "'a world"
  assume "ingested e sk sk'"
  then obtain sk2 where s: "sameLoad sk sk2" "sk' = sk2 \<or> (\<exists>org mem tm key. sk' = ingestInto org mem tm key e sk2)"
    unfolding ingested_def by blast
  have "loaded A sk2" using l(1) s(1) by (rule loaded_same) simp
  then show "loaded (insert e A) sk'"
    using s(2) l by (auto intro: loaded_same loaded_ingestInto)
qed

section \<open>Pages\<close>

lemma pageOf_step:
  "1 \<le> p \<Longrightarrow> take (nat ((p - 1) * 100)) es @ pageOf es p = take (nat (p * 100)) es"
proof -
  assume "1 \<le> p"
  then have n: "nat (p * 100) = nat ((p - 1) * 100) + 100" by (simp add: nat_eq_iff)
  show ?thesis unfolding pageOf_def n take_add ..
qed

text \<open>
  A page loop folds its step over a prefix of the window; over all of it when the pages suffice.
\<close>

lemma val_foldM_from:
  assumes "\<And>pre x rest acc. xs = pre @ x # rest \<Longrightarrow> val (J (zs @ pre) acc) (f x acc) (J (zs @ pre @ [x]))"
  shows "val (J zs acc) (foldM f xs acc) (J (zs @ xs))"
  using val_foldM[where J = "\<lambda>pre. J (zs @ pre)" and f = f and xs = xs and acc = acc] assms by simp

lemma servesLogs_read:
  assumes "servesLogs S u logs"
  shows "val (\<lambda>w. w_up w = u \<and> P w) (readLogs S since til p)
     (\<lambda>r w. (w_up w = u \<and> P w) \<and> fst r = pageOf (logWindow logs since til) p
           \<and> snd r = int (length (logWindow logs since til)))"
proof (rule valI)
  fix w r w' assume p: "w_up w = u \<and> P w" and r: "readLogs S since til p w = (Inr r, w')"
  have "case na_ReadConsumptionLogs (sv_up S) since til p 100 u of
       (Inl e, u') \<Rightarrow> u' = u
     | (Inr (es, cnt), u') \<Rightarrow> u' = u \<and> es = pageOf (logWindow logs since til) p
                                \<and> cnt = int (length (logWindow logs since til))"
    using assms by (simp add: servesLogs_def)
  with p r show "(w_up w' = u \<and> P w') \<and> fst r = pageOf (logWindow logs since til) p
           \<and> snd r = int (length (logWindow logs since til))"
    by (auto simp: readLogs_def mapErr_def upcall_def split: prod.splits sum.splits)
qed

lemma val_pageLoop:
  assumes fetch: "\<And>p pre acc. val (J pre acc) (fetch p) (\<lambda>r w. J pre acc w \<and> fst r = pageOf W p \<and> snd r = int (length W))"
    and step: "\<And>pre x rest acc. W = pre @ x # rest \<Longrightarrow> val (J pre acc) (step x acc) (J (pre @ [x]))"
  shows "1 \<le> p \<Longrightarrow>
    val (J (take (nat ((p - 1) * 100)) W) acc)
      (pageLoop fetch step n p acc)
      (\<lambda>acc' w. \<exists>k. J (take k W) acc' w
          \<and> (int (length W) \<le> (p - 1 + int n) * 100 \<longrightarrow> length W \<le> k))"
    (is "_ \<Longrightarrow> val _ _ (?Q p n)")
proof (induction n arbitrary: p acc)
  case 0
  show ?case by (auto intro!: val_return exI[of _ "nat ((p - 1) * 100)"])
next
  case (Suc n)
  let ?n = "nat ((p - 1) * 100)"
  have split: "W = take ?n W @ pageOf W p @ drop (nat (p * 100)) W"
    using pageOf_step[OF Suc.prems, of W] by (metis append_assoc append_take_drop_id)
  have steps: "val (J (take ?n W) acc) (foldM step (pageOf W p) acc) (J (take (nat (p * 100)) W))"
    unfolding pageOf_step[OF Suc.prems, symmetric]
  proof (rule val_foldM_from)
    fix pre x rest a assume "pageOf W p = pre @ x # rest"
    then have "W = (take ?n W @ pre) @ x # (rest @ drop (nat (p * 100)) W)" using split by simp
    from step[OF this] show "val (J (take ?n W @ pre) a) (step x a) (J (take ?n W @ pre @ [x]))" by simp
  qed
  have rest: "val (J (take (nat (p * 100)) W) acc')
      (if p * 100 \<ge> int (length W) then return acc' else pageLoop fetch step n (p + 1) acc')
      (?Q p (Suc n))" for acc'
  proof (rule val_if)
    assume "p * 100 \<ge> int (length W)"
    then show "val (J (take (nat (p * 100)) W) acc') (return acc') (?Q p (Suc n))"
      by (auto intro!: val_return exI[of _ "nat (p * 100)"])
  next
    have "val (J (take (nat ((p + 1 - 1) * 100)) W) acc') (pageLoop fetch step n (p + 1) acc') (?Q (p + 1) n)"
      by (rule Suc.IH) (use Suc.prems in simp)
    then show "val (J (take (nat (p * 100)) W) acc') (pageLoop fetch step n (p + 1) acc') (?Q p (Suc n))"
      by (simp add: algebra_simps)
  qed
  show ?case
    unfolding pageLoop.simps
  proof (rule val_bind[OF fetch])
    fix r :: "log_entry list \<times> int"
    show "val (\<lambda>w. J (take ?n W) acc w \<and> fst r = pageOf W p \<and> snd r = int (length W))
       (case r of (es, cnt) \<Rightarrow> bind (foldM step es acc) (\<lambda>acc'.
          if p * 100 \<ge> cnt then return acc' else pageLoop fetch step n (p + 1) acc')) (?Q p (Suc n))"
    proof (cases "fst r = pageOf W p \<and> snd r = int (length W)")
      case True
      then have r: "r = (pageOf W p, int (length W))" by (cases r) auto
      show ?thesis unfolding r prod.case fst_conv snd_conv
        by (rule val_pre[OF val_bind[OF steps rest]]) simp
    next
      case False
      then show ?thesis by (auto simp: val_def)
    qed
  qed
qed

end
