(* ===== verification/SettlementExact.thy ===== *)
theory SettlementExact
  imports SettlementSafe
begin

text \<open>
  A whole settlement run keeps the invariant of SettlementSafe: rescan, main window, transaction
  and the work after the commit, for every schedule of driver faults.
\<close>

definition idsOf :: "db \<Rightarrow> int set" where
  "idsOf d = d_log_id ` set (details d)"

text \<open>While a run reads, the upstream and the usage tables are those it started with.\<close>

definition base :: "'u \<Rightarrow> db \<Rightarrow> 'u world \<Rightarrow> bool" where
  "base u d w \<longleftrightarrow> w_up w = u \<and> sameUsage d (w_db w)"

lemma base_up: "base u d w \<Longrightarrow> w_up w = u"
  by (simp add: base_def)

lemma base_ids: "base u d w \<Longrightarrow> idsOf (w_db w) = idsOf d"
  by (simp add: base_def sameUsage_def idsOf_def)

lemma val_base:
  assumes "guar sameUp m" "guar (onDb sameUsage) m"
  shows "val (base u d) m (\<lambda>_. base u d)"
proof (rule valI)
  fix w a w' assume b: "base u d w" and m: "m w = (Inr a, w')"
  have "sameUsage (w_db w) (w_db w')" using guarD'[OF assms(2) m] by (simp add: onDb_def)
  then show "base u d w'"
    using b guarD'[OF assms(1) m] by (auto simp: base_def sameUp_def intro: su.db_trans)
qed

lemma val_base_with:
  assumes "guar sameUp m" "guar (onDb sameUsage) m" "val (\<lambda>_. True) m Q"
  shows "val (base u d) m (\<lambda>a w. base u d w \<and> Q a w)"
  using val_conj[OF val_base[OF assms(1,2)] assms(3)] by (simp add: val_def)

lemma base_read:
  assumes "servesLogs S u logs"
  shows "val (\<lambda>w. base u d w \<and> b) (readLogs S since til p) (\<lambda>r w. (base u d w \<and> b)
     \<and> fst r = pageOf (logWindow logs since til) p \<and> snd r = int (length (logWindow logs since til)))"
  by (rule val_mono[OF servesLogs_read[OF assms, where P = "\<lambda>w. base u d w \<and> b"]]) (auto dest: base_up)

section \<open>Which guarantees reading keeps\<close>

lemma sameUp_ingestEntry [guar_intros]: "guar sameUp (ingestEntry e sk)"
  unfolding ingestEntry_def attributeToken_def attributeUser_def orphanAlert_def cacheFlag_def
    GetMemberByNewapiTokenID_def GetOrgIDByNewapiUserID_def GetOrgBillingFlags_def Let_def
  by (intro guar_intros)

lemma val_ingest:
  assumes "loaded A sk" "logsOk tsOf logs" "insert e A \<subseteq> set logs" "e \<notin> A" "0 < e_quota e"
  shows "val (base u d) (ingestEntry e sk) (\<lambda>sk' w. base u d w \<and> loaded (insert e A) sk')"
  by (rule val_base_with[OF sameUp_ingestEntry su.ingestEntry ingestEntry_loaded[OF assms]])

lemma val_FilterExisting:
  "val (base u d) (FilterExistingDetailLogIDs ids) (\<lambda>r w. base u d w \<and> set r = set ids \<inter> idsOf d)"
proof -
  let ?J = "\<lambda>pre out w. base u d w \<and> set out = set (concat pre) \<inter> idsOf d"
  have step: "val (?J pre out) (bind (query (\<lambda>d. filter (\<lambda>i. i \<in> set ch) (map d_log_id (details d))))
      (\<lambda>found. return (out @ found))) (?J (pre @ [ch]))" for pre out ch
  proof (rule val_bind)
    show "val (?J pre out) (query (\<lambda>d. filter (\<lambda>i. i \<in> set ch) (map d_log_id (details d))))
      (\<lambda>a w. ?J pre out w \<and> a = filter (\<lambda>i. i \<in> set ch) (map d_log_id (details (w_db w))))"
      by (rule val_query) (simp add: base_def)
    show "val (\<lambda>w. ?J pre out w \<and> a = filter (\<lambda>i. i \<in> set ch) (map d_log_id (details (w_db w))))
        (return (out @ a)) (?J (pre @ [ch]))" for a
      by (rule val_return) (auto simp: idsOf_def base_def sameUsage_def)
  qed
  have "val (?J [] []) (foldM (\<lambda>ch out. bind (query (\<lambda>d. filter (\<lambda>i. i \<in> set ch) (map d_log_id (details d))))
      (\<lambda>found. return (out @ found))) (chunks ids) []) (?J (chunks ids))"
    by (rule val_foldM) (rule step)
  then show ?thesis
    unfolding FilterExistingDetailLogIDs_def FilterExistingDetailLogIDsTx_def
    by (rule val_mono) (simp_all add: concat_chunks)
qed

section \<open>The rescan\<close>

definition late :: "log_entry list \<Rightarrow> db \<Rightarrow> int \<Rightarrow> log_entry set" where
  "late logs d since = {e \<in> set logs. e_created e < since \<and> e_id e \<notin> idsOf d}"

lemma loaded_new: "loaded A (newSink bf)"
  using sinkOk_new[of bf] by (simp add: loaded_def newSink_def)

lemma loaded_mono: "loaded A sk \<Longrightarrow> A \<subseteq> B \<Longrightarrow> loaded B sk"
  by (rule loaded_same[OF _ sameLoad_simps(1)])

lemma settleRescan_spec:
  assumes serve: "servesLogs S u logs" and ok: "logsOk tsOf logs"
  shows "val (base u d) (settleRescan S since (newSink False))
           (\<lambda>sk w. base u d w \<and> loaded (late logs d since) sk)"
proof -
  let ?W = "logWindow logs (max 0 (since - settlementRescanOverlapSec)) (since - 1)"
  let ?pos = "filter (\<lambda>e. e_quota e > 0)"
  have dW: "distinct ?W" using ok by (simp add: logsOk_def logWindow_def distinct_map)
  have read: "val (base u d) (pageLoop (readLogs S (max 0 (since - settlementRescanOverlapSec)) (since - 1))
             (\<lambda>e acc. return (if e_quota e > 0 then acc @ [e] else acc)) settlementRescanMaxPages 1 [])
      (\<lambda>acc w. base u d w \<and> (\<exists>k. acc = ?pos (take k ?W)))"
  proof (rule val_mono[OF val_pageLoop[where J = "\<lambda>pre acc w. base u d w \<and> acc = ?pos pre" and W = ?W]])
    show "val (\<lambda>w. base u d w \<and> acc = ?pos pre) (return (if e_quota x > 0 then acc @ [x] else acc))
       (\<lambda>acc w. base u d w \<and> acc = ?pos (pre @ [x]))" for pre x acc
      by (auto intro!: val_return)
  qed (rule base_read[OF serve] | simp | blast)+
  have fold: "val (\<lambda>w. base u d w \<and> (\<exists>k. rescan = ?pos (take k ?W)))
      (foldM (\<lambda>e acc. if e_id e \<in> set existing then return acc else ingestEntry e acc) rescan (newSink False))
      (\<lambda>sk w. base u d w \<and> loaded (late logs d since) sk)"
    if ex: "set existing = set (map e_id rescan) \<inter> idsOf d" for rescan existing
  proof (rule val_when)
    assume "\<exists>k. rescan = ?pos (take k ?W)"
    then obtain k where k: "rescan = ?pos (take k ?W)" by blast
    let ?J = "\<lambda>pre sk w. base u d w \<and> loaded {e \<in> set pre. e_id e \<notin> idsOf d} sk"
    have dist: "distinct rescan" using dW by (simp add: k)
    have sub: "set rescan \<subseteq> {e \<in> set logs. e_created e < since \<and> e_quota e > 0}"
      by (auto simp: k logWindow_def dest!: in_set_takeD)
    have step: "val (?J pre sk) (if e_id e \<in> set existing then return sk else ingestEntry e sk) (?J (pre @ [e]))"
      if r: "rescan = pre @ e # rest" for pre e rest sk
    proof (rule val_if)
      assume "e_id e \<in> set existing"
      then show "val (?J pre sk) (return sk) (?J (pre @ [e]))"
        by (auto intro!: val_return elim: loaded_mono)
    next
      assume "e_id e \<notin> set existing"
      then have n: "e_id e \<notin> idsOf d" using ex r by auto
      let ?A = "{e \<in> set pre. e_id e \<notin> idsOf d}"
      have ins: "{x \<in> set (pre @ [e]). e_id x \<notin> idsOf d} = insert e ?A" using n by auto
      have "loaded ?A sk \<Longrightarrow> val (base u d) (ingestEntry e sk) (?J (pre @ [e]))"
        unfolding ins by (rule val_ingest) (use r dist sub ok in auto)
      then show "val (?J pre sk) (ingestEntry e sk) (?J (pre @ [e]))"
        by (rule val_when)
    qed
    have "val (?J [] (newSink False))
       (foldM (\<lambda>e acc. if e_id e \<in> set existing then return acc else ingestEntry e acc) rescan (newSink False))
       (?J rescan)"
      by (rule val_foldM) (rule step)
    then show "val (base u d)
       (foldM (\<lambda>e acc. if e_id e \<in> set existing then return acc else ingestEntry e acc) rescan (newSink False))
       (\<lambda>sk w. base u d w \<and> loaded (late logs d since) sk)"
      by (rule val_mono) (use sub in \<open>auto simp: late_def loaded_new elim!: loaded_mono\<close>)
  qed
  show ?thesis
    unfolding settleRescan_def
  proof (rule val_bind[OF read], rule val_if)
    fix rescan :: "log_entry list"
    show "val (\<lambda>w. base u d w \<and> (\<exists>k. rescan = ?pos (take k ?W))) (return (newSink False))
      (\<lambda>sk w. base u d w \<and> loaded (late logs d since) sk)"
      by (rule val_return) (simp add: loaded_new)
    have 1: "val (\<lambda>w. base u d w \<and> (\<exists>k. rescan = ?pos (take k ?W)))
       (mapErr internal (FilterExistingDetailLogIDs (map e_id rescan)))
       (\<lambda>r w. (base u d w \<and> (\<exists>k. rescan = ?pos (take k ?W))) \<and> set r = set (map e_id rescan) \<inter> idsOf d)"
      by (rule val_mapErr, rule val_mono[OF val_conj[OF val_FilterExisting val_guar[where R = "\<lambda>_ _. True"]]])
         (auto simp: guar_def)
    show "val (\<lambda>w. base u d w \<and> (\<exists>k. rescan = ?pos (take k ?W)))
      (bind (mapErr internal (FilterExistingDetailLogIDs (map e_id rescan))) (\<lambda>existing.
         foldM (\<lambda>e acc. if e_id e \<in> set existing then return acc else ingestEntry e acc) rescan (newSink False)))
      (\<lambda>sk w. base u d w \<and> loaded (late logs d since) sk)"
    proof (rule val_bind[OF 1])
      fix a
      show "val (\<lambda>w. (base u d w \<and> (\<exists>k. rescan = ?pos (take k ?W))) \<and> set a = set (map e_id rescan) \<inter> idsOf d)
        (foldM (\<lambda>e acc. if e_id e \<in> set a then return acc else ingestEntry e acc) rescan (newSink False))
        (\<lambda>sk w. base u d w \<and> loaded (late logs d since) sk)"
        by (rule val_when) (rule fold)
    qed
  qed
qed

section \<open>The main window\<close>

definition ready :: "log_entry list \<Rightarrow> db \<Rightarrow> int \<Rightarrow> int \<Rightarrow> sink \<Rightarrow> int \<Rightarrow> bool" where
  "ready logs d since lastID sk maxID \<longleftrightarrow> lastID \<le> maxID \<and>
     (\<exists>A \<subseteq> set logs. loaded A sk \<and> (\<forall>e \<in> A. e_id e \<notin> idsOf d \<and> (since \<le> e_created e \<longrightarrow> e_id e \<le> maxID)))"

lemma settleMain_spec:
  assumes serve: "servesLogs S u logs" and ok: "logsOk tsOf logs" and l0: "loaded (late logs d since) sk0"
    and cov: "\<And>e. e \<in> set logs \<Longrightarrow> since \<le> e_created e \<Longrightarrow> lastID < e_id e \<Longrightarrow> e_id e \<notin> idsOf d"
  shows "val (base u d) (settleMain S since til lastID sk0)
           (\<lambda>r w. base u d w \<and> ready logs d since lastID (fst r) (snd r))"
proof -
  let ?W = "logWindow logs since til"
  let ?A = "\<lambda>pre. late logs d since \<union> {e \<in> set pre. lastID < e_id e \<and> 0 < e_quota e}"
  let ?J = "\<lambda>pre r w. base u d w \<and> (loaded (?A pre) (fst r) \<and> lastID \<le> snd r \<and> (\<forall>e \<in> set pre. e_id e \<le> snd r))"
  have dW: "distinct ?W" using ok by (simp add: logsOk_def logWindow_def distinct_map)
  have step: "val (?J pre acc) (mainStep lastID e acc) (?J (pre @ [e]))" if W: "?W = pre @ e # rest" for pre e rest acc
  proof (rule val_when)
    obtain sk maxID where acc: "acc = (sk, maxID)" by (cases acc)
    assume J: "loaded (?A pre) (fst acc) \<and> lastID \<le> snd acc \<and> (\<forall>e \<in> set pre. e_id e \<le> snd acc)"
    have inW: "e \<in> set ?W" and e_new: "e \<notin> set pre" using W dW by auto
    then have e: "e \<in> set logs" "since \<le> e_created e" by (auto simp: logWindow_def)
    have preW: "set pre \<subseteq> set logs" using W by (auto simp: logWindow_def dest!: arg_cong[where f = set])
    show "val (base u d) (mainStep lastID e acc) (?J (pre @ [e]))"
      unfolding mainStep_def acc prod.case Let_def
    proof (intro val_if)
      assume "e_id e \<le> lastID"
      then show "val (base u d) (return (sk, maxID)) (?J (pre @ [e]))"
        using J by (auto intro!: val_return elim!: loaded_mono simp: acc)
    next
      assume "\<not> e_id e \<le> lastID" "e_quota e \<le> 0"
      then show "val (base u d) (return (sk, if maxID < e_id e then e_id e else maxID)) (?J (pre @ [e]))"
        using J by (force intro!: val_return elim!: loaded_mono simp: acc)
    next
      assume big: "\<not> e_id e \<le> lastID" and q: "\<not> e_quota e \<le> 0"
      have A: "?A (pre @ [e]) = insert e (?A pre)" using big q by auto
      have "val (base u d) (ingestEntry e sk) (\<lambda>sk' w. base u d w \<and> loaded (insert e (?A pre)) sk')"
        by (rule val_ingest) (use J q ok e e_new preW in \<open>auto simp: acc late_def\<close>)
      then show "val (base u d) (bind (ingestEntry e sk) (\<lambda>sk'. return (sk', if maxID < e_id e then e_id e else maxID))) (?J (pre @ [e]))"
        unfolding A by (rule val_bind) (use J in \<open>force intro!: val_return simp: acc\<close>)
    qed
  qed
  have "val (?J (take (nat ((1 - 1) * 100)) ?W) (sk0, lastID)) (settleMain S since til lastID sk0)
      (\<lambda>r w. \<exists>k. ?J (take k ?W) r w \<and> (int (length ?W) \<le> (1 - 1 + int settlementMaxPages) * 100 \<longrightarrow> length ?W \<le> k))"
    unfolding settleMain_def
    by (rule val_pageLoop[where J = ?J]; (rule base_read[OF serve] | rule step | simp))
  then show ?thesis
  proof (rule val_mono)
    show "?J (take (nat ((1 - 1) * 100)) ?W) (sk0, lastID) w" if "base u d w" for w
      using that l0 by simp
    fix r :: "sink \<times> int" and w :: "'a world"
    assume "\<exists>k. ?J (take k ?W) r w \<and> (int (length ?W) \<le> (1 - 1 + int settlementMaxPages) * 100 \<longrightarrow> length ?W \<le> k)"
    then obtain k where k: "?J (take k ?W) r w" by blast
    have sub: "set (take k ?W) \<subseteq> {e \<in> set logs. since \<le> e_created e}" by (auto simp: logWindow_def dest!: in_set_takeD)
    have "?A (take k ?W) \<subseteq> set logs" using sub by (auto simp: late_def)
    moreover have "e_id e \<notin> idsOf d \<and> (since \<le> e_created e \<longrightarrow> e_id e \<le> snd r)" if "e \<in> ?A (take k ?W)" for e
      using that k sub cov[of e] by (auto simp: late_def)
    ultimately show "base u d w \<and> ready logs d since lastID (fst r) (snd r)"
      using k unfolding ready_def by blast
  qed
qed

section \<open>The transaction\<close>

lemma updateBalance_usage [simp]: "sameUsage d (snd (updateBalance org ver g d))"
  by (simp add: updateBalance_def Let_def sameUsage_def)

lemma guar_DeductBalanceTx_usage [guar_intros]: "guar (onDb sameUsage) (DeductBalanceTx org n :: ('v, balance) op)"
  unfolding DeductBalanceTx_def getBalanceTx_def
  by (intro guar_intros su.bind' su.basics su.getRow su.queryRow su.stmt) simp

lemma advance_hit:
  assumes dist: "distinct (map c_org (cursors d))" and c: "findCursor 0 d = Some c"
    and a: "advanceCursor 0 ts lid ver d = (1, d')"
  shows "d' = d\<lparr>cursors := cursors d'\<rparr>" "distinct (map c_org (cursors d'))"
    "findCursor 0 d' = Some (c\<lparr>c_ts := max (c_ts c) ts, c_log_id := max (c_log_id c) lid, c_version := c_version c + 1\<rparr>)"
proof -
  let ?g = "\<lambda>c. c\<lparr>c_ts := max (c_ts c) ts, c_log_id := max (c_log_id c) lid, c_version := c_version c + 1\<rparr>"
  have inc: "c \<in> set (cursors d)" "c_org c = 0" using c by (auto simp: findCursor_def find_Some_iff)
  have only: "x = c" if "x \<in> set (cursors d)" "c_org x = 0" for x
    using dist inc that by (metis distinct_map inj_onD)
  have "filter (\<lambda>c. c_org c = 0 \<and> c_version c = ver) (cursors d) \<noteq> []"
    using a by (auto simp: advanceCursor_def Let_def)
  then obtain x where "x \<in> set (cursors d)" "c_org x = 0" "c_version x = ver"
    by (auto simp: filter_empty_conv)
  then have ver: "c_version c = ver" using only by blast
  have "map (\<lambda>c. if c_org c = 0 \<and> c_version c = ver then ?g c else c) (cursors d) = updateKey c_org 0 ?g (cursors d)"
    using only ver by (auto simp: updateKey_def)
  then have d': "d' = d\<lparr>cursors := updateKey c_org 0 ?g (cursors d)\<rparr>"
    using a by (auto simp: advanceCursor_def Let_def)
  then show "d' = d\<lparr>cursors := cursors d'\<rparr>" by simp
  show "distinct (map c_org (cursors d'))" using dist by (simp add: d' map_updateKey_same)
  show "findCursor 0 d' = Some (?g c)"
    using c find_updateKey[of c_org ?g 0 0 "cursors d"] by (simp add: d' findCursor_def)
qed

lemma agrees_extend:
  assumes ag: "agrees tsOf d" and ok: "logsOk tsOf logs" and l: "loaded A sk" and A: "A \<subseteq> set logs"
    and d1: "details d1 = details d @ sk_details sk"
  shows "agrees tsOf d1"
proof -
  have "d_ts x = tsOf (d_log_id x) * 10 ^ 9" if x: "x \<in> set (sk_details sk)" for x
  proof -
    obtain e where e: "e \<in> A" "fromLog e x" using l x by (auto simp: loaded_def)
    then have "e_created e = tsOf (e_id e)" using ok A by (auto simp: logsOk_def)
    then show ?thesis using e(2) by (simp add: fromLog_def)
  qed
  then show ?thesis using ag d1 by (auto simp: agrees_def)
qed

lemma committed_inv:
  assumes inv: "settleInv tsOf d" and ok: "logsOk tsOf logs" and c: "findCursor 0 d = Some c"
    and r: "ready logs d (c_ts c) (c_log_id c) sk maxID" and til: "c_ts c < til"
    and d1: "usageInv d1" "details d1 = details d @ sk_details sk" "cursors d1 = cursors d"
    and adv: "advanceCursor 0 til maxID ver d1 = (1, d2)"
  shows "settleInv tsOf d2"
proof -
  obtain A where A: "A \<subseteq> set logs" "loaded A sk"
      "\<And>e. e \<in> A \<Longrightarrow> c_ts c \<le> e_created e \<Longrightarrow> e_id e \<le> maxID" and max: "c_log_id c \<le> maxID"
    using r by (auto simp: ready_def)
  have cov: "distinct (map c_org (cursors d1))" "findCursor 0 d1 = Some c" "0 \<le> c_ts c"
     "\<And>r. r \<in> set (details d) \<Longrightarrow> c_ts c * 10 ^ 9 \<le> d_ts r \<Longrightarrow> d_log_id r \<le> c_log_id c"
    using inv c d1(3) by (auto simp: settleInv_def coverInv_def findCursor_def)
  note adv' = advance_hit[OF cov(1,2) adv]
  have d2: "details d2 = details d @ sk_details sk" "usageInv d2"
    using arg_cong[OF adv'(1), of details] arg_cong[OF adv'(1), of ledger] d1
    by (simp_all add: usageInv_def usageWf_def)
  have row: "\<exists>e \<in> A. fromLog e x" if "x \<in> set (sk_details sk)" for x
    using A(2) that by (simp add: loaded_def)
  have "agrees tsOf d2"
    by (rule agrees_extend[OF _ ok A(2,1) d2(1)]) (use inv in \<open>simp add: settleInv_def\<close>)
  moreover have "coverInv d2"
  proof -
    have "d_log_id x \<le> max (c_log_id c) maxID"
      if x: "x \<in> set (details d2)" and t: "max (c_ts c) til * 10 ^ 9 \<le> d_ts x" for x
    proof -
      have t': "c_ts c * 10 ^ 9 \<le> d_ts x" using t til by (simp add: max_def)
      consider "x \<in> set (details d)" | "x \<in> set (sk_details sk)" using x d2(1) by auto
      then show ?thesis
      proof cases
        case 1 then show ?thesis using cov(4) t' by fastforce
      next
        case 2
        then obtain e' where e': "e' \<in> A" "fromLog e' x" using row by blast
        then have "c_ts c \<le> e_created e'" using t' by (simp add: fromLog_def)
        then show ?thesis using A(3)[OF e'(1)] e'(2) by (simp add: fromLog_def)
      qed
    qed
    then show ?thesis using adv'(2,3) cov(3) til by (simp add: coverInv_def)
  qed
  ultimately show ?thesis using d2 by (simp add: settleInv_def)
qed

lemma usage_simps:
  "sameUsage d d' \<Longrightarrow> usageInv d' = usageInv d \<and> details d' = details d \<and> cursors d' = cursors d"
  by (simp add: sameUsage_def usageInv_def usageWf_def)

lemma settleTx_spec:
  assumes inv: "settleInv tsOf d" and ok: "logsOk tsOf logs" and c: "findCursor 0 d = Some c"
    and r: "ready logs d (c_ts c) (c_log_id c) sk maxID" and til: "c_ts c < til" and w: "w_db w = d"
  shows "wp (settleTx S sk til maxID ver) (\<lambda>_ w'. settleInv tsOf (w_db w')) (\<lambda>_ w'. settleInv tsOf (w_db w')) w"
  unfolding settleTx_def
proof (rule wp_WithTx[where P = "(=) d"])
  let ?R = "\<lambda>d1. usageInv d1 \<and> details d1 = details d @ sk_details sk \<and> cursors d1 = cursors d"
  obtain A where A: "A \<subseteq> set logs" "loaded A sk" "\<And>e. e \<in> A \<Longrightarrow> e_id e \<notin> idsOf d"
    using r by (auto simp: ready_def)
  have fresh: "distinct (map d_log_id (details d @ sk_details sk))"
  proof -
    have "d_log_id x \<notin> idsOf d" if "x \<in> set (sk_details sk)" for x
      using A(2,3) that by (auto simp: loaded_def fromLog_def)
    then have "idsOf d \<inter> d_log_id ` set (sk_details sk) = {}" by blast
    then show ?thesis
      using A(2) inv by (simp add: settleInv_def usageInv_def usageWf_def loaded_def sinkOk_def idsOf_def)
  qed
  have 1: "dbval ((=) d) (commitUsageOnly (sk_aggs sk) (sk_details sk)) (\<lambda>_. ?R)"
    by (rule commitUsageOnly_spec) (use inv fresh A in \<open>auto simp: settleInv_def loaded_def sinkOk_def\<close>)
  have 2: "dbval ?R (if sv_observe S then return \<lparr> to_bal = [], to_total = 0, to_missing = [] \<rparr>
           else foldM (deductStep (sk_flags sk)) (perOrg (sk_aggs sk)) \<lparr> to_bal = [], to_total = 0, to_missing = [] \<rparr>)
           (\<lambda>_. ?R)"
    by (rule dbval_guar[where D = sameUsage]) (unfold deductStep_def, intro guar_intros, simp add: usage_simps)
  have 3: "dbval ?R (AdvanceCursorTx 0 til maxID ver) (\<lambda>hit d2. hit \<longrightarrow> settleInv tsOf d2)"
    unfolding AdvanceCursorTx_def
    by (rule dbval_bind, rule dbval_stmt[where Q = "\<lambda>n d2. n = 1 \<longrightarrow> settleInv tsOf d2"])
       (auto intro!: dbval_return committed_inv[OF inv ok c r til] split: prod.splits)
  have 4: "dbval (\<lambda>d2. hit \<longrightarrow> settleInv tsOf d2) (if hit then return out else throw ErrConcurrentSettlement)
      (\<lambda>_. settleInv tsOf)" for hit and out :: tx_out
    by (auto intro!: dbval_return dbval_throw)
  show "dbval ((=) d)
     (bind (commitUsageOnly (sk_aggs sk) (sk_details sk)) (\<lambda>_.
     bind (if sv_observe S then return \<lparr> to_bal = [], to_total = 0, to_missing = [] \<rparr>
           else foldM (deductStep (sk_flags sk)) (perOrg (sk_aggs sk)) \<lparr> to_bal = [], to_total = 0, to_missing = [] \<rparr>) (\<lambda>out.
     bind (AdvanceCursorTx 0 til maxID ver) (\<lambda>hit.
     if hit then return out else throw ErrConcurrentSettlement)))) (\<lambda>_. settleInv tsOf)"
    by (rule dbval_bind[OF 1], rule dbval_bind[OF 2], rule dbval_bind[OF 3], rule 4)
qed (use w inv in simp_all)

section \<open>The run\<close>

lemma val_shrinkWindow:
  "servesLogs S u logs \<Longrightarrow> since < til \<Longrightarrow>
   val (base u d) (shrinkWindow S since til) (\<lambda>r w. base u d w \<and> since < r)"
proof (induction S since til rule: shrinkWindow.induct)
  case (1 S since til)
  have read: "val (base u d) (readLogs S since til 1) (\<lambda>_. base u d)"
    by (rule val_mono[OF servesLogs_read[OF 1(2), where P = "base u d"]]) (auto dest: base_up)
  show ?case
    by (subst shrinkWindow.simps, rule val_bind[OF read])
       (use 1 in \<open>auto intro!: val_if val_return 1(1) split: prod.splits\<close>)
qed

lemma wp_read:
  assumes v: "val (base u d) m (\<lambda>a w. base u d w \<and> Q a)" and g: "guar (onDb sameUsage) m"
    and b: "base u d w" and inv: "settleInv tsOf d"
    and f: "\<And>a w'. base u d w' \<Longrightarrow> Q a \<Longrightarrow> wp (f a) (\<lambda>_ w. settleInv tsOf (w_db w)) (\<lambda>_ w. settleInv tsOf (w_db w)) w'"
  shows "wp (bind m f) (\<lambda>_ w. settleInv tsOf (w_db w)) (\<lambda>_ w. settleInv tsOf (w_db w)) w"
proof -
  have "wp m (\<lambda>a w. base u d w \<and> Q a) (\<lambda>_ w. settleInv tsOf (w_db w)) w"
    by (rule wp_val_guar[where R = "onDb sameUsage", OF v g b]) (use b inv in \<open>auto simp: base_def onDb_def sameUsage_inv\<close>)
  then show ?thesis unfolding wp_bind by (rule wp_mono) (auto intro: f)
qed

lemma wp_usage_guar:
  "guar (onDb sameUsage) m \<Longrightarrow> settleInv tsOf (w_db w) \<Longrightarrow>
   wp m (\<lambda>_ w. settleInv tsOf (w_db w)) (\<lambda>_ w. settleInv tsOf (w_db w)) w"
  by (rule wp_mono[OF guar_wp[where R = "onDb sameUsage"]]) (auto simp: onDb_def sameUsage_inv)

lemma settleWindow_inv:
  assumes serve: "servesLogs S u logs" and ok: "logsOk tsOf logs" and inv: "settleInv tsOf d"
    and c: "findCursor 0 d = Some c" and til: "c_ts c < til" and b: "base u d w"
  shows "wp (settleWindow S c til) (\<lambda>_ w'. settleInv tsOf (w_db w')) (\<lambda>_ w'. settleInv tsOf (w_db w')) w"
  unfolding settleWindow_def
proof (rule wp_read[OF val_shrinkWindow[OF serve til] su.shrinkWindow b inv])
  fix sub w1 assume b1: "base u d w1" and sub: "c_ts c < sub"
  have cov: "e_id e \<notin> idsOf d" if e: "e \<in> set logs" "c_ts c \<le> e_created e" "c_log_id c < e_id e" for e
  proof
    assume "e_id e \<in> idsOf d"
    then obtain x where x: "x \<in> set (details d)" "d_log_id x = e_id e" by (auto simp: idsOf_def)
    then have "d_ts x = e_created e * 10 ^ 9" using inv e(1) ok by (simp add: settleInv_def agrees_def logsOk_def)
    then have "c_ts c * 10 ^ 9 \<le> d_ts x" using e(2) by simp
    then have "d_log_id x \<le> c_log_id c" using inv c x(1) by (simp add: settleInv_def coverInv_def)
    then show False using e(3) x(2) by simp
  qed
  show "wp (bind (settleRescan S (c_ts c) (newSink False)) (\<lambda>sk1.
     bind (settleMain S (c_ts c) sub (c_log_id c) sk1) (\<lambda>(sk, maxID).
     bind (settleTx S sk sub maxID (c_version c)) (\<lambda>out.
     bind (settleAfter S sk out) (\<lambda>_. return (to_total out))))))
     (\<lambda>_ w'. settleInv tsOf (w_db w')) (\<lambda>_ w'. settleInv tsOf (w_db w')) w1"
  proof (rule wp_read[OF settleRescan_spec[OF serve ok] su.settleRescan b1 inv])
    fix sk1 w2 assume b2: "base u d w2" and l: "loaded (late logs d (c_ts c)) sk1"
    show "wp (bind (settleMain S (c_ts c) sub (c_log_id c) sk1) (\<lambda>(sk, maxID).
       bind (settleTx S sk sub maxID (c_version c)) (\<lambda>out.
       bind (settleAfter S sk out) (\<lambda>_. return (to_total out)))))
       (\<lambda>_ w'. settleInv tsOf (w_db w')) (\<lambda>_ w'. settleInv tsOf (w_db w')) w2"
    proof (rule wp_read[OF settleMain_spec[OF serve ok l cov] su.settleMain b2 inv])
      fix r :: "sink \<times> int" and w3 assume b3: "base u d w3" and r: "ready logs d (c_ts c) (c_log_id c) (fst r) (snd r)"
      let ?d = "w_db w3"
      have s: "sameUsage d ?d" using b3 by (simp add: base_def)
      have inv': "settleInv tsOf ?d" using inv sameUsage_inv[OF s] by simp
      have c': "findCursor 0 ?d = Some c" using c s by (simp add: sameUsage_def findCursor_def)
      have r': "ready logs ?d (c_ts c) (c_log_id c) (fst r) (snd r)"
        using r s by (simp add: ready_def idsOf_def sameUsage_def)
      show "wp (case r of (sk, maxID) \<Rightarrow> bind (settleTx S sk sub maxID (c_version c)) (\<lambda>out.
           bind (settleAfter S sk out) (\<lambda>_. return (to_total out))))
         (\<lambda>_ w'. settleInv tsOf (w_db w')) (\<lambda>_ w'. settleInv tsOf (w_db w')) w3"
        unfolding split_beta wp_bind
        by (rule wp_mono[OF settleTx_spec[OF inv' ok c' r' sub refl]])
           (auto simp: wp_simps intro!: wp_usage_guar su.settleAfter)
    qed
  qed
qed

lemma advance_forward_inv:
  assumes inv: "settleInv tsOf d" and c: "findCursor 0 d = Some c" and a: "advanceCursor 0 ts lid ver d = (1, d')"
  shows "settleInv tsOf d'"
proof -
  have cov: "distinct (map c_org (cursors d))" "0 \<le> c_ts c"
     "\<And>r. r \<in> set (details d) \<Longrightarrow> c_ts c * 10 ^ 9 \<le> d_ts r \<Longrightarrow> d_log_id r \<le> c_log_id c"
    using inv c by (auto simp: settleInv_def coverInv_def)
  note adv = advance_hit[OF cov(1) c a]
  have d': "details d' = details d" "ledger d' = ledger d"
    using arg_cong[OF adv(1), of details] arg_cong[OF adv(1), of ledger] by simp_all
  have "coverInv d'" using adv(2,3) cov(2,3) by (fastforce simp: coverInv_def d' max_def)
  then show ?thesis using inv by (simp add: settleInv_def usageInv_def usageWf_def agrees_def d')
qed

lemma settleBaseline_inv:
  assumes inv: "settleInv tsOf (w_db w)" and c: "findCursor 0 (w_db w) = Some c"
  shows "wp (settleBaseline c) (\<lambda>_ w'. settleInv tsOf (w_db w')) (\<lambda>_ w'. settleInv tsOf (w_db w')) w"
proof -
  have "dbval ((=) (w_db w)) (bind (AdvanceCursorTx 0 ts 0 ver) (\<lambda>hit. if hit then return () else throw ErrConcurrentSettlement))
     (\<lambda>_. settleInv tsOf)" for ts ver
    unfolding AdvanceCursorTx_def
    by (rule dbval_bind[where R = "\<lambda>hit d2. hit \<longrightarrow> settleInv tsOf d2"],
        rule dbval_bind, rule dbval_stmt[where Q = "\<lambda>n d2. n = 1 \<longrightarrow> settleInv tsOf d2"])
       (use inv c in \<open>auto intro!: dbval_return dbval_throw advance_forward_inv[OF inv c] split: prod.splits\<close>)
  from wp_WithTx[OF this refl, where E = "settleInv tsOf"] show ?thesis
    unfolding settleBaseline_def clock_def by (simp add: wp_simps inv)
qed

lemma find_app: "find P (xs @ ys) = (case find P xs of None \<Rightarrow> find P ys | Some x \<Rightarrow> Some x)"
  by (induction xs) auto

lemma insertCursor_inv:
  assumes inv: "settleInv tsOf d" and n: "findCursor 0 d = None"
  shows "settleInv tsOf (d\<lparr>cursors := cursors d @ [zeroCursor 0]\<rparr>)"
    "findCursor 0 (d\<lparr>cursors := cursors d @ [zeroCursor 0]\<rparr>) = Some (zeroCursor 0)"
proof -
  have f: "find (\<lambda>c. c_org c = 0) (cursors d @ [zeroCursor 0]) = Some (zeroCursor 0)"
    using n by (simp add: findCursor_def find_app zeroCursor_def)
  then show "findCursor 0 (d\<lparr>cursors := cursors d @ [zeroCursor 0]\<rparr>) = Some (zeroCursor 0)"
    by (simp add: findCursor_def)
  have "c_org c \<noteq> 0" if "c \<in> set (cursors d)" for c using n that by (auto simp: findCursor_def find_None_iff)
  then show "settleInv tsOf (d\<lparr>cursors := cursors d @ [zeroCursor 0]\<rparr>)"
    using inv n f by (auto simp: settleInv_def usageInv_def usageWf_def coverInv_def agrees_def findCursor_def zeroCursor_def)
qed

lemma GetOrCreateCursor_inv:
  assumes inv: "settleInv tsOf (w_db w)"
  shows "wp (GetOrCreateCursor 0) (\<lambda>c w'. w_up w' = w_up w \<and> settleInv tsOf (w_db w') \<and> findCursor 0 (w_db w') = Some c)
           (\<lambda>_ w'. settleInv tsOf (w_db w')) w"
  unfolding GetOrCreateCursor_def queryRow_def
  by (auto simp: wp_simps insertCursor_def inv insertCursor_inv[OF inv] isDupKey_def
      intro!: wp_stmtI split: option.splits)

lemma settleLocked_inv:
  assumes serve: "servesLogs S (w_up w) logs" and ok: "logsOk tsOf logs" and inv: "settleInv tsOf (w_db w)"
  shows "wp (settleLocked S) (\<lambda>_ w'. settleInv tsOf (w_db w')) (\<lambda>_ w'. settleInv tsOf (w_db w')) w"
  unfolding settleLocked_def wp_bind
proof (rule wp_mono[OF GetOrCreateCursor_inv[OF inv]])
  fix c and w' :: "'a world" assume c: "w_up w' = w_up w \<and> settleInv tsOf (w_db w') \<and> findCursor 0 (w_db w') = Some c"
  have "wp (settleWindow S c til) (\<lambda>_ w'. settleInv tsOf (w_db w')) (\<lambda>_ w'. settleInv tsOf (w_db w')) w'"
    if "c_ts c < til" for til
    by (rule settleWindow_inv[OF serve ok, where d = "w_db w'"]) (use c that in \<open>auto simp: base_def su.db_refl\<close>)
  then show "wp (if c_ts c = 0 then settleBaseline c
       else bind clock (\<lambda>now. let until = now div 10 ^ 9 - settlementLagSec
         in if until \<le> c_ts c then return 0 else settleWindow S c until))
     (\<lambda>_ w'. settleInv tsOf (w_db w')) (\<lambda>_ w'. settleInv tsOf (w_db w')) w'"
    using c settleBaseline_inv[of tsOf w' c] by (auto simp: wp_simps clock_def Let_def)
qed

lemma RunSettlement_inv:
  assumes serve: "servesLogs S (w_up w) logs" and ok: "logsOk tsOf logs" and inv: "settleInv tsOf (w_db w)"
  shows "settleInv tsOf (w_db (snd (RunSettlement S w)))"
proof -
  let ?w = "w\<lparr>w_held := ''settlementMu'' # w_held w\<rparr>"
  have "settleInv tsOf (w_db (snd (settleLocked S ?w)))"
    using settleLocked_inv[of S ?w logs tsOf] serve ok inv by (simp add: wp_snd)
  then show ?thesis
    using inv by (auto simp: RunSettlement_def holding_def return_def split: prod.splits)
qed

end
