(* ===== verification/BookKeeping.thy ===== *)
theory BookKeeping
  imports SettlementExact
begin

text \<open>
  The historical backfill beside the forward settlement.  A job only takes logs at or below the
  boundary it was given, the boundary never lies above the cursor, and the write phase skips what
  the detail table already has: the invariant of SettlementSafe survives a slice, whatever fails.
\<close>

section \<open>The boundaries\<close>

definition jobsOk :: "db \<Rightarrow> bool" where
  "jobsOk d \<longleftrightarrow> (\<forall>j \<in> set (jobs d). case findCursor 0 d of None \<Rightarrow> False
     | Some c \<Rightarrow> j_boundary_ts j \<le> c_ts c \<and> j_boundary_id j \<le> c_log_id c)"

definition bookInv :: "(int \<Rightarrow> int) \<Rightarrow> db \<Rightarrow> bool" where
  "bookInv tsOf d \<longleftrightarrow> settleInv tsOf d \<and> jobsOk d"

text \<open>The logs of a user name: a sublist of the logs of the server.\<close>

definition servesUser :: "'u service \<Rightarrow> 'u \<Rightarrow> string \<Rightarrow> log_entry list \<Rightarrow> bool" where
  "servesUser S u name logs \<longleftrightarrow> (\<forall>since til p.
     case na_ReadConsumptionLogsByUsername (sv_up S) name since til p 100 u of
       (Inl e, u') \<Rightarrow> u' = u
     | (Inr (es, cnt), u') \<Rightarrow> u' = u \<and> es = pageOf (logWindow logs since til) p
                                \<and> cnt = int (length (logWindow logs since til)))"

lemma servesUser_read:
  assumes "servesUser S u name logs"
  shows "val (\<lambda>w. base u d w \<and> b) (readUserLogs S name since til p) (\<lambda>r w. (base u d w \<and> b)
     \<and> fst r = pageOf (logWindow logs since til) p \<and> snd r = int (length (logWindow logs since til)))"
proof (rule valI)
  fix w r w' assume p: "base u d w \<and> b" and r: "readUserLogs S name since til p w = (Inr r, w')"
  have "case na_ReadConsumptionLogsByUsername (sv_up S) name since til p 100 u of
       (Inl e, u') \<Rightarrow> u' = u
     | (Inr (es, cnt), u') \<Rightarrow> u' = u \<and> es = pageOf (logWindow logs since til) p
                                \<and> cnt = int (length (logWindow logs since til))"
    using assms by (simp add: servesUser_def)
  with p r show "(base u d w' \<and> b) \<and> fst r = pageOf (logWindow logs since til) p
           \<and> snd r = int (length (logWindow logs since til))"
    by (auto simp: readUserLogs_def mapErr_def upcall_def base_def split: prod.splits sum.splits)
qed

section \<open>The write phase\<close>

definition sameCursors :: "db \<Rightarrow> db \<Rightarrow> bool" where
  "sameCursors d d' \<longleftrightarrow> cursors d' = cursors d"

interpretation bc: backfill_frame sameCursors
  by unfold_locales (auto simp: sameCursors_def updJob_def)

definition sameBoundaries :: "db \<Rightarrow> db \<Rightarrow> bool" where
  "sameBoundaries d d' \<longleftrightarrow> cursors d' = cursors d \<and>
     (\<lambda>j. (j_boundary_ts j, j_boundary_id j)) ` set (jobs d') = (\<lambda>j. (j_boundary_ts j, j_boundary_id j)) ` set (jobs d)"

interpretation bj: backfill_frame sameBoundaries
proof unfold_locales
  fix g :: "backfill_job \<Rightarrow> backfill_job" and d :: db and org
  assume g: "\<And>j. j_boundary_ts (g j) = j_boundary_ts j \<and> j_boundary_id (g j) = j_boundary_id j"
  let ?b = "\<lambda>j. (j_boundary_ts j, j_boundary_id j)"
  have "map ?b (updateKey j_org org g (jobs d)) = map ?b (jobs d)" by (rule map_updateKey_same) (simp add: g)
  then have "?b ` set (updateKey j_org org g (jobs d)) = ?b ` set (jobs d)" by (metis set_map)
  then show "sameBoundaries d (updJob org g d)" by (simp add: sameBoundaries_def updJob_def)
qed (auto simp: sameBoundaries_def)

lemma jobsOk_boundaries: "sameBoundaries d d' \<Longrightarrow> jobsOk d \<Longrightarrow> jobsOk d'"
proof -
  assume s: "sameBoundaries d d'" and ok: "jobsOk d"
  have f: "findCursor 0 d' = findCursor 0 d" using s by (simp add: sameBoundaries_def findCursor_def)
  have "\<exists>j0 \<in> set (jobs d). j_boundary_ts j = j_boundary_ts j0 \<and> j_boundary_id j = j_boundary_id j0"
    if "j \<in> set (jobs d')" for j
  proof -
    have "(j_boundary_ts j, j_boundary_id j) \<in> (\<lambda>j. (j_boundary_ts j, j_boundary_id j)) ` set (jobs d)"
      using s that unfolding sameBoundaries_def by blast
    then show ?thesis by auto
  qed
  then show "jobsOk d'" using ok unfolding jobsOk_def f by (fastforce split: option.splits)
qed

definition keepOk :: "log_entry list \<Rightarrow> cursor \<Rightarrow> log_entry list \<Rightarrow> bool" where
  "keepOk logs c keep \<longleftrightarrow> distinct keep \<and> set keep \<subseteq> {e \<in> set logs. 0 < e_quota e \<and>
     (c_ts c \<le> e_created e \<longrightarrow> e_id e \<le> c_log_id c)}"

lemma backfillStep_fold:
  assumes ok: "logsOk tsOf logs" and keep: "keepOk logs c keep" and ex: "set existing = set (map e_id keep) \<inter> idsOf d"
  shows "val (base u d) (foldM (backfillStep existing) keep (newSink True, 0, 0))
     (\<lambda>r w. base u d w \<and> loaded {e \<in> set keep. e_id e \<notin> idsOf d} (fst r))"
proof -
  let ?A = "\<lambda>pre. {e \<in> set pre. e_id e \<notin> idsOf d}"
  let ?J = "\<lambda>pre (acc :: sink \<times> int \<times> int) w. base u d w \<and> loaded (?A pre) (fst acc)"
  have step: "val (?J pre acc) (backfillStep existing e acc) (?J (pre @ [e]))" if r: "keep = pre @ e # rest" for pre e rest acc
  proof (rule val_when)
    obtain sk n t where acc: "acc = (sk, n, t)" by (cases acc)
    assume l: "loaded (?A pre) (fst acc)"
    show "val (base u d) (backfillStep existing e acc) (?J (pre @ [e]))"
      unfolding backfillStep_def acc prod.case
    proof (rule val_if)
      assume "e_id e \<in> set existing"
      then show "val (base u d) (return (sk, n, t)) (?J (pre @ [e]))"
        using l by (auto intro!: val_return elim!: loaded_mono simp: acc)
    next
      assume "e_id e \<notin> set existing"
      then have n: "e_id e \<notin> idsOf d" using ex r by auto
      have ins: "?A (pre @ [e]) = insert e (?A pre)" using n by auto
      have "val (base u d) (ingestEntry e sk) (\<lambda>sk' w. base u d w \<and> loaded (insert e (?A pre)) sk')"
        by (rule val_ingest) (use l r keep ok in \<open>auto simp: acc keepOk_def\<close>)
      then show "val (base u d) (bind (ingestEntry e sk) (\<lambda>sk'. return (sk', n + 1,
          if t = 0 \<or> e_created e < t then e_created e else t))) (?J (pre @ [e]))"
        unfolding ins by (rule val_bind) (auto intro!: val_return)
    qed
  qed
  have "val (?J [] (newSink True, 0, 0)) (foldM (backfillStep existing) keep (newSink True, 0, 0)) (?J keep)"
    by (rule val_foldM[where J = ?J]) (rule step)
  then show ?thesis by (rule val_pre) (simp add: loaded_new)
qed

text \<open>Rows at or below the cursor extend the detail table without hurting the invariant.\<close>

lemma backfilled_inv:
  assumes inv: "settleInv tsOf d" and ok: "logsOk tsOf logs" and c: "findCursor 0 d = Some c"
    and l: "loaded A sk" and A: "A \<subseteq> {e \<in> set logs. c_ts c \<le> e_created e \<longrightarrow> e_id e \<le> c_log_id c}"
    and d1: "usageInv d1" "details d1 = details d @ sk_details sk" "cursors d1 = cursors d"
  shows "settleInv tsOf d1"
proof -
  have row: "\<exists>e \<in> A. fromLog e x" if "x \<in> set (sk_details sk)" for x
    using l that by (simp add: loaded_def)
  have "agrees tsOf d1"
    by (rule agrees_extend[OF _ ok l _ d1(2)]) (use inv A in \<open>auto simp: settleInv_def\<close>)
  moreover have "d_log_id x \<le> c_log_id c" if x: "x \<in> set (details d1)" and t: "c_ts c * 10 ^ 9 \<le> d_ts x" for x
  proof -
    consider "x \<in> set (details d)" | "x \<in> set (sk_details sk)" using x d1(2) by auto
    then show ?thesis
    proof cases
      case 1 then show ?thesis using inv c t by (simp add: settleInv_def coverInv_def)
    next
      case 2
      then obtain e' where "e' \<in> A" "fromLog e' x" using row by blast
      then show ?thesis using A t by (auto simp: fromLog_def)
    qed
  qed
  ultimately show ?thesis
    using inv c d1 by (simp add: settleInv_def coverInv_def findCursor_def)
qed

lemma val_sameUsage:
  assumes "\<And>u. val (base u d) m (\<lambda>a w. base u d w \<and> Q a)"
  shows "dbval (sameUsage d) m (\<lambda>a d'. sameUsage d d' \<and> Q a)"
  unfolding dbval_def
proof (intro allI impI)
  fix w :: "'a world" assume "sameUsage d (w_db w)"
  then have "wp m (\<lambda>a w'. base (w_up w) d w' \<and> Q a) (\<lambda>_ _. True) w"
    using assms[of "w_up w"] by (simp add: val_def base_def)
  then show "wp m (\<lambda>a w'. sameUsage d (w_db w') \<and> Q a) (\<lambda>_ _. True) w"
    by (rule wp_mono) (simp_all add: base_def)
qed

lemma backfillWrite_spec:
  assumes inv: "settleInv tsOf (w_db w)" and ok: "logsOk tsOf logs" and c: "findCursor 0 (w_db w) = Some c"
    and keep: "keepOk logs c keep"
  shows "wp (backfillWrite keep) (\<lambda>_ w'. settleInv tsOf (w_db w')) (\<lambda>_ w'. settleInv tsOf (w_db w')) w"
proof -
  let ?d = "w_db w" and ?A = "{e \<in> set keep. e_id e \<notin> idsOf (w_db w)}"
  let ?body = "bind (FilterExistingDetailLogIDsTx (map e_id keep)) (\<lambda>existing.
     bind (foldM (backfillStep existing) keep (newSink True, 0, 0)) (\<lambda>(sk, rows, earliest).
     bind (if sk_aggs sk = [] \<and> sk_details sk = [] then return ()
           else commitUsageOnly (sk_aggs sk) (sk_details sk)) (\<lambda>_.
     return (rows, earliest)))) :: ('a, int \<times> int) op"
  have A: "?A \<subseteq> {e \<in> set logs. c_ts c \<le> e_created e \<longrightarrow> e_id e \<le> c_log_id c}"
    using keep by (auto simp: keepOk_def)
  have 1: "dbval (sameUsage ?d) (FilterExistingDetailLogIDsTx (map e_id keep))
      (\<lambda>r d. sameUsage ?d d \<and> set r = set (map e_id keep) \<inter> idsOf ?d)"
    by (rule val_sameUsage, rule val_FilterExisting[unfolded FilterExistingDetailLogIDs_def])
  have 2: "dbval (\<lambda>d. sameUsage ?d d \<and> set existing = set (map e_id keep) \<inter> idsOf ?d)
      (foldM (backfillStep existing) keep (newSink True, 0, 0))
      (\<lambda>r d. sameUsage ?d d \<and> loaded ?A (fst r))" for existing
    by (cases "set existing = set (map e_id keep) \<inter> idsOf ?d")
       (auto simp: dbval_def intro!: val_sameUsage[unfolded dbval_def, rule_format] backfillStep_fold[OF ok keep])
  have 3: "dbval (\<lambda>d. sameUsage ?d d \<and> loaded ?A sk)
      (if sk_aggs sk = [] \<and> sk_details sk = [] then return () else commitUsageOnly (sk_aggs sk) (sk_details sk))
      (\<lambda>_. settleInv tsOf)" for sk
  proof (rule dbval_imp)
    fix d assume d: "sameUsage ?d d \<and> loaded ?A sk"
    have inv': "settleInv tsOf d" using inv d sameUsage_inv by blast
    have c': "findCursor 0 d = Some c" using c d by (simp add: sameUsage_def findCursor_def)
    have ids: "idsOf d = idsOf ?d" using d by (simp add: sameUsage_def idsOf_def)
    have "d_log_id x \<notin> idsOf d" if "x \<in> set (sk_details sk)" for x
      using d that by (auto simp: loaded_def fromLog_def ids)
    then have "idsOf d \<inter> d_log_id ` set (sk_details sk) = {}" by blast
    then have fresh: "distinct (map d_log_id (details d @ sk_details sk))"
      using d inv' by (simp add: settleInv_def usageInv_def usageWf_def loaded_def sinkOk_def idsOf_def)
    have "dbval ((=) d) (commitUsageOnly (sk_aggs sk) (sk_details sk))
      (\<lambda>_ d'. usageInv d' \<and> details d' = details d @ sk_details sk \<and> cursors d' = cursors d)"
      by (rule commitUsageOnly_spec[OF _ fresh]) (use inv' d in \<open>auto simp: settleInv_def loaded_def sinkOk_def\<close>)
    then have "dbval ((=) d) (commitUsageOnly (sk_aggs sk) (sk_details sk)) (\<lambda>_. settleInv tsOf)"
      by (rule dbval_weak) (use backfilled_inv[OF inv' ok c' _ A] d in blast)
    then show "dbval ((=) d) (if sk_aggs sk = [] \<and> sk_details sk = [] then return ()
       else commitUsageOnly (sk_aggs sk) (sk_details sk)) (\<lambda>_. settleInv tsOf)"
      using inv' by (auto intro!: dbval_return)
  qed
  have 4: "dbval (\<lambda>d. sameUsage ?d d \<and> loaded ?A (fst r)) (case r of (sk, rows, earliest) \<Rightarrow>
      bind (if sk_aggs sk = [] \<and> sk_details sk = [] then return ()
           else commitUsageOnly (sk_aggs sk) (sk_details sk)) (\<lambda>_. return (rows, earliest)))
      (\<lambda>_. settleInv tsOf)" for r :: "sink \<times> int \<times> int"
  proof (cases r)
    case (fields sk rows earliest)
    show ?thesis unfolding fields prod.case fst_conv by (rule dbval_bind[OF 3]) (rule dbval_return)
  qed
  have body: "dbval (sameUsage ?d) ?body (\<lambda>_. settleInv tsOf)"
    by (rule dbval_bind[OF 1], rule dbval_bind[OF 2], rule 4)
  let ?w = "w\<lparr>w_held := ''settlementMu'' # w_held w\<rparr>"
  have "wp (WithTx ?body) (\<lambda>_ w'. settleInv tsOf (w_db w')) (\<lambda>_ w'. settleInv tsOf (w_db w')) ?w"
    by (rule wp_WithTx[OF body]) (use inv in \<open>auto simp: su.db_refl\<close>)
  then show ?thesis
    unfolding backfillWrite_def wp_snd using inv by (auto simp: holding_def split: prod.splits)
qed

section \<open>A slice\<close>

lemma backfillRead_spec:
  assumes serve: "servesUser S u (j_username job) ulogs"
    and sub: "distinct ulogs" "set ulogs \<subseteq> set logs"
    and bd: "j_boundary_ts job \<le> c_ts c" "j_boundary_id job \<le> c_log_id c"
  shows "val (base u d) (backfillRead S job lo hi) (\<lambda>r w. base u d w \<and> keepOk logs c r)"
proof -
  let ?W = "logWindow ulogs lo hi"
  have loop: "val (\<lambda>w. base u d w \<and> [] = filter (keepEntry job) (take (nat ((1 - 1) * 100)) ?W)) (backfillRead S job lo hi)
     (\<lambda>acc w. \<exists>k. (base u d w \<and> acc = filter (keepEntry job) (take k ?W))
        \<and> (int (length ?W) \<le> (1 - 1 + int settlementMaxPages) * 100 \<longrightarrow> length ?W \<le> k))"
    unfolding backfillRead_def
  proof (rule val_pageLoop[where J = "\<lambda>pre acc w. base u d w \<and> acc = filter (keepEntry job) pre" and W = ?W])
    show "val (\<lambda>w. base u d w \<and> acc = filter (keepEntry job) pre) (return (if keepEntry job x then acc @ [x] else acc))
       (\<lambda>acc w. base u d w \<and> acc = filter (keepEntry job) (pre @ [x]))" for pre x acc
      by (auto intro!: val_return)
  qed (rule servesUser_read[OF serve] | simp)+
  have "keepOk logs c (filter (keepEntry job) (take k ?W))" for k
    using sub bd by (auto simp: keepOk_def logWindow_def keepEntry_def belongsToBackfill_def dest!: in_set_takeD)
  then show ?thesis by (intro val_mono[OF loop]) auto
qed

lemma val_lowerBound:
  "servesUser S u name ulogs \<Longrightarrow> val (base u d) (lowerBoundFrom S name lo hi) (\<lambda>_. base u d)"
proof (induction S name lo hi rule: lowerBoundFrom.induct)
  case (1 S name lo hi)
  have read: "val (base u d) (readUserLogs S name lo hi 1) (\<lambda>_. base u d)"
    by (rule val_mono[OF servesUser_read[OF 1(2), where b = True]]) auto
  show ?case
    by (subst lowerBoundFrom.simps, rule val_bind[OF read])
       (use 1 in \<open>auto intro!: val_if val_return split: prod.splits\<close>)
qed

definition sliceInv :: "(int \<Rightarrow> int) \<Rightarrow> 'u \<Rightarrow> cursor \<Rightarrow> 'u world \<Rightarrow> bool" where
  "sliceInv tsOf u c w \<longleftrightarrow> w_up w = u \<and> settleInv tsOf (w_db w) \<and> findCursor 0 (w_db w) = Some c"

lemma sameUp_backfillWrite [guar_intros]: "guar sameUp (backfillWrite keep)"
  unfolding backfillWrite_def FilterExistingDetailLogIDsTx_def backfillStep_def commitUsageOnly_def
    AddToLedgerBucketTx_def InsertUsageDetailTx_def by (intro guar_intros)

lemma sliceInv_write:
  assumes ok: "logsOk tsOf logs" and keep: "keepOk logs c keep" and i: "sliceInv tsOf u c w"
  shows "wp (backfillWrite keep) (\<lambda>_. sliceInv tsOf u c) (\<lambda>_. sliceInv tsOf u c) w"
proof -
  have 1: "wp (backfillWrite keep) (\<lambda>_ w'. settleInv tsOf (w_db w')) (\<lambda>_ w'. settleInv tsOf (w_db w')) w"
    by (rule backfillWrite_spec[OF _ ok _ keep]) (use i in \<open>auto simp: sliceInv_def\<close>)
  have 2: "wp (backfillWrite keep) (\<lambda>_. sameUp w) (\<lambda>_. sameUp w) w" by (intro guar_wp guar_intros)
  have 3: "wp (backfillWrite keep) (\<lambda>_. onDb sameCursors w) (\<lambda>_. onDb sameCursors w) w" by (intro guar_wp bc.backfillWrite)
  show ?thesis
    by (rule wp_mono[OF wp_conj[OF wp_conj[OF 1 2] 3]])
       (use i in \<open>auto simp: sliceInv_def sameUp_def onDb_def sameCursors_def findCursor_def\<close>)
qed

lemma wp_base_slice:
  assumes v: "\<And>d. val (base u d) m (\<lambda>a w. base u d w \<and> Q a)" and g: "guar (onDb sameUsage) m"
    and i: "sliceInv tsOf u c w"
  shows "wp m (\<lambda>a w. sliceInv tsOf u c w \<and> Q a) (\<lambda>_ w. settleInv tsOf (w_db w)) w"
proof -
  have b: "base u (w_db w) w" using i by (simp add: base_def sliceInv_def su.db_refl)
  show ?thesis
    by (rule wp_mono[OF wp_val_guar[where R = "onDb sameUsage" and E = "\<lambda>w. settleInv tsOf (w_db w)", OF v g b]])
       (use i in \<open>auto simp: base_def sliceInv_def onDb_def sameUsage_inv\<close>, auto simp: sameUsage_def findCursor_def)
qed

lemma backfillOneWindow_inv:
  assumes serve: "servesUser S u (j_username job) ulogs" and ok: "logsOk tsOf logs"
    and sub: "distinct ulogs" "set ulogs \<subseteq> set logs"
    and bd: "j_boundary_ts job \<le> c_ts c" "j_boundary_id job \<le> c_log_id c" and i: "sliceInv tsOf u c w"
  shows "wp (backfillOneWindow S job hi) (\<lambda>_. sliceInv tsOf u c) (\<lambda>_ w. settleInv tsOf (w_db w)) w"
  unfolding backfillOneWindow_def backfillLowerBound_def wp_bind
proof (rule wp_mono[OF wp_base_slice[where Q = "\<lambda>_. True", OF _ su.lowerBoundFrom i]])
  show "val (base u d) (lowerBoundFrom S (j_username job) 0 hi) (\<lambda>a w. base u d w \<and> True)" for d
    using val_lowerBound[OF serve] by simp
  fix lo and w1 :: "'a world" assume i1: "sliceInv tsOf u c w1 \<and> True"
  show "wp (backfillRead S job lo hi) (\<lambda>a. wp (if a = [] then return (0, 0, lo)
       else bind (backfillWrite a) (\<lambda>(rows, earliest). return (rows, earliest, lo)))
         (\<lambda>_. sliceInv tsOf u c) (\<lambda>_ w. settleInv tsOf (w_db w))) (\<lambda>_ w. settleInv tsOf (w_db w)) w1"
  proof (rule wp_mono[OF wp_base_slice[OF backfillRead_spec[OF serve sub bd] su.backfillRead conjunct1[OF i1]]])
    fix keep and w2 :: "'a world" assume k: "sliceInv tsOf u c w2 \<and> keepOk logs c keep"
    show "wp (if keep = [] then return (0, 0, lo)
       else bind (backfillWrite keep) (\<lambda>(rows, earliest). return (rows, earliest, lo)))
         (\<lambda>_. sliceInv tsOf u c) (\<lambda>_ w. settleInv tsOf (w_db w)) w2"
      using k sliceInv_write[OF ok, of c keep u w2]
      by (auto simp: wp_simps split_beta sliceInv_def elim!: wp_mono)
  qed
qed auto

lemma progress_inv:
  "sliceInv tsOf u c w \<Longrightarrow> wp (UpdateBackfillProgress org cur n earliest) (\<lambda>_. sliceInv tsOf u c) (\<lambda>_ w. settleInv tsOf (w_db w)) w"
  unfolding UpdateBackfillProgress_def exec_def updJob_def
  by (rule wp_stmtI) (auto simp: sliceInv_def settleInv_def usageInv_def usageWf_def coverInv_def agrees_def findCursor_def)

lemma job_usage [guar_intros]:
  "guar (onDb sameUsage) (SetBackfillStatus org st :: ('v, unit) op)"
  "guar (onDb sameUsage) (SetBackfillError org e :: ('v, unit) op)"
  unfolding SetBackfillStatus_def SetBackfillError_def updJob_def by (intro su.exec; simp add: sameUsage_def)+

lemma sliceLoop_inv:
  assumes serve: "servesUser S u (j_username job) ulogs" and ok: "logsOk tsOf logs"
    and sub: "distinct ulogs" "set ulogs \<subseteq> set logs"
    and bd: "j_boundary_ts job \<le> c_ts c" "j_boundary_id job \<le> c_log_id c"
  shows "sliceInv tsOf u c w \<Longrightarrow>
    wp (sliceLoop S job n hi) (\<lambda>_ w. settleInv tsOf (w_db w)) (\<lambda>_ w. settleInv tsOf (w_db w)) w"
proof (induction n arbitrary: hi w)
  case 0
  then show ?case by (simp add: wp_simps sliceInv_def)
next
  case (Suc n)
  have err: "settleInv tsOf (w_db w') \<Longrightarrow>
      wp (ignoreErr (SetBackfillError (j_org job) e)) (\<lambda>_ w. settleInv tsOf (w_db w)) (\<lambda>_ w. settleInv tsOf (w_db w)) w'"
    for e and w' :: "'a world" by (intro wp_usage_guar guar_intros)
  have "wp (UpdateBackfillProgress (j_org job) (lo - 1) rows earliest) (\<lambda>_. wp (sliceLoop S job n (lo - 1))
      (\<lambda>_ w. settleInv tsOf (w_db w)) (\<lambda>_ w. settleInv tsOf (w_db w))) (\<lambda>_ w. settleInv tsOf (w_db w)) w'"
    if "sliceInv tsOf u c w'" for lo rows earliest and w' :: "'a world"
    by (rule wp_mono[OF progress_inv[OF that]]) (auto intro: Suc.IH)
  then show ?case
    using Suc.prems err
    by (auto simp: wp_simps sliceInv_def[of tsOf u c w] intro!: wp_mono[OF backfillOneWindow_inv[OF serve ok sub bd Suc.prems]])
qed

lemma RunBackfillSlice_inv:
  assumes serve: "\<And>name. servesUser S (w_up w) name (ulogs name)" and ok: "logsOk tsOf logs"
    and sub: "\<And>name. distinct (ulogs name)" "\<And>name. set (ulogs name) \<subseteq> set logs"
    and inv: "bookInv tsOf (w_db w)"
  shows "bookInv tsOf (w_db (snd (RunBackfillSlice S w)))"
proof -
  have "jobsOk (w_db (snd (RunBackfillSlice S w)))"
    using guarD[OF bj.RunBackfillSlice[of S], of w] inv by (auto simp: onDb_def bookInv_def intro: jobsOk_boundaries)
  moreover have "settleInv tsOf (w_db (snd (RunBackfillSlice S w)))"
  proof -
    have status: "sliceInv tsOf u c w' \<Longrightarrow> wp (guard_when b (SetBackfillStatus org st)) (\<lambda>_. sliceInv tsOf u c)
        (\<lambda>_ w. settleInv tsOf (w_db w)) w'" for u c b org st and w' :: "'a world"
      unfolding SetBackfillStatus_def exec_def updJob_def
      by (auto simp: wp_simps intro!: wp_stmtI)
         (auto simp: sliceInv_def settleInv_def usageInv_def usageWf_def coverInv_def agrees_def findCursor_def)
    have fin: "settleInv tsOf (w_db w') \<Longrightarrow> wp (guard_when b (SetBackfillStatus org st)) (\<lambda>_ w. settleInv tsOf (w_db w))
        (\<lambda>_ w. settleInv tsOf (w_db w)) w'" for b org st and w' :: "'a world"
      by (rule wp_usage_guar) (intro guar_intros)
    have job: "wp (bind (guard_when (j_status job = BfPending) (SetBackfillStatus (j_org job) BfRunning)) (\<lambda>_.
        bind (sliceLoop S job (sv_windows_per_tick S) (j_cursor job)) (\<lambda>hi.
        guard_when (hi \<le> 0) (SetBackfillStatus (j_org job) BfDone)))) (\<lambda>_ w. settleInv tsOf (w_db w))
        (\<lambda>_ w. settleInv tsOf (w_db w)) (w\<lparr>w_faults := fs\<rparr>)"
      if mem: "job \<in> set (jobs (w_db w))" for job fs
    proof -
      obtain c where c: "findCursor 0 (w_db w) = Some c" "j_boundary_ts job \<le> c_ts c" "j_boundary_id job \<le> c_log_id c"
        using inv mem by (fastforce simp: bookInv_def jobsOk_def split: option.splits)
      have i: "sliceInv tsOf (w_up w) c (w\<lparr>w_faults := fs\<rparr>)" using inv c by (simp add: sliceInv_def bookInv_def)
      show ?thesis
        unfolding wp_bind
        by (rule wp_mono[OF status[OF i]])
           (auto intro!: wp_mono[OF sliceLoop_inv[OF serve ok sub c(2,3)]] fin)
    qed
    have "wp (RunBackfillSlice S) (\<lambda>_ w. settleInv tsOf (w_db w)) (\<lambda>_ w. settleInv tsOf (w_db w)) w"
    proof (cases "sv_leader S")
      case True
      show ?thesis
        unfolding RunBackfillSlice_def NextBackfillJob_def wp_bind if_not_P[OF not_not[THEN iffD2, OF True]]
      proof (rule wp_queryI)
        fix fs
        show "wp (case find isOpenJob (jobs (w_db w)) of None \<Rightarrow> return () | Some job \<Rightarrow>
            bind (guard_when (j_status job = BfPending) (SetBackfillStatus (j_org job) BfRunning)) (\<lambda>_.
            bind (sliceLoop S job (sv_windows_per_tick S) (j_cursor job)) (\<lambda>hi.
            guard_when (hi \<le> 0) (SetBackfillStatus (j_org job) BfDone)))) (\<lambda>_ w. settleInv tsOf (w_db w))
            (\<lambda>_ w. settleInv tsOf (w_db w)) (w\<lparr>w_faults := fs\<rparr>)"
          using inv job[of _ fs]
          by (cases "find isOpenJob (jobs (w_db w))") (auto simp: wp_return bookInv_def dest: find_key_Some)
      qed (use inv in \<open>simp add: bookInv_def\<close>)
    next
      case False
      then show ?thesis using inv by (simp add: RunBackfillSlice_def wp_simps bookInv_def)
    qed
    then show ?thesis by (simp add: wp_snd)
  qed
  ultimately show ?thesis by (simp add: bookInv_def)
qed

section \<open>Both streams together\<close>

text \<open>
  Forward settlement and backfill together: any sequence of settlement runs, backfill slices,
  newly queued backfills and steps of the other parts of the system (which leave the usage tables
  alone) keeps the books, however the server's logs come and go and wherever the driver fails.
\<close>

section \<open>The cursor moves forward\<close>

definition cursorUp :: "db \<Rightarrow> db \<Rightarrow> bool" where
  "cursorUp d d' \<longleftrightarrow> (\<forall>org c. findCursor org d = Some c \<longrightarrow> (\<exists>c'. findCursor org d' = Some c'
     \<and> c_ts c \<le> c_ts c' \<and> c_log_id c \<le> c_log_id c' \<and> c_version c \<le> c_version c'))"

lemma find_map_key:
  "(\<And>r. key (g r) = key r) \<Longrightarrow> find (\<lambda>r. key r = k) (map g rs) = map_option g (find (\<lambda>r. key r = k) rs)"
  by (induction rs) auto

interpretation cu: report_frame cursorUp
proof unfold_locales
  fix d e f :: db assume "cursorUp d e" "cursorUp e f"
  then show "cursorUp d f" unfolding cursorUp_def by (meson order_trans)
next
  fix d :: db and org ts lid ver
  let ?g = "\<lambda>c. if c_org c = org \<and> c_version c = ver then c\<lparr>c_ts := max (c_ts c) ts, c_log_id := max (c_log_id c) lid,
     c_version := c_version c + 1\<rparr> else c"
  have "find (\<lambda>c. c_org c = k) (map ?g (cursors d)) = map_option ?g (find (\<lambda>c. c_org c = k) (cursors d))" for k
    by (rule find_map_key) simp
  then show "cursorUp d (snd (advanceCursor org ts lid ver d))"
    by (auto simp: cursorUp_def advanceCursor_def Let_def findCursor_def)
next
  fix d :: db and org
  show "cursorUp d (snd (insertCursor org d))"
    by (auto simp: cursorUp_def insertCursor_def findCursor_def find_app)
qed (auto simp: cursorUp_def findCursor_def)

lemma updateBalance_cursors [simp]:
  "cursors (snd (updateBalance org ver g d)) = cursors d" "jobs (snd (updateBalance org ver g d)) = jobs d"
  by (simp_all add: updateBalance_def Let_def)

lemma cu_deduct: "guar (onDb cursorUp) (DeductBalanceTx org n :: ('v, balance) op)"
  unfolding DeductBalanceTx_def getBalanceTx_def
  by (intro guar_intros cu.bind' cu.basics cu.getRow cu.queryRow cu.stmt) (simp add: cursorUp_def findCursor_def)

definition sameJobs :: "db \<Rightarrow> db \<Rightarrow> bool" where
  "sameJobs d d' \<longleftrightarrow> jobs d' = jobs d"

interpretation sj: report_frame sameJobs
  by unfold_locales (auto simp: sameJobs_def advanceCursor_def insertCursor_def Let_def)

lemma sj_deduct: "guar (onDb sameJobs) (DeductBalanceTx org n :: ('v, balance) op)"
  unfolding DeductBalanceTx_def getBalanceTx_def
  by (intro guar_intros sj.bind' sj.basics sj.getRow sj.queryRow sj.stmt) (simp add: sameJobs_def)

lemma jobsOk_forward: "cursorUp d d' \<Longrightarrow> sameJobs d d' \<Longrightarrow> jobsOk d \<Longrightarrow> jobsOk d'"
  unfolding cursorUp_def sameJobs_def jobsOk_def by (fastforce split: option.splits)

lemma RunSettlement_book:
  assumes "servesLogs S (w_up w) logs" "logsOk tsOf logs" "bookInv tsOf (w_db w)"
  shows "bookInv tsOf (w_db (snd (RunSettlement S w)))"
proof -
  have "cursorUp (w_db w) (w_db (snd (RunSettlement S w)))"
    using guarD[OF cu.RunSettlement[of S], of w] cu_deduct by (auto simp: onDb_def)
  moreover have "sameJobs (w_db w) (w_db (snd (RunSettlement S w)))"
    using guarD[OF sj.RunSettlement[of S], of w] sj_deduct by (auto simp: onDb_def)
  ultimately show ?thesis
    using RunSettlement_inv[OF assms(1,2)] assms(3) jobsOk_forward by (auto simp: bookInv_def)
qed

section \<open>Queueing a backfill\<close>

lemma GetOrCreateCursor_book:
  assumes "bookInv tsOf (w_db w)"
  shows "wp (GetOrCreateCursor 0) (\<lambda>c w'. w_up w' = w_up w \<and> bookInv tsOf (w_db w') \<and> findCursor 0 (w_db w') = Some c)
           (\<lambda>_ w'. bookInv tsOf (w_db w')) w"
proof -
  have 1: "wp (GetOrCreateCursor 0) (\<lambda>_. onDb cursorUp w) (\<lambda>_. onDb cursorUp w) w" by (intro guar_wp cu.GetOrCreateCursor)
  have 2: "wp (GetOrCreateCursor 0) (\<lambda>_. onDb sameJobs w) (\<lambda>_. onDb sameJobs w) w" by (intro guar_wp sj.GetOrCreateCursor)
  show ?thesis
    by (rule wp_mono[OF wp_conj[OF wp_conj[OF 1 2] GetOrCreateCursor_inv[of tsOf w]]])
       (use assms in \<open>auto simp: bookInv_def onDb_def intro: jobsOk_forward\<close>)
qed

lemma InsertBackfillJob_book:
  assumes "bookInv tsOf (w_db w)" "findCursor 0 (w_db w) = Some c" "j_boundary_ts j = c_ts c" "j_boundary_id j = c_log_id c"
  shows "wp (InsertBackfillJob j) (\<lambda>_ w'. bookInv tsOf (w_db w')) (\<lambda>_ w'. bookInv tsOf (w_db w')) w"
  unfolding InsertBackfillJob_def exec_def
  by (rule wp_stmtI)
     (use assms in \<open>auto simp: bookInv_def jobsOk_def settleInv_def usageInv_def usageWf_def coverInv_def agrees_def findCursor_def\<close>)

lemma enqueueBackfill_book:
  assumes serve: "servesLogs S (w_up w) logs" and ok: "logsOk tsOf logs" and inv: "bookInv tsOf (w_db w)"
  shows "bookInv tsOf (w_db (snd (enqueueBackfill S org uid name w)))"
proof -
  let ?I = "\<lambda>w. bookInv tsOf (w_db w)"
  let ?C = "\<lambda>c w. bookInv tsOf (w_db w) \<and> findCursor 0 (w_db w) = Some c"
  have insert: "wp (InsertBackfillJob \<lparr> j_org = org, j_user = uid, j_username = name,
         j_boundary_ts = c_ts cur, j_boundary_id = c_log_id cur, j_cursor = c_ts cur,
         j_earliest = None, j_status = BfPending, j_rows = 0, j_error = None \<rparr>) (\<lambda>_. ?I) (\<lambda>_. ?I) w'"
    if "?C cur w'" for cur and w' :: "'a world"
    using that by (auto intro: InsertBackfillJob_book)
  have again: "wp (GetOrCreateCursor 0) ?C (\<lambda>_. ?I) w'" if "?I w'" for w' :: "'a world"
    by (rule wp_mono[OF GetOrCreateCursor_book[OF that]]) auto
  have base: "wp (bind (mapErr (WithCause plainErr) (RunSettlement S)) (\<lambda>_.
            bind (GetOrCreateCursor 0) (\<lambda>cur. if c_ts cur = 0 then throw plainErr else return cur))) ?C (\<lambda>_. ?I) w'"
    if w': "w_up w' = w_up w" "?I w'" for w' :: "'a world"
  proof -
    have "wp (RunSettlement S) (\<lambda>_. ?I) (\<lambda>_. ?I) w'"
      using RunSettlement_book[of S w' logs tsOf] serve ok w' by (simp add: wp_snd)
    then show ?thesis unfolding wp_bind wp_mapErr
      by (rule wp_mono) (auto simp: wp_simps intro!: wp_mono[OF again])
  qed
  have start: "wp (if c_ts cur0 \<noteq> 0 then return cur0 else
      bind (mapErr (WithCause plainErr) (RunSettlement S)) (\<lambda>_.
            bind (GetOrCreateCursor 0) (\<lambda>cur. if c_ts cur = 0 then throw plainErr else return cur))) ?C (\<lambda>_. ?I) w'"
    if "w_up w' = w_up w \<and> ?C cur0 w'" for cur0 and w' :: "'a world"
    using that base by (auto simp: wp_return)
  have "wp (enqueueBackfill S org uid name) (\<lambda>_. ?I) (\<lambda>_. ?I) w"
    unfolding enqueueBackfill_def
  proof (cases "name = ''''")
    case False
    show "wp (if name = '''' then throw plainErr else
      bind (GetOrCreateCursor 0) (\<lambda>cur0.
      bind (if c_ts cur0 \<noteq> 0 then return cur0
            else
            bind (mapErr (WithCause plainErr) (RunSettlement S)) (\<lambda>_.
            bind (GetOrCreateCursor 0) (\<lambda>cur.
            if c_ts cur = 0 then throw plainErr else return cur))) (\<lambda>cur.
      InsertBackfillJob \<lparr> j_org = org, j_user = uid, j_username = name,
         j_boundary_ts = c_ts cur, j_boundary_id = c_log_id cur, j_cursor = c_ts cur,
         j_earliest = None, j_status = BfPending, j_rows = 0, j_error = None \<rparr>))) (\<lambda>_. ?I) (\<lambda>_. ?I) w"
      unfolding if_not_P[OF False]
      by (subst wp_bind, rule wp_mono[OF GetOrCreateCursor_book[OF inv]], subst wp_bind, rule wp_mono[OF start])
         (auto intro: insert)
  qed (simp add: wp_throw inv)
  then show ?thesis by (simp add: wp_snd)
qed

section \<open>Histories\<close>

text \<open>
  The worlds a deployment passes through: \<open>logsOf\<close> and \<open>userLogs\<close> are the logs the server holds in a
  state, \<open>tsOf\<close> the creation time of a log identifier.  A step of any other component may change the
  server and the rest of the database.
\<close>

inductive deployment ::
  "'u service \<Rightarrow> ('u \<Rightarrow> log_entry list) \<Rightarrow> ('u \<Rightarrow> string \<Rightarrow> log_entry list) \<Rightarrow> 'u world \<Rightarrow> bool"
  for S logsOf userLogs where
  start: "ledger (w_db w) = [] \<Longrightarrow> details (w_db w) = [] \<Longrightarrow> cursors (w_db w) = [] \<Longrightarrow> jobs (w_db w) = []
     \<Longrightarrow> deployment S logsOf userLogs w"
| settle: "deployment S logsOf userLogs w \<Longrightarrow> deployment S logsOf userLogs (snd (RunSettlement S w))"
| slice: "deployment S logsOf userLogs w \<Longrightarrow> deployment S logsOf userLogs (snd (RunBackfillSlice S w))"
| enqueue: "deployment S logsOf userLogs w \<Longrightarrow> deployment S logsOf userLogs (snd (enqueueBackfill S org uid name w))"
| other: "deployment S logsOf userLogs w \<Longrightarrow> sameUsage (w_db w) (w_db w') \<Longrightarrow> sameBoundaries (w_db w) (w_db w')
     \<Longrightarrow> deployment S logsOf userLogs w'"

definition honest :: "'u service \<Rightarrow> ('u \<Rightarrow> log_entry list) \<Rightarrow> ('u \<Rightarrow> string \<Rightarrow> log_entry list) \<Rightarrow> (int \<Rightarrow> int) \<Rightarrow> bool" where
  "honest S logsOf userLogs tsOf \<longleftrightarrow> (\<forall>u. logsOk tsOf (logsOf u) \<and> servesLogs S u (logsOf u) \<and>
     (\<forall>name. servesUser S u name (userLogs u name) \<and> distinct (userLogs u name) \<and> set (userLogs u name) \<subseteq> set (logsOf u)))"

lemma deployment_book:
  assumes "honest S logsOf userLogs tsOf"
  shows "deployment S logsOf userLogs w \<Longrightarrow> bookInv tsOf (w_db w)"
proof (induction rule: deployment.induct)
  case (start w)
  then show ?case
    by (simp add: bookInv_def settleInv_def usageInv_def usageWf_def coverInv_def agrees_def jobsOk_def findCursor_def)
next
  case (settle w)
  then show ?case using assms by (auto simp: honest_def intro: RunSettlement_book)
next
  case (slice w)
  show ?case
    by (rule RunBackfillSlice_inv[where logs = "logsOf (w_up w)" and ulogs = "userLogs (w_up w)"])
       (use assms slice in \<open>auto simp: honest_def\<close>)
next
  case (enqueue w org uid name)
  then show ?case using assms by (auto simp: honest_def intro: enqueueBackfill_book)
next
  case (other w w')
  then show ?case by (auto simp: bookInv_def sameUsage_inv intro: jobsOk_boundaries)
qed

end
