(* ===== verification/Sample.thy ===== *)
theory Sample
  imports BookKeeping
begin

text \<open>
  A concrete new-api server, a service over it and a small database, at which the properties with
  hypotheses are instantiated: the server keeps logs, wallet quotas and token specifications, and
  answers every call.
\<close>

record sample =
  sa_quota :: "int \<Rightarrow> int"
  sa_tokens :: "(int \<times> token_spec) list"

definition sampleLogs :: "int \<Rightarrow> int \<Rightarrow> int \<Rightarrow> log_entry list \<Rightarrow> log_entry list \<times> int" where
  "sampleLogs since til p logs = (pageOf (logWindow logs since til) p, int (length (logWindow logs since til)))"

definition sampleUp :: "log_entry list \<Rightarrow> sample newapi" where
  "sampleUp logs = \<lparr>
     na_BootstrapMember = (\<lambda>bi. return \<lparr> br_user = bi_org bi + 100, br_access = ''at'' \<rparr>),
     na_CreateToken = (\<lambda>c t s. (Inr (int (length (sa_tokens s))), s\<lparr>sa_tokens := sa_tokens s @ [(int (length (sa_tokens s)), t)]\<rparr>)),
     na_RevealTokenKey = (\<lambda>c i. return ''sk-sample-key''),
     na_RotateToken = (\<lambda>c i t. return (i + 1, ''sk-sample-next'')),
     na_UpdateToken = (\<lambda>c i t s. (Inr (), s\<lparr>sa_tokens := (i, t) # filter (\<lambda>x. fst x \<noteq> i) (sa_tokens s)\<rparr>)),
     na_SetTokenStatus = (\<lambda>c i b. return ()),
     na_DeleteToken = (\<lambda>c i. return ()),
     na_ManageUserQuota = (\<lambda>u m n s. let r = (case m of QuotaOverride \<Rightarrow> n
        | QuotaAdd \<Rightarrow> i64 (sa_quota s u) + n | QuotaSubtract \<Rightarrow> i64 (sa_quota s u) - n)
        in if fits64 r then (Inr (), s\<lparr>sa_quota := (sa_quota s)(u := r)\<rparr>) else (Inl BadRequest, s)),
     na_GetUserQuota = (\<lambda>u. gets (\<lambda>s. i64 (sa_quota s u))),
     na_SetUserStatus = (\<lambda>u b. return ()),
     na_SetUserGroup = (\<lambda>u g. return ()),
     na_ProbeAccessToken = (\<lambda>c. return True),
     na_RefreshAccessToken = (\<lambda>bi. return ''at''),
     na_GetSelfSubscription = (\<lambda>c. return (''wallet_only'', False)),
     na_SetBillingPreference = (\<lambda>c p. return ()),
     na_GetSelfInfo = (\<lambda>c. return \<lparr> si_id = cr_user c, si_username = ''acme'', si_role = 1, si_group = ''acme'' \<rparr>),
     na_ListUserTokens = (\<lambda>c. return []),
     na_GetOrgUsableGroups = (\<lambda>g. return [g]),
     na_AddOrgUsableGroup = (\<lambda>g h. return ()),
     na_ReadConsumptionLogs = (\<lambda>since til p n. return (sampleLogs since til p logs)),
     na_ReadConsumptionLogsByUsername = (\<lambda>name since til p n. return (sampleLogs since til p
        (if name = ''acme'' then filter (\<lambda>e. e_user e = 101) logs else []))),
     na_GetGroupRatio = (\<lambda>g. return (if g = ''vip'' then Some (3, 2) else None)),
     na_GetGroupGroupRatio = (\<lambda>g h. return None),
     na_SetOrgGroupRatios = (\<lambda>g rs. return ()),
     na_ListGroupRatios = return [],
     na_ListGroupModels = return [],
     na_SumConsumedQuotaByUsername = (\<lambda>name til. return (sumBy e_quota (filter (\<lambda>e. e_user e = 101) logs))) \<rparr>"

definition sampleSvc :: "log_entry list \<Rightarrow> bool \<Rightarrow> bool \<Rightarrow> sample service" where
  "sampleSvc logs observe funding = \<lparr> sv_up = sampleUp logs, sv_observe = observe, sv_funding = funding, sv_leader = True,
     sv_windows_per_tick = 3, sv_retention_days = 90, sv_encrypt = (\<lambda>s. ''enc:'' @ s),
     sv_decrypt = (\<lambda>s. Some (drop 4 s)), sv_gen_username = (\<lambda>n. ''org'' @ itoa (int n)),
     sv_gen_newapi_password = (\<lambda>n. ''pw''), sv_gen_platform_password = (\<lambda>n. ''pw'' @ itoa (int n)),
     sv_hash_password = (\<lambda>s. if length s > 72 then None else Some (''#'' @ s)), sv_check_password = (\<lambda>h s. h = ''#'' @ s),
     sv_rand_suffix = (\<lambda>n. ''x'' @ itoa (int n)),
     sv_zone = (\<lambda>z. if z = ''Asia/Shanghai'' then Some (\<lambda>t. (28800, -(10 ^ 12), 10 ^ 12)) else None) \<rparr>"

definition sampleOrg :: organization where
  "sampleOrg = \<lparr> o_id = 1, o_name = ''Acme'', o_slug = ''acme'', o_timezone = ''Asia/Shanghai'', o_status = OrgStatusActive,
     o_user_group = Some ''acme'', o_default_tier = None, o_default_token_group = None,
     o_newapi_user = Some 101, o_newapi_username = Some ''acme'', o_access_token_enc = ''enc:at'',
     o_password_enc = ''enc:pw'', o_created_by_platform = True, o_archived = False,
     o_billing_kind = BillingKindWallet, o_billing_enabled = True, o_hard_stop_enabled = True,
     o_auto_max_quota = 1000, o_auto_max_days = 7, o_l1_max_quota = 10000, o_discount_mode = ''none'', o_entries = [], o_deleted = False \<rparr>"

definition sampleMember :: "int \<Rightarrow> role \<Rightarrow> member" where
  "sampleMember i r = \<lparr> m_id = i, m_org = 1, m_team = None, m_email = ''m@acme'', m_display = None,
     m_role = r, m_tier = None, m_group = None, m_status = MemberStatusActive, m_pwhash = None,
     m_token = Some (70 + i), m_key_masked = None, m_rotation = 0, m_bootstrap = BootstrapDone,
     m_epoch = 0, m_deleted = False \<rparr>"

definition sampleBalance :: balance where
  "sampleBalance = \<lparr> b_org = 1, b_recharged = 1000, b_consumed = 0, b_refunded = 0, b_balance = 1000,
     b_low_watermark = 100, b_version = 3 \<rparr>"

definition sampleEntry :: "int \<Rightarrow> int \<Rightarrow> int \<Rightarrow> int \<Rightarrow> log_entry" where
  "sampleEntry i sec q tok = \<lparr> e_id = i, e_user = 101, e_created = sec, e_model = ''m1'', e_quota = q,
     e_prompt = 1, e_completion = 1, e_token = tok \<rparr>"

definition sampleDb :: db where
  "sampleDb = empty_db\<lparr> orgs := [sampleOrg], members := [sampleMember 1 RoleOrgAdmin, sampleMember 2 RoleMember],
     balances := [sampleBalance],
     key_tokens := [\<lparr> kt_key = 5, kt_org = 1, kt_member = 2, kt_token = Some 72, kt_name = ''k'', kt_current = True, kt_rotation = 0 \<rparr>],
     buckets := [\<lparr> eb_id = 1, eb_org = 1, eb_seq = 1, eb_amount = 1000, eb_status = EscrowActive, eb_threshold = 0 \<rparr>],
     recharges := [\<lparr> r_org = 1, r_amount = 1000, r_amount_cny = None, r_transfer_no = ''T1'', r_operator = ''operator:9'', r_note = None \<rparr>] \<rparr>"

definition sampleState :: sample where
  "sampleState = \<lparr> sa_quota = (\<lambda>u. 1000), sa_tokens = [] \<rparr>"

definition sampleWorld :: "db \<Rightarrow> int \<Rightarrow> sample world" where
  "sampleWorld d sec = \<lparr> w_db = d, w_up = sampleState, w_now = sec * 10 ^ 9, w_faults = [], w_held = [], w_draws = 0 \<rparr>"

definition sampleClaims :: "role \<Rightarrow> int \<Rightarrow> claims" where
  "sampleClaims r mem = \<lparr> cl_member = mem, cl_org = (if r = RoleOperator then 0 else 1), cl_role = r, cl_team = 0,
     cl_support = 0, cl_scope = '''', cl_epoch = 0, cl_iat = 0, cl_exp = 0 \<rparr>"

definition sampleUserLogs :: "log_entry list \<Rightarrow> string \<Rightarrow> log_entry list" where
  "sampleUserLogs logs name = (if name = ''acme'' then filter (\<lambda>e. e_user e = 101) logs else [])"

lemma sample_serves: "servesLogs (sampleSvc logs b f) u logs"
  by (simp add: servesLogs_def sampleSvc_def sampleUp_def sampleLogs_def return_def)

lemma sample_servesUser: "servesUser (sampleSvc logs b f) u name (sampleUserLogs logs name)"
  by (simp add: servesUser_def sampleSvc_def sampleUp_def sampleLogs_def sampleUserLogs_def return_def)

definition sampleLogList :: "log_entry list" where
  "sampleLogList = [sampleEntry 13 10030 40 99, sampleEntry 12 10020 30 72, sampleEntry 11 9000 5 72]"

definition sampleTs :: "int \<Rightarrow> int" where
  "sampleTs i = (if i = 13 then 10030 else if i = 12 then 10020 else 9000)"

lemma sampleLogs_ok: "logsOk sampleTs sampleLogList"
  by (simp add: logsOk_def sampleLogList_def sampleEntry_def sampleTs_def sumBy_def)

lemma sample_honest: "honest (sampleSvc sampleLogList b f) (\<lambda>_. sampleLogList) (\<lambda>_. sampleUserLogs sampleLogList) sampleTs"
  unfolding honest_def
  by (simp add: sampleLogs_ok sample_serves sample_servesUser)
     (auto simp: sampleUserLogs_def sampleLogList_def sampleEntry_def)

end
