(* ===== verification/SettlementClaims.thy ===== *)
theory SettlementClaims
  imports Sample
begin

text \<open>
  The properties of settlement and backfill, each with an instance on the sample server.
\<close>

section \<open>Books\<close>



end
