(* ===== verification/MoneyInvariant.thy ===== *)
theory MoneyInvariant
  imports StoreMoney
begin

text \<open>
  The conservation law of the platform's money: for every organization the released bucket
  and the holding buckets together hold exactly what was recharged and not refunded.
  \<open>moneyGap org k\<close> says it holds up to \<open>k\<close> for one organization; each repository operation is
  characterised by how it moves that gap, so that a transaction is balanced when its moves
  cancel.
\<close>

definition inEscrow :: "escrow_bucket \<Rightarrow> bool" where
  "inEscrow b \<longleftrightarrow> eb_status b = EscrowActive \<or> eb_status b = EscrowHolding"

definition escrowPart :: "int \<Rightarrow> escrow_bucket \<Rightarrow> int" where
  "escrowPart org b = (if eb_org b = org \<and> inEscrow b then eb_amount b else 0)"

definition escrowTotal :: "int \<Rightarrow> db \<Rightarrow> int" where
  "escrowTotal org d = sumBy (escrowPart org) (buckets d)"

definition netFunding :: "int \<Rightarrow> db \<Rightarrow> int" where
  "netFunding org d = (case findBalance org d of None \<Rightarrow> 0 | Some b \<Rightarrow> b_recharged b - b_refunded b)"

definition balanceOk :: "balance \<Rightarrow> bool" where
  "balanceOk b \<longleftrightarrow> b_balance b = b_recharged b - b_refunded b - b_consumed b
     \<and> 0 \<le> b_refunded b \<and> fits64 (b_recharged b)"

definition moneyWf :: "db \<Rightarrow> bool" where
  "moneyWf d \<longleftrightarrow> distinct (map b_org (balances d)) \<and> distinct (map eb_id (buckets d))
     \<and> (\<forall>b \<in> set (buckets d). 0 \<le> eb_amount b) \<and> (\<forall>b \<in> set (balances d). balanceOk b)"

definition moneyGap :: "int \<Rightarrow> int \<Rightarrow> db \<Rightarrow> bool" where
  "moneyGap org k d \<longleftrightarrow> moneyWf d
     \<and> (\<forall>o'. netFunding o' d = escrowTotal o' d + (if o' = org then k else 0))"

definition moneyInv :: "db \<Rightarrow> bool" where
  "moneyInv d \<longleftrightarrow> moneyWf d \<and> (\<forall>org. netFunding org d = escrowTotal org d)"

lemma moneyGap_0: "moneyGap org 0 d \<longleftrightarrow> moneyInv d"
  by (simp add: moneyGap_def moneyInv_def)

lemma findBalance_Some: "findBalance org d = Some b \<Longrightarrow> b \<in> set (balances d) \<and> b_org b = org"
  unfolding findBalance_def by (drule find_key_Some)

lemma findBalance_cong: "balances d = balances d' \<Longrightarrow> findBalance org d = findBalance org d'"
  by (simp add: findBalance_def)

lemma netFunding_cong: "balances d = balances d' \<Longrightarrow> netFunding org d = netFunding org d'"
  by (simp add: netFunding_def findBalance_def)

lemma moneyGap_cong:
  "balances d = balances d' \<Longrightarrow> buckets d = buckets d' \<Longrightarrow> moneyGap org k d = moneyGap org k d'"
  by (simp add: moneyGap_def moneyWf_def escrowTotal_def netFunding_def findBalance_def)

lemma moneyInv_cong:
  "balances d = balances d' \<Longrightarrow> buckets d = buckets d' \<Longrightarrow> moneyInv d = moneyInv d'"
  by (simp add: moneyInv_def moneyWf_def escrowTotal_def netFunding_def findBalance_def)

section \<open>Balance rows\<close>

lemma findBalance_insertIgnore:
  "findBalance org (insertBalanceIgnore o' d) =
     (if findBalance org d = None \<and> org = o' then Some (zeroBalance o') else findBalance org d)"
proof -
  have "find (\<lambda>b. b_org b = org) (xs @ [zeroBalance o']) =
      (case find (\<lambda>b. b_org b = org) xs of None \<Rightarrow> if org = o' then Some (zeroBalance o') else None
                                        | Some b \<Rightarrow> Some b)" for xs
    by (induction xs) (auto simp: zeroBalance_def)
  then show ?thesis
    by (auto simp: findBalance_def insertBalanceIgnore_def split: option.splits)
qed

lemma moneyGap_insertIgnore:
  assumes "moneyGap org k d"
  shows "moneyGap org k (insertBalanceIgnore o' d)"
proof -
  have "findBalance o' d = None \<Longrightarrow> o' \<notin> b_org ` set (balances d)"
    by (auto simp: findBalance_def find_None_iff)
  moreover have "netFunding x (insertBalanceIgnore o' d) = netFunding x d" for x
    by (auto simp: netFunding_def findBalance_insertIgnore zeroBalance_def split: option.splits)
  moreover have "balanceOk (zeroBalance o')"
    by (simp add: balanceOk_def zeroBalance_def fits64_def)
  ultimately show ?thesis using assms
    by (auto simp: moneyGap_def moneyWf_def escrowTotal_def insertBalanceIgnore_def zeroBalance_def)
qed

text \<open>
  The optimistic update under a fresh version hits exactly the row of the organization.
\<close>

lemma filter_single: "distinct xs \<Longrightarrow> x \<in> set xs \<Longrightarrow> filter (\<lambda>y. y = x) xs = [x]"
  by (induction xs) (auto simp: filter_empty_conv)

lemma updateBalance_spec:
  assumes wf: "distinct (map b_org (balances d))" and f: "findBalance org d = Some b"
    and u: "updateBalance org (b_version b) g d = (Inr n, d')"
  shows "n = 1" "balances d' = updateKey b_org org g (balances d)" "buckets d' = buckets d"
    "fits64 (b_recharged (g b))"
proof -
  have b: "b \<in> set (balances d)" "b_org b = org" using findBalance_Some[OF f] by auto
  have only: "x \<in> set (balances d) \<Longrightarrow> b_org x = org \<Longrightarrow> x = b" for x
    using wf b by (metis find_unique findBalance_def f option.inject)
  have hit: "filter (\<lambda>x. b_org x = org \<and> b_version x = b_version b) (balances d) = [b]"
  proof -
    have "filter (\<lambda>x. b_org x = org \<and> b_version x = b_version b) (balances d)
            = filter (\<lambda>x. x = b) (balances d)"
      using b by (intro filter_cong) (auto intro: only)
    also have "\<dots> = [b]"
      using b(1) wf by (intro filter_single) (auto simp: distinct_map)
    finally show ?thesis .
  qed
  have d': "n = 1 \<and> fits64 (b_recharged (g b)) \<and>
      d' = d\<lparr>balances := map (\<lambda>x. if b_org x = org \<and> b_version x = b_version b then g x else x) (balances d)\<rparr>"
    using u by (simp add: updateBalance_def hit split: if_splits)
  then show "n = 1" "buckets d' = buckets d" "fits64 (b_recharged (g b))" by simp_all
  have "map (\<lambda>x. if b_org x = org \<and> b_version x = b_version b then g x else x) (balances d)
          = updateKey b_org org g (balances d)"
    unfolding updateKey_def
  proof (rule map_cong[OF HOL.refl])
    fix x assume "x \<in> set (balances d)"
    then have "b_org x = org \<Longrightarrow> b_version x = b_version b" using only[of x] by blast
    then show "(if b_org x = org \<and> b_version x = b_version b then g x else x)
        = (if b_org x = org then g x else x)" by (cases "b_org x = org") simp_all
  qed
  then show "balances d' = updateKey b_org org g (balances d)" using d' by simp
qed

lemma moneyGap_updateRow:
  assumes gap: "moneyGap org k d" and f: "findBalance org d = Some b"
    and bal: "balances d' = updateKey b_org org g (balances d)" and bk: "buckets d' = buckets d"
    and key: "\<And>x. b_org (g x) = b_org x" and ok: "balanceOk (g b)"
  shows "moneyGap org (k + (b_recharged (g b) - b_refunded (g b)) - (b_recharged b - b_refunded b)) d'"
    and "findBalance org d' = Some (g b)"
proof -
  have fb: "findBalance o' d' = (if o' = org then Some (g b) else findBalance o' d)" for o'
    using f by (simp add: findBalance_def bal find_updateKey[where key = b_org and g = g, OF key])
  then show "findBalance org d' = Some (g b)" by simp
  have b: "b \<in> set (balances d)" "b_org b = org" using findBalance_Some[OF f] by auto
  have wf: "distinct (map b_org (balances d))" using gap by (simp add: moneyGap_def moneyWf_def)
  have "x \<in> set (balances d) \<Longrightarrow> b_org x = org \<Longrightarrow> x = b" for x
    using wf b by (metis find_unique findBalance_def f option.inject)
  then have oks: "x \<in> set (balances d') \<Longrightarrow> balanceOk x" for x
    using gap ok by (auto simp: bal moneyGap_def moneyWf_def updateKey_def)
  have net: "netFunding o' d' = netFunding o' d +
      (if o' = org then (b_recharged (g b) - b_refunded (g b)) - (b_recharged b - b_refunded b) else 0)" for o'
    by (simp add: netFunding_def fb f)
  have esc: "escrowTotal o' d' = escrowTotal o' d" for o' by (simp add: escrowTotal_def bk)
  show "moneyGap org (k + (b_recharged (g b) - b_refunded (g b)) - (b_recharged b - b_refunded b)) d'"
    using gap wf oks unfolding moneyGap_def moneyWf_def net esc
    by (simp add: bal bk map_updateKey_same[where h = b_org and g = g, OF key])
qed

text \<open>A row whose version was just read and updated: the common tail of the three operations.\<close>

lemma dbval_updateBalance:
  assumes key: "\<And>x. b_org (g x) = b_org x"
    and ok: "\<And>x. balanceOk x \<Longrightarrow> fits64 (b_recharged (g x)) \<Longrightarrow> balanceOk (g x)"
    and delta: "\<And>x. b_recharged (g x) - b_refunded (g x) = b_recharged x - b_refunded x + e"
  shows "dbval (\<lambda>d. moneyGap org k d \<and> map_option b_version (findBalance org d) = Some ver)
           (stmt (updateBalance org ver g)) (\<lambda>n d. n = 1 \<and> moneyGap org (k + e) d)"
proof (rule dbval_stmt)
  fix d n d'
  assume pre: "moneyGap org k d \<and> map_option b_version (findBalance org d) = Some ver"
    and u: "updateBalance org ver g d = (Inr n, d')"
  then obtain b where f: "findBalance org d = Some b" and v: "ver = b_version b" by auto
  have gap: "moneyGap org k d" using pre by simp
  have wf: "distinct (map b_org (balances d))" using gap by (simp add: moneyGap_def moneyWf_def)
  note sp = updateBalance_spec[OF wf f u[unfolded v]]
  have "balanceOk b" using gap findBalance_Some[OF f] by (auto simp: moneyGap_def moneyWf_def)
  then have okb: "balanceOk (g b)" using ok sp(4) by blast
  have e: "k + (b_recharged (g b) - b_refunded (g b)) - (b_recharged b - b_refunded b) = k + e"
    using delta[of b] by simp
  have "moneyGap org (k + e) d'"
    using moneyGap_updateRow(1)[OF gap f sp(2,3) key okb] unfolding e .
  then show "n = 1 \<and> moneyGap org (k + e) d'" using sp(1) by simp
qed

lemma AddRechargeTx_gap:
  assumes "r_org r = org"
  shows "dbval (moneyGap org k) (AddRechargeTx r) (\<lambda>_. moneyGap org (k + r_amount r))"
  unfolding AddRechargeTx_def assms
proof (rule dbval_bind[where R = "\<lambda>_. moneyGap org k"])
  show "dbval (moneyGap org k) (exec (insertBalanceIgnore org)) (\<lambda>_. moneyGap org k)"
    by (rule dbval_exec) (rule moneyGap_insertIgnore)
next
  have ins: "dbval (moneyGap org k) (mapErr dupToConflict (stmt (insertRecharge r))) (\<lambda>_. moneyGap org k)"
    by (rule dbval_mapErr, rule dbval_stmt)
       (auto simp: insertRecharge_def moneyGap_cong[of "_\<lparr>recharges := _\<rparr>" _ org k] split: if_splits)
  have upd: "dbval (\<lambda>d. moneyGap org k d \<and> map_option b_version (findBalance org d) = Some ver)
     (stmt (updateBalance org ver (rechargeRow (r_amount r))))
     (\<lambda>n d. n = 1 \<and> moneyGap org (k + r_amount r) d)" for ver
    by (rule dbval_updateBalance) (auto simp: rechargeRow_def balanceOk_def)
  have fin: "dbval (\<lambda>d. n = 1 \<and> moneyGap org (k + r_amount r) d)
     (if n \<noteq> 1 then throw ErrOptimisticLock else getBalanceTx org)
     (\<lambda>_. moneyGap org (k + r_amount r))" for n :: nat
    unfolding getBalanceTx_def
    by (intro dbval_if dbval_throw dbval_weak[OF dbval_queryRow]) auto
  show "dbval (moneyGap org k) (bind (mapErr dupToConflict (stmt (insertRecharge r))) (\<lambda>_.
      bind (queryRow (\<lambda>d. map_option b_version (findBalance org d))) (\<lambda>ver.
      bind (stmt (updateBalance org ver (rechargeRow (r_amount r)))) (\<lambda>n.
      if n \<noteq> 1 then throw ErrOptimisticLock else getBalanceTx org))))
      (\<lambda>_. moneyGap org (k + r_amount r))"
    by (rule dbval_bind[OF ins], rule dbval_bind[OF dbval_queryRow], rule dbval_bind[OF upd], rule fin)
qed

lemma DebitBalanceTx_gap:
  assumes "0 \<le> amount"
  shows "dbval (moneyGap org k) (DebitBalanceTx org amount reason opr) (\<lambda>_. moneyGap org (k - amount))"
proof -
  have upd: "dbval (\<lambda>d. moneyGap org k d \<and> map_option b_version (findBalance org d) = Some ver)
     (stmt (updateBalance org ver (refundRow amount))) (\<lambda>n d. n = 1 \<and> moneyGap org (k + - amount) d)" for ver
    by (rule dbval_updateBalance) (auto simp: refundRow_def balanceOk_def assms)
  have ref: "dbval (\<lambda>d. moneyGap org k d \<and> map_option b_version (findBalance org d) = Some ver)
     (exec (\<lambda>d. d\<lparr>refunds := refunds d @ [x]\<rparr>))
     (\<lambda>_ d. moneyGap org k d \<and> map_option b_version (findBalance org d) = Some ver)" for ver x
    by (rule dbval_exec)
       (auto simp: findBalance_def moneyGap_cong[of "_\<lparr>refunds := _\<rparr>" _ org k])
  have fin: "dbval (\<lambda>d. n = 1 \<and> moneyGap org (k + - amount) d)
     (if n \<noteq> 1 then throw ErrOptimisticLock else getBalanceTx org) (\<lambda>_. moneyGap org (k + - amount))"
     for n :: nat
    unfolding getBalanceTx_def
    by (intro dbval_if dbval_throw dbval_weak[OF dbval_queryRow]) auto
  have "dbval (moneyGap org k) (DebitBalanceTx org amount reason opr) (\<lambda>_. moneyGap org (k + - amount))"
    unfolding DebitBalanceTx_def
  proof (rule dbval_bind[OF dbval_getRow], clarify, goal_cases)
    case (1 ver bal)
    have "dbval (\<lambda>d. moneyGap org k d \<and> map_option b_version (findBalance org d) = Some ver)
       (bind (exec (\<lambda>d. d\<lparr>refunds := refunds d @ [\<lparr> rf_org = org, rf_amount = amount,
           rf_reason = reason, rf_operator = opr \<rparr>]\<rparr>)) (\<lambda>_.
        bind (stmt (updateBalance org ver (refundRow amount))) (\<lambda>n.
        if n \<noteq> 1 then throw ErrOptimisticLock else getBalanceTx org)))
       (\<lambda>_. moneyGap org (k + - amount))"
      by (rule dbval_bind[OF ref], rule dbval_bind[OF upd], rule fin)
    then show ?case
      by (auto intro!: dbval_if dbval_throw elim!: dbval_pre)
  qed
  then show ?thesis by simp
qed

lemma DeductBalanceTx_gap:
  "dbval (moneyGap org k) (DeductBalanceTx org amount) (\<lambda>_. moneyGap org k)"
proof -
  have upd: "dbval (\<lambda>d. moneyGap org k d \<and> map_option b_version (findBalance org d) = Some ver)
     (stmt (updateBalance org ver (consumeRow amount))) (\<lambda>n d. n = 1 \<and> moneyGap org (k + 0) d)" for ver
    by (rule dbval_updateBalance) (auto simp: consumeRow_def balanceOk_def)
  have fin: "dbval (\<lambda>d. n = 1 \<and> moneyGap org (k + 0) d)
     (if n \<noteq> 1 then throw ErrOptimisticLock else getBalanceTx org) (\<lambda>_. moneyGap org k)" for n :: nat
    unfolding getBalanceTx_def
    by (intro dbval_if dbval_throw dbval_weak[OF dbval_queryRow]) auto
  show ?thesis
    unfolding DeductBalanceTx_def
    by (rule dbval_bind[OF dbval_getRow], rule dbval_bind[OF upd], rule fin)
qed

section \<open>Escrow buckets\<close>

lemma setBucket_fields [simp]:
  "balances (setBucket i amt st d) = balances d"
  "buckets (setBucket i amt st d) = updateKey eb_id i (\<lambda>b. b\<lparr>eb_amount := amt, eb_status := st\<rparr>) (buckets d)"
  by (simp_all add: setBucket_def)

lemma setBucket_other:
  "x \<in> set (buckets d) \<Longrightarrow> eb_id x \<noteq> i \<Longrightarrow> x \<in> set (buckets (setBucket i amt st d))"
  by (force simp: updateKey_def)

lemma bucket_same_id:
  "moneyGap org k d \<Longrightarrow> x \<in> set (buckets d) \<Longrightarrow> y \<in> set (buckets d) \<Longrightarrow> eb_id x = eb_id y \<Longrightarrow> x = y"
  by (simp add: moneyGap_def moneyWf_def) (metis distinct_map inj_onD)

lemma moneyGap_setBucket:
  assumes gap: "moneyGap org k d" and h: "h \<in> set (buckets d)" "eb_org h = org" and amt: "0 \<le> amt"
  shows "moneyGap org (k + escrowPart org h - escrowPart org (h\<lparr>eb_amount := amt, eb_status := st\<rparr>))
           (setBucket (eb_id h) amt st d)"
proof -
  have dist: "distinct (map eb_id (buckets d))" using gap by (simp add: moneyGap_def moneyWf_def)
  have tot: "escrowTotal o' (setBucket (eb_id h) amt st d) = escrowTotal o' d - escrowPart o' h
               + escrowPart o' (h\<lparr>eb_amount := amt, eb_status := st\<rparr>)" for o'
    unfolding escrowTotal_def setBucket_fields by (rule sumBy_updateKey[OF dist h(1)]) simp
  have "x \<in> set (buckets (setBucket (eb_id h) amt st d)) \<Longrightarrow> 0 \<le> eb_amount x" for x
    using gap amt by (auto simp: updateKey_def moneyGap_def moneyWf_def)
  moreover have "netFunding o' (setBucket (eb_id h) amt st d) = netFunding o' d" for o'
    by (rule netFunding_cong) simp
  moreover have "map eb_id (buckets (setBucket (eb_id h) amt st d)) = map eb_id (buckets d)"
    by (simp add: map_updateKey_same)
  ultimately show ?thesis
    using gap unfolding moneyGap_def moneyWf_def tot
    by (auto simp: escrowPart_def h(2))
qed

lemma CreateEscrowBucketTx_gap:
  assumes "0 \<le> amount" "st = EscrowActive \<or> st = EscrowHolding"
  shows "dbval (moneyGap org k) (CreateEscrowBucketTx org seq amount st thr) (\<lambda>_. moneyGap org (k - amount))"
  unfolding CreateEscrowBucketTx_def
proof (rule dbval_stmt)
  fix d r d'
  assume gap: "moneyGap org k d" and ins: "insertBucket org seq amount st thr d = (Inr r, d')"
  let ?b = "\<lparr> eb_id = r, eb_org = org, eb_seq = seq, eb_amount = amount, eb_status = st, eb_threshold = thr \<rparr>"
  have d': "d' = d\<lparr>buckets := buckets d @ [?b]\<rparr>" and r: "r = next_id (map eb_id (buckets d))"
    using ins by (auto simp: insertBucket_def Let_def split: if_splits)
  have fresh: "r \<notin> eb_id ` set (buckets d)" using next_id_fresh[of "map eb_id (buckets d)"] r by simp
  have "escrowTotal o' d' = escrowTotal o' d + (if o' = org then amount else 0)" for o'
    using assms(2) by (auto simp: escrowTotal_def d' escrowPart_def inEscrow_def)
  moreover have "netFunding o' d' = netFunding o' d" for o' by (rule netFunding_cong) (simp add: d')
  ultimately show "moneyGap org (k - amount) d'"
    using gap fresh assms(1) unfolding moneyGap_def moneyWf_def by (auto simp: d')
qed

lemma UpdateEscrowBucketTx_gap:
  assumes "0 \<le> amt" "eb_org h = org"
  shows "dbval (\<lambda>d. moneyGap org k d \<and> h \<in> set (buckets d)) (UpdateEscrowBucketTx (eb_id h) amt st)
     (\<lambda>_. moneyGap org (k + escrowPart org h - escrowPart org (h\<lparr>eb_amount := amt, eb_status := st\<rparr>)))"
  unfolding UpdateEscrowBucketTx_def
  by (rule dbval_exec) (auto intro: moneyGap_setBucket simp: assms)

text \<open>What one bucket of the organization can hold besides the gap is bounded by the recharges.\<close>

lemma bucket_fits:
  assumes gap: "moneyGap org k d" and a: "a \<in> set (buckets d)" "eb_org a = org" "inEscrow a" and k: "0 \<le> k"
  shows "fits64 (eb_amount a + k)"
proof -
  have nn: "x \<in> set (buckets d) \<Longrightarrow> 0 \<le> escrowPart org x" for x
    using gap by (auto simp: moneyGap_def moneyWf_def escrowPart_def)
  have "escrowPart org a \<le> escrowTotal org d" unfolding escrowTotal_def by (rule sumBy_member[OF nn a(1)])
  then have le: "eb_amount a + k \<le> netFunding org d"
    using gap a by (simp add: moneyGap_def escrowPart_def)
  have 0: "0 \<le> eb_amount a + k" using gap a k by (auto simp: moneyGap_def moneyWf_def)
  have "netFunding org d < 2 ^ 63"
  proof (cases "findBalance org d")
    case None
    then show ?thesis by (simp add: netFunding_def)
  next
    case (Some b)
    then have "balanceOk b" using gap findBalance_Some[OF Some] by (auto simp: moneyGap_def moneyWf_def)
    then show ?thesis by (simp add: netFunding_def Some balanceOk_def fits64_def)
  qed
  with le 0 show ?thesis by (simp add: fits64_def)
qed

section \<open>Merging and reducing\<close>

lemma firstBucket_Some:
  "firstBy eb_seq (isBucket org st) (buckets d) = Some h \<Longrightarrow>
     h \<in> set (buckets d) \<and> eb_org h = org \<and> eb_status h = st"
  by (drule firstBy_Some) (simp add: isBucket_def)

text \<open>One round of the merge: a holding bucket gives up \<open>take\<close>, the active bucket stays.\<close>

lemma holding_give_gap:
  assumes h: "eb_org h = org" "eb_status h = EscrowHolding" and t: "0 \<le> t" "t \<le> eb_amount h"
    and st: "st = (if t \<ge> eb_amount h then EscrowMerged else EscrowHolding)"
    and act: "eb_status act = EscrowActive"
  shows "dbval (\<lambda>d. moneyGap org k d \<and> act \<in> set (buckets d) \<and> h \<in> set (buckets d))
     (UpdateEscrowBucketTx (eb_id h) (eb_amount h - t) st)
     (\<lambda>_ d. moneyGap org (k + t) d \<and> act \<in> set (buckets d))"
  unfolding UpdateEscrowBucketTx_def
proof (rule dbval_exec, elim conjE, intro conjI)
  fix d assume gap: "moneyGap org k d" and a: "act \<in> set (buckets d)" and hd: "h \<in> set (buckets d)"
  have "escrowPart org h - escrowPart org (h\<lparr>eb_amount := eb_amount h - t, eb_status := st\<rparr>) = t"
    using h t st by (auto simp: escrowPart_def inEscrow_def)
  then show "moneyGap org (k + t) (setBucket (eb_id h) (eb_amount h - t) st d)"
    using moneyGap_setBucket[OF gap hd h(1), of "eb_amount h - t" st] t(2)
    by (simp add: algebra_simps)
  have "eb_id act \<noteq> eb_id h" using bucket_same_id[OF gap a hd] h(2) act by auto
  then show "act \<in> set (buckets (setBucket (eb_id h) (eb_amount h - t) st d))"
    using setBucket_other[OF a] by blast
qed

lemma mergeLoop_gap:
  assumes act: "eb_status act = EscrowActive"
  shows "0 \<le> merged \<Longrightarrow> dbval (\<lambda>d. moneyGap org merged d \<and> act \<in> set (buckets d))
     (mergeLoop n org remaining merged :: ('u, int) op)
     (\<lambda>m d. 0 \<le> m \<and> moneyGap org m d \<and> act \<in> set (buckets d))"
proof (induction n arbitrary: remaining merged)
  case 0
  then show ?case by (simp add: mergeLoop.simps(1) dbval_throw)
next
  case (Suc n)
  let ?P = "\<lambda>d. moneyGap org merged d \<and> act \<in> set (buckets d)"
  let ?Q = "\<lambda>m d. 0 \<le> m \<and> moneyGap org m d \<and> act \<in> set (buckets d)"
  have step: "dbval (\<lambda>d. ?P d \<and> firstBy eb_seq (isBucket org EscrowHolding) (buckets d) = Some h)
     (let take = (if eb_amount h > remaining then remaining else eb_amount h)
            in bind (if take \<ge> eb_amount h then UpdateEscrowBucketTx (eb_id h) 0 EscrowMerged
                     else UpdateEscrowBucketTx (eb_id h) (eb_amount h - take) EscrowHolding) (\<lambda>_.
               mergeLoop n org (remaining - take) (merged + take)) :: ('u, int) op) ?Q"
    if rem: "0 < remaining" for h
  proof (rule dbval_imp)
    fix d
    assume d: "?P d \<and> firstBy eb_seq (isBucket org EscrowHolding) (buckets d) = Some h"
    then have h: "h \<in> set (buckets d)" "eb_org h = org" "eb_status h = EscrowHolding"
      using firstBucket_Some by blast+
    have h0: "0 \<le> eb_amount h" using d h(1) by (auto simp: moneyGap_def moneyWf_def)
    define t where "t = (if eb_amount h > remaining then remaining else eb_amount h)"
    have t: "0 \<le> t" "t \<le> eb_amount h" using h0 rem by (auto simp: t_def)
    have upd: "(if t \<ge> eb_amount h then UpdateEscrowBucketTx (eb_id h) 0 EscrowMerged
                 else UpdateEscrowBucketTx (eb_id h) (eb_amount h - t) EscrowHolding)
        = UpdateEscrowBucketTx (eb_id h) (eb_amount h - t)
             (if t \<ge> eb_amount h then EscrowMerged else EscrowHolding)"
      using t by simp
    have give: "dbval ((=) d) (UpdateEscrowBucketTx (eb_id h) (eb_amount h - t)
             (if t \<ge> eb_amount h then EscrowMerged else EscrowHolding) :: ('u, unit) op)
        (\<lambda>_ d. moneyGap org (merged + t) d \<and> act \<in> set (buckets d))"
      using d h(1) by (intro dbval_pre[OF holding_give_gap[OF h(2,3) t HOL.refl act, of merged]]) blast
    have "0 \<le> merged + t" using Suc.prems t by simp
    then have "dbval ((=) d) (bind (UpdateEscrowBucketTx (eb_id h) (eb_amount h - t)
             (if t \<ge> eb_amount h then EscrowMerged else EscrowHolding)) (\<lambda>_.
          mergeLoop n org (remaining - t) (merged + t) :: ('u, int) op)) ?Q"
      by (intro dbval_bind[OF give] Suc.IH)
    then show "dbval ((=) d) (let take = (if eb_amount h > remaining then remaining else eb_amount h)
            in bind (if take \<ge> eb_amount h then UpdateEscrowBucketTx (eb_id h) 0 EscrowMerged
                     else UpdateEscrowBucketTx (eb_id h) (eb_amount h - take) EscrowHolding) (\<lambda>_.
               mergeLoop n org (remaining - take) (merged + take)) :: ('u, int) op) ?Q"
      unfolding Let_def t_def[symmetric] upd .
  qed
  have ret: "dbval ?P (return merged :: ('u, int) op) ?Q" using Suc.prems by (intro dbval_return) auto
  show ?case
    unfolding mergeLoop.simps(2) NextHoldingBucketTx_def
  proof (rule dbval_if)
    assume rem: "0 < remaining"
    show "dbval ?P (bind (attempt (getRow (\<lambda>d. firstBy eb_seq (isBucket org EscrowHolding) (buckets d)))) (\<lambda>r. case r of
          Inl e \<Rightarrow> if errorsIs e ErrNotFound then return merged else throw e
        | Inr h \<Rightarrow>
            let take = (if eb_amount h > remaining then remaining else eb_amount h)
            in bind (if take \<ge> eb_amount h then UpdateEscrowBucketTx (eb_id h) 0 EscrowMerged
                     else UpdateEscrowBucketTx (eb_id h) (eb_amount h - take) EscrowHolding) (\<lambda>_.
               mergeLoop n org (remaining - take) (merged + take))) :: ('u, int) op) ?Q"
      by (rule dbval_bind[OF dbval_attempt_getRow], split sum.split)
         (intro conjI allI impI dbval_if dbval_throw ret[THEN dbval_pre] step[OF rem, THEN dbval_pre]; simp)
  qed (rule ret)
qed

theorem MergeHoldingIntoActiveTx_gap:
  "dbval moneyInv (MergeHoldingIntoActiveTx org maxMerge) (\<lambda>m d. 0 \<le> m \<and> moneyInv d)"
proof -
  let ?Q = "\<lambda>m d. 0 \<le> m \<and> moneyInv d"
  have fin: "dbval (\<lambda>d. 0 \<le> m \<and> moneyGap org m d \<and> act \<in> set (buckets d))
      (if m > 0 then bind (UpdateEscrowBucketTx (eb_id act) (i64 (eb_amount act + m)) EscrowActive) (\<lambda>_. return m)
       else return m) ?Q" if a: "eb_org act = org" "eb_status act = EscrowActive" for act m
  proof (rule dbval_if)
    assume "m > 0"
    show "dbval (\<lambda>d. 0 \<le> m \<and> moneyGap org m d \<and> act \<in> set (buckets d))
        (bind (UpdateEscrowBucketTx (eb_id act) (i64 (eb_amount act + m)) EscrowActive) (\<lambda>_. return m)) ?Q"
    proof (rule dbval_bind[where R = "\<lambda>_. moneyInv"])
      show "dbval (\<lambda>d. 0 \<le> m \<and> moneyGap org m d \<and> act \<in> set (buckets d))
        (UpdateEscrowBucketTx (eb_id act) (i64 (eb_amount act + m)) EscrowActive) (\<lambda>_. moneyInv)"
        unfolding UpdateEscrowBucketTx_def
      proof (rule dbval_exec, elim conjE)
        fix d assume gap: "moneyGap org m d" and ad: "act \<in> set (buckets d)" and m: "0 \<le> m"
        have i: "i64 (eb_amount act + m) = eb_amount act + m"
          using bucket_fits[OF gap ad a(1) _ m] a(2) by (simp add: inEscrow_def)
        have "0 \<le> eb_amount act" using gap ad by (auto simp: moneyGap_def moneyWf_def)
        then have "moneyGap org (m + escrowPart org act
            - escrowPart org (act\<lparr>eb_amount := eb_amount act + m, eb_status := EscrowActive\<rparr>))
            (setBucket (eb_id act) (eb_amount act + m) EscrowActive d)"
          using m by (intro moneyGap_setBucket[OF gap ad a(1)]) simp
        moreover have "m + escrowPart org act
            - escrowPart org (act\<lparr>eb_amount := eb_amount act + m, eb_status := EscrowActive\<rparr>) = 0"
          using a by (simp add: escrowPart_def inEscrow_def)
        ultimately show "moneyInv (setBucket (eb_id act) (i64 (eb_amount act + m)) EscrowActive d)"
          by (simp only: i moneyGap_0)
      qed
    next
      show "dbval moneyInv (return m) ?Q" using \<open>m > 0\<close> by (intro dbval_return) auto
    qed
  qed (auto intro!: dbval_return simp: moneyGap_0 order_antisym_conv)
  have body: "dbval (\<lambda>d. moneyInv d \<and> firstBy eb_seq (isBucket org EscrowActive) (buckets d) = Some act)
      (bind (gets (\<lambda>w. holdingCount org (w_db w))) (\<lambda>n.
       bind (mergeLoop (n + 2) org maxMerge 0) (\<lambda>merged.
       if merged > 0
       then bind (UpdateEscrowBucketTx (eb_id act) (i64 (eb_amount act + merged)) EscrowActive) (\<lambda>_. return merged)
       else return merged))) ?Q" for act
  proof (rule dbval_imp)
    fix d assume d: "moneyInv d \<and> firstBy eb_seq (isBucket org EscrowActive) (buckets d) = Some act"
    then have a: "act \<in> set (buckets d)" "eb_org act = org" "eb_status act = EscrowActive"
      using firstBucket_Some by blast+
    have loop: "dbval (\<lambda>d'. d = d' \<and> n = holdingCount org d') (mergeLoop (n + 2) org maxMerge 0)
        (\<lambda>m d. 0 \<le> m \<and> moneyGap org m d \<and> act \<in> set (buckets d))" for n
      using d a(1) by (intro dbval_pre[OF mergeLoop_gap[OF a(3) order_refl]]) (auto simp: moneyGap_0)
    show "dbval ((=) d) (bind (gets (\<lambda>w. holdingCount org (w_db w))) (\<lambda>n.
       bind (mergeLoop (n + 2) org maxMerge 0) (\<lambda>merged.
       if merged > 0
       then bind (UpdateEscrowBucketTx (eb_id act) (i64 (eb_amount act + merged)) EscrowActive) (\<lambda>_. return merged)
       else return merged))) ?Q"
      by (rule dbval_bind[OF dbval_gets], rule dbval_bind[OF loop], rule fin[OF a(2,3)])
  qed
  have none: "dbval P (return (0 :: int)) ?Q" if "\<And>d. P d \<Longrightarrow> moneyInv d" for P
    using that by (intro dbval_return) simp
  show ?thesis
    unfolding MergeHoldingIntoActiveTx_def GetActiveEscrowBucketTx_def
    by (rule dbval_if, rule none, assumption, rule dbval_bind[OF dbval_attempt_getRow], split sum.split)
       (intro conjI allI impI dbval_if dbval_throw none body[THEN dbval_pre]; simp)
qed

text \<open>The refund takes from the holding buckets and then from the window.\<close>

definition holdingsOf :: "int \<Rightarrow> db \<Rightarrow> escrow_bucket list" where
  "holdingsOf org d = rev (sort_key eb_seq (filter (isBucket org EscrowHolding) (buckets d)))"

lemma set_holdingsOf: "set (holdingsOf org d) = {b \<in> set (buckets d). eb_org b = org \<and> eb_status b = EscrowHolding}"
  by (auto simp: holdingsOf_def isBucket_def)

lemma distinct_holdingsOf:
  assumes "distinct (map eb_id (buckets d))"
  shows "distinct (map eb_id (holdingsOf org d))"
proof -
  have "distinct (buckets d)" "inj_on eb_id (set (buckets d))"
    using assms by (simp_all add: distinct_map)
  moreover have "set (holdingsOf org d) \<subseteq> set (buckets d)" by (auto simp: set_holdingsOf)
  ultimately show ?thesis
    by (simp add: distinct_map holdingsOf_def inj_on_subset)
qed

lemma reduceHoldings_gap:
  assumes "0 \<le> remaining" "distinct (map eb_id hs)"
    "\<And>h. h \<in> set hs \<Longrightarrow> eb_org h = org \<and> eb_status h = EscrowHolding"
  shows "dbval (\<lambda>d. moneyGap org k d \<and> set hs \<subseteq> set (buckets d))
     (reduceHoldings hs remaining :: ('u, int) op)
     (\<lambda>rem d. 0 \<le> rem \<and> moneyGap org (k + remaining - rem) d)"
  using assms
proof (induction hs arbitrary: remaining k)
  case Nil
  then show ?case by (auto intro!: dbval_return)
next
  case (Cons h hs)
  define dec where "dec = (if remaining > eb_amount h then eb_amount h else remaining)"
  define st where "st = (if eb_amount h - dec = 0 then EscrowMerged else EscrowHolding)"
  have h: "eb_org h = org" "eb_status h = EscrowHolding" using Cons.prems(3) by auto
  have upd: "dbval (\<lambda>d. moneyGap org k d \<and> set (h # hs) \<subseteq> set (buckets d))
      (UpdateEscrowBucketTx (eb_id h) (eb_amount h - dec) st :: ('u, unit) op)
      (\<lambda>_ d. moneyGap org (k + dec) d \<and> set hs \<subseteq> set (buckets d) \<and> 0 \<le> remaining - dec)"
    unfolding UpdateEscrowBucketTx_def
  proof (rule dbval_exec, elim conjE, intro conjI)
    fix d assume gap: "moneyGap org k d" and sub: "set (h # hs) \<subseteq> set (buckets d)"
    have hd: "h \<in> set (buckets d)" using sub by simp
    have 0: "0 \<le> eb_amount h" using gap hd by (auto simp: moneyGap_def moneyWf_def)
    have "escrowPart org h - escrowPart org (h\<lparr>eb_amount := eb_amount h - dec, eb_status := st\<rparr>) = dec"
      using h by (auto simp: escrowPart_def inEscrow_def st_def)
    then show "moneyGap org (k + dec) (setBucket (eb_id h) (eb_amount h - dec) st d)"
      using moneyGap_setBucket[OF gap hd h(1), of "eb_amount h - dec" st]
      by (simp add: algebra_simps dec_def)
    show "set hs \<subseteq> set (buckets (setBucket (eb_id h) (eb_amount h - dec) st d))"
    proof
      fix x assume x: "x \<in> set hs"
      then have "eb_id x \<in> eb_id ` set hs" by simp
      then have "eb_id x \<noteq> eb_id h" using Cons.prems(2) by auto
      then show "x \<in> set (buckets (setBucket (eb_id h) (eb_amount h - dec) st d))"
        using setBucket_other sub x by (metis list.set_intros(2) subset_iff)
    qed
    show "0 \<le> remaining - dec" using Cons.prems(1) by (simp add: dec_def)
  qed
  have rest: "dbval (\<lambda>d. moneyGap org (k + dec) d \<and> set hs \<subseteq> set (buckets d) \<and> 0 \<le> remaining - dec)
      (reduceHoldings hs (remaining - dec) :: ('u, int) op)
      (\<lambda>rem d. 0 \<le> rem \<and> moneyGap org (k + remaining - rem) d)"
  proof (cases "0 \<le> remaining - dec")
    case True
    have "dbval (\<lambda>d. moneyGap org (k + dec) d \<and> set hs \<subseteq> set (buckets d))
       (reduceHoldings hs (remaining - dec) :: ('u, int) op)
       (\<lambda>rem d. 0 \<le> rem \<and> moneyGap org (k + dec + (remaining - dec) - rem) d)"
      using Cons.prems by (intro Cons.IH[OF True]) auto
    then show ?thesis by (auto elim!: dbval_mono)
  qed (simp add: dbval_def)
  show ?case
    unfolding reduceHoldings.simps Let_def dec_def[symmetric] st_def[symmetric]
  proof (rule dbval_if)
    assume "remaining \<le> 0"
    then show "dbval (\<lambda>d. moneyGap org k d \<and> set (h # hs) \<subseteq> set (buckets d)) (return remaining :: ('u, int) op)
        (\<lambda>rem d. 0 \<le> rem \<and> moneyGap org (k + remaining - rem) d)"
      using Cons.prems(1) by (auto intro!: dbval_return)
  qed (rule dbval_bind[OF upd], rule rest)
qed

theorem ReduceEscrowTx_gap:
  assumes "0 \<le> amount"
  shows "dbval (moneyGap org k) (ReduceEscrowTx org amount :: ('u, int) op)
     (\<lambda>dec d. 0 \<le> dec \<and> moneyGap org (k + amount) d)"
proof -
  let ?Q = "\<lambda>dec d. 0 \<le> dec \<and> moneyGap org (k + amount) d"
  have window: "dbval (\<lambda>d. (0 \<le> rem \<and> moneyGap org (k + amount - rem) d)
        \<and> firstBy eb_seq (isBucket org EscrowActive) (buckets d) = Some act)
      (let dec = (if rem > eb_amount act then eb_amount act else rem)
           in bind (UpdateEscrowBucketTx (eb_id act) (eb_amount act - dec) EscrowActive) (\<lambda>_.
              if rem - dec > 0 then throw ErrInsufficientBalance else return dec) :: ('u, int) op) ?Q"
    for rem act
  proof (rule dbval_imp)
    fix d assume d: "(0 \<le> rem \<and> moneyGap org (k + amount - rem) d)
        \<and> firstBy eb_seq (isBucket org EscrowActive) (buckets d) = Some act"
    then have a: "act \<in> set (buckets d)" "eb_org act = org" "eb_status act = EscrowActive"
      using firstBucket_Some by blast+
    define dec where "dec = (if rem > eb_amount act then eb_amount act else rem)"
    have 0: "0 \<le> eb_amount act" using d a(1) by (auto simp: moneyGap_def moneyWf_def)
    have dec: "0 \<le> dec" "dec \<le> eb_amount act" "dec \<le> rem" using d 0 by (auto simp: dec_def)
    have upd: "dbval ((=) d) (UpdateEscrowBucketTx (eb_id act) (eb_amount act - dec) EscrowActive :: ('u, unit) op)
        (\<lambda>_. moneyGap org (k + amount - (rem - dec)))"
      unfolding UpdateEscrowBucketTx_def
    proof (rule dbval_exec, elim subst[of d])
      have e: "k + amount - rem + escrowPart org act
          - escrowPart org (act\<lparr>eb_amount := eb_amount act - dec, eb_status := EscrowActive\<rparr>)
          = k + amount - (rem - dec)"
        using a by (simp add: escrowPart_def inEscrow_def)
      have "0 \<le> eb_amount act - dec" "moneyGap org (k + amount - rem) d" using d dec by auto
      then show "moneyGap org (k + amount - (rem - dec)) (setBucket (eb_id act) (eb_amount act - dec) EscrowActive d)"
        using moneyGap_setBucket[of org "k + amount - rem" d act "eb_amount act - dec" EscrowActive, unfolded e]
          a(1,2) by blast
    qed
    show "dbval ((=) d) (let dec = (if rem > eb_amount act then eb_amount act else rem)
           in bind (UpdateEscrowBucketTx (eb_id act) (eb_amount act - dec) EscrowActive) (\<lambda>_.
              if rem - dec > 0 then throw ErrInsufficientBalance else return dec) :: ('u, int) op) ?Q"
      unfolding Let_def dec_def[symmetric]
    proof (rule dbval_bind[OF upd], rule dbval_if, rule dbval_throw)
      assume "\<not> rem - dec > 0"
      then have "rem - dec = 0" using dec(3) by simp
      then show "dbval (moneyGap org (k + amount - (rem - dec))) (return dec :: ('u, int) op) ?Q"
        using dec(1) by (auto intro!: dbval_return)
    qed
  qed
  have tail: "dbval (\<lambda>d. 0 \<le> rem \<and> moneyGap org (k + amount - rem) d)
     (if rem > 0 then
       bind (attempt (GetActiveEscrowBucketTx org)) (\<lambda>ar. case ar of
         Inl e \<Rightarrow> if errorsIs e ErrNotFound then throw ErrInsufficientBalance else throw e
       | Inr active \<Rightarrow>
           let dec = (if rem > eb_amount active then eb_amount active else rem)
           in bind (UpdateEscrowBucketTx (eb_id active) (eb_amount active - dec) EscrowActive) (\<lambda>_.
              if rem - dec > 0 then throw ErrInsufficientBalance else return dec))
     else return 0 :: ('u, int) op) ?Q" for rem
    unfolding GetActiveEscrowBucketTx_def
  proof (rule dbval_if, rule dbval_bind[OF dbval_attempt_getRow], split sum.split,
      intro conjI allI impI dbval_if dbval_throw)
    fix x1 :: "err + escrow_bucket" and x2 assume "x1 = Inr x2"
    then show "dbval (\<lambda>d. (0 \<le> rem \<and> moneyGap org (k + amount - rem) d) \<and>
        (case x1 of Inl e \<Rightarrow> errorsIs e ErrNotFound \<longrightarrow> firstBy eb_seq (isBucket org EscrowActive) (buckets d) = None
         | Inr a \<Rightarrow> firstBy eb_seq (isBucket org EscrowActive) (buckets d) = Some a))
      (let dec = (if rem > eb_amount x2 then eb_amount x2 else rem)
           in bind (UpdateEscrowBucketTx (eb_id x2) (eb_amount x2 - dec) EscrowActive) (\<lambda>_.
              if rem - dec > 0 then throw ErrInsufficientBalance else return dec) :: ('u, int) op) ?Q"
      by (intro window[THEN dbval_pre]) simp
  next
    assume "\<not> rem > 0"
    then show "dbval (\<lambda>d. 0 \<le> rem \<and> moneyGap org (k + amount - rem) d) (return 0 :: ('u, int) op) ?Q"
      by (intro dbval_return) (auto simp: order_antisym_conv)
  qed
  have loop: "dbval (\<lambda>d. moneyGap org k d \<and> hs = holdingsOf org d) (reduceHoldings hs amount :: ('u, int) op)
     (\<lambda>rem d. 0 \<le> rem \<and> moneyGap org (k + amount - rem) d)" for hs
  proof (rule dbval_imp, elim conjE)
    fix d assume "moneyGap org k d" "hs = holdingsOf org d"
    then show "dbval ((=) d) (reduceHoldings hs amount :: ('u, int) op)
        (\<lambda>rem d. 0 \<le> rem \<and> moneyGap org (k + amount - rem) d)"
      by (intro dbval_pre[OF reduceHoldings_gap[OF assms]])
         (auto simp: set_holdingsOf moneyGap_def moneyWf_def intro: distinct_holdingsOf)
  qed
  show ?thesis
    unfolding ReduceEscrowTx_def holdingsOf_def[symmetric]
    by (rule dbval_bind[OF dbval_query], rule dbval_bind[OF loop], rule tail)
qed

end
