(* ===== verification/Escrow.thy ===== *)
theory Escrow
  imports Settlement MoneyInvariant
begin

text \<open>
  The escrow service (\<open>service/escrow.go\<close>): a recharge fills the spending window (bucket 1,
  mirrored in the upstream user's quota) up to a cap and parks the rest in holding buckets;
  refills move holding quota into the window; the reconciliation only takes away from the
  upstream window what the platform's books do not grant.
\<close>

section \<open>Constants\<close>

definition escrowLockKey :: "int \<Rightarrow> string" where
  "escrowLockKey org = ''escrow:org:'' @ itoa org"

definition escrowWindowCap :: int where "escrowWindowCap = 2000000000"
definition escrowDefaultThreshold :: int where "escrowDefaultThreshold = 100000000"
definition escrowFloor :: int where "escrowFloor = 25000000"
definition escrowCeil :: int where "escrowCeil = 1000000000"
definition escrowDefaultNew :: int where "escrowDefaultNew = 50000000"

lemmas escrow_consts = escrowWindowCap_def escrowDefaultThreshold_def escrowFloor_def escrowCeil_def
  escrowDefaultNew_def

section \<open>Reading the window\<close>

record derived_balance =
  db_window :: int
  db_holding :: int
  db_available :: int

definition GetDerivedBalance :: "'u service \<Rightarrow> claims \<Rightarrow> int \<Rightarrow> ('u, derived_balance) op" where
  "GetDerivedBalance S c org =
     bind (assertOrgScope c org) (\<lambda>_.
     bind (assertRole c [RoleOperator]) (\<lambda>_.
     bind (mapErr internal (GetOrgNewapiCred org)) (\<lambda>cr.
     bind (case cr of None \<Rightarrow> return 0
           | Some (uid, _) \<Rightarrow> mapErr mapUpstream (upcall (na_GetUserQuota (sv_up S) uid))) (\<lambda>window.
     bind (mapErr internal (SumHoldingEscrow org)) (\<lambda>hold.
     return \<lparr> db_window = window, db_holding = hold, db_available = i64 (window + hold) \<rparr>)))))"

section \<open>Recharge\<close>

text \<open>What fits into the window: not more than the amount or the space, not negative.\<close>

definition fitOf :: "int \<Rightarrow> int \<Rightarrow> int" where
  "fitOf amount window =
     (let space = i64 (escrowWindowCap - window);
          f = (if amount > space then space else amount)
      in if f < 0 then 0 else f)"

text \<open>The transaction of \<open>applyRecharge\<close>.\<close>

definition rechargeTx :: "int \<Rightarrow> recharge \<Rightarrow> int \<Rightarrow> ('u, balance) op" where
  "rechargeTx org r fit =
     (let remainder = i64 (r_amount r - fit)
      in bind (AddRechargeTx r) (\<lambda>bal.
         bind (attempt (GetActiveEscrowBucketTx org)) (\<lambda>ar.
         let firstTime = (case ar of Inl e \<Rightarrow> errorsIs e ErrNotFound | Inr _ \<Rightarrow> False)
         in bind (case ar of
                Inl e \<Rightarrow> if firstTime then bind (CreateEscrowBucketTx org 1 fit EscrowActive escrowDefaultThreshold) (\<lambda>_. return ())
                         else throw e
              | Inr a \<Rightarrow> UpdateEscrowBucketTx (eb_id a) (i64 (eb_amount a + fit)) EscrowActive) (\<lambda>_.
            bind (if remainder > 0 then
                    bind (MaxEscrowSeqTx org) (\<lambda>maxSeq.
                    bind (CreateEscrowBucketTx org (if firstTime then 2 else maxSeq + 1) remainder EscrowHolding escrowDefaultThreshold) (\<lambda>_.
                    return ()))
                  else return ()) (\<lambda>_. return bal)))))"

definition passConflict :: "err \<Rightarrow> err" where
  "passConflict e = (if errorsIs e ErrConflict \<or> errorsIs e ErrOptimisticLock then e else internal e)"

definition applyRecharge :: "'u service \<Rightarrow> int \<Rightarrow> recharge \<Rightarrow> ('u, balance) op" where
  "applyRecharge S org r =
     bind (mapErr internal (GetOrganization org)) (\<lambda>o'.
     bind (EnsureOrgProvisioned S org (o_name o')) (\<lambda>cred.
     withLock internal (escrowLockKey org) (
     bind (mapErr mapUpstream (upcall (na_GetUserQuota (sv_up S) (cr_user cred)))) (\<lambda>window.
     let fit = fitOf (r_amount r) window
     in bind (mapErr passConflict (WithTx (rechargeTx org r fit))) (\<lambda>bal.
        bind (guard_when (fit > 0 \<and> \<not> i64 (window + fit) > escrowWindowCap)
                (ignoreErr (upcall (na_ManageUserQuota (sv_up S) (cr_user cred) QuotaAdd fit)))) (\<lambda>_.
        return bal)))))) "

section \<open>Refill\<close>

definition refillToWindow :: "'u service \<Rightarrow> int \<Rightarrow> int \<Rightarrow> ('u, int) op" where
  "refillToWindow S org trigger =
     bind (orgCred S org) (\<lambda>cred.
     withLock internal (escrowLockKey org) (
     bind (mapErr mapUpstream (upcall (na_GetUserQuota (sv_up S) (cr_user cred)))) (\<lambda>window.
     if window \<ge> trigger then return 0
     else let space = i64 (escrowWindowCap - window)
     in if space \<le> 0 then return 0
     else
     bind (mapErr internal (WithTx (MergeHoldingIntoActiveTx org space))) (\<lambda>merged.
     bind (guard_when (merged > 0)
             (ignoreErr (upcall (na_ManageUserQuota (sv_up S) (cr_user cred) QuotaAdd merged)))) (\<lambda>_.
     return merged)))))"

definition RefillWindow :: "'u service \<Rightarrow> claims \<Rightarrow> int \<Rightarrow> ('u, derived_balance) op" where
  "RefillWindow S c org =
     (if \<not> sv_funding S then throw NotFound
      else
      bind (assertOrgScope c org) (\<lambda>_.
      bind (assertRole c [RoleOperator]) (\<lambda>_.
      bind (refillToWindow S org escrowWindowCap) (\<lambda>merged.
      bind (guard_when (merged > 0) (audit c org ''escrow_refill_manual'' ''balance'' (Some org) [(''merged'', JInt merged)])) (\<lambda>_.
      GetDerivedBalance S c org)))))"

section \<open>The refill threshold\<close>

definition escrowThreshold :: "int \<Rightarrow> ('u, int) op" where
  "escrowThreshold org =
     bind (attempt (GetEscrowConfig org)) (\<lambda>r. case r of
       Inr cfg \<Rightarrow> return (EffectiveThreshold cfg)
     | Inl e \<Rightarrow> if errorsIs e ErrNotFound then return escrowDefaultNew else throw e)"

text \<open>
  \<open>int64(float64(peakHourly) * 0.5 * 1.5)\<close>: the product with 0.5 is exact, the one with 1.5
  rounds; with \<open>p = float64(peakHourly)\<close> the value is three \<open>p\<close>, rounded, over four.
\<close>

definition leadMargin :: "int \<Rightarrow> int" where
  "leadMargin peakHourly =
     (let p3 = toFloat (3 * toFloat peakHourly) in if p3 < 0 then - ((- p3) div 4) else p3 div 4)"

definition computeAutoThreshold :: "int \<Rightarrow> int \<Rightarrow> bool \<Rightarrow> int \<times> bool" where
  "computeAutoThreshold peakHourly maxSingle hasHistory =
     (if \<not> hasHistory then (escrowDefaultNew, False)
      else let raw = i64 (leadMargin peakHourly + maxSingle);
               lo = (if raw < escrowFloor then escrowFloor else raw)
           in (if lo > escrowCeil then escrowCeil else lo, raw > escrowCeil))"

definition recomputeThresholdAuto :: "int \<Rightarrow> ('u, unit) op" where
  "recomputeThresholdAuto org =
     bind clock (\<lambda>now.
     let windowStart = now - 7 * dayNs
     in bind (EscrowUsageStats org windowStart) (\<lambda>(peakHourly, maxSingle, earliest).
        let hasHistory = (case earliest of None \<Rightarrow> False | Some t \<Rightarrow> \<not> t > windowStart)
        in UpsertThresholdAuto org (fst (computeAutoThreshold peakHourly maxSingle hasHistory))))"

section \<open>The refill worker\<close>

definition autoRefillOrg :: "'u service \<Rightarrow> int \<Rightarrow> ('u, unit) op" where
  "autoRefillOrg S org =
     bind (attempt (GetEscrowConfig org)) (\<lambda>cr.
     bind (case cr of
             Inl e \<Rightarrow> if errorsIs e ErrNotFound then ignoreErr (recomputeThresholdAuto org) else throw e
           | Inr cfg \<Rightarrow> bind clock (\<lambda>now.
               guard_when (subTime now (ec_updated cfg) > 20 * hourNs) (ignoreErr (recomputeThresholdAuto org)))) (\<lambda>_.
     bind (escrowThreshold org) (\<lambda>threshold.
     bind (refillToWindow S org threshold) (\<lambda>_. return ()))))"

definition AutoRefill :: "'u service \<Rightarrow> ('u, unit) op" where
  "AutoRefill S =
     (if \<not> sv_funding S then return ()
      else bind ListEscrowOrgIDs (\<lambda>ids. foreach ids (\<lambda>org. ignoreErr (autoRefillOrg S org))))"

section \<open>Reconciliation\<close>

text \<open>The window the books grant: released minus consumed since the baseline, not negative.\<close>

definition windowTarget :: "int \<Rightarrow> int \<Rightarrow> int \<Rightarrow> int" where
  "windowTarget released consumed baseline =
     (let t = i64 (released - i64 (consumed - baseline)) in if t < 0 then 0 else t)"

text \<open>\<open>float64(delta) > float64(actual) * 0.2\<close>, with 0.2 the nearest \<open>float64\<close>.\<close>

definition largeCorrection :: "int \<Rightarrow> int \<Rightarrow> bool" where
  "largeCorrection actual delta \<longleftrightarrow> actual > 0 \<and>
     (let lim = fl (toFloat actual * 3602879701896397, 18014398509481984)
      in toFloat delta * snd lim > fst lim)"

text \<open>The window comparison: taken away when above the target, never added below it.\<close>

definition correctWindow :: "'u service \<Rightarrow> int \<Rightarrow> int \<Rightarrow> int \<Rightarrow> int \<Rightarrow> ('u, unit) op" where
  "correctWindow S org uid target actual =
     (if actual > target then
        (let delta = i64 (actual - target)
         in bind (guard_when (largeCorrection actual delta)
                   (auditSystem org ''escrow_large_correction'' ''balance'' (Some org)
                     [(''actual'', JInt actual), (''target'', JInt target), (''delta'', JInt delta)] ''alert'')) (\<lambda>_.
            mapErr mapUpstream (upcall (na_ManageUserQuota (sv_up S) uid QuotaSubtract delta))))
      else return ())"

definition reconcileOrgEscrow :: "'u service \<Rightarrow> int \<Rightarrow> ('u, unit) op" where
  "reconcileOrgEscrow S org =
     withLock id (escrowLockKey org) (
     bind (GetOrgNewapiCred org) (\<lambda>cr. case cr of
       None \<Rightarrow> return ()
     | Some (uid, _) \<Rightarrow>
     bind (attempt (GetActiveEscrowBucket org)) (\<lambda>ar.
     bind (case ar of Inr a \<Rightarrow> return (eb_amount a)
           | Inl e \<Rightarrow> if errorsIs e ErrNotFound then return 0 else throw e) (\<lambda>released.
     bind (SumOrgConsumed org) (\<lambda>consumed.
     bind (attempt (GetEscrowConfig org)) (\<lambda>cfgr.
     bind (case cfgr of
             Inl e \<Rightarrow> if errorsIs e ErrNotFound
                      then bind (SetEscrowConsumedBaseline org consumed) (\<lambda>_. return consumed) else throw e
           | Inr cfg \<Rightarrow> (case ec_baseline cfg of Some b \<Rightarrow> return b
               | None \<Rightarrow> bind (SetEscrowConsumedBaseline org consumed) (\<lambda>_. return consumed))) (\<lambda>baseline.
     bind (mapErr mapUpstream (upcall (na_GetUserQuota (sv_up S) uid))) (\<lambda>actual.
     bind (correctWindow S org uid (windowTarget released consumed baseline) actual) (\<lambda>_.
     bind (SumHoldingEscrow org) (\<lambda>_.
     bind (GetOrCreateBalance org) (\<lambda>_. return ())))))))))))"

definition ReconcileEscrow :: "'u service \<Rightarrow> ('u, unit) op" where
  "ReconcileEscrow S =
     (if \<not> sv_funding S then return ()
      else if \<not> sv_leader S then return ()
      else
      bind (ignoreErr (RunSettlement S)) (\<lambda>_.
      bind ListEscrowOrgIDs (\<lambda>ids. foreach ids (\<lambda>org. ignoreErr (reconcileOrgEscrow S org)))))"

end
