(* ===== verification/Billing.thy ===== *)
theory Billing
  imports Escrow
begin

text \<open>
  The billing use cases (\<open>service/billing.go\<close>): recharge and refund by the operator, the
  customer's balance, recharge requests and the billing settings of an organization.
\<close>

section \<open>Recharge and refund\<close>

definition requireOrg :: "int \<Rightarrow> ('u, organization) op" where
  "requireOrg org = mapErr notFoundOrInternal (GetOrganization org)"

definition rechargeErr :: "err \<Rightarrow> err" where
  "rechargeErr e = (if errorsIs e ErrConflict then Conflict
     else if errorsIs e ErrOptimisticLock then OptimisticLock else e)"

definition Recharge :: "'u service \<Rightarrow> claims \<Rightarrow> int \<Rightarrow> int \<Rightarrow> string \<Rightarrow> int option \<Rightarrow> string \<Rightarrow> ('u, balance) op" where
  "Recharge S c org amount transfer_no cny note =
     (if \<not> sv_funding S then throw NotFound
      else
      bind (assertRole c [RoleOperator]) (\<lambda>_.
      if amount \<le> 0 then throw InvalidParam
      else if transfer_no = '''' then throw InvalidParam
      else
      bind (checkLen transfer_no maxTransferNoLen) (\<lambda>_.
      bind (checkText note maxNoteLen) (\<lambda>_.
      bind (requireOrg org) (\<lambda>_.
      bind (mapErr rechargeErr (applyRecharge S org \<lparr> r_org = org, r_amount = amount, r_amount_cny = cny,
              r_transfer_no = transfer_no, r_operator = actorOf c, r_note = optStr note \<rparr>)) (\<lambda>bal.
      bind (ignoreErr (recomputeOrgStatus S org bal)) (\<lambda>_.
      bind (audit c org ''recharge'' ''balance'' (Some org) [(''amount'', JInt amount),
              (''transfer_no'', JStr transfer_no), (''balance_after'', JInt (b_balance bal))]) (\<lambda>_.
      return bal))))))))"

text \<open>The transaction of \<open>DebitBalance\<close>: the refund journal and the escrow reduction.\<close>

definition debitTx :: "int \<Rightarrow> int \<Rightarrow> string \<Rightarrow> string \<Rightarrow> ('u, balance \<times> int) op" where
  "debitTx org amount reason operator =
     bind (DebitBalanceTx org amount reason operator) (\<lambda>bal.
     bind (ReduceEscrowTx org amount) (\<lambda>windowDec. return (bal, windowDec)))"

definition debitErr :: "err \<Rightarrow> err" where
  "debitErr e = (if errorsIs e ErrInsufficientBalance then InvalidParam
     else if errorsIs e ErrNotFound then NotFound
     else if errorsIs e ErrOptimisticLock then OptimisticLock else internal e)"

definition DebitBalance :: "'u service \<Rightarrow> claims \<Rightarrow> int \<Rightarrow> int \<Rightarrow> string \<Rightarrow> ('u, balance) op" where
  "DebitBalance S c org amount reason =
     (if \<not> sv_funding S then throw NotFound
      else
      bind (assertRole c [RoleOperator]) (\<lambda>_.
      if amount \<le> 0 then throw InvalidParam
      else if reason = '''' then throw InvalidParam
      else
      bind (checkText reason maxNoteLen) (\<lambda>_.
      bind (mapErr internal (GetOrgNewapiCred org)) (\<lambda>cr. case cr of
        None \<Rightarrow> throw InvalidParam
      | Some (uid, _) \<Rightarrow>
      withLock internal (escrowLockKey org) (
      bind (mapErr debitErr (WithTx (debitTx org amount reason (actorOf c)))) (\<lambda>(bal, windowDec).
      bind (guard_when (windowDec > 0)
              (ignoreErr (upcall (na_ManageUserQuota (sv_up S) uid QuotaSubtract windowDec)))) (\<lambda>_.
      bind (ignoreErr (recomputeOrgStatus S org bal)) (\<lambda>_.
      bind (audit c org ''refund_debit'' ''balance'' (Some org) [(''amount'', JInt amount),
              (''reason'', JStr reason), (''balance_after'', JInt (b_balance bal))]) (\<lambda>_.
      return bal)))))))))"

section \<open>Reading\<close>

definition GetBalance :: "'u service \<Rightarrow> claims \<Rightarrow> int \<Rightarrow> ('u, int \<times> billing_kind) op" where
  "GetBalance S c org =
     bind (assertOrgScope c org) (\<lambda>_.
     bind (assertRole c [RoleOperator, RoleOrgAdmin]) (\<lambda>_.
     bind (requireOrg org) (\<lambda>o'.
     if o_billing_kind o' = BillingKindSub then return (0, BillingKindSub)
     else
     bind (mapErr internal (GetOrgNewapiCred org)) (\<lambda>cr.
     bind (case cr of None \<Rightarrow> return 0
           | Some (uid, _) \<Rightarrow> mapErr mapUpstream (upcall (na_GetUserQuota (sv_up S) uid))) (\<lambda>window.
     bind (mapErr internal (SumHoldingEscrow org)) (\<lambda>hold.
     let avail = i64 (window + hold)
     in return (if avail < 0 then 0 else avail, BillingKindWallet)))))))"

text \<open>\<open>ListRecharges\<close> resolves each operator string to a name, with a cache per member.\<close>

definition operatorName :: "recharge \<Rightarrow> (int \<rightharpoonup> string) \<times> (recharge \<times> string) list \<Rightarrow> ('u, (int \<rightharpoonup> string) \<times> (recharge \<times> string) list) op" where
  "operatorName r acc =
     (case acc of (cache, out) \<Rightarrow>
        (case parseActorID (r_operator r) of
           None \<Rightarrow> return (cache, out @ [(r, '''')])
         | Some i \<Rightarrow>
             (case cache i of
                Some n \<Rightarrow> return (cache, out @ [(r, n)])
              | None \<Rightarrow> bind (attempt (GetMemberNameByID i)) (\<lambda>nr.
                  let n = (case nr of Inr n \<Rightarrow> n | Inl _ \<Rightarrow> '''')
                  in return (cache(i \<mapsto> n), out @ [(r, n)])))))"

definition ListRecharges :: "'u service \<Rightarrow> claims \<Rightarrow> int \<Rightarrow> nat \<Rightarrow> nat \<Rightarrow> ('u, (recharge \<times> string) list \<times> nat) op" where
  "ListRecharges S c org limit offset =
     (if \<not> sv_funding S then throw NotFound
      else
      bind (assertOrgScope c org) (\<lambda>_.
      bind (assertRole c [RoleOperator, RoleOrgAdmin]) (\<lambda>_.
      bind (ListRechargesRepo org limit offset) (\<lambda>(recs, total).
      bind (foldM operatorName recs (Map.empty, [])) (\<lambda>(_, out). return (out, total))))))"

section \<open>Requests\<close>

definition RequestRecharge :: "'u service \<Rightarrow> claims \<Rightarrow> int \<Rightarrow> string \<Rightarrow> int \<Rightarrow> string \<Rightarrow> ('u, recharge_request) op" where
  "RequestRecharge S c org ty amount note =
     (if \<not> sv_funding S then throw NotFound
      else
      bind (assertOrgScope c org) (\<lambda>_.
      bind (assertRole c [RoleOrgAdmin]) (\<lambda>_.
      if ty \<noteq> ''topup'' \<and> ty \<noteq> ''refund'' then throw InvalidParam
      else if amount \<le> 0 then throw InvalidParam
      else
      bind (if ty = ''refund'' then
              bind (mapErr internal (GetOrCreateBalance org)) (\<lambda>b.
              if amount > b_balance b then throw InvalidParam else return ())
            else return ()) (\<lambda>_.
      bind (checkText note maxNoteLen) (\<lambda>_.
      bind (mapErr internal (CreateRechargeRequest org ty amount (optStr note) (actorOf c))) (\<lambda>i.
      bind (audit c org (if ty = ''refund'' then ''request_refund'' else ''request_topup'') ''balance'' (Some org)
              [(''amount'', JInt amount)]) (\<lambda>_.
      bind (attempt (ListRechargeRequestsRepo org 1 0)) (\<lambda>lr. case lr of
        Inr (r # _, _) \<Rightarrow> return r
      | _ \<Rightarrow> return \<lparr> rq_id = i, rq_org = org, rq_type = ty, rq_amount = amount, rq_note = None, rq_applicant = '''' \<rparr>))))))))"

definition ListRechargeRequests :: "'u service \<Rightarrow> claims \<Rightarrow> int \<Rightarrow> nat \<Rightarrow> nat \<Rightarrow> ('u, recharge_request list \<times> nat) op" where
  "ListRechargeRequests S c org limit offset =
     (if \<not> sv_funding S then throw NotFound
      else
      bind (assertOrgScope c org) (\<lambda>_.
      bind (assertRole c [RoleOperator, RoleOrgAdmin]) (\<lambda>_.
      ListRechargeRequestsRepo org limit offset)))"

section \<open>Settings\<close>

definition GetBillingSettings :: "'u service \<Rightarrow> claims \<Rightarrow> int \<Rightarrow> ('u, bool \<times> bool \<times> int) op" where
  "GetBillingSettings S c org =
     bind (assertOrgScope c org) (\<lambda>_.
     bind (assertRole c [RoleOperator, RoleOrgAdmin]) (\<lambda>_.
     bind (mvpHidePrice S c) (\<lambda>_.
     bind (mapErr internal (GetOrgBillingFlags org)) (\<lambda>(billing, hard).
     bind (mapErr internal (GetOrCreateBalance org)) (\<lambda>b.
     return (billing, hard, b_low_watermark b))))))"

definition optVal :: "('a \<Rightarrow> jval) \<Rightarrow> 'a option \<Rightarrow> jval" where
  "optVal f v = (case v of None \<Rightarrow> JNull | Some a \<Rightarrow> f a)"

definition SetBillingSettings :: "'u service \<Rightarrow> claims \<Rightarrow> int \<Rightarrow> bool option \<Rightarrow> bool option \<Rightarrow> int option \<Rightarrow> ('u, bool \<times> bool \<times> int) op" where
  "SetBillingSettings S c org billing hard watermark =
     bind (assertRole c [RoleOperator]) (\<lambda>_.
     bind (requireOrg org) (\<lambda>_.
     bind (mapErr internal (SetOrgBillingFlags org billing hard)) (\<lambda>_.
     bind (case watermark of None \<Rightarrow> return ()
           | Some l \<Rightarrow> if l < 0 then throw InvalidParam else mapErr internal (SetLowWatermark org l)) (\<lambda>_.
     bind (audit c org ''set_billing_settings'' ''organization'' (Some org)
             [(''billing_enabled'', optVal JBool billing), (''hard_stop_enabled'', optVal JBool hard),
              (''low_watermark'', optVal JInt watermark)]) (\<lambda>_.
     GetBillingSettings S c org)))))"

end
