(* ===== verification/Reconcile.thy ===== *)
theory Reconcile
  imports Settlement
begin

text \<open>
  The read-only reconciliations of \<open>service/settlement.go\<close>: logs against ledger for the last full
  hour, deducted balances against the ledger, and the retention of the detail rows.
\<close>

section \<open>Logs against ledger\<close>

record recon =
  rc_by_org :: "(int \<times> int) list"
  rc_members :: "int \<rightharpoonup> int option"
  rc_flags :: "int \<rightharpoonup> bool"

text \<open>The accumulated sum of an organization; a new organization goes to the end.\<close>

definition bump :: "int \<Rightarrow> int \<Rightarrow> (int \<times> int) list \<Rightarrow> (int \<times> int) list" where
  "bump org q xs = (if org \<in> fst ` set xs then map (\<lambda>(o', n). if o' = org then (o', i64 (n + q)) else (o', n)) xs
                    else xs @ [(org, q)])"

text \<open>
  \<open>memberCache\<close> holds the member's organization, or \<open>None\<close> for a token that is not the
  platform's (Go stores an empty member).  A member whose identifier is 0 is skipped as well.
\<close>

definition reconFlag :: "int \<Rightarrow> log_entry \<Rightarrow> recon \<Rightarrow> ('u, recon) op" where
  "reconFlag org e rc =
     bind (case rc_flags rc org of Some b \<Rightarrow> return (b, rc)
           | None \<Rightarrow> bind (GetOrgBillingFlags org) (\<lambda>(b, _).
               return (b, rc\<lparr>rc_flags := (rc_flags rc)(org \<mapsto> b)\<rparr>))) (\<lambda>(billing, rc').
     return (if billing then rc'\<lparr>rc_by_org := bump org (e_quota e) (rc_by_org rc')\<rparr> else rc'))"

definition reconIngest :: "log_entry \<Rightarrow> recon \<Rightarrow> ('u, recon) op" where
  "reconIngest e rc =
     (if e_quota e \<le> 0 then return rc
      else case rc_members rc (e_token e) of
        Some None \<Rightarrow> return rc
      | Some (Some org) \<Rightarrow> reconFlag org e rc
      | None \<Rightarrow>
          bind (mapErr internal (GetMemberByNewapiTokenID (e_token e))) (\<lambda>r. case r of
            None \<Rightarrow> return (rc\<lparr>rc_members := (rc_members rc)(e_token e \<mapsto> None)\<rparr>)
          | Some (m, _) \<Rightarrow>
              if m_id m = 0 then return (rc\<lparr>rc_members := (rc_members rc)(e_token e \<mapsto> None)\<rparr>)
              else reconFlag (m_org m) e (rc\<lparr>rc_members := (rc_members rc)(e_token e \<mapsto> Some (m_org m))\<rparr>)))"

function reconSubEnd :: "'u service \<Rightarrow> int \<Rightarrow> int \<Rightarrow> ('u, int) op" where
  "reconSubEnd S sub subEnd =
     bind (readLogs S sub subEnd 1) (\<lambda>(_, total).
     if total \<le> int settlementMaxPages * 100 then return subEnd
     else if subEnd \<le> sub then return subEnd
     else reconSubEnd S sub (sub + (subEnd - sub) div 2))"
  by auto
termination
  by (relation "measure (\<lambda>(S, sub, subEnd). nat (subEnd - sub))") auto

declare reconSubEnd.simps [simp del]

text \<open>Each round covers at least one second, so the number of seconds is enough fuel.\<close>

fun reconWindows :: "nat \<Rightarrow> 'u service \<Rightarrow> int \<Rightarrow> int \<Rightarrow> recon \<Rightarrow> ('u, recon) op" where
  "reconWindows 0 S sub until rc = (if sub \<le> until then throw OutOfFuel else return rc)"
| "reconWindows (Suc n) S sub until rc =
     (if sub \<le> until then
        bind (reconSubEnd S sub until) (\<lambda>subEnd.
        bind (pageLoop (readLogs S sub subEnd) reconIngest settlementMaxPages 1 rc) (\<lambda>rc'.
        reconWindows n S (subEnd + 1) until rc'))
      else return rc)"

definition billingReconcileTolerance :: int where "billingReconcileTolerance = 0"

definition reportBilling :: "int \<Rightarrow> (int \<times> int) list \<Rightarrow> int \<times> int \<Rightarrow> ('u, unit) op" where
  "reportBilling hourStart ledgerByOrg pa =
     (case pa of (org, logged) \<Rightarrow>
        let settled = (case map_of ledgerByOrg org of Some n \<Rightarrow> n | None \<Rightarrow> 0);
            diff = i64 (logged - settled)
        in if diff > billingReconcileTolerance \<or> diff < - billingReconcileTolerance then
             bind (auditSystem org ''billing_reconcile_mismatch'' ''balance'' (Some org)
                     [(''hour'', JInt hourStart), (''newapi_logs'', JInt logged), (''ledger'', JInt settled),
                      (''diff'', JInt diff)] ''mismatch'') (\<lambda>_.
             bind (orgAdminIDs org) (\<lambda>ids. foreach ids (\<lambda>a. notify org a ''billing_alert'')))
           else return ())"

definition ReconcileBilling :: "'u service \<Rightarrow> ('u, unit) op" where
  "ReconcileBilling S =
     (if \<not> sv_funding S then return ()
      else
      bind clock (\<lambda>now.
      let hourEnd = hourBucket (now div 10 ^ 9);
          hourStart = hourEnd - hourNs;
          since = hourStart div 10 ^ 9;
          until = hourEnd div 10 ^ 9 - 1
      in bind (reconWindows (nat (until + 1 - since)) S since until
                 \<lparr> rc_by_org = [], rc_members = Map.empty, rc_flags = Map.empty \<rparr>) (\<lambda>rc.
         bind (SumLedgerByOrgForBucket hourStart) (\<lambda>ledgerByOrg.
         foreach (rc_by_org rc) (reportBilling hourStart ledgerByOrg)))))"

section \<open>Balances against ledger\<close>

definition lookup0 :: "(int \<times> int) list \<Rightarrow> int \<Rightarrow> int" where
  "lookup0 xs k = (case map_of xs k of Some n \<Rightarrow> n | None \<Rightarrow> 0)"

definition ReconcileBalanceLedger :: "'u service \<Rightarrow> ('u, unit) op" where
  "ReconcileBalanceLedger S =
     (if \<not> sv_funding S then return ()
      else if sv_observe S then return ()
      else
      bind SumLedgerConsumedByOrg (\<lambda>led.
      bind ListOrgTotalConsumed (\<lambda>consumed.
      bind GetEscrowBaselines (\<lambda>baselines.
      foreach (remdups (map fst consumed @ map fst led)) (\<lambda>org.
        let tc = lookup0 consumed org; lg = i64 (lookup0 led org - lookup0 baselines org)
        in if tc = lg then return ()
           else auditSystem org ''balance_ledger_mismatch'' ''balance'' (Some org)
                  [(''total_consumed'', JInt tc), (''ledger_sum'', JInt lg), (''diff'', JInt (i64 (tc - lg)))] ''mismatch'')))))"

section \<open>Retention\<close>

definition PurgeOldUsageDetail :: "'u service \<Rightarrow> ('u, unit) op" where
  "PurgeOldUsageDetail S =
     (if sv_retention_days S \<le> 0 then return ()
      else bind clock (\<lambda>now.
        bind (PurgeUsageDetailBefore (now + i64 (- (sv_retention_days S) * 24 * hourNs))) (\<lambda>_. return ())))"

end
