(* ===== verification/MoneySafe.thy ===== *)
theory MoneySafe
  imports BackfillFrames Billing Reconcile
begin

text \<open>
  The conservation of money: what an organization has recharged minus what it was refunded is what
  its window and holding buckets hold, and its balance is that minus its consumption.  Every
  operation of billing, escrow, settlement and backfill keeps it, wherever a statement fails.
\<close>

definition keepsMoney :: "db \<Rightarrow> db \<Rightarrow> bool" where
  "keepsMoney d d' \<longleftrightarrow> (moneyInv d \<longrightarrow> moneyInv d')"

lemma moneyInv_frame [simp]:
  "moneyInv (d\<lparr>orgs := x1\<rparr>) = moneyInv d" "moneyInv (d\<lparr>audits := x2\<rparr>) = moneyInv d"
  "moneyInv (d\<lparr>notifications := x3\<rparr>) = moneyInv d" "moneyInv (d\<lparr>ledger := x4\<rparr>) = moneyInv d"
  "moneyInv (d\<lparr>details := x5\<rparr>) = moneyInv d" "moneyInv (d\<lparr>cursors := x6\<rparr>) = moneyInv d"
  "moneyInv (d\<lparr>jobs := x7\<rparr>) = moneyInv d" "moneyInv (d\<lparr>recharge_requests := x8\<rparr>) = moneyInv d"
  "moneyInv (d\<lparr>escrow_configs := x9\<rparr>) = moneyInv d"
  by (rule moneyInv_cong; simp)+

interpretation km: report_frame keepsMoney
  by unfold_locales (auto simp: keepsMoney_def advanceCursor_def insertCursor_def Let_def)

interpretation kb: backfill_frame keepsMoney
  by unfold_locales (auto simp: keepsMoney_def updJob_def)

text \<open>A transaction whose body keeps the invariant, and a single statement that does.\<close>

lemma guar_tx:
  "dbval moneyInv body (\<lambda>_. moneyInv) \<Longrightarrow> guar (onDb keepsMoney) (WithTx body)"
  using WithTx_inv[of moneyInv body] by (auto simp: guar_def onDb_def keepsMoney_def)

lemma dbval_moneyInv:
  "dbval (moneyGap org 0) m (\<lambda>_. moneyGap org 0) \<Longrightarrow> dbval moneyInv m (\<lambda>_. moneyInv)"
proof -
  have "moneyGap org 0 = moneyInv" by (rule ext) (rule moneyGap_0)
  then show "dbval (moneyGap org 0) m (\<lambda>_. moneyGap org 0) \<Longrightarrow> dbval moneyInv m (\<lambda>_. moneyInv)" by simp
qed

section \<open>Recharge\<close>

lemma fitOf_bounds: "0 \<le> amount \<Longrightarrow> 0 \<le> fitOf amount window \<and> fitOf amount window \<le> amount"
  by (auto simp: fitOf_def Let_def)

lemma rechargeTx_inv:
  assumes org: "r_org r = org" and fit: "0 \<le> fit" "fit \<le> r_amount r" and amt: "fits64 (r_amount r)"
  shows "dbval moneyInv (rechargeTx org r fit) (\<lambda>_. moneyInv)"
proof -
  let ?a = "r_amount r" and ?g = "moneyGap org"
  have rem: "i64 (?a - fit) = ?a - fit" using fit amt by (intro i64_id) (auto simp: fits64_def)
  have add: "dbval (?g 0) (AddRechargeTx r) (\<lambda>_. ?g ?a)" using AddRechargeTx_gap[OF org, of 0] by simp
  have mk: "dbval (?g ?a) (CreateEscrowBucketTx org 1 fit EscrowActive escrowDefaultThreshold) (\<lambda>_. ?g (?a - fit))"
    by (rule CreateEscrowBucketTx_gap) (simp_all add: fit)
  have up: "dbval (\<lambda>d. ?g ?a d \<and> firstBy eb_seq (isBucket org EscrowActive) (buckets d) = Some a)
     (UpdateEscrowBucketTx (eb_id a) (i64 (eb_amount a + fit)) EscrowActive) (\<lambda>_. ?g (?a - fit))" for a
  proof (rule dbval_imp)
    fix d assume d: "?g ?a d \<and> firstBy eb_seq (isBucket org EscrowActive) (buckets d) = Some a"
    then have a: "a \<in> set (buckets d)" "eb_org a = org" "inEscrow a" "eb_status a = EscrowActive"
      by (auto dest!: firstBucket_Some simp: inEscrow_def isBucket_def)
    have pos: "0 \<le> eb_amount a" using d a(1) by (simp add: moneyGap_def moneyWf_def)
    have "fits64 (eb_amount a + ?a)" by (rule bucket_fits[OF _ a(1-3)]) (use d fit in auto)
    then have i: "i64 (eb_amount a + fit) = eb_amount a + fit"
      using fit pos by (intro i64_id) (simp add: fits64_def)
    have gap: "?a + escrowPart org a - escrowPart org (a\<lparr>eb_amount := eb_amount a + fit, eb_status := EscrowActive\<rparr>) = ?a - fit"
      using a by (simp add: escrowPart_def inEscrow_def)
    show "dbval ((=) d) (UpdateEscrowBucketTx (eb_id a) (i64 (eb_amount a + fit)) EscrowActive) (\<lambda>_. ?g (?a - fit))"
      unfolding i
      using dbval_pre[OF UpdateEscrowBucketTx_gap[of "eb_amount a + fit" a org ?a EscrowActive], of "(=) d"]
        a d pos fit by (simp add: gap)
  qed
  have hold: "dbval (?g (?a - fit)) (CreateEscrowBucketTx org seq (?a - fit) EscrowHolding escrowDefaultThreshold) (\<lambda>_. ?g 0)" for seq
    using CreateEscrowBucketTx_gap[of "?a - fit" EscrowHolding org "?a - fit"] fit by simp
  have rest: "dbval (?g (?a - fit)) (bind (if ?a - fit > 0 then
                    bind (MaxEscrowSeqTx org) (\<lambda>maxSeq.
                    bind (CreateEscrowBucketTx org (if b then 2 else maxSeq + 1) (?a - fit) EscrowHolding escrowDefaultThreshold) (\<lambda>_.
                    return ()))
                  else return ()) (\<lambda>_. return bal)) (\<lambda>_. ?g 0)" for b and bal :: balance
  proof (rule dbval_bind[where R = "\<lambda>_. ?g 0"], rule dbval_if)
    show "dbval (?g (?a - fit)) (bind (MaxEscrowSeqTx org) (\<lambda>maxSeq.
       bind (CreateEscrowBucketTx org (if b then 2 else maxSeq + 1) (?a - fit) EscrowHolding escrowDefaultThreshold) (\<lambda>_.
       return ()))) (\<lambda>_. ?g 0)"
      unfolding MaxEscrowSeqTx_def
      by (rule dbval_bind[OF dbval_weak[OF dbval_query, where Q' = "\<lambda>_. ?g (?a - fit)"]], simp, rule dbval_bind[OF hold])
         (auto intro: dbval_return)
    show "dbval (?g (?a - fit)) (return ()) (\<lambda>_. ?g 0)" if "\<not> ?a - fit > 0"
    proof -
      have "?a - fit = 0" using that fit by simp
      then show ?thesis by (auto intro: dbval_return)
    qed
  qed (auto intro: dbval_return)
  have "dbval (?g 0) (rechargeTx org r fit) (\<lambda>_. ?g 0)"
    unfolding rechargeTx_def rem Let_def
  proof (rule dbval_bind[OF add], unfold GetActiveEscrowBucketTx_def, rule dbval_bind[OF dbval_attempt_getRow])
    fix bal :: balance and ar :: "err + escrow_bucket"
    show "dbval (\<lambda>d. ?g ?a d \<and> (case ar of Inr a \<Rightarrow> firstBy eb_seq (isBucket org EscrowActive) (buckets d) = Some a
           | Inl e \<Rightarrow> errorsIs e ErrNotFound \<longrightarrow> firstBy eb_seq (isBucket org EscrowActive) (buckets d) = None))
      (bind (case ar of
          Inl e \<Rightarrow> if case ar of Inl e \<Rightarrow> errorsIs e ErrNotFound | Inr _ \<Rightarrow> False
                   then bind (CreateEscrowBucketTx org 1 fit EscrowActive escrowDefaultThreshold) (\<lambda>_. return ()) else throw e
        | Inr a \<Rightarrow> UpdateEscrowBucketTx (eb_id a) (i64 (eb_amount a + fit)) EscrowActive) (\<lambda>_.
       bind (if ?a - fit > 0 then
               bind (MaxEscrowSeqTx org) (\<lambda>maxSeq.
               bind (CreateEscrowBucketTx org (if case ar of Inl e \<Rightarrow> errorsIs e ErrNotFound | Inr _ \<Rightarrow> False then 2 else maxSeq + 1)
                 (?a - fit) EscrowHolding escrowDefaultThreshold) (\<lambda>_. return ()))
             else return ()) (\<lambda>_. return bal))) (\<lambda>_. ?g 0)"
    proof (rule dbval_bind[OF _ rest], cases ar)
      case (Inl e)
      show "dbval (\<lambda>d. ?g ?a d \<and> (case ar of Inr a \<Rightarrow> firstBy eb_seq (isBucket org EscrowActive) (buckets d) = Some a
           | Inl e \<Rightarrow> errorsIs e ErrNotFound \<longrightarrow> firstBy eb_seq (isBucket org EscrowActive) (buckets d) = None))
        (case ar of
          Inl e \<Rightarrow> if case ar of Inl e \<Rightarrow> errorsIs e ErrNotFound | Inr _ \<Rightarrow> False
                   then bind (CreateEscrowBucketTx org 1 fit EscrowActive escrowDefaultThreshold) (\<lambda>_. return ()) else throw e
        | Inr a \<Rightarrow> UpdateEscrowBucketTx (eb_id a) (i64 (eb_amount a + fit)) EscrowActive) (\<lambda>_. ?g (?a - fit))"
        unfolding Inl sum.case
        by (intro dbval_if dbval_throw dbval_bind[OF dbval_pre[OF mk]] dbval_return) auto
    next
      case (Inr a)
      show "dbval (\<lambda>d. ?g ?a d \<and> (case ar of Inr a \<Rightarrow> firstBy eb_seq (isBucket org EscrowActive) (buckets d) = Some a
           | Inl e \<Rightarrow> errorsIs e ErrNotFound \<longrightarrow> firstBy eb_seq (isBucket org EscrowActive) (buckets d) = None))
        (case ar of
          Inl e \<Rightarrow> if case ar of Inl e \<Rightarrow> errorsIs e ErrNotFound | Inr _ \<Rightarrow> False
                   then bind (CreateEscrowBucketTx org 1 fit EscrowActive escrowDefaultThreshold) (\<lambda>_. return ()) else throw e
        | Inr a \<Rightarrow> UpdateEscrowBucketTx (eb_id a) (i64 (eb_amount a + fit)) EscrowActive) (\<lambda>_. ?g (?a - fit))"
        unfolding Inr sum.case by (rule up)
    qed
  qed
  then show ?thesis by (rule dbval_moneyInv)
qed

section \<open>Refund\<close>

lemma debitTx_inv:
  assumes "0 \<le> amount"
  shows "dbval moneyInv (debitTx org amount reason opr) (\<lambda>_. moneyInv)"
proof (rule dbval_moneyInv)
  show "dbval (moneyGap org 0) (debitTx org amount reason opr) (\<lambda>_. moneyGap org 0)"
    unfolding debitTx_def
    by (rule dbval_bind[OF DebitBalanceTx_gap[OF assms]], rule dbval_bind[OF ReduceEscrowTx_gap[OF assms]])
       (auto intro: dbval_return)
qed

section \<open>The operations\<close>

lemma updateBalance_consume_inv:
  assumes inv: "moneyInv d"
  shows "moneyInv (snd (updateBalance org ver (consumeRow n) d))"
proof -
  obtain r d' where u: "updateBalance org ver (consumeRow n) d = (r, d')" by force
  show ?thesis
  proof (cases "map_option b_version (findBalance org d) = Some ver")
    case True
    have "dbval (\<lambda>d. moneyGap org 0 d \<and> map_option b_version (findBalance org d) = Some ver)
        (stmt (updateBalance org ver (consumeRow n)) :: (unit, nat) op) (\<lambda>n d. n = 1 \<and> moneyGap org (0 + 0) d)"
      by (rule dbval_updateBalance) (auto simp: consumeRow_def balanceOk_def)
    from dbvalD[OF this, of "\<lparr> w_db = d, w_up = (), w_now = 0, w_faults = [], w_held = [], w_draws = 0 \<rparr>"]
    show ?thesis
      using u inv True by (cases r) (auto simp: stmt_def moneyGap_0 updateBalance_def Let_def split: if_splits)
  next
    case False
    have "\<not> (b_org b = org \<and> b_version b = ver)" if b: "b \<in> set (balances d)" for b
    proof
      assume h: "b_org b = org \<and> b_version b = ver"
      have "findBalance org d = Some b"
        using inv find_unique[of b_org "balances d" b] b h by (simp add: findBalance_def moneyInv_def moneyWf_def)
      then show False using False h by simp
    qed
    then have "map (\<lambda>b. if b_org b = org \<and> b_version b = ver then consumeRow n b else b) (balances d) = balances d"
      by (intro map_idI) auto
    then show ?thesis using inv by (simp add: updateBalance_def Let_def)
  qed
qed

lemma DeductBalanceTx_km [guar_intros]: "guar (onDb keepsMoney) (DeductBalanceTx org n :: ('v, balance) op)"
  unfolding DeductBalanceTx_def getBalanceTx_def
  by (intro guar_intros km.bind' km.basics km.getRow km.queryRow km.stmt)
     (simp add: keepsMoney_def updateBalance_consume_inv)

lemma insertBalance_inv: "moneyInv d \<Longrightarrow> moneyInv (insertBalanceIgnore org d)"
  using moneyGap_insertIgnore[of org 0 d org] by (simp add: moneyGap_0)

lemma GetOrCreateBalance_km [guar_intros]: "guar (onDb keepsMoney) (GetOrCreateBalance org :: ('v, balance) op)"
proof -
  have "snd (insertBalance org d) = insertBalanceIgnore org d" for d
    by (simp add: insertBalance_def insertBalanceIgnore_def)
  then have "keepsMoney d (snd (insertBalance org d))" for d
    by (simp add: keepsMoney_def insertBalance_inv)
  then show ?thesis
    unfolding GetOrCreateBalance_def getBalance_def
    by (intro guar_intros km.bind' km.basics km.getRow km.stmt)
qed

lemma SetLowWatermark_km [guar_intros]: "guar (onDb keepsMoney) (SetLowWatermark org n :: ('v, unit) op)"
proof -
  let ?g = "\<lambda>b. b\<lparr>b_low_watermark := n\<rparr>"
  have "keepsMoney d (d\<lparr>balances := updateKey b_org org ?g (balances d)\<rparr>)" for d
  proof -
    have f: "findBalance o' (d\<lparr>balances := updateKey b_org org ?g (balances d)\<rparr>)
        = (if o' = org then map_option ?g (findBalance o' d) else findBalance o' d)" for o'
      using find_updateKey[of b_org ?g o' org "balances d"] by (simp add: findBalance_def)
    have "netFunding o' (d\<lparr>balances := updateKey b_org org ?g (balances d)\<rparr>) = netFunding o' d" for o'
      unfolding netFunding_def f by (auto split: option.splits)
    moreover have "map b_org (updateKey b_org org ?g (balances d)) = map b_org (balances d)"
      by (rule map_updateKey_same) simp
    moreover have "balanceOk b" if "moneyInv d" "b \<in> set (updateKey b_org org ?g (balances d))" for b
      using set_updateKeyD[OF that(2)] that(1) by (auto simp: moneyInv_def moneyWf_def balanceOk_def)
    ultimately show ?thesis
      by (auto simp: keepsMoney_def moneyInv_def moneyWf_def escrowTotal_def)
  qed
  then show ?thesis
    unfolding SetLowWatermark_def
    by (intro guar_intros km.bind' km.exec) (simp_all add: keepsMoney_def insertBalance_inv)
qed

lemma checks_km [guar_intros]:
  "guar (onDb keepsMoney) (checkLen s n :: ('v, unit) op)" "guar (onDb keepsMoney) (checkText s n :: ('v, unit) op)"
  "guar (onDb keepsMoney) (requireOrg org :: ('v, organization) op)"
  "guar (onDb keepsMoney) (SetOrgBillingFlags org b h :: ('v, unit) op)"
  "guar (onDb keepsMoney) (SumHoldingEscrow org :: ('v, int) op)"
  "guar (onDb keepsMoney) (SumOrgConsumed org :: ('v, int) op)"
  "guar (onDb keepsMoney) (GetEscrowConfig org :: ('v, escrow_config) op)"
  "guar (onDb keepsMoney) (GetActiveEscrowBucket org :: ('v, escrow_bucket) op)"
  "guar (onDb keepsMoney) (ListEscrowOrgIDs :: ('v, int list) op)"
  unfolding checkLen_def checkText_def requireOrg_def SetOrgBillingFlags_def SumHoldingEscrow_def SumOrgConsumed_def
    GetEscrowConfig_def GetActiveEscrowBucket_def ListEscrowOrgIDs_def
  by (intro guar_intros km.basics km.exec km.getRow km.query; simp add: keepsMoney_def updOrg_def)+

lemma configs_km [guar_intros]:
  "guar (onDb keepsMoney) (UpsertThresholdAuto org n :: ('v, unit) op)"
  "guar (onDb keepsMoney) (SetEscrowConsumedBaseline org n :: ('v, unit) op)"
  unfolding UpsertThresholdAuto_def SetEscrowConsumedBaseline_def
  by (intro guar_intros km.bind' km.clock km.exec; simp add: keepsMoney_def upsertConfig_def)+

lemma guar_cond: "(b \<Longrightarrow> guar R m) \<Longrightarrow> (\<not> b \<Longrightarrow> guar R n) \<Longrightarrow> guar R (if b then m else n)"
  by simp

lemma applyRecharge_km:
  assumes "r_org r = org" "0 < r_amount r" "fits64 (r_amount r)"
  shows "guar (onDb keepsMoney) (applyRecharge S org r :: ('v, balance) op)"
proof -
  have tx: "guar (onDb keepsMoney) (WithTx (rechargeTx org r (fitOf (r_amount r) w)) :: ('v, balance) op)" for w
    by (rule guar_tx, rule rechargeTx_inv) (use assms fitOf_bounds[of "r_amount r" w] in auto)
  show ?thesis unfolding applyRecharge_def Let_def by (rule tx | rule guar_intros)+
qed

lemma Recharge_km:
  assumes "fits64 amount"
  shows "guar (onDb keepsMoney) (Recharge S c org amount tno cny note :: ('v, balance) op)"
proof -
  let ?r = "\<lparr> r_org = org, r_amount = amount, r_amount_cny = cny,
              r_transfer_no = tno, r_operator = actorOf c, r_note = optStr note \<rparr>"
  have ap: "\<not> amount \<le> 0 \<Longrightarrow> guar (onDb keepsMoney) (applyRecharge S org ?r :: ('v, balance) op)"
    by (rule applyRecharge_km) (use assms in auto)
  show ?thesis
    unfolding Recharge_def
    by (rule ap, assumption | rule guar_cond | rule guar_intros)+
qed

lemma DebitBalance_km: "guar (onDb keepsMoney) (DebitBalance S c org amount reason :: ('v, balance) op)"
proof -
  have tx: "\<not> amount \<le> 0 \<Longrightarrow> guar (onDb keepsMoney) (WithTx (debitTx org amount reason (actorOf c)) :: ('v, balance \<times> int) op)"
    by (rule guar_tx, rule debitTx_inv) simp
  show ?thesis
    unfolding DebitBalance_def
    by (rule tx, assumption | rule guar_cond | rule guar_intros)+
qed

lemma merge_km: "guar (onDb keepsMoney) (WithTx (MergeHoldingIntoActiveTx org n) :: ('v, int) op)"
  by (rule guar_tx, rule dbval_weak[OF MergeHoldingIntoActiveTx_gap]) simp

lemma GetDerivedBalance_km [guar_intros]: "guar (onDb keepsMoney) (GetDerivedBalance S c org :: ('v, derived_balance) op)"
  unfolding GetDerivedBalance_def by (intro guar_intros)

lemma refill_km [guar_intros]: "guar (onDb keepsMoney) (refillToWindow S org t :: ('v, int) op)"
  unfolding refillToWindow_def Let_def by (rule merge_km | rule guar_intros)+

lemma RefillWindow_km: "guar (onDb keepsMoney) (RefillWindow S c org :: ('v, derived_balance) op)"
  unfolding RefillWindow_def by (intro guar_intros)

lemma recompute_km [guar_intros]: "guar (onDb keepsMoney) (recomputeThresholdAuto org :: ('v, unit) op)"
  unfolding recomputeThresholdAuto_def EscrowUsageStats_def Let_def by (intro guar_intros)

lemma AutoRefill_km: "guar (onDb keepsMoney) (AutoRefill S :: ('v, unit) op)"
  unfolding AutoRefill_def autoRefillOrg_def escrowThreshold_def by (intro guar_intros)

lemma RunSettlement_km [guar_intros]: "guar (onDb keepsMoney) (RunSettlement S :: ('v, int) op)"
  by (rule km.RunSettlement) (use DeductBalanceTx_km in blast)

lemma ReconcileEscrow_km: "guar (onDb keepsMoney) (ReconcileEscrow S :: ('v, unit) op)"
  unfolding ReconcileEscrow_def reconcileOrgEscrow_def correctWindow_def Let_def by (intro guar_intros)

lemma settings_km: "guar (onDb keepsMoney) (SetBillingSettings S c org b h n :: ('v, bool \<times> bool \<times> int) op)"
  unfolding SetBillingSettings_def GetBillingSettings_def by (intro guar_intros)

lemma requests_km: "guar (onDb keepsMoney) (RequestRecharge S c org ty amount note :: ('v, recharge_request) op)"
  unfolding RequestRecharge_def CreateRechargeRequest_def ListRechargeRequestsRepo_def Let_def
  by (intro guar_intros km.stmt) (simp add: keepsMoney_def)

end
