(* ===== verification/MoneyClaims.thy ===== *)
theory MoneyClaims
  imports MoneySafe Sample
begin

text \<open>
  The properties of the money operations, each with an instance on the sample server.
\<close>

section \<open>Conservation\<close>

text \<open>
  The worlds that billing, escrow, settlement and backfill pass through; other steps leave balance
  rows and buckets alone.
\<close>

inductive moneyHistory :: "'u service \<Rightarrow> 'u world \<Rightarrow> bool" for S where
  start: "balances (w_db w) = [] \<Longrightarrow> buckets (w_db w) = [] \<Longrightarrow> moneyHistory S w"
| recharge: "moneyHistory S w \<Longrightarrow> fits64 amount \<Longrightarrow> moneyHistory S (snd (Recharge S c org amount tno cny memo w))"
| debit: "moneyHistory S w \<Longrightarrow> moneyHistory S (snd (DebitBalance S c org amount reason w))"
| refill: "moneyHistory S w \<Longrightarrow> moneyHistory S (snd (RefillWindow S c org w))"
| auto: "moneyHistory S w \<Longrightarrow> moneyHistory S (snd (AutoRefill S w))"
| reconcile: "moneyHistory S w \<Longrightarrow> moneyHistory S (snd (ReconcileEscrow S w))"
| settle: "moneyHistory S w \<Longrightarrow> moneyHistory S (snd (RunSettlement S w))"
| slice: "moneyHistory S w \<Longrightarrow> moneyHistory S (snd (RunBackfillSlice S w))"
| settings: "moneyHistory S w \<Longrightarrow> moneyHistory S (snd (SetBillingSettings S c org b h n w))"
| request: "moneyHistory S w \<Longrightarrow> moneyHistory S (snd (RequestRecharge S c org ty amount memo w))"
| other: "moneyHistory S w \<Longrightarrow> balances (w_db w') = balances (w_db w) \<Longrightarrow> buckets (w_db w') = buckets (w_db w)
     \<Longrightarrow> moneyHistory S w'"

lemma km_step: "guar (onDb keepsMoney) m \<Longrightarrow> moneyInv (w_db w) \<Longrightarrow> moneyInv (w_db (snd (m w)))"
  by (drule guarD[where s = w]) (simp add: onDb_def keepsMoney_def)

lemma moneyHistory_inv: "moneyHistory S w \<Longrightarrow> moneyInv (w_db w)"
proof (induction rule: moneyHistory.induct)
  case (start w)
  then show ?case by (simp add: moneyInv_def moneyWf_def netFunding_def findBalance_def escrowTotal_def)
next
  case (other w w')
  then show ?case using moneyInv_cong by blast
qed (blast intro: km_step Recharge_km DebitBalance_km RefillWindow_km AutoRefill_km ReconcileEscrow_km
       RunSettlement_km kb.RunBackfillSlice settings_km requests_km)+

text \<open>C2. Money is conserved: in every history of recharges, refunds, refills, escrow and
  settlement runs, for every placement of driver faults, an organization's recharges minus its
  refunds are what its window and holding buckets contain, its balance is that minus its
  consumption, and no bucket is negative.\<close>

theorem money_conserved:
  assumes "moneyHistory S w" and "findBalance org (w_db w) = Some b"
  shows "b_recharged b - b_refunded b = escrowTotal org (w_db w)
       \<and> b_balance b = escrowTotal org (w_db w) - b_consumed b
       \<and> (\<forall>x \<in> set (buckets (w_db w)). 0 \<le> eb_amount x)"
proof -
  have inv: "moneyInv (w_db w)" using assms(1) by (rule moneyHistory_inv)
  then have "netFunding org (w_db w) = escrowTotal org (w_db w)" by (simp add: moneyInv_def)
  moreover have "balanceOk b"
    using inv findBalance_Some[OF assms(2)] by (simp add: moneyInv_def moneyWf_def)
  ultimately show ?thesis
    using inv assms(2) by (simp add: netFunding_def balanceOk_def moneyInv_def moneyWf_def)
qed

definition unfunded :: db where
  "unfunded = sampleDb\<lparr>balances := [], buckets := [], recharges := []\<rparr>"

definition chargedWorld :: "sample world" where
  "chargedWorld = snd (Recharge (sampleSvc [] False True) (sampleClaims RoleOperator 9) 1 500 ''T2'' None '''' (sampleWorld unfunded 100))"

lemma charged_balances: "balances (w_db chargedWorld) = [\<lparr> b_org = 1, b_recharged = 500, b_consumed = 0,
    b_refunded = 0, b_balance = 500, b_low_watermark = 0, b_version = 1 \<rparr>]"
  unfolding chargedWorld_def by code_simp

theorem money_conserved_witness: "500 - 0 = escrowTotal 1 (w_db chargedWorld)"
proof -
  have "moneyHistory (sampleSvc [] False True) chargedWorld"
    unfolding chargedWorld_def
    by (intro moneyHistory.recharge moneyHistory.start) (simp_all add: sampleWorld_def unfunded_def fits64_def)
  from money_conserved[OF this, of 1] show ?thesis
    by (auto simp: findBalance_def charged_balances)
qed

section \<open>Recharges\<close>

definition sameFunds :: "db \<Rightarrow> db \<Rightarrow> bool" where
  "sameFunds d d' \<longleftrightarrow> balances d' = balances d \<and> recharges d' = recharges d \<and> buckets d' = buckets d"

interpretation sf: backfill_frame sameFunds
  by unfold_locales (auto simp: sameFunds_def updJob_def)

definition booked :: "recharge \<Rightarrow> db \<Rightarrow> db \<Rightarrow> bool" where
  "booked r d d' \<longleftrightarrow> (\<forall>x \<in> set (recharges d). \<not> (r_org x = r_org r \<and> r_transfer_no x = r_transfer_no r))
     \<and> recharges d' = recharges d @ [r]
     \<and> netFunding (r_org r) d' = netFunding (r_org r) d + r_amount r
     \<and> (\<forall>o'. o' \<noteq> r_org r \<longrightarrow> findBalance o' d' = findBalance o' d)"

lemma findBalance_updateKey:
  "(\<And>b. b_org (g b) = b_org b) \<Longrightarrow> findBalance o' (d\<lparr>balances := updateKey b_org org g (balances d)\<rparr>)
     = (if o' = org then map_option g (findBalance o' d) else findBalance o' d)"
  using find_updateKey[of b_org g o' org "balances d"] by (simp add: findBalance_def)

lemma AddRechargeTx_booked:
  assumes wf: "moneyWf d"
  shows "dbval ((=) d) (AddRechargeTx r) (\<lambda>_. booked r d)"
proof -
  let ?o = "r_org r"
  let ?d1 = "insertBalanceIgnore ?o d"
  obtain b where b: "findBalance ?o ?d1 = Some b"
    by (cases "findBalance ?o d") (simp_all add: findBalance_insertIgnore)
  have wf1: "distinct (map b_org (balances ?d1))"
    using wf by (auto simp: insertBalanceIgnore_def zeroBalance_def findBalance_def find_None_iff moneyWf_def)
  have f1: "findBalance o' ?d1 = (if o' = ?o then Some b else findBalance o' d)" for o'
    using b by (auto simp: findBalance_insertIgnore)
  have net1: "b_recharged b - b_refunded b = netFunding ?o d"
    using b by (cases "findBalance ?o d") (auto simp: findBalance_insertIgnore netFunding_def zeroBalance_def)
  let ?fresh = "\<forall>x \<in> set (recharges d). \<not> (r_org x = ?o \<and> r_transfer_no x = r_transfer_no r)"
  let ?P2 = "\<lambda>d2. ?fresh \<and> d2 = ?d1\<lparr>recharges := recharges d @ [r]\<rparr>"
  have r1: "recharges ?d1 = recharges d" by (simp add: insertBalanceIgnore_def)
  have 1: "dbval ((=) d) (exec (insertBalanceIgnore ?o)) (\<lambda>_ d1. d1 = ?d1)"
    by (rule dbval_exec) simp
  have 2: "dbval (\<lambda>d1. d1 = ?d1) (mapErr dupToConflict (stmt (insertRecharge r))) (\<lambda>_. ?P2)"
    by (rule dbval_mapErr, rule dbval_stmt) (auto simp: insertRecharge_def r1 split: if_splits)
  have 3: "dbval ?P2 (queryRow (\<lambda>d. map_option b_version (findBalance ?o d))) (\<lambda>ver d2. ?P2 d2 \<and> ver = b_version b)"
    by (rule dbval_weak[OF dbval_queryRow]) (use b in \<open>auto simp: findBalance_def\<close>)
  have 4: "dbval (\<lambda>d2. ?P2 d2 \<and> ver = b_version b) (stmt (updateBalance ?o ver (rechargeRow (r_amount r)))) (\<lambda>_. booked r d)" for ver
  proof (rule dbval_stmt)
    fix d2 n d3 assume p: "?P2 d2 \<and> ver = b_version b" and u: "updateBalance ?o ver (rechargeRow (r_amount r)) d2 = (Inr n, d3)"
    have f2: "findBalance ?o d2 = Some b" and wf2: "distinct (map b_org (balances d2))"
      using p b wf1 by (simp_all add: findBalance_def)
    have u': "updateBalance ?o (b_version b) (rechargeRow (r_amount r)) d2 = (Inr n, d3)" using u p by simp
    note sp = updateBalance_spec[OF wf2 f2 u']
    have "recharges d3 = recharges d2" using u by (auto simp: updateBalance_def Let_def split: if_splits)
    moreover have "findBalance o' d3 = (if o' = ?o then Some (rechargeRow (r_amount r) b) else findBalance o' d)" for o'
      using findBalance_updateKey[where g = "rechargeRow (r_amount r)" and o' = o' and d = d2 and org = ?o] f1[of o'] p f2
      by (auto simp: rechargeRow_def findBalance_def sp(2))
    ultimately show "booked r d d3"
      using p net1 by (auto simp: booked_def netFunding_def rechargeRow_def)
  qed
  have 5: "dbval (booked r d) (if n \<noteq> 1 then throw ErrOptimisticLock else getBalanceTx ?o) (\<lambda>_. booked r d)" for n :: nat
    unfolding getBalanceTx_def by (intro dbval_if dbval_throw dbval_weak[OF dbval_queryRow]) simp
  show ?thesis
    unfolding AddRechargeTx_def
    by (rule dbval_bind[OF 1], rule dbval_bind[OF 2], rule dbval_bind[OF 3], rule dbval_bind[OF 4], rule 5)
qed

text \<open>The bucket statements leave balances and the recharge journal alone.\<close>

definition sameAccounts :: "db \<Rightarrow> db \<Rightarrow> bool" where
  "sameAccounts d d' \<longleftrightarrow> balances d' = balances d \<and> recharges d' = recharges d"

interpretation sa: org_frame sameAccounts
  by unfold_locales (auto simp: sameAccounts_def)

lemma booked_accounts: "booked r d d1 \<Longrightarrow> sameAccounts d1 d2 \<Longrightarrow> booked r d d2"
  by (simp add: booked_def sameAccounts_def netFunding_def findBalance_def)

lemma rechargeTx_booked:
  assumes wf: "moneyWf d"
  shows "dbval ((=) d) (rechargeTx (r_org r) r fit) (\<lambda>_. booked r d)"
proof -
  have bucket: "guar (onDb sameAccounts) (CreateEscrowBucketTx org seq n st t :: ('u, int) op)"
    "guar (onDb sameAccounts) (UpdateEscrowBucketTx i n st :: ('u, unit) op)"
    "guar (onDb sameAccounts) (MaxEscrowSeqTx org :: ('u, int) op)"
    "guar (onDb sameAccounts) (GetActiveEscrowBucketTx org :: ('u, escrow_bucket) op)" for org seq n st t i
    unfolding CreateEscrowBucketTx_def UpdateEscrowBucketTx_def MaxEscrowSeqTx_def GetActiveEscrowBucketTx_def
    by (intro sa.stmt sa.exec sa.query sa.getRow; simp add: sameAccounts_def insertBucket_def setBucket_def Let_def)+
  show ?thesis
    unfolding rechargeTx_def Let_def
    by (rule dbval_bind[OF AddRechargeTx_booked[OF wf]], rule dbval_guar[where D = sameAccounts])
       ((rule bucket | rule guar_intros)+, rule booked_accounts)
qed

definition rechargeOf :: "claims \<Rightarrow> int \<Rightarrow> int \<Rightarrow> string \<Rightarrow> int option \<Rightarrow> string \<Rightarrow> recharge" where
  "rechargeOf c org amount tno cny memo = \<lparr> r_org = org, r_amount = amount, r_amount_cny = cny,
     r_transfer_no = tno, r_operator = actorOf c, r_note = optStr memo \<rparr>"

text \<open>An outcome of a recharge: booked once; or failed, with nothing booked or the acknowledgement lost.\<close>

definition rechargeOutcome :: "recharge \<Rightarrow> db \<Rightarrow> err + balance \<Rightarrow> db \<Rightarrow> bool" where
  "rechargeOutcome r d res d' \<longleftrightarrow> (case res of Inr _ \<Rightarrow> booked r d d' | Inl _ \<Rightarrow> sameFunds d d' \<or> booked r d d')"

lemma wp_outcome:
  "wp m (\<lambda>_ w'. booked r d (w_db w')) (\<lambda>_ w'. sameFunds d (w_db w') \<or> booked r d (w_db w')) w
     \<longleftrightarrow> rechargeOutcome r d (fst (m w)) (w_db (snd (m w)))"
  by (auto simp: wp_def rechargeOutcome_def split: prod.splits sum.splits)

lemma booked_funds: "sameFunds d d1 \<Longrightarrow> booked r d1 d2 \<Longrightarrow> booked r d d2"
  "booked r d d1 \<Longrightarrow> sameFunds d1 d2 \<Longrightarrow> booked r d d2"
  by (simp_all add: booked_def sameFunds_def netFunding_def findBalance_def)

text \<open>Steps before and after the transaction that settles the outcome \<open>B\<close>.\<close>

definition stable :: "(db \<Rightarrow> bool) \<Rightarrow> bool" where
  "stable B \<longleftrightarrow> (\<forall>d1 d2. sameFunds d1 d2 \<longrightarrow> B d1 \<longrightarrow> B d2)"

lemma stable_booked: "stable (booked r d)"
  by (auto simp: stable_def intro: booked_funds)

lemma wp_before:
  assumes g: "guar (onDb sameFunds) m" and d: "sameFunds d (w_db w)"
    and f: "\<And>a w'. sameFunds d (w_db w') \<Longrightarrow> wp (f a) (\<lambda>_ w'. B (w_db w'))
        (\<lambda>_ w'. sameFunds d (w_db w') \<or> B (w_db w')) w'"
  shows "wp (bind m f) (\<lambda>_ w'. B (w_db w')) (\<lambda>_ w'. sameFunds d (w_db w') \<or> B (w_db w')) w"
  unfolding wp_bind
  by (rule wp_mono[OF guar_wp[OF g]]) (use d in \<open>auto simp: onDb_def intro!: f dest: sf.db_trans\<close>)

lemma wp_after:
  assumes m: "wp m (\<lambda>_ w'. B (w_db w')) (\<lambda>_ w'. sameFunds d (w_db w') \<or> B (w_db w')) w"
    and f: "\<And>a w'. B (w_db w') \<Longrightarrow> wp (f a) (\<lambda>_ w'. B (w_db w')) (\<lambda>_ w'. B (w_db w')) w'"
  shows "wp (bind m f) (\<lambda>_ w'. B (w_db w')) (\<lambda>_ w'. sameFunds d (w_db w') \<or> B (w_db w')) w"
  unfolding wp_bind by (rule wp_mono[OF m]) (auto elim: wp_mono dest: f)

lemma wp_settled:
  "stable B \<Longrightarrow> guar (onDb sameFunds) m \<Longrightarrow> B (w_db w) \<Longrightarrow>
   wp m (\<lambda>_ w'. B (w_db w')) (\<lambda>_ w'. B (w_db w')) w"
  by (rule wp_mono[OF guar_wp[where R = "onDb sameFunds"]]) (auto simp: onDb_def stable_def)

lemma wp_mapErr_frame:
  "wp m Q (\<lambda>_. E) w \<Longrightarrow> wp (mapErr g m) Q (\<lambda>_. E) w"
  by (simp add: wp_mapErr)

lemma wp_locked:
  fixes w :: "'u world" and body :: "('u, 'a) op"
  assumes s: "sameFunds d (w_db w)"
    and b: "\<And>w' :: 'u world. sameFunds d (w_db w') \<Longrightarrow> wp body (\<lambda>_ w'. B (w_db w')) (\<lambda>_ w'. sameFunds d (w_db w') \<or> B (w_db w')) w'"
  shows "wp (withLock g k body) (\<lambda>_ w'. B (w_db w')) (\<lambda>_ w'. sameFunds d (w_db w') \<or> B (w_db w')) w"
  unfolding withLock_def
proof (rule wp_before[OF _ s])
  show "guar (onDb sameFunds) (mapErr g pollCtx :: ('u, unit) op)" by (intro guar_intros)
  fix a and w1 :: "'u world" assume s1: "sameFunds d (w_db w1)"
  have "wp body (\<lambda>_ w'. B (w_db w')) (\<lambda>_ w'. sameFunds d (w_db w') \<or> B (w_db w')) (w1\<lparr>w_held := k # w_held w1\<rparr>)"
    using b[of "w1\<lparr>w_held := k # w_held w1\<rparr>"] s1 by simp
  then show "wp (holding k body) (\<lambda>_ w'. B (w_db w')) (\<lambda>_ w'. sameFunds d (w_db w') \<or> B (w_db w')) w1"
    using s1 by (auto simp: wp_def holding_def split: prod.splits sum.splits)
qed

lemma applyRecharge_outcome:
  fixes S :: "'u service"
  assumes wf: "moneyWf d" and d: "sameFunds d (w_db w)"
  shows "wp (applyRecharge S (r_org r) r) (\<lambda>_ w'. booked r d (w_db w'))
     (\<lambda>_ w'. sameFunds d (w_db w') \<or> booked r d (w_db w')) w"
proof -
  let ?Q = "\<lambda>_ w'. booked r d (w_db w')" and ?E = "\<lambda>_ w'. sameFunds d (w_db w') \<or> booked r d (w_db w')"
  have tx: "wp (mapErr passConflict (WithTx (rechargeTx (r_org r) r fit))) ?Q ?E w'"
    if s: "sameFunds d (w_db w')" for fit and w' :: "'u world"
  proof (rule wp_mapErr_frame, rule wp_WithTx[where P = "(=) (w_db w')"])
    have "moneyWf (w_db w')" using wf s by (simp add: moneyWf_def sameFunds_def)
    from rechargeTx_booked[OF this]
    show "dbval ((=) (w_db w')) (rechargeTx (r_org r) r fit :: ('u, balance) op) (\<lambda>_. booked r d)"
      by (rule dbval_weak) (rule booked_funds(1)[OF s])
  qed (use s in auto)
  show ?thesis
    unfolding applyRecharge_def
    by (rule wp_before[OF _ d], intro guar_intros, rule wp_before, intro guar_intros, assumption, rule wp_locked, assumption,
        rule wp_before, intro guar_intros, assumption, unfold Let_def, rule wp_after, rule tx, assumption)
       (auto simp: wp_bind intro!: wp_mono[OF wp_settled[OF stable_booked]] guar_intros simp: wp_return)
qed

lemma checks_sf [guar_intros]:
  "guar (onDb sameFunds) (checkLen s n :: ('v, unit) op)" "guar (onDb sameFunds) (checkText s n :: ('v, unit) op)"
  "guar (onDb sameFunds) (requireOrg org :: ('v, organization) op)"
  unfolding checkLen_def checkText_def requireOrg_def by (intro guar_intros)+

lemma wp_sf_throw: "sameFunds d (w_db w) \<Longrightarrow> wp (throw e) (\<lambda>_ w'. B (w_db w'))
   (\<lambda>_ w'. sameFunds d (w_db w') \<or> B (w_db w')) w"
  by (simp add: wp_throw)

lemma wp_cond: "(b \<Longrightarrow> wp m Q E w) \<Longrightarrow> (\<not> b \<Longrightarrow> wp n Q E w) \<Longrightarrow> wp (if b then m else n) Q E w"
  by simp

lemma Recharge_outcome:
  fixes S :: "'u service"
  assumes wf: "moneyWf (w_db w)"
  shows "rechargeOutcome (rechargeOf c org amount tno cny memo) (w_db w)
     (fst (Recharge S c org amount tno cny memo w)) (w_db (snd (Recharge S c org amount tno cny memo w)))"
proof -
  let ?r = "rechargeOf c org amount tno cny memo"
  note ap = applyRecharge_outcome[OF wf, of _ S ?r, unfolded rechargeOf_def, simplified, folded rechargeOf_def]
  have tail: "wp (bind (ignoreErr (recomputeOrgStatus S org bal)) (\<lambda>_. bind (audit c org act tgt i dt) (\<lambda>_. return bal)))
      (\<lambda>_ w'. booked ?r (w_db w) (w_db w')) (\<lambda>_ w'. booked ?r (w_db w) (w_db w')) w'"
    if "booked ?r (w_db w) (w_db w')" for bal act tgt i dt and w' :: "'u world"
    using that by (intro wp_settled[OF stable_booked] guar_intros)
  show ?thesis
    unfolding wp_outcome[symmetric] Recharge_def rechargeOf_def[symmetric]
    by (rule wp_cond | rule wp_sf_throw | rule wp_after[OF wp_mapErr_frame[OF ap]] | rule wp_before | assumption
          | rule sf.db_refl | rule guar_intros | rule sf.checks | rule tail)+
qed



text \<open>C4. Submitting a transfer number a second time credits nothing: the call fails and balances,
  journal and buckets stay as they are.\<close>

theorem duplicate_transfer_credits_nothing:
  assumes "moneyHistory S w" and "x \<in> set (recharges (w_db w))" "r_org x = org" "r_transfer_no x = tno"
  shows "isl (fst (Recharge S c org amount tno cny memo w))
       \<and> sameFunds (w_db w) (w_db (snd (Recharge S c org amount tno cny memo w)))"
proof -
  have "moneyWf (w_db w)" using moneyHistory_inv[OF assms(1)] by (simp add: moneyInv_def)
  from Recharge_outcome[OF this, of c org amount tno cny memo S] assms(2-4)
  show ?thesis by (auto simp: rechargeOutcome_def booked_def rechargeOf_def split: sum.splits)
qed

theorem duplicate_transfer_credits_nothing_witness:
  "isl (fst (Recharge (sampleSvc [] False True) (sampleClaims RoleOperator 9) 1 700 ''T2'' None '''' chargedWorld))"
proof -
  have "moneyHistory (sampleSvc [] False True) chargedWorld"
    unfolding chargedWorld_def
    by (intro moneyHistory.recharge moneyHistory.start) (simp_all add: sampleWorld_def unfunded_def fits64_def)
  moreover have "rechargeOf (sampleClaims RoleOperator 9) 1 500 ''T2'' None '''' \<in> set (recharges (w_db chargedWorld))"
    unfolding chargedWorld_def by code_simp
  ultimately show ?thesis
    using duplicate_transfer_credits_nothing[of "sampleSvc [] False True" chargedWorld] by (simp add: rechargeOf_def)
qed

section \<open>Refunds\<close>

definition refunded :: "int \<Rightarrow> int \<Rightarrow> db \<Rightarrow> db \<Rightarrow> bool" where
  "refunded org amount d d' \<longleftrightarrow> (\<exists>b. findBalance org d = Some b \<and> amount \<le> b_balance b
     \<and> findBalance org d' = Some (refundRow amount b))
     \<and> (\<forall>o'. o' \<noteq> org \<longrightarrow> findBalance o' d' = findBalance o' d)"

lemma stable_refunded: "stable (refunded org amount d)"
  by (simp add: stable_def sameFunds_def refunded_def findBalance_def)

lemma refunded_before: "sameFunds d d1 \<Longrightarrow> refunded org amount d1 d2 \<Longrightarrow> refunded org amount d d2"
  by (simp add: refunded_def sameFunds_def findBalance_def)

definition sameBalances :: "db \<Rightarrow> db \<Rightarrow> bool" where
  "sameBalances d d' \<longleftrightarrow> balances d' = balances d"

interpretation sb: org_frame sameBalances
  by unfold_locales (auto simp: sameBalances_def)

lemma DebitBalanceTx_refunded:
  assumes wf: "moneyWf d"
  shows "dbval ((=) d) (DebitBalanceTx org amount reason opr) (\<lambda>_. refunded org amount d)"
proof -
  let ?row = "\<lparr> rf_org = org, rf_amount = amount, rf_reason = reason, rf_operator = opr \<rparr>"
  let ?P = "\<lambda>vb d1. d1 = d \<and> (\<exists>b. findBalance org d = Some b \<and> vb = (b_version b, b_balance b))"
  have 1: "dbval ((=) d) (getRow (\<lambda>d. map_option (\<lambda>b. (b_version b, b_balance b)) (findBalance org d))) ?P"
    by (rule dbval_weak[OF dbval_getRow]) auto
  have upd: "dbval (\<lambda>d1. d1 = d\<lparr>refunds := refunds d @ [?row]\<rparr> \<and> findBalance org d = Some b \<and> amount \<le> b_balance b)
     (stmt (updateBalance org (b_version b) (refundRow amount))) (\<lambda>_. refunded org amount d)" for b
  proof (rule dbval_stmt)
    fix d1 n d2
    assume p: "d1 = d\<lparr>refunds := refunds d @ [?row]\<rparr> \<and> findBalance org d = Some b \<and> amount \<le> b_balance b"
      and u: "updateBalance org (b_version b) (refundRow amount) d1 = (Inr n, d2)"
    have f: "findBalance o' d1 = findBalance o' d" for o' using p by (simp add: findBalance_def)
    have "distinct (map b_org (balances d1))" using wf p by (simp add: moneyWf_def)
    from updateBalance_spec(2)[OF this _ u] p f
    have "balances d2 = updateKey b_org org (refundRow amount) (balances d1)" by simp
    then have "findBalance o' d2 = (if o' = org then map_option (refundRow amount) (findBalance o' d) else findBalance o' d)" for o'
      using findBalance_updateKey[where g = "refundRow amount" and o' = o' and d = d1 and org = org] f
      by (simp add: refundRow_def findBalance_def)
    then show "refunded org amount d d2" using p by (simp add: refunded_def)
  qed
  have rest: "dbval (?P vb) (case vb of (ver, bal) \<Rightarrow>
      if amount > bal then throw ErrInsufficientBalance
      else bind (exec (\<lambda>d. d\<lparr>refunds := refunds d @ [?row]\<rparr>)) (\<lambda>_.
        bind (stmt (updateBalance org ver (refundRow amount))) (\<lambda>n.
        if n \<noteq> 1 then throw ErrOptimisticLock else getBalanceTx org))) (\<lambda>_. refunded org amount d)" for vb
  proof (cases "\<exists>b. findBalance org d = Some b \<and> vb = (b_version b, b_balance b)")
    case True
    then obtain b where b: "findBalance org d = Some b" "vb = (b_version b, b_balance b)" by blast
    have ins: "dbval (?P vb) (exec (\<lambda>d. d\<lparr>refunds := refunds d @ [?row]\<rparr>))
       (\<lambda>_ d1. d1 = d\<lparr>refunds := refunds d @ [?row]\<rparr> \<and> findBalance org d = Some b \<and> amount \<le> b_balance b)"
      if "\<not> amount > b_balance b" by (rule dbval_exec) (use that b in auto)
    have fin: "dbval (refunded org amount d) (if n \<noteq> 1 then throw ErrOptimisticLock else getBalanceTx org)
       (\<lambda>_. refunded org amount d)" for n :: nat
      unfolding getBalanceTx_def by (intro dbval_if dbval_throw dbval_weak[OF dbval_queryRow]) simp
    show ?thesis
      unfolding b(2) prod.case
      by (rule dbval_if, rule dbval_throw, rule dbval_bind[OF ins[unfolded b(2)]], assumption, rule dbval_bind[OF upd], rule fin)
  qed (auto simp: dbval_def)
  show ?thesis unfolding DebitBalanceTx_def by (rule dbval_bind[OF 1 rest])
qed

lemma debitTx_refunded:
  assumes wf: "moneyWf d"
  shows "dbval ((=) d) (debitTx org amount reason opr) (\<lambda>_. refunded org amount d)"
proof -
  have holds: "guar (onDb sameBalances) (reduceHoldings hs n :: ('u, int) op)" for hs n
    by (induction hs arbitrary: n)
       (auto simp: UpdateEscrowBucketTx_def Let_def setBucket_def sameBalances_def intro!: guar_intros sb.bind' sb.basics sb.exec)
  have red: "guar (onDb sameBalances) (ReduceEscrowTx org n :: ('u, int) op)" for n
    unfolding ReduceEscrowTx_def Let_def GetActiveEscrowBucketTx_def UpdateEscrowBucketTx_def
    by (rule holds | rule guar_intros | (rule sb.exec, simp add: setBucket_def sameBalances_def))+
  show ?thesis
    unfolding debitTx_def
    by (rule dbval_bind[OF DebitBalanceTx_refunded[OF wf]], rule dbval_guar[where D = sameBalances])
       ((rule red | rule guar_intros)+, simp add: refunded_def sameBalances_def findBalance_def)
qed

definition refundOutcome :: "int \<Rightarrow> int \<Rightarrow> db \<Rightarrow> err + balance \<Rightarrow> db \<Rightarrow> bool" where
  "refundOutcome org amount d res d' \<longleftrightarrow> (case res of Inr _ \<Rightarrow> 0 < amount \<and> refunded org amount d d'
     | Inl _ \<Rightarrow> sameFunds d d' \<or> 0 < amount \<and> refunded org amount d d')"

lemma DebitBalance_outcome:
  fixes S :: "'u service"
  assumes wf: "moneyWf (w_db w)"
  shows "refundOutcome org amount (w_db w) (fst (DebitBalance S c org amount reason w))
     (w_db (snd (DebitBalance S c org amount reason w)))"
proof -
  let ?B = "\<lambda>d'. 0 < amount \<and> refunded org amount (w_db w) d'"
  have st: "stable ?B" using stable_refunded[of org amount "w_db w"] by (simp add: stable_def)
  have tx: "wp (mapErr debitErr (WithTx (debitTx org amount reason (actorOf c)))) (\<lambda>_ w'. ?B (w_db w'))
      (\<lambda>_ w'. sameFunds (w_db w) (w_db w') \<or> ?B (w_db w')) w'"
    if s: "sameFunds (w_db w) (w_db w')" and p: "\<not> amount \<le> 0" for w' :: "'u world"
  proof (rule wp_mapErr_frame, rule wp_WithTx[where P = "(=) (w_db w')"])
    have "moneyWf (w_db w')" using wf s by (simp add: moneyWf_def sameFunds_def)
    from debitTx_refunded[OF this]
    show "dbval ((=) (w_db w')) (debitTx org amount reason (actorOf c) :: ('u, balance \<times> int) op) (\<lambda>_. ?B)"
      by (rule dbval_weak) (use p refunded_before[OF s] in auto)
  qed (use s in auto)
  have tail: "wp (case r of (bal, windowDec) \<Rightarrow>
      bind (guard_when (windowDec > 0) (ignoreErr (upcall (na_ManageUserQuota (sv_up S) uid QuotaSubtract windowDec)))) (\<lambda>_.
      bind (ignoreErr (recomputeOrgStatus S org bal)) (\<lambda>_.
      bind (audit c org ''refund_debit'' ''balance'' (Some org) [(''amount'', JInt amount),
              (''reason'', JStr reason), (''balance_after'', JInt (b_balance bal))]) (\<lambda>_.
      return bal)))) (\<lambda>_ w'. ?B (w_db w')) (\<lambda>_ w'. ?B (w_db w')) w'" if "?B (w_db w')" for r uid and w' :: "'u world"
    using that by (intro wp_settled[OF st] guar_intros)
  have "wp (DebitBalance S c org amount reason) (\<lambda>_ w'. ?B (w_db w')) (\<lambda>_ w'. sameFunds (w_db w) (w_db w') \<or> ?B (w_db w')) w"
    unfolding DebitBalance_def
  proof (rule wp_cond, rule wp_sf_throw, rule sf.db_refl, rule wp_before, rule sf.checks, rule sf.db_refl,
      rule wp_cond, rule wp_sf_throw, assumption, rule wp_cond, rule wp_sf_throw, assumption,
      rule wp_before, rule guar_intros, assumption, rule wp_before, intro guar_intros, assumption)
    fix cr and w' :: "'u world"
    assume s: "sameFunds (w_db w) (w_db w')" and p: "\<not> amount \<le> 0"
    show "wp (case cr of None \<Rightarrow> throw InvalidParam | Some (uid, _) \<Rightarrow>
      withLock internal (escrowLockKey org) (
      bind (mapErr debitErr (WithTx (debitTx org amount reason (actorOf c)))) (\<lambda>(bal, windowDec).
      bind (guard_when (windowDec > 0)
              (ignoreErr (upcall (na_ManageUserQuota (sv_up S) uid QuotaSubtract windowDec)))) (\<lambda>_.
      bind (ignoreErr (recomputeOrgStatus S org bal)) (\<lambda>_.
      bind (audit c org ''refund_debit'' ''balance'' (Some org) [(''amount'', JInt amount),
              (''reason'', JStr reason), (''balance_after'', JInt (b_balance bal))]) (\<lambda>_.
      return bal))))))
      (\<lambda>_ w'. ?B (w_db w')) (\<lambda>_ w'. sameFunds (w_db w) (w_db w') \<or> ?B (w_db w')) w'"
    proof (cases cr)
      case None
      show ?thesis unfolding None option.case by (rule wp_sf_throw[OF s])
    next
      case (Some uk)
      show ?thesis
        unfolding Some option.case
        by (cases uk, simp only: prod.case, rule wp_locked[OF s], rule wp_after, rule tx[OF _ p], assumption, rule tail)
    qed
  qed
  then show ?thesis by (auto simp: wp_def refundOutcome_def split: prod.splits sum.splits)
qed



end
