(* ===== verification/EscrowClaims.thy ===== *)
theory EscrowClaims
  imports MoneyClaims
begin

text \<open>
  The window on the upstream side.  \<open>q\<close> reads the wallet quota of a new-api user from the server's
  state; \<open>walletOk\<close> is the documented behaviour of the two wallet calls.
\<close>

definition walletOk :: "'u service \<Rightarrow> ('u \<Rightarrow> int \<Rightarrow> int) \<Rightarrow> bool" where
  "walletOk S q \<longleftrightarrow> (\<forall>u uid. fits64 (q u uid)
     \<and> (case na_GetUserQuota (sv_up S) uid u of (Inl _, u') \<Rightarrow> u' = u | (Inr n, u') \<Rightarrow> u' = u \<and> n = q u uid)
     \<and> (\<forall>n. \<forall>i. let u' = snd (na_ManageUserQuota (sv_up S) uid QuotaAdd n u) in q u' i = q u i \<or> i = uid \<and> q u' i = q u i + n)
     \<and> (\<forall>n. \<forall>i. let u' = snd (na_ManageUserQuota (sv_up S) uid QuotaSubtract n u) in q u' i = q u i \<or> i = uid \<and> q u' i = q u i - n))"

definition onUp :: "('u \<Rightarrow> 'u \<Rightarrow> bool) \<Rightarrow> 'u world \<Rightarrow> 'u world \<Rightarrow> bool" where
  "onUp U w w' \<longleftrightarrow> U (w_up w) (w_up w')"

lemma sameUp_onUp: "guar sameUp m \<Longrightarrow> (\<And>u. U u u) \<Longrightarrow> guar (onUp U) m"
  by (auto simp: guar_def sameUp_def onUp_def)

lemma wp_getQuota:
  assumes "walletOk S q" "Q (q (w_up w) uid) w" "\<And>e. E (g e) w"
  shows "wp (mapErr g (upcall (na_GetUserQuota (sv_up S) uid))) Q E w"
proof -
  have "case na_GetUserQuota (sv_up S) uid (w_up w) of (Inl _, u') \<Rightarrow> u' = w_up w
      | (Inr n, u') \<Rightarrow> u' = w_up w \<and> n = q (w_up w) uid"
    using assms(1) by (simp add: walletOk_def)
  then show ?thesis
    using assms(2,3) unfolding wp_mapErr by (auto simp: wp_def upcall_def split: prod.splits sum.splits)
qed

lemma wp_manageQuota:
  assumes "\<And>w'. w_db w' = w_db w \<Longrightarrow> w_up w' = snd (na_ManageUserQuota (sv_up S) uid mode n (w_up w)) \<Longrightarrow> P w'"
  shows "wp (upcall (na_ManageUserQuota (sv_up S) uid mode n)) (\<lambda>_. P) (\<lambda>_. P) w"
  using assms by (auto simp: wp_def upcall_def split: prod.splits sum.splits)

section \<open>Refills stay below the cap\<close>

definition capped :: "('u \<Rightarrow> int \<Rightarrow> int) \<Rightarrow> 'u \<Rightarrow> 'u \<Rightarrow> bool" where
  "capped q u u' \<longleftrightarrow> (\<forall>i. q u' i \<le> max (q u i) escrowWindowCap)"

interpretation cap: guarantee "onUp (capped q) :: 'u world \<Rightarrow> 'u world \<Rightarrow> bool" for q
proof unfold_locales
  fix s t u :: "'u world" assume a: "onUp (capped q) s t" "onUp (capped q) t u"
  have "q (w_up u) i \<le> max (q (w_up s) i) escrowWindowCap" for i
  proof -
    have "q (w_up t) i \<le> max (q (w_up s) i) escrowWindowCap" "q (w_up u) i \<le> max (q (w_up t) i) escrowWindowCap"
      using a by (auto simp: onUp_def capped_def)
    then show ?thesis by (simp add: max_def split: if_splits)
  qed
  then show "onUp (capped q) s u" by (simp add: onUp_def capped_def)
qed (simp add: onUp_def capped_def)

lemma dbval_any: "dbval (\<lambda>_. True) k (\<lambda>_ _. True)"
  by (auto simp: dbval_def wp_def split: prod.splits sum.splits)

lemma mergeLoop_le: "dbval (\<lambda>_. True) (mergeLoop n org rem m :: ('u, int) op) (\<lambda>r _. r \<le> m + max 0 rem)"
proof (induction n arbitrary: rem m)
  case 0
  show ?case by (simp add: mergeLoop.simps dbval_throw)
next
  case (Suc n)
  have step: "dbval (\<lambda>_. True) (mergeLoop n org (rem - tk) (m + tk) :: ('u, int) op) (\<lambda>r _. r \<le> m + max 0 rem)"
    if "tk \<le> rem" "0 < rem" for tk
    by (rule dbval_weak[OF Suc.IH]) (use that in auto)
  show ?case
    unfolding mergeLoop.simps Let_def
    by (intro dbval_if dbval_bind[OF dbval_any] dbval_return; (split sum.split)?; (intro conjI allI impI)?;
        (intro dbval_if dbval_return dbval_throw dbval_bind[OF dbval_any] step)?; simp)
qed

lemma Merge_le: "0 < n \<Longrightarrow> dbval (\<lambda>_. True) (MergeHoldingIntoActiveTx org n) (\<lambda>r _. r \<le> n)"
proof -
  assume n: "0 < n"
  have loop: "dbval (\<lambda>_. True) (mergeLoop k org n 0) (\<lambda>r _. r \<le> n)" for k
    by (rule dbval_weak[OF mergeLoop_le]) (use n in auto)
  have fin: "dbval (\<lambda>_. r \<le> n) (if r > 0 then bind (UpdateEscrowBucketTx i a st) (\<lambda>_. return r) else return r) (\<lambda>r _. r \<le> n)"
    for r i a st
    by (intro dbval_if dbval_bind[where R = "\<lambda>_ _. r \<le> n"] dbval_return)
       (auto simp: dbval_def wp_def split: prod.splits sum.splits)
  show ?thesis
    unfolding MergeHoldingIntoActiveTx_def if_not_P[OF n[folded not_le]]
    by (rule dbval_bind[OF dbval_any], split sum.split, intro conjI allI impI)
       (use n in \<open>auto intro!: dbval_if dbval_throw dbval_return dbval_bind[OF dbval_any] dbval_bind[OF loop] fin\<close>)
qed

lemma sameUp_Merge [guar_intros]: "guar sameUp (MergeHoldingIntoActiveTx org n)"
proof -
  have "guar sameUp (mergeLoop k org r m)" for k r m
    by (induction k arbitrary: r m)
       (auto simp: mergeLoop.simps NextHoldingBucketTx_def UpdateEscrowBucketTx_def Let_def intro!: guar_intros)
  then show ?thesis
    unfolding MergeHoldingIntoActiveTx_def GetActiveEscrowBucketTx_def UpdateEscrowBucketTx_def
    by (intro guar_intros)
qed

lemma guar_wpI: "(\<And>w. wp m (\<lambda>_ w'. R w w') (\<lambda>_ w'. R w w') w) \<Longrightarrow> guar R m"
  by (simp add: guar_def wp_snd)

lemma guar_up_holding: "(\<And>u. U u u) \<Longrightarrow> guar (onUp U) body \<Longrightarrow> guar (onUp U) (holding k body)"
  by (rule guar_holding_frame) (auto simp: onUp_def)

lemma capped_lock: "guar (onUp (capped q)) body \<Longrightarrow> guar (onUp (capped q)) (withLock g k body)"
  unfolding withLock_def
  by (rule cap.bind, rule sameUp_onUp, intro guar_intros, simp add: capped_def, rule guar_up_holding)
     (simp_all add: capped_def)

lemma sameUp_orgCred [guar_intros]: "guar sameUp (orgCred S org)"
  unfolding orgCred_def loadOrgCred_def decryptToken_def GetOrgNewapiCred_def by (intro guar_intros)

lemma refillToWindow_capped:
  fixes S :: "'u service"
  assumes ok: "walletOk S q"
  shows "guar (onUp (capped q)) (refillToWindow S org trig)"
  unfolding refillToWindow_def
proof (rule cap.bind, rule sameUp_onUp[OF sameUp_orgCred], simp add: capped_def, rule capped_lock)
  fix c
  let ?uid = "cr_user c"
  show "guar (onUp (capped q)) (bind (mapErr mapUpstream (upcall (na_GetUserQuota (sv_up S) ?uid))) (\<lambda>win.
     if win \<ge> trig then return 0
     else let space = i64 (escrowWindowCap - win)
     in if space \<le> 0 then return 0
     else
     bind (mapErr internal (WithTx (MergeHoldingIntoActiveTx org space))) (\<lambda>merged.
     bind (guard_when (merged > 0)
             (ignoreErr (upcall (na_ManageUserQuota (sv_up S) ?uid QuotaAdd merged)))) (\<lambda>_.
     return merged))))"
  proof (rule guar_wpI)
    fix w :: "'u world"
    let ?win = "q (w_up w) ?uid" and ?R = "\<lambda>_ w'. onUp (capped q) w w'"
    have refl: "onUp (capped q) w w" by (rule cap.refl)
    have space: "i64 (escrowWindowCap - ?win) \<le> escrowWindowCap - ?win" if "0 < i64 (escrowWindowCap - ?win)"
    proof (cases "fits64 (escrowWindowCap - ?win)")
      case False
      have "fits64 ?win" using ok by (simp add: walletOk_def)
      then show ?thesis using False fits64_i64[of "escrowWindowCap - ?win"]
        unfolding fits64_def escrowWindowCap_def by linarith
    qed simp
    have le: "a \<le> i64 (escrowWindowCap - ?win) \<Longrightarrow> 0 < a \<Longrightarrow> a \<le> escrowWindowCap - ?win" for a
      using space by linarith
    have add: "wp (upcall (na_ManageUserQuota (sv_up S) ?uid QuotaAdd n)) ?R ?R w'"
      if n: "n \<le> escrowWindowCap - ?win" and up: "w_up w' = w_up w" for n and w' :: "'u world"
    proof (rule wp_manageQuota)
      fix w'' :: "'u world" assume "w_up w'' = snd (na_ManageUserQuota (sv_up S) ?uid QuotaAdd n (w_up w'))"
      then have "q (w_up w'') i = q (w_up w) i \<or> i = ?uid \<and> q (w_up w'') i = q (w_up w) i + n" for i
        using ok up by (simp add: walletOk_def Let_def)
      then have "q (w_up w'') i \<le> max (q (w_up w) i) escrowWindowCap" for i
        using n by (smt (verit))
      then show "onUp (capped q) w w''" by (simp add: onUp_def capped_def)
    qed
    have merge: "wp (WithTx (MergeHoldingIntoActiveTx org n)) (\<lambda>r w'. r \<le> n \<and> w_up w' = w_up w) (\<lambda>_ w'. w_up w' = w_up w) w"
      if "0 < n" for n
    proof -
      have 1: "wp (WithTx (MergeHoldingIntoActiveTx org n)) (\<lambda>r _. r \<le> n) (\<lambda>_ _. True) w"
        by (rule wp_mono[OF WithTx_atomic[OF Merge_le[OF that]]]) auto
      have 2: "wp (WithTx (MergeHoldingIntoActiveTx org n)) (\<lambda>_ w'. sameUp w w') (\<lambda>_ w'. sameUp w w') w"
        by (intro guar_wp guar_intros)
      show ?thesis by (rule wp_mono[OF wp_conj[OF 1 2]]) (auto simp: sameUp_def)
    qed
    show "wp (bind (mapErr mapUpstream (upcall (na_GetUserQuota (sv_up S) ?uid))) (\<lambda>win.
       if win \<ge> trig then return 0
       else let space = i64 (escrowWindowCap - win)
       in if space \<le> 0 then return 0
       else
       bind (mapErr internal (WithTx (MergeHoldingIntoActiveTx org space))) (\<lambda>merged.
       bind (guard_when (merged > 0)
               (ignoreErr (upcall (na_ManageUserQuota (sv_up S) ?uid QuotaAdd merged)))) (\<lambda>_.
       return merged)))) ?R ?R w"
      unfolding wp_bind Let_def
      by (rule wp_getQuota[OF ok])
         (auto simp: wp_simps refl onUp_def[of "capped q"] capped_def intro!: wp_mono[OF merge] wp_mono[OF add]
            intro: le)
  qed
qed

lemma sameUp_money_reads [guar_intros]:
  "guar sameUp (recomputeThresholdAuto org)" "guar sameUp (GetEscrowConfig org)" "guar sameUp (escrowThreshold org)"
  unfolding recomputeThresholdAuto_def EscrowUsageStats_def UpsertThresholdAuto_def GetEscrowConfig_def
    escrowThreshold_def Let_def by (intro guar_intros)+


definition sampleWallet :: "sample \<Rightarrow> int \<Rightarrow> int" where
  "sampleWallet s i = i64 (sa_quota s i)"

lemma sample_walletOk: "walletOk (sampleSvc logs b f) sampleWallet"
  by (auto simp: walletOk_def sampleSvc_def sampleUp_def sampleWallet_def gets_def Let_def)


section \<open>Reconciliation takes away only\<close>

definition lowered :: "('u \<Rightarrow> int \<Rightarrow> int) \<Rightarrow> 'u \<Rightarrow> 'u \<Rightarrow> bool" where
  "lowered q u u' \<longleftrightarrow> (\<forall>i. q u' i = q u i \<or> 0 \<le> q u' i \<and> q u' i < q u i)"

interpretation low: guarantee "onUp (lowered q) :: 'u world \<Rightarrow> 'u world \<Rightarrow> bool" for q
proof unfold_locales
  fix s t u :: "'u world" assume a: "onUp (lowered q) s t" "onUp (lowered q) t u"
  have "q (w_up u) i = q (w_up s) i \<or> 0 \<le> q (w_up u) i \<and> q (w_up u) i < q (w_up s) i" for i
  proof -
    have "q (w_up t) i = q (w_up s) i \<or> 0 \<le> q (w_up t) i \<and> q (w_up t) i < q (w_up s) i"
      "q (w_up u) i = q (w_up t) i \<or> 0 \<le> q (w_up u) i \<and> q (w_up u) i < q (w_up t) i"
      using a by (simp_all add: onUp_def lowered_def)
    then show ?thesis by linarith
  qed
  then show "onUp (lowered q) s u" by (simp add: onUp_def lowered_def)
qed (simp add: onUp_def lowered_def)

lemma lowered_up: "guar sameUp m \<Longrightarrow> guar (onUp (lowered q)) m"
  by (erule sameUp_onUp) (simp add: lowered_def)

lemma windowTarget_nonneg: "0 \<le> windowTarget r c b"
  by (simp add: windowTarget_def Let_def)

lemma correctWindow_lowered:
  fixes S :: "'u service" and w :: "'u world"
  assumes ok: "walletOk S q" and t: "0 \<le> target" and up: "w_up w = u"
  shows "wp (correctWindow S org uid target (q u uid)) (\<lambda>_ w'. lowered q u (w_up w')) (\<lambda>_ w'. lowered q u (w_up w')) w"
proof (cases "target < q u uid")
  case False
  then show ?thesis using up by (simp add: correctWindow_def wp_return lowered_def)
next
  case True
  have "fits64 (q u uid)" using ok by (simp add: walletOk_def)
  then have d: "i64 (q u uid - target) = q u uid - target" using True t by (intro i64_id) (simp add: fits64_def)
  have sub: "wp (upcall (na_ManageUserQuota (sv_up S) uid QuotaSubtract (q u uid - target)))
      (\<lambda>_ w'. lowered q u (w_up w')) (\<lambda>_ w'. lowered q u (w_up w')) w'" if w': "w_up w' = u" for w' :: "'u world"
  proof (rule wp_manageQuota)
    fix w'' :: "'u world"
    assume "w_up w'' = snd (na_ManageUserQuota (sv_up S) uid QuotaSubtract (q u uid - target) (w_up w'))"
    then have "q (w_up w'') i = q u i \<or> i = uid \<and> q (w_up w'') i = q u i - (q u uid - target)" for i
      using ok w' by (simp add: walletOk_def Let_def)
    then show "lowered q u (w_up w'')" using t True unfolding lowered_def by (smt (verit))
  qed
  have audit: "wp (guard_when b (auditSystem org act tgt i dt res)) (\<lambda>_ w'. w_up w' = u) (\<lambda>_ w'. w_up w' = u) w"
    for b act tgt i dt res
    by (rule wp_mono[OF guar_wp[where R = sameUp]]) (auto simp: sameUp_def up intro!: guar_intros)
  show ?thesis
    unfolding correctWindow_def Let_def d if_P[OF True]
    by (subst wp_bind, rule wp_mono[OF audit], subst wp_mapErr, rule sub, assumption) (simp add: lowered_def)
qed



section \<open>Thresholds\<close>

text \<open>C8. The automatic refill threshold is always within its floor and ceiling, whatever the usage
  statistics (also when their sum wraps), is the default for a new organization, and the alarm for
  an over-heavy organization is raised only at the ceiling.\<close>

theorem auto_threshold_range:
  "let (auto, over) = computeAutoThreshold peak single hist
   in escrowFloor \<le> auto \<and> auto \<le> escrowCeil \<and> (\<not> hist \<longrightarrow> auto = escrowDefaultNew) \<and> (over \<longrightarrow> auto = escrowCeil)"
  by (auto simp: computeAutoThreshold_def escrow_consts Let_def)

theorem auto_threshold_range_witness:
  "computeAutoThreshold 0 0 False = (escrowDefaultNew, False) \<and> snd (computeAutoThreshold (2 ^ 62) 5 True)"
proof
  show "computeAutoThreshold 0 0 False = (escrowDefaultNew, False)"
    using auto_threshold_range[of 0 0 False] by (simp add: computeAutoThreshold_def)
  show "snd (computeAutoThreshold (2 ^ 62) 5 True)" by code_simp
qed

end
