(* ===== verification/Approvals.thy ===== *)
theory Approvals
  imports Quota
begin

text \<open>
  Approval of quota raises and model openings (\<open>service/approval.go\<close>): classification of a new
  request, the two review stages, and the grant that an approved request turns into.
\<close>

section \<open>Rules\<close>

definition approvalAutoMaxQuota :: int where "approvalAutoMaxQuota = 50000000000"
definition approvalAutoMaxDays :: int where "approvalAutoMaxDays = 1"
definition approvalL1MaxQuota :: int where "approvalL1MaxQuota = 150000000000"

definition GetApprovalRules :: "int \<Rightarrow> ('u, int \<times> int \<times> int) op" where
  "GetApprovalRules org =
     getRow (\<lambda>d. map_option (\<lambda>o'. (o_auto_max_quota o', o_auto_max_days o', o_l1_max_quota o')) (findOrg org d))"

definition durationDays :: "string \<Rightarrow> int \<Rightarrow> int" where
  "durationDays dur now =
     (if dur = '''' \<or> dur = ''today'' then 1
      else if dur = ''3d'' then 3
      else if dur = ''week'' then 7
      else case parseRFC3339 dur of
             None \<Rightarrow> 1
           | Some t \<Rightarrow> let days = hoursOver24 (subTime t now) + 1 in if days < 1 then 1 else days)"

definition memberHasModel :: "member \<Rightarrow> string \<Rightarrow> ('u, bool) op" where
  "memberHasModel m name =
     (case m_tier m of None \<Rightarrow> return True
      | Some tid \<Rightarrow> bind (attempt (GetTier (m_org m) tid)) (\<lambda>r. return (case r of
            Inl _ \<Rightarrow> True
          | Inr t \<Rightarrow> if tr_model_set t = [] then True else name \<in> set (tr_model_set t))))"

text \<open>State and level of a new request.\<close>

definition classifyRequest :: "bool \<Rightarrow> int \<Rightarrow> int \<Rightarrow> int \<times> int \<times> int \<Rightarrow> approval_state \<times> bool" where
  "classifyRequest newModel amount days rules =
     (case rules of (autoMax, autoDays, l1Max) \<Rightarrow>
        if \<not> newModel \<and> amount \<le> autoMax \<and> days \<le> autoDays then (ApprovalAutoApprove, False)
        else if \<not> newModel \<and> amount \<le> l1Max then (ApprovalPending, False)
        else (ApprovalPending, True))"

section \<open>Dispatch\<close>

definition approvalGrant :: "approval \<Rightarrow> int \<Rightarrow> grant" where
  "approvalGrant a expire =
     \<lparr> g_id = 0, g_org = a_org a, g_member = a_applicant a,
       g_type = (if a_type a = ReqModelOpen then GrantModelAdd else GrantQuotaAdd),
       g_payload = (if a_type a = ReqModelOpen
                    then \<lparr> gp_delta = 0, gp_duration = '''', gp_model = ap_model (a_payload a) \<rparr>
                    else \<lparr> gp_delta = ap_amount (a_payload a), gp_duration = ap_duration (a_payload a), gp_model = '''' \<rparr>),
       g_reason = None, g_operator = ''approval:'' @ itoa (a_id a), g_expire = expire,
       g_status = GrantStatusActive, g_reverted = None \<rparr>"

definition dispatchApproval :: "'u service \<Rightarrow> approval \<Rightarrow> member \<Rightarrow> ('u, unit) op" where
  "dispatchApproval S a m =
     bind clock (\<lambda>now.
     case durationToExpiry (ap_duration (a_payload a)) now of
       None \<Rightarrow> throw InvalidParam
     | Some expire \<Rightarrow>
         bind (CreateGrant (approvalGrant a expire)) (\<lambda>_.
         if a_type a = ReqModelOpen then return ()
         else guard_when (m_bootstrap m = BootstrapDone \<and> m_token m \<noteq> None)
                (bind (applyMemberOverride S m) (\<lambda>_. return ()))))"

section \<open>Submission\<close>

definition unauthenticatedOrInternal :: "err \<Rightarrow> err" where
  "unauthenticatedOrInternal e = (if errorsIs e ErrNotFound then Unauthenticated else internal e)"

definition SubmitApproval :: "'u service \<Rightarrow> claims \<Rightarrow> string \<Rightarrow> int \<Rightarrow> string \<Rightarrow> string \<Rightarrow> ('u, approval) op" where
  "SubmitApproval S c model amount dur reason =
     (if amount \<le> 0 then throw InvalidParam
      else
      bind (mapErr unauthenticatedOrInternal (GetMember (cl_org c) (cl_member c))) (\<lambda>m.
      bind (checkText reason maxNoteLen) (\<lambda>_.
      bind (if model = '''' then return False
            else bind (memberHasModel m model) (\<lambda>has. return (\<not> has))) (\<lambda>newModel.
      bind clock (\<lambda>now.
      bind (attempt (GetApprovalRules (cl_org c))) (\<lambda>rr.
      let rules = (case rr of Inr r \<Rightarrow> r | Inl _ \<Rightarrow> (approvalAutoMaxQuota, approvalAutoMaxDays, approvalL1MaxQuota));
          (st, level2) = classifyRequest newModel amount (durationDays dur now) rules;
          a0 = \<lparr> a_id = 0, a_org = cl_org c, a_applicant = cl_member c, a_team = m_team m,
                 a_type = (if newModel then ReqModelOpen else ReqQuotaRaise),
                 a_payload = \<lparr> ap_model = model, ap_amount = amount, ap_duration = dur, ap_reason = reason \<rparr>,
                 a_state = st, a_level2 = level2, a_l1 = None, a_l2 = None, a_reject = None \<rparr>
      in
      bind (mapErr internal (CreateApproval a0)) (\<lambda>i.
      let a = a0\<lparr>a_id := i\<rparr>
      in
      bind (if st = ApprovalAutoApprove then
              bind (attempt (dispatchApproval S a m)) (\<lambda>dr.
              bind (notify (cl_org c) (cl_member c) ''approval_result'') (\<lambda>_.
              return (case dr of Inr _ \<Rightarrow> True | Inl _ \<Rightarrow> False)))
            else return False) (\<lambda>dispatched.
      bind (audit c (cl_org c) ''submit_approval'' ''approval'' (Some i)
              [(''state'', JApproval st), (''amount'', JInt amount), (''model'', JStr model),
               (''level2'', JBool level2), (''dispatched'', JBool dispatched)]) (\<lambda>_.
      bind (attempt (GetApproval (cl_org c) i)) (\<lambda>fr.
      return (case fr of Inr full \<Rightarrow> full | Inl _ \<Rightarrow> a)))))))))))"

section \<open>Decision\<close>

definition errHandled :: err where "errHandled = newErr 20902 409"

text \<open>Who may decide a request in the given state.\<close>

definition assertDecider :: "claims \<Rightarrow> approval \<Rightarrow> ('u, unit) op" where
  "assertDecider c a =
     (case a_state a of
        ApprovalPending \<Rightarrow>
          bind (assertRole c [RoleOrgAdmin, RoleTeamLeader]) (\<lambda>_.
          guard_when (cl_role c = RoleTeamLeader) (assertTeamScope c (a_team a)))
      | ApprovalL1Approved \<Rightarrow> assertRole c [RoleOrgAdmin]
      | _ \<Rightarrow> throw errHandled)"

definition reviewCol :: "approval \<Rightarrow> reviewer_col" where
  "reviewCol a = (if a_state a = ApprovalL1Approved then ColL2 else ColL1)"

definition advanceOrHandled :: "int \<Rightarrow> approval_state \<Rightarrow> approval_state \<Rightarrow> reviewer_col \<Rightarrow> int \<Rightarrow> string option \<Rightarrow> ('u, unit) op" where
  "advanceOrHandled i fromState toState col reviewer reason =
     bind (mapErr internal (AdvanceApproval i fromState toState col reviewer reason)) (\<lambda>won.
     if won then return () else throw errHandled)"

definition rejectApproval :: "claims \<Rightarrow> approval \<Rightarrow> string \<Rightarrow> ('u, approval) op" where
  "rejectApproval c a comment =
     bind (advanceOrHandled (a_id a) (a_state a) ApprovalRejected (reviewCol a) (cl_member c) (optStr comment)) (\<lambda>_.
     bind (notify (a_org a) (a_applicant a) ''approval_result'') (\<lambda>_.
     bind (audit c (a_org a) ''decide_approval'' ''approval'' (Some (a_id a)) [(''approved'', JBool False)]) (\<lambda>_.
     GetApproval (cl_org c) (a_id a))))"

definition approveL1 :: "claims \<Rightarrow> approval \<Rightarrow> ('u, approval) op" where
  "approveL1 c a =
     bind (advanceOrHandled (a_id a) ApprovalPending ApprovalL1Approved ColL1 (cl_member c) None) (\<lambda>_.
     bind (notify (a_org a) (a_applicant a) ''approval_result'') (\<lambda>_.
     bind (audit c (a_org a) ''decide_approval'' ''approval'' (Some (a_id a))
             [(''approved'', JBool True), (''stage'', JStr ''l1'')]) (\<lambda>_.
     GetApproval (cl_org c) (a_id a))))"

definition approveFinal :: "'u service \<Rightarrow> claims \<Rightarrow> approval \<Rightarrow> ('u, approval) op" where
  "approveFinal S c a =
     bind (advanceOrHandled (a_id a) (a_state a) ApprovalApproved (reviewCol a) (cl_member c) None) (\<lambda>_.
     bind (attempt (GetMember (a_org a) (a_applicant a))) (\<lambda>mr.
     bind (case mr of Inl _ \<Rightarrow> return False
           | Inr m \<Rightarrow> bind (attempt (dispatchApproval S a m)) (\<lambda>dr.
               return (case dr of Inr _ \<Rightarrow> True | Inl _ \<Rightarrow> False))) (\<lambda>dispatched.
     bind (notify (a_org a) (a_applicant a) ''approval_result'') (\<lambda>_.
     bind (audit c (a_org a) ''decide_approval'' ''approval'' (Some (a_id a))
             [(''approved'', JBool True), (''stage'', JStr ''final''), (''dispatched'', JBool dispatched)]) (\<lambda>_.
     GetApproval (cl_org c) (a_id a))))))"

definition DecideApproval :: "'u service \<Rightarrow> claims \<Rightarrow> int \<Rightarrow> bool \<Rightarrow> string \<Rightarrow> ('u, approval) op" where
  "DecideApproval S c i approved comment =
     bind (checkText comment maxNoteLen) (\<lambda>_.
     bind (mapErr notFoundOrInternal (GetApproval (cl_org c) i)) (\<lambda>a.
     bind (assertDecider c a) (\<lambda>_.
     if \<not> approved then rejectApproval c a comment
     else if a_state a = ApprovalPending \<and> a_level2 a then approveL1 c a
     else approveFinal S c a)))"

definition ListApprovals :: "claims \<Rightarrow> approval_state option \<Rightarrow> nat \<Rightarrow> nat \<Rightarrow> ('u, approval list \<times> nat) op" where
  "ListApprovals c st limit offset =
     (case cl_role c of
        RoleOperator \<Rightarrow> ListApprovalsRepo (cl_org c) st None None limit offset
      | RoleOrgAdmin \<Rightarrow> ListApprovalsRepo (cl_org c) st None None limit offset
      | RoleTeamLeader \<Rightarrow> ListApprovalsRepo (cl_org c) st (Some (cl_team c)) None limit offset
      | _ \<Rightarrow> ListApprovalsRepo (cl_org c) st None (Some (cl_member c)) limit offset)"

end
