(* ===== verification/ApprovalClaims.thy ===== *)
theory ApprovalClaims
  imports Approvals Sample
begin

text \<open>
  The state machine of approval requests.  A request is closed when it was approved, rejected or
  passed automatically; a closed request never changes again, and one of the second level is
  approved only with both reviewers on record.
\<close>

section \<open>The state machine\<close>

definition closedApproval :: "approval \<Rightarrow> bool" where
  "closedApproval a \<longleftrightarrow> a_state a \<notin> {ApprovalPending, ApprovalL1Approved}"

definition approvalOk :: "approval \<Rightarrow> bool" where
  "approvalOk a \<longleftrightarrow>
     (a_state a = ApprovalApproved \<longrightarrow> a_l1 a \<noteq> None \<and> (a_level2 a \<longrightarrow> a_l2 a \<noteq> None))
   \<and> (a_state a = ApprovalL1Approved \<longrightarrow> a_level2 a \<and> a_l1 a \<noteq> None)
   \<and> (a_state a = ApprovalAutoApprove \<longrightarrow> \<not> a_level2 a)"

definition approvalsOk :: "db \<Rightarrow> bool" where
  "approvalsOk d \<longleftrightarrow> distinct (map a_id (approvals d)) \<and> (\<forall>a \<in> set (approvals d). approvalOk a)"

definition approvalMoves :: "db \<Rightarrow> db \<Rightarrow> bool" where
  "approvalMoves d d' \<longleftrightarrow> (approvalsOk d \<longrightarrow> approvalsOk d' \<and>
     (\<forall>a \<in> set (approvals d). closedApproval a \<longrightarrow> a \<in> set (approvals d')))"

lemma approvalMoves_refl: "approvalMoves d d"
  by (simp add: approvalMoves_def)

lemma approvalMoves_trans: "approvalMoves d e \<Longrightarrow> approvalMoves e f \<Longrightarrow> approvalMoves d f"
  unfolding approvalMoves_def by blast

lemma approvalMoves_same: "approvals d' = approvals d \<Longrightarrow> approvalMoves d d'"
  by (simp add: approvalMoves_def approvalsOk_def)

interpretation am: org_frame approvalMoves
  by unfold_locales (fact approvalMoves_refl, erule (1) approvalMoves_trans, simp_all add: approvalMoves_same)

lemma CreateGrant_am [guar_intros]: "guar (onDb approvalMoves) (CreateGrant g :: ('v, int) op)"
  unfolding CreateGrant_def by (intro am.stmt) (simp add: approvalMoves_same Let_def)

lemma dispatch_am [guar_intros]: "guar (onDb approvalMoves) (dispatchApproval S a m :: ('v, unit) op)"
  unfolding dispatchApproval_def by (intro guar_intros)

lemma reads_am [guar_intros]:
  "guar (onDb approvalMoves) (GetApproval org i :: ('v, approval) op)"
  "guar (onDb approvalMoves) (GetMember org i :: ('v, member) op)"
  "guar (onDb approvalMoves) (GetApprovalRules org :: ('v, int \<times> int \<times> int) op)"
  unfolding GetApproval_def GetMember_def GetApprovalRules_def by (intro am.getRow)+

lemma checkText_am [guar_intros]: "guar (onDb approvalMoves) (checkText s k :: ('v, unit) op)"
  unfolding checkText_def checkLen_def by (intro guar_intros)

lemma memberHasModel_am [guar_intros]: "guar (onDb approvalMoves) (memberHasModel m n :: ('v, bool) op)"
  unfolding memberHasModel_def GetTier_def by (intro guar_intros)

text \<open>One statement of a decision: the row just read moves along an edge of the machine.\<close>

definition edge :: "approval \<Rightarrow> approval_state \<Rightarrow> reviewer_col \<Rightarrow> bool" where
  "edge a to col \<longleftrightarrow> (a_state a = ApprovalPending \<and> col = ColL1 \<and> (to = ApprovalRejected \<or> to = ApprovalL1Approved \<and> a_level2 a
       \<or> to = ApprovalApproved \<and> \<not> a_level2 a))
   \<or> (a_state a = ApprovalL1Approved \<and> col = ColL2 \<and> (to = ApprovalRejected \<or> to = ApprovalApproved))"

lemma advance_moves:
  assumes a: "a \<in> set (approvals d)" and e: "edge a to col"
  shows "approvalMoves d (d\<lparr>approvals := map (\<lambda>x. if a_id x = a_id a \<and> a_state x = a_state a
           then setReview to col rv reason x else x) (approvals d)\<rparr>)"
proof -
  have only: "x = a" if "distinct (map a_id (approvals d))" "x \<in> set (approvals d)" "a_id x = a_id a" for x
    using that a by (metis distinct_map inj_onD)
  have ok: "approvalOk a \<Longrightarrow> approvalOk (setReview to col rv reason a)"
    using e by (auto simp: edge_def approvalOk_def setReview_def)
  have opn: "\<not> closedApproval a" using e by (auto simp: edge_def closedApproval_def)
  have ids: "map a_id (map (\<lambda>x. if a_id x = a_id a \<and> a_state x = a_state a then setReview to col rv reason x else x) (approvals d))
      = map a_id (approvals d)" by (auto simp: setReview_def)
  show ?thesis
    unfolding approvalMoves_def approvalsOk_def
  proof (intro impI conjI ballI)
    assume d: "distinct (map a_id (approvals d)) \<and> (\<forall>a \<in> set (approvals d). approvalOk a)"
    show "distinct (map a_id (approvals (d\<lparr>approvals := map (\<lambda>x. if a_id x = a_id a \<and> a_state x = a_state a
           then setReview to col rv reason x else x) (approvals d)\<rparr>)))" using d by (simp add: ids del: map_map)
    show "approvalOk y" if "y \<in> set (approvals (d\<lparr>approvals := map (\<lambda>x. if a_id x = a_id a \<and> a_state x = a_state a
           then setReview to col rv reason x else x) (approvals d)\<rparr>))" for y
      using that d only ok by (auto split: if_splits)
    show "x \<in> set (approvals (d\<lparr>approvals := map (\<lambda>x. if a_id x = a_id a \<and> a_state x = a_state a
           then setReview to col rv reason x else x) (approvals d)\<rparr>))"
      if "x \<in> set (approvals d)" "closedApproval x" for x
      using that d only opn by (auto intro!: rev_image_eqI[of x])
  qed
qed

section \<open>Decisions\<close>

interpretation sameApprovals: org_frame "\<lambda>d d'. approvals d' = approvals d"
  by unfold_locales auto

lemma reads_same [guar_intros]:
  "guar (onDb (\<lambda>d d'. approvals d' = approvals d)) (GetApproval org i :: ('v, approval) op)"
  "guar (onDb (\<lambda>d d'. approvals d' = approvals d)) (checkText s k :: ('v, unit) op)"
  unfolding GetApproval_def checkText_def checkLen_def by (intro guar_intros)+

text \<open>An operation that moves requests along the machine from the world \<open>w\<close> on.\<close>

definition moves :: "('u, 'a) op \<Rightarrow> 'u world \<Rightarrow> bool" where
  "moves m w \<longleftrightarrow> approvalMoves (w_db w) (w_db (snd (m w)))"

lemma moves_guar: "guar (onDb approvalMoves) m \<Longrightarrow> moves m w"
  by (drule guarD[where s = w]) (simp add: moves_def onDb_def)

lemma guar_moves: "(\<And>w. moves m w) \<Longrightarrow> guar (onDb approvalMoves) m"
  by (simp add: guar_def moves_def onDb_def)

lemma moves_then: "moves m w \<Longrightarrow> (\<And>a w'. moves (f a) w') \<Longrightarrow> moves (bind m f) w"
  unfolding moves_def bind_def
  by (auto split: prod.splits sum.splits) (metis approvalMoves_trans snd_conv)+

lemma moves_after:
  assumes m: "guar (onDb (\<lambda>d d'. approvals d' = approvals d)) m"
    and k: "wp m K (\<lambda>_ _. True) w"
    and f: "\<And>a w'. approvals (w_db w') = approvals (w_db w) \<Longrightarrow> K a w' \<Longrightarrow> moves (f a) w'"
  shows "moves (bind m f) w"
proof (cases "m w")
  case (Pair r w')
  have same: "approvals (w_db w') = approvals (w_db w)"
    using guarD'[OF m Pair] by (simp add: onDb_def)
  show ?thesis
  proof (cases r)
    case (Inl e)
    then show ?thesis using same by (simp add: moves_def bind_def Pair approvalMoves_same)
  next
    case (Inr a)
    have "K a w'" using k Pair Inr by (simp add: wp_def)
    from f[OF same this] show ?thesis
      using approvalMoves_trans[OF approvalMoves_same[OF same]] by (simp add: moves_def bind_def Pair Inr)
  qed
qed

lemma advance_step:
  assumes a: "a \<in> set (approvals (w_db w))" and e: "edge a to col"
  shows "moves (advanceOrHandled (a_id a) (a_state a) to col rv reason) w"
proof -
  have "moves (AdvanceApproval (a_id a) (a_state a) to col rv reason) w"
    unfolding AdvanceApproval_def
  proof (rule moves_then)
    show "moves (stmt (\<lambda>d. let hit = (\<lambda>x. a_id x = a_id a \<and> a_state x = a_state a)
        in (Inr (length (filter hit (approvals d))),
            d\<lparr>approvals := map (\<lambda>x. if hit x then setReview to col rv reason x else x) (approvals d)\<rparr>))) w"
      using advance_moves[OF a e, of rv reason]
      by (auto simp: moves_def stmt_def Let_def approvalMoves_refl split: list.splits fault.splits)
  qed (simp add: moves_def return_def approvalMoves_refl)
  then have "moves (mapErr internal (AdvanceApproval (a_id a) (a_state a) to col rv reason)) w"
    by (auto simp: moves_def mapErr_def split: prod.splits sum.splits)
  then show ?thesis unfolding advanceOrHandled_def
    by (rule moves_then) (simp add: moves_def return_def throw_def approvalMoves_refl)
qed

lemma tail_am [guar_intros]:
  "guar (onDb approvalMoves) (bind (notify o' m k) (\<lambda>_. bind (audit c o' act tgt i dt) (\<lambda>_. GetApproval org j)) :: ('v, approval) op)"
  by (intro guar_intros)

lemma assertDecider_same: "guar (onDb (\<lambda>d d'. approvals d' = approvals d)) (assertDecider c a :: ('v, unit) op)"
proof -
  have "assertDecider c a w = (fst (assertDecider c a w), w)" for w :: "'v world"
    by (auto simp: assertDecider_def assertRole_def assertTeamScope_def ensure_def guard_when_def bind_def return_def throw_def
        split: approval_state.splits option.splits)
  then show ?thesis by (metis (mono_tags) guar_def onDb_def snd_conv)
qed

lemma DecideApproval_am: "guar (onDb approvalMoves) (DecideApproval S c i ok cm)"
proof (rule guar_moves)
  fix w
  let ?K = "\<lambda>a w'. a \<in> set (approvals (w_db w'))"
  have read: "wp (mapErr g (GetApproval org i)) ?K (\<lambda>_ _. True) w" for g org w
    unfolding GetApproval_def getRow_def queryRow_def
    by (auto simp: wp_mapErr intro!: wp_stmtI split: option.splits dest: find_key_Some)
  have decider: "wp (assertDecider c a) (\<lambda>_ w'. a_state a \<in> {ApprovalPending, ApprovalL1Approved} \<and> w' = w) (\<lambda>_ _. True) w" for a w
    by (auto simp: assertDecider_def assertRole_def assertTeamScope_def wp_simps split: approval_state.splits option.splits)
  have step: "moves (if \<not> ok then rejectApproval c a cm
     else if a_state a = ApprovalPending \<and> a_level2 a then approveL1 c a else approveFinal S c a) w"
    if row: "a \<in> set (approvals (w_db w))" and st: "a_state a \<in> {ApprovalPending, ApprovalL1Approved}" for a w
  proof -
    have e: "\<not> ok \<Longrightarrow> edge a ApprovalRejected (reviewCol a)"
      "a_state a = ApprovalPending \<and> a_level2 a \<Longrightarrow> edge a ApprovalL1Approved ColL1"
      "\<not> (a_state a = ApprovalPending \<and> a_level2 a) \<Longrightarrow> edge a ApprovalApproved (reviewCol a)"
      using st by (auto simp: edge_def reviewCol_def)
    have r: "\<not> ok \<Longrightarrow> moves (rejectApproval c a cm) w"
      unfolding rejectApproval_def
      by (rule moves_then[OF advance_step[OF row]], erule e, rule moves_guar, rule tail_am)
    have l: "moves (approveL1 c a) w" if s: "a_state a = ApprovalPending \<and> a_level2 a"
    proof -
      have "moves (advanceOrHandled (a_id a) ApprovalPending ApprovalL1Approved ColL1 (cl_member c) None) w"
        using advance_step[OF row e(2)[OF s], of "cl_member c" None] s by simp
      then show ?thesis unfolding approveL1_def by (rule moves_then) (rule moves_guar, rule tail_am)
    qed
    have f: "\<not> (a_state a = ApprovalPending \<and> a_level2 a) \<Longrightarrow> moves (approveFinal S c a) w"
      unfolding approveFinal_def
      by (rule moves_then[OF advance_step[OF row]], erule e, rule moves_guar, intro guar_intros)
    show ?thesis using r l f by simp
  qed
  show "moves (DecideApproval S c i ok cm) w"
    unfolding DecideApproval_def
  proof (rule moves_after[where K = "\<lambda>_ _. True"])
    show "wp (checkText cm maxNoteLen) (\<lambda>_ _. True) (\<lambda>_ _. True) w" by (simp add: wp_snd)
    fix w1 :: "'a world"
    show "moves (bind (mapErr notFoundOrInternal (GetApproval (cl_org c) i)) (\<lambda>a. bind (assertDecider c a) (\<lambda>_.
       if \<not> ok then rejectApproval c a cm
       else if a_state a = ApprovalPending \<and> a_level2 a then approveL1 c a else approveFinal S c a))) w1"
      by (rule moves_after[OF _ read], intro guar_intros, rule moves_after[OF assertDecider_same decider], rule step)
         auto
  qed (intro guar_intros)
qed

lemma CreateApproval_am:
  assumes "\<And>i. approvalOk (a\<lparr>a_id := i, a_l1 := None, a_l2 := None, a_reject := None\<rparr>)"
  shows "guar (onDb approvalMoves) (CreateApproval a :: ('v, int) op)"
  unfolding CreateApproval_def
proof (intro am.stmt)
  fix d :: db
  have "next_id (map a_id (approvals d)) \<notin> a_id ` set (approvals d)"
    using next_id_fresh[of "map a_id (approvals d)"] by simp
  then show "approvalMoves d (snd (let i = next_id (map a_id (approvals d)) in (Inr i, d\<lparr>approvals := approvals d
      @ [a\<lparr>a_id := i, a_l1 := None, a_l2 := None, a_reject := None\<rparr>]\<rparr>)))"
    using assms by (auto simp: approvalMoves_def approvalsOk_def Let_def)
qed

lemma SubmitApproval_am: "guar (onDb approvalMoves) (SubmitApproval S c model amount dur reason)"
proof -
  have ok: "classifyRequest nm amount n rules = (st, lv) \<Longrightarrow>
     approvalOk \<lparr> a_id = i, a_org = o', a_applicant = m, a_team = t, a_type = ty, a_payload = p, a_state = st,
        a_level2 = lv, a_l1 = None, a_l2 = None, a_reject = None \<rparr>" for nm n rules st lv i o' m t ty p
    by (auto simp: classifyRequest_def approvalOk_def split: prod.splits if_splits)
  show ?thesis
    unfolding SubmitApproval_def Let_def
    by (rule guar_prod_eq | rule CreateApproval_am | rule guar_intros | simp add: ok; fail)+
qed

section \<open>The properties\<close>

text \<open>The worlds that submissions, decisions and steps that leave requests alone pass through.\<close>

inductive approvalHistory :: "'u service \<Rightarrow> 'u world \<Rightarrow> bool" for S where
  start: "approvals (w_db w) = [] \<Longrightarrow> approvalHistory S w"
| submit: "approvalHistory S w \<Longrightarrow> approvalHistory S (snd (SubmitApproval S c model amount dur reason w))"
| decide: "approvalHistory S w \<Longrightarrow> approvalHistory S (snd (DecideApproval S c i ok cm w))"
| other: "approvalHistory S w \<Longrightarrow> approvals (w_db w') = approvals (w_db w) \<Longrightarrow> approvalHistory S w'"

lemma am_step: "guar (onDb approvalMoves) m \<Longrightarrow> approvalsOk (w_db w) \<Longrightarrow> approvalsOk (w_db (snd (m w)))
     \<and> (\<forall>a \<in> set (approvals (w_db w)). closedApproval a \<longrightarrow> a \<in> set (approvals (w_db (snd (m w)))))"
  by (drule guarD[where s = w]) (simp add: onDb_def approvalMoves_def)

lemma approvalHistory_ok: "approvalHistory S w \<Longrightarrow> approvalsOk (w_db w)"
proof (induction rule: approvalHistory.induct)
  case (start w)
  then show ?case by (simp add: approvalsOk_def)
next
  case (other w w')
  then show ?case by (simp add: approvalsOk_def)
qed (blast dest: am_step[OF SubmitApproval_am] am_step[OF DecideApproval_am])+


text \<open>Who may decide a request.\<close>

definition mayDecide :: "claims \<Rightarrow> approval \<Rightarrow> bool" where
  "mayDecide c a \<longleftrightarrow> a_org a = cl_org c
     \<and> (a_state a = ApprovalPending \<and> (cl_role c = RoleOrgAdmin
           \<or> cl_role c = RoleTeamLeader \<and> cl_team c \<noteq> 0 \<and> a_team a = Some (cl_team c))
        \<or> a_state a = ApprovalL1Approved \<and> cl_role c = RoleOrgAdmin)"

definition untouched :: "'u world \<Rightarrow> 'u world \<Rightarrow> bool" where
  "untouched w w' \<longleftrightarrow> approvals (w_db w') = approvals (w_db w) \<and> grants (w_db w') = grants (w_db w) \<and> w_up w' = w_up w"

text \<open>C10. Only an authorized reviewer decides: a decision that succeeds, that changes requests or
  grants, or that reaches new-api was made on a request of the caller's organization by its
  administrator, or, at the first level, by the leader of the applicant's team.\<close>

theorem only_reviewers_decide:
  assumes "DecideApproval S c i ok cm w = (r, w')" and "\<not> isl r \<or> \<not> untouched w w'"
  shows "\<exists>a \<in> set (approvals (w_db w)). a_id a = i \<and> mayDecide c a"
proof (rule ccontr)
  assume no: "\<not> (\<exists>a \<in> set (approvals (w_db w)). a_id a = i \<and> mayDecide c a)"
  have note_ok: "wp (checkText cm maxNoteLen) (\<lambda>_ w1. w1 = w) (\<lambda>_ w1. w1 = w) w"
    by (simp add: checkText_def checkLen_def wp_simps)
  have read: "wp (mapErr notFoundOrInternal (GetApproval (cl_org c) i))
     (\<lambda>a w1. untouched w w1 \<and> a \<in> set (approvals (w_db w)) \<and> a_id a = i \<and> a_org a = cl_org c) (\<lambda>_ w1. untouched w w1) w"
    unfolding GetApproval_def getRow_def queryRow_def
    by (auto simp: wp_mapErr untouched_def intro!: wp_stmtI split: option.splits dest: find_key_Some)
  have decider: "wp (assertDecider c a) (\<lambda>_ _. a_org a = cl_org c \<longrightarrow> mayDecide c a) (\<lambda>_ w2. w2 = w1) w1" for a and w1 :: "'a world"
    by (auto simp: assertDecider_def assertRole_def assertTeamScope_def wp_simps mayDecide_def
        split: approval_state.splits option.splits)
  have "wp (DecideApproval S c i ok cm) (\<lambda>_ _. False) (\<lambda>_ w1. untouched w w1) w"
    unfolding DecideApproval_def wp_bind
    by (rule wp_mono[OF note_ok], simp, rule wp_mono[OF read], rule wp_mono[OF decider])
       (use no in \<open>auto simp: untouched_def\<close>)
  then show False using assms by (auto simp: wp_def split: sum.splits)
qed

section \<open>Instances\<close>

definition raiseWorld :: "sample world" where
  "raiseWorld = snd (SubmitApproval (sampleSvc [] False True) (sampleClaims RoleMember 2) '''' 5000 ''3d'' ''why'' (sampleWorld sampleDb 100))"

definition approvedWorld :: "sample world" where
  "approvedWorld = snd (DecideApproval (sampleSvc [] False True) (sampleClaims RoleOrgAdmin 1) 1 True '''' raiseWorld)"

lemma approved_rows: "map (\<lambda>a. (a_id a, a_state a, a_l1 a)) (approvals (w_db raiseWorld)) = [(1, ApprovalPending, None)]"
  "map (\<lambda>a. (a_id a, a_state a, a_l1 a)) (approvals (w_db approvedWorld)) = [(1, ApprovalApproved, Some 1)]"
  unfolding approvedWorld_def raiseWorld_def by code_simp+


theorem only_reviewers_decide_witness:
  "\<exists>a \<in> set (approvals (w_db raiseWorld)). a_id a = 1 \<and> mayDecide (sampleClaims RoleOrgAdmin 1) a"
proof -
  let ?m = "DecideApproval (sampleSvc [] False True) (sampleClaims RoleOrgAdmin 1) 1 True ''''"
  have "\<not> isl (fst (?m raiseWorld))" unfolding raiseWorld_def by code_simp
  then show ?thesis
    using only_reviewers_decide[of "sampleSvc [] False True" "sampleClaims RoleOrgAdmin 1" 1 True "''''" raiseWorld
        "fst (?m raiseWorld)" "snd (?m raiseWorld)"] by simp
qed

end
