(* ===== verification/GoEncoding.thy ===== *)
theory GoEncoding
  imports Rbac
begin

text \<open>
  The two encodings of Go's standard library that a session token uses: \<open>base64.RawURLEncoding\<close>
  and the JSON of flat values (\<open>encoding/json\<close>).  Bytes are characters; bytes above 0x7f are
  taken to be well-formed UTF-8, which both encodings copy.  The parser takes the whole JSON
  grammar; \<open>fuel\<close> bounds its nesting and repetition and is the length of the input.
\<close>

section \<open>Base64, URL alphabet, no padding\<close>

definition b64Alphabet :: string where
  "b64Alphabet = ''ABCDEFGHIJKLMNOPQRSTUVWXYZabcdefghijklmnopqrstuvwxyz0123456789-_''"

definition b64Char :: "nat \<Rightarrow> char" where "b64Char n = b64Alphabet ! n"

definition b64Val :: "char \<Rightarrow> nat option" where
  "b64Val c = (let n = (of_char c :: nat) in
     if 65 \<le> n \<and> n \<le> 90 then Some (n - 65)
     else if 97 \<le> n \<and> n \<le> 122 then Some (n - 71)
     else if 48 \<le> n \<and> n \<le> 57 then Some (n + 4)
     else if n = 45 then Some 62 else if n = 95 then Some 63 else None)"

fun b64Groups :: "nat list \<Rightarrow> nat list" where
  "b64Groups (x # y # z # r) = (x div 4) # (x mod 4 * 16 + y div 16) # (y mod 16 * 4 + z div 64) # (z mod 64) # b64Groups r"
| "b64Groups [x, y] = [x div 4, x mod 4 * 16 + y div 16, y mod 16 * 4]"
| "b64Groups [x] = [x div 4, x mod 4 * 16]"
| "b64Groups [] = []"

fun b64Bytes :: "nat list \<Rightarrow> nat list option" where
  "b64Bytes (a # b # c # d # r) = map_option (\<lambda>t. (a * 4 + b div 16) # ((b mod 16) * 16 + c div 4) # ((c mod 4) * 64 + d) # t) (b64Bytes r)"
| "b64Bytes [a, b, c] = Some [a * 4 + b div 16, (b mod 16) * 16 + c div 4]"
| "b64Bytes [a, b] = Some [a * 4 + b div 16]"
| "b64Bytes [a] = None"
| "b64Bytes [] = Some []"

definition b64Encode :: "string \<Rightarrow> string" where
  "b64Encode s = map b64Char (b64Groups (map of_char s))"

text \<open>The decoder skips line breaks and does not look at the unused bits of the last digit.\<close>

definition b64Decode :: "string \<Rightarrow> string option" where
  "b64Decode s = (let vs = map b64Val (filter (\<lambda>c. c \<notin> {CHR 0x0A, CHR 0x0D}) s)
     in if None \<in> set vs then None else map_option (map char_of) (b64Bytes (map the vs)))"

lemma b64_values: "map b64Val b64Alphabet = map Some [0..<64]"
  by (simp add: b64Alphabet_def b64Val_def upt_rec)

lemma b64_plain: "list_all (\<lambda>c. c \<noteq> CHR 0x0A \<and> c \<noteq> CHR 0x0D \<and> c \<noteq> CHR ''.'') b64Alphabet"
  by (simp add: b64Alphabet_def)

lemma b64_digits: "n < 64 \<Longrightarrow> b64Val (b64Char n) = Some n"
  "n < 64 \<Longrightarrow> b64Char n \<noteq> CHR 0x0A \<and> b64Char n \<noteq> CHR 0x0D \<and> b64Char n \<noteq> CHR ''.''"
proof -
  have len: "length b64Alphabet = 64" by (simp add: b64Alphabet_def)
  show "n < 64 \<Longrightarrow> b64Val (b64Char n) = Some n"
    using arg_cong[OF b64_values, of "\<lambda>l. l ! n"] by (simp add: b64Char_def len)
  show "n < 64 \<Longrightarrow> b64Char n \<noteq> CHR 0x0A \<and> b64Char n \<noteq> CHR 0x0D \<and> b64Char n \<noteq> CHR ''.''"
    using b64_plain len by (auto simp: b64Char_def list_all_iff dest!: bspec[OF _ nth_mem[of n]])
qed

lemma glue: "r < m \<Longrightarrow> (q * m + r) div m = (q :: nat)" "r < m \<Longrightarrow> (q * m + r) mod m = (r :: nat)"
  by simp_all

lemma b64Groups_range: "(\<And>x. x \<in> set xs \<Longrightarrow> x < 256) \<Longrightarrow> g \<in> set (b64Groups xs) \<Longrightarrow> g < 64"
proof (induction xs rule: b64Groups.induct)
  case (1 x y z r)
  have "x < 256" "y < 256" "z < 256" using 1(2) by auto
  moreover have "x mod 4 < 4" "y mod 16 < 16" "z mod 64 < 64" by simp_all
  ultimately have "x div 4 < 64" "x mod 4 * 16 + y div 16 < 64" "y mod 16 * 4 + z div 64 < 64" by linarith+
  then show ?case using 1 by auto
next
  case (2 x y)
  have "x < 256" "y < 256" using 2(1) by auto
  moreover have "x mod 4 < 4" "y mod 16 < 16" by simp_all
  ultimately have "x div 4 < 64" "x mod 4 * 16 + y div 16 < 64" "y mod 16 * 4 < 64" by linarith+
  then show ?case using 2 by auto
next
  case (3 x)
  have "x < 256" using 3(1) by auto
  moreover have "x mod 4 < 4" by simp
  ultimately have "x div 4 < 64" "x mod 4 * 16 < 64" by linarith+
  then show ?case using 3 by auto
qed simp

lemma b64Bytes_Groups: "(\<And>x. x \<in> set xs \<Longrightarrow> x < 256) \<Longrightarrow> b64Bytes (b64Groups xs) = Some xs"
proof (induction xs rule: b64Groups.induct)
  case (1 x y z r)
  have "x < 256" "y < 256" "z < 256" using 1(2) by auto
  then have "y div 16 < 16" "z div 64 < 4" by linarith+
  then show ?case using 1 by (simp add: glue)
next
  case (2 x y)
  have "y < 256" using 2(1) by auto
  then have "y div 16 < 16" by linarith
  then show ?case by (simp add: glue)
qed simp_all

lemma bytes_small: "x \<in> set (map of_char s) \<Longrightarrow> x < (256 :: nat)" for s :: string
  by (auto simp: nat_of_char_less_256)

lemma b64_roundtrip: "b64Decode (b64Encode s) = Some s"
proof -
  let ?g = "b64Groups (map of_char s)"
  have r: "\<forall>n \<in> set ?g. n < 64" by (intro ballI b64Groups_range[of "map of_char s"] bytes_small)
  have f: "filter (\<lambda>c. c \<notin> {CHR 0x0A, CHR 0x0D}) (map b64Char ?g) = map b64Char ?g"
    using r b64_digits(2) by (auto simp: filter_id_conv)
  have v: "map b64Val (map b64Char ?g) = map Some ?g" using r b64_digits(1) by auto
  have "b64Bytes ?g = Some (map of_char s)" by (intro b64Bytes_Groups bytes_small)
  then show ?thesis unfolding b64Decode_def b64Encode_def Let_def f v by (auto simp: o_def)
qed

lemma b64Encode_no_dot: "CHR ''.'' \<notin> set (b64Encode s)"
proof -
  have "\<forall>n \<in> set (b64Groups (map of_char s)). n < 64" by (intro ballI b64Groups_range[of "map of_char s"] bytes_small)
  then show ?thesis using b64_digits(2) by (fastforce simp: b64Encode_def)
qed

section \<open>JSON values\<close>

datatype jvalue = VNull | VBool bool | VNum string | VStr string | VArr "jvalue list" | VObj "(string \<times> jvalue) list"

definition isWs :: "char \<Rightarrow> bool" where
  "isWs c \<longleftrightarrow> c \<in> {CHR 0x20, CHR 0x09, CHR 0x0A, CHR 0x0D}"

definition skipWs :: "string \<Rightarrow> string" where "skipWs = dropWhile isWs"

definition hexVal :: "char \<Rightarrow> nat option" where
  "hexVal c = (let n = (of_char c :: nat) in
     if 48 \<le> n \<and> n \<le> 57 then Some (n - 48) else if 65 \<le> n \<and> n \<le> 70 then Some (n - 55)
     else if 97 \<le> n \<and> n \<le> 102 then Some (n - 87) else None)"

definition hex4 :: "string \<Rightarrow> (nat \<times> string) option" where
  "hex4 s = (case s of
      a # b # c # d # r \<Rightarrow> (case (hexVal a, hexVal b, hexVal c, hexVal d) of
         (Some w, Some x, Some y, Some z) \<Rightarrow> Some (w * 4096 + x * 256 + y * 16 + z, r) | _ \<Rightarrow> None)
    | _ \<Rightarrow> None)"

definition utf8 :: "nat \<Rightarrow> string" where
  "utf8 n = map char_of
     (if n < 0x80 then [n]
      else if n < 0x800 then [0xC0 + n div 64, 0x80 + n mod 64]
      else if n < 0x10000 then [0xE0 + n div 4096, 0x80 + n div 64 mod 64, 0x80 + n mod 64]
      else [0xF0 + n div 262144, 0x80 + n div 4096 mod 64, 0x80 + n div 64 mod 64, 0x80 + n mod 64])"

text \<open>An escape \<open>\u....\<close>; a surrogate without its partner becomes U+FFFD.\<close>

definition unicodeEscape :: "string \<Rightarrow> (string \<times> string) option" where
  "unicodeEscape s = (case hex4 s of
      None \<Rightarrow> None
    | Some (n, r) \<Rightarrow>
        if 0xD800 \<le> n \<and> n < 0xDC00 then
          (case r of
             c # d # r' \<Rightarrow> (if c = CHR 0x5C \<and> d = CHR ''u'' then
                (case hex4 r' of
                   Some (m, r'') \<Rightarrow> if 0xDC00 \<le> m \<and> m < 0xE000
                      then Some (utf8 (0x10000 + (n - 0xD800) * 1024 + (m - 0xDC00)), r'') else Some (utf8 0xFFFD, r)
                 | None \<Rightarrow> Some (utf8 0xFFFD, r))
               else Some (utf8 0xFFFD, r))
           | _ \<Rightarrow> Some (utf8 0xFFFD, r))
        else if 0xDC00 \<le> n \<and> n < 0xE000 then Some (utf8 0xFFFD, r)
        else Some (utf8 n, r))"

definition simpleEscape :: "char \<Rightarrow> char option" where
  "simpleEscape c =
     (if c \<in> {CHR 0x22, CHR 0x5C, CHR ''/''} then Some c
      else if c = CHR ''b'' then Some (CHR 0x08) else if c = CHR ''f'' then Some (CHR 0x0C)
      else if c = CHR ''n'' then Some (CHR 0x0A) else if c = CHR ''r'' then Some (CHR 0x0D)
      else if c = CHR ''t'' then Some (CHR 0x09) else None)"

text \<open>The rest of a string literal, after its opening quote.\<close>

fun parseStr :: "nat \<Rightarrow> string \<Rightarrow> (string \<times> string) option" where
  "parseStr 0 s = None"
| "parseStr (Suc k) s = (case s of
      [] \<Rightarrow> None
    | c # r \<Rightarrow>
        if c = CHR 0x22 then Some ([], r)
        else if (of_char c :: nat) < 0x20 then None
        else if c = CHR 0x5C then
          (case r of
             [] \<Rightarrow> None
           | e # r' \<Rightarrow>
               if e = CHR ''u'' then
                 (case unicodeEscape r' of None \<Rightarrow> None
                  | Some (u, r'') \<Rightarrow> map_option (\<lambda>(t, q). (u @ t, q)) (parseStr k r''))
               else (case simpleEscape e of None \<Rightarrow> None
                  | Some x \<Rightarrow> map_option (\<lambda>(t, q). (x # t, q)) (parseStr k r')))
        else map_option (\<lambda>(t, q). (c # t, q)) (parseStr k r))"

definition numChar :: "char \<Rightarrow> bool" where
  "numChar c \<longleftrightarrow> isDigit c \<or> c \<in> {CHR ''-'', CHR ''+'', CHR ''.'', CHR ''e'', CHR ''E''}"

text \<open>The number grammar: sign, integer without leading zeros, fraction, exponent.\<close>

definition digits1 :: "string \<Rightarrow> bool" where "digits1 s \<longleftrightarrow> s \<noteq> [] \<and> list_all isDigit s"

definition numOk :: "string \<Rightarrow> bool" where
  "numOk s =
     (let s1 = (case s of c # r \<Rightarrow> if c = CHR ''-'' then r else s | [] \<Rightarrow> s);
          ip = takeWhile isDigit s1; s2 = dropWhile isDigit s1
      in digits1 ip \<and> (hd ip = CHR ''0'' \<longrightarrow> length ip = 1)
       \<and> (let (fok, s3) = (case s2 of c # r \<Rightarrow> if c = CHR ''.'' then (takeWhile isDigit r \<noteq> [], dropWhile isDigit r) else (True, s2)
                                     | [] \<Rightarrow> (True, s2))
          in fok \<and> (case s3 of [] \<Rightarrow> True
                   | c # r \<Rightarrow> c \<in> {CHR ''e'', CHR ''E''}
                       \<and> digits1 (case r of d # r' \<Rightarrow> if d \<in> {CHR ''-'', CHR ''+''} then r' else r | [] \<Rightarrow> r))))"

definition parseLit :: "string \<Rightarrow> jvalue \<Rightarrow> string \<Rightarrow> (jvalue \<times> string) option" where
  "parseLit w v s = (if take (length w) s = w then Some (v, drop (length w) s) else None)"

text \<open>A value, the elements of an array, and the members of an object; the latter two start
  after the opening bracket.\<close>

fun parseVal :: "nat \<Rightarrow> string \<Rightarrow> (jvalue \<times> string) option"
  and parseElems :: "nat \<Rightarrow> string \<Rightarrow> (jvalue list \<times> string) option"
  and parseMembers :: "nat \<Rightarrow> string \<Rightarrow> ((string \<times> jvalue) list \<times> string) option" where
  "parseVal 0 s = None"
| "parseVal (Suc k) s = (case skipWs s of
      [] \<Rightarrow> None
    | c # r \<Rightarrow>
        if c = CHR 0x22 then map_option (\<lambda>(t, q). (VStr t, q)) (parseStr (length r) r)
        else if c = CHR ''{'' then
          (case skipWs r of
             d # q \<Rightarrow> if d = CHR ''}'' then Some (VObj [], q) else map_option (\<lambda>(ms, q). (VObj ms, q)) (parseMembers k r)
           | [] \<Rightarrow> None)
        else if c = CHR ''['' then
          (case skipWs r of
             d # q \<Rightarrow> if d = CHR '']'' then Some (VArr [], q) else map_option (\<lambda>(es, q). (VArr es, q)) (parseElems k r)
           | [] \<Rightarrow> None)
        else if c = CHR ''t'' then parseLit ''true'' (VBool True) (c # r)
        else if c = CHR ''f'' then parseLit ''false'' (VBool False) (c # r)
        else if c = CHR ''n'' then parseLit ''null'' VNull (c # r)
        else let n = takeWhile numChar (c # r)
             in if numOk n then Some (VNum n, dropWhile numChar (c # r)) else None)"
| "parseElems 0 s = None"
| "parseElems (Suc k) s = (case parseVal k s of
      None \<Rightarrow> None
    | Some (v, r) \<Rightarrow> (case skipWs r of
         [] \<Rightarrow> None
       | c # q \<Rightarrow> if c = CHR '','' then map_option (\<lambda>(vs, p). (v # vs, p)) (parseElems k q)
                   else if c = CHR '']'' then Some ([v], q) else None))"
| "parseMembers 0 s = None"
| "parseMembers (Suc k) s = (case skipWs s of
      [] \<Rightarrow> None
    | c # r \<Rightarrow> if c \<noteq> CHR 0x22 then None
        else (case parseStr (length r) r of
          None \<Rightarrow> None
        | Some (key, r1) \<Rightarrow> (case skipWs r1 of
             [] \<Rightarrow> None
           | d # r2 \<Rightarrow> if d \<noteq> CHR '':'' then None
               else (case parseVal k r2 of
                  None \<Rightarrow> None
                | Some (v, r3) \<Rightarrow> (case skipWs r3 of
                     [] \<Rightarrow> None
                   | e # q \<Rightarrow> if e = CHR '','' then map_option (\<lambda>(ms, p). ((key, v) # ms, p)) (parseMembers k q)
                               else if e = CHR ''}'' then Some ([(key, v)], q) else None)))))"

definition parseJson :: "string \<Rightarrow> jvalue option" where
  "parseJson s = (case parseVal (Suc (length s)) s of
      Some (v, r) \<Rightarrow> if skipWs r = [] then Some v else None | None \<Rightarrow> None)"

section \<open>Writing\<close>

definition hexAlphabet :: string where "hexAlphabet = ''0123456789abcdef''"

definition hexDigit :: "nat \<Rightarrow> char" where "hexDigit n = hexAlphabet ! n"

definition quoteChar :: "char \<Rightarrow> string" where
  "quoteChar c = (let n = (of_char c :: nat) in
     if c \<in> {CHR 0x22, CHR 0x5C} then [CHR 0x5C, c]
     else if c = CHR 0x0A then [CHR 0x5C, CHR ''n''] else if c = CHR 0x0D then [CHR 0x5C, CHR ''r'']
     else if c = CHR 0x09 then [CHR 0x5C, CHR ''t''] else if c = CHR 0x08 then [CHR 0x5C, CHR ''b'']
     else if c = CHR 0x0C then [CHR 0x5C, CHR ''f'']
     else if n < 0x20 \<or> c \<in> {CHR ''<'', CHR ''>'', CHR ''&''}
     then [CHR 0x5C, CHR ''u'', CHR ''0'', CHR ''0'', hexDigit (n div 16), hexDigit (n mod 16)]
     else [c])"

definition quoteStr :: "string \<Rightarrow> string" where
  "quoteStr s = CHR 0x22 # concat (map quoteChar s) @ [CHR 0x22]"


text \<open>The object that \<open>Marshal\<close> writes for a struct with integer and string fields.\<close>

definition scalarText :: "jvalue \<Rightarrow> string" where
  "scalarText v = (case v of VNum n \<Rightarrow> n | VStr t \<Rightarrow> quoteStr t | _ \<Rightarrow> [])"

fun membersText :: "(string \<times> jvalue) list \<Rightarrow> string" where
  "membersText [] = []"
| "membersText [(k, v)] = quoteStr k @ CHR '':'' # scalarText v"
| "membersText ((k, v) # ms) = quoteStr k @ CHR '':'' # scalarText v @ CHR '','' # membersText ms"

definition objectText :: "(string \<times> jvalue) list \<Rightarrow> string" where
  "objectText ms = CHR ''{'' # membersText ms @ [CHR ''}'']"

section \<open>Reading back what was written\<close>

lemma hexVal_digit: "n < 16 \<Longrightarrow> hexVal (hexDigit n) = Some n"
proof -
  have m: "map hexVal hexAlphabet = map Some [0..<16]" by (simp add: hexAlphabet_def hexVal_def upt_rec)
  have len: "length hexAlphabet = 16" by (simp add: hexAlphabet_def)
  show "n < 16 \<Longrightarrow> ?thesis" using nth_map[of n hexAlphabet hexVal] by (simp add: m len hexDigit_def)
qed

lemma escape_table:
  "quoteChar CHR 0x22 = [CHR 0x5C, CHR 0x22]" "quoteChar CHR 0x5C = [CHR 0x5C, CHR 0x5C]"
  "quoteChar CHR 0x0A = [CHR 0x5C, CHR ''n'']" "quoteChar CHR 0x0D = [CHR 0x5C, CHR ''r'']"
  "quoteChar CHR 0x09 = [CHR 0x5C, CHR ''t'']" "quoteChar CHR 0x08 = [CHR 0x5C, CHR ''b'']"
  "quoteChar CHR 0x0C = [CHR 0x5C, CHR ''f'']"
  "simpleEscape CHR 0x22 = Some CHR 0x22" "simpleEscape CHR 0x5C = Some CHR 0x5C"
  "simpleEscape CHR ''n'' = Some CHR 0x0A" "simpleEscape CHR ''r'' = Some CHR 0x0D"
  "simpleEscape CHR ''t'' = Some CHR 0x09" "simpleEscape CHR ''b'' = Some CHR 0x08"
  "simpleEscape CHR ''f'' = Some CHR 0x0C"
  by (simp_all add: quoteChar_def simpleEscape_def)

lemma quoteChar_cases:
  obtains (simple) e where "quoteChar c = [CHR 0x5C, e]" "e \<noteq> CHR ''u''" "simpleEscape e = Some c"
  | (hex) "quoteChar c = [CHR 0x5C, CHR ''u'', CHR ''0'', CHR ''0'', hexDigit (of_char c div 16), hexDigit (of_char c mod 16)]"
      "(of_char c :: nat) < 0x80"
  | (plain) "quoteChar c = [c]" "c \<noteq> CHR 0x22" "c \<noteq> CHR 0x5C" "\<not> (of_char c :: nat) < 0x20"
proof (cases "c \<in> {CHR 0x22, CHR 0x5C, CHR 0x0A, CHR 0x0D, CHR 0x09, CHR 0x08, CHR 0x0C}")
  case True
  then have "\<exists>e. quoteChar c = [CHR 0x5C, e] \<and> e \<noteq> CHR ''u'' \<and> simpleEscape e = Some c"
    by (elim insertE emptyE) (simp_all add: escape_table)
  then show thesis using simple by blast
next
  case False
  then have F: "c \<notin> {CHR 0x22, CHR 0x5C}" "c \<noteq> CHR 0x0A" "c \<noteq> CHR 0x0D" "c \<noteq> CHR 0x09" "c \<noteq> CHR 0x08" "c \<noteq> CHR 0x0C"
    by blast+
  show thesis
  proof (cases "(of_char c :: nat) < 0x20 \<or> c \<in> {CHR ''<'', CHR ''>'', CHR ''&''}")
    case True
    then have "(of_char c :: nat) < 0x80" by (elim disjE insertE emptyE) simp_all
    then show thesis using hex unfolding quoteChar_def Let_def by (simp only: F True if_False if_True)
  next
    case False
    have "quoteChar c = [c]" unfolding quoteChar_def Let_def by (simp only: F False if_False)
    moreover have "\<not> (of_char c :: nat) < 0x20" "c \<noteq> CHR 0x22" "c \<noteq> CHR 0x5C" using F(1) False by blast+
    ultimately show thesis using plain by blast
  qed
qed

lemma unicode_ascii:
  assumes "(of_char c :: nat) < 0x80"
  shows "unicodeEscape (CHR ''0'' # CHR ''0'' # hexDigit (of_char c div 16) # hexDigit (of_char c mod 16) # t) = Some ([c], t)"
proof -
  let ?n = "of_char c :: nat"
  have "?n div 16 < 16" using assms by linarith
  then have "hexVal (hexDigit (?n div 16)) = Some (?n div 16)" "hexVal (hexDigit (?n mod 16)) = Some (?n mod 16)"
    by (simp_all add: hexVal_digit)
  moreover have "hexVal (CHR ''0'') = Some 0" by (simp add: hexVal_def)
  ultimately have "hex4 (CHR ''0'' # CHR ''0'' # hexDigit (?n div 16) # hexDigit (?n mod 16) # t) = Some (?n, t)"
    by (simp add: hex4_def)
  then show ?thesis using assms by (simp add: unicodeEscape_def utf8_def)
qed

lemma parseStr_char: "parseStr (Suc k) (quoteChar c @ t) = map_option (\<lambda>(u, q). (c # u, q)) (parseStr k t)"
proof (cases rule: quoteChar_cases[of c])
  case (simple e)
  then show ?thesis by simp
next
  case hex
  then show ?thesis by (simp add: unicode_ascii)
qed simp

lemma parseStr_quoted:
  "length s < k \<Longrightarrow> parseStr k (concat (map quoteChar s) @ CHR 0x22 # r) = Some (s, r)"
proof (induction s arbitrary: k)
  case Nil
  then show ?case by (cases k) simp_all
next
  case (Cons c s)
  then obtain j where "k = Suc j" by (cases k) simp_all
  with Cons show ?case by (simp add: parseStr_char del: parseStr.simps)
qed

lemma length_quoteChar: "1 \<le> length (quoteChar c)"
  by (cases rule: quoteChar_cases[of c]) simp_all

lemma length_quoted: "length s \<le> length (concat (map quoteChar s))"
proof (induction s)
  case (Cons c s)
  then show ?case using length_quoteChar[of c] by simp
qed simp

lemma parse_quoted: "parseStr (length (concat (map quoteChar s) @ CHR 0x22 # r)) (concat (map quoteChar s) @ CHR 0x22 # r) = Some (s, r)"
  by (rule parseStr_quoted) (use length_quoted[of s] in simp)

text \<open>A scalar: a number in the grammar, or any string.\<close>

definition scalarOk :: "jvalue \<Rightarrow> bool" where
  "scalarOk v = (case v of VNum n \<Rightarrow> numOk n \<and> list_all numChar n | VStr _ \<Rightarrow> True | _ \<Rightarrow> False)"

lemma numOk_head: "numOk n \<Longrightarrow> \<exists>c r. n = c # r \<and> (isDigit c \<or> c = CHR ''-'')"
  by (cases n) (auto simp: numOk_def digits1_def Let_def split: if_splits)

lemma digit_not: "isDigit c \<Longrightarrow> \<not> isWs c \<and> c \<notin> {CHR 0x22, CHR ''{'', CHR ''['', CHR ''t'', CHR ''f'', CHR ''n''}"
  by (auto simp: isDigit_def isWs_def)

lemma parse_scalar:
  assumes "scalarOk v" and "c = CHR '','' \<or> c = CHR ''}''"
  shows "parseVal (Suc k) (scalarText v @ c # r) = Some (v, c # r)"
proof (cases v)
  case (VNum n)
  then have n: "numOk n" "list_all numChar n" using assms(1) by (simp_all add: scalarOk_def)
  obtain d q where d: "n = d # q" "isDigit d \<or> d = CHR ''-''" using numOk_head[OF n(1)] by blast
  have nc: "\<not> numChar c" using assms(2) by (auto simp: numChar_def isDigit_def)
  then have "takeWhile numChar (n @ c # r) = n" "dropWhile numChar (n @ c # r) = c # r"
    using n(2) by (simp_all add: takeWhile_append dropWhile_append list_all_iff)
  moreover have "\<not> isWs d \<and> d \<notin> {CHR 0x22, CHR ''{'', CHR ''['', CHR ''t'', CHR ''f'', CHR ''n''}"
    using d(2) by (elim disjE) (use digit_not in blast, simp add: isWs_def)
  ultimately show ?thesis using n d(1) by (simp add: VNum scalarText_def skipWs_def Let_def)
next
  case (VStr t)
  have "parseStr (length (concat (map quoteChar t) @ CHR 0x22 # c # r)) (concat (map quoteChar t) @ CHR 0x22 # c # r) = Some (t, c # r)"
    by (rule parse_quoted)
  then show ?thesis by (simp add: VStr scalarText_def quoteStr_def skipWs_def isWs_def)
qed (use assms(1) in \<open>simp_all add: scalarOk_def\<close>)

lemma parse_member:
  assumes "scalarOk v" and "c = CHR '','' \<or> c = CHR ''}''"
  shows "parseMembers (Suc (Suc k)) (quoteStr key @ CHR '':'' # scalarText v @ c # r) =
     (if c = CHR '','' then map_option (\<lambda>(ms, p). ((key, v) # ms, p)) (parseMembers (Suc k) r) else Some ([(key, v)], r))"
proof -
  let ?q = "CHR '':'' # scalarText v @ c # r"
  have s: "parseStr (length (concat (map quoteChar key) @ CHR 0x22 # ?q)) (concat (map quoteChar key) @ CHR 0x22 # ?q) = Some (key, ?q)"
    by (rule parse_quoted)
  have ws: "\<not> isWs (CHR 0x22)" "\<not> isWs (CHR '':'')" "\<not> isWs c" using assms(2) by (auto simp: isWs_def)
  show ?thesis
    unfolding parseMembers.simps(2) quoteStr_def
    using s ws assms(2) parse_scalar[OF assms, of k r] by (auto simp: skipWs_def simp del: parseVal.simps)
qed

lemma parse_members:
  "ms \<noteq> [] \<Longrightarrow> (\<And>k v. (k, v) \<in> set ms \<Longrightarrow> scalarOk v) \<Longrightarrow> length ms < n
     \<Longrightarrow> parseMembers n (membersText ms @ CHR ''}'' # r) = Some (ms, r)"
proof (induction ms arbitrary: n rule: membersText.induct)
  case (2 k v)
  then have "2 \<le> n" by simp
  then obtain j where "n = Suc (Suc j)" by (metis add_2_eq_Suc le_Suc_ex)
  then show ?case using parse_member[of v "CHR ''}''" j k r] 2(2)[of k v] by (simp del: parseMembers.simps)
next
  case (3 k v m ms)
  then have "2 \<le> n" by simp
  then obtain j where "n = Suc (Suc j)" by (metis add_2_eq_Suc le_Suc_ex)
  with 3 have n: "n = Suc (Suc j)" "length (m # ms) < Suc j" by simp_all
  have "parseMembers (Suc j) (membersText (m # ms) @ CHR ''}'' # r) = Some (m # ms, r)"
    by (rule 3(1)) (use 3(3) n(2) in auto)
  then show ?case using parse_member[of v "CHR '',''" j k "membersText (m # ms) @ CHR ''}'' # r"] 3(3)[of k v]
    by (simp add: n(1) del: parseMembers.simps)
qed simp

lemma length_members: "length ms \<le> length (membersText ms)"
  by (induction ms rule: membersText.induct) (auto simp: quoteStr_def)

lemma parse_object:
  assumes "ms \<noteq> []" and "\<And>k v. (k, v) \<in> set ms \<Longrightarrow> scalarOk v"
  shows "parseJson (objectText ms) = Some (VObj ms)"
proof -
  have q: "\<exists>t. membersText ms = CHR 0x22 # t" using assms(1) by (cases ms rule: membersText.cases) (auto simp: quoteStr_def)
  have m: "parseMembers (length (objectText ms)) (membersText ms @ [CHR ''}'']) = Some (ms, [])"
    by (rule parse_members[OF assms]) (use length_members[of ms] in \<open>simp_all add: objectText_def\<close>)
  obtain t where "membersText ms = CHR 0x22 # t" using q by blast
  with m have "parseVal (Suc (length (objectText ms))) (objectText ms) = Some (VObj ms, [])"
    by (simp add: objectText_def skipWs_def isWs_def del: parseMembers.simps)
  then show ?thesis by (simp add: parseJson_def skipWs_def del: parseVal.simps)
qed

text \<open>Decimal numerals are JSON numbers.\<close>

lemma digits_head: "digits n \<noteq> [] \<and> (hd (digits n) = CHR ''0'' \<longrightarrow> n = 0)"
proof (induction n rule: digits.induct)
  case (1 n)
  show ?case
  proof (cases "n < 10")
    case True
    have "char_of (48 + n) = CHR ''0'' \<Longrightarrow> n = 0"
    proof -
      assume e: "char_of (48 + n) = CHR ''0''"
      have "(of_char (char_of (48 + n)) :: nat) = 48" unfolding e by simp
      then show "n = 0" using True by (simp add: of_char_of take_bit_eq_mod)
    qed
    with True show ?thesis by (simp add: digits.simps[of n])
  next
    case False
    then have "n div 10 \<noteq> 0" by linarith
    with 1[OF False] show ?thesis using False by (simp add: digits.simps[of n])
  qed
qed

lemma numOk_itoa: "numOk (itoa i)" "list_all numChar (itoa i)"
proof -
  have t: "takeWhile isDigit (digits n) = digits n" "dropWhile isDigit (digits n) = []" for n
    using isDigit_digits[of n] by (simp_all add: takeWhile_eq_all_conv list_all_iff)
  have d: "digits1 (digits n)" for n using isDigit_digits[of n] digits_head[of n] by (simp add: digits1_def)
  have z: "hd (digits n) = CHR ''0'' \<longrightarrow> length (digits n) = 1" for n
    using digits_head[of n] by (auto simp: digits.simps[of 0])
  have m: "\<not> (\<exists>r. digits n = CHR ''-'' # r)" for n using digits_no_minus by metis
  have pos: "numOk (digits n)" for n
  proof -
    obtain c r where c: "digits n = c # r" using digits_head[of n] by (cases "digits n") auto
    then have "c \<noteq> CHR ''-''" using m by auto
    then show ?thesis using d[of n] z[of n] t[of n] by (auto simp: numOk_def c Let_def isDigit_def)
  qed
  have neg: "numOk (CHR ''-'' # digits n)" for n
    using d[of n] z[of n] by (simp add: numOk_def Let_def t)
  show "numOk (itoa i)" using pos neg by (simp add: itoa_def)
  show "list_all numChar (itoa i)"
    using isDigit_digits by (auto simp: itoa_def numChar_def list_all_iff)
qed

end
