(* ===== verification/Session.thy ===== *)
theory Session
  imports GoEncoding
begin

text \<open>
  Session tokens (\<open>pkg/session/session.go\<close>): the claims as JSON, base64, a dot, and the base64 of
  their HMAC.  The keyed hash is a function the signer carries.  Times are nanoseconds.  Field
  names are matched without regard to ASCII case, as \<open>encoding/json\<close> does.
\<close>

section \<open>The signer\<close>

datatype session_err = ErrInvalidToken | ErrExpired | ErrShortKey

record signer =
  sg_mac :: "string \<Rightarrow> string"
  sg_ttl :: int

definition NewSigner :: "(string \<Rightarrow> string \<Rightarrow> string) \<Rightarrow> string \<Rightarrow> int \<Rightarrow> session_err + signer" where
  "NewSigner hmac key ttl =
     (if length key < 16 then Inl ErrShortKey
      else Inr \<lparr> sg_mac = hmac key, sg_ttl = (if ttl \<le> 0 then 12 * 3600 * 10 ^ 9 else ttl) \<rparr>)"

definition validRole :: "role \<Rightarrow> bool" where
  "validRole r \<longleftrightarrow> r \<in> {RoleOperator, RoleOrgAdmin, RoleTeamLeader, RoleMember}"

definition sign :: "signer \<Rightarrow> string \<Rightarrow> string" where
  "sign s p = b64Encode (sg_mac s p)"

section \<open>The payload\<close>

definition omitZero :: "string \<Rightarrow> int \<Rightarrow> (string \<times> jvalue) list" where
  "omitZero k n = (if n = 0 then [] else [(k, VNum (itoa n))])"

definition claimFields :: "claims \<Rightarrow> (string \<times> jvalue) list" where
  "claimFields c =
     [(''mid'', VNum (itoa (cl_member c))), (''oid'', VNum (itoa (cl_org c))), (''role'', VStr (roleString (cl_role c)))]
     @ omitZero ''tid'' (cl_team c) @ omitZero ''sid'' (cl_support c)
     @ (if cl_scope c = [] then [] else [(''sscope'', VStr (cl_scope c))])
     @ omitZero ''ep'' (cl_epoch c)
     @ [(''iat'', VNum (itoa (cl_iat c))), (''exp'', VNum (itoa (cl_exp c)))]"

definition claimsJson :: "claims \<Rightarrow> string" where
  "claimsJson c = objectText (claimFields c)"

definition roleOf :: "string \<Rightarrow> role" where
  "roleOf s = (if s = ''operator'' then RoleOperator else if s = ''org_admin'' then RoleOrgAdmin
     else if s = ''team_leader'' then RoleTeamLeader else if s = ''member'' then RoleMember else RoleOther s)"

definition lowerChar :: "char \<Rightarrow> char" where
  "lowerChar c = (let n = (of_char c :: nat) in if 65 \<le> n \<and> n \<le> 90 then char_of (n + 32) else c)"

definition zeroClaims :: claims where
  "zeroClaims = \<lparr> cl_member = 0, cl_org = 0, cl_role = RoleOther [], cl_team = 0, cl_support = 0, cl_scope = [],
     cl_epoch = 0, cl_iat = 0, cl_exp = 0 \<rparr>"

text \<open>One member of the object: \<open>null\<close> and unknown names leave the struct alone, a value of the
  wrong type or out of range is an error.\<close>

definition setInt :: "jvalue \<Rightarrow> (int \<Rightarrow> claims \<Rightarrow> claims) \<Rightarrow> claims \<Rightarrow> claims option" where
  "setInt v g c = (case v of VNull \<Rightarrow> Some c | VNum n \<Rightarrow> map_option (\<lambda>i. g i c) (parseInt n) | _ \<Rightarrow> None)"

definition setStr :: "jvalue \<Rightarrow> (string \<Rightarrow> claims \<Rightarrow> claims) \<Rightarrow> claims \<Rightarrow> claims option" where
  "setStr v g c = (case v of VNull \<Rightarrow> Some c | VStr s \<Rightarrow> Some (g s c) | _ \<Rightarrow> None)"

definition setField :: "string \<times> jvalue \<Rightarrow> claims \<Rightarrow> claims option" where
  "setField kv c =
     (let k = map lowerChar (fst kv); v = snd kv in
      if k = ''mid'' then setInt v (\<lambda>i c. c\<lparr>cl_member := i\<rparr>) c
      else if k = ''oid'' then setInt v (\<lambda>i c. c\<lparr>cl_org := i\<rparr>) c
      else if k = ''role'' then setStr v (\<lambda>s c. c\<lparr>cl_role := roleOf s\<rparr>) c
      else if k = ''tid'' then setInt v (\<lambda>i c. c\<lparr>cl_team := i\<rparr>) c
      else if k = ''sid'' then setInt v (\<lambda>i c. c\<lparr>cl_support := i\<rparr>) c
      else if k = ''sscope'' then setStr v (\<lambda>s c. c\<lparr>cl_scope := s\<rparr>) c
      else if k = ''ep'' then setInt v (\<lambda>i c. c\<lparr>cl_epoch := i\<rparr>) c
      else if k = ''iat'' then setInt v (\<lambda>i c. c\<lparr>cl_iat := i\<rparr>) c
      else if k = ''exp'' then setInt v (\<lambda>i c. c\<lparr>cl_exp := i\<rparr>) c
      else Some c)"

fun setFields :: "(string \<times> jvalue) list \<Rightarrow> claims \<Rightarrow> claims option" where
  "setFields [] c = Some c"
| "setFields (kv # r) c = (case setField kv c of None \<Rightarrow> None | Some c' \<Rightarrow> setFields r c')"

definition claimsOf :: "string \<Rightarrow> claims option" where
  "claimsOf payload = (case parseJson payload of
      Some (VObj ms) \<Rightarrow> setFields ms zeroClaims
    | Some VNull \<Rightarrow> Some zeroClaims
    | _ \<Rightarrow> None)"

section \<open>Issue and verify\<close>

definition stamp :: "signer \<Rightarrow> int \<Rightarrow> claims \<Rightarrow> claims" where
  "stamp s now c = c\<lparr>cl_iat := (if cl_iat c = 0 then now div 10 ^ 9 else cl_iat c),
                     cl_exp := (if cl_exp c = 0 then (now + sg_ttl s) div 10 ^ 9 else cl_exp c)\<rparr>"

definition Issue :: "signer \<Rightarrow> int \<Rightarrow> claims \<Rightarrow> string" where
  "Issue s now c = (let p = b64Encode (claimsJson (stamp s now c)) in p @ CHR ''.'' # sign s p)"

fun splitOn :: "char \<Rightarrow> string \<Rightarrow> string list" where
  "splitOn d [] = [[]]"
| "splitOn d (c # cs) = (if c = d then [] # splitOn d cs
     else case splitOn d cs of [] \<Rightarrow> [[c]] | p # ps \<Rightarrow> (c # p) # ps)"

definition Verify :: "signer \<Rightarrow> int \<Rightarrow> string \<Rightarrow> session_err + claims" where
  "Verify s now token =
     (case splitOn CHR ''.'' token of
        [p, sig] \<Rightarrow>
          if p = [] \<or> sig = [] then Inl ErrInvalidToken
          else if sig \<noteq> sign s p then Inl ErrInvalidToken
          else (case b64Decode p of
             None \<Rightarrow> Inl ErrInvalidToken
           | Some payload \<Rightarrow> (case claimsOf payload of
                None \<Rightarrow> Inl ErrInvalidToken
              | Some c \<Rightarrow>
                  if \<not> validRole (cl_role c) then Inl ErrInvalidToken
                  else if now div 10 ^ 9 \<ge> cl_exp c then Inl ErrExpired
                  else Inr c))
      | _ \<Rightarrow> Inl ErrInvalidToken)"

section \<open>Facts\<close>

lemma splitOn_none: "d \<notin> set s \<Longrightarrow> splitOn d s = [s]"
  by (induction s) auto

lemma splitOn_once: "d \<notin> set s \<Longrightarrow> d \<notin> set t \<Longrightarrow> splitOn d (s @ d # t) = [s, t]"
  by (induction s) (auto simp: splitOn_none)

lemma splitOn_not_Nil: "splitOn d s \<noteq> []"
  by (induction s) (auto split: list.splits)

lemma splitOn_two: "splitOn d s = [p, q] \<Longrightarrow> s = p @ d # q"
proof (induction s arbitrary: p)
  case (Cons c s)
  show ?case
  proof (cases "c = d")
    case True
    have "splitOn d u = [q] \<Longrightarrow> u = q" for u q
    proof (induction u arbitrary: q)
      case (Cons x u)
      then show ?case using splitOn_not_Nil[of d u] by (auto split: if_splits list.splits)
    qed simp
    then show ?thesis using Cons True by auto
  next
    case False
    then show ?thesis using Cons by (auto split: list.splits)
  qed
qed simp

lemma roleOf_valid: "validRole r \<Longrightarrow> roleOf (roleString r) = r"
  by (auto simp: validRole_def roleOf_def)

definition fitting :: "claims \<Rightarrow> bool" where
  "fitting c \<longleftrightarrow> fits64 (cl_member c) \<and> fits64 (cl_org c) \<and> fits64 (cl_team c) \<and> fits64 (cl_support c)
     \<and> fits64 (cl_epoch c) \<and> fits64 (cl_iat c) \<and> fits64 (cl_exp c)"

lemma setFields_append: "setFields (xs @ ys) c = (case setFields xs c of None \<Rightarrow> None | Some c' \<Rightarrow> setFields ys c')"
  by (induction xs arbitrary: c) (auto split: option.splits)

lemma setField_keys:
  "setField (''mid'', v) c = setInt v (\<lambda>i c. c\<lparr>cl_member := i\<rparr>) c"
  "setField (''oid'', v) c = setInt v (\<lambda>i c. c\<lparr>cl_org := i\<rparr>) c"
  "setField (''role'', v) c = setStr v (\<lambda>s c. c\<lparr>cl_role := roleOf s\<rparr>) c"
  "setField (''tid'', v) c = setInt v (\<lambda>i c. c\<lparr>cl_team := i\<rparr>) c"
  "setField (''sid'', v) c = setInt v (\<lambda>i c. c\<lparr>cl_support := i\<rparr>) c"
  "setField (''sscope'', v) c = setStr v (\<lambda>s c. c\<lparr>cl_scope := s\<rparr>) c"
  "setField (''ep'', v) c = setInt v (\<lambda>i c. c\<lparr>cl_epoch := i\<rparr>) c"
  "setField (''iat'', v) c = setInt v (\<lambda>i c. c\<lparr>cl_iat := i\<rparr>) c"
  "setField (''exp'', v) c = setInt v (\<lambda>i c. c\<lparr>cl_exp := i\<rparr>) c"
  by (simp_all add: setField_def lowerChar_def)

lemma claimsOf_Json:
  assumes "fitting c" "validRole (cl_role c)"
  shows "claimsOf (claimsJson c) = Some c"
proof -
  have ok: "scalarOk v" if "(k, v) \<in> set (claimFields c)" for k v
    using that numOk_itoa by (auto simp: claimFields_def omitZero_def scalarOk_def split: if_splits)
  have p: "parseJson (claimsJson c) = Some (VObj (claimFields c))"
    unfolding claimsJson_def by (rule parse_object[OF _ ok]) (auto simp: claimFields_def)
  have "setFields (claimFields c) zeroClaims = Some c"
    using assms unfolding claimFields_def omitZero_def fitting_def
    by (cases c) (simp add: setFields_append setField_keys setInt_def setStr_def parseInt_itoa roleOf_valid zeroClaims_def)
  then show ?thesis by (simp add: claimsOf_def p)
qed

section \<open>What a token is worth\<close>

lemma stamp_valid [simp]: "cl_role (stamp s now c) = cl_role c"
  by (simp add: stamp_def)

lemma fitting_stamp:
  assumes "fitting c" "fits64 (now div 10 ^ 9)" "fits64 ((now + sg_ttl s) div 10 ^ 9)"
  shows "fitting (stamp s now c)"
  using assms by (simp add: fitting_def stamp_def)

lemma b64Encode_eq: "b64Encode x = b64Encode y \<longleftrightarrow> x = y"
  by (metis b64_roundtrip option.inject)

lemma b64Encode_Nil: "b64Encode x = [] \<longleftrightarrow> x = []"
  using b64Encode_eq[of x "[]"] by (simp add: b64Encode_def)

lemma claimsJson_not_Nil: "claimsJson c \<noteq> []"
  by (simp add: claimsJson_def objectText_def)

definition toySigner :: signer where
  "toySigner = \<lparr> sg_mac = (\<lambda>p. ''k'' @ rev p), sg_ttl = 12 * 3600 * 10 ^ 9 \<rparr>"

definition teamClaims :: claims where
  "teamClaims = \<lparr> cl_member = 7, cl_org = 3, cl_role = RoleTeamLeader, cl_team = 0, cl_support = 0, cl_scope = [],
     cl_epoch = 2, cl_iat = 0, cl_exp = 0 \<rparr>"

lemma Verify_signed:
  assumes "sg_mac s (b64Encode x) \<noteq> []" "x \<noteq> []" "claimsOf x = Some c" "validRole (cl_role c)" "later div 10 ^ 9 < cl_exp c"
  shows "Verify s later (b64Encode x @ CHR ''.'' # sign s (b64Encode x)) = Inr c"
proof -
  have split: "splitOn CHR ''.'' (b64Encode x @ CHR ''.'' # sign s (b64Encode x)) = [b64Encode x, sign s (b64Encode x)]"
    unfolding sign_def by (rule splitOn_once) (rule b64Encode_no_dot)+
  show ?thesis
    using assms unfolding Verify_def split by (simp add: sign_def b64Encode_Nil b64_roundtrip)
qed

text \<open>C11. A token the signer has issued for claims with a known role and fields in the range of
  \<open>int64\<close> is accepted until its expiry, and what \<open>Verify\<close> then returns is exactly the stamped
  claims: every field, the omitted zero ones included, survives the JSON, the base64 and the split
  at the dot.\<close>

theorem issued_token_verifies:
  assumes mac: "\<And>p. sg_mac s p \<noteq> []"
    and f: "fitting c" "fits64 (now div 10 ^ 9)" "fits64 ((now + sg_ttl s) div 10 ^ 9)"
    and role: "validRole (cl_role c)"
    and fresh: "later div 10 ^ 9 < cl_exp (stamp s now c)"
  shows "Verify s later (Issue s now c) = Inr (stamp s now c)"
  unfolding Issue_def Let_def
  using assms claimsOf_Json[OF fitting_stamp[OF f]] by (intro Verify_signed) (simp_all add: claimsJson_not_Nil)

theorem issued_token_verifies_witness:
  "Verify toySigner (1700000600 * 10 ^ 9) (Issue toySigner (1700000000 * 10 ^ 9) teamClaims)
     = Inr (stamp toySigner (1700000000 * 10 ^ 9) teamClaims)"
  by (rule issued_token_verifies)
     (simp_all add: toySigner_def teamClaims_def fitting_def fits64_def validRole_def stamp_def)

text \<open>C12. \<open>Verify\<close> accepts nothing else: an accepted token is a payload, a dot and the signature of
  that very payload under the signer's key, its claims are those of the payload, their role is one of
  the four and their expiry is ahead.  A token issued under another key is accepted only where the two
  keyed hashes agree on its payload.\<close>

theorem accepted_token_is_signed:
  "(Verify s later t = Inr c \<longrightarrow>
      (\<exists>p payload. t = p @ CHR ''.'' # b64Encode (sg_mac s p) \<and> b64Decode p = Some payload
         \<and> claimsOf payload = Some c \<and> validRole (cl_role c) \<and> later div 10 ^ 9 < cl_exp c))
   \<and> (Verify s later (Issue other now d) = Inr c \<longrightarrow>
      (let p = b64Encode (claimsJson (stamp other now d)) in sg_mac s p = sg_mac other p))"
proof -
  have A: "\<exists>p payload. t = p @ CHR ''.'' # b64Encode (sg_mac s p) \<and> b64Decode p = Some payload
         \<and> claimsOf payload = Some c \<and> validRole (cl_role c) \<and> later div 10 ^ 9 < cl_exp c"
    if acc: "Verify s later t = Inr c" for t
  proof -
    obtain p where pq: "splitOn CHR ''.'' t = [p, sign s p]"
      and rest: "\<exists>payload. b64Decode p = Some payload
         \<and> claimsOf payload = Some c \<and> validRole (cl_role c) \<and> later div 10 ^ 9 < cl_exp c"
      using acc by (auto simp: Verify_def split: list.splits if_splits option.splits)
    show ?thesis using splitOn_two[OF pq] rest by (auto simp: sign_def)
  qed
  have B: "sg_mac s p = sg_mac other p"
    if v: "Verify s later (Issue other now d) = Inr c" and p: "p = b64Encode (claimsJson (stamp other now d))" for p
  proof -
    have "splitOn CHR ''.'' (Issue other now d) = [p, sign other p]"
      using splitOn_once[OF b64Encode_no_dot b64Encode_no_dot] by (simp add: Issue_def Let_def p sign_def)
    then have "sign other p = sign s p"
      using v by (auto simp: Verify_def split: if_splits)
    then show ?thesis by (simp add: sign_def b64Encode_eq)
  qed
  show ?thesis using A B by (simp add: Let_def)
qed

theorem accepted_token_is_signed_witness:
  "\<exists>p payload. Issue toySigner (1700000000 * 10 ^ 9) teamClaims = p @ CHR ''.'' # b64Encode (sg_mac toySigner p)
     \<and> b64Decode p = Some payload \<and> claimsOf payload = Some (stamp toySigner (1700000000 * 10 ^ 9) teamClaims)"
proof -
  have "fitting (stamp toySigner (1700000000 * 10 ^ 9) teamClaims)"
    by (simp add: toySigner_def teamClaims_def fitting_def fits64_def stamp_def)
  then have "Verify toySigner (1700000600 * 10 ^ 9) (Issue toySigner (1700000000 * 10 ^ 9) teamClaims)
     = Inr (stamp toySigner (1700000000 * 10 ^ 9) teamClaims)" (is "Verify _ _ ?t = Inr ?c")
    unfolding Issue_def Let_def
    by (intro Verify_signed claimsOf_Json)
       (simp_all add: claimsJson_not_Nil toySigner_def teamClaims_def validRole_def stamp_def)
  then show ?thesis
    using accepted_token_is_signed[of toySigner "1700000600 * 10 ^ 9" ?t ?c] by blast
qed

end
