(* ===== verification/StoreOrg.thy ===== *)
theory StoreOrg
  imports StoreMember
begin

text \<open>
  The organization and team rows as the console edits them (\<open>repo/org.go\<close>, \<open>repo/team.go\<close>) and
  the member queries of the console (\<open>repo/member.go\<close>).  \<open>RowsAffected\<close> counts the rows an update
  changed: the connection does not ask for the rows it found, so an update that writes what is
  already there reports none.
\<close>

text \<open>String literals outside ASCII, as their bytes.\<close>

definition byteString :: "nat list \<Rightarrow> string" where
  "byteString = map char_of"

section \<open>Organizations\<close>

text \<open>The unique keys: the slug, and the user group where there is one; deleted rows keep theirs.\<close>

definition orgKeyTaken :: "string \<Rightarrow> string option \<Rightarrow> db \<Rightarrow> bool" where
  "orgKeyTaken slug grp d \<longleftrightarrow> list_ex (\<lambda>x. o_slug x = slug \<or> (grp \<noteq> None \<and> o_user_group x = grp)) (orgs d)"

definition newOrgRow :: "int \<Rightarrow> string \<Rightarrow> string \<Rightarrow> string option \<Rightarrow> bool \<Rightarrow> billing_kind \<Rightarrow> organization" where
  "newOrgRow i name slug grp byPlatform kind =
     \<lparr> o_id = i, o_name = name, o_slug = slug, o_timezone = ''Asia/Shanghai'', o_status = OrgStatusActive,
       o_user_group = grp, o_default_tier = None, o_default_token_group = None, o_newapi_user = None,
       o_newapi_username = None, o_access_token_enc = '''', o_password_enc = '''',
       o_created_by_platform = byPlatform, o_archived = False, o_billing_kind = kind,
       o_billing_enabled = False, o_hard_stop_enabled = False,
       o_auto_max_quota = 50000000000, o_auto_max_days = 1, o_l1_max_quota = 150000000000,
       o_discount_mode = ''none'', o_entries = [], o_deleted = False \<rparr>"

definition CreateOrganization :: "string \<Rightarrow> string \<Rightarrow> string option \<Rightarrow> bool \<Rightarrow> billing_kind \<Rightarrow> ('u, int) op" where
  "CreateOrganization name slug grp byPlatform kind = mapErr dupToConflict (stmt (\<lambda>d.
     if orgKeyTaken slug grp d then (Inl (SqlError 1062), d)
     else let i = next_id (map o_id (orgs d))
          in (Inr i, d\<lparr>orgs := orgs d @ [newOrgRow i name slug grp byPlatform kind]\<rparr>)))"

definition GetOrganizationBySlug :: "string \<Rightarrow> ('u, organization) op" where
  "GetOrganizationBySlug slug = getRow (\<lambda>d. find (\<lambda>o'. o_slug o' = slug \<and> \<not> o_deleted o') (orgs d))"

definition listedOrgs :: "bool \<Rightarrow> db \<Rightarrow> organization list" where
  "listedOrgs withArchived d = filter (\<lambda>o'. \<not> o_deleted o' \<and> (withArchived \<or> \<not> o_archived o')) (orgs d)"

definition ListOrganizations :: "nat \<Rightarrow> nat \<Rightarrow> bool \<Rightarrow> ('u, organization list \<times> nat) op" where
  "ListOrganizations limit offset withArchived =
     bind (query (\<lambda>d. length (listedOrgs withArchived d))) (\<lambda>cnt.
     bind (query (\<lambda>d. page limit offset (listedOrgs withArchived d))) (\<lambda>os. return (os, cnt)))"

text \<open>An update of the organization row, with the number of rows it changed.\<close>

definition updOrgCount :: "int \<Rightarrow> (organization \<Rightarrow> bool) \<Rightarrow> (organization \<Rightarrow> organization) \<Rightarrow> ('u, nat) op" where
  "updOrgCount i changes g = stmt (\<lambda>d.
     (Inr (length (filter (\<lambda>o'. o_id o' = i \<and> \<not> o_deleted o' \<and> changes o') (orgs d))), updOrg i g d))"

text \<open>Archiving always writes a new time; un-archiving changes an archived row only.\<close>

definition SetOrgArchivedRow :: "int \<Rightarrow> bool \<Rightarrow> ('u, unit) op" where
  "SetOrgArchivedRow i archived =
     bind (updOrgCount i (\<lambda>o'. archived \<or> o_archived o') (\<lambda>o'. o'\<lparr>o_archived := archived\<rparr>)) (\<lambda>n.
     if n = 0 then throw ErrNotFound else return ())"

definition SetOrgDefaultTokenGroupRow :: "int \<Rightarrow> string option \<Rightarrow> ('u, unit) op" where
  "SetOrgDefaultTokenGroupRow i grp =
     bind (updOrgCount i (\<lambda>o'. o_default_token_group o' \<noteq> grp) (\<lambda>o'. o'\<lparr>o_default_token_group := grp\<rparr>)) (\<lambda>n.
     if n = 0 then throw ErrNotFound else return ())"

definition coalesce :: "'a option \<Rightarrow> 'a \<Rightarrow> 'a" where
  "coalesce x y = (case x of None \<Rightarrow> y | Some v \<Rightarrow> v)"

definition UpdateOrgSettingsRow :: "int \<Rightarrow> string option \<Rightarrow> string option \<Rightarrow> int option \<Rightarrow> ('u, unit) op" where
  "UpdateOrgSettingsRow i name tz tier = exec (updOrg i (\<lambda>o'. o'\<lparr>o_name := coalesce name (o_name o'),
     o_timezone := coalesce tz (o_timezone o'),
     o_default_tier := (case tier of None \<Rightarrow> o_default_tier o' | Some t \<Rightarrow> Some t)\<rparr>))"

definition SetApprovalRulesRow :: "int \<Rightarrow> int option \<Rightarrow> int option \<Rightarrow> int option \<Rightarrow> ('u, unit) op" where
  "SetApprovalRulesRow i autoMax l1Max autoDays = exec (updOrg i (\<lambda>o'. o'\<lparr>
     o_auto_max_quota := coalesce autoMax (o_auto_max_quota o'),
     o_l1_max_quota := coalesce l1Max (o_l1_max_quota o'),
     o_auto_max_days := coalesce autoDays (o_auto_max_days o')\<rparr>))"

definition SetOrgDefaultTier :: "int \<Rightarrow> int \<Rightarrow> ('u, unit) op" where
  "SetOrgDefaultTier i tier = exec (updOrg i (\<lambda>o'. o'\<lparr>o_default_tier := Some tier\<rparr>))"

definition GetOrgDiscount :: "int \<Rightarrow> ('u, string \<times> (string \<times> discount_entry) list) op" where
  "GetOrgDiscount i = getRow (\<lambda>d. map_option (\<lambda>o'. (o_discount_mode o', o_entries o')) (findOrg i d))"

definition UpdateOrgDiscount :: "int \<Rightarrow> string \<Rightarrow> (string \<times> discount_entry) list \<Rightarrow> ('u, unit) op" where
  "UpdateOrgDiscount i mode es = exec (updOrg i (\<lambda>o'. o'\<lparr>o_discount_mode := mode, o_entries := es\<rparr>))"

definition ListDiscountedOrgIDs :: "('u, int list) op" where
  "ListDiscountedOrgIDs = query (\<lambda>d. map o_id (filter (\<lambda>o'. o_discount_mode o' \<noteq> ''none'' \<and> \<not> o_deleted o') (orgs d)))"

section \<open>Teams\<close>

definition findTeam :: "int \<Rightarrow> int \<Rightarrow> db \<Rightarrow> team option" where
  "findTeam org i d = find (\<lambda>t. t_id t = i \<and> t_org t = org \<and> \<not> t_deleted t) (teams d)"

definition CreateTeamRow :: "int \<Rightarrow> string \<Rightarrow> int option \<Rightarrow> ('u, int) op" where
  "CreateTeamRow org name tier = mapErr dupToConflict (stmt (\<lambda>d.
     if list_ex (\<lambda>t. t_org t = org \<and> t_name t = name) (teams d) then (Inl (SqlError 1062), d)
     else let i = next_id (map t_id (teams d))
          in (Inr i, d\<lparr>teams := teams d @ [\<lparr> t_id = i, t_org = org, t_name = name, t_leader = None,
                t_default_tier = tier, t_status = ''active'', t_deleted = False \<rparr>]\<rparr>)))"

definition ListTeamsRepo :: "int \<Rightarrow> ('u, team list) op" where
  "ListTeamsRepo org = query (\<lambda>d. filter (\<lambda>t. t_org t = org \<and> \<not> t_deleted t) (teams d))"

definition updTeam :: "int \<Rightarrow> int \<Rightarrow> (team \<Rightarrow> team) \<Rightarrow> db \<Rightarrow> db" where
  "updTeam org i g d = d\<lparr>teams := map (\<lambda>t. if t_id t = i \<and> t_org t = org \<and> \<not> t_deleted t then g t else t) (teams d)\<rparr>"

definition UpdateTeamName :: "int \<Rightarrow> int \<Rightarrow> string \<Rightarrow> ('u, unit) op" where
  "UpdateTeamName org i name = mapErr dupToConflict (stmt (\<lambda>d.
     if findTeam org i d \<noteq> None \<and> list_ex (\<lambda>t. t_org t = org \<and> t_name t = name \<and> t_id t \<noteq> i) (teams d)
     then (Inl (SqlError 1062), d)
     else (Inr (), updTeam org i (\<lambda>t. t\<lparr>t_name := name\<rparr>) d)))"

definition UpdateTeamStatus :: "int \<Rightarrow> int \<Rightarrow> string \<Rightarrow> ('u, unit) op" where
  "UpdateTeamStatus org i st = exec (updTeam org i (\<lambda>t. t\<lparr>t_status := st\<rparr>))"

definition CountActiveMembersInTeam :: "int \<Rightarrow> int \<Rightarrow> ('u, nat) op" where
  "CountActiveMembersInTeam org tm = query (\<lambda>d. length (filter (\<lambda>m. m_org m = org \<and> m_team m = Some tm
     \<and> m_status m = MemberStatusActive) (members d)))"

text \<open>\<open>GROUP BY team_id\<close>: a team without active members has no entry, which Go reads as 0.\<close>

definition CountActiveMembersByTeam :: "int \<Rightarrow> ('u, int \<Rightarrow> nat) op" where
  "CountActiveMembersByTeam org = query (\<lambda>d. \<lambda>tm. length (filter (\<lambda>m. m_org m = org \<and> m_team m = Some tm
     \<and> m_status m = MemberStatusActive) (members d)))"

section \<open>The member list\<close>

text \<open>
  SQL \<open>LIKE\<close>: \<open>%\<close> matches any text, \<open>_\<close> one character, a backslash takes the next one literally;
  the pattern is the search text between two \<open>%\<close>, unescaped as in the source.
\<close>

function sqlLike :: "string \<Rightarrow> string \<Rightarrow> bool" where
  "sqlLike [] s = (s = [])"
| "sqlLike (p # ps) s =
     (if p = CHR ''%'' then sqlLike ps s \<or> (case s of [] \<Rightarrow> False | _ # t \<Rightarrow> sqlLike (p # ps) t)
      else case s of [] \<Rightarrow> False
        | c # t \<Rightarrow>
            if p = CHR ''_'' then sqlLike ps t
            else if p = CHR 0x5C then (case ps of [] \<Rightarrow> c = p \<and> t = [] | q # qs \<Rightarrow> q = c \<and> sqlLike qs t)
            else p = c \<and> sqlLike ps t)"
  by pat_completeness auto
termination
  by (relation "measure (\<lambda>(ps, s). length ps + length s)") auto

record member_filter =
  mf_q :: string
  mf_team :: "int option"
  mf_status :: "member_status option"
  mf_limit :: nat
  mf_offset :: nat

definition memberMatches :: "member_filter \<Rightarrow> member \<Rightarrow> bool" where
  "memberMatches f m \<longleftrightarrow>
     (mf_q f = '''' \<or> (case m_display m of None \<Rightarrow> False | Some n \<Rightarrow> sqlLike (''%'' @ mf_q f @ ''%'') n)
        \<or> sqlLike (''%'' @ mf_q f @ ''%'') (m_email m))
     \<and> (mf_team f = None \<or> m_team m = mf_team f)
     \<and> (mf_status f = None \<or> mf_status f = Some (m_status m))"

definition ListMembersRepo :: "int \<Rightarrow> member_filter \<Rightarrow> ('u, member list \<times> nat) op" where
  "ListMembersRepo org f =
     (let rows = (\<lambda>d. filter (\<lambda>m. m_org m = org \<and> \<not> m_deleted m \<and> memberMatches f m) (members d))
      in bind (query (\<lambda>d. length (rows d))) (\<lambda>cnt.
         bind (query (\<lambda>d. page (if mf_limit f = 0 then 20 else mf_limit f) (mf_offset f) (rows d))) (\<lambda>ms.
         return (ms, cnt))))"

end
