(* ===== verification/Pricing.thy ===== *)
theory Pricing
  imports StoreOrg GoLib
begin

text \<open>
  Discounts (\<open>service/pricing.go\<close>) and their reconciliation with the ratios new-api really applies
  (\<open>service/reconcile.go\<close>).  The platform's mirror of an organization's discounts, a map from token
  group to entry, is the list of its pairs in the order of insertion; where the source ranges over the
  map, the model takes that order.
\<close>

section \<open>Floats\<close>

text \<open>Product and distance of two \<open>float64\<close>: the exact value, rounded (theory GoLib).\<close>

definition fmul :: "float \<Rightarrow> float \<Rightarrow> float" where
  "fmul a b = fl (fst a * fst b, snd a * snd b)"

definition fdist :: "float \<Rightarrow> float \<Rightarrow> float" where
  "fdist a b = fl (\<bar>fst a * snd b - fst b * snd a\<bar>, snd a * snd b)"

definition fless :: "float \<Rightarrow> float \<Rightarrow> bool" where
  "fless a b \<longleftrightarrow> fst a * snd b < fst b * snd a"

section \<open>The mirror\<close>

definition keySet :: "(string \<times> 'v) list \<Rightarrow> string \<Rightarrow> bool" where
  "keySet es g \<longleftrightarrow> map_of es g \<noteq> None"

definition putKey :: "string \<Rightarrow> 'v \<Rightarrow> (string \<times> 'v) list \<Rightarrow> (string \<times> 'v) list" where
  "putKey g v es = (if keySet es g then map (\<lambda>(k, x). (k, if k = g then v else x)) es else es @ [(g, v)])"

definition absRatios :: "(string \<times> discount_entry) list \<Rightarrow> (string \<times> float) list" where
  "absRatios es = map (\<lambda>(g, e). (g, de_abs e)) es"

definition loadDiscountEntries :: "int \<Rightarrow> ('u, (string \<times> discount_entry) list) op" where
  "loadDiscountEntries org = bind (attempt (GetOrgDiscount org))
     (\<lambda>r. return (case r of Inl _ \<Rightarrow> [] | Inr (_, es) \<Rightarrow> es))"

text \<open>\<open>resolveTokenGroup\<close> (\<open>service/member.go\<close>).\<close>

definition resolveTokenGroup :: "tier option \<Rightarrow> organization \<Rightarrow> string" where
  "resolveTokenGroup tr o' =
     (case (case tr of None \<Rightarrow> None | Some t \<Rightarrow> tr_group t) of
        Some g \<Rightarrow> if g \<noteq> '''' then g
                  else (case o_default_token_group o' of Some h \<Rightarrow> if h \<noteq> '''' then h else ''default'' | None \<Rightarrow> ''default'')
      | None \<Rightarrow> (case o_default_token_group o' of Some h \<Rightarrow> if h \<noteq> '''' then h else ''default'' | None \<Rightarrow> ''default''))"

definition orgInUseTokenGroups :: "int \<Rightarrow> ('u, string list) op" where
  "orgInUseTokenGroups org =
     bind (attempt (GetOrganization org)) (\<lambda>r. case r of
       Inl _ \<Rightarrow> return []
     | Inr o' \<Rightarrow> bind (attempt (ListTiers org)) (\<lambda>tr. case tr of
         Inl _ \<Rightarrow> return []
       | Inr ts \<Rightarrow> return (rev (remdups (rev (resolveTokenGroup None o' # map (\<lambda>t. resolveTokenGroup (Some t) o') ts))))))"

section \<open>Configuring\<close>

datatype discount_mode = DiscountNone | DiscountTotal | DiscountPerGroup | DiscountOther string

fun modeString :: "discount_mode \<Rightarrow> string" where
  "modeString DiscountNone = ''none''"
| "modeString DiscountTotal = ''total''"
| "modeString DiscountPerGroup = ''per_group''"
| "modeString (DiscountOther s) = s"

definition effectiveBase :: "float option \<Rightarrow> float" where
  "effectiveBase r = (case r of None \<Rightarrow> (1, 1) | Some b \<Rightarrow> if fst b \<le> 0 then (1, 1) else b)"

definition makeEntry :: "float \<Rightarrow> float \<Rightarrow> discount_entry" where
  "makeEntry pct base = \<lparr> de_pct = pct, de_base = base, de_abs = fmul base pct \<rparr>"

definition targetGroups :: "int \<Rightarrow> discount_mode \<Rightarrow> string list \<Rightarrow> ('u, string list) op" where
  "targetGroups org mode given =
     (if given \<noteq> [] then return given
      else bind (if mode = DiscountTotal then orgInUseTokenGroups org else return []) (\<lambda>gs.
        return (if gs = [] then [''default''] else gs)))"

definition addEntries :: "'u service \<Rightarrow> float \<Rightarrow> string list \<Rightarrow> (string \<times> discount_entry) list
    \<Rightarrow> ('u, (string \<times> discount_entry) list) op" where
  "addEntries S pct = foldM (\<lambda>g es.
     bind (mapErr mapUpstream (upcall (na_GetGroupRatio (sv_up S) g))) (\<lambda>r.
     return (putKey g (makeEntry pct (effectiveBase r)) es)))"

record pricing_view =
  pv_mode :: string
  pv_user_group :: string
  pv_entries :: "(string \<times> discount_entry) list"
  pv_upstream :: "(string \<times> float) list"

definition GetPricing :: "'u service \<Rightarrow> claims \<Rightarrow> int \<Rightarrow> ('u, pricing_view) op" where
  "GetPricing S c org =
     bind (assertOrgScope c org) (\<lambda>_.
     bind (assertRole c [RoleOperator, RoleOrgAdmin]) (\<lambda>_.
     bind (mvpHidePrice S c) (\<lambda>_.
     bind (mapErr internal (GetOrgDiscount org)) (\<lambda>(mode, es).
     bind (orgUserGroup org) (\<lambda>ug.
     bind (foldM (\<lambda>(g, _) acc.
             bind (attempt (upcall (na_GetGroupGroupRatio (sv_up S) ug g))) (\<lambda>r. return (case r of
               Inr (Some x) \<Rightarrow> acc @ [(g, x)]
             | _ \<Rightarrow> acc))) es []) (\<lambda>ups.
     return \<lparr> pv_mode = mode, pv_user_group = ug, pv_entries = es, pv_upstream = ups \<rparr>))))))"

definition discountEntriesFor :: "'u service \<Rightarrow> int \<Rightarrow> discount_mode \<Rightarrow> float \<Rightarrow> string list
    \<Rightarrow> ('u, (string \<times> discount_entry) list) op" where
  "discountEntriesFor S org mode pct gs = (case mode of
       DiscountNone \<Rightarrow> return []
     | DiscountOther _ \<Rightarrow> throw InvalidParam
     | _ \<Rightarrow>
         if fst pct \<le> 0 \<or> fst pct > snd pct then throw InvalidParam
         else bind (if mode = DiscountPerGroup then loadDiscountEntries org else return []) (addEntries S pct gs))"

definition ConfigureDiscount :: "'u service \<Rightarrow> claims \<Rightarrow> int \<Rightarrow> discount_mode \<Rightarrow> float \<Rightarrow> string list \<Rightarrow> ('u, pricing_view) op" where
  "ConfigureDiscount S c org mode pct given =
     bind (assertRole c [RoleOperator]) (\<lambda>_.
     bind (mapErr notFoundOrInternal (GetOrganization org)) (\<lambda>_.
     bind (orgUserGroup org) (\<lambda>ug.
     bind (targetGroups org mode given) (\<lambda>gs.
     bind (discountEntriesFor S org mode pct gs) (\<lambda>es.
     bind (mapErr mapUpstream (upcall (na_SetOrgGroupRatios (sv_up S) ug (absRatios es)))) (\<lambda>_.
     bind (mapErr internal (UpdateOrgDiscount org (modeString mode) es)) (\<lambda>_.
     bind (audit c org ''configure_discount'' ''organization'' (Some org)
             [(''mode'', JStr (modeString mode)), (''pct'', JFloat pct), (''groups'', JStrs gs)]) (\<lambda>_.
     GetPricing S c org))))))))"

definition ListBillingGroups :: "'u service \<Rightarrow> claims \<Rightarrow> ('u, (string \<times> float \<times> string list) list) op" where
  "ListBillingGroups S c =
     bind (assertRole c [RoleOperator, RoleOrgAdmin]) (\<lambda>_.
     bind (mapErr mapUpstream (upcall (na_ListGroupRatios (sv_up S)))) (\<lambda>ratios.
     bind (mapErr mapUpstream (upcall (na_ListGroupModels (sv_up S)))) (\<lambda>g2m.
     return (map (\<lambda>(g, r). (g, if mvpPriceHidden S c then (0, 1) else r,
                    case map_of g2m g of None \<Rightarrow> [] | Some ms \<Rightarrow> ms)) ratios))))"

section \<open>A group newly in use\<close>

definition ensureTotalDiscountCoversGroup :: "'u service \<Rightarrow> int \<Rightarrow> string \<Rightarrow> ('u, unit) op" where
  "ensureTotalDiscountCoversGroup S org grp =
     (if grp = '''' \<or> grp = ''default'' then return ()
      else bind (attempt (GetOrgDiscount org)) (\<lambda>r. case r of
        Inl _ \<Rightarrow> return ()
      | Inr (mode, _) \<Rightarrow>
        if mode \<noteq> ''total'' then return ()
        else bind (loadDiscountEntries org) (\<lambda>es.
          if keySet es grp then return ()
          else case es of
            [] \<Rightarrow> return ()
          | (_, e) # _ \<Rightarrow>
              bind (attempt (upcall (na_GetGroupRatio (sv_up S) grp))) (\<lambda>br. case br of
                Inl _ \<Rightarrow> return ()
              | Inr b \<Rightarrow>
                  let es' = putKey grp (makeEntry (de_pct e) (effectiveBase b)) es
                  in bind (orgUserGroup org) (\<lambda>ug.
                     bind (attempt (upcall (na_SetOrgGroupRatios (sv_up S) ug (absRatios es')))) (\<lambda>sr. case sr of
                       Inl _ \<Rightarrow> return ()
                     | Inr _ \<Rightarrow> bind (attempt (UpdateOrgDiscount org ''total'' es')) (\<lambda>ur. case ur of
                         Inl _ \<Rightarrow> return ()
                       | Inr _ \<Rightarrow> auditSystem org ''discount_total_autoextend'' ''organization'' (Some org)
                                    [(''group'', JStr grp), (''pct'', JFloat (de_pct e))] ''ok'')))))))"

section \<open>Reconciliation\<close>

datatype drift_kind = DriftTampered | DriftBaseShifted | DriftMissing

record discount_drift =
  dd_org :: int
  dd_user_group :: string
  dd_token_group :: string
  dd_kind :: drift_kind
  dd_expected :: float
  dd_actual :: float

definition ratioEps :: float where
  "ratioEps = fl (1, 10 ^ 9)"

definition reconcileEntry :: "'u service \<Rightarrow> int \<Rightarrow> string \<Rightarrow> string \<times> discount_entry \<Rightarrow> ('u, discount_drift list) op" where
  "reconcileEntry S org ug ge = (case ge of (g, e) \<Rightarrow>
     bind (attempt (upcall (na_GetGroupGroupRatio (sv_up S) ug g))) (\<lambda>r. case r of
       Inl _ \<Rightarrow> return []
     | Inr None \<Rightarrow> return [\<lparr> dd_org = org, dd_user_group = ug, dd_token_group = g, dd_kind = DriftMissing,
                             dd_expected = de_abs e, dd_actual = (0, 1) \<rparr>]
     | Inr (Some actual) \<Rightarrow>
         let tampered = (if fless ratioEps (fdist actual (de_abs e))
               then [\<lparr> dd_org = org, dd_user_group = ug, dd_token_group = g, dd_kind = DriftTampered,
                       dd_expected = de_abs e, dd_actual = actual \<rparr>] else [])
         in bind (attempt (upcall (na_GetGroupRatio (sv_up S) g))) (\<lambda>br. case br of
              Inl _ \<Rightarrow> return tampered
            | Inr b \<Rightarrow>
                let base = effectiveBase b
                in return (tampered @ (if fless ratioEps (fdist base (de_base e))
                     then [\<lparr> dd_org = org, dd_user_group = ug, dd_token_group = g, dd_kind = DriftBaseShifted,
                             dd_expected = de_base e, dd_actual = base \<rparr>] else [])))))"

definition reconcileOrgDiscount :: "'u service \<Rightarrow> int \<Rightarrow> ('u, discount_drift list) op" where
  "reconcileOrgDiscount S org =
     bind (loadDiscountEntries org) (\<lambda>es.
     if es = [] then return []
     else bind (orgUserGroup org) (\<lambda>ug.
       foldM (\<lambda>ge acc. bind (reconcileEntry S org ug ge) (\<lambda>ds. return (acc @ ds))) es []))"

definition driftString :: "drift_kind \<Rightarrow> string" where
  "driftString k = (case k of DriftTampered \<Rightarrow> ''tampered'' | DriftBaseShifted \<Rightarrow> ''base_shifted''
     | DriftMissing \<Rightarrow> ''missing'')"

definition ReconcileDiscounts :: "'u service \<Rightarrow> ('u, discount_drift list) op" where
  "ReconcileDiscounts S =
     (if sv_observe S then return []
      else
      bind ListDiscountedOrgIDs (\<lambda>ids.
      bind (foldM (\<lambda>org acc. bind (reconcileOrgDiscount S org) (\<lambda>ds. return (acc @ ds))) ids []) (\<lambda>ds.
      bind (foreach ds (\<lambda>x.
        bind (orgAdminIDs (dd_org x)) (\<lambda>admins.
        bind (foreach admins (\<lambda>a. notify (dd_org x) a ''pricing_drift'')) (\<lambda>_.
        auditSystem (dd_org x) ''discount_reconcile'' ''organization'' (Some (dd_org x))
          [(''token_group'', JStr (dd_token_group x)), (''kind'', JStr (driftString (dd_kind x))),
           (''expected'', JFloat (dd_expected x)), (''actual'', JFloat (dd_actual x))] ''drift'')))) (\<lambda>_.
      return ds))))"

definition ReconcileDiscountsForOperator :: "'u service \<Rightarrow> claims \<Rightarrow> ('u, discount_drift list) op" where
  "ReconcileDiscountsForOperator S c =
     bind (assertRole c [RoleOperator]) (\<lambda>_. ReconcileDiscounts S)"

end
