(* ===== verification/Identity.thy ===== *)
theory Identity
  imports StoreOrg Quota Session
begin

text \<open>
  Identity (\<open>service/identity.go\<close>): login, the check of every request's session against the member
  row, the member's own profile, password changes and resets with the epoch that revokes older
  tokens, and the operator account created at start.  \<open>bcrypt\<close> is the pair of functions
  \<open>sv_hash_password\<close>, \<open>sv_check_password\<close> of the service; the time-outs of the contexts are left
  to the fault schedule.
\<close>

section \<open>Login\<close>

definition credentialErr :: "err \<Rightarrow> err" where
  "credentialErr e = (if errorsIs e ErrNotFound then Unauthenticated else internal e)"

definition passwordMatches :: "'u service \<Rightarrow> member \<Rightarrow> string \<Rightarrow> bool" where
  "passwordMatches S m pw = (case m_pwhash m of None \<Rightarrow> False | Some h \<Rightarrow> sv_check_password S h pw)"

definition loginClaims :: "member \<Rightarrow> claims" where
  "loginClaims m = \<lparr> cl_member = m_id m, cl_org = m_org m, cl_role = m_role m,
     cl_team = (case m_team m of None \<Rightarrow> 0 | Some t \<Rightarrow> t), cl_support = 0, cl_scope = '''',
     cl_epoch = m_epoch m, cl_iat = 0, cl_exp = 0 \<rparr>"

definition Login :: "'u service \<Rightarrow> signer \<Rightarrow> string \<Rightarrow> string \<Rightarrow> ('u, string \<times> member) op" where
  "Login S sg email pw =
     bind (mapErr credentialErr (GetMemberByEmail email)) (\<lambda>m.
     if \<not> passwordMatches S m pw then throw Unauthenticated
     else if m_status m = MemberStatusDisabled \<or> m_status m = MemberStatusExpired then throw Forbidden
     else bind clock (\<lambda>now. return (Issue sg now (loginClaims m), m)))"

section \<open>Every request\<close>

definition ValidateSession :: "claims \<Rightarrow> ('u, unit) op" where
  "ValidateSession c =
     (if cl_support c \<noteq> 0 then return ()
      else bind (mapErr credentialErr (GetMember (cl_org c) (cl_member c))) (\<lambda>m.
        if m_status m \<noteq> MemberStatusActive then throw Unauthenticated
        else if m_epoch m \<noteq> cl_epoch c then throw Unauthenticated
        else return ()))"

definition supportName :: string where
  "supportName = byteString [0xE8, 0xBF, 0x90, 0xE8, 0x90, 0xA5, 0xE6, 0x96, 0xB9] @ ''('' @ byteString [0xE6, 0x94, 0xAF, 0xE6, 0x8C, 0x81, 0xE6, 0x80, 0x81] @ '')''"

definition supportProfile :: "claims \<Rightarrow> member" where
  "supportProfile c = \<lparr> m_id = cl_member c, m_org = cl_org c, m_team = None, m_email = ''support-session'',
     m_display = Some supportName, m_role = cl_role c, m_tier = None, m_group = None,
     m_status = MemberStatusActive, m_pwhash = None, m_token = None, m_key_masked = None, m_rotation = 0,
     m_bootstrap = BootstrapPending, m_epoch = 0, m_deleted = False \<rparr>"

definition Me :: "claims \<Rightarrow> ('u, member) op" where
  "Me c = (if cl_support c \<noteq> 0 then return (supportProfile c)
           else mapErr credentialErr (GetMember (cl_org c) (cl_member c)))"

section \<open>Passwords\<close>

definition hashPassword :: "'u service \<Rightarrow> string \<Rightarrow> ('u, string) op" where
  "hashPassword S pw = (case sv_hash_password S pw of None \<Rightarrow> throw Internal | Some h \<Rightarrow> return h)"

definition ChangePassword :: "'u service \<Rightarrow> claims \<Rightarrow> string \<Rightarrow> string \<Rightarrow> ('u, unit) op" where
  "ChangePassword S c old new =
     (if cl_support c \<noteq> 0 then throw Forbidden
      else
      bind (mapErr credentialErr (GetMember (cl_org c) (cl_member c))) (\<lambda>m.
      if \<not> passwordMatches S m old then throw InvalidParam
      else if length new < 8 \<or> length new > 64 then throw InvalidParam
      else if new = old then throw InvalidParam
      else
      bind (hashPassword S new) (\<lambda>h.
      bind (mapErr internal (UpdateMemberPassword (cl_org c) (cl_member c) h)) (\<lambda>_.
      bind (mapErr internal (BumpMemberSessionEpoch (cl_org c) (cl_member c))) (\<lambda>_.
      audit c (cl_org c) ''change_password'' ''member'' (Some (cl_member c)) [])))))"

definition UpdateMyDisplayName :: "claims \<Rightarrow> string \<Rightarrow> ('u, member) op" where
  "UpdateMyDisplayName c name =
     (if cl_support c \<noteq> 0 then throw Forbidden
      else
      bind (checkName name maxNameLen) (\<lambda>_.
      bind (mapErr internal (UpdateMemberDisplayName (cl_org c) (cl_member c) name)) (\<lambda>_.
      bind (audit c (cl_org c) ''update_display_name'' ''member'' (Some (cl_member c)) []) (\<lambda>_.
      Me c))))"

definition ResetMemberPassword :: "'u service \<Rightarrow> claims \<Rightarrow> int \<Rightarrow> int \<Rightarrow> ('u, string) op" where
  "ResetMemberPassword S c org mem =
     bind (loadManageableMember c org mem) (\<lambda>_.
     bind (draw (sv_gen_platform_password S)) (\<lambda>pw.
     bind (hashPassword S pw) (\<lambda>h.
     bind (mapErr internal (UpdateMemberPassword org mem h)) (\<lambda>_.
     bind (mapErr internal (BumpMemberSessionEpoch org mem)) (\<lambda>_.
     bind (audit c org ''reset_member_password'' ''member'' (Some mem) []) (\<lambda>_.
     return pw))))))"

section \<open>The operator account\<close>

definition operatorOrgSlug :: string where "operatorOrgSlug = ''_operator''"

definition operatorOrgName :: string where
  "operatorOrgName = byteString [0xE5, 0xB9, 0xB3, 0xE5, 0x8F, 0xB0, 0xE8, 0xBF, 0x90, 0xE8, 0x90, 0xA5, 0xE6, 0x96, 0xB9]"

definition ensureOperatorOrg :: "('u, int) op" where
  "ensureOperatorOrg =
     bind (attempt (GetOrganizationBySlug operatorOrgSlug)) (\<lambda>r. case r of
       Inr o' \<Rightarrow> return (o_id o')
     | Inl e \<Rightarrow> if \<not> errorsIs e ErrNotFound then throw e
               else CreateOrganization operatorOrgName operatorOrgSlug None False BillingKindWallet)"

definition platformMember :: "int \<Rightarrow> string \<Rightarrow> role \<Rightarrow> string \<Rightarrow> member" where
  "platformMember org email r h = \<lparr> m_id = 0, m_org = org, m_team = None, m_email = email, m_display = None,
     m_role = r, m_tier = None, m_group = None, m_status = MemberStatusProvisioning, m_pwhash = Some h,
     m_token = None, m_key_masked = None, m_rotation = 0, m_bootstrap = BootstrapPending, m_epoch = 0,
     m_deleted = False \<rparr>"

definition SeedOperator :: "'u service \<Rightarrow> string \<Rightarrow> string \<Rightarrow> ('u, unit) op" where
  "SeedOperator S email pw =
     (if email = '''' \<or> pw = '''' then return ()
      else bind (attempt (GetMemberByEmail email)) (\<lambda>r. case r of
        Inr _ \<Rightarrow> return ()
      | Inl e \<Rightarrow>
          if \<not> errorsIs e ErrNotFound then throw e
          else
          bind ensureOperatorOrg (\<lambda>org.
          bind (hashPassword S pw) (\<lambda>h.
          bind (CreateMemberProvisional (platformMember org email RoleOperator h)) (\<lambda>i.
          ActivatePlatformAccount org i)))))"

end
