(* ===== verification/NetIP.thy ===== *)
theory NetIP
  imports Session
begin

text \<open>
  The part of Go's \<open>strings\<close> and \<open>net\<close> packages behind the IP white list: \<open>TrimSpace\<close> over UTF-8
  text, \<open>net.ParseIP\<close> and \<open>net.ParseCIDR\<close> as predicates on byte strings.
\<close>

section \<open>\<open>strings.TrimSpace\<close>\<close>

text \<open>The UTF-8 encodings of the Unicode white space.\<close>

definition spaceSeqs :: "string list" where
  "spaceSeqs = [[CHR 0x09], [CHR 0x0A], [CHR 0x0B], [CHR 0x0C], [CHR 0x0D], [CHR 0x20], [CHR 0xC2, CHR 0x85], [CHR 0xC2, CHR 0xA0],
     [CHR 0xE1, CHR 0x9A, CHR 0x80], [CHR 0xE2, CHR 0x80, CHR 0xA8], [CHR 0xE2, CHR 0x80, CHR 0xA9],
     [CHR 0xE2, CHR 0x80, CHR 0xAF], [CHR 0xE2, CHR 0x81, CHR 0x9F], [CHR 0xE3, CHR 0x80, CHR 0x80]]
     @ map (\<lambda>n. [CHR 0xE2, CHR 0x80, char_of (0x80 + n)]) [0 ..< (11::nat)]"

definition startsWith :: "string \<Rightarrow> string \<Rightarrow> bool" where
  "startsWith s p \<longleftrightarrow> take (length p) s = p"

function dropSeqs :: "string list \<Rightarrow> string \<Rightarrow> string" where
  "dropSeqs ps s = (case find (\<lambda>p. p \<noteq> [] \<and> s \<noteq> [] \<and> startsWith s p) ps of
      None \<Rightarrow> s | Some p \<Rightarrow> dropSeqs ps (drop (length p) s))"
  by auto
termination
  by (relation "measure (\<lambda>(_, s). length s)") (auto simp: find_Some_iff)

declare dropSeqs.simps [simp del]

definition TrimSpace :: "string \<Rightarrow> string" where
  "TrimSpace s = rev (dropSeqs (map rev spaceSeqs) (rev (dropSeqs spaceSeqs s)))"

section \<open>\<open>net.ParseIP\<close>\<close>

text \<open>Four decimal octets, without leading zeros.\<close>

definition octetOk :: "string \<Rightarrow> bool" where
  "octetOk s \<longleftrightarrow> s \<noteq> [] \<and> list_all isDigit s \<and> undigits s \<le> 255 \<and> (length s = 1 \<or> hd s \<noteq> CHR ''0'')"

definition v4Ok :: "string \<Rightarrow> bool" where
  "v4Ok s = (let ps = splitOn CHR ''.'' s in length ps = 4 \<and> list_all octetOk ps)"

definition isHex :: "char \<Rightarrow> bool" where
  "isHex c = (let n = (of_char c :: nat) in (48 \<le> n \<and> n \<le> 57) \<or> (97 \<le> n \<and> n \<le> 102) \<or> (65 \<le> n \<and> n \<le> 70))"

text \<open>
  The groups of an IPv6 address: \<open>left\<close> groups of 16 bits are still free and \<open>ell\<close> tells that the
  ellipsis was met, which has to stand for one free group at least.  A tail in dotted form takes two
  groups.
\<close>

fun v6Groups :: "nat \<Rightarrow> bool \<Rightarrow> string \<Rightarrow> bool" where
  "v6Groups 0 ell s = False"
| "v6Groups (Suc left) ell s =
     (let h = takeWhile isHex s; r = dropWhile isHex s
      in if h = [] \<or> length h > 4 then False
         else case r of
             [] \<Rightarrow> (left = 0) \<noteq> ell
           | c # t \<Rightarrow>
               if c = CHR ''.'' then (ell \<or> left = 1) \<and> 1 \<le> left \<and> v4Ok s \<and> (left = 1) \<noteq> ell
               else if c \<noteq> CHR '':'' then False
               else (case t of
                   [] \<Rightarrow> False
                 | c' # u \<Rightarrow>
                     if c' = CHR '':'' then \<not> ell \<and> (if u = [] then left \<noteq> 0 else v6Groups left True u)
                     else v6Groups left ell t))"

definition v6Ok :: "string \<Rightarrow> bool" where
  "v6Ok s = (if startsWith s ''::'' then (let u = drop 2 s in u = [] \<or> v6Groups 8 True u) else v6Groups 8 False s)"

definition bitLen :: "string \<Rightarrow> nat option" where
  "bitLen s = (case find (\<lambda>c. c \<in> {CHR ''.'', CHR '':'', CHR ''%''}) s of
      Some c \<Rightarrow> if c = CHR ''.'' then (if v4Ok s then Some 32 else None)
                else if c = CHR '':'' \<and> CHR ''%'' \<notin> set s then (if v6Ok s then Some 128 else None)
                else None
    | None \<Rightarrow> None)"

definition ParseIP :: "string \<Rightarrow> bool" where
  "ParseIP s \<longleftrightarrow> bitLen s \<noteq> None"

text \<open>\<open>net.ParseCIDR\<close>: the text before the first slash is an address, the rest its prefix length.\<close>

definition ParseCIDR :: "string \<Rightarrow> bool" where
  "ParseCIDR s =
     (let addr = takeWhile (\<lambda>c. c \<noteq> CHR ''/'') s; r = dropWhile (\<lambda>c. c \<noteq> CHR ''/'') s
      in case r of [] \<Rightarrow> False
         | _ # bits \<Rightarrow> (case bitLen addr of None \<Rightarrow> False
             | Some n \<Rightarrow> bits \<noteq> [] \<and> list_all isDigit bits \<and> undigits bits \<le> n))"

end
