(* ===== verification/Members.thy ===== *)
theory Members
  imports Pricing Identity NetIP
begin

text \<open>
  Members and their keys (\<open>service/member.go\<close>, \<open>service/bulk.go\<close>): opening a member, with the
  compensation of every step that can fail, the member lists, the keys a member manages alone, and the
  bulk operations.
\<close>

section \<open>Helpers\<close>

text \<open>\<open>maskKey\<close> (\<open>service/secret.go\<close>).\<close>

definition dots :: string where
  "dots = byteString [0xE2, 0x80, 0xA2, 0xE2, 0x80, 0xA2, 0xE2, 0x80, 0xA2, 0xE2, 0x80, 0xA2]"

definition maskKey :: "string \<Rightarrow> string" where
  "maskKey k = (if length k \<le> 8 then dots else take 8 k @ dots @ drop (length k - 4) k)"

definition resolveTier :: "int \<Rightarrow> int option \<Rightarrow> int option \<Rightarrow> ('u, tier) op" where
  "resolveTier org given orgDefault =
     (case (case given of None \<Rightarrow> orgDefault | Some t \<Rightarrow> Some t) of
        None \<Rightarrow> throw InvalidParam
      | Some t \<Rightarrow> mapErr (\<lambda>e. if errorsIs e ErrNotFound then InvalidParam else internal e) (GetTier org t))"

definition validateAllowIPs :: "string \<Rightarrow> bool" where
  "validateAllowIPs s \<longleftrightarrow> TrimSpace s = [] \<or>
     list_all (\<lambda>part. let p = TrimSpace part in p = [] \<or> ParseIP p \<or> ParseCIDR p) (splitOn CHR '','' s)"

section \<open>Opening a member\<close>

record open_result =
  or_member :: int
  or_key :: string
  or_masked :: string
  or_password :: string
  or_email :: string
  or_tier :: int
  or_models :: "string list"

definition provisionalMember :: "int \<Rightarrow> int option \<Rightarrow> string \<Rightarrow> string \<Rightarrow> int option \<Rightarrow> string \<Rightarrow> string option \<Rightarrow> member" where
  "provisionalMember org tm email name tier grp h = \<lparr> m_id = 0, m_org = org, m_team = tm, m_email = email,
     m_display = Some name, m_role = RoleMember, m_tier = tier, m_group = Some grp,
     m_status = MemberStatusProvisioning, m_pwhash = h, m_token = None, m_key_masked = None, m_rotation = 0,
     m_bootstrap = BootstrapPending, m_epoch = 0, m_deleted = False \<rparr>"

definition openSpec :: "int \<Rightarrow> string \<Rightarrow> string list \<Rightarrow> token_spec" where
  "openSpec mem grp models = \<lparr> ts_name = deriveTokenName mem 1, ts_quota = 0, ts_unlimited = True,
     ts_models = models, ts_group = grp, ts_expired = -1, ts_ips = '''' \<rparr>"

definition conflictOrInternal :: "err \<Rightarrow> err" where
  "conflictOrInternal e = (if errorsIs e ErrConflict then Conflict else internal e)"

text \<open>\<open>openTeam\<close>: the team a leader's request falls back to and may not leave.\<close>

definition openTeam :: "claims \<Rightarrow> int option \<Rightarrow> ('u, int option) op" where
  "openTeam c tm =
     (if cl_role c = RoleTeamLeader
      then let tm' = (case tm of None \<Rightarrow> Some (cl_team c) | Some t \<Rightarrow> Some t)
           in bind (assertTeamScope c tm') (\<lambda>_. return tm')
      else return tm)"

definition failOpen :: "claims \<Rightarrow> int \<Rightarrow> int \<Rightarrow> string \<Rightarrow> string \<Rightarrow> err \<Rightarrow> ('u, 'a) op" where
  "failOpen c org mem name result e =
     bind (ignoreErr (MarkBootstrapFailedAndRelease org mem)) (\<lambda>_.
     bind (guard_when (result \<noteq> '''') (audit c org ''open_member'' ''member'' (Some mem)
             [(''name'', JStr name), (''result'', JStr result)])) (\<lambda>_.
     throw e))"

text \<open>The second half: the member row exists, its token has to be made and bound.\<close>

definition issueKey :: "'u service \<Rightarrow> claims \<Rightarrow> int \<Rightarrow> string \<Rightarrow> int \<Rightarrow> string \<Rightarrow> string \<Rightarrow> string list \<Rightarrow> ('u, string) op" where
  "issueKey S c org oname mem name grp models =
     bind (attempt (EnsureOrgProvisioned S org oname)) (\<lambda>pr. case pr of
       Inl e \<Rightarrow> failOpen c org mem name ''org_provision_failed'' e
     | Inr cred \<Rightarrow>
     bind (orgUserGroup org) (\<lambda>ug.
     bind (ignoreErr (upcall (na_AddOrgUsableGroup (sv_up S) ug grp))) (\<lambda>_.
     bind (ensureTotalDiscountCoversGroup S org grp) (\<lambda>_.
     bind (attempt (upcall (na_CreateToken (sv_up S) cred (openSpec mem grp models)))) (\<lambda>tr. case tr of
       Inl e \<Rightarrow> failOpen c org mem name ''create_token_failed'' (mapUpstream e)
     | Inr tok \<Rightarrow>
     bind (attempt (upcall (na_RevealTokenKey (sv_up S) cred tok))) (\<lambda>kr. case kr of
       Inl e \<Rightarrow> failOpen c org mem name '''' (mapUpstream e)
     | Inr key \<Rightarrow>
     bind (attempt (FinalizeBootstrap org mem (Some tok) (Some (maskKey key)) 1 (deriveTokenName mem 1))) (\<lambda>fr. case fr of
       Inl e \<Rightarrow>
         bind (ignoreErr (upcall (na_DeleteToken (sv_up S) cred tok))) (\<lambda>_.
         failOpen c org mem name ''finalize_failed'' (internal e))
     | Inr _ \<Rightarrow>
         bind (audit c org ''open_member'' ''member'' (Some mem)
            [(''name'', JStr name), (''org_newapi_user_id'', JInt (cr_user cred))]) (\<lambda>_.
         return key))))))))"

definition OpenMember :: "'u service \<Rightarrow> claims \<Rightarrow> int \<Rightarrow> string \<Rightarrow> string \<Rightarrow> int option \<Rightarrow> int option \<Rightarrow> ('u, open_result) op" where
  "OpenMember S c org name email0 team0 tier0 =
     bind (assertOrgScope c org) (\<lambda>_.
     bind (assertRole c [RoleOrgAdmin, RoleTeamLeader]) (\<lambda>_.
     if name = '''' then throw InvalidParam
     else
     bind (checkName name maxNameLen) (\<lambda>_.
     bind (guard_when (email0 \<noteq> '''') (checkLoginName email0)) (\<lambda>_.
     bind (openTeam c team0) (\<lambda>tm.
     bind (mapErr notFoundOrInternal (GetOrganization org)) (\<lambda>o'.
     bind (case tm of None \<Rightarrow> return ()
           | Some t \<Rightarrow> bind (mapErr (\<lambda>e. if errorsIs e ErrNotFound then InvalidParam else internal e) (GetTeam org t)) (\<lambda>_. return ())) (\<lambda>_.
     bind (resolveTier org tier0 (o_default_tier o')) (\<lambda>tr.
     let grp = resolveTokenGroup (Some tr) o'
     in
     bind (if email0 = '''' then bind (draw (sv_rand_suffix S)) (\<lambda>x. return (o_slug o' @ ''-'' @ x @ ''@nexus.local''))
           else return email0) (\<lambda>email.
     bind (draw (sv_gen_platform_password S)) (\<lambda>pw.
     bind (hashPassword S pw) (\<lambda>h.
     bind (mapErr conflictOrInternal (CreateMemberProvisional
             (provisionalMember org tm email name (Some (tr_id tr)) grp (Some h)))) (\<lambda>mem.
     bind (issueKey S c org (o_name o') mem name grp (tr_model_set tr)) (\<lambda>key.
     return \<lparr> or_member = mem, or_key = key, or_masked = maskKey key, or_password = pw, or_email = email,
              or_tier = tr_id tr, or_models = tr_model_set tr \<rparr>)))))))))))))"

section \<open>Reading members\<close>

definition ListMembers :: "claims \<Rightarrow> int \<Rightarrow> member_filter \<Rightarrow> ('u, member list \<times> nat) op" where
  "ListMembers c org f =
     bind (assertOrgScope c org) (\<lambda>_.
     bind (assertRole c [RoleOperator, RoleOrgAdmin, RoleTeamLeader]) (\<lambda>_.
     ListMembersRepo org (if cl_role c = RoleTeamLeader then f\<lparr>mf_team := Some (cl_team c)\<rparr> else f)))"

definition GetMemberService :: "claims \<Rightarrow> int \<Rightarrow> int \<Rightarrow> ('u, member) op" where
  "GetMemberService c org mem =
     bind (assertOrgScope c org) (\<lambda>_.
     bind (mapErr notFoundOrInternal (GetMember org mem)) (\<lambda>m.
     bind (guard_when (cl_role c = RoleTeamLeader) (assertTeamScope c (m_team m))) (\<lambda>_.
     bind (assertSelf c mem) (\<lambda>_. return m))))"

section \<open>One's own key\<close>

definition keySpec :: "int \<Rightarrow> int \<Rightarrow> string \<Rightarrow> string \<Rightarrow> token_spec" where
  "keySpec mem rot grp ips = \<lparr> ts_name = deriveTokenName mem rot, ts_quota = 0, ts_unlimited = True,
     ts_models = [], ts_group = grp, ts_expired = -1, ts_ips = ips \<rparr>"

definition hasKey :: "member \<Rightarrow> bool" where
  "hasKey m \<longleftrightarrow> m_bootstrap m = BootstrapDone \<and> m_token m \<noteq> None"

definition SetKeyIPWhitelist :: "'u service \<Rightarrow> claims \<Rightarrow> int \<Rightarrow> int \<Rightarrow> string \<Rightarrow> ('u, unit) op" where
  "SetKeyIPWhitelist S c org mem ips =
     bind (assertOrgScope c org) (\<lambda>_.
     if cl_member c \<noteq> mem then throw Forbidden
     else if \<not> validateAllowIPs ips then throw InvalidParam
     else
     bind (mapErr notFoundOrInternal (GetMember org mem)) (\<lambda>m.
     if m_status m \<noteq> MemberStatusActive then throw Forbidden
     else if \<not> hasKey m then throw err409
     else
     bind (mapErr mapUpstream (withOrgCred S org (\<lambda>cred. upcall (na_UpdateToken (sv_up S) cred (the (m_token m))
             (keySpec mem (m_rotation m) (memberTokenGroup m) ips))))) (\<lambda>_.
     audit c org ''set_key_ip_whitelist'' ''member'' (Some mem) [(''allow_ips'', JStr ips)])))"

definition RotateKey :: "'u service \<Rightarrow> claims \<Rightarrow> int \<Rightarrow> int \<Rightarrow> ('u, string \<times> string) op" where
  "RotateKey S c org mem =
     bind (assertOrgScope c org) (\<lambda>_.
     if cl_member c \<noteq> mem then throw Forbidden
     else
     bind (mapErr notFoundOrInternal (GetMember org mem)) (\<lambda>m.
     if m_status m \<noteq> MemberStatusActive then throw Forbidden
     else if \<not> hasKey m then throw err409
     else
     let rot = m_rotation m + 1; spec = keySpec mem rot (memberTokenGroup m) ''''
     in
     bind (mapErr mapUpstream (withOrgCred S org (\<lambda>cred. upcall (na_RotateToken (sv_up S) cred (the (m_token m)) spec)))) (\<lambda>(newId, newKey).
     bind (mapErr internal (UpdateMemberKey org mem newId (maskKey newKey) (ts_name spec) rot)) (\<lambda>_.
     bind (audit c org ''rotate_key'' ''member'' (Some mem) [(''rotation'', JInt rot)]) (\<lambda>_.
     return (newKey, maskKey newKey))))))"

definition MemberUsableGroups :: "'u service \<Rightarrow> claims \<Rightarrow> ('u, string list) op" where
  "MemberUsableGroups S c =
     bind (orgUserGroup (cl_org c)) (\<lambda>ug. mapErr mapUpstream (upcall (na_GetOrgUsableGroups (sv_up S) ug)))"

definition makeToken :: "'u service \<Rightarrow> member \<Rightarrow> token_spec \<Rightarrow> cred \<Rightarrow> ('u, int \<times> string) op" where
  "makeToken S m spec cred = (case m_token m of
      None \<Rightarrow>
        bind (upcall (na_CreateToken (sv_up S) cred spec)) (\<lambda>tid.
        bind (upcall (na_RevealTokenKey (sv_up S) cred tid)) (\<lambda>k. return (tid, k)))
    | Some tok \<Rightarrow> upcall (na_RotateToken (sv_up S) cred tok spec))"

definition CreateMemberToken :: "'u service \<Rightarrow> claims \<Rightarrow> int \<Rightarrow> string \<Rightarrow> ('u, string \<times> string) op" where
  "CreateMemberToken S c mem grp =
     (if cl_member c \<noteq> mem then throw Forbidden
      else if grp = '''' then throw InvalidParam
      else
      bind (mapErr notFoundOrInternal (GetMember (cl_org c) mem)) (\<lambda>m.
      if m_status m \<noteq> MemberStatusActive then throw Forbidden
      else
      bind (if grp = ''default'' then return ()
            else bind (orgUserGroup (cl_org c)) (\<lambda>ug.
                 bind (mapErr mapUpstream (upcall (na_GetOrgUsableGroups (sv_up S) ug))) (\<lambda>us.
                 ensure (grp \<in> set us) InvalidParam))) (\<lambda>_.
      let rot = m_rotation m + 1; spec = keySpec mem rot grp ''''
      in
      bind (mapErr mapUpstream (withOrgCred S (cl_org c) (makeToken S m spec))) (\<lambda>(newId, newKey).
      bind (mapErr internal (UpdateMemberKey (cl_org c) mem newId (maskKey newKey) (ts_name spec) rot)) (\<lambda>_.
      bind (audit c (cl_org c) ''create_member_token'' ''member'' (Some mem)
              [(''group'', JStr grp), (''rotation'', JInt rot)]) (\<lambda>_.
      return (newKey, maskKey newKey)))))))"

section \<open>In bulk\<close>

record bulk_row =
  bk_name :: string
  bk_member :: int
  bk_ok :: bool

definition bulkMaxRows :: nat where "bulkMaxRows = 200"

definition asciiSpace :: "char \<Rightarrow> bool" where
  "asciiSpace c \<longleftrightarrow> c \<in> {CHR 0x20, CHR 0x09, CHR 0x0D, CHR 0x0A}"

definition trimSpace :: "string \<Rightarrow> string" where
  "trimSpace s = rev (dropWhile asciiSpace (rev (dropWhile asciiSpace s)))"

definition bulkOpenStep :: "'u service \<Rightarrow> claims \<Rightarrow> int \<Rightarrow> int option \<Rightarrow> int option \<Rightarrow> string
    \<Rightarrow> string list \<times> bulk_row list \<Rightarrow> ('u, string list \<times> bulk_row list) op" where
  "bulkOpenStep S c org tm tier raw acc =
     (let name = trimSpace raw; seen = fst acc; out = snd acc
      in if name = '''' then return acc
         else if name \<in> set seen then return (seen, out @ [\<lparr> bk_name = name, bk_member = 0, bk_ok = False \<rparr>])
         else bind (attempt (OpenMember S c org name '''' tm tier)) (\<lambda>r. case r of
              Inl _ \<Rightarrow> return (name # seen, out @ [\<lparr> bk_name = name, bk_member = 0, bk_ok = False \<rparr>])
            | Inr res \<Rightarrow> return (name # seen, out @ [\<lparr> bk_name = name, bk_member = or_member res, bk_ok = True \<rparr>])))"

definition BulkOpenMembers :: "'u service \<Rightarrow> claims \<Rightarrow> int \<Rightarrow> string list \<Rightarrow> int option \<Rightarrow> int option \<Rightarrow> ('u, bulk_row list) op" where
  "BulkOpenMembers S c org names tm tier =
     (if names = [] then throw InvalidParam
      else if length names > bulkMaxRows then throw InvalidParam
      else
      bind (foldM (bulkOpenStep S c org tm tier) names ([], [])) (\<lambda>(_, out).
      bind (audit c org ''bulk_open_members'' ''member'' None [(''total'', JInt (int (length names)))]) (\<lambda>_.
      return out)))"

definition BulkSetStatus :: "'u service \<Rightarrow> claims \<Rightarrow> int \<Rightarrow> int list \<Rightarrow> bool \<Rightarrow> ('u, bulk_row list) op" where
  "BulkSetStatus S c org mids enabled =
     (if mids = [] then throw InvalidParam
      else foldM (\<lambda>mid out. bind (attempt (SetMemberStatus S c org mid enabled)) (\<lambda>r.
             return (out @ [\<lparr> bk_name = '''', bk_member = mid, bk_ok = (case r of Inl _ \<Rightarrow> False | Inr _ \<Rightarrow> True) \<rparr>]))) mids [])"

end
