(* ===== verification/OrgLifecycle.thy ===== *)
theory OrgLifecycle
  imports Members Backfill
begin

text \<open>
  The life of an organization (\<open>service/org.go\<close>): creation with a platform-made new-api user (door A)
  or bound to an existing one (door B), the import of that user's tokens as members, the hard stop and
  its release, archiving, and the reads of the operator's console.
\<close>

section \<open>UTF-8\<close>

text \<open>The runes of a byte string, an invalid byte being U+FFFD, and back.\<close>

definition contByte :: "char \<Rightarrow> bool" where
  "contByte c \<longleftrightarrow> 0x80 \<le> code c \<and> code c \<le> 0xBF"

definition low6 :: "char \<Rightarrow> nat" where
  "low6 c = code c - 0x80"

definition twoBytes :: "char \<Rightarrow> char \<Rightarrow> bool" where
  "twoBytes a b \<longleftrightarrow> 0xC2 \<le> code a \<and> code a \<le> 0xDF \<and> contByte b"

definition threeBytes :: "char \<Rightarrow> char \<Rightarrow> char \<Rightarrow> bool" where
  "threeBytes a b c \<longleftrightarrow> 0xE0 \<le> code a \<and> code a \<le> 0xEF \<and> contByte b \<and> contByte c
     \<and> (code a = 0xE0 \<longrightarrow> 0xA0 \<le> code b) \<and> (code a = 0xED \<longrightarrow> code b \<le> 0x9F)"

definition fourBytes :: "char \<Rightarrow> char \<Rightarrow> char \<Rightarrow> char \<Rightarrow> bool" where
  "fourBytes a b c d \<longleftrightarrow> 0xF0 \<le> code a \<and> code a \<le> 0xF4 \<and> contByte b \<and> contByte c \<and> contByte d
     \<and> (code a = 0xF0 \<longrightarrow> 0x90 \<le> code b) \<and> (code a = 0xF4 \<longrightarrow> code b \<le> 0x8F)"

definition rune2 :: "char \<Rightarrow> char \<Rightarrow> nat" where
  "rune2 a b = (code a - 0xC0) * 64 + low6 b"

definition rune3 :: "char \<Rightarrow> char \<Rightarrow> char \<Rightarrow> nat" where
  "rune3 a b c = (code a - 0xE0) * 4096 + low6 b * 64 + low6 c"

definition rune4 :: "char \<Rightarrow> char \<Rightarrow> char \<Rightarrow> char \<Rightarrow> nat" where
  "rune4 a b c d = (code a - 0xF0) * 262144 + low6 b * 4096 + low6 c * 64 + low6 d"

function runesOf :: "string \<Rightarrow> nat list" where
  "runesOf [] = []"
| "runesOf (a # r) =
     (if code a < 0x80 then code a # runesOf r
      else case r of
        b # r2 \<Rightarrow>
          if twoBytes a b then rune2 a b # runesOf r2
          else (case r2 of
            c # r3 \<Rightarrow>
              if threeBytes a b c then rune3 a b c # runesOf r3
              else (case r3 of
                d # r4 \<Rightarrow> if fourBytes a b c d then rune4 a b c d # runesOf r4 else 0xFFFD # runesOf r
              | [] \<Rightarrow> 0xFFFD # runesOf r)
          | [] \<Rightarrow> 0xFFFD # runesOf r)
      | [] \<Rightarrow> 0xFFFD # runesOf r)"
  by pat_completeness auto
termination by (relation "measure length") auto

definition encodeRune :: "nat \<Rightarrow> string" where
  "encodeRune n =
     (if n < 0x80 then [char_of n]
      else if n < 0x800 then [char_of (0xC0 + n div 64), char_of (0x80 + n mod 64)]
      else if n < 0x10000 then [char_of (0xE0 + n div 4096), char_of (0x80 + n div 64 mod 64), char_of (0x80 + n mod 64)]
      else [char_of (0xF0 + n div 262144), char_of (0x80 + n div 4096 mod 64), char_of (0x80 + n div 64 mod 64),
            char_of (0x80 + n mod 64)])"

definition cleanName :: "string \<Rightarrow> string" where
  "cleanName s = concat (map encodeRune (sanitizeExternalName (runesOf s)))"

section \<open>Importing tokens\<close>

text \<open>The prefix of a generated display name (two Chinese characters and a dash).\<close>

definition memberPrefix :: string where
  "memberPrefix = byteString [0xE6, 0x88, 0x90, 0xE5, 0x91, 0x98] @ ''-''"

definition importedMember :: "int \<Rightarrow> string \<Rightarrow> string \<Rightarrow> string \<Rightarrow> member" where
  "importedMember org email name grp = provisionalMember org None email name None grp None"

definition importName :: "'u service \<Rightarrow> string \<Rightarrow> string \<Rightarrow> ('u, string) op" where
  "importName S policy clean =
     (if policy = ''random'' \<or> clean = '''' then bind (draw (sv_rand_suffix S)) (\<lambda>x. return (memberPrefix @ x))
      else return clean)"

definition importToken :: "'u service \<Rightarrow> organization \<Rightarrow> string \<Rightarrow> user_token \<Rightarrow> int \<times> int \<Rightarrow> ('u, int \<times> int) op" where
  "importToken S o' policy t acc = (case acc of (imported, failed) \<Rightarrow>
     bind (attempt (GetMemberByNewapiTokenID (ut_id t))) (\<lambda>r. case r of
       Inl _ \<Rightarrow> return (imported, failed + 1)
     | Inr (Some _) \<Rightarrow> return (imported, failed)
     | Inr None \<Rightarrow>
     bind (importName S policy (cleanName (ut_name t))) (\<lambda>name.
     bind (draw (sv_rand_suffix S)) (\<lambda>x.
     bind (attempt (CreateMemberProvisional (importedMember (o_id o') (o_slug o' @ ''-'' @ x @ ''@nexus.local'') name (ut_group t)))) (\<lambda>cr. case cr of
       Inl _ \<Rightarrow> return (imported, failed + 1)
     | Inr mem \<Rightarrow>
     bind (attempt (FinalizeBootstrap (o_id o') mem (Some (ut_id t))
             (Some (if ut_masked t = '''' then dots else ut_masked t)) 1 (ut_name t))) (\<lambda>fr. case fr of
       Inl _ \<Rightarrow> bind (ignoreErr (MarkBootstrapFailedAndRelease (o_id o') mem)) (\<lambda>_. return (imported, failed + 1))
     | Inr _ \<Rightarrow>
         bind (guard_when (ut_status t = 2) (ignoreErr (UpdateMemberStatus (o_id o') mem MemberStatusDisabled))) (\<lambda>_.
         return (imported + 1, failed))))))))"

definition importOrgTokens :: "'u service \<Rightarrow> int \<Rightarrow> cred \<Rightarrow> string \<Rightarrow> ('u, int \<times> int) op" where
  "importOrgTokens S org cred policy =
     bind (attempt (GetOrganization org)) (\<lambda>or. case or of
       Inl _ \<Rightarrow> return (0, 0)
     | Inr o' \<Rightarrow>
     bind (attempt (upcall (na_ListUserTokens (sv_up S) cred))) (\<lambda>tr. case tr of
       Inl _ \<Rightarrow> return (0, 0)
     | Inr ts \<Rightarrow> foldM (importToken S o' policy) ts (0, 0)))"

section \<open>Creation\<close>

record associate_input =
  as_user :: int
  as_token :: string
  as_policy :: string

record create_org_input =
  co_name :: string
  co_slug :: string
  co_admin_email :: string
  co_admin_password :: string
  co_group :: string
  co_associate :: "associate_input option"

record create_org_result =
  cor_org :: organization
  cor_admin :: int
  cor_password :: string
  cor_imported :: int
  cor_failed :: int

definition baseTierQuota :: int where "baseTierQuota = 25000000"

definition roleCommonUser :: int where "roleCommonUser = 1"

text \<open>The gate of door B: the token works, is the user's own, of a common user, of the same group, free.\<close>

definition associateGate :: "'u service \<Rightarrow> string \<Rightarrow> associate_input \<Rightarrow> ('u, cred \<times> string \<times> billing_kind) op" where
  "associateGate S grp a =
     (if as_user a \<le> 0 \<or> as_token a = '''' then throw InvalidParam
      else let cred = \<lparr> cr_user = as_user a, cr_token = as_token a \<rparr>
      in
      bind (mapErr (\<lambda>_. InvalidParam) (upcall (na_GetSelfInfo (sv_up S) cred))) (\<lambda>info.
      if si_id info \<noteq> as_user a then throw InvalidParam
      else if si_role info \<noteq> roleCommonUser then throw InvalidParam
      else if si_group info \<noteq> grp then throw InvalidParam
      else
      bind (mapErr internal (GetOrgIDByNewapiUserID (as_user a))) (\<lambda>taken.
      if taken \<noteq> None then throw Conflict
      else
      bind (mapErr mapUpstream (upcall (na_GetSelfSubscription (sv_up S) cred))) (\<lambda>(pref, active).
      if active then return (cred, si_username info, BillingKindSub)
      else
      bind (guard_when (pref \<noteq> ''wallet_only'')
              (ignoreErr (upcall (na_SetBillingPreference (sv_up S) cred ''wallet_only'')))) (\<lambda>_.
      return (cred, si_username info, BillingKindWallet))))))"

text \<open>The default tier and the monthly policy: best effort.\<close>

definition baseTierName :: string where
  "baseTierName = byteString [0xE5, 0x9F, 0xBA, 0xE7, 0xA1, 0x80, 0xE6, 0xA1, 0xA3]"

definition baseTier :: "int \<Rightarrow> tier" where
  "baseTier org = \<lparr> tr_id = 0, tr_org = org, tr_name = baseTierName, tr_model_set = [], tr_model_cap = [], tr_daily = None,
     tr_weekly = None, tr_monthly = Some baseTierQuota, tr_group = None, tr_default = False, tr_deleted = False \<rparr>"

definition createBaseTier :: "int \<Rightarrow> ('u, unit) op" where
  "createBaseTier org =
     bind (attempt (CreateTierRow (baseTier org))) (\<lambda>r. case r of
       Inl _ \<Rightarrow> return ()
     | Inr t \<Rightarrow>
         bind (ignoreErr (SetDefaultTierRow org t)) (\<lambda>_.
         ignoreErr (UpsertQuotaPolicy \<lparr> q_id = 0, q_org = org, q_scope = ''org'', q_scope_id = org,
            q_period = ''monthly'', q_limit = baseTierQuota, q_anchor = ''00:00'', q_status = '''', q_last_reset = None \<rparr>)))"

definition bindAssociated :: "'u service \<Rightarrow> int \<Rightarrow> associate_input \<Rightarrow> cred \<Rightarrow> string \<Rightarrow> ('u, int \<times> int) op" where
  "bindAssociated S org a cred username =
     bind (attempt (SetOrgNewapiUser org (as_user a) '''' (sv_encrypt S (as_token a)) '''')) (\<lambda>wr.
     if wr \<noteq> Inr True then
       bind (ignoreErr (SetOrgArchivedRow org True)) (\<lambda>_.
       throw (case wr of Inl e \<Rightarrow> if errorsIs e ErrConflict then Conflict else internal e | Inr _ \<Rightarrow> Conflict))
     else
     bind (importOrgTokens S org cred (as_policy a)) (\<lambda>n.
     bind (ignoreErr (enqueueBackfill S org (as_user a) username)) (\<lambda>_.
     return n)))"

text \<open>The initial password of the administrator: given (8 to 64 bytes) or drawn.\<close>

definition adminPassword :: "'u service \<Rightarrow> string \<Rightarrow> ('u, string) op" where
  "adminPassword S given =
     (if given = '''' then draw (sv_gen_platform_password S)
      else if length given < 8 \<or> length given > 64 then throw InvalidParam
      else return given)"

definition CreateOrg :: "'u service \<Rightarrow> claims \<Rightarrow> create_org_input \<Rightarrow> ('u, create_org_result) op" where
  "CreateOrg S c i =
     bind (assertRole c [RoleOperator]) (\<lambda>_.
     if co_name i = '''' \<or> co_slug i = '''' \<or> co_admin_email i = '''' \<or> co_group i = '''' then throw InvalidParam
     else
     bind (checkName (co_name i) maxNameLen) (\<lambda>_.
     bind (checkSlug (co_slug i)) (\<lambda>_.
     bind (checkEmail (co_admin_email i)) (\<lambda>_.
     bind (checkName (co_group i) 64) (\<lambda>_.
     bind (mapErr mapUpstream (upcall (na_GetOrgUsableGroups (sv_up S) (co_group i)))) (\<lambda>usable.
     if usable = [] then throw InvalidParam
     else
     bind (case co_associate i of
             None \<Rightarrow> return (\<lparr> cr_user = 0, cr_token = '''' \<rparr>, '''', BillingKindWallet)
           | Some a \<Rightarrow> associateGate S (co_group i) a) (\<lambda>(cred, username, kind).
     bind (mapErr conflictOrInternal (CreateOrganization (co_name i) (co_slug i) (Some (co_group i))
             (co_associate i = None) kind)) (\<lambda>org.
     bind (adminPassword S (co_admin_password i)) (\<lambda>pw.
     bind (hashPassword S pw) (\<lambda>h.
     bind (mapErr conflictOrInternal (CreateMemberProvisional (platformMember org (co_admin_email i) RoleOrgAdmin h))) (\<lambda>admin.
     bind (mapErr internal (ActivatePlatformAccount org admin)) (\<lambda>_.
     bind (createBaseTier org) (\<lambda>_.
     bind (case co_associate i of
             None \<Rightarrow> return (0, 0)
           | Some a \<Rightarrow> bindAssociated S org a cred username) (\<lambda>(imported, failed).
     bind (mapErr internal (GetOrganization org)) (\<lambda>o'.
     bind (audit c org ''create_org'' ''organization'' (Some org)
             [(''name'', JStr (co_name i)), (''slug'', JStr (co_slug i)), (''admin_email'', JStr (co_admin_email i)),
              (''mode'', JStr (if co_associate i = None then ''created'' else ''associated'')),
              (''imported'', JInt imported), (''import_failed'', JInt failed)]) (\<lambda>_.
     return \<lparr> cor_org = o', cor_admin = admin, cor_password = pw, cor_imported = imported, cor_failed = failed \<rparr>))))))))))))))))"

definition ReimportOrgTokens :: "'u service \<Rightarrow> claims \<Rightarrow> int \<Rightarrow> ('u, int \<times> int) op" where
  "ReimportOrgTokens S c org =
     bind (assertRole c [RoleOperator]) (\<lambda>_.
     bind (mapErr notFoundOrInternal (GetOrganization org)) (\<lambda>o'.
     if o_created_by_platform o' then throw InvalidParam
     else
     bind (orgCred S org) (\<lambda>cred.
     bind (importOrgTokens S org cred ''inherit'') (\<lambda>n.
     bind (audit c org ''reimport_tokens'' ''organization'' (Some org)
             [(''imported'', JInt (fst n)), (''failed'', JInt (snd n))]) (\<lambda>_.
     return n)))))"

section \<open>Hard stop\<close>

definition HardStopOrg :: "'u service \<Rightarrow> claims \<Rightarrow> int \<Rightarrow> bool \<Rightarrow> ('u, unit) op" where
  "HardStopOrg S c org stop =
     bind (assertRole c [RoleOperator]) (\<lambda>_.
     bind (mapErr notFoundOrInternal (GetOrganization org)) (\<lambda>o'.
     if stop \<and> o_status o' = OrgStatusHardStopped then return ()
     else if \<not> stop \<and> o_status o' \<noteq> OrgStatusHardStopped then throw InvalidParam
     else
     bind (mapErr internal (GetOrgNewapiCred org)) (\<lambda>cr. case cr of
       None \<Rightarrow> throw err409
     | Some (uid, _) \<Rightarrow>
     bind (mapErr mapUpstream (upcall (na_SetUserStatus (sv_up S) uid (\<not> stop)))) (\<lambda>_.
     bind (mapErr internal (UpdateOrgStatus org (if stop then OrgStatusHardStopped else OrgStatusActive))) (\<lambda>_.
     bind (guard_when stop (ignoreErr (BumpOrgMembersSessionEpoch org))) (\<lambda>_.
     audit c org (if stop then ''hard_stop'' else ''hard_stop_release'') ''organization'' (Some org)
       [(''newapi_user_id'', JInt uid)]))))))"

section \<open>The operator's console\<close>

definition GetOrg :: "claims \<Rightarrow> int \<Rightarrow> ('u, organization) op" where
  "GetOrg c org =
     bind (assertOrgScope c org) (\<lambda>_.
     bind (assertRole c [RoleOperator, RoleOrgAdmin]) (\<lambda>_.
     mapErr notFoundOrInternal (GetOrganization org)))"

definition ListOrgs :: "claims \<Rightarrow> nat \<Rightarrow> nat \<Rightarrow> bool \<Rightarrow> ('u, organization list \<times> nat) op" where
  "ListOrgs c limit offset withArchived =
     bind (assertRole c [RoleOperator]) (\<lambda>_. ListOrganizations limit offset withArchived)"

definition SetOrgArchived :: "claims \<Rightarrow> int \<Rightarrow> bool \<Rightarrow> ('u, unit) op" where
  "SetOrgArchived c org archived =
     bind (assertRole c [RoleOperator]) (\<lambda>_.
     bind (mapErr notFoundOrInternal (GetOrganization org)) (\<lambda>_.
     bind (mapErr notFoundOrInternal (SetOrgArchivedRow org archived)) (\<lambda>_.
     audit c org (if archived then ''archive_org'' else ''unarchive_org'') ''organization'' (Some org) [])))"

end
