(* ===== verification/Admin.thy ===== *)
theory Admin
  imports Members Approvals
begin

text \<open>
  Administration by the organization itself (\<open>service/admin_extra.go\<close>, \<open>service/team.go\<close>) and the
  periodic reset of quotas (\<open>service/reset.go\<close>).
\<close>

section \<open>Settings of the organization\<close>

text \<open>
  \<open>if _, err := ...; errors.Is(err, ErrNotFound)\<close> without an else branch: any other error of the
  look-up is passed over.
\<close>

definition rejectMissing :: "err \<Rightarrow> ('u, 'a) op \<Rightarrow> ('u, unit) op" where
  "rejectMissing e look = bind (attempt look) (\<lambda>r. case r of
     Inl x \<Rightarrow> if errorsIs x ErrNotFound then throw e else return ()
   | Inr _ \<Rightarrow> return ())"

definition UpdateOrgSettings :: "'u service \<Rightarrow> claims \<Rightarrow> int \<Rightarrow> string option \<Rightarrow> string option \<Rightarrow> int option \<Rightarrow> ('u, organization) op" where
  "UpdateOrgSettings S c org name tz tier =
     bind (assertOrgScope c org) (\<lambda>_.
     bind (assertRole c [RoleOrgAdmin]) (\<lambda>_.
     bind (case name of None \<Rightarrow> return () | Some n \<Rightarrow> checkName n maxNameLen) (\<lambda>_.
     bind (case tz of None \<Rightarrow> return ()
           | Some z \<Rightarrow> ensure (z = '''' \<or> sv_zone S z \<noteq> None) InvalidParam) (\<lambda>_.
     bind (case tier of None \<Rightarrow> return () | Some t \<Rightarrow> rejectMissing InvalidParam (GetTier org t)) (\<lambda>_.
     bind (mapErr internal (UpdateOrgSettingsRow org name tz tier)) (\<lambda>_.
     bind (audit c org ''update_org_settings'' ''organization'' (Some org) []) (\<lambda>_.
     GetOrganization org)))))))"

definition SetOrgDefaultTokenGroup :: "'u service \<Rightarrow> claims \<Rightarrow> int \<Rightarrow> string option \<Rightarrow> ('u, organization) op" where
  "SetOrgDefaultTokenGroup S c org grp =
     bind (assertRole c [RoleOperator]) (\<lambda>_.
     bind (mapErr notFoundOrInternal (GetOrganization org)) (\<lambda>_.
     bind (case grp of None \<Rightarrow> return ()
           | Some g \<Rightarrow> if g = '''' \<or> g = ''default'' then return ()
               else bind (mapErr mapUpstream (upcall (na_ListGroupRatios (sv_up S)))) (\<lambda>ratios.
                    ensure (g \<in> fst ` set ratios) InvalidParam)) (\<lambda>_.
     let grp' = (if grp = Some '''' then None else grp)
     in
     bind (mapErr notFoundOrInternal (SetOrgDefaultTokenGroupRow org grp')) (\<lambda>_.
     bind (audit c org ''set_org_default_token_group'' ''organization'' (Some org)
             [(''group'', case grp' of None \<Rightarrow> JNull | Some g \<Rightarrow> JStr g)]) (\<lambda>_.
     GetOrganization org)))))"

definition GetApprovalRulesService :: "claims \<Rightarrow> int \<Rightarrow> ('u, int \<times> int \<times> int) op" where
  "GetApprovalRulesService c org =
     bind (assertOrgScope c org) (\<lambda>_.
     bind (assertRole c [RoleOperator, RoleOrgAdmin]) (\<lambda>_. GetApprovalRules org))"

definition negative :: "int option \<Rightarrow> bool" where
  "negative x = (case x of None \<Rightarrow> False | Some n \<Rightarrow> n < 0)"

definition SetApprovalRules :: "claims \<Rightarrow> int \<Rightarrow> int option \<Rightarrow> int option \<Rightarrow> int option \<Rightarrow> ('u, int \<times> int \<times> int) op" where
  "SetApprovalRules c org autoMax l1Max autoDays =
     bind (assertOrgScope c org) (\<lambda>_.
     bind (assertRole c [RoleOrgAdmin]) (\<lambda>_.
     if negative autoMax \<or> negative l1Max \<or> negative autoDays then throw InvalidParam
     else
     bind (mapErr internal (SetApprovalRulesRow org autoMax l1Max autoDays)) (\<lambda>_.
     bind (audit c org ''set_approval_rules'' ''organization'' (Some org) []) (\<lambda>_.
     GetApprovalRules org))))"

section \<open>Members\<close>

definition jOpt :: "int option \<Rightarrow> jval" where
  "jOpt x = (case x of None \<Rightarrow> JNull | Some n \<Rightarrow> JInt n)"

definition UpdateMember :: "'u service \<Rightarrow> claims \<Rightarrow> int \<Rightarrow> int \<Rightarrow> int option \<Rightarrow> int option \<Rightarrow> string option \<Rightarrow> ('u, member) op" where
  "UpdateMember S c org mem tm tier name =
     bind (loadManageableMember c org mem) (\<lambda>m.
     bind (case name of None \<Rightarrow> return ()
           | Some n \<Rightarrow> bind (checkName n maxNameLen) (\<lambda>_. mapErr internal (UpdateMemberDisplayName org mem n))) (\<lambda>_.
     bind (case tm of None \<Rightarrow> return () | Some t \<Rightarrow> rejectMissing InvalidParam (GetTeam org t)) (\<lambda>_.
     bind (case tier of None \<Rightarrow> return () | Some t \<Rightarrow> rejectMissing InvalidParam (GetTier org t)) (\<lambda>_.
     bind (mapErr internal (UpdateMemberTeamTier org mem tm tier)) (\<lambda>_.
     let m' = m\<lparr>m_team := (if tm = None then m_team m else tm), m_tier := (if tier = None then m_tier m else tier)\<rparr>
     in
     bind (guard_when (tm \<noteq> None \<or> tier \<noteq> None) (ignoreErr (applyMemberOverride S m'))) (\<lambda>_.
     bind (audit c org ''update_member'' ''member'' (Some mem)
             [(''team_id'', jOpt tm), (''tier_id'', jOpt tier), (''renamed'', JBool (name \<noteq> None))]) (\<lambda>_.
     GetMember org mem)))))))"

definition AssignRole :: "claims \<Rightarrow> int \<Rightarrow> int \<Rightarrow> role \<Rightarrow> ('u, unit) op" where
  "AssignRole c org mem r =
     bind (assertOrgScope c org) (\<lambda>_.
     bind (assertRole c [RoleOrgAdmin]) (\<lambda>_.
     if r \<notin> {RoleOrgAdmin, RoleTeamLeader, RoleMember} then throw InvalidParam
     else
     bind (rejectMissing NotFound (GetMember org mem)) (\<lambda>_.
     bind (mapErr internal (UpdateMemberRole org mem r)) (\<lambda>_.
     bind (mapErr internal (BumpMemberSessionEpoch org mem)) (\<lambda>_.
     audit c org ''assign_role'' ''member'' (Some mem) [(''role'', JStr (roleString r))])))))"

section \<open>Quota policies\<close>

definition ListQuotaPoliciesService :: "claims \<Rightarrow> int \<Rightarrow> ('u, quota_policy list) op" where
  "ListQuotaPoliciesService c org =
     bind (assertOrgScope c org) (\<lambda>_.
     bind (assertRole c [RoleOrgAdmin, RoleTeamLeader]) (\<lambda>_.
     bind (ListQuotaPolicies org) (\<lambda>ps.
     return (if cl_role c = RoleTeamLeader
             then filter (\<lambda>p. q_scope p = ''team'' \<and> q_scope_id p = cl_team c) ps else ps))))"

definition SetQuotaPolicy :: "claims \<Rightarrow> int \<Rightarrow> quota_policy \<Rightarrow> ('u, unit) op" where
  "SetQuotaPolicy c org p =
     bind (assertOrgScope c org) (\<lambda>_.
     bind (assertRole c [RoleOrgAdmin, RoleTeamLeader]) (\<lambda>_.
     if q_scope p \<notin> {''org'', ''team'', ''member''} then throw InvalidParam
     else if cl_role c = RoleTeamLeader \<and> (q_scope p \<noteq> ''team'' \<or> q_scope_id p \<noteq> cl_team c) then throw Forbidden
     else if q_period p \<notin> {''daily'', ''weekly'', ''monthly''} then throw InvalidParam
     else
     bind (mapErr internal (UpsertQuotaPolicy (p\<lparr>q_org := org\<rparr>))) (\<lambda>_.
     audit c org ''set_quota_policy'' ''quota_policy'' (Some (q_scope_id p))
       [(''scope'', JStr (q_scope p)), (''period'', JStr (q_period p)), (''limit'', JInt (q_limit p))])))"

section \<open>Teams\<close>

definition CreateTeam :: "claims \<Rightarrow> int \<Rightarrow> string \<Rightarrow> int option \<Rightarrow> ('u, team) op" where
  "CreateTeam c org name tier =
     bind (assertOrgScope c org) (\<lambda>_.
     bind (assertRole c [RoleOrgAdmin]) (\<lambda>_.
     if name = '''' then throw InvalidParam
     else
     bind (checkName name maxNameLen) (\<lambda>_.
     bind (mapErr conflictOrInternal (CreateTeamRow org name tier)) (\<lambda>i.
     bind (audit c org ''create_team'' ''team'' (Some i) [(''name'', JStr name)]) (\<lambda>_.
     GetTeam org i)))))"

definition ListTeams :: "claims \<Rightarrow> int \<Rightarrow> ('u, team list) op" where
  "ListTeams c org =
     bind (assertOrgScope c org) (\<lambda>_.
     bind (assertRole c [RoleOperator, RoleOrgAdmin, RoleTeamLeader]) (\<lambda>_. ListTeamsRepo org))"

definition ListTeamsWithCounts :: "claims \<Rightarrow> int \<Rightarrow> ('u, (team \<times> nat) list) op" where
  "ListTeamsWithCounts c org =
     bind (assertOrgScope c org) (\<lambda>_.
     bind (assertRole c [RoleOperator, RoleOrgAdmin]) (\<lambda>_.
     bind (mapErr internal (ListTeamsRepo org)) (\<lambda>ts.
     bind (mapErr internal (CountActiveMembersByTeam org)) (\<lambda>n.
     return (map (\<lambda>t. (t, n (t_id t))) ts)))))"

definition GetTeamDetail :: "claims \<Rightarrow> int \<Rightarrow> int \<Rightarrow> ('u, team \<times> nat) op" where
  "GetTeamDetail c org tid =
     bind (assertOrgScope c org) (\<lambda>_.
     bind (assertRole c [RoleOperator, RoleOrgAdmin]) (\<lambda>_.
     bind (mapErr notFoundOrInternal (GetTeam org tid)) (\<lambda>t.
     bind (mapErr internal (CountActiveMembersInTeam org tid)) (\<lambda>n. return (t, n)))))"

definition UpdateTeam :: "claims \<Rightarrow> int \<Rightarrow> int \<Rightarrow> string \<Rightarrow> ('u, team) op" where
  "UpdateTeam c org tid name =
     bind (assertOrgScope c org) (\<lambda>_.
     bind (assertRole c [RoleOrgAdmin]) (\<lambda>_.
     bind (checkName name maxNameLen) (\<lambda>_.
     bind (rejectMissing NotFound (GetTeam org tid)) (\<lambda>_.
     bind (mapErr conflictOrInternal (UpdateTeamName org tid name)) (\<lambda>_.
     bind (audit c org ''update_team'' ''team'' (Some tid) [(''name'', JStr name)]) (\<lambda>_.
     GetTeam org tid))))))"

definition ArchiveTeam :: "claims \<Rightarrow> int \<Rightarrow> int \<Rightarrow> ('u, unit) op" where
  "ArchiveTeam c org tid =
     bind (assertOrgScope c org) (\<lambda>_.
     bind (assertRole c [RoleOrgAdmin]) (\<lambda>_.
     bind (rejectMissing NotFound (GetTeam org tid)) (\<lambda>_.
     bind (mapErr internal (CountActiveMembersInTeam org tid)) (\<lambda>n.
     if n > 0 then throw InvalidParam
     else
     bind (mapErr internal (UpdateTeamStatus org tid ''archived'')) (\<lambda>_.
     audit c org ''archive_team'' ''team'' (Some tid) [])))))"

definition UnarchiveTeam :: "claims \<Rightarrow> int \<Rightarrow> int \<Rightarrow> ('u, unit) op" where
  "UnarchiveTeam c org tid =
     bind (assertOrgScope c org) (\<lambda>_.
     bind (assertRole c [RoleOrgAdmin]) (\<lambda>_.
     bind (rejectMissing NotFound (GetTeam org tid)) (\<lambda>_.
     bind (mapErr internal (UpdateTeamStatus org tid ''active'')) (\<lambda>_.
     audit c org ''unarchive_team'' ''team'' (Some tid) []))))"

end
