(* ===== verification/Reset.thy ===== *)
theory Reset
  imports Admin
begin

text \<open>
  The periodic reset of quotas (\<open>service/reset.go\<close>): the start of the current period in the
  organization's time zone, and the run that recomputes the quota of every member in the scope of a
  policy whose period began after its last reset.
\<close>

section \<open>Local time\<close>

text \<open>
  A location gives for a second the offset in force, when that offset began and when it ends.  The
  wall clock is the second plus the offset; \<open>time.Date\<close> takes a wall clock back to a second.
\<close>

type_synonym location = "int \<Rightarrow> int \<times> int \<times> int"

definition utc :: location where
  "utc = (\<lambda>t. (0, - (2 ^ 63), 2 ^ 63 - 1))"

definition wall :: "location \<Rightarrow> int \<Rightarrow> int" where
  "wall loc t = t + fst (loc t)"

definition goDate :: "location \<Rightarrow> int \<Rightarrow> int" where
  "goDate loc w =
     (case loc w of (off, start, fin) \<Rightarrow>
        if off = 0 then w
        else let u = w - off
             in if u < start \<or> u \<ge> fin then w - fst (loc u) else u)"

text \<open>The day of the month of a day since 1970-01-01, and Go's weekday with Sunday as 7.\<close>

definition dayOfMonth :: "int \<Rightarrow> int" where
  "dayOfMonth n =
     (let z = n + 719468; era = z div 146097; doe = z - era * 146097;
          yoe = (doe - doe div 1460 + doe div 36524 - doe div 146096) div 365;
          doy = doe - (365 * yoe + yoe div 4 - yoe div 100);
          mp = (5 * doy + 2) div 153
      in doy - (153 * mp + 2) div 5 + 1)"

definition isoWeekday :: "int \<Rightarrow> int" where
  "isoWeekday n = (let wd = (n + 4) mod 7 in if wd = 0 then 7 else wd)"

text \<open>\<open>None\<close> is the zero time, for a period that is none of the three.\<close>

definition periodBoundary :: "string \<Rightarrow> int \<Rightarrow> location \<Rightarrow> int option" where
  "periodBoundary period now loc =
     (let day = wall loc (now div 10 ^ 9) div 86400
      in if period = ''daily'' then Some (goDate loc (day * 86400) * 10 ^ 9)
         else if period = ''weekly'' then
           Some (goDate loc (wall loc (goDate loc (day * 86400)) - (isoWeekday day - 1) * 86400) * 10 ^ 9)
         else if period = ''monthly'' then Some (goDate loc ((day - (dayOfMonth day - 1)) * 86400) * 10 ^ 9)
         else None)"

section \<open>The run\<close>

definition policyScopeMembers :: "quota_policy \<Rightarrow> ('u, member list) op" where
  "policyScopeMembers p =
     (if q_scope p = ''member'' then
        bind (attempt (GetMember (q_org p) (q_scope_id p))) (\<lambda>r. return (case r of Inl _ \<Rightarrow> [] | Inr m \<Rightarrow> [m]))
      else if q_scope p = ''team'' then
        bind (ListActiveOverridableMembers (q_org p)) (\<lambda>ms. return (filter (\<lambda>m. m_team m = Some (q_scope_id p)) ms))
      else ListActiveOverridableMembers (q_org p))"

definition orgLocation :: "'u service \<Rightarrow> int \<Rightarrow> ('u, location) op" where
  "orgLocation S org = bind (attempt (GetOrganization org)) (\<lambda>r. return (case r of
     Inl _ \<Rightarrow> utc
   | Inr o' \<Rightarrow> if o_timezone o' = '''' then utc
              else (case sv_zone S (o_timezone o') of None \<Rightarrow> utc | Some l \<Rightarrow> l)))"

definition cachedLocation :: "'u service \<Rightarrow> int \<Rightarrow> (int \<times> location) list \<Rightarrow> ('u, location \<times> (int \<times> location) list) op" where
  "cachedLocation S org cache = (case map_of cache org of
     Some l \<Rightarrow> return (l, cache)
   | None \<Rightarrow> bind (orgLocation S org) (\<lambda>l. return (l, (org, l) # cache)))"

definition resetMember :: "'u service \<Rightarrow> member \<Rightarrow> nat \<Rightarrow> ('u, nat) op" where
  "resetMember S m n =
     (if \<not> hasKey m then return n
      else bind (attempt (applyMemberOverride S m)) (\<lambda>r. return (case r of Inl _ \<Rightarrow> n | Inr _ \<Rightarrow> n + 1)))"

definition due :: "int option \<Rightarrow> quota_policy \<Rightarrow> bool" where
  "due boundary p = (case boundary of None \<Rightarrow> False
     | Some b \<Rightarrow> (case q_last_reset p of None \<Rightarrow> True | Some t \<Rightarrow> t < b))"

definition resetPolicy :: "'u service \<Rightarrow> int \<Rightarrow> quota_policy \<Rightarrow> nat \<times> (int \<times> location) list
    \<Rightarrow> ('u, nat \<times> (int \<times> location) list) op" where
  "resetPolicy S now p acc = (case acc of (n, cache) \<Rightarrow>
     bind (cachedLocation S (q_org p) cache) (\<lambda>(loc, cache').
     if \<not> due (periodBoundary (q_period p) now loc) p then return (n, cache')
     else
     bind (attempt (policyScopeMembers p)) (\<lambda>mr. case mr of
       Inl _ \<Rightarrow> return (n, cache')
     | Inr ms \<Rightarrow>
     bind (foldM (resetMember S) ms n) (\<lambda>n'.
     bind (ignoreErr (MarkPolicyReset (q_id p) now)) (\<lambda>_.
     bind (auditSystem (q_org p) ''quota_reset'' ''quota_policy'' (Some (q_scope_id p))
             [(''scope'', JStr (q_scope p)), (''period'', JStr (q_period p)), (''members'', JInt (int (length ms)))] ''ok'') (\<lambda>_.
     return (n', cache')))))))"

definition ResetDuePolicies :: "'u service \<Rightarrow> ('u, nat) op" where
  "ResetDuePolicies S =
     (if sv_observe S then return 0
      else
      bind ListActivePoliciesForReset (\<lambda>ps.
      bind clock (\<lambda>now.
      bind (foldM (resetPolicy S now) ps (0, [])) (\<lambda>(n, _). return n))))"

end
