(* ===== verification/MemberOps.thy ===== *)
theory MemberOps
  imports OrgLifecycle Reset BackfillFrames Sample
begin

text \<open>
  What any operation may do to the member rows: edit a row without changing its identity, lowering its
  session epoch, making it an operator or giving it an unsafe display name; or add a row with a new
  identifier that is no operator and has a safe name.  The relation is kept by every operation of the
  console and of the background workers.
\<close>

section \<open>The relation\<close>

definition safeChar :: "char \<Rightarrow> bool" where
  "safeChar c \<longleftrightarrow> \<not> nameForbidden c \<and> \<not> isControl c"

definition nameSafe :: "string \<Rightarrow> bool" where
  "nameSafe n \<longleftrightarrow> (\<forall>c \<in> set n. safeChar c)"

definition displaySafe :: "member \<Rightarrow> bool" where
  "displaySafe m \<longleftrightarrow> (case m_display m of None \<Rightarrow> True | Some n \<Rightarrow> nameSafe n)"

definition memberEdit :: "member \<Rightarrow> member \<Rightarrow> bool" where
  "memberEdit m m' \<longleftrightarrow> m_id m' = m_id m \<and> m_org m' = m_org m \<and> m_epoch m \<le> m_epoch m'
     \<and> (m_role m' = m_role m \<or> m_role m' \<noteq> RoleOperator) \<and> (m_display m' = m_display m \<or> displaySafe m')"

definition memberNew :: "member \<Rightarrow> bool" where
  "memberNew m \<longleftrightarrow> m_role m \<noteq> RoleOperator \<and> displaySafe m"

definition memberMoves :: "db \<Rightarrow> db \<Rightarrow> bool" where
  "memberMoves d d' \<longleftrightarrow>
     (\<forall>m' \<in> set (members d'). (\<exists>m \<in> set (members d). memberEdit m m')
        \<or> m_id m' \<notin> m_id ` set (members d) \<and> memberNew m')
   \<and> m_id ` set (members d) \<subseteq> m_id ` set (members d')"

lemma memberEdit_refl [simp]: "memberEdit m m"
  by (simp add: memberEdit_def)

lemma memberEdit_trans: "memberEdit a b \<Longrightarrow> memberEdit b c \<Longrightarrow> memberEdit a c"
  by (auto simp: memberEdit_def displaySafe_def)

lemma memberNew_edit: "memberNew a \<Longrightarrow> memberEdit a b \<Longrightarrow> memberNew b"
  by (auto simp: memberNew_def memberEdit_def displaySafe_def)

lemma memberMoves_map: "members d' = map f (members d) \<Longrightarrow> (\<And>m. memberEdit m (f m)) \<Longrightarrow> memberMoves d d'"
proof -
  assume f: "members d' = map f (members d)" "\<And>m. memberEdit m (f m)"
  have "m_id (f m) = m_id m" for m using f(2)[of m] by (simp add: memberEdit_def)
  then have "m_id ` set (members d') = m_id ` set (members d)" by (simp add: f(1) image_image)
  then show "memberMoves d d'" unfolding memberMoves_def using f by auto
qed

lemma memberMoves_refl: "memberMoves d d"
  by (rule memberMoves_map[where f = id]) simp_all

lemma memberMoves_trans: "memberMoves d e \<Longrightarrow> memberMoves e f \<Longrightarrow> memberMoves d f"
  unfolding memberMoves_def
proof (intro conjI ballI; elim conjE)
  fix m assume de: "\<forall>m' \<in> set (members e). (\<exists>m \<in> set (members d). memberEdit m m')
        \<or> m_id m' \<notin> m_id ` set (members d) \<and> memberNew m'" "m_id ` set (members d) \<subseteq> m_id ` set (members e)"
    and ef: "\<forall>m' \<in> set (members f). (\<exists>m \<in> set (members e). memberEdit m m')
        \<or> m_id m' \<notin> m_id ` set (members e) \<and> memberNew m'" and m: "m \<in> set (members f)"
  from ef m consider (edit) m1 where "m1 \<in> set (members e)" "memberEdit m1 m"
    | (fresh) "m_id m \<notin> m_id ` set (members e)" "memberNew m" by blast
  then show "(\<exists>m1 \<in> set (members d). memberEdit m1 m) \<or> m_id m \<notin> m_id ` set (members d) \<and> memberNew m"
  proof cases
    case edit
    have same: "m_id m = m_id m1" using edit(2) by (simp add: memberEdit_def)
    from de(1) edit(1) consider "\<exists>m0 \<in> set (members d). memberEdit m0 m1" | "m_id m1 \<notin> m_id ` set (members d)" "memberNew m1" by blast
    then show ?thesis
    proof cases
      case 1
      then show ?thesis using edit(2) memberEdit_trans by blast
    next
      case 2
      then show ?thesis using edit(2) same memberNew_edit by simp
    qed
  next
    case fresh
    then show ?thesis using de(2) by blast
  qed
qed blast

lemma memberMoves_same: "members d' = members d \<Longrightarrow> memberMoves d d'"
  by (rule memberMoves_map[where f = id]) simp_all

interpretation mm: report_frame memberMoves
  by unfold_locales
     (fact memberMoves_refl, erule (1) memberMoves_trans,
      auto intro!: memberMoves_same simp: advanceCursor_def insertCursor_def Let_def)

lemma mm_update: "(\<And>m. memberEdit m (g m)) \<Longrightarrow> memberMoves d (updMember org i g d)"
  unfolding updMember_def by (rule memberMoves_map[where f = "\<lambda>m. if m_id m = i \<and> m_org m = org then g m else m"]) auto

section \<open>Statements\<close>

lemma mm_exec: "(\<And>d. memberMoves d (f d)) \<Longrightarrow> guar (onDb memberMoves) (exec f :: ('v, unit) op)"
  by (rule mm.exec)

lemma mm_rows [guar_intros]:
  "guar (onDb memberMoves) (MarkBootstrapFailedAndRelease org i :: ('v, unit) op)"
  "guar (onDb memberMoves) (ActivatePlatformAccount org i :: ('v, unit) op)"
  "guar (onDb memberMoves) (ClearMemberToken org i :: ('v, unit) op)"
  "guar (onDb memberMoves) (UpdateMemberStatus org i st :: ('v, unit) op)"
  "guar (onDb memberMoves) (BumpMemberSessionEpoch org i :: ('v, unit) op)"
  "guar (onDb memberMoves) (OffboardMemberRow org i :: ('v, unit) op)"
  "guar (onDb memberMoves) (RestoreOffboardedMemberRow org i :: ('v, unit) op)"
  "guar (onDb memberMoves) (UpdateMemberPassword org i h :: ('v, unit) op)"
  "guar (onDb memberMoves) (UpdateMemberTeamTier org i tm tr :: ('v, unit) op)"
  unfolding MarkBootstrapFailedAndRelease_def ActivatePlatformAccount_def ClearMemberToken_def UpdateMemberStatus_def
    BumpMemberSessionEpoch_def OffboardMemberRow_def RestoreOffboardedMemberRow_def UpdateMemberPassword_def
    UpdateMemberTeamTier_def
  by (intro mm_exec mm_update; simp add: memberEdit_def)+

lemma mm_rename: "nameSafe n \<Longrightarrow> guar (onDb memberMoves) (UpdateMemberDisplayName org i n :: ('v, unit) op)"
  unfolding UpdateMemberDisplayName_def by (intro mm_exec mm_update) (simp add: memberEdit_def displaySafe_def)

lemma mm_role: "r \<noteq> RoleOperator \<Longrightarrow> guar (onDb memberMoves) (UpdateMemberRole org i r :: ('v, unit) op)"
  unfolding UpdateMemberRole_def by (intro mm_exec mm_update) (simp add: memberEdit_def)

lemma mm_bumpOrg [guar_intros]: "guar (onDb memberMoves) (BumpOrgMembersSessionEpoch org :: ('v, unit) op)"
  unfolding BumpOrgMembersSessionEpoch_def
  by (intro mm_exec, rule memberMoves_map[where f = "\<lambda>m. if m_org m = org \<and> \<not> m_deleted m then m\<lparr>m_epoch := m_epoch m + 1\<rparr> else m"])
     (auto simp: memberEdit_def)

lemma mm_create: "memberNew m \<Longrightarrow> guar (onDb memberMoves) (CreateMemberProvisional m :: ('v, int) op)"
  unfolding CreateMemberProvisional_def
proof (intro guar_mapErr mm.stmt)
  fix d :: db assume m: "memberNew m"
  have "next_id (map m_id (members d)) \<notin> m_id ` set (members d)"
    using next_id_fresh[of "map m_id (members d)"] by simp
  moreover have "x \<in> set (members d) \<Longrightarrow> \<exists>y \<in> set (members d). memberEdit y x" for x
    using memberEdit_refl by blast
  ultimately show "memberMoves d (snd (insertMember m d))"
    using m by (auto simp: insertMember_def Let_def memberMoves_refl)
      (auto simp: memberMoves_def memberNew_def displaySafe_def)
qed

section \<open>Names\<close>

lemma nameOk_safe: "nameOk n k \<Longrightarrow> nameSafe n"
  by (simp add: nameOk_def nameSafe_def safeChar_def)

lemma code_char_of [simp]: "n < 256 \<Longrightarrow> code (char_of n) = n"
  by (simp add: code_def)

lemma forbidden_code: "nameForbidden x \<Longrightarrow> runeRemoved (code x) \<and> code x < 128"
  by (auto simp: nameForbidden_def runeRemoved_def code_def)

lemma control_code: "isControl x \<Longrightarrow> runeRemoved (code x) \<and> code x < 128"
  by (auto simp: isControl_def runeRemoved_def)

lemma high_safe: "128 \<le> n \<Longrightarrow> n < 256 \<Longrightarrow> safeChar (char_of (n :: nat))"
  using forbidden_code[of "char_of n"] control_code[of "char_of n"] by (auto simp: safeChar_def)

lemma low_safe: "n < 128 \<Longrightarrow> \<not> runeRemoved n \<Longrightarrow> safeChar (char_of (n :: nat))"
  using forbidden_code[of "char_of n"] control_code[of "char_of n"] by (auto simp: safeChar_def)

lemma code_less: "code c < 256"
  by (cases c) (simp add: code_def of_char_def)

lemma low6_less: "contByte c \<Longrightarrow> low6 c < 64"
  by (auto simp: contByte_def low6_def)

lemma rune_bounds:
  "twoBytes a b \<Longrightarrow> rune2 a b < 0x110000"
  "threeBytes a b c \<Longrightarrow> rune3 a b c < 0x110000"
  "fourBytes a b c d \<Longrightarrow> rune4 a b c d < 0x110000"
proof -
  assume "twoBytes a b"
  then have "code a - 0xC0 \<le> 31" "low6 b < 64" using low6_less[of b] by (auto simp: twoBytes_def)
  then show "rune2 a b < 0x110000" unfolding rune2_def by linarith
next
  assume "threeBytes a b c"
  then have "code a - 0xE0 \<le> 15" "low6 b < 64" "low6 c < 64" using low6_less[of b] low6_less[of c] by (auto simp: threeBytes_def)
  then show "rune3 a b c < 0x110000" unfolding rune3_def by linarith
next
  assume f: "fourBytes a b c d"
  then have l: "low6 b < 64" "low6 c < 64" "low6 d < 64" by (auto simp: fourBytes_def low6_less)
  have b: "code a = 0xF4 \<Longrightarrow> low6 b < 16" using f unfolding fourBytes_def low6_def contByte_def by linarith
  have "code a - 0xF0 \<le> 3 \<or> code a = 0xF4" using f unfolding fourBytes_def by linarith
  then consider "code a - 0xF0 \<le> 3" | "code a = 0xF4" by blast
  then show "rune4 a b c d < 0x110000"
    using l b by cases (simp_all add: rune4_def)
qed

lemma runesOf_step: "\<exists>x t. runesOf (a # r) = x # runesOf t \<and> x < 0x110000 \<and> length t \<le> length r"
proof -
  consider (1) "code a < 0x80" | (2) "\<not> code a < 0x80" "r = []"
    | (3) b r2 where "\<not> code a < 0x80" "r = b # r2" "twoBytes a b"
    | (4) b where "\<not> code a < 0x80" "r = [b]" "\<not> twoBytes a b"
    | (5) b c r3 where "\<not> code a < 0x80" "r = b # c # r3" "\<not> twoBytes a b" "threeBytes a b c"
    | (6) b c where "\<not> code a < 0x80" "r = [b, c]" "\<not> twoBytes a b" "\<not> threeBytes a b c"
    | (7) b c d r4 where "\<not> code a < 0x80" "r = b # c # d # r4" "\<not> twoBytes a b" "\<not> threeBytes a b c"
    by (metis neq_Nil_conv)
  then show ?thesis
  proof cases
    case 1
    then show ?thesis using code_less[of a] by (force simp: not_le)
  next
    case 2
    then show ?thesis by (intro exI[of _ "0xFFFD"] exI[of _ r]) (simp)
  next
    case (3 b r2)
    then show ?thesis by (intro exI[of _ "rune2 a b"] exI[of _ r2]) (simp add: rune_bounds)
  next
    case (4 b)
    then show ?thesis by (intro exI[of _ "0xFFFD"] exI[of _ r]) (simp)
  next
    case (5 b c r3)
    then show ?thesis by (intro exI[of _ "rune3 a b c"] exI[of _ r3]) (simp add: rune_bounds)
  next
    case (6 b c)
    then show ?thesis by (intro exI[of _ "0xFFFD"] exI[of _ r]) (simp)
  next
    case (7 b c d r4)
    show ?thesis
    proof (cases "fourBytes a b c d")
      case True
      then show ?thesis using 7 by (intro exI[of _ "rune4 a b c d"] exI[of _ r4]) (simp add: rune_bounds)
    next
      case False
      then show ?thesis using 7 by (intro exI[of _ "0xFFFD"] exI[of _ r]) (simp)
    qed
  qed
qed

lemma runesOf_bound: "r \<in> set (runesOf s) \<Longrightarrow> r < 0x110000"
proof (induction s rule: length_induct)
  case (1 s)
  show ?case
  proof (cases s)
    case (Cons a t)
    obtain x u where x: "runesOf (a # t) = x # runesOf u" "x < 0x110000" "length u \<le> length t"
      using runesOf_step by blast
    then have "length u < length s" using Cons by simp
    then have "r \<in> set (runesOf u) \<Longrightarrow> r < 0x110000" using 1 by blast
    then show ?thesis using 1(2) x(1,2) Cons by (auto simp del: runesOf.simps(2))
  qed (use 1 in simp)
qed

lemma encodeRune_safe:
  assumes r: "r < 0x110000" "\<not> runeRemoved r"
  shows "\<forall>c \<in> set (encodeRune r). safeChar c"
proof (cases "r < 0x80")
  case True
  then show ?thesis using r by (simp add: encodeRune_def low_safe)
next
  case False
  have tail: "safeChar (char_of (0x80 + x mod 64))" for x :: nat
    using mod_less_divisor[of 64 x] by (intro high_safe) simp_all
  have lead: "r < 0x800 \<Longrightarrow> safeChar (char_of (0xC0 + r div 64))" "r < 0x10000 \<Longrightarrow> safeChar (char_of (0xE0 + r div 4096))"
    "safeChar (char_of (0xF0 + r div 262144))"
    by (intro high_safe; use r(1) in linarith)+
  show ?thesis
    using False lead tail[of r] tail[of "r div 64"] tail[of "r div 4096"]
    unfolding encodeRune_def by (simp del: char_of_mod_256 split: if_splits)
qed

lemma cleanName_safe: "nameSafe (cleanName s)"
proof -
  have "r \<in> set (runesOf s)" if "r \<in> set (sanitizeExternalName (runesOf s))" for r
    using that set_trimRunes[of "filter (\<lambda>r. \<not> runeRemoved r) (runesOf s)"]
    by (auto simp: sanitizeExternalName_def Let_def split: if_splits dest!: in_set_takeD)
  then have "\<forall>c \<in> set (encodeRune r). safeChar c" if "r \<in> set (sanitizeExternalName (runesOf s))" for r
    using encodeRune_safe[OF runesOf_bound sanitize_clean] that by blast
  then show ?thesis by (simp add: nameSafe_def cleanName_def)
qed

section \<open>The operations\<close>

text \<open>The operations of the console and of the workers, with respect to the member rows.\<close>

lemma mm_checkName: "(nameSafe n \<Longrightarrow> guar (onDb memberMoves) m) \<Longrightarrow>
   guar (onDb memberMoves) (bind (checkName n k) (\<lambda>_. m) :: ('v, 'a) op)"
proof (cases "nameOk n k")
  case True
  then show "(nameSafe n \<Longrightarrow> guar (onDb memberMoves) m) \<Longrightarrow> ?thesis"
    by (intro guar_intros mm.guarantee_onDb) (simp add: nameOk_safe)
next
  case False
  have "bind (checkName n k) (\<lambda>_. m) w = (Inl InvalidParam, w)" for w
    using False wp_checkName[of n k "\<lambda>_ _. False" "\<lambda>e w'. e = InvalidParam \<and> w' = w" w]
    by (auto simp: wp_def bind_def split: prod.splits sum.splits)
  then show ?thesis by (simp add: guar_def onDb_def memberMoves_refl)
qed

lemma mm_validate [guar_intros]:
  "guar (onDb memberMoves) (checkName n k :: ('v, unit) op)"
  "guar (onDb memberMoves) (checkText n k :: ('v, unit) op)"
  "guar (onDb memberMoves) (checkLen n k :: ('v, unit) op)"
  "guar (onDb memberMoves) (checkSlug n :: ('v, unit) op)"
  "guar (onDb memberMoves) (checkEmail n :: ('v, unit) op)"
  "guar (onDb memberMoves) (checkLoginName n :: ('v, unit) op)"
  unfolding checkSlug_def checkEmail_def checkLoginName_def
  by (intro guar_validate mm.guarantee_onDb guar_intros)+

lemma mm_reads [guar_intros]:
  "guar (onDb memberMoves) (GetMember org i :: ('v, member) op)"
  "guar (onDb memberMoves) (GetMemberByEmail e :: ('v, member) op)"
  "guar (onDb memberMoves) (GetTeam org i :: ('v, team) op)"
  "guar (onDb memberMoves) (GetTier org i :: ('v, tier) op)"
  "guar (onDb memberMoves) (GetGrant org i :: ('v, grant) op)"
  "guar (onDb memberMoves) (GetOrgDiscount org :: ('v, string \<times> (string \<times> discount_entry) list) op)"
  "guar (onDb memberMoves) (ListTiers org :: ('v, tier list) op)"
  "guar (onDb memberMoves) (ListActiveOverridableMembers org :: ('v, member list) op)"
  "guar (onDb memberMoves) (GetOrgIDByNewapiUserID u :: ('v, int option) op)"
  "guar (onDb memberMoves) (GetMemberByNewapiTokenID tok :: ('v, (member \<times> int) option) op)"
  unfolding GetMember_def GetMemberByEmail_def GetTeam_def GetTier_def GetGrant_def GetOrgDiscount_def ListTiers_def
    ListActiveOverridableMembers_def GetOrgIDByNewapiUserID_def GetMemberByNewapiTokenID_def
  by (intro guar_intros)+

lemma mm_quiet: "(\<And>d. members (f d) = members d) \<Longrightarrow> guar (onDb memberMoves) (exec f :: ('v, unit) op)"
  by (intro mm.exec memberMoves_same)

lemma mm_quietStmt: "(\<And>d. members (snd (f d)) = members d) \<Longrightarrow> guar (onDb memberMoves) (stmt f :: ('v, 'a) op)"
  by (intro mm.stmt memberMoves_same)

section \<open>Rows of other tables\<close>

lemma mm_keys [guar_intros]:
  "guar (onDb memberMoves) (insertSlot org m p :: ('v, int) op)"
  "guar (onDb memberMoves) (insertKeyTokenTx k org m tok n r :: ('v, unit) op)"
  unfolding insertSlot_def insertKeyTokenTx_def
  by (intro mm_quietStmt; simp add: insertToken_def Let_def)+

lemma mm_primary [guar_intros]:
  "guar (onDb memberMoves) (ensurePrimaryKeyTx org m tok n r :: ('v, int) op)"
  "guar (onDb memberMoves) (rotatePrimaryKeyTx org m tok n r :: ('v, int) op)"
  unfolding ensurePrimaryKeyTx_def rotatePrimaryKeyTx_def by (intro guar_intros mm_quiet; simp)+

lemma mm_bindKey [guar_intros]:
  "guar (onDb memberMoves) (FinalizeBootstrap org i tok masked rot n :: ('v, unit) op)"
  "guar (onDb memberMoves) (UpdateMemberKey org i t masked' n rot :: ('v, unit) op)"
  unfolding FinalizeBootstrap_def UpdateMemberKey_def
  by (intro guar_intros mm_exec mm_update; simp add: memberEdit_def)+

lemma mm_grants [guar_intros]:
  "guar (onDb memberMoves) (CreateGrant g :: ('v, int) op)"
  "guar (onDb memberMoves) (MarkGrantReverted i st :: ('v, bool) op)"
  "guar (onDb memberMoves) (ListExpiredActiveGrants now k :: ('v, grant list) op)"
  unfolding CreateGrant_def MarkGrantReverted_def ListExpiredActiveGrants_def
  by (intro guar_intros mm_quietStmt; simp add: markGrant_def Let_def)+

lemma mm_others [guar_intros]:
  "guar (onDb memberMoves) (UpdateOrgDiscount org md es :: ('v, unit) op)"
  "guar (onDb memberMoves) (CreateOrganization n sl g b k :: ('v, int) op)"
  "guar (onDb memberMoves) (CreateTierRow t :: ('v, int) op)"
  "guar (onDb memberMoves) (SetDefaultTierRow org i :: ('v, unit) op)"
  "guar (onDb memberMoves) (UpsertQuotaPolicy p :: ('v, unit) op)"
  "guar (onDb memberMoves) (MarkPolicyReset i at :: ('v, unit) op)"
  "guar (onDb memberMoves) (SetOrgArchivedRow org b :: ('v, unit) op)"
  "guar (onDb memberMoves) (InsertBackfillJob j :: ('v, unit) op)"
  unfolding UpdateOrgDiscount_def CreateOrganization_def CreateTierRow_def SetDefaultTierRow_def UpsertQuotaPolicy_def
    MarkPolicyReset_def SetOrgArchivedRow_def updOrgCount_def InsertBackfillJob_def Let_def
  by (intro guar_intros mm_quiet mm_quietStmt; simp add: updOrg_def insertTier_def Let_def)+

section \<open>Quotas and states of members\<close>

lemma mm_manageable [guar_intros]: "guar (onDb memberMoves) (loadManageableMember c org i :: ('v, member) op)"
  unfolding loadManageableMember_def by (intro guar_intros)

lemma mm_hash [guar_intros]: "guar (onDb memberMoves) (hashPassword S pw :: ('v, string) op)"
  unfolding hashPassword_def by (intro guar_intros)

lemma mm_quota [guar_intros]:
  "guar (onDb memberMoves) (AdjustQuota S c org i delta dur reason :: ('v, int \<times> int \<times> int) op)"
  "guar (onDb memberMoves) (SetTempPermission S c org i ty model expire reason :: ('v, grant) op)"
  "guar (onDb memberMoves) (RevokeGrant S c org gid :: ('v, unit) op)"
  unfolding AdjustQuota_def SetTempPermission_def RevokeGrant_def by (intro guar_intros)+

lemma mm_states [guar_intros]:
  "guar (onDb memberMoves) (SetMemberStatus S c org i b :: ('v, unit) op)"
  "guar (onDb memberMoves) (OffboardMember S c org i :: ('v, unit) op)"
  "guar (onDb memberMoves) (RestoreOffboardedMember c org i :: ('v, unit) op)"
  unfolding SetMemberStatus_def OffboardMember_def RestoreOffboardedMember_def by (intro guar_intros)+

lemma mm_expiry [guar_intros]: "guar (onDb memberMoves) (ReverseExpiredGrants S n :: ('v, nat) op)"
proof -
  have r: "guar (onDb memberMoves) (reverseGrant S g :: ('v, unit) op)" for g
    unfolding reverseGrant_def by (cases "g_type g") (auto intro!: guar_intros)
  show ?thesis unfolding ReverseExpiredGrants_def by (intro guar_intros r)
qed

lemma mm_reset [guar_intros]: "guar (onDb memberMoves) (ResetDuePolicies S :: ('v, nat) op)"
  unfolding ResetDuePolicies_def ListActivePoliciesForReset_def resetPolicy_def cachedLocation_def orgLocation_def
    policyScopeMembers_def resetMember_def
  by (intro guar_intros)

section \<open>Profiles, roles, keys\<close>

lemma mm_profile [guar_intros]:
  "guar (onDb memberMoves) (ChangePassword S c old new :: ('v, unit) op)"
  "guar (onDb memberMoves) (ResetMemberPassword S c org i :: ('v, string) op)"
  unfolding ChangePassword_def ResetMemberPassword_def by (intro guar_intros)+

lemma mm_displayName [guar_intros]: "guar (onDb memberMoves) (UpdateMyDisplayName c n :: ('v, member) op)"
  unfolding UpdateMyDisplayName_def Me_def by (intro guar_intros mm_checkName mm_rename)

lemma mm_rejectMissing [guar_intros]: "guar (onDb memberMoves) look \<Longrightarrow> guar (onDb memberMoves) (rejectMissing e look :: ('v, unit) op)"
  unfolding rejectMissing_def by (intro guar_intros)

lemma mm_updateMember [guar_intros]: "guar (onDb memberMoves) (UpdateMember S c org i tm tr n :: ('v, member) op)"
  unfolding UpdateMember_def by (intro guar_intros mm_checkName mm_rename)

lemma mm_assignRole [guar_intros]: "guar (onDb memberMoves) (AssignRole c org i r :: ('v, unit) op)"
proof (cases "r = RoleOperator")
  case True
  then show ?thesis unfolding AssignRole_def by (simp, intro guar_intros)
next
  case False
  then show ?thesis unfolding AssignRole_def by (intro guar_intros mm_role)
qed

lemma mm_ownKey [guar_intros]:
  "guar (onDb memberMoves) (SetKeyIPWhitelist S c org i ips :: ('v, unit) op)"
  "guar (onDb memberMoves) (RotateKey S c org i :: ('v, string \<times> string) op)"
  "guar (onDb memberMoves) (CreateMemberToken S c i g :: ('v, string \<times> string) op)"
  unfolding SetKeyIPWhitelist_def RotateKey_def CreateMemberToken_def makeToken_def by (intro guar_intros)+

section \<open>New members and organizations\<close>

lemma provisional_new: "nameSafe n \<Longrightarrow> memberNew (provisionalMember org tm e n tr g h)"
  by (simp add: memberNew_def displaySafe_def provisionalMember_def)

lemma mm_cover [guar_intros]: "guar (onDb memberMoves) (ensureTotalDiscountCoversGroup S org g :: ('v, unit) op)"
  unfolding ensureTotalDiscountCoversGroup_def loadDiscountEntries_def Let_def by (intro guar_intros)

lemma mm_failOpen [guar_intros]: "guar (onDb memberMoves) (failOpen c org i n r e :: ('v, 'a) op)"
  unfolding failOpen_def by (intro guar_intros)

lemma mm_issueKey [guar_intros]: "guar (onDb memberMoves) (issueKey S c org nm i n g ms :: ('v, string) op)"
  unfolding issueKey_def by (intro guar_intros)

lemma mm_openMember [guar_intros]: "guar (onDb memberMoves) (OpenMember S c org n e tm tr :: ('v, open_result) op)"
  unfolding OpenMember_def openTeam_def resolveTier_def Let_def
  by (rule mm_checkName mm_create provisional_new | assumption | rule guar_intros)+

lemma mm_bulk [guar_intros]:
  "guar (onDb memberMoves) (BulkOpenMembers S c org ns tm tr :: ('v, bulk_row list) op)"
  "guar (onDb memberMoves) (BulkSetStatus S c org ids b :: ('v, bulk_row list) op)"
  unfolding BulkOpenMembers_def BulkSetStatus_def bulkOpenStep_def Let_def by (intro guar_intros)+

definition suffixSafe :: "'u service \<Rightarrow> bool" where
  "suffixSafe S \<longleftrightarrow> (\<forall>n. nameSafe (sv_rand_suffix S n))"

text \<open>The result of a step carries a property into the next one.\<close>

lemma mm_bind_val:
  fixes m :: "('v, 'b) op" and f :: "'b \<Rightarrow> ('v, 'a) op"
  assumes m: "guar (onDb memberMoves) m" and v: "\<And>w a w'. m w = (Inr a, w') \<Longrightarrow> P a"
    and f: "\<And>a. P a \<Longrightarrow> guar (onDb memberMoves) (f a)"
  shows "guar (onDb memberMoves) (bind m f)"
proof -
  have "onDb memberMoves w (snd (bind m f w))" for w
  proof -
    obtain r w' where mw: "m w = (r, w')" by force
    have s: "memberMoves (w_db w) (w_db w')" using guarD'[OF m mw] by (simp add: onDb_def)
    show ?thesis
    proof (cases r)
      case (Inl e)
      then show ?thesis using s by (simp add: bind_def mw onDb_def)
    next
      case (Inr a)
      have "memberMoves (w_db w') (w_db (snd (f a w')))"
        using guarD[OF f[OF v[of w a w']], of w'] mw Inr by (simp add: onDb_def)
      then show ?thesis using memberMoves_trans[OF s] by (simp add: bind_def mw Inr onDb_def)
    qed
  qed
  then show ?thesis by (simp add: guar_def)
qed

lemma nameSafe_append: "nameSafe (x @ y) \<longleftrightarrow> nameSafe x \<and> nameSafe y"
  by (auto simp: nameSafe_def)

lemma prefix_safe: "nameSafe memberPrefix"
  by (simp add: memberPrefix_def byteString_def nameSafe_append) (simp add: nameSafe_def high_safe low_safe, simp add: safeChar_def nameForbidden_def isControl_def code_def)

lemma importName_safe:
  "suffixSafe S \<Longrightarrow> nameSafe clean \<Longrightarrow> importName S policy clean w = (Inr a, w') \<Longrightarrow> nameSafe a"
  by (auto simp: importName_def bind_def draw_def return_def suffixSafe_def nameSafe_append prefix_safe split: if_splits)

lemma mm_importName [guar_intros]: "guar (onDb memberMoves) (importName S policy clean :: ('v, string) op)"
  unfolding importName_def by (intro guar_intros)

lemma mm_importToken:
  assumes S: "suffixSafe S"
  shows "guar (onDb memberMoves) (importToken S o' policy t acc :: ('v, int \<times> int) op)"
  unfolding importToken_def importedMember_def
  by (rule mm_bind_val[OF mm_importName importName_safe[OF S cleanName_safe]] mm_create provisional_new
      | assumption | rule guar_intros)+

lemma mm_import:
  "suffixSafe S \<Longrightarrow> guar (onDb memberMoves) (importOrgTokens S org cred policy :: ('v, int \<times> int) op)"
  unfolding importOrgTokens_def by (intro guar_intros mm_importToken)

lemma mm_RunSettlement [guar_intros]: "guar (onDb memberMoves) (RunSettlement S :: ('v, int) op)"
proof (intro mm.RunSettlement disjI2 allI)
  show "guar (onDb memberMoves) (DeductBalanceTx org n :: ('v, balance) op)" for org n
    unfolding DeductBalanceTx_def getBalanceTx_def
    by (intro guar_intros mm_quietStmt) (simp add: updateBalance_def Let_def)
qed

lemma mm_enqueue [guar_intros]: "guar (onDb memberMoves) (enqueueBackfill S org uid un :: ('v, unit) op)"
  unfolding enqueueBackfill_def by (intro guar_intros mm.GetOrCreateCursor)

lemma platform_new: "r \<noteq> RoleOperator \<Longrightarrow> memberNew (platformMember org e r h)"
  by (simp add: memberNew_def displaySafe_def platformMember_def)

lemma mm_createOrg: "suffixSafe S \<Longrightarrow> guar (onDb memberMoves) (CreateOrg S c i :: ('v, create_org_result) op)"
  unfolding CreateOrg_def associateGate_def adminPassword_def createBaseTier_def bindAssociated_def Let_def
  by (rule mm_checkName mm_create mm_import | assumption | rule guar_intros | rule platform_new, simp)+

lemma mm_reimport: "suffixSafe S \<Longrightarrow> guar (onDb memberMoves) (ReimportOrgTokens S c org :: ('v, int \<times> int) op)"
  unfolding ReimportOrgTokens_def by (intro guar_intros mm_import)

lemma mm_hardStop [guar_intros]: "guar (onDb memberMoves) (HardStopOrg S c org b :: ('v, unit) op)"
  unfolding HardStopOrg_def by (intro guar_intros)

end
