(* ===== verification/PeopleClaims.thy ===== *)
theory PeopleClaims
  imports MemberOps Triples
begin

text \<open>
  What no sequence of operations does to the member rows: revive a revoked session, make an operator,
  store an unsafe display name.
\<close>

section \<open>Histories\<close>

inductive peopleOp :: "'u service \<Rightarrow> ('u, unit) op \<Rightarrow> bool" for S where
  "peopleOp S (ignoreErr (OpenMember S c org n e tm tr))"
| "peopleOp S (ignoreErr (BulkOpenMembers S c org ns tm tr))"
| "peopleOp S (ignoreErr (BulkSetStatus S c org ids b))"
| "peopleOp S (ignoreErr (UpdateMember S c org i tm tr nm))"
| "peopleOp S (AssignRole c org i r)"
| "peopleOp S (SetMemberStatus S c org i b)"
| "peopleOp S (OffboardMember S c org i)"
| "peopleOp S (RestoreOffboardedMember c org i)"
| "peopleOp S (ChangePassword S c old new)"
| "peopleOp S (ignoreErr (ResetMemberPassword S c org i))"
| "peopleOp S (ignoreErr (UpdateMyDisplayName c n))"
| "peopleOp S (SetKeyIPWhitelist S c org i ips)"
| "peopleOp S (ignoreErr (RotateKey S c org i))"
| "peopleOp S (ignoreErr (CreateMemberToken S c i g))"
| "peopleOp S (ignoreErr (AdjustQuota S c org i delta dur reason))"
| "peopleOp S (ignoreErr (SetTempPermission S c org i ty model expire reason))"
| "peopleOp S (RevokeGrant S c org gid)"
| "peopleOp S (ignoreErr (CreateOrg S c inp))"
| "peopleOp S (ignoreErr (ReimportOrgTokens S c org))"
| "peopleOp S (HardStopOrg S c org b)"
| "peopleOp S (ignoreErr (ReverseExpiredGrants S k))"
| "peopleOp S (ignoreErr (ResetDuePolicies S))"
| "peopleOp S (ignoreErr (RunSettlement S))"

text \<open>From \<open>w0\<close> on: these operations, and anything that leaves the member rows alone.\<close>

inductive peopleHistory :: "'u service \<Rightarrow> 'u world \<Rightarrow> 'u world \<Rightarrow> bool" for S w0 where
  start: "peopleHistory S w0 w0"
| step: "peopleHistory S w0 w \<Longrightarrow> peopleOp S f \<Longrightarrow> peopleHistory S w0 (snd (f w))"
| other: "peopleHistory S w0 w \<Longrightarrow> members (w_db w') = members (w_db w) \<Longrightarrow> peopleHistory S w0 w'"

lemma mm_ignoreErr: "guar (onDb memberMoves) m \<Longrightarrow> guar (onDb memberMoves) (ignoreErr m :: ('v, unit) op)"
  by (intro guar_intros)

lemma peopleOp_moves: "suffixSafe S \<Longrightarrow> peopleOp S f \<Longrightarrow> guar (onDb memberMoves) f"
  by (erule peopleOp.cases; hypsubst; (intro mm_ignoreErr)?;
      (rule mm_openMember mm_bulk mm_updateMember mm_assignRole mm_states mm_profile mm_displayName mm_ownKey
            mm_quota mm_hardStop mm_expiry mm_reset mm_RunSettlement | erule mm_createOrg mm_reimport))

lemma peopleHistory_moves: "peopleHistory S w0 w \<Longrightarrow> suffixSafe S \<Longrightarrow> memberMoves (w_db w0) (w_db w)"
proof (induction rule: peopleHistory.induct)
  case (step w f)
  then show ?case
    using guarD[OF peopleOp_moves[OF step.prems step.hyps(2)], of w] memberMoves_trans by (auto simp: onDb_def)
next
  case (other w w')
  then show ?case using memberMoves_same memberMoves_trans by blast
qed (simp add: memberMoves_refl)

section \<open>Epochs\<close>

text \<open>The rows of one member have epochs of at least, or above, a bound.\<close>

definition epochFrom :: "int \<Rightarrow> int \<Rightarrow> int \<Rightarrow> 'u world \<Rightarrow> bool" where
  "epochFrom org i n w \<longleftrightarrow> i \<in> m_id ` set (members (w_db w))
     \<and> (\<forall>m \<in> set (members (w_db w)). m_id m = i \<and> m_org m = org \<longrightarrow> n \<le> m_epoch m)"

lemma epochFrom_moves: "memberMoves (w_db w) (w_db w') \<Longrightarrow> epochFrom org i n w \<Longrightarrow> epochFrom org i n w'"
  unfolding epochFrom_def memberMoves_def memberEdit_def by (auto; fastforce)

lemma epochFrom_val: "guar (onDb memberMoves) m \<Longrightarrow> val (epochFrom org i n) m (\<lambda>_. epochFrom org i n)"
  by (rule valI) (metis epochFrom_moves guarD' onDb_def)

lemma exec_Inr: "exec f w = (Inr a, w') \<Longrightarrow> w_db w' = f (w_db w)"
  by (auto simp: exec_def stmt_def split: list.splits fault.splits)

lemma bump_val: "val (epochFrom org i n) (mapErr g (BumpMemberSessionEpoch org i)) (\<lambda>_. epochFrom org i (n + 1))"
proof (rule val_mapErr, rule valI)
  fix w a w' assume e: "epochFrom org i n w" and run: "BumpMemberSessionEpoch org i w = (Inr a, w')"
  have m: "members (w_db w') = map (\<lambda>m. if m_id m = i \<and> m_org m = org then m\<lparr>m_epoch := m_epoch m + 1\<rparr> else m) (members (w_db w))"
    using exec_Inr[OF run[unfolded BumpMemberSessionEpoch_def]] by (simp add: updMember_def)
  have "memberMoves (w_db w) (w_db w')" using guarD'[OF mm_rows(5) run] by (simp add: onDb_def)
  then have "i \<in> m_id ` set (members (w_db w'))" using e by (auto simp: memberMoves_def epochFrom_def)
  moreover have "n + 1 \<le> m_epoch x" if "x \<in> set (members (w_db w'))" "m_id x = i" "m_org x = org" for x
  proof -
    obtain y where y: "y \<in> set (members (w_db w))"
      "x = (if m_id y = i \<and> m_org y = org then y\<lparr>m_epoch := m_epoch y + 1\<rparr> else y)" using \<open>x \<in> _\<close> unfolding m set_map by blast
    then have "m_id y = i" "m_org y = org" using that(2,3) by (auto split: if_splits)
    then show ?thesis using y e by (simp add: epochFrom_def)
  qed
  ultimately show "epochFrom org i (n + 1) w'" by (simp add: epochFrom_def)
qed

lemma bump_then:
  "(\<And>a. guar (onDb memberMoves) (f a)) \<Longrightarrow>
   val (epochFrom org i n) (bind (mapErr g (BumpMemberSessionEpoch org i)) f) (\<lambda>_. epochFrom org i (n + 1))"
  by (rule val_bind[OF bump_val]) (rule epochFrom_val)

lemma epoch_skip:
  "guar (onDb memberMoves) m \<Longrightarrow> (\<And>a. val (epochFrom org i n) (f a) Q) \<Longrightarrow> val (epochFrom org i n) (bind m f) Q"
  by (rule val_bind[OF epochFrom_val])

text \<open>The operations that end the sessions of a member.\<close>

inductive endsSessions :: "'u service \<Rightarrow> int \<Rightarrow> int \<Rightarrow> ('u, unit) op \<Rightarrow> bool" for S org i where
  "cl_org c = org \<Longrightarrow> cl_member c = i \<Longrightarrow> endsSessions S org i (ChangePassword S c old new)"
| "endsSessions S org i (bind (ResetMemberPassword S c org i) (\<lambda>_. return ()))"
| "endsSessions S org i (AssignRole c org i r)"
| "endsSessions S org i (SetMemberStatus S c org i b)"

lemma ends_val:
  assumes "endsSessions S org i f"
  shows "val (epochFrom org i n) f (\<lambda>_. epochFrom org i (n + 1))"
  using assms
proof cases
  case (1 c old new)
  then show ?thesis unfolding ChangePassword_def
    by (simp only:) (rule val_throw val_if bump_then epoch_skip | rule guar_intros)+
next
  case (2 c)
  have "val (epochFrom org i n) (ResetMemberPassword S c org i) (\<lambda>_. epochFrom org i (n + 1))"
    unfolding ResetMemberPassword_def
    by (rule val_throw val_if bump_then epoch_skip | rule guar_intros)+
  then show ?thesis unfolding 2 by (rule val_bind) (simp add: val_return)
next
  case (3 c r)
  show ?thesis
  proof (cases "r = RoleOperator")
    case True
    then show ?thesis unfolding 3 AssignRole_def
      by (simp only: insert_iff empty_iff role.distinct simp_thms if_True not_False_eq_True) (rule val_throw epoch_skip | rule guar_intros)+
  next
    case False
    show ?thesis unfolding 3 AssignRole_def
      by (rule val_throw val_if bump_then epoch_skip mm_role False | rule guar_intros)+
  qed
next
  case (4 c b)
  show ?thesis unfolding 4 SetMemberStatus_def
    by (rule val_throw val_if bump_then epoch_skip | rule guar_intros)+
qed

lemma getRow_Inr: "getRow f w = (Inr a, w') \<Longrightarrow> f (w_db w) = Some a \<and> w_db w' = w_db w"
  by (auto simp: getRow_def queryRow_def mapErr_def stmt_def split: list.splits fault.splits option.splits)

lemma valid_row:
  assumes "ValidateSession t w = (Inr (), w')" "cl_support t = 0"
  shows "\<exists>m \<in> set (members (w_db w)). m_id m = cl_member t \<and> m_org m = cl_org t \<and> m_epoch m = cl_epoch t"
proof -
  obtain m w1 where m: "GetMember (cl_org t) (cl_member t) w = (Inr m, w1)" "m_epoch m = cl_epoch t"
    using assms by (auto simp: ValidateSession_def bind_def mapErr_def throw_def return_def split: prod.splits sum.splits if_splits)
  have "findMember (cl_org t) (cl_member t) (w_db w) = Some m" using getRow_Inr[OF m(1)[unfolded GetMember_def]] by simp
  then show ?thesis using m(2) by (auto simp: findMember_def find_Some_iff)
qed

text \<open>C13. A revoked session stays revoked: when a password change, a password reset, a role change
  or a disabling or enabling of a member succeeds, every session token of that member which was valid
  before is refused ever after, whatever operations and failures follow.\<close>

theorem revoked_sessions_stay_revoked:
  assumes key: "distinct (map m_id (members (w_db w)))"
    and valid: "ValidateSession t w = (Inr (), w')" "cl_support t = 0"
    and ends: "endsSessions S (cl_org t) (cl_member t) f" "f w = (Inr (), w1)"
    and later: "peopleHistory S w1 w2" "suffixSafe S"
  shows "isl (fst (ValidateSession t w2))"
proof (rule ccontr)
  let ?from = "epochFrom (cl_org t) (cl_member t) :: int \<Rightarrow> 'a world \<Rightarrow> bool"
  obtain m where m: "m \<in> set (members (w_db w))" "m_id m = cl_member t" "m_org m = cl_org t" "m_epoch m = cl_epoch t"
    using valid_row[OF valid] by blast
  have only: "cl_epoch t \<le> m_epoch x" if "x \<in> set (members (w_db w))" "m_id x = cl_member t" for x
  proof -
    have "x = m" using key that m by (metis distinct_map inj_onD)
    then show ?thesis using m(4) by simp
  qed
  have "cl_member t \<in> m_id ` set (members (w_db w))" using m(1,2) by force
  then have "?from (cl_epoch t) w" using only by (simp add: epochFrom_def)
  from valD[OF ends_val[OF ends(1)] this ends(2)] have "?from (cl_epoch t + 1) w1" .
  then have after: "?from (cl_epoch t + 1) w2" using peopleHistory_moves[OF later] epochFrom_moves by blast
  assume "\<not> isl (fst (ValidateSession t w2))"
  then obtain w3 where "ValidateSession t w2 = (Inr (), w3)"
    by (cases "ValidateSession t w2"; cases "fst (ValidateSession t w2)") auto
  from valid_row[OF this valid(2)]
  obtain y where y: "y \<in> set (members (w_db w2))" "m_id y = cl_member t" "m_org y = cl_org t" "m_epoch y = cl_epoch t"
    by blast
  have "cl_epoch t + 1 \<le> m_epoch y" using after y(1-3) unfolding epochFrom_def by blast
  then show False using y(4) by simp
qed

lemma itoa_safe: "nameSafe (itoa (int n))"
proof -
  have "safeChar c" if "48 \<le> (of_char c :: nat)" "(of_char c :: nat) \<le> 57" for c
    using that by (auto simp: safeChar_def nameForbidden_def isControl_def code_def)
  then show ?thesis using digits_chars by (auto simp: nameSafe_def itoa_def)
qed

lemma sample_suffix: "suffixSafe (sampleSvc logs b f)"
proof -
  have "nameSafe ''x''" by (simp add: nameSafe_def safeChar_def nameForbidden_def isControl_def code_def)
  then have "nameSafe (''x'' @ itoa (int n))" for n using itoa_safe by (simp only: nameSafe_append simp_thms)
  then show ?thesis by (simp add: suffixSafe_def sampleSvc_def)
qed

theorem revoked_sessions_stay_revoked_witness:
  "let S = sampleSvc [] False True; w = sampleWorld sampleDb 100; t = sampleClaims RoleMember 2;
       w1 = snd (AssignRole (sampleClaims RoleOrgAdmin 1) 1 2 RoleTeamLeader w)
   in fst (ValidateSession t w) = Inr () \<and> isl (fst (ValidateSession t w1))"
proof -
  let ?S = "sampleSvc [] False True" and ?w = "sampleWorld sampleDb 100" and ?t = "sampleClaims RoleMember 2"
    and ?f = "AssignRole (sampleClaims RoleOrgAdmin 1) 1 2 RoleTeamLeader :: (sample, unit) op"
  have v: "fst (ValidateSession ?t ?w) = Inr ()" and f: "fst (?f ?w) = Inr ()" by code_simp+
  have k: "distinct (map m_id (members (w_db ?w)))" "cl_support ?t = 0" "cl_org ?t = 1" "cl_member ?t = 2" by code_simp+
  have "isl (fst (ValidateSession ?t (snd (?f ?w))))"
    by (rule revoked_sessions_stay_revoked[where S = ?S and w = ?w and f = ?f and w' = "snd (ValidateSession ?t ?w)"])
       (use v f k in \<open>auto intro: endsSessions.intros peopleHistory.start sample_suffix simp: prod_eq_iff\<close>)
  then show ?thesis using v by (simp add: Let_def)
qed

section \<open>Operators\<close>

text \<open>C14. No operator is made on the way: whatever calls are made, by whomever, every operator row
  at the end was an operator row at the beginning.\<close>

theorem no_operator_is_minted:
  assumes "peopleHistory S w0 w" "suffixSafe S" "m \<in> set (members (w_db w))" "m_role m = RoleOperator"
  shows "\<exists>m0 \<in> set (members (w_db w0)). m_id m0 = m_id m \<and> m_org m0 = m_org m \<and> m_role m0 = RoleOperator"
  using peopleHistory_moves[OF assms(1,2)] assms(3,4) by (fastforce simp: memberMoves_def memberEdit_def memberNew_def)

theorem no_operator_is_minted_witness:
  "let w = snd (AssignRole (sampleClaims RoleOrgAdmin 1) 1 2 RoleOperator (sampleWorld sampleDb 100))
   in \<forall>m \<in> set (members (w_db w)). m_role m \<noteq> RoleOperator"
proof -
  let ?w = "snd (AssignRole (sampleClaims RoleOrgAdmin 1) 1 2 RoleOperator (sampleWorld sampleDb 100))"
  have "peopleHistory (sampleSvc [] False True) (sampleWorld sampleDb 100) ?w"
    by (intro peopleHistory.step peopleHistory.start peopleOp.intros)
  from no_operator_is_minted[OF this sample_suffix] show ?thesis
    by (fastforce simp: Let_def sampleWorld_def sampleDb_def sampleMember_def)
qed

section \<open>Names\<close>

text \<open>C15. Display names stay safe for the pages that show them: if none contains a character of the
  HTML and script blacklist or a control character, none ever will, the names of tokens imported from
  new-api included.\<close>

theorem display_names_stay_safe:
  assumes "peopleHistory S w0 w" "suffixSafe S" and safe: "\<forall>m \<in> set (members (w_db w0)). displaySafe m"
    and m: "m \<in> set (members (w_db w))" "m_display m = Some n" and c: "c \<in> set n"
  shows "c \<notin> {CHR ''<'', CHR ''>'', CHR 0x22, CHR 0x27, CHR 0x60, CHR 0x5C} \<and> \<not> isControl c"
proof -
  have "displaySafe m"
    using peopleHistory_moves[OF assms(1,2)] safe m(1)
    by (fastforce simp: memberMoves_def memberEdit_def memberNew_def displaySafe_def)
  then have "safeChar c" using m(2) c by (simp add: displaySafe_def nameSafe_def)
  then show ?thesis by (simp add: safeChar_def nameForbidden_def)
qed

theorem display_names_stay_safe_witness:
  "let w = snd (ignoreErr (UpdateMember (sampleSvc [] False True) (sampleClaims RoleOrgAdmin 1) 1 2 None None (Some ''Ann'')) (sampleWorld sampleDb 100))
   in Some ''Ann'' \<in> m_display ` set (members (w_db w)) \<and> \<not> isControl CHR ''A''"
proof -
  let ?f = "ignoreErr (UpdateMember (sampleSvc [] False True) (sampleClaims RoleOrgAdmin 1) 1 2 None None (Some ''Ann''))"
  let ?w = "snd (?f (sampleWorld sampleDb 100))"
  have h: "peopleHistory (sampleSvc [] False True) (sampleWorld sampleDb 100) ?w"
    by (intro peopleHistory.step peopleHistory.start peopleOp.intros)
  have d: "m_display (members (w_db ?w) ! 1) = Some ''Ann''" "length (members (w_db ?w)) = 2" by code_simp+
  have s: "\<forall>m \<in> set (members (w_db (sampleWorld sampleDb 100))). displaySafe m"
    by (simp add: sampleWorld_def sampleDb_def sampleMember_def displaySafe_def)
  have m: "members (w_db ?w) ! 1 \<in> set (members (w_db ?w))" using d(2) by simp
  have "\<not> isControl CHR ''A''" using display_names_stay_safe[OF h sample_suffix s m d(1), of "CHR ''A''"] by simp
  then show ?thesis using m d(1) by (auto simp: Let_def image_iff intro!: bexI[OF _ m])
qed

end
