(* ===== verification/IdentityClaims.thy ===== *)
theory IdentityClaims
  imports Identity Sample
begin

text \<open>What a login gives and what it gives away.\<close>

lemma getRow_cases:
  "getRow f w = (r, w') \<Longrightarrow> w_db w' = w_db w \<and>
     (case r of Inr a \<Rightarrow> f (w_db w) = Some a | Inl e \<Rightarrow> e = DriverError \<or> f (w_db w) = None \<and> e = ErrNotFound)"
  by (auto simp: getRow_def queryRow_def mapErr_def stmt_def noRows_def split: list.splits fault.splits option.splits)

definition byEmail :: "string \<Rightarrow> db \<Rightarrow> member option" where
  "byEmail email d = firstBy m_id (\<lambda>m. m_email m = email \<and> \<not> m_deleted m) (members d)"

definition claimsFit :: "member \<Rightarrow> bool" where
  "claimsFit m \<longleftrightarrow> fits64 (m_id m) \<and> fits64 (m_org m) \<and> fits64 (m_epoch m)
     \<and> (case m_team m of None \<Rightarrow> True | Some t \<Rightarrow> fits64 t)"

lemma loginClaims_fit: "claimsFit m \<Longrightarrow> fitting (loginClaims m)"
  by (auto simp: claimsFit_def fitting_def loginClaims_def fits64_def split: option.splits)

lemma Login_Inr:
  assumes "Login S sg email pw w = (Inr (tok, m), w1)"
  shows "byEmail email (w_db w) = Some m \<and> passwordMatches S m pw
     \<and> m_status m \<notin> {MemberStatusDisabled, MemberStatusExpired} \<and> tok = Issue sg (w_now w) (loginClaims m) \<and> w_db w1 = w_db w"
proof -
  obtain r w2 where g: "GetMemberByEmail email w = (r, w2)" by force
  have n: "w_now w2 = w_now w"
    using g by (auto simp: GetMemberByEmail_def getRow_def queryRow_def mapErr_def stmt_def split: list.splits fault.splits prod.splits sum.splits)
  show ?thesis
    using assms getRow_cases[OF g[unfolded GetMemberByEmail_def]] n
    by (auto simp: Login_def bind_def mapErr_def g throw_def return_def clock_def gets_def byEmail_def
        split: sum.splits if_splits)
qed


lemma Login_fails:
  assumes "\<And>m. byEmail email (w_db w) = Some m \<Longrightarrow> \<not> passwordMatches S m pw"
  shows "Login S sg email pw w = (Inl (case w_faults w of
      Fails # _ \<Rightarrow> internal DriverError | LostAck # _ \<Rightarrow> internal DriverError | _ \<Rightarrow> Unauthenticated),
      w\<lparr>w_faults := tl (w_faults w)\<rparr>)"
proof -
  define m where "m = byEmail email (w_db w)"
  have no: "\<And>x. m = Some x \<Longrightarrow> \<not> passwordMatches S x pw" using assms by (simp add: m_def)
  have errs: "credentialErr ErrNotFound = Unauthenticated" "credentialErr DriverError = internal DriverError"
    by (simp_all add: credentialErr_def apperr_defs)
  have "(GetMemberByEmail email :: ('a, member) op) w = (case w_faults w of
      Fails # fs \<Rightarrow> (Inl DriverError, w\<lparr>w_faults := fs\<rparr>) | LostAck # fs \<Rightarrow> (Inl DriverError, w\<lparr>w_faults := fs\<rparr>)
    | _ \<Rightarrow> (case m of None \<Rightarrow> Inl ErrNotFound | Some x \<Rightarrow> Inr x, w\<lparr>w_faults := tl (w_faults w)\<rparr>))"
    unfolding m_def byEmail_def GetMemberByEmail_def getRow_def queryRow_def mapErr_def
    by (auto simp: stmt_def noRows_def split: list.splits fault.splits option.splits)
  then show ?thesis using no
    by (auto simp: Login_def bind_def mapErr_def errs throw_def split: list.splits fault.splits option.splits)
qed

text \<open>C16. A login that succeeds hands out a token that works: the account with that login name has
  that password and is neither disabled nor expired; the token verifies until it expires, to the
  identity, role and epoch of the account; and while the account is active and its epoch unchanged,
  every request with the token passes the session check.\<close>

theorem login_token_works:
  assumes login: "Login S sg email pw w = (Inr (tok, m), w1)"
    and mac: "\<And>p. sg_mac sg p \<noteq> []"
    and fit: "claimsFit m" "fits64 (w_now w div 10 ^ 9)" "fits64 ((w_now w + sg_ttl sg) div 10 ^ 9)" "validRole (m_role m)"
  shows "byEmail email (w_db w) = Some m \<and> passwordMatches S m pw
     \<and> m_status m \<notin> {MemberStatusDisabled, MemberStatusExpired}
     \<and> (\<forall>later < (w_now w + sg_ttl sg) div 10 ^ 9 * 10 ^ 9. \<exists>c. Verify sg later tok = Inr c
          \<and> (cl_member c, cl_org c, cl_role c, cl_epoch c) = (m_id m, m_org m, m_role m, m_epoch m)
          \<and> (\<forall>(w2 :: 'u world) x. findMember (m_org m) (m_id m) (w_db w2) = Some x \<longrightarrow> m_status x = MemberStatusActive
               \<longrightarrow> m_epoch x = m_epoch m \<longrightarrow> w_faults w2 = [] \<longrightarrow> ValidateSession c w2 = (Inr (), w2)))"
proof -
  note L = Login_Inr[OF login]
  let ?c = "stamp sg (w_now w) (loginClaims m)"
  have fields: "(cl_member ?c, cl_org ?c, cl_role ?c, cl_epoch ?c) = (m_id m, m_org m, m_role m, m_epoch m)" "cl_support ?c = 0"
    by (simp_all add: stamp_def loginClaims_def)
  have verifies: "Verify sg later tok = Inr ?c" if before: "later < (w_now w + sg_ttl sg) div 10 ^ 9 * 10 ^ 9" for later
  proof -
    have "later div 10 ^ 9 < e" if "later < e * 10 ^ 9" for e :: int using that by simp
    from this[OF before] have "later div 10 ^ 9 < (w_now w + sg_ttl sg) div 10 ^ 9" .
    then have "later div 10 ^ 9 < cl_exp ?c" by (simp add: stamp_def loginClaims_def)
    moreover have "validRole (cl_role (loginClaims m))" using fit(4) by (simp add: loginClaims_def)
    moreover have "tok = Issue sg (w_now w) (loginClaims m)" using L by simp
    ultimately show ?thesis
      unfolding \<open>tok = _\<close> Issue_def Let_def
      using mac claimsOf_Json[OF fitting_stamp[OF loginClaims_fit[OF fit(1)] fit(2,3)]]
      by (intro Verify_signed) (simp_all add: claimsJson_not_Nil)
  qed
  have passes: "ValidateSession ?c w2 = (Inr (), w2)"
    if "findMember (m_org m) (m_id m) (w_db w2) = Some x" "m_status x = MemberStatusActive"
      "m_epoch x = m_epoch m" "w_faults w2 = []" for w2 :: "'u world" and x
    using that fields
    by (simp add: ValidateSession_def bind_def mapErr_def GetMember_def getRow_def queryRow_def stmt_def return_def)
  show ?thesis using L verifies passes fields(1) by metis
qed

definition loginDb :: db where
  "loginDb = sampleDb\<lparr> members := [(sampleMember 1 RoleOrgAdmin)\<lparr>m_pwhash := Some ''#secret'', m_team := Some 4\<rparr>] \<rparr>"

theorem login_token_works_witness:
  "\<exists>c. Verify toySigner (1700000600 * 10 ^ 9)
       (Issue toySigner (1700000000 * 10 ^ 9) (loginClaims ((sampleMember 1 RoleOrgAdmin)\<lparr>m_pwhash := Some ''#secret'', m_team := Some 4\<rparr>))) = Inr c"
proof -
  let ?m = "(sampleMember 1 RoleOrgAdmin)\<lparr>m_pwhash := Some ''#secret'', m_team := Some 4\<rparr>"
  let ?w = "sampleWorld loginDb 1700000000"
  have run: "Login (sampleSvc [] False True) toySigner ''m@acme'' ''secret'' ?w
      = (Inr (Issue toySigner (1700000000 * 10 ^ 9) (loginClaims ?m), ?m), ?w)"
    by (simp add: Login_def bind_def mapErr_def GetMemberByEmail_def getRow_def queryRow_def stmt_def firstBy_def
        loginDb_def sampleWorld_def sampleMember_def passwordMatches_def sampleSvc_def clock_def gets_def return_def)
  have fit: "claimsFit ?m" "validRole (m_role ?m)" by (simp_all add: claimsFit_def sampleMember_def fits64_def validRole_def)
  note works = login_token_works[OF run _ fit(1) _ _ fit(2), where 'u = unit]
  have "\<forall>later < (w_now ?w + sg_ttl toySigner) div 10 ^ 9 * 10 ^ 9. \<exists>c. Verify toySigner later
       (Issue toySigner (1700000000 * 10 ^ 9) (loginClaims ?m)) = Inr c"
    using works by (force simp: toySigner_def sampleWorld_def fits64_def)
  then show ?thesis by (simp add: toySigner_def sampleWorld_def)
qed

text \<open>C17. A login that fails gives nothing away and changes nothing: whether the login name is
  unknown, belongs to an account without a password, or the password is wrong, the answer is the same
  and so is everything after it, for every database and every driver fault; and the answer that an
  account is disabled is only given to someone who knows its password.\<close>

theorem failed_login_reveals_nothing:
  assumes "\<And>m. byEmail e1 (w_db w) = Some m \<Longrightarrow> \<not> passwordMatches S m p1"
    and "\<And>m. byEmail e2 (w_db w) = Some m \<Longrightarrow> \<not> passwordMatches S m p2"
  shows "Login S sg e1 p1 w = Login S sg e2 p2 w \<and> w_db (snd (Login S sg e1 p1 w)) = w_db w
     \<and> w_up (snd (Login S sg e1 p1 w)) = w_up w \<and> fst (Login S sg e1 p1 w) \<noteq> Inl Forbidden \<and> isl (fst (Login S sg e1 p1 w))"
proof -
  let ?out = "(Inl (case w_faults w of Fails # _ \<Rightarrow> internal DriverError | LostAck # _ \<Rightarrow> internal DriverError
      | _ \<Rightarrow> Unauthenticated) :: err + string \<times> member, w\<lparr>w_faults := tl (w_faults w)\<rparr>)"
  have "Login S sg e1 p1 w = ?out" by (rule Login_fails) (rule assms(1))
  moreover have "Login S sg e2 p2 w = ?out" by (rule Login_fails) (rule assms(2))
  ultimately show ?thesis by (auto simp: apperr_defs internal_def split: list.splits fault.splits)
qed

theorem failed_login_reveals_nothing_witness:
  "Login (sampleSvc [] False True) toySigner ''nobody@acme'' ''secret'' (sampleWorld loginDb 1700000000)
   = Login (sampleSvc [] False True) toySigner ''m@acme'' ''Secret'' (sampleWorld loginDb 1700000000)"
  by (rule conjunct1, rule failed_login_reveals_nothing)
     (auto simp: byEmail_def firstBy_def loginDb_def sampleWorld_def sampleMember_def passwordMatches_def sampleSvc_def)

end
