(* ===== verification/Ambient.thy ===== *)
theory Ambient
  imports Frames Triples
begin

text \<open>
  What no operation touches whatever it does to the database and to new-api: the clock stands still
  within an operation, and a schedule without faults stays one.  The rules are proved once for every
  relation between worlds that is indifferent to the database, to new-api and to the draws.
\<close>

locale ambient = guarantee R for R :: "'u world \<Rightarrow> 'u world \<Rightarrow> bool" +
  assumes db_free: "R w (w\<lparr>w_db := d\<rparr>)"
    and up_free: "R w (w\<lparr>w_up := u\<rparr>)"
    and draw_free: "R w (w\<lparr>w_draws := n\<rparr>)"
    and fault_used: "w_faults w = f # fs \<Longrightarrow> R w (w\<lparr>w_faults := fs\<rparr>)"
    and held_free: "R w (w\<lparr>w_held := h\<rparr>)"
begin

lemma step [guar_intros]: "guar R (stmt f)"
proof -
  have "w_faults w = x # fs \<Longrightarrow> R w (w\<lparr>w_db := d, w_faults := fs\<rparr>)" for w x fs d
    by (rule trans[OF db_free fault_used]) simp
  then show ?thesis
    by (auto simp: guar_def stmt_def db_free intro: fault_used split: list.splits fault.splits prod.splits)
qed

lemma reads [guar_intros]:
  "guar R (query f)" "guar R (queryRow g)" "guar R (getRow g)" "guar R (exec h)" "guar R clock" "guar R (draw k)"
  unfolding query_def queryRow_def getRow_def exec_def clock_def
  by (intro guar_intros step gets)+ (simp add: guar_def draw_def draw_free)

lemma calls [guar_intros]: "guar R (upcall f)"
  by (auto simp: guar_def upcall_def up_free split: prod.splits)

lemma poll [guar_intros]: "guar R pollCtx"
  by (auto simp: guar_def pollCtx_def refl intro: fault_used split: list.splits)

lemma tx [guar_intros]:
  assumes "guar R body"
  shows "guar R (WithTx body)"
proof -
  have rollback: "R w w2 \<Longrightarrow> R w (w2\<lparr>w_db := d\<rparr>)" for w w2 d using trans db_free by blast
  have consumed: "R w w2 \<Longrightarrow> w_faults w2 = x # fs \<Longrightarrow> R w (w2\<lparr>w_faults := fs\<rparr>)" for w w2 x fs using trans fault_used by blast
  have both: "R w w2 \<Longrightarrow> w_faults w2 = x # fs \<Longrightarrow> R w (w2\<lparr>w_db := d, w_faults := fs\<rparr>)" for w w2 x fs d
    using consumed[of w "w2\<lparr>w_db := d\<rparr>"] rollback by simp
  have "R w (snd (WithTx body w))" for w
  proof -
    obtain r w1 where 1: "stmt (\<lambda>d. (Inr (), d)) w = (r, w1)" by force
    obtain r2 w2 where 2: "body w1 = (r2, w2)" by force
    have R1: "R w w1" using guarD'[OF step 1] .
    have R2: "R w w2" using trans[OF R1 guarD'[OF assms 2]] .
    show ?thesis using R1 R2
      by (auto simp: WithTx_def 1 2 intro: rollback consumed both split: sum.splits list.splits fault.splits)
  qed
  then show ?thesis by (simp add: guar_def)
qed

lemma hold [guar_intros]: "guar R body \<Longrightarrow> guar R (holding key body)"
proof (rule guar_holding_frame[where R = R, OF _ refl])
  show "R w (w'\<lparr>w_held := w_held w\<rparr>)" if "R (w\<lparr>w_held := k\<rparr>) w'" for w k w'
    using trans[OF held_free trans[OF that held_free]] .
qed

lemma lock [guar_intros]: "guar R body \<Longrightarrow> guar R (withLock g key body)"
  unfolding withLock_def by (intro guar_intros bind)

lemma logs [guar_intros]:
  "guar R (audit c org act tgt tid dt)" "guar R (auditSystem org act tgt tid dt r)" "guar R (notify org m ty)"
  unfolding audit_def auditSystem_def notify_def WriteAudit_def CreateNotification_def by (intro guar_intros bind ignoreErr)+

section \<open>Credentials and quotas\<close>

lemma credRows [guar_intros]:
  "guar R (GetOrganization org)" "guar R (GetOrgNewapiCred org)" "guar R (GetOrgNewapiPassword org)"
  "guar R (GetOrgBillingFlags org)" "guar R (UpdateOrgAccessToken org enc)" "guar R (UpdateOrgStatus org st)"
  "guar R (SetOrgNewapiUser i uid un tok pw)" "guar R (decryptToken S enc)" "guar R (loadOrgCred S org)"
  "guar R (orgCred S org)" "guar R (orgUserGroup org)" "guar R (orgNewapiUsername org)"
  unfolding GetOrganization_def GetOrgNewapiCred_def GetOrgNewapiPassword_def GetOrgBillingFlags_def
    UpdateOrgAccessToken_def UpdateOrgStatus_def SetOrgNewapiUser_def decryptToken_def loadOrgCred_def orgCred_def
    orgUserGroup_def orgNewapiUsername_def
  by (intro guar_intros bind return throw)+

lemma wallets [guar_intros]: "guar R (ensureWalletOnly S org c)"
  unfolding ensureWalletOnly_def by (intro guar_intros bind return throw ignoreErr)

lemma boots [guar_intros]: "guar R (bootstrapAttempts S org nm pw k)"
  by (induction k) (simp_all only: bootstrapAttempts.simps, (intro guar_intros bind return throw | assumption)+)

lemma provisions [guar_intros]: "guar R (EnsureOrgProvisioned S org nm)" "guar R (EnsureFreshCred S org)"
  unfolding EnsureOrgProvisioned_def EnsureFreshCred_def Let_def
  by (intro guar_intros bind return throw ignoreErr)+

lemma withCred [guar_intros]: "(\<And>c. guar R (fn c)) \<Longrightarrow> guar R (withOrgCred S org fn)"
  unfolding withOrgCred_def by (intro guar_intros bind return throw | assumption)+

lemma quotas [guar_intros]:
  "guar R (resolveBaseQuota m)" "guar R (computeOverride m)" "guar R (gateByOrgStatus S org ov)" "guar R (applyMemberOverride S m)"
  unfolding resolveBaseQuota_def ListQuotaPolicies_def GetTeam_def GetTier_def computeOverride_def
    ListActiveQuotaGrants_def gateByOrgStatus_def applyMemberOverride_def Let_def
  by (intro guar_intros bind return throw)+

end

section \<open>The clock and the absence of faults\<close>

definition calm :: "'u world \<Rightarrow> 'u world \<Rightarrow> bool" where
  "calm w w' \<longleftrightarrow> w_now w' = w_now w \<and> (w_faults w = [] \<longrightarrow> w_faults w' = [])"

interpretation calm: ambient calm
  by unfold_locales (auto simp: calm_def)

text \<open>Without faults a statement just runs.\<close>

lemma run_calm:
  "w_faults w = [] \<Longrightarrow> query f w = (Inr (f (w_db w)), w)"
  "w_faults w = [] \<Longrightarrow> exec h w = (Inr (), w\<lparr>w_db := h (w_db w)\<rparr>)"
  "w_faults w = [] \<Longrightarrow> getRow g w = (case g (w_db w) of None \<Rightarrow> Inl ErrNotFound | Some a \<Rightarrow> Inr a, w)"
  by (auto simp: query_def exec_def getRow_def queryRow_def stmt_def mapErr_def noRows_def split: option.splits)

end
