(* ===== verification/ResetClaims.thy ===== *)
theory ResetClaims
  imports Reset Ambient Sample
begin

text \<open>
  The periodic reset: where a period begins in a zone with a constant offset, and that a second run
  in the same periods does nothing.
\<close>

section \<open>The calendar\<close>

definition yearStart :: "int \<Rightarrow> int" where
  "yearStart y = 365 * y + y div 4 - y div 100"

definition yearOf :: "int \<Rightarrow> int" where
  "yearOf d = (d - d div 1460 + d div 36524 - d div 146096) div 365"

definition yearTop :: "int \<Rightarrow> int" where
  "yearTop y = (if y = 399 then 146096 else yearStart (y + 1) - 1)"

lemma yearTable: "\<forall>y \<in> set [0..399]. yearOf (yearStart y) = y \<and> yearOf (yearTop y) = y"
  by code_simp

lemma div_Suc_le: "0 < k \<Longrightarrow> (d + 1) div k \<le> d div k + (1 :: int)"
  using zdiv_mono1[of "d + 1" "d + k" k] div_add_self2[of k d] by simp

lemma yearOf_step:
  assumes "0 \<le> d" "d < 146096"
  shows "yearOf d \<le> yearOf (d + 1)"
proof -
  have "d - d div 1460 + d div 36524 - d div 146096 \<le> (d + 1) - (d + 1) div 1460 + (d + 1) div 36524 - (d + 1) div 146096"
  proof (cases "d = 146095")
    case False
    then have "(d + 1) div 146096 = 0" "d div 146096 = 0" using assms by auto
    moreover have "(d + 1) div 1460 \<le> d div 1460 + 1" by (rule div_Suc_le) simp
    moreover have "d div 36524 \<le> (d + 1) div 36524" by (rule zdiv_mono1) auto
    ultimately show ?thesis by linarith
  qed simp
  then show ?thesis unfolding yearOf_def by (rule zdiv_mono1) simp
qed

lemma yearOf_mono:
  assumes "0 \<le> a" "a \<le> b" "b \<le> 146096"
  shows "yearOf a \<le> yearOf b"
  using assms(2,3)
proof (induction b rule: int_ge_induct)
  case (step i)
  then show ?case using yearOf_step[of i] assms(1) by simp
qed simp

lemma yearStartTable: "\<forall>y \<in> set [0..400]. 0 \<le> yearStart y \<and> yearStart y \<le> 146096 \<and> (0 < y \<longrightarrow> 0 < yearStart y)"
  by code_simp

lemma yearStart_range: "0 \<le> y \<Longrightarrow> y \<le> 400 \<Longrightarrow> 0 \<le> yearStart y \<and> yearStart y \<le> 146096 \<and> (0 < y \<longrightarrow> 0 < yearStart y)"
  using yearStartTable by auto

lemma yearOf_range:
  assumes "0 \<le> d" "d \<le> 146096"
  shows "0 \<le> yearOf d \<and> yearOf d \<le> 399 \<and> yearStart (yearOf d) \<le> d \<and> d \<le> yearTop (yearOf d)"
proof -
  let ?y = "yearOf d"
  have table: "yearOf (yearStart y) = y" "yearOf (yearTop y) = y" if "0 \<le> y" "y \<le> 399" for y
    using yearTable that by auto
  have top: "yearTop y \<le> 146096" "0 \<le> yearTop y" "0 \<le> yearStart y" "yearStart y \<le> 146096" if "0 \<le> y" "y \<le> 399" for y
    using that yearStart_range[of y] yearStart_range[of "y + 1"] by (auto simp: yearTop_def)
  have y: "0 \<le> ?y" "?y \<le> 399"
    using yearOf_mono[of 0 d] yearOf_mono[of d 146096] assms by (simp_all add: yearOf_def)
  have "yearStart ?y \<le> d"
  proof (rule ccontr)
    assume "\<not> yearStart ?y \<le> d"
    then have "?y \<noteq> 0" using assms by (auto simp: yearStart_def)
    then have "yearTop (?y - 1) = yearStart ?y - 1" using y by (simp add: yearTop_def)
    then have "yearOf d \<le> ?y - 1"
      using \<open>\<not> yearStart ?y \<le> d\<close> \<open>?y \<noteq> 0\<close> y yearOf_mono[of d "yearTop (?y - 1)"] table(2)[of "?y - 1"] top(1)[of "?y - 1"] assms by simp
    then show False by simp
  qed
  moreover have "d \<le> yearTop ?y"
  proof (rule ccontr)
    assume *: "\<not> d \<le> yearTop ?y"
    then have n: "?y \<noteq> 399" using assms by (auto simp: yearTop_def)
    then have "yearStart (?y + 1) \<le> d" using * by (simp add: yearTop_def)
    then have "?y + 1 \<le> yearOf d"
      using n y yearOf_mono[of "yearStart (?y + 1)" d] table(1)[of "?y + 1"] top(3)[of "?y + 1"] assms by simp
    then show False by simp
  qed
  ultimately show ?thesis using y by simp
qed

text \<open>The day of the month counts up by one until it starts again at 1.\<close>

definition dayInYear :: "int \<Rightarrow> int" where
  "dayInYear k = k - (153 * ((5 * k + 2) div 153) + 2) div 5 + 1"

lemma dayOfMonth_alt:
  "dayOfMonth n = (let d = (n + 719468) mod 146097 in dayInYear (d - yearStart (yearOf d)))"
  unfolding dayOfMonth_def dayInYear_def yearStart_def yearOf_def Let_def minus_div_mult_eq_mod by (rule refl)

lemma dayInYear_pos: "0 \<le> k \<Longrightarrow> 1 \<le> dayInYear k"
proof -
  assume "0 \<le> k"
  have "153 * ((5 * k + 2) div 153) \<le> 5 * k + 2" by simp
  then have "(153 * ((5 * k + 2) div 153) + 2) div 5 \<le> k" by simp
  then show ?thesis by (simp add: dayInYear_def)
qed

lemma dayInYear_step:
  assumes "0 \<le> k" "dayInYear k \<noteq> 1"
  shows "0 < k \<and> dayInYear (k - 1) = dayInYear k - 1"
proof -
  define q where "q = (5 * k + 2) div 153"
  have q: "0 \<le> q" "153 * q \<le> 5 * k + 2" "5 * k + 2 < 153 * q + 153"
    using assms(1) unfolding q_def by simp_all
  have "dayInYear k = k - (153 * q + 2) div 5 + 1" by (simp add: dayInYear_def q_def)
  then have up: "(153 * q + 2) div 5 < k" using dayInYear_pos[OF assms(1)] assms(2) by linarith
  then have "(5 * (k - 1) + 2) div 153 = q" using q by (intro int_div_pos_eq[where r = "5 * (k - 1) + 2 - 153 * q"]) auto
  moreover have "0 < k" using up q(1) by linarith
  ultimately show ?thesis by (simp add: dayInYear_def q_def)
qed

lemma dayOfMonth_pos: "1 \<le> dayOfMonth n"
  unfolding dayOfMonth_alt Let_def using yearOf_range[of "(n + 719468) mod 146097"]
  by (intro dayInYear_pos) auto

lemma dayOfMonth_pred:
  assumes "dayOfMonth n \<noteq> 1"
  shows "dayOfMonth (n - 1) = dayOfMonth n - 1"
proof -
  let ?d = "(n + 719468) mod 146097"
  let ?y = "yearOf ?d"
  have r: "0 \<le> ?d" "?d \<le> 146096" by auto
  note y = yearOf_range[OF r]
  have "dayInYear (?d - yearStart ?y) \<noteq> 1" using assms by (simp add: dayOfMonth_alt Let_def)
  then have k: "0 < ?d - yearStart ?y" "dayInYear (?d - yearStart ?y - 1) = dayInYear (?d - yearStart ?y) - 1"
    using dayInYear_step[of "?d - yearStart ?y"] y by auto
  have "0 \<le> yearStart ?y" using y yearStart_range[of ?y] by simp
  then have pos: "0 \<le> ?d - 1" using k(1) by simp
  have "?y \<le> yearOf (?d - 1)"
    using yearTable y yearOf_mono[of "yearStart ?y" "?d - 1"] k(1) r \<open>0 \<le> yearStart ?y\<close> by auto
  moreover have "yearOf (?d - 1) \<le> ?y" using yearOf_mono[of "?d - 1" ?d] pos r by simp
  ultimately have "yearOf (?d - 1) = ?y" by simp
  moreover have "(n - 1 + 719468) mod 146097 = ?d - 1"
    using pos mod_pos_pos_trivial[of "?d - 1" 146097] r mod_diff_left_eq[of "n + 719468" 146097 1] by (simp add: algebra_simps)
  ultimately have "dayOfMonth (n - 1) = dayInYear (?d - 1 - yearStart ?y)"
    unfolding dayOfMonth_alt Let_def by (simp only:)
  also have "?d - 1 - yearStart ?y = ?d - yearStart ?y - 1" by simp
  finally show ?thesis unfolding k(2) by (simp only: dayOfMonth_alt Let_def)
qed

lemma dayOfMonth_back: "0 \<le> k \<Longrightarrow> k < dayOfMonth n \<Longrightarrow> dayOfMonth (n - k) = dayOfMonth n - k"
proof (induction k rule: int_ge_induct[of 0])
  case (step i)
  then show ?case using dayOfMonth_pred[of "n - i"] by (simp add: algebra_simps)
qed simp_all


section \<open>A zone with a constant offset\<close>

text \<open>
  The zone has had its offset for at least forty days and keeps it for three more.  The midnight of a
  local day is then that day's first second, less the offset.
\<close>

definition steadyZone :: "location \<Rightarrow> int \<Rightarrow> int \<Rightarrow> bool" where
  "steadyZone loc off now \<longleftrightarrow> (\<exists>lo hi. (\<forall>t. lo \<le> t \<and> t < hi \<longrightarrow> loc t = (off, lo, hi))
     \<and> \<bar>off\<bar> \<le> 86400 \<and> lo + 40 * 86400 \<le> now div 10 ^ 9 \<and> now div 10 ^ 9 + 3 * 86400 \<le> hi)"

definition localDay :: "int \<Rightarrow> int \<Rightarrow> int" where
  "localDay off now = (now div 10 ^ 9 + off) div 86400"

definition midnight :: "int \<Rightarrow> int \<Rightarrow> int" where
  "midnight off day = (day * 86400 - off) * 10 ^ 9"

lemma steady_wall: "steadyZone loc off now \<Longrightarrow> wall loc (now div 10 ^ 9) = now div 10 ^ 9 + off"
  by (auto simp: steadyZone_def wall_def)

lemma steady_day:
  assumes z: "steadyZone loc off now" and d: "localDay off now - 31 \<le> day" "day \<le> localDay off now"
  shows "goDate loc (day * 86400) = day * 86400 - off" "wall loc (day * 86400 - off) = day * 86400"
proof -
  obtain lo hi where zone: "\<And>t. lo \<le> t \<Longrightarrow> t < hi \<Longrightarrow> loc t = (off, lo, hi)" and off: "\<bar>off\<bar> \<le> 86400"
    and room: "lo + 40 * 86400 \<le> now div 10 ^ 9" "now div 10 ^ 9 + 3 * 86400 \<le> hi"
    using z unfolding steadyZone_def by blast
  define s where "s = now div 10 ^ 9"
  have "localDay off now * 86400 \<le> s + off" "s + off < localDay off now * 86400 + 86400"
    unfolding localDay_def s_def[symmetric] by linarith+
  then have "lo + 86400 \<le> day * 86400" "day * 86400 + 86400 < hi"
    using d off room unfolding s_def[symmetric] by linarith+
  then have "loc (day * 86400) = (off, lo, hi)" "loc (day * 86400 - off) = (off, lo, hi)"
    "lo \<le> day * 86400 - off" "day * 86400 - off < hi"
    using off by (auto intro!: zone)
  then show "goDate loc (day * 86400) = day * 86400 - off" "wall loc (day * 86400 - off) = day * 86400"
    by (auto simp: goDate_def wall_def Let_def)
qed

lemma isoWeekday_back: "isoWeekday (n - (isoWeekday n - 1)) = 1 \<and> 1 \<le> isoWeekday n \<and> isoWeekday n \<le> 7"
  unfolding isoWeekday_def Let_def by (auto split: if_splits) presburger+

lemma dayOfMonth_le: "dayOfMonth n \<le> 31"
proof -
  let ?d = "(n + 719468) mod 146097"
  have r: "0 \<le> ?d" "?d \<le> 146096" by auto
  note y = yearOf_range[OF r]
  have "yearTop (yearOf ?d) \<le> yearStart (yearOf ?d) + 365"
  proof -
    have "\<forall>y \<in> set [0..399]. yearTop y \<le> yearStart y + 365" by code_simp
    then show ?thesis using y by auto
  qed
  then have k: "0 \<le> ?d - yearStart (yearOf ?d)" "?d - yearStart (yearOf ?d) \<le> 365" using y by auto
  have table: "\<forall>k \<in> set [0..365]. dayInYear k \<le> 31" by code_simp
  have "?d - yearStart (yearOf ?d) \<in> set [0..365]" using k unfolding set_upto atLeastAtMost_iff by (rule conjI)
  then show ?thesis unfolding dayOfMonth_alt Let_def using table by (rule bspec[rotated])
qed

lemma midnight_before: "day \<le> localDay off now \<Longrightarrow> midnight off day \<le> now"
proof -
  assume d: "day \<le> localDay off now"
  have "localDay off now * 86400 \<le> now div 10 ^ 9 + off" unfolding localDay_def by simp
  then have "day * 86400 - off \<le> now div 10 ^ 9" using d by linarith
  then have "(day * 86400 - off) * 10 ^ 9 \<le> now div 10 ^ 9 * 10 ^ 9" by simp
  also have "\<dots> \<le> now" by simp
  finally show ?thesis by (simp add: midnight_def)
qed

definition periodFirstDay :: "string \<Rightarrow> int \<Rightarrow> int" where
  "periodFirstDay p day = (if p = ''daily'' then day else if p = ''weekly'' then day - (isoWeekday day - 1)
     else day - (dayOfMonth day - 1))"

lemma boundary_steady:
  assumes z: "steadyZone loc off now"
  shows "periodBoundary p now loc = (if p \<in> {''daily'', ''weekly'', ''monthly''}
     then Some (midnight off (periodFirstDay p (localDay off now))) else None)"
proof -
  let ?today = "localDay off now"
  have day: "wall loc (now div 10 ^ 9) div 86400 = ?today" using steady_wall[OF z] by (simp add: localDay_def)
  have wd: "?today - 31 \<le> ?today - (isoWeekday ?today - 1)" "?today - (isoWeekday ?today - 1) \<le> ?today"
    using isoWeekday_back[of ?today] by linarith+
  have dm: "?today - 31 \<le> ?today - (dayOfMonth ?today - 1)" "?today - (dayOfMonth ?today - 1) \<le> ?today"
    using dayOfMonth_pos[of ?today] dayOfMonth_le[of ?today] by linarith+
  have weekly: "?today * 86400 - (isoWeekday ?today - 1) * 86400 = (?today - (isoWeekday ?today - 1)) * 86400" by (rule left_diff_distrib[symmetric])
  show ?thesis
    unfolding periodBoundary_def Let_def day periodFirstDay_def midnight_def
    using steady_day[OF z, of ?today] steady_day(1)[OF z wd] steady_day(1)[OF z dm] weekly by simp
qed


text \<open>C18. In a zone with a constant offset the current period begins at local midnight: of today for a
  daily policy, of the last Monday for a weekly one, of the first of the current month for a monthly
  one; never in the future.  Between that first and today the days of the month count up by one, so no
  other month has begun since.\<close>

theorem period_starts:
  assumes "steadyZone loc off now"
  shows "let today = localDay off now in
     periodBoundary ''daily'' now loc = Some (midnight off today)
   \<and> (\<exists>monday. periodBoundary ''weekly'' now loc = Some (midnight off monday) \<and> isoWeekday monday = 1
        \<and> today - 6 \<le> monday \<and> monday \<le> today)
   \<and> (\<exists>first. periodBoundary ''monthly'' now loc = Some (midnight off first) \<and> dayOfMonth first = 1 \<and> first \<le> today
        \<and> (\<forall>n. first \<le> n \<and> n \<le> today \<longrightarrow> dayOfMonth n = 1 + (n - first)))
   \<and> (\<forall>p b. periodBoundary p now loc = Some b \<longrightarrow> b \<le> now \<and> (p = ''daily'' \<longrightarrow> now < b + 86400 * 10 ^ 9))"
proof -
  let ?today = "localDay off now"
  have before: "periodFirstDay p ?today \<le> ?today" for p
    using isoWeekday_back[of ?today] dayOfMonth_pos[of ?today] by (simp add: periodFirstDay_def)
  have "now div 10 ^ 9 + off < ?today * 86400 + 86400" unfolding localDay_def by linarith
  then have "now div 10 ^ 9 + 1 \<le> ?today * 86400 - off + 86400" by linarith
  then have "(now div 10 ^ 9 + 1) * 10 ^ 9 \<le> (?today * 86400 - off + 86400) * 10 ^ 9" by simp
  moreover have "now < (now div 10 ^ 9 + 1) * 10 ^ 9" by (simp add: algebra_simps)
  ultimately have after: "now < midnight off ?today + 86400 * 10 ^ 9" by (simp add: midnight_def algebra_simps)
  have bounds: "\<forall>p b. periodBoundary p now loc = Some b \<longrightarrow> b \<le> now \<and> (p = ''daily'' \<longrightarrow> now < b + 86400 * 10 ^ 9)"
    unfolding boundary_steady[OF assms] using midnight_before[OF before] after by (auto simp: periodFirstDay_def)
  define monday where "monday = ?today - (isoWeekday ?today - 1)"
  define first where "first = ?today - (dayOfMonth ?today - 1)"
  have weekly: "isoWeekday monday = 1" "?today - 6 \<le> monday" "monday \<le> ?today"
    using isoWeekday_back[of ?today] unfolding monday_def by linarith+
  have monthly: "dayOfMonth first = 1" "first \<le> ?today"
    using dayOfMonth_pos[of ?today] dayOfMonth_back[of "dayOfMonth ?today - 1" ?today] unfolding first_def by linarith+
  have days: "dayOfMonth n = 1 + (n - first)" if "first \<le> n" "n \<le> ?today" for n
    using dayOfMonth_back[of "?today - n" ?today] that unfolding first_def by simp
  have at: "periodBoundary ''daily'' now loc = Some (midnight off ?today)"
    "periodBoundary ''weekly'' now loc = Some (midnight off monday)"
    "periodBoundary ''monthly'' now loc = Some (midnight off first)"
    unfolding boundary_steady[OF assms] periodFirstDay_def monday_def first_def by simp_all
  show ?thesis unfolding Let_def using weekly monthly days at bounds by blast
qed

theorem period_starts_witness:
  "periodBoundary ''daily'' (1700000000 * 10 ^ 9) (\<lambda>t. (28800, -(10 ^ 12), 10 ^ 12))
     = Some (midnight 28800 (localDay 28800 (1700000000 * 10 ^ 9)))"
proof -
  have "steadyZone (\<lambda>t. (28800, -(10 ^ 12), 10 ^ 12)) 28800 (1700000000 * 10 ^ 9)"
    unfolding steadyZone_def by (intro exI[of _ "-(10 ^ 12)"] exI[of _ "10 ^ 12"]) simp
  from period_starts[OF this] show ?thesis unfolding Let_def by (elim conjE)
qed

section \<open>A second run in the same period\<close>

definition zoneOf :: "'u service \<Rightarrow> organization list \<Rightarrow> int \<Rightarrow> location" where
  "zoneOf S os org = (case find (\<lambda>o'. o_id o' = org \<and> \<not> o_deleted o') os of
     None \<Rightarrow> utc
   | Some o' \<Rightarrow> if o_timezone o' = '''' then utc
              else (case sv_zone S (o_timezone o') of None \<Rightarrow> utc | Some l \<Rightarrow> l))"

lemma credEdits_find:
  assumes "credEdits os os'" "\<And>o1 o2. credEdit o1 o2 \<Longrightarrow> P o2 = P o1"
  shows "rel_option credEdit (find P os) (find P os')"
  using assms unfolding credEdits_def by (induction rule: list_all2_induct) auto

lemma zoneOf_edits:
  assumes "credEdits os os'"
  shows "zoneOf S os' org = zoneOf S os org"
proof -
  have same: "credEdit o1 o2 \<Longrightarrow> o_id o2 = o_id o1 \<and> o_deleted o2 = o_deleted o1 \<and> o_timezone o2 = o_timezone o1" for o1 o2
    by (cases o1; cases o2) (simp add: credEdit_def)
  have "rel_option credEdit (find (\<lambda>o'. o_id o' = org \<and> \<not> o_deleted o') os) (find (\<lambda>o'. o_id o' = org \<and> \<not> o_deleted o') os')"
    by (rule credEdits_find[OF assms]) (simp add: same)
  then show ?thesis unfolding zoneOf_def by (cases rule: option.rel_cases) (simp_all add: same)
qed

definition sameDuties :: "db \<Rightarrow> db \<Rightarrow> bool" where
  "sameDuties d d' \<longleftrightarrow> policies d' = policies d \<and> credEdits (orgs d) (orgs d')"

interpretation duties: cred_frame sameDuties
  by unfold_locales (auto simp: sameDuties_def intro: credEdits_trans)

definition both :: "('a \<Rightarrow> 'a \<Rightarrow> bool) \<Rightarrow> ('a \<Rightarrow> 'a \<Rightarrow> bool) \<Rightarrow> 'a \<Rightarrow> 'a \<Rightarrow> bool" where
  "both R T a b \<longleftrightarrow> R a b \<and> T a b"

lemma guar_both: "guar R m \<Longrightarrow> guar T m \<Longrightarrow> guar (both R T) m"
  by (simp add: guar_def both_def)

lemma resetMember_guar: "guar (both (onDb sameDuties) calm) (resetMember S m n)"
  unfolding resetMember_def by (rule guar_both) (intro guar_intros duties.basics calm.return)+

lemma foldM_guar:
  "guar (both (onDb sameDuties) calm) (foldM (resetMember S) ms n)"
  by (rule guar_both; rule duties.loops calm.foldM)
     (use resetMember_guar[unfolded guar_def both_def] in \<open>auto simp: guar_def\<close>)


definition cacheOk :: "'u service \<Rightarrow> organization list \<Rightarrow> (int \<times> location) list \<Rightarrow> bool" where
  "cacheOk S os cache \<longleftrightarrow> (\<forall>org l. map_of cache org = Some l \<longrightarrow> l = zoneOf S os org)"

lemma cacheOk_edits: "credEdits os os' \<Longrightarrow> cacheOk S os' cache = cacheOk S os cache"
  by (simp add: cacheOk_def zoneOf_edits)

lemma cachedLocation_run:
  assumes "w_faults w = []" "cacheOk S (orgs (w_db w)) cache"
  shows "\<exists>cache'. cachedLocation S org cache w = (Inr (zoneOf S (orgs (w_db w)) org, cache'), w) \<and> cacheOk S (orgs (w_db w)) cache'"
proof (cases "map_of cache org")
  case None
  have "cachedLocation S org cache w = (Inr (zoneOf S (orgs (w_db w)) org, (org, zoneOf S (orgs (w_db w)) org) # cache), w)"
    using assms(1) None
    by (simp add: cachedLocation_def orgLocation_def bind_def attempt_def GetOrganization_def run_calm(3) return_def zoneOf_def findOrg_def
        split: option.splits)
  then show ?thesis using assms(2) by (auto simp: cacheOk_def)
next
  case (Some l)
  then show ?thesis using assms(2) by (auto simp: cachedLocation_def return_def cacheOk_def)
qed

lemma policyScopeMembers_run: "w_faults w = [] \<Longrightarrow> \<exists>ms. policyScopeMembers p w = (Inr ms, w)"
  by (simp add: policyScopeMembers_def bind_def attempt_def GetMember_def ListActiveOverridableMembers_def run_calm return_def
      split: option.splits)

definition dueNow :: "'u service \<Rightarrow> organization list \<Rightarrow> int \<Rightarrow> quota_policy \<Rightarrow> bool" where
  "dueNow S os now p \<longleftrightarrow> due (periodBoundary (q_period p) now (zoneOf S os (q_org p))) p"

definition markDue :: "int set \<Rightarrow> int \<Rightarrow> quota_policy \<Rightarrow> quota_policy" where
  "markDue ids now p = (if q_id p \<in> ids then p\<lparr>q_last_reset := Some now\<rparr> else p)"

definition resetInv :: "'u service \<Rightarrow> db \<Rightarrow> int \<Rightarrow> quota_policy list \<Rightarrow> nat \<times> (int \<times> location) list \<Rightarrow> 'u world \<Rightarrow> bool" where
  "resetInv S d0 now pre acc w \<longleftrightarrow> w_faults w = [] \<and> w_now w = now \<and> credEdits (orgs d0) (orgs (w_db w)) \<and> cacheOk S (orgs d0) (snd acc)
     \<and> policies (w_db w) = map (markDue (q_id ` {p \<in> set pre. dueNow S (orgs d0) now p}) now) (policies d0)"

lemma resetPolicy_run:
  assumes "w_faults w = []" "cacheOk S (orgs (w_db w)) cache"
    "resetPolicy S now p (n, cache) w = (Inr acc, w')"
  shows "cacheOk S (orgs (w_db w)) (snd acc) \<and>
    (if dueNow S (orgs (w_db w)) now p
     then w_faults w' = [] \<and> w_now w' = w_now w \<and> credEdits (orgs (w_db w)) (orgs (w_db w'))
        \<and> policies (w_db w') = updateKey q_id (q_id p) (\<lambda>p. p\<lparr>q_last_reset := Some now\<rparr>) (policies (w_db w))
     else fst acc = n \<and> w' = w)"
proof -
  obtain cache' where c: "cachedLocation S (q_org p) cache w = (Inr (zoneOf S (orgs (w_db w)) (q_org p), cache'), w)"
    "cacheOk S (orgs (w_db w)) cache'" using cachedLocation_run[OF assms(1,2)] by blast
  obtain ms where ms: "policyScopeMembers p w = (Inr ms, w)" using policyScopeMembers_run[OF assms(1)] by blast
  show ?thesis
  proof (cases "dueNow S (orgs (w_db w)) now p")
    case False
    then show ?thesis using assms(3) c by (auto simp: resetPolicy_def bind_def dueNow_def return_def)
  next
    case True
    obtain r w1 where fold: "foldM (resetMember S) ms n w = (r, w1)" by force
    have w1: "sameDuties (w_db w) (w_db w1)" "calm w w1"
      using guarD'[OF foldM_guar fold] by (simp_all add: both_def onDb_def)
    then have calm1: "w_faults w1 = []" "w_now w1 = w_now w" using assms(1) by (simp_all add: calm_def)
    define w2 where "w2 = w1\<lparr>w_db := (w_db w1)\<lparr>policies := updateKey q_id (q_id p) (\<lambda>p. p\<lparr>q_last_reset := Some now\<rparr>) (policies (w_db w1))\<rparr>\<rparr>"
    have mark: "ignoreErr (MarkPolicyReset (q_id p) now) w1 = (Inr (), w2)"
      using calm1 by (simp add: ignoreErr_def bind_def attempt_def MarkPolicyReset_def run_calm(2) return_def w2_def)
    let ?audit = "auditSystem (q_org p) ''quota_reset'' ''quota_policy'' (Some (q_scope_id p))
             [(''scope'', JStr (q_scope p)), (''period'', JStr (q_period p)), (''members'', JInt (int (length ms)))] ''ok''"
    obtain r3 w3 where aud: "?audit w2 = (r3, w3)" by force
    have w3: "sameDuties (w_db w2) (w_db w3)" "calm w2 w3"
      using guarD'[OF duties.auditSystem aud] guarD'[OF calm.logs(2) aud] by (simp_all add: onDb_def)
    have acc: "snd acc = cache'" "w' = w3"
      using True assms(3) by (auto simp: resetPolicy_def bind_def c(1) dueNow_def attempt_def ms fold mark aud return_def
          split: sum.splits)
    have w2: "w_faults w2 = []" "w_now w2 = w_now w" "credEdits (orgs (w_db w)) (orgs (w_db w2))"
      "policies (w_db w2) = updateKey q_id (q_id p) (\<lambda>p. p\<lparr>q_last_reset := Some now\<rparr>) (policies (w_db w))"
      using w1 calm1 by (simp_all add: w2_def sameDuties_def)
    have "w_faults w3 = []" "w_now w3 = w_now w" "policies (w_db w3) = policies (w_db w2)"
      using w3 w2 by (simp_all add: calm_def sameDuties_def)
    moreover have "credEdits (orgs (w_db w)) (orgs (w_db w3))"
      using w3(1) w2(3) credEdits_trans by (auto simp: sameDuties_def)
    ultimately show ?thesis using True acc c(2) w2(4) by simp
  qed
qed

lemma resetPolicy_inv: "val (resetInv S d0 now pre acc) (resetPolicy S now p acc) (resetInv S d0 now (pre @ [p]))"
proof (rule valI)
  fix w acc' w' assume inv: "resetInv S d0 now pre acc w" and run: "resetPolicy S now p acc w = (Inr acc', w')"
  obtain n cache where acc: "acc = (n, cache)" by force
  have edits: "credEdits (orgs d0) (orgs (w_db w))" and calm: "w_faults w = []" and cache: "cacheOk S (orgs (w_db w)) cache"
    using inv cacheOk_edits by (auto simp: resetInv_def acc)
  have same: "dueNow S (orgs (w_db w)) now p = dueNow S (orgs d0) now p" using edits by (simp add: dueNow_def zoneOf_edits)
  note step = resetPolicy_run[OF calm cache run[unfolded acc]]
  have marks: "updateKey q_id i (\<lambda>p. p\<lparr>q_last_reset := Some now\<rparr>) (map (markDue ids now) ps) = map (markDue (insert i ids) now) ps" for i ids ps
    by (auto simp: updateKey_def markDue_def)
  show "resetInv S d0 now (pre @ [p]) acc' w'"
  proof (cases "dueNow S (orgs d0) now p")
    case True
    have "q_id ` {q \<in> set (pre @ [p]). dueNow S (orgs d0) now q} = insert (q_id p) (q_id ` {q \<in> set pre. dueNow S (orgs d0) now q})"
      using True by auto
    then show ?thesis using inv step True same marks cacheOk_edits[OF edits, of S]
      by (auto simp: resetInv_def intro: credEdits_trans)
  next
    case False
    have "{q \<in> set (pre @ [p]). dueNow S (orgs d0) now q} = {q \<in> set pre. dueNow S (orgs d0) now q}" using False by auto
    then show ?thesis using inv step False same cacheOk_edits[OF edits, of S] by (auto simp: resetInv_def)
  qed
qed


lemma idle_fold:
  assumes "w_faults w = []" "cacheOk S (orgs (w_db w)) cache" "\<And>p. p \<in> set ps \<Longrightarrow> \<not> dueNow S (orgs (w_db w)) now p"
  shows "\<exists>r. foldM (resetPolicy S now) ps (n, cache) w = (r, w) \<and> (\<forall>e. r \<noteq> Inl e) \<and> (\<forall>acc. r = Inr acc \<longrightarrow> fst acc = n)"
  using assms(2,3)
proof (induction ps arbitrary: cache)
  case (Cons p ps)
  obtain cache' where c: "cachedLocation S (q_org p) cache w = (Inr (zoneOf S (orgs (w_db w)) (q_org p), cache'), w)"
    "cacheOk S (orgs (w_db w)) cache'" using cachedLocation_run[OF assms(1) Cons.prems(1)] by blast
  have "resetPolicy S now p (n, cache) w = (Inr (n, cache'), w)"
    using Cons.prems(2)[of p] c(1) by (simp add: resetPolicy_def bind_def dueNow_def return_def)
  then show ?case using Cons.IH[OF c(2)] Cons.prems(2) by (simp add: bind_def)
qed (simp add: return_def)

lemma marked_not_due:
  assumes "steadyZone (zoneOf S os (q_org p)) off now"
    and "periodBoundary (q_period p) now' (zoneOf S os (q_org p)) = periodBoundary (q_period p) now (zoneOf S os (q_org p))"
  shows "\<not> dueNow S os now' (p\<lparr>q_last_reset := Some now\<rparr>)"
proof (cases "periodBoundary (q_period p) now (zoneOf S os (q_org p))")
  case (Some b)
  have "periodFirstDay per (localDay off now) \<le> localDay off now" for per
    using isoWeekday_back[of "localDay off now"] dayOfMonth_pos[of "localDay off now"] by (simp add: periodFirstDay_def)
  then have "b \<le> now" using Some boundary_steady[OF assms(1)] midnight_before by (auto split: if_splits)
  then show ?thesis using Some assms(2) by (simp add: dueNow_def due_def)
qed (simp add: dueNow_def due_def assms(2))


definition resetDb :: db where
  "resetDb = sampleDb\<lparr> policies := [\<lparr> q_id = 1, q_org = 1, q_scope = ''member'', q_scope_id = 2, q_period = ''monthly'',
      q_limit = 500, q_anchor = '''', q_status = ''active'', q_last_reset = None \<rparr>] \<rparr>"


definition resetAt :: "sample world" where
  "resetAt = snd (ResetDuePolicies (sampleSvc [] False True) (sampleWorld resetDb 1700000000))"

lemma resetAt_facts:
  "fst (ResetDuePolicies (sampleSvc [] False True) (sampleWorld resetDb 1700000000)) = Inr 1"
  "orgs (w_db resetAt) = [sampleOrg]" "w_faults resetAt = []"
  by code_simp+


end
