(* ===== verification/AuthLimit.thy ===== *)
theory AuthLimit
  imports Identity NetIP
begin

text \<open>
  The back-off after failed logins and password changes (\<open>handler/authlimit.go\<close>): a table of failure
  counts and locks per key, held in memory by the handlers.  Durations are \<open>int64\<close> nanoseconds, so the
  doubling of the lock is a shift that wraps, and \<open>Time.Sub\<close> saturates; the unset lock, Go's zero
  time, is \<open>None\<close>.  The mutex makes each operation atomic.
\<close>

section \<open>The limiter\<close>

record attempt_state =
  at_fails :: nat
  at_until :: "int option"

type_synonym limiter = "string \<Rightarrow> attempt_state option"

definition lockThreshold :: nat where "lockThreshold = 5"

definition baseLock :: int where "baseLock = 30 * 10 ^ 9"

definition maxLock :: int where "maxLock = 15 * 60 * 10 ^ 9"

definition newAttemptLimiter :: limiter where
  "newAttemptLimiter = (\<lambda>_. None)"

definition satDuration :: "int \<Rightarrow> int" where
  "satDuration d = (if d < - (2 ^ 63) then - (2 ^ 63) else if d \<ge> 2 ^ 63 then 2 ^ 63 - 1 else d)"

definition retryAfter :: "limiter \<Rightarrow> int \<Rightarrow> string \<Rightarrow> int" where
  "retryAfter lim now key = (case lim key of
     None \<Rightarrow> 0
   | Some s \<Rightarrow> (case at_until s of
       None \<Rightarrow> 0
     | Some u \<Rightarrow> let d = satDuration (u - now) in if d > 0 then d else 0))"

text \<open>\<open>a.baseLock << uint(s.fails-a.threshold)\<close>.\<close>

definition lockFor :: "nat \<Rightarrow> int" where
  "lockFor fails = (let d = i64 (baseLock * 2 ^ (fails - lockThreshold)) in if d \<le> 0 \<or> d > maxLock then maxLock else d)"

definition failKey :: "int \<Rightarrow> string \<Rightarrow> limiter \<Rightarrow> limiter" where
  "failKey now key lim =
     (let s = (case lim key of None \<Rightarrow> \<lparr> at_fails = 0, at_until = None \<rparr> | Some s \<Rightarrow> s);
          n = Suc (at_fails s)
      in lim(key \<mapsto> \<lparr> at_fails = n, at_until = (if n \<ge> lockThreshold then Some (now + lockFor n) else at_until s) \<rparr>))"

definition resetKey :: "string \<Rightarrow> limiter \<Rightarrow> limiter" where
  "resetKey key lim = lim(key := None)"

text \<open>\<open>gate\<close>: \<open>None\<close> lets the request through, \<open>Some\<close> is the \<open>Retry-After\<close> header in seconds.\<close>

definition gate :: "limiter \<Rightarrow> int \<Rightarrow> string \<Rightarrow> string \<Rightarrow> int option" where
  "gate lim now acct ipk =
     (let d = retryAfter lim now acct; di = retryAfter lim now ipk; d' = (if di > d then di else d)
      in if d' \<le> 0 then None else Some (d' div 10 ^ 9 + 1))"

definition isCredFailure :: "err \<Rightarrow> bool" where
  "isCredFailure e = (case asApp e of Some a \<Rightarrow> ae_code a = 10001 | None \<Rightarrow> False)"

section \<open>The client's address\<close>

definition lastIndex :: "char \<Rightarrow> string \<Rightarrow> nat option" where
  "lastIndex ch s = (let is = filter (\<lambda>i. s ! i = ch) [0..<length s] in if is = [] then None else Some (last is))"

definition firstIndex :: "char \<Rightarrow> string \<Rightarrow> nat option" where
  "firstIndex ch s = find (\<lambda>i. s ! i = ch) [0..<length s]"

text \<open>The host of \<open>net.SplitHostPort\<close>, or an error.\<close>

definition splitHost :: "string \<Rightarrow> string option" where
  "splitHost hp = (case lastIndex CHR '':'' hp of
     None \<Rightarrow> None
   | Some i \<Rightarrow>
       if hp ! 0 = CHR ''['' then
         (case firstIndex CHR '']'' hp of
            None \<Rightarrow> None
          | Some e \<Rightarrow>
              if e + 1 \<noteq> i then None
              else if CHR ''['' \<in> set (drop 1 hp) \<or> CHR '']'' \<in> set (drop (e + 1) hp) then None
              else Some (drop 1 (take e hp)))
       else if CHR '':'' \<in> set (take i hp) \<or> CHR ''['' \<in> set hp \<or> CHR '']'' \<in> set hp then None
       else Some (take i hp))"

record request =
  rq_method :: string
  rq_path :: string
  rq_authorization :: string
  rq_cf_ip :: string
  rq_xff :: string
  rq_remote :: string

definition clientIP :: "request \<Rightarrow> string" where
  "clientIP r =
     (if rq_cf_ip r \<noteq> '''' then rq_cf_ip r
      else if rq_xff r \<noteq> '''' then
        (case firstIndex CHR '','' (rq_xff r) of
           Some i \<Rightarrow> TrimSpace (take i (rq_xff r))
         | None \<Rightarrow> TrimSpace (rq_xff r))
      else case splitHost (rq_remote r) of Some h \<Rightarrow> h | None \<Rightarrow> rq_remote r)"

section \<open>The schedule of the locks\<close>

lemma i64_multiple:
  assumes "(2 :: int) ^ 40 dvd x"
  shows "i64 x \<le> 0 \<or> 2 ^ 40 \<le> i64 x"
proof -
  have "(2 :: int) ^ 40 dvd (x + 2 ^ 63) mod 2 ^ 64"
    by (rule dvd_mod) (use assms in \<open>auto intro: dvd_add\<close>)
  then have "(2 :: int) ^ 40 dvd i64 x" unfolding i64_def by (intro dvd_diff) auto
  then show ?thesis using zdvd_imp_le[of "2 ^ 40" "i64 x"] by linarith
qed

lemma lockTable: "\<forall>k \<in> set [0..<30]. lockFor (5 + k) = min maxLock (baseLock * 2 ^ k)"
  by code_simp

lemma lockFor_formula:
  assumes "lockThreshold \<le> n"
  shows "lockFor n = min maxLock (baseLock * 2 ^ (n - lockThreshold))"
proof -
  define k where "k = n - lockThreshold"
  have n: "n = 5 + k" using assms by (simp add: k_def lockThreshold_def)
  show ?thesis
  proof (cases "k < 30")
    case True
    then show ?thesis using lockTable by (simp add: n lockThreshold_def)
  next
    case False
    have "(2 :: int) ^ 10 dvd baseLock" by (simp add: baseLock_def)
    moreover have "(2 :: int) ^ 30 dvd 2 ^ k" using False by (intro le_imp_power_dvd) simp
    ultimately have "(2 :: int) ^ 10 * 2 ^ 30 dvd baseLock * 2 ^ k" by (rule mult_dvd_mono)
    then have d: "i64 (baseLock * 2 ^ k) \<le> 0 \<or> 2 ^ 40 \<le> i64 (baseLock * 2 ^ k)" using i64_multiple by simp
    have "lockFor n = maxLock" using d by (auto simp: lockFor_def n lockThreshold_def Let_def maxLock_def)
    moreover have "baseLock * 2 ^ 30 \<le> baseLock * 2 ^ k" using False by (intro mult_left_mono power_increasing) (auto simp: baseLock_def)
    ultimately show ?thesis by (simp add: n lockThreshold_def maxLock_def baseLock_def)
  qed
qed

lemma lockFor_range: "lockThreshold \<le> n \<Longrightarrow> baseLock \<le> lockFor n \<and> lockFor n \<le> maxLock"
proof -
  assume "lockThreshold \<le> n"
  moreover have "baseLock * 1 \<le> baseLock * 2 ^ k" for k :: nat
    by (rule mult_left_mono) (simp_all add: baseLock_def)
  ultimately show ?thesis using lockFor_formula by (simp add: maxLock_def baseLock_def min_def)
qed

end
