(* ===== verification/Support.thy ===== *)
theory Support
  imports StoreMember
begin

text \<open>
  Support sessions (\<open>service/support.go\<close>): the operator acts as an administrator of a customer's
  organization under a guard that every request of the session passes.
\<close>

definition contains :: "string \<Rightarrow> string \<Rightarrow> bool" where
  "contains sub s \<longleftrightarrow> list_ex (\<lambda>n. take (length sub) (drop n s) = sub) [0..<length s + 1]"

definition hasSuffix :: "string \<Rightarrow> string \<Rightarrow> bool" where
  "hasSuffix suf s \<longleftrightarrow> length suf \<le> length s \<and> drop (length s - length suf) s = suf"

definition isMoneyOrKeyRedline :: "string \<Rightarrow> string \<Rightarrow> bool" where
  "isMoneyOrKeyRedline verb path \<longleftrightarrow>
     list_ex (\<lambda>p. contains p path) [''/recharges'', ''/recharge-requests'', ''/pricing'', ''/billing-settings'']
     \<or> (verb = ''POST'' \<and> hasSuffix ''/members'' path)
     \<or> contains ''/tokens'' path \<or> contains ''/key:'' path"

definition sessionLive :: "support_session \<Rightarrow> int \<Rightarrow> bool" where
  "sessionLive ss now \<longleftrightarrow> ss_state ss = ''active'' \<and> now < ss_expire ss"

definition CheckSupportGuard :: "claims \<Rightarrow> string \<Rightarrow> string \<Rightarrow> ('u, unit) op" where
  "CheckSupportGuard c verb path =
     (if cl_support c = 0 then return ()
      else
      bind (attempt (GetSupportSession (cl_support c))) (\<lambda>r.
      bind clock (\<lambda>now. case r of
        Inl _ \<Rightarrow> throw Forbidden
      | Inr ss \<Rightarrow>
          if \<not> sessionLive ss now then throw Forbidden
          else if ss_org ss \<noteq> cl_org c then throw NotFound
          else if verb = ''GET'' \<or> verb = ''HEAD'' then return ()
          else if cl_scope c = ''readonly'' then throw ReadonlyBlocked
          else if isMoneyOrKeyRedline verb path then throw MoneyRedline
          else return ())))"

definition auditSupport :: "claims \<Rightarrow> int \<Rightarrow> int \<Rightarrow> string \<Rightarrow> string \<Rightarrow> int option \<Rightarrow> (string \<times> jval) list \<Rightarrow> ('u, unit) op" where
  "auditSupport c org sid action target tid detail =
     ignoreErr (WriteAudit \<lparr> au_org = org, au_actor = ''operator:'' @ itoa (cl_member c),
       au_behalf = Some (''org_admin@org'' @ itoa org), au_session = Some sid, au_action = action,
       au_target = target, au_target_id = tid, au_detail = detail, au_result = ''ok'' \<rparr>)"

text \<open>
  The claims that \<open>signer.Issue\<close> puts into the token are given back instead of the signed
  string; the time stamps are the signer's.
\<close>

definition supportClaims :: "claims \<Rightarrow> int \<Rightarrow> int \<Rightarrow> string \<Rightarrow> claims" where
  "supportClaims c org sid scope =
     \<lparr> cl_member = cl_member c, cl_org = org, cl_role = RoleOrgAdmin, cl_team = 0, cl_support = sid,
       cl_scope = scope, cl_epoch = 0, cl_iat = 0, cl_exp = 0 \<rparr>"

definition OpenSupportSession :: "claims \<Rightarrow> int \<Rightarrow> string \<Rightarrow> string \<Rightarrow> int \<Rightarrow> ('u, claims \<times> support_session option) op" where
  "OpenSupportSession c org scope grantType ttlSeconds =
     bind (assertRole c [RoleOperator]) (\<lambda>_.
     if scope \<noteq> ''readonly'' \<and> scope \<noteq> ''assist'' then throw InvalidParam
     else if scope = ''assist'' \<and> grantType = ''break_glass'' then throw Forbidden
     else if scope = ''assist'' \<and> grantType \<noteq> ''authorized'' then throw InvalidParam
     else
     bind (mapErr notFoundOrInternal (GetOrganization org)) (\<lambda>_.
     bind clock (\<lambda>now.
     let ttl = (if ttlSeconds \<le> 0 \<or> ttlSeconds > 24 * 3600 then 7200 else ttlSeconds);
         expire = now + ttl * 10 ^ 9
     in
     bind (mapErr internal (CreateSupportSession \<lparr> ss_id = 0, ss_org = org,
             ss_actor = ''operator:'' @ itoa (cl_member c), ss_scope = scope,
             ss_grant = (if scope = ''assist'' then Some grantType else None), ss_state = ''active'',
             ss_expire = expire \<rparr>)) (\<lambda>sid.
     bind (auditSupport c org sid ''support_enter'' ''organization'' (Some org)
             [(''scope'', JStr scope), (''grant_type'', JStr grantType), (''expire_at'', JInt expire)]) (\<lambda>_.
     bind (attempt (GetSupportSession sid)) (\<lambda>sr.
     return (supportClaims c org sid scope, case sr of Inr ss \<Rightarrow> Some ss | Inl _ \<Rightarrow> None)))))))"

definition CloseSupportSession :: "claims \<Rightarrow> int \<Rightarrow> ('u, unit) op" where
  "CloseSupportSession c sid =
     bind (assertRole c [RoleOperator]) (\<lambda>_.
     bind (mapErr notFoundOrInternal (GetSupportSession sid)) (\<lambda>ss.
     if ss_actor ss \<noteq> ''operator:'' @ itoa (cl_member c) then throw NotFound
     else
     bind (mapErr internal (RevokeSupportSession sid)) (\<lambda>_.
     auditSupport c (ss_org ss) sid ''support_exit'' ''organization'' (Some (ss_org ss)) [])))"

definition ReadSupportSession :: "claims \<Rightarrow> int \<Rightarrow> ('u, support_session) op" where
  "ReadSupportSession c sid =
     bind (assertRole c [RoleOperator]) (\<lambda>_. mapErr notFoundOrInternal (GetSupportSession sid))"

end
