(* ===== verification/Http.thy ===== *)
theory Http
  imports AuthLimit Support
begin

text \<open>
  The HTTP edge (\<open>handler/envelope.go\<close>, \<open>middleware.go\<close>, \<open>views.go\<close> and the two handlers that
  take a password): the envelope of every reply, the gate of the restricted deployment, the session
  check in front of every handler, and login and password change with their back-off.  A handler is
  a function on the server's state, the world of the service and the limiter.  The decoding of a
  JSON body is outside: a handler takes the decoded body, \<open>None\<close> where decoding fails.  Headers not
  read by these functions, request identifiers and logs are left out.
\<close>

section \<open>The envelope\<close>

record 'a reply =
  rp_status :: int
  rp_code :: int
  rp_data :: "'a option"
  rp_retry :: "int option"

definition writeOK :: "int \<Rightarrow> 'a \<Rightarrow> 'a reply" where
  "writeOK status d = \<lparr> rp_status = (if status = 0 then 200 else status), rp_code = 0, rp_data = Some d, rp_retry = None \<rparr>"

definition writeErr :: "err \<Rightarrow> 'a reply" where
  "writeErr e = (let a = Coerce e in
     \<lparr> rp_status = (if ae_http a = 0 then 200 else ae_http a), rp_code = ae_code a, rp_data = None, rp_retry = None \<rparr>)"

definition tooMany :: err where "tooMany = newErr 20429 429"

record 'u server =
  se_world :: "'u world"
  se_limiter :: limiter

type_synonym ('u, 'a) handler = "'u server \<Rightarrow> 'a reply \<times> 'u server"

definition answer :: "'a reply \<Rightarrow> ('u, 'a) handler" where
  "answer r s = (r, s)"

text \<open>A service call: its error is written out, its result goes on.\<close>

definition callSvc :: "('u, 'b) op \<Rightarrow> ('b \<Rightarrow> ('u, 'a) handler) \<Rightarrow> ('u, 'a) handler" where
  "callSvc f k s = (case f (se_world s) of
     (Inl e, w) \<Rightarrow> (writeErr e, s\<lparr>se_world := w\<rparr>)
   | (Inr b, w) \<Rightarrow> k b (s\<lparr>se_world := w\<rparr>))"

section \<open>The gate of the restricted deployment\<close>

definition mvpWriteAllow :: "string list" where
  "mvpWriteAllow = [
     ''POST /api/v1/auth/login'',
     ''POST /api/v1/me/password'',
     ''PATCH /api/v1/me'',
     ''POST /api/v1/organizations'',
     ''PATCH /api/v1/organizations/*'',
     ''POST /api/v1/organizations/*/archive'',
     ''POST /api/v1/organizations/*/unarchive'',
     ''POST /api/v1/organizations/*/import-tokens'',
     ''POST /api/v1/organizations/*/backfill/requeue'',
     ''POST /api/v1/organizations/*/hard-stop'',
     ''POST /api/v1/organizations/*/hard-stop-release'',
     ''POST /api/v1/organizations/*/teams'',
     ''PATCH /api/v1/organizations/*/teams/*'',
     ''POST /api/v1/organizations/*/teams/*/archive'',
     ''POST /api/v1/organizations/*/teams/*/unarchive'',
     ''POST /api/v1/organizations/*/tiers'',
     ''PUT /api/v1/tiers/*'',
     ''DELETE /api/v1/tiers/*'',
     ''POST /api/v1/tiers/*/default'',
     ''POST /api/v1/organizations/*/members'',
     ''PATCH /api/v1/members/*'',
     ''POST /api/v1/members/*/role'',
     ''POST /api/v1/members/*/key:rotate'',
     ''POST /api/v1/members/*/key:ip-whitelist'',
     ''POST /api/v1/members/*/tokens'',
     ''POST /api/v1/members/*/password:reset'',
     ''POST /api/v1/members/*/status'',
     ''POST /api/v1/members/*/offboard'',
     ''POST /api/v1/members/*/restore'',
     ''POST /api/v1/notifications/*/read'',
     ''POST /api/v1/organizations/*/support-sessions'',
     ''POST /api/v1/support-sessions/*/close'']"

definition trimSlash :: "string \<Rightarrow> string" where
  "trimSlash s = rev (dropWhile (\<lambda>c. c = CHR ''/'') (rev (dropWhile (\<lambda>c. c = CHR ''/'') s)))"

definition segments :: "string \<Rightarrow> string list" where
  "segments p = splitOn CHR ''/'' (trimSlash p)"

definition matchMVPPattern :: "string \<Rightarrow> string \<Rightarrow> string \<Rightarrow> bool" where
  "matchMVPPattern pattern verb path =
     (case firstIndex CHR '' '' pattern of
        None \<Rightarrow> False
      | Some i \<Rightarrow> take i pattern = verb
          \<and> list_all2 (\<lambda>p r. p = ''*'' \<or> p = r) (segments (drop (Suc i) pattern)) (segments path))"

definition mvpGate :: "bool \<Rightarrow> request \<Rightarrow> ('u, 'a) handler \<Rightarrow> ('u, 'a) handler" where
  "mvpGate mvp r next_handler =
     (if \<not> mvp \<or> rq_method r = ''GET'' \<or> rq_method r = ''HEAD'' \<or> \<not> startsWith (rq_path r) ''/api/v1/'' then next_handler
      else if list_ex (\<lambda>p. matchMVPPattern p (rq_method r) (rq_path r)) mvpWriteAllow then next_handler
      else answer (writeErr NotFound))"

section \<open>The session in front of a handler\<close>

definition requireAuth :: "signer \<Rightarrow> request \<Rightarrow> (claims \<Rightarrow> ('u, 'a) handler) \<Rightarrow> ('u, 'a) handler" where
  "requireAuth sg r next_handler s =
     (if \<not> startsWith (rq_authorization r) ''Bearer '' then (writeErr Unauthenticated, s)
      else case Verify sg (w_now (se_world s)) (TrimSpace (drop 7 (rq_authorization r))) of
        Inl ErrExpired \<Rightarrow> (writeErr SessionExpired, s)
      | Inl _ \<Rightarrow> (writeErr Unauthenticated, s)
      | Inr c \<Rightarrow>
          callSvc (ValidateSession c) (\<lambda>_.
          callSvc (CheckSupportGuard c (rq_method r) (rq_path r)) (\<lambda>_. next_handler c)) s)"

section \<open>Views\<close>

text \<open>What a member looks like from outside; the time of creation is not modelled.\<close>

record member_view =
  mv_id :: int
  mv_org :: int
  mv_team :: "int option"
  mv_email :: string
  mv_display :: "string option"
  mv_role :: role
  mv_tier :: "int option"
  mv_group :: "string option"
  mv_status :: member_status
  mv_key_masked :: "string option"
  mv_bootstrap :: bootstrap_state

definition toMemberView :: "member \<Rightarrow> member_view" where
  "toMemberView m = \<lparr> mv_id = m_id m, mv_org = m_org m, mv_team = m_team m, mv_email = m_email m,
     mv_display = m_display m, mv_role = m_role m, mv_tier = m_tier m, mv_group = m_group m,
     mv_status = m_status m, mv_key_masked = m_key_masked m, mv_bootstrap = m_bootstrap m \<rparr>"

definition atoiDefault :: "string \<Rightarrow> int \<Rightarrow> int" where
  "atoiDefault s d = (if s = '''' then d else case parseInt s of Some n \<Rightarrow> n | None \<Rightarrow> d)"

definition parsePaging :: "string \<Rightarrow> string \<Rightarrow> int \<Rightarrow> int \<times> int \<times> int" where
  "parsePaging pageText sizeText defaultSize =
     (let pg = (let p = atoiDefault pageText 1 in if p < 1 then 1 else p);
          sz = (let z = atoiDefault sizeText defaultSize in let z1 = (if z < 1 then defaultSize else z) in if z1 > 100 then 100 else z1)
      in (pg, sz, i64 (i64 (pg - 1) * sz)))"

definition optInt64 :: "string \<Rightarrow> int option" where
  "optInt64 v = (if v = '''' then None else parseInt v)"

record page_meta =
  pm_page :: int
  pm_size :: int
  pm_total :: int
  pm_pages :: int

text \<open>Go divides towards zero; the page size is positive.\<close>

definition makePageMeta :: "int \<Rightarrow> int \<Rightarrow> int \<Rightarrow> page_meta" where
  "makePageMeta pg sz tot =
     (let x = i64 (i64 (tot + sz) - 1); tp = (if x < 0 then - (- x div sz) else x div sz) in
      \<lparr> pm_page = pg, pm_size = sz, pm_total = tot, pm_pages = (if tp < 1 then 1 else tp) \<rparr>)"

section \<open>Login and password change\<close>

definition lowerAscii :: "string \<Rightarrow> string" where
  "lowerAscii = map lowerChar"

definition loginKey :: "string \<Rightarrow> string" where
  "loginKey email = ''login:'' @ lowerAscii email"

definition loginIPKey :: "request \<Rightarrow> string" where
  "loginIPKey r = ''login-ip:'' @ clientIP r"

definition limitFail :: "string \<Rightarrow> string \<Rightarrow> 'u server \<Rightarrow> 'u server" where
  "limitFail acct ipk s = s\<lparr>se_limiter := failKey (w_now (se_world s)) ipk (failKey (w_now (se_world s)) acct (se_limiter s))\<rparr>"

definition limitReset :: "string \<Rightarrow> string \<Rightarrow> 'u server \<Rightarrow> 'u server" where
  "limitReset acct ipk s = s\<lparr>se_limiter := resetKey ipk (resetKey acct (se_limiter s))\<rparr>"

definition gated :: "string \<Rightarrow> string \<Rightarrow> ('u, 'a) handler \<Rightarrow> ('u, 'a) handler" where
  "gated acct ipk go s = (case gate (se_limiter s) (w_now (se_world s)) acct ipk of
     Some secs \<Rightarrow> ((writeErr tooMany)\<lparr>rp_retry := Some secs\<rparr>, s)
   | None \<Rightarrow> go s)"

definition handleLogin :: "'u service \<Rightarrow> signer \<Rightarrow> request \<Rightarrow> (string \<times> string) option \<Rightarrow> ('u, string \<times> member_view) handler" where
  "handleLogin S sg r body = (case body of
     None \<Rightarrow> answer (writeErr BadRequest)
   | Some (email, pw) \<Rightarrow>
       gated (loginKey email) (loginIPKey r) (\<lambda>s.
         case Login S sg email pw (se_world s) of
           (Inl e, w) \<Rightarrow>
             let s1 = s\<lparr>se_world := w\<rparr>
             in (writeErr e, if isCredFailure e then limitFail (loginKey email) (loginIPKey r) s1 else s1)
         | (Inr (tok, m), w) \<Rightarrow>
             (writeOK 200 (tok, toMemberView m), limitReset (loginKey email) (loginIPKey r) (s\<lparr>se_world := w\<rparr>))))"

definition handleChangePassword :: "'u service \<Rightarrow> request \<Rightarrow> (string \<times> string) option \<Rightarrow> claims \<Rightarrow> ('u, unit) handler" where
  "handleChangePassword S r body c = (case body of
     None \<Rightarrow> answer (writeErr BadRequest)
   | Some (old, new) \<Rightarrow>
       (let acct = ''chpw:'' @ itoa (cl_member c); ipk = ''chpw-ip:'' @ clientIP r
        in gated acct ipk (\<lambda>s.
          case ChangePassword S c old new (se_world s) of
            (Inl e, w) \<Rightarrow> (writeErr e, limitFail acct ipk (s\<lparr>se_world := w\<rparr>))
          | (Inr _, w) \<Rightarrow> (writeOK 200 (), limitReset acct ipk (s\<lparr>se_world := w\<rparr>)))))"

end
