(* ===== verification/HttpClaims.thy ===== *)
theory HttpClaims
  imports Http IdentityClaims
begin

text \<open>
  What the HTTP edge enforces: the schedule of the locks after failed logins, the throttling of
  password guesses, the session behind every handler, and what the restricted deployment blocks.
\<close>

section \<open>The limiter against its history\<close>

datatype attempt_event = Failed string | Cleared string

fun runEvents :: "(int \<times> attempt_event) list \<Rightarrow> limiter \<Rightarrow> limiter" where
  "runEvents [] lim = lim"
| "runEvents ((t, Failed k) # es) lim = runEvents es (failKey t k lim)"
| "runEvents ((t, Cleared k) # es) lim = runEvents es (resetKey k lim)"

text \<open>The times of a key's failures since it was last cleared.\<close>

fun failuresOf :: "string \<Rightarrow> (int \<times> attempt_event) list \<Rightarrow> int list \<Rightarrow> int list" where
  "failuresOf k [] ts = ts"
| "failuresOf k ((t, Failed k') # es) ts = failuresOf k es (if k' = k then ts @ [t] else ts)"
| "failuresOf k ((t, Cleared k') # es) ts = failuresOf k es (if k' = k then [] else ts)"

definition stateFor :: "int list \<Rightarrow> attempt_state option" where
  "stateFor ts = (if ts = [] then None else Some \<lparr> at_fails = length ts,
     at_until = (if length ts < lockThreshold then None else Some (last ts + lockFor (length ts))) \<rparr>)"

lemma stateFor_fail: "lim k = stateFor ts \<Longrightarrow> failKey t k lim k = stateFor (ts @ [t])"
  by (auto simp: failKey_def stateFor_def Let_def lockThreshold_def)

lemma failKey_other: "k' \<noteq> k \<Longrightarrow> failKey t k' lim k = lim k"
  by (simp add: failKey_def Let_def)

lemma resetKey_state: "resetKey k' lim k = (if k' = k then stateFor [] else lim k)"
  by (auto simp: resetKey_def stateFor_def)

lemma runEvents_state: "lim k = stateFor ts \<Longrightarrow> runEvents es lim k = stateFor (failuresOf k es ts)"
proof (induction es lim arbitrary: ts rule: runEvents.induct)
  case (2 t k' es lim)
  then show ?case by (cases "k' = k") (simp_all add: stateFor_fail failKey_other)
next
  case (3 t k' es lim)
  then show ?case using resetKey_state[of k' lim k] by (cases "k' = k") simp_all
qed simp

text \<open>C20. The locks follow the history of a key and nothing else: below five failures since the last
  success there is none; from the fifth on the key is locked from its last failure for thirty seconds,
  doubled with each further failure, and never for more than fifteen minutes, however many failures
  there are and although the doubling is a shift that overflows.\<close>

theorem lock_schedule:
  fixes es key now
  defines "ts \<equiv> failuresOf key es []"
  shows "retryAfter (runEvents es newAttemptLimiter) now key =
     (if length ts < 5 then 0
      else max 0 (satDuration (last ts + min (15 * 60 * 10 ^ 9) (30 * 10 ^ 9 * 2 ^ (length ts - 5)) - now)))"
proof -
  have state: "runEvents es newAttemptLimiter key = stateFor ts"
    unfolding ts_def by (rule runEvents_state) (simp add: newAttemptLimiter_def stateFor_def)
  show ?thesis
  proof (cases "length ts < 5")
    case True
    then show ?thesis by (simp add: retryAfter_def state stateFor_def lockThreshold_def)
  next
    case False
    then have "lockFor (length ts) = min maxLock (baseLock * 2 ^ (length ts - 5))" "ts \<noteq> []"
      using lockFor_formula[of "length ts"] by (auto simp: lockThreshold_def)
    then show ?thesis using False
      by (simp add: retryAfter_def state stateFor_def lockThreshold_def Let_def maxLock_def baseLock_def)
  qed
qed

section \<open>Guessing a password\<close>

lemma satDuration_pos: "0 < satDuration d \<longleftrightarrow> 0 < d"
  by (simp add: satDuration_def)

lemma gate_closed: "0 < retryAfter lim now acct \<Longrightarrow> \<exists>secs. gate lim now acct ipk = Some secs"
  by (simp add: gate_def Let_def)

lemma retry_locked:
  "lim key = stateFor ts \<Longrightarrow> lockThreshold \<le> length ts \<Longrightarrow> now < last ts + lockFor (length ts) \<Longrightarrow> 0 < retryAfter lim now key"
  by (auto simp: retryAfter_def stateFor_def Let_def satDuration_pos lockThreshold_def)

lemma credFailure_code: "isCredFailure e \<longleftrightarrow> ae_code (Coerce e) = 10001"
  by (cases e) (auto simp: isCredFailure_def Coerce_def apperr_defs)

text \<open>
  Attempts at one account one after the other, from anywhere, each in a world of its own: the
  database, new-api and the faults may change in between; the limiter is the server's.  The result
  lists the times of the attempts that were answered with wrong credentials.
\<close>

fun guesses :: "'u service \<Rightarrow> signer \<Rightarrow> string \<Rightarrow> (request \<times> string \<times> 'u world) list \<Rightarrow> limiter \<Rightarrow> int list" where
  "guesses S sg email [] lim = []"
| "guesses S sg email ((r, pw, w) # rest) lim =
     (case handleLogin S sg r (Some (email, pw)) \<lparr> se_world = w, se_limiter = lim \<rparr> of (rep, s) \<Rightarrow>
        (if rp_code rep = 10001 then [w_now w] else []) @ guesses S sg email rest (se_limiter s))"

fun noneSucceeds :: "'u service \<Rightarrow> signer \<Rightarrow> string \<Rightarrow> (request \<times> string \<times> 'u world) list \<Rightarrow> limiter \<Rightarrow> bool" where
  "noneSucceeds S sg email [] lim \<longleftrightarrow> True"
| "noneSucceeds S sg email ((r, pw, w) # rest) lim \<longleftrightarrow>
     (case handleLogin S sg r (Some (email, pw)) \<lparr> se_world = w, se_limiter = lim \<rparr> of (rep, s) \<Rightarrow>
        rp_code rep \<noteq> 0 \<and> noneSucceeds S sg email rest (se_limiter s))"

lemma loginKey_ne: "loginKey email \<noteq> loginIPKey r"
  by (simp add: loginKey_def loginIPKey_def)

lemma Login_now: "Login S sg email pw w = (r, w') \<Longrightarrow> w_now w' = w_now w"
proof -
  have "guar sameNow (Login S sg email pw)"
    unfolding Login_def GetMemberByEmail_def
    by (intro guar_intros sameNow.bind sameNow.return sameNow.throw)
  then show "Login S sg email pw w = (r, w') \<Longrightarrow> w_now w' = w_now w"
    by (auto dest: guarD' simp: sameNow_def)
qed

lemma handleLogin_step:
  assumes lim: "lim (loginKey email) = stateFor ts"
    and run: "handleLogin S sg r (Some (email, pw)) \<lparr> se_world = w, se_limiter = lim \<rparr> = (rep, s)"
    and fails: "rp_code rep \<noteq> 0"
  shows "if rp_code rep = 10001
     then se_limiter s (loginKey email) = stateFor (ts @ [w_now w])
       \<and> (lockThreshold \<le> length ts \<longrightarrow> last ts + lockFor (length ts) \<le> w_now w)
     else se_limiter s (loginKey email) = stateFor ts"
proof (cases "gate lim (w_now w) (loginKey email) (loginIPKey r)")
  case (Some secs)
  then show ?thesis using run lim
    by (auto simp: handleLogin_def gated_def writeErr_def tooMany_def Coerce_def apperr_defs Let_def)
next
  case None
  have late: "lockThreshold \<le> length ts \<longrightarrow> last ts + lockFor (length ts) \<le> w_now w"
    using gate_closed[OF retry_locked[where key = "loginKey email" and lim = lim and ts = ts], OF lim] None
    by (metis linorder_not_le option.distinct(1))
  obtain lr w1 where l: "Login S sg email pw w = (lr, w1)" by force
  show ?thesis
  proof (cases lr)
    case (Inl e)
    have "rp_code rep = 10001 \<longleftrightarrow> isCredFailure e"
      and "se_limiter s = (if isCredFailure e then failKey (w_now w) (loginIPKey r) (failKey (w_now w) (loginKey email) lim) else lim)"
      using run None l Inl Login_now[OF l]
      by (auto simp: handleLogin_def gated_def writeErr_def credFailure_code limitFail_def Let_def)
    then show ?thesis using late lim stateFor_fail[where k = "loginKey email" and lim = lim and ts = ts, OF lim] by (simp add: failKey_other[OF loginKey_ne[symmetric]])
  next
    case (Inr tm)
    then show ?thesis using run None l fails by (auto simp: handleLogin_def gated_def writeOK_def split: prod.splits)
  qed
qed

lemma guesses_spaced:
  assumes "lim (loginKey email) = stateFor ts" "noneSucceeds S sg email attempts lim"
    "\<And>k. lockThreshold \<le> k \<Longrightarrow> k < length ts \<Longrightarrow> ts ! (k - 1) + lockFor k \<le> ts ! k"
  shows "lockThreshold \<le> k \<Longrightarrow> k < length (ts @ guesses S sg email attempts lim) \<Longrightarrow>
     (ts @ guesses S sg email attempts lim) ! (k - 1) + lockFor k \<le> (ts @ guesses S sg email attempts lim) ! k"
  using assms
proof (induction attempts arbitrary: lim ts k)
  case (Cons a attempts)
  obtain r pw w where a: "a = (r, pw, w)" by (cases a) auto
  obtain rep s where run: "handleLogin S sg r (Some (email, pw)) \<lparr> se_world = w, se_limiter = lim \<rparr> = (rep, s)" by force
  have code: "rp_code rep \<noteq> 0" and rest: "noneSucceeds S sg email attempts (se_limiter s)"
    using Cons.prems(4) by (simp_all add: a run)
  note step = handleLogin_step[OF Cons.prems(3) run code]
  show ?case
  proof (cases "rp_code rep = 10001")
    case True
    have spaced: "lockThreshold \<le> j \<Longrightarrow> j < length (ts @ [w_now w]) \<Longrightarrow> (ts @ [w_now w]) ! (j - 1) + lockFor j \<le> (ts @ [w_now w]) ! j" for j
    proof (cases "j = length ts")
      case end_of: True
      assume "lockThreshold \<le> j"
      then have "ts \<noteq> []" using end_of by (auto simp: lockThreshold_def)
      then show ?thesis using step True end_of \<open>lockThreshold \<le> j\<close> last_conv_nth[of ts] by (auto simp: nth_append)
    next
      case False
      assume "lockThreshold \<le> j" "j < length (ts @ [w_now w])"
      then show ?thesis using Cons.prems(5)[of j] False by (auto simp: nth_append)
    qed
    show ?thesis
      using Cons.IH[OF Cons.prems(1) _ _ rest spaced] Cons.prems(2) step True by (simp add: a run)
  next
    case False
    then show ?thesis using Cons.IH[OF Cons.prems(1) _ _ rest Cons.prems(5)] Cons.prems(2) step by (simp add: a run)
  qed
qed simp



definition guessRequest :: request where
  "guessRequest = \<lparr> rq_method = ''POST'', rq_path = ''/api/v1/auth/login'', rq_authorization = '''',
     rq_cf_ip = '''', rq_xff = '''', rq_remote = ''10.0.0.7:5000'' \<rparr>"

definition sixGuesses :: "(request \<times> string \<times> sample world) list" where
  "sixGuesses = map (\<lambda>t. (guessRequest, ''wrong'', sampleWorld loginDb (1700000000 + t))) [0, 1, 2, 3, 4, 20, 34]"

lemma sixGuesses_run:
  "noneSucceeds (sampleSvc [] False True) toySigner ''m@acme'' sixGuesses newAttemptLimiter"
  "guesses (sampleSvc [] False True) toySigner ''m@acme'' sixGuesses newAttemptLimiter
     = map (\<lambda>t. (1700000000 + t) * 10 ^ 9) [0, 1, 2, 3, 4, 34]"
  by code_simp+


section \<open>What stands before a handler\<close>

definition admitted :: "claims \<Rightarrow> request \<Rightarrow> 'u server \<Rightarrow> bool" where
  "admitted c r s \<longleftrightarrow> (if cl_support c = 0
     then \<exists>m \<in> set (members (w_db (se_world s))). m_id m = cl_member c \<and> m_org m = cl_org c \<and> \<not> m_deleted m
        \<and> m_status m = MemberStatusActive \<and> m_epoch m = cl_epoch c
     else (\<exists>ss \<in> set (supports (w_db (se_world s))). ss_id ss = cl_support c \<and> ss_org ss = cl_org c
        \<and> sessionLive ss (w_now (se_world s)))
      \<and> (rq_method r = ''GET'' \<or> rq_method r = ''HEAD''
         \<or> cl_scope c \<noteq> ''readonly'' \<and> \<not> isMoneyOrKeyRedline (rq_method r) (rq_path r)))"


definition sameWorld :: "'u world \<Rightarrow> 'u world \<Rightarrow> bool" where
  "sameWorld w w' \<longleftrightarrow> w_db w' = w_db w \<and> w_up w' = w_up w \<and> w_now w' = w_now w"

lemma getRow_sameWorld: "getRow f w = (r, w') \<Longrightarrow> sameWorld w w'"
  by (auto simp: sameWorld_def getRow_def queryRow_def mapErr_def stmt_def split: list.splits fault.splits option.splits)

lemma status_of: "ae_http (Coerce Unauthenticated) = 401" "ae_http (Coerce Forbidden) = 403" "ae_http (Coerce NotFound) = 404"
  "ae_http (Coerce ReadonlyBlocked) = 403" "ae_http (Coerce MoneyRedline) = 403" "ae_http (Coerce SessionExpired) = 401"
  "ae_http (Coerce (credentialErr e)) \<in> {401, 500}"
  by (auto simp: Coerce_def credentialErr_def internal_def apperr_defs)

lemma ValidateSession_run:
  assumes "ValidateSession c w = (r, w')"
  shows "sameWorld w w' \<and> (case r of
     Inl e \<Rightarrow> ae_http (Coerce e) \<in> {401, 500}
   | Inr _ \<Rightarrow> cl_support c \<noteq> 0 \<or> (\<exists>m \<in> set (members (w_db w)). m_id m = cl_member c \<and> m_org m = cl_org c \<and> \<not> m_deleted m
        \<and> m_status m = MemberStatusActive \<and> m_epoch m = cl_epoch c))"
proof (cases "cl_support c = 0")
  case True
  obtain mr w1 where g: "GetMember (cl_org c) (cl_member c) w = (mr, w1)" by force
  have same: "sameWorld w w1" using getRow_sameWorld g unfolding GetMember_def by blast
  show ?thesis
  proof (cases mr)
    case (Inl e)
    then show ?thesis using assms True g same status_of by (auto simp: ValidateSession_def bind_def mapErr_def)
  next
    case (Inr m)
    have "findMember (cl_org c) (cl_member c) (w_db w) = Some m" using getRow_cases[OF g[unfolded GetMember_def]] Inr by simp
    then have "m \<in> set (members (w_db w)) \<and> m_id m = cl_member c \<and> m_org m = cl_org c \<and> \<not> m_deleted m"
      by (auto simp: findMember_def find_Some_iff)
    then show ?thesis using assms True g same status_of Inr
      by (auto simp: ValidateSession_def bind_def mapErr_def throw_def return_def split: if_splits)
  qed
next
  case False
  then show ?thesis using assms by (auto simp: ValidateSession_def return_def sameWorld_def)
qed

lemma CheckSupportGuard_run:
  assumes "CheckSupportGuard c verb path w = (r, w')"
  shows "sameWorld w w' \<and> (case r of
     Inl e \<Rightarrow> ae_http (Coerce e) \<in> {403, 404}
   | Inr _ \<Rightarrow> cl_support c = 0 \<or> (\<exists>ss \<in> set (supports (w_db w)). ss_id ss = cl_support c \<and> ss_org ss = cl_org c
        \<and> sessionLive ss (w_now w))
      \<and> (verb = ''GET'' \<or> verb = ''HEAD'' \<or> cl_scope c \<noteq> ''readonly'' \<and> \<not> isMoneyOrKeyRedline verb path))"
proof (cases "cl_support c = 0")
  case False
  obtain sr w1 where g: "GetSupportSession (cl_support c) w = (sr, w1)" by force
  have same: "sameWorld w w1" using getRow_sameWorld g unfolding GetSupportSession_def by blast
  show ?thesis
  proof (cases sr)
    case (Inl e)
    then show ?thesis using assms False g same status_of
      by (auto simp: CheckSupportGuard_def bind_def attempt_def clock_def gets_def throw_def)
  next
    case (Inr ss)
    have "find (\<lambda>s. ss_id s = cl_support c) (supports (w_db w)) = Some ss"
      using getRow_cases[OF g[unfolded GetSupportSession_def]] Inr by simp
    then have "ss \<in> set (supports (w_db w)) \<and> ss_id ss = cl_support c" by (auto simp: find_Some_iff)
    then show ?thesis using assms False g same status_of Inr
      by (auto simp: CheckSupportGuard_def bind_def attempt_def clock_def gets_def throw_def return_def sameWorld_def split: if_splits)
  qed
qed (use assms in \<open>auto simp: CheckSupportGuard_def return_def sameWorld_def\<close>)

lemma requireAuth_cases:
  "(\<exists>c s1. Verify sg (w_now (se_world s)) (TrimSpace (drop 7 (rq_authorization r))) = Inr c \<and> admitted c r s
      \<and> sameWorld (se_world s) (se_world s1) \<and> se_limiter s1 = se_limiter s \<and> requireAuth sg r h s = h c s1)
   \<or> (rp_data (fst (requireAuth sg r h s)) = None \<and> rp_status (fst (requireAuth sg r h s)) \<in> {401, 403, 404, 500}
      \<and> sameWorld (se_world s) (se_world (snd (requireAuth sg r h s)))
      \<and> se_limiter (snd (requireAuth sg r h s)) = se_limiter s)"
proof (cases "Verify sg (w_now (se_world s)) (TrimSpace (drop 7 (rq_authorization r)))")
  case (Inl e)
  then show ?thesis
    by (cases e) (auto simp: requireAuth_def writeErr_def status_of Let_def sameWorld_def)
next
  case (Inr c)
  obtain r1 w1 where v: "ValidateSession c (se_world s) = (r1, w1)" by force
  obtain r2 w2 where g: "CheckSupportGuard c (rq_method r) (rq_path r) w1 = (r2, w2)" by force
  note V = ValidateSession_run[OF v] and G = CheckSupportGuard_run[OF g]
  have same: "sameWorld (se_world s) w1" "sameWorld (se_world s) w2" using V G by (auto simp: sameWorld_def)
  show ?thesis
  proof (cases "startsWith (rq_authorization r) ''Bearer ''")
    case False
    then show ?thesis by (simp add: requireAuth_def writeErr_def status_of Let_def sameWorld_def)
  next
    case True
    show ?thesis
    proof (cases r1)
      case (Inl e)
      then show ?thesis using True Inr v V same by (auto simp: requireAuth_def callSvc_def writeErr_def Let_def)
    next
      case (Inr u)
      show ?thesis
      proof (cases r2)
        case (Inl e)
        then show ?thesis using True \<open>Verify _ _ _ = _\<close> \<open>r1 = _\<close> v g G same
          by (auto simp: requireAuth_def callSvc_def writeErr_def Let_def)
      next
        case (Inr u2)
        have "requireAuth sg r h s = h c (s\<lparr>se_world := w2\<rparr>)"
          using True \<open>Verify _ _ _ = _\<close> \<open>r1 = _\<close> v g Inr by (simp add: requireAuth_def callSvc_def)
        moreover have "admitted c r s"
          using V G \<open>r1 = _\<close> Inr by (auto simp: admitted_def sameWorld_def)
        ultimately show ?thesis using \<open>Verify _ _ _ = _\<close> same
          by (intro disjI1 exI[of _ c] exI[of _ "s\<lparr>se_world := w2\<rparr>"]) simp
      qed
    qed
  qed
qed

text \<open>C22. Nothing reaches a handler without a live session: either the handler runs with the claims of
  a token that verifies now, for an active member whose epoch is the token's, or for a support session
  of that organization that is open and not expired and, unless it only reads, has the assisting scope
  and keeps off the red line; or the request is refused with a status of 401, 403, 404 or 500, no
  data, and a database, new-api and limiter that are as before.\<close>

theorem only_live_sessions_reach_a_handler:
  "(\<exists>c s1. Verify sg (w_now (se_world s)) (TrimSpace (drop 7 (rq_authorization r))) = Inr c \<and> admitted c r s
      \<and> sameWorld (se_world s) (se_world s1) \<and> se_limiter s1 = se_limiter s \<and> requireAuth sg r h s = h c s1)
   \<or> (rp_data (fst (requireAuth sg r h s)) = None \<and> rp_status (fst (requireAuth sg r h s)) \<in> {401, 403, 404, 500}
      \<and> sameWorld (se_world s) (se_world (snd (requireAuth sg r h s)))
      \<and> se_limiter (snd (requireAuth sg r h s)) = se_limiter s)"
  by (rule requireAuth_cases)

section \<open>The restricted deployment\<close>

text \<open>
  The routes that move money or control quotas, as the router has them: the method, what stands before
  the identifier and what stands after it; and two routes without an identifier.
\<close>

definition blockedRoutes :: "(string \<times> string \<times> string) list" where
  "blockedRoutes = [
     (''PUT'', ''api/v1/organizations'', ''approval-rules''),
     (''PUT'', ''api/v1/organizations'', ''quota-policies''),
     (''POST'', ''api/v1/organizations'', ''members:bulk''),
     (''POST'', ''api/v1/organizations'', ''members:bulk-status''),
     (''POST'', ''api/v1/members'', ''quota:adjust''),
     (''POST'', ''api/v1/members'', ''grants''),
     (''DELETE'', ''api/v1/grants'', ''''),
     (''POST'', ''api/v1/organizations'', ''recharges''),
     (''POST'', ''api/v1/organizations'', ''recharge-requests''),
     (''POST'', ''api/v1/organizations'', ''debits''),
     (''PATCH'', ''api/v1/organizations'', ''billing-settings''),
     (''PUT'', ''api/v1/organizations'', ''pricing''),
     (''PUT'', ''api/v1/organizations'', ''default-token-group''),
     (''POST'', ''api/v1/organizations'', ''escrow/refill''),
     (''POST'', ''api/v1/approvals'', ''decide'')]"

definition blockedSingles :: "(string \<times> string) list" where
  "blockedSingles = [(''POST'', ''/api/v1/pricing/reconcile''), (''POST'', ''/api/v1/approvals'')]"

definition routePath :: "string \<Rightarrow> string \<Rightarrow> string \<Rightarrow> string" where
  "routePath pre x suf = ''/'' @ pre @ ''/'' @ x @ (if suf = [] then [] else ''/'' @ suf)"

lemma splitOn_ne: "splitOn d xs \<noteq> []"
  by (induction xs) (auto split: list.splits)

lemma splitOn_app: "splitOn d (xs @ d # ys) = splitOn d xs @ splitOn d ys"
  by (induction xs) (auto simp: splitOn_ne split: list.splits)

lemma trimSlash_inner:
  assumes "p \<noteq> []" "hd p \<noteq> CHR ''/''" "q \<noteq> []" "last q \<noteq> CHR ''/''"
  shows "trimSlash (CHR ''/'' # p @ q) = p @ q"
proof -
  obtain c cs where p: "p = c # cs" "c \<noteq> CHR ''/''" using assms(1,2) by (cases p) auto
  obtain d ds where q: "q = ds @ [d]" "d \<noteq> CHR ''/''" using assms(3,4) by (cases q rule: rev_cases) auto
  show ?thesis using p q by (simp add: trimSlash_def)
qed

definition allowTable :: "(string \<times> string list) list" where
  "allowTable = map (\<lambda>p. case firstIndex CHR '' '' p of None \<Rightarrow> ('''', []) | Some i \<Rightarrow> (take i p, segments (drop (Suc i) p))) mvpWriteAllow"

lemma allow_by_table:
  "list_ex (\<lambda>p. matchMVPPattern p verb path) mvpWriteAllow
     = list_ex (\<lambda>(v, ps). v = verb \<and> list_all2 (\<lambda>p r. p = ''*'' \<or> p = r) ps (segments path)) allowTable"
proof -
  have "\<forall>p \<in> set mvpWriteAllow. firstIndex CHR '' '' p \<noteq> None" by code_simp
  then show ?thesis
    unfolding allowTable_def list_ex_iff
    by (auto simp: matchMVPPattern_def split: option.splits) (force split: option.splits)+
qed

lemma allowTable_eval: "allowTable = [
   (''POST'', [''api'', ''v1'', ''auth'', ''login'']),
   (''POST'', [''api'', ''v1'', ''me'', ''password'']),
   (''PATCH'', [''api'', ''v1'', ''me'']),
   (''POST'', [''api'', ''v1'', ''organizations'']),
   (''PATCH'', [''api'', ''v1'', ''organizations'', ''*'']),
   (''POST'', [''api'', ''v1'', ''organizations'', ''*'', ''archive'']),
   (''POST'', [''api'', ''v1'', ''organizations'', ''*'', ''unarchive'']),
   (''POST'', [''api'', ''v1'', ''organizations'', ''*'', ''import-tokens'']),
   (''POST'', [''api'', ''v1'', ''organizations'', ''*'', ''backfill'', ''requeue'']),
   (''POST'', [''api'', ''v1'', ''organizations'', ''*'', ''hard-stop'']),
   (''POST'', [''api'', ''v1'', ''organizations'', ''*'', ''hard-stop-release'']),
   (''POST'', [''api'', ''v1'', ''organizations'', ''*'', ''teams'']),
   (''PATCH'', [''api'', ''v1'', ''organizations'', ''*'', ''teams'', ''*'']),
   (''POST'', [''api'', ''v1'', ''organizations'', ''*'', ''teams'', ''*'', ''archive'']),
   (''POST'', [''api'', ''v1'', ''organizations'', ''*'', ''teams'', ''*'', ''unarchive'']),
   (''POST'', [''api'', ''v1'', ''organizations'', ''*'', ''tiers'']),
   (''PUT'', [''api'', ''v1'', ''tiers'', ''*'']),
   (''DELETE'', [''api'', ''v1'', ''tiers'', ''*'']),
   (''POST'', [''api'', ''v1'', ''tiers'', ''*'', ''default'']),
   (''POST'', [''api'', ''v1'', ''organizations'', ''*'', ''members'']),
   (''PATCH'', [''api'', ''v1'', ''members'', ''*'']),
   (''POST'', [''api'', ''v1'', ''members'', ''*'', ''role'']),
   (''POST'', [''api'', ''v1'', ''members'', ''*'', ''key:rotate'']),
   (''POST'', [''api'', ''v1'', ''members'', ''*'', ''key:ip-whitelist'']),
   (''POST'', [''api'', ''v1'', ''members'', ''*'', ''tokens'']),
   (''POST'', [''api'', ''v1'', ''members'', ''*'', ''password:reset'']),
   (''POST'', [''api'', ''v1'', ''members'', ''*'', ''status'']),
   (''POST'', [''api'', ''v1'', ''members'', ''*'', ''offboard'']),
   (''POST'', [''api'', ''v1'', ''members'', ''*'', ''restore'']),
   (''POST'', [''api'', ''v1'', ''notifications'', ''*'', ''read'']),
   (''POST'', [''api'', ''v1'', ''organizations'', ''*'', ''support-sessions'']),
   (''POST'', [''api'', ''v1'', ''support-sessions'', ''*'', ''close''])]"
  by code_simp

definition fitsTable :: "string \<Rightarrow> string list \<Rightarrow> string list \<Rightarrow> bool" where
  "fitsTable verb ps qs = list_ex (\<lambda>(v, as). v = verb \<and> length as = Suc (length ps + length qs)
     \<and> list_all2 (\<lambda>p r. p = ''*'' \<or> p = r) (take (length ps) as) ps
     \<and> list_all2 (\<lambda>p r. p = ''*'' \<or> p = r) (drop (Suc (length ps)) as) qs) allowTable"

lemma list_all2_middle:
  "list_all2 P as (ps @ x # qs) \<Longrightarrow> length as = Suc (length ps + length qs)
     \<and> list_all2 P (take (length ps) as) ps \<and> list_all2 P (drop (Suc (length ps)) as) qs"
  by (auto simp: list_all2_append2 list_all2_Cons2 dest: list_all2_lengthD)

lemma segments_route:
  assumes x: "x \<noteq> []" "CHR ''/'' \<notin> set x" and p: "p \<noteq> []" "hd p \<noteq> CHR ''/''" and t: "t = [] \<or> last t \<noteq> CHR ''/''"
  shows "segments (routePath p x t) = splitOn CHR ''/'' p @ x # (if t = [] then [] else splitOn CHR ''/'' t)"
proof -
  have "last x \<noteq> CHR ''/''" using x last_in_set by metis
  then show ?thesis
    using trimSlash_inner[of p "CHR ''/'' # x"] trimSlash_inner[of p "CHR ''/'' # x @ CHR ''/'' # t"] p x t
    by (auto simp: routePath_def segments_def splitOn_app splitOn_none)
qed

lemma blockedTable:
  "\<forall>(verb, p, t) \<in> set blockedRoutes. p \<noteq> [] \<and> hd p \<noteq> CHR ''/'' \<and> (t = [] \<or> last t \<noteq> CHR ''/'')
     \<and> startsWith (''/'' @ p) ''/api/v1/'' \<and> verb \<noteq> ''GET'' \<and> verb \<noteq> ''HEAD''
     \<and> \<not> fitsTable verb (splitOn CHR ''/'' p) (if t = [] then [] else splitOn CHR ''/'' t)"
  by code_simp

lemma startsWith_app: "startsWith s p \<Longrightarrow> startsWith (s @ t) p"
  unfolding startsWith_def by (metis append_take_drop_id append.assoc append_eq_conv_conj)

text \<open>C23. The restricted deployment blocks what moves money or controls quotas: on each of those routes,
  for every identifier and whoever asks, the answer is that the page does not exist, and nothing runs.\<close>

theorem restricted_deployment_blocks_money:
  assumes "(verb, pre, suf) \<in> set blockedRoutes \<and> x \<noteq> [] \<and> CHR ''/'' \<notin> set x \<and> rq_path r = routePath pre x suf
     \<or> (verb, rq_path r) \<in> set blockedSingles"
    and "rq_method r = verb"
  shows "mvpGate True r h s = (writeErr NotFound, s) \<and> rp_status (writeErr NotFound :: 'a reply) = 404"
proof -
  have status: "rp_status (writeErr NotFound :: 'a reply) = 404" by (simp add: writeErr_def status_of Let_def)
  from assms(1) show ?thesis
  proof
    assume *: "(verb, pre, suf) \<in> set blockedRoutes \<and> x \<noteq> [] \<and> CHR ''/'' \<notin> set x \<and> rq_path r = routePath pre x suf"
    then have t: "pre \<noteq> []" "hd pre \<noteq> CHR ''/''" "suf = [] \<or> last suf \<noteq> CHR ''/''" "startsWith (''/'' @ pre) ''/api/v1/''"
      "verb \<noteq> ''GET''" "verb \<noteq> ''HEAD''"
      and no: "\<not> fitsTable verb (splitOn CHR ''/'' pre) (if suf = [] then [] else splitOn CHR ''/'' suf)"
      using blockedTable by auto
    have "segments (rq_path r) = splitOn CHR ''/'' pre @ x # (if suf = [] then [] else splitOn CHR ''/'' suf)"
      using segments_route[of x pre suf] * t by simp
    then have "\<not> list_ex (\<lambda>(v, ps). v = verb \<and> list_all2 (\<lambda>p r. p = ''*'' \<or> p = r) ps (segments (rq_path r))) allowTable"
      using no list_all2_middle unfolding fitsTable_def list_ex_iff by (fastforce simp del: if_split)
    then have "\<not> list_ex (\<lambda>p. matchMVPPattern p (rq_method r) (rq_path r)) mvpWriteAllow"
      unfolding allow_by_table assms(2) .
    then show ?thesis using t startsWith_app[OF t(4)] * assms(2) status
      by (simp add: mvpGate_def routePath_def answer_def)
  next
    assume *: "(verb, rq_path r) \<in> set blockedSingles"
    have "\<forall>(v, p) \<in> set blockedSingles. startsWith p ''/api/v1/'' \<and> v \<noteq> ''GET'' \<and> v \<noteq> ''HEAD''
        \<and> \<not> list_ex (\<lambda>q. matchMVPPattern q v p) mvpWriteAllow" by code_simp
    then have "startsWith (rq_path r) ''/api/v1/'' \<and> verb \<noteq> ''GET'' \<and> verb \<noteq> ''HEAD''
        \<and> \<not> list_ex (\<lambda>q. matchMVPPattern q verb (rq_path r)) mvpWriteAllow" using * by blast
    then show ?thesis using assms(2) status by (simp add: mvpGate_def answer_def)
  qed
qed

theorem restricted_deployment_blocks_money_witness:
  "\<forall>(h :: (sample, unit) handler) s.
     mvpGate True (guessRequest\<lparr>rq_path := ''/api/v1/organizations/7/debits''\<rparr>) h s = (writeErr NotFound, s)"
  by (intro allI, rule conjunct1, rule restricted_deployment_blocks_money[where pre = "''api/v1/organizations''" and x = "''7''"
      and suf = "''debits''" and verb = "''POST''"]) (simp_all add: blockedRoutes_def routePath_def guessRequest_def)

end
