(* ===== verification/Tiers.thy ===== *)
theory Tiers
  imports Quota
begin

text \<open>Tiers, the reusable quota templates of an organization (\<open>service/tier.go\<close>, \<open>repo/tier.go\<close>).\<close>

definition redactTierMoney :: "'u service \<Rightarrow> claims \<Rightarrow> tier \<Rightarrow> tier" where
  "redactTierMoney S c t = (if mvpPriceHidden S c then t\<lparr>tr_monthly := None\<rparr> else t)"

text \<open>
  The billing group of a tier must exist upstream with a ratio and serve every model of the set.
  The second lookup of the missing-group branch only chooses the message.
\<close>

definition validateTierGroup :: "'u service \<Rightarrow> string \<Rightarrow> string list \<Rightarrow> ('u, unit) op" where
  "validateTierGroup S grp modelSet =
     (if grp = '''' \<or> grp = ''default'' then return ()
      else
      bind (mapErr mapUpstream (upcall (na_ListGroupRatios (sv_up S)))) (\<lambda>ratios.
      if grp \<notin> fst ` set ratios then
        bind (ignoreErr (upcall (na_ListGroupModels (sv_up S)))) (\<lambda>_. throw InvalidParam)
      else if modelSet = [] then return ()
      else
      bind (mapErr mapUpstream (upcall (na_ListGroupModels (sv_up S)))) (\<lambda>g2m.
      let avail = (case map_of g2m grp of Some ms \<Rightarrow> ms | None \<Rightarrow> [])
      in if list_all (\<lambda>m. m \<in> set avail) modelSet then return () else throw InvalidParam)))"

definition tierErr :: "err \<Rightarrow> err" where
  "tierErr e = (if errorsIs e ErrConflict then Conflict
     else if errorsIs e ErrNotFound then NotFound else internal e)"

definition CreateTier :: "'u service \<Rightarrow> claims \<Rightarrow> int \<Rightarrow> tier \<Rightarrow> ('u, tier) op" where
  "CreateTier S c org t =
     bind (assertOrgScope c org) (\<lambda>_.
     bind (assertRole c [RoleOrgAdmin]) (\<lambda>_.
     if tr_name t = '''' then throw InvalidParam
     else
     bind (checkName (tr_name t) maxNameLen) (\<lambda>_.
     bind (case tr_group t of None \<Rightarrow> return () | Some g \<Rightarrow> validateTierGroup S g (tr_model_set t)) (\<lambda>_.
     bind (attempt (CreateTierRow (t\<lparr>tr_org := org, tr_default := False\<rparr>))) (\<lambda>r. case r of
       Inl e \<Rightarrow> throw (if errorsIs e ErrConflict then Conflict else internal e)
     | Inr i \<Rightarrow>
         bind (audit c org ''create_tier'' ''tier'' (Some i) [(''name'', JStr (tr_name t))]) (\<lambda>_.
         bind (GetTier org i) (\<lambda>t'. return (redactTierMoney S c t'))))))))"

text \<open>
  \<open>UPDATE tier ...\<close> with the driver's default of counting changed rows: an update that changes
  nothing reports no row.
\<close>

definition sameTierFields :: "tier \<Rightarrow> tier \<Rightarrow> bool" where
  "sameTierFields a b \<longleftrightarrow> tr_name a = tr_name b \<and> tr_model_set a = tr_model_set b \<and> tr_model_cap a = tr_model_cap b
     \<and> tr_daily a = tr_daily b \<and> tr_weekly a = tr_weekly b \<and> tr_monthly a = tr_monthly b \<and> tr_group a = tr_group b"

definition setTierFields :: "tier \<Rightarrow> tier \<Rightarrow> tier" where
  "setTierFields t x = x\<lparr>tr_name := tr_name t, tr_model_set := tr_model_set t, tr_model_cap := tr_model_cap t,
     tr_daily := tr_daily t, tr_weekly := tr_weekly t, tr_monthly := tr_monthly t, tr_group := tr_group t\<rparr>"

definition updateTier :: "tier \<Rightarrow> db \<Rightarrow> (err + nat) \<times> db" where
  "updateTier t d =
     (let hit = (\<lambda>x. tr_id x = tr_id t \<and> tr_org x = tr_org t \<and> \<not> tr_deleted x)
      in if list_ex hit (tiers d) \<and> list_ex (\<lambda>x. \<not> hit x \<and> tr_org x = tr_org t \<and> tr_name x = tr_name t) (tiers d)
         then (Inl (SqlError 1062), d)
         else (Inr (length (filter (\<lambda>x. hit x \<and> \<not> sameTierFields t x) (tiers d))),
               d\<lparr>tiers := map (\<lambda>x. if hit x then setTierFields t x else x) (tiers d)\<rparr>))"

definition UpdateTierRow :: "tier \<Rightarrow> ('u, unit) op" where
  "UpdateTierRow t =
     bind (mapErr dupToConflict (stmt (updateTier t))) (\<lambda>n. if n = 0 then throw ErrNotFound else return ())"

record tier_input =
  ti_name :: "string option"
  ti_model_set :: "string list option"
  ti_model_cap :: "(string \<times> int) list option"
  ti_daily :: "int option"
  ti_weekly :: "int option"
  ti_monthly :: "int option"
  ti_group :: "string option"

definition orElse :: "'a option \<Rightarrow> 'a option \<Rightarrow> 'a option" where
  "orElse a b = (case a of Some x \<Rightarrow> Some x | None \<Rightarrow> b)"

definition applyTierInput :: "tier_input \<Rightarrow> tier \<Rightarrow> tier" where
  "applyTierInput inp t =
     t\<lparr>tr_name := (case ti_name inp of Some n \<Rightarrow> n | None \<Rightarrow> tr_name t),
       tr_model_set := (case ti_model_set inp of Some s \<Rightarrow> s | None \<Rightarrow> tr_model_set t),
       tr_model_cap := (case ti_model_cap inp of Some s \<Rightarrow> s | None \<Rightarrow> tr_model_cap t),
       tr_daily := orElse (ti_daily inp) (tr_daily t), tr_weekly := orElse (ti_weekly inp) (tr_weekly t),
       tr_monthly := orElse (ti_monthly inp) (tr_monthly t), tr_group := orElse (ti_group inp) (tr_group t)\<rparr>"

definition UpdateTier :: "'u service \<Rightarrow> claims \<Rightarrow> int \<Rightarrow> int \<Rightarrow> tier_input \<Rightarrow> ('u, tier) op" where
  "UpdateTier S c org tid inp =
     bind (assertOrgScope c org) (\<lambda>_.
     bind (assertRole c [RoleOrgAdmin]) (\<lambda>_.
     bind (mapErr notFoundOrInternal (GetTier org tid)) (\<lambda>t0.
     bind (case ti_name inp of None \<Rightarrow> return ()
           | Some n \<Rightarrow> if n = '''' then throw InvalidParam else checkName n maxNameLen) (\<lambda>_.
     let t = applyTierInput inp t0
     in
     bind (case tr_group t of None \<Rightarrow> return () | Some g \<Rightarrow> validateTierGroup S g (tr_model_set t)) (\<lambda>_.
     bind (mapErr tierErr (UpdateTierRow t)) (\<lambda>_.
     bind (attempt (ListMembersByTier org tid)) (\<lambda>mr.
     bind (case mr of Inl _ \<Rightarrow> return ()
           | Inr ms \<Rightarrow> foreach ms (\<lambda>m. guard_when (m_bootstrap m = BootstrapDone \<and> m_token m \<noteq> None)
                         (ignoreErr (applyMemberOverride S m)))) (\<lambda>_.
     bind (audit c org ''update_tier'' ''tier'' (Some tid) [(''name'', JStr (tr_name t))]) (\<lambda>_.
     bind (GetTier org tid) (\<lambda>out. return (redactTierMoney S c out)))))))))))"

definition errDup409 :: err where "errDup409 = newErr 30003 409"

definition DeleteTier :: "claims \<Rightarrow> int \<Rightarrow> int \<Rightarrow> ('u, unit) op" where
  "DeleteTier c org tid =
     bind (assertOrgScope c org) (\<lambda>_.
     bind (assertRole c [RoleOrgAdmin]) (\<lambda>_.
     bind (mapErr notFoundOrInternal (GetTier org tid)) (\<lambda>t.
     if tr_default t then throw errDup409
     else
     bind (mapErr internal (CountMembersUsingTier org tid)) (\<lambda>used.
     if used > 0 then throw errDup409
     else
     bind (mapErr notFoundOrInternal (SoftDeleteTier org tid)) (\<lambda>_.
     audit c org ''delete_tier'' ''tier'' (Some tid) [])))))"

definition ListTiersService :: "'u service \<Rightarrow> claims \<Rightarrow> int \<Rightarrow> ('u, tier list) op" where
  "ListTiersService S c org =
     bind (assertOrgScope c org) (\<lambda>_.
     bind (assertRole c [RoleOperator, RoleOrgAdmin]) (\<lambda>_.
     bind (ListTiers org) (\<lambda>ts. return (map (redactTierMoney S c) ts))))"

definition SetDefaultTier :: "claims \<Rightarrow> int \<Rightarrow> int \<Rightarrow> ('u, unit) op" where
  "SetDefaultTier c org tid =
     bind (assertOrgScope c org) (\<lambda>_.
     bind (assertRole c [RoleOrgAdmin]) (\<lambda>_.
     bind (mapErr notFoundOrInternal (SetDefaultTierRow org tid)) (\<lambda>_.
     audit c org ''set_default_tier'' ''tier'' (Some tid) [])))"

end
