(* ===== verification/Lock.thy ===== *)
theory Lock
  imports Prelude
begin

text \<open>
  The keyed lock (\<open>pkg/lock/lock.go\<close>) under concurrency.  Each call of \<open>Acquire\<close> or
  \<open>TryAcquire\<close> is a thread with a phase; a step is one access to shared memory: the table under
  its own mutex (\<open>get\<close>, \<open>put\<close>), the mutex of one entry, or the choice of \<open>select\<close>.  Entries are
  addresses in a heap, so an entry deleted from the table can still be referred to.
\<close>

section \<open>The state\<close>

record refCountedMutex =
  rm_locked :: bool
  rm_refs :: int

text \<open>
  \<open>Waiting\<close>: the helper goroutine waits for the entry's mutex; \<open>Got\<close>: it has it and \<open>Acquire\<close> has
  not returned; \<open>Held\<close>: the caller has its release function; \<open>Dropped\<close>, \<open>DroppedGot\<close>: the context
  was cancelled before, after the mutex was obtained; \<open>Trying\<close>: \<open>TryAcquire\<close> before its
  \<open>TryLock\<close>; \<open>Leaving\<close>: only \<open>put\<close> is left; \<open>Finished\<close>: nothing is left.
\<close>

datatype phase = Waiting | Got | Held | Dropped | DroppedGot | Trying | Leaving | Finished

record lock_call =
  ca_key :: string
  ca_entry :: nat
  ca_phase :: phase
  ca_release :: bool

record locker =
  lk_table :: "string \<Rightarrow> nat option"
  lk_heap :: "refCountedMutex list"
  lk_calls :: "lock_call list"

definition NewInProcessLocker :: locker where
  "NewInProcessLocker = \<lparr>lk_table = (\<lambda>_. None), lk_heap = [], lk_calls = []\<rparr>"

section \<open>The steps\<close>

definition updEntry :: "nat \<Rightarrow> (refCountedMutex \<Rightarrow> refCountedMutex) \<Rightarrow> locker \<Rightarrow> locker" where
  "updEntry a f l = l\<lparr>lk_heap := (lk_heap l)[a := f (lk_heap l ! a)]\<rparr>"

definition setPhase :: "nat \<Rightarrow> phase \<Rightarrow> locker \<Rightarrow> locker" where
  "setPhase i p l = l\<lparr>lk_calls := (lk_calls l)[i := (lk_calls l ! i)\<lparr>ca_phase := p\<rparr>]\<rparr>"

text \<open>\<open>get\<close>: the entry of the key, made when there is none, with one more reference.\<close>

definition getEntry :: "string \<Rightarrow> locker \<Rightarrow> nat \<times> locker" where
  "getEntry key l =
     (case lk_table l key of
        Some a \<Rightarrow> (a, updEntry a (\<lambda>e. e\<lparr>rm_refs := rm_refs e + 1\<rparr>) l)
      | None \<Rightarrow> (length (lk_heap l),
                 l\<lparr>lk_heap := lk_heap l @ [\<lparr>rm_locked = False, rm_refs = 1\<rparr>],
                   lk_table := (lk_table l)(key \<mapsto> length (lk_heap l))\<rparr>))"

definition putEntry :: "string \<Rightarrow> nat \<Rightarrow> locker \<Rightarrow> locker" where
  "putEntry key a l =
     (let l' = updEntry a (\<lambda>e. e\<lparr>rm_refs := rm_refs e - 1\<rparr>) l
      in if rm_refs (lk_heap l' ! a) = 0 then l'\<lparr>lk_table := (lk_table l')(key := None)\<rparr> else l')"

definition startCall :: "phase \<Rightarrow> string \<Rightarrow> locker \<Rightarrow> locker" where
  "startCall p key l =
     (case getEntry key l of (a, l') \<Rightarrow>
        l'\<lparr>lk_calls := lk_calls l' @ [\<lparr>ca_key = key, ca_entry = a, ca_phase = p, ca_release = False\<rparr>]\<rparr>)"

definition setLocked :: "bool \<Rightarrow> nat \<Rightarrow> locker \<Rightarrow> locker" where
  "setLocked b i l = updEntry (ca_entry (lk_calls l ! i)) (\<lambda>e. e\<lparr>rm_locked := b\<rparr>) l"

definition entryLocked :: "nat \<Rightarrow> locker \<Rightarrow> bool" where
  "entryLocked i l = rm_locked (lk_heap l ! ca_entry (lk_calls l ! i))"

text \<open>\<open>Acquire\<close> or \<open>TryAcquire\<close> hands its release function to the caller.\<close>

definition handOut :: "nat \<Rightarrow> locker \<Rightarrow> locker" where
  "handOut i l = l\<lparr>lk_calls := (lk_calls l)[i := (lk_calls l ! i)\<lparr>ca_phase := Held, ca_release := True\<rparr>]\<rparr>"

text \<open>
  The actions of a call of \<open>Acquire\<close>: the goroutine locks the entry; \<open>select\<close> takes the branch
  \<open><-got\<close> or the branch \<open><-ctx.Done()\<close> (either one when both are ready); the release function
  unlocks, once; the goroutine of an abandoned call unlocks; both then \<open>put\<close>.
\<close>

datatype lock_act =
    Acquire string | TryAcquire string
  | GrabMutex nat | SelectGot nat | SelectDone nat | Release nat | DropMutex nat | Put nat | TryLock nat

fun acquireStep :: "lock_act \<Rightarrow> locker \<Rightarrow> locker option" where
  "acquireStep (Acquire key) l = Some (startCall Waiting key l)"
| "acquireStep (GrabMutex i) l =
     (if entryLocked i l then None
      else case ca_phase (lk_calls l ! i) of
        Waiting \<Rightarrow> Some (setPhase i Got (setLocked True i l))
      | Dropped \<Rightarrow> Some (setPhase i DroppedGot (setLocked True i l))
      | _ \<Rightarrow> None)"
| "acquireStep (SelectGot i) l =
     (if ca_phase (lk_calls l ! i) = Got then Some (handOut i l) else None)"
| "acquireStep (SelectDone i) l =
     (case ca_phase (lk_calls l ! i) of
        Waiting \<Rightarrow> Some (setPhase i Dropped l)
      | Got \<Rightarrow> Some (setPhase i DroppedGot l)
      | _ \<Rightarrow> None)"
| "acquireStep (Release i) l =
     (if \<not> ca_release (lk_calls l ! i) then None
      else if ca_phase (lk_calls l ! i) = Held then Some (setPhase i Leaving (setLocked False i l))
      else Some l)"
| "acquireStep (DropMutex i) l =
     (if ca_phase (lk_calls l ! i) = DroppedGot then Some (setPhase i Leaving (setLocked False i l)) else None)"
| "acquireStep (Put i) l =
     (if ca_phase (lk_calls l ! i) = Leaving
      then Some (setPhase i Finished (putEntry (ca_key (lk_calls l ! i)) (ca_entry (lk_calls l ! i)) l)) else None)"
| "acquireStep (TryAcquire key) l = None"
| "acquireStep (TryLock i) l = None"

fun tryAcquireStep :: "lock_act \<Rightarrow> locker \<Rightarrow> locker option" where
  "tryAcquireStep (TryAcquire key) l = Some (startCall Trying key l)"
| "tryAcquireStep (TryLock i) l =
     (if ca_phase (lk_calls l ! i) \<noteq> Trying then None
      else if entryLocked i l then Some (setPhase i Leaving l)
      else Some (handOut i (setLocked True i l)))"
| "tryAcquireStep a l = None"

fun callOf :: "lock_act \<Rightarrow> nat option" where
  "callOf (Acquire key) = None"
| "callOf (TryAcquire key) = None"
| "callOf (GrabMutex i) = Some i"
| "callOf (SelectGot i) = Some i"
| "callOf (SelectDone i) = Some i"
| "callOf (Release i) = Some i"
| "callOf (DropMutex i) = Some i"
| "callOf (Put i) = Some i"
| "callOf (TryLock i) = Some i"

definition lockStep :: "lock_act \<Rightarrow> locker \<Rightarrow> locker option" where
  "lockStep a l =
     (if (case callOf a of Some i \<Rightarrow> length (lk_calls l) \<le> i | None \<Rightarrow> False) then None
      else case acquireStep a l of Some l' \<Rightarrow> Some l' | None \<Rightarrow> tryAcquireStep a l)"

inductive lock_reach :: "locker \<Rightarrow> bool" where
  init: "lock_reach NewInProcessLocker"
| step: "lock_reach l \<Longrightarrow> lockStep a l = Some l' \<Longrightarrow> lock_reach l'"

section \<open>The invariant\<close>

definition pinned :: "lock_call \<Rightarrow> bool" where "pinned c \<longleftrightarrow> ca_phase c \<noteq> Finished"

definition owning :: "lock_call \<Rightarrow> bool" where "owning c \<longleftrightarrow> ca_phase c \<in> {Got, Held, DroppedGot}"

definition countAt :: "(lock_call \<Rightarrow> bool) \<Rightarrow> nat \<Rightarrow> lock_call list \<Rightarrow> int" where
  "countAt P a cs = int (length (filter (\<lambda>c. ca_entry c = a \<and> P c) cs))"

lemma length_filter_update:
  "i < length xs \<Longrightarrow>
   int (length (filter P (xs[i := x]))) = int (length (filter P xs)) + of_bool (P x) - of_bool (P (xs ! i))"
proof (induction xs arbitrary: i)
  case (Cons y ys)
  then show ?case by (cases i) auto
qed simp

lemma countAt_update:
  "i < length cs \<Longrightarrow> countAt P a (cs[i := c]) =
     countAt P a cs + of_bool (ca_entry c = a \<and> P c) - of_bool (ca_entry (cs ! i) = a \<and> P (cs ! i))"
  by (simp add: countAt_def length_filter_update)

lemma countAt_snoc: "countAt P a (cs @ [c]) = countAt P a cs + of_bool (ca_entry c = a \<and> P c)"
  by (simp add: countAt_def)

lemma countAt_pos: "i < length cs \<Longrightarrow> ca_entry (cs ! i) = a \<Longrightarrow> P (cs ! i) \<Longrightarrow> 0 < countAt P a cs"
  by (force simp: countAt_def filter_empty_conv in_set_conv_nth)

lemma countAt_two:
  assumes "i < length cs" "j < length cs" "i \<noteq> j" "ca_entry (cs ! i) = a" "ca_entry (cs ! j) = a" "P (cs ! i)" "P (cs ! j)"
  shows "2 \<le> countAt P a cs"
proof -
  have "card {i, j} \<le> card {k. k < length cs \<and> ca_entry (cs ! k) = a \<and> P (cs ! k)}"
    using assms by (intro card_mono) auto
  then show ?thesis using assms(3) by (simp add: countAt_def length_filter_conv_card)
qed

definition lock_inv :: "locker \<Rightarrow> bool" where
  "lock_inv l \<longleftrightarrow>
     (\<forall>i < length (lk_calls l). ca_entry (lk_calls l ! i) < length (lk_heap l) \<and>
        (pinned (lk_calls l ! i) \<longrightarrow> lk_table l (ca_key (lk_calls l ! i)) = Some (ca_entry (lk_calls l ! i)))) \<and>
     (\<forall>k a. lk_table l k = Some a \<longrightarrow> a < length (lk_heap l) \<and> 0 < rm_refs (lk_heap l ! a)) \<and>
     (\<forall>k k' a. lk_table l k = Some a \<longrightarrow> lk_table l k' = Some a \<longrightarrow> k = k') \<and>
     (\<forall>a < length (lk_heap l). rm_refs (lk_heap l ! a) = countAt pinned a (lk_calls l) \<and>
        of_bool (rm_locked (lk_heap l ! a)) = countAt owning a (lk_calls l))"

lemma lock_invD:
  assumes "lock_inv l"
  shows "i < length (lk_calls l) \<Longrightarrow> ca_entry (lk_calls l ! i) < length (lk_heap l)"
    and "i < length (lk_calls l) \<Longrightarrow> pinned (lk_calls l ! i) \<Longrightarrow> lk_table l (ca_key (lk_calls l ! i)) = Some (ca_entry (lk_calls l ! i))"
    and "lk_table l k = Some a \<Longrightarrow> a < length (lk_heap l)"
    and "lk_table l k = Some a \<Longrightarrow> 0 < rm_refs (lk_heap l ! a)"
    and "lk_table l k = Some a \<Longrightarrow> lk_table l k' = Some a \<Longrightarrow> k = k'"
    and "a < length (lk_heap l) \<Longrightarrow> rm_refs (lk_heap l ! a) = countAt pinned a (lk_calls l)"
    and "a < length (lk_heap l) \<Longrightarrow> of_bool (rm_locked (lk_heap l ! a)) = countAt owning a (lk_calls l)"
  using assms unfolding lock_inv_def by blast+

text \<open>A step of a call that keeps its reference changes its phase and, with it, the entry's mutex.\<close>

lemma lock_inv_phase:
  assumes inv: "lock_inv l" and i: "i < length (lk_calls l)" and pin: "pinned (lk_calls l ! i)" "pinned c"
    and c: "ca_key c = ca_key (lk_calls l ! i)" "ca_entry c = ca_entry (lk_calls l ! i)"
    and b: "of_bool b - of_bool (entryLocked i l) = (of_bool (owning c) - of_bool (owning (lk_calls l ! i)) :: int)"
  shows "lock_inv (l\<lparr>lk_heap := (lk_heap l)[ca_entry c := (lk_heap l ! ca_entry c)\<lparr>rm_locked := b\<rparr>],
                    lk_calls := (lk_calls l)[i := c]\<rparr>)"
proof -
  let ?a = "ca_entry c"
  have a: "?a < length (lk_heap l)" using inv i c by (auto simp: lock_inv_def)
  have own: "of_bool (rm_locked (lk_heap l ! ?a)) = countAt owning ?a (lk_calls l)"
    using inv a by (auto simp: lock_inv_def)
  have b': "of_bool b = (of_bool (rm_locked (lk_heap l ! ?a)) + of_bool (owning c) - of_bool (owning (lk_calls l ! i)) :: int)"
    using b c by (simp add: entryLocked_def)
  show ?thesis
    unfolding lock_inv_def
  proof (intro conjI allI impI, goal_cases)
    case (1 k) then show ?case using lock_invD(1)[OF inv, of k] i c a by (cases "i = k") auto
  next
    case (2 k) then show ?case using lock_invD(2)[OF inv, of k] i c pin by (cases "i = k") (auto simp: nth_list_update)
  next
    case (3 k e) then show ?case using lock_invD(3)[OF inv, of k e] by simp
  next
    case (4 k e) then show ?case using lock_invD(4)[OF inv, of k e] a by (cases "e = ?a") auto
  next
    case (5 k k' e) then show ?case using lock_invD(5)[OF inv, of k e k'] by simp
  next
    case (6 e) then show ?case using lock_invD(6)[OF inv, of e] i c pin a by (cases "e = ?a") (auto simp: countAt_update)
  next
    case (7 e)
    then show ?case using lock_invD(7)[OF inv, of e] i c a own b' by (cases "e = ?a") (auto simp: countAt_update)
  qed
qed

lemma put_sel:
  "lk_calls (setPhase i p l) = (lk_calls l)[i := (lk_calls l ! i)\<lparr>ca_phase := p\<rparr>]"
  "lk_heap (setPhase i p l) = lk_heap l" "lk_table (setPhase i p l) = lk_table l"
  "lk_calls (putEntry k a l) = lk_calls l"
  "lk_heap (putEntry k a l) = (lk_heap l)[a := (lk_heap l ! a)\<lparr>rm_refs := rm_refs (lk_heap l ! a) - 1\<rparr>]"
  "a < length (lk_heap l) \<Longrightarrow>
     lk_table (putEntry k a l) = (if rm_refs (lk_heap l ! a) = 1 then (lk_table l)(k := None) else lk_table l)"
  by (simp_all add: setPhase_def putEntry_def updEntry_def Let_def)

lemma lock_inv_put:
  assumes inv: "lock_inv l" and i: "i < length (lk_calls l)" and ph: "ca_phase (lk_calls l ! i) = Leaving"
  shows "lock_inv (setPhase i Finished (putEntry (ca_key (lk_calls l ! i)) (ca_entry (lk_calls l ! i)) l))"
proof -
  let ?c = "lk_calls l ! i" let ?a = "ca_entry (lk_calls l ! i)" let ?k = "ca_key (lk_calls l ! i)"
  have pin: "pinned ?c" and no: "\<not> owning ?c" using ph by (auto simp: pinned_def owning_def)
  have a: "?a < length (lk_heap l)" and tk: "lk_table l ?k = Some ?a"
    using inv i pin by (auto simp: lock_inv_def)
  have refs: "rm_refs (lk_heap l ! ?a) = countAt pinned ?a (lk_calls l)" using inv a by (auto simp: lock_inv_def)
  have fin: "\<not> pinned (?c\<lparr>ca_phase := Finished\<rparr>)" "\<not> owning (?c\<lparr>ca_phase := Finished\<rparr>)" by (auto simp: pinned_def owning_def)
  have other: "j = i" if "rm_refs (lk_heap l ! ?a) = 1" "j < length (lk_calls l)" "pinned (lk_calls l ! j)" "ca_key (lk_calls l ! j) = ?k" for j
  proof (rule ccontr)
    assume "j \<noteq> i"
    moreover have "ca_entry (lk_calls l ! j) = ?a" using inv that tk by (auto simp: lock_inv_def)
    ultimately show False using countAt_two[of i "lk_calls l" j ?a pinned] i that(1,2,3) pin refs by auto
  qed
  have pos: "rm_refs (lk_heap l ! ?a) > 0" by (rule lock_invD(4)[OF inv tk])
  have two: "k = ?k" if "lk_table l k = Some ?a" for k using inv that tk by (auto simp: lock_inv_def)
  show ?thesis
    unfolding lock_inv_def
  proof (intro conjI allI impI, goal_cases)
    case (1 k) then show ?case using lock_invD(1)[OF inv, of k] i a
      by (cases "i = k") (auto simp: put_sel)
  next
    case (2 k)
    then have "k \<noteq> i" using fin i by (auto simp: put_sel)
    with 2 show ?case using lock_invD(2)[OF inv, of k] i a other[of k]
      by (auto simp: put_sel split: if_splits)
  next
    case (3 k b) then show ?case using lock_invD(3)[OF inv, of k b] a
      by (auto simp: put_sel split: if_splits)
  next
    case (4 k b)
    then have "lk_table l k = Some b" using a by (auto simp: put_sel split: if_splits)
    then have "0 < rm_refs (lk_heap l ! b)" "b = ?a \<Longrightarrow> k = ?k" using lock_invD(4)[OF inv] two by auto
    with 4 show ?case using a
      by (auto simp: put_sel nth_list_update split: if_splits)
  next
    case (5 k k' b) then show ?case using lock_invD(5)[OF inv, of k b k'] a
      by (auto simp: put_sel split: if_splits)
  next
    case (6 e) then show ?case using lock_invD(6)[OF inv, of e] i a pin fin
      by (cases "e = ?a") (auto simp: put_sel countAt_update)
  next
    case (7 e) then show ?case using lock_invD(7)[OF inv, of e] i a no fin
      by (cases "e = ?a") (auto simp: put_sel countAt_update)
  qed
qed


lemma lock_inv_start:
  assumes inv: "lock_inv l" and p: "p \<in> {Waiting, Trying}"
  shows "lock_inv (startCall p key l)"
proof (cases "lk_table l key")
  case (Some a)
  let ?c = "\<lparr>ca_key = key, ca_entry = a, ca_phase = p, ca_release = False\<rparr>"
  have c: "pinned ?c" "\<not> owning ?c" using p by (auto simp: pinned_def owning_def)
  have l': "startCall p key l = l\<lparr>lk_heap := (lk_heap l)[a := (lk_heap l ! a)\<lparr>rm_refs := rm_refs (lk_heap l ! a) + 1\<rparr>],
      lk_calls := lk_calls l @ [?c]\<rparr>"
    using Some by (simp add: startCall_def getEntry_def updEntry_def)
  have a: "a < length (lk_heap l)" "0 < rm_refs (lk_heap l ! a)" using lock_invD(3,4)[OF inv Some] by auto
  show ?thesis
    unfolding lock_inv_def l'
  proof (intro conjI allI impI, goal_cases)
    case (1 k) then show ?case using lock_invD(1)[OF inv, of k] a by (auto simp: nth_append)
  next
    case (2 k) then show ?case using lock_invD(2)[OF inv, of k] Some by (auto simp: nth_append)
  next
    case (3 k b) then show ?case using lock_invD(3)[OF inv, of k b] by simp
  next
    case (4 k b) then show ?case using lock_invD(4)[OF inv, of k b] a by (auto simp: nth_list_update)
  next
    case (5 k k' b) then show ?case using lock_invD(5)[OF inv, of k b k'] by simp
  next
    case (6 e) then show ?case using lock_invD(6)[OF inv, of e] a c by (auto simp: nth_list_update countAt_snoc)
  next
    case (7 e) then show ?case using lock_invD(7)[OF inv, of e] a c by (auto simp: nth_list_update countAt_snoc)
  qed
next
  case None
  let ?a = "length (lk_heap l)"
  let ?c = "\<lparr>ca_key = key, ca_entry = ?a, ca_phase = p, ca_release = False\<rparr>"
  have c: "pinned ?c" "\<not> owning ?c" using p by (auto simp: pinned_def owning_def)
  have l': "startCall p key l = l\<lparr>lk_heap := lk_heap l @ [\<lparr>rm_locked = False, rm_refs = 1\<rparr>],
      lk_table := (lk_table l)(key \<mapsto> ?a), lk_calls := lk_calls l @ [?c]\<rparr>"
    using None by (simp add: startCall_def getEntry_def)
  have fresh: "countAt P ?a (lk_calls l) = 0" for P
    using lock_invD(1)[OF inv] by (fastforce simp: countAt_def filter_empty_conv in_set_conv_nth)
  show ?thesis
    unfolding lock_inv_def l'
  proof (intro conjI allI impI, goal_cases)
    case (1 k) then show ?case using lock_invD(1)[OF inv, of k] by (auto simp: nth_append)
  next
    case (2 k) then show ?case using lock_invD(2)[OF inv, of k] None by (auto simp: nth_append)
  next
    case (3 k b) then show ?case using lock_invD(3)[OF inv, of k b] by (auto split: if_splits)
  next
    case (4 k b) then show ?case using lock_invD(3,4)[OF inv, of k b] by (auto simp: nth_append split: if_splits)
  next
    case (5 k k' b)
    then show ?case using lock_invD(5)[OF inv, of k b k'] lock_invD(3)[OF inv, of _ ?a] by (auto split: if_splits)
  next
    case (6 e) then show ?case using lock_invD(6)[OF inv, of e] fresh c
      by (cases "e = ?a") (auto simp: nth_append countAt_snoc)
  next
    case (7 e) then show ?case using lock_invD(7)[OF inv, of e] fresh c
      by (cases "e = ?a") (auto simp: nth_append countAt_snoc)
  qed
qed

lemma phase_step_eqs:
  "setPhase i p (setLocked b i l) =
     l\<lparr>lk_heap := (lk_heap l)[ca_entry (lk_calls l ! i) := (lk_heap l ! ca_entry (lk_calls l ! i))\<lparr>rm_locked := b\<rparr>],
       lk_calls := (lk_calls l)[i := (lk_calls l ! i)\<lparr>ca_phase := p\<rparr>]\<rparr>"
  "handOut i (setLocked b i l) =
     l\<lparr>lk_heap := (lk_heap l)[ca_entry (lk_calls l ! i) := (lk_heap l ! ca_entry (lk_calls l ! i))\<lparr>rm_locked := b\<rparr>],
       lk_calls := (lk_calls l)[i := (lk_calls l ! i)\<lparr>ca_phase := Held, ca_release := True\<rparr>]\<rparr>"
  "setLocked (entryLocked i l) i l = l"
  by (simp_all add: setPhase_def setLocked_def updEntry_def handOut_def entryLocked_def)

lemma lock_inv_set:
  assumes "lock_inv l" "i < length (lk_calls l)" "ca_phase (lk_calls l ! i) \<noteq> Finished" "p \<noteq> Finished"
    and "of_bool b - of_bool (entryLocked i l) =
      (of_bool (p \<in> {Got, Held, DroppedGot}) - of_bool (owning (lk_calls l ! i)) :: int)"
  shows "lock_inv (setPhase i p (setLocked b i l))"
  unfolding phase_step_eqs
  using lock_inv_phase[of l i "(lk_calls l ! i)\<lparr>ca_phase := p\<rparr>" b] assms by (simp add: pinned_def owning_def)

lemma lock_inv_handOut:
  assumes "lock_inv l" "i < length (lk_calls l)" "ca_phase (lk_calls l ! i) \<noteq> Finished"
    and "of_bool b - of_bool (entryLocked i l) = (1 - of_bool (owning (lk_calls l ! i)) :: int)"
  shows "lock_inv (handOut i (setLocked b i l))"
  unfolding phase_step_eqs
  using lock_inv_phase[of l i "(lk_calls l ! i)\<lparr>ca_phase := Held, ca_release := True\<rparr>" b] assms by (simp add: pinned_def owning_def)

lemma owning_locked:
  assumes "lock_inv l" "i < length (lk_calls l)" "owning (lk_calls l ! i)"
  shows "entryLocked i l"
proof -
  have "0 < countAt owning (ca_entry (lk_calls l ! i)) (lk_calls l)"
    using assms by (intro countAt_pos) auto
  then have "(0::int) < of_bool (entryLocked i l)"
    using lock_invD(7)[OF assms(1) lock_invD(1)[OF assms(1,2)]] by (simp add: entryLocked_def)
  then show ?thesis by (cases "entryLocked i l") auto
qed

lemma lockStepE:
  assumes "lockStep a l = Some l'"
  shows "callOf a = Some i \<Longrightarrow> i < length (lk_calls l)"
    and "acquireStep a l = Some l' \<or> tryAcquireStep a l = Some l'"
  using assms by (auto simp: lockStep_def split: if_splits option.splits)

lemma lock_inv_plain:
  assumes "lock_inv l" "i < length (lk_calls l)" "ca_phase (lk_calls l ! i) \<noteq> Finished" "p \<noteq> Finished"
    and "p \<in> {Got, Held, DroppedGot} \<longleftrightarrow> owning (lk_calls l ! i)"
  shows "lock_inv (setPhase i p l)"
proof -
  have "of_bool (entryLocked i l) - of_bool (entryLocked i l) =
      (of_bool (p \<in> {Got, Held, DroppedGot}) - of_bool (owning (lk_calls l ! i)) :: int)"
    using assms(5) by simp
  from lock_inv_set[OF assms(1-4) this] show ?thesis by (simp add: phase_step_eqs(3))
qed

lemma lock_inv_plain_handOut:
  assumes "lock_inv l" "i < length (lk_calls l)" "ca_phase (lk_calls l ! i) = Got"
  shows "lock_inv (handOut i l)"
  using lock_inv_handOut[OF assms(1,2), of "entryLocked i l"] assms(3) by (simp add: phase_step_eqs(3) owning_def)

lemma lock_inv_step:
  assumes inv: "lock_inv l" and st: "lockStep a l = Some l'"
  shows "lock_inv l'"
proof -
  note i = lockStepE(1)[OF st] and two = lockStepE(2)[OF st]
  show ?thesis
  proof (cases a)
    case (Acquire key) then show ?thesis using two inv by (auto intro: lock_inv_start)
  next
    case (TryAcquire key) then show ?thesis using two inv by (auto intro: lock_inv_start)
  next
    case (GrabMutex k) then show ?thesis using two inv i[of k]
      by (auto split: if_splits phase.splits intro!: lock_inv_set simp: owning_def)
  next
    case (SelectGot k) then show ?thesis using two inv i[of k] by (auto split: if_splits intro: lock_inv_plain_handOut)
  next
    case (SelectDone k) then show ?thesis using two inv i[of k]
      by (auto split: phase.splits intro!: lock_inv_plain simp: owning_def)
  next
    case (Release k) then show ?thesis using two inv i[of k] owning_locked[OF inv, of k]
      by (auto split: if_splits intro!: lock_inv_set simp: owning_def)
  next
    case (DropMutex k) then show ?thesis using two inv i[of k] owning_locked[OF inv, of k]
      by (auto split: if_splits intro!: lock_inv_set simp: owning_def)
  next
    case (Put k) then show ?thesis using two inv i[of k] by (auto split: if_splits intro: lock_inv_put)
  next
    case (TryLock k) then show ?thesis using two inv i[of k]
      by (auto split: if_splits intro!: lock_inv_plain lock_inv_handOut simp: owning_def)
  qed
qed

lemma lock_inv_reach: "lock_reach l \<Longrightarrow> lock_inv l"
proof (induction rule: lock_reach.induct)
  case init
  show ?case by (simp add: lock_inv_def NewInProcessLocker_def)
next
  case (step l a l')
  then show ?case by (blast intro: lock_inv_step)
qed


section \<open>Who holds a key\<close>

definition holder :: "locker \<Rightarrow> string \<Rightarrow> nat option" where
  "holder l key = find (\<lambda>i. ca_phase (lk_calls l ! i) = Held \<and> ca_key (lk_calls l ! i) = key) [0..<length (lk_calls l)]"

definition exclusive :: "locker \<Rightarrow> bool" where
  "exclusive l \<longleftrightarrow> distinct (map ca_key (filter (\<lambda>c. ca_phase c = Held) (lk_calls l)))"

lemma same_owner:
  assumes inv: "lock_inv l" and i: "i < length (lk_calls l)" "owning (lk_calls l ! i)"
    and j: "j < length (lk_calls l)" "owning (lk_calls l ! j)" and key: "ca_key (lk_calls l ! i) = ca_key (lk_calls l ! j)"
  shows "i = j"
proof (rule ccontr)
  assume ne: "i \<noteq> j"
  have "pinned (lk_calls l ! i)" "pinned (lk_calls l ! j)" using i j by (auto simp: pinned_def owning_def)
  then have e: "ca_entry (lk_calls l ! j) = ca_entry (lk_calls l ! i)"
    using lock_invD(2)[OF inv i(1)] lock_invD(2)[OF inv j(1)] key by simp
  have "2 \<le> countAt owning (ca_entry (lk_calls l ! i)) (lk_calls l)"
    using countAt_two[of i "lk_calls l" j _ owning] i j ne e by simp
  moreover have "countAt owning (ca_entry (lk_calls l ! i)) (lk_calls l) \<le> 1"
    using lock_invD(7)[OF inv lock_invD(1)[OF inv i(1)]] by (cases "rm_locked (lk_heap l ! ca_entry (lk_calls l ! i))") auto
  ultimately show False by simp
qed

lemma holder_iff:
  assumes "lock_inv l"
  shows "holder l key = Some i \<longleftrightarrow>
    i < length (lk_calls l) \<and> ca_phase (lk_calls l ! i) = Held \<and> ca_key (lk_calls l ! i) = key" (is "?l \<longleftrightarrow> ?r i")
proof -
  have one: "?r j \<Longrightarrow> ?r i \<Longrightarrow> j = i" for j i using same_owner[OF assms, of j i] by (auto simp: owning_def)
  have "?r j \<Longrightarrow> holder l key \<noteq> None" for j by (auto simp: holder_def find_None_iff)
  moreover have "holder l key = Some j \<Longrightarrow> ?r j" for j by (auto simp: holder_def find_Some_iff)
  ultimately show ?thesis using one by blast
qed

lemma exclusive_inv:
  assumes "lock_inv l"
  shows "exclusive l"
proof -
  have "distinct (map ca_key (filter (\<lambda>c. ca_phase c = Held) cs))"
    if u: "\<And>i j. i < length cs \<Longrightarrow> j < length cs \<Longrightarrow> ca_phase (cs ! i) = Held \<Longrightarrow> ca_phase (cs ! j) = Held \<Longrightarrow>
             ca_key (cs ! i) = ca_key (cs ! j) \<Longrightarrow> i = j" for cs
    using u
  proof (induction cs)
    case (Cons c cs)
    have "i = j" if "i < length cs" "j < length cs" "ca_phase (cs ! i) = Held" "ca_phase (cs ! j) = Held"
        "ca_key (cs ! i) = ca_key (cs ! j)" for i j using Cons.prems[of "Suc i" "Suc j"] that by simp
    moreover have "ca_key c \<notin> ca_key ` {x \<in> set cs. ca_phase x = Held}" if "ca_phase c = Held"
    proof
      assume "ca_key c \<in> ca_key ` {x \<in> set cs. ca_phase x = Held}"
      then obtain k where "k < length cs" "ca_phase (cs ! k) = Held" "ca_key c = ca_key (cs ! k)"
        by (auto simp: in_set_conv_nth)
      then show False using Cons.prems[of 0 "Suc k"] that by simp
    qed
    ultimately show ?case using Cons.IH by simp
  qed simp
  from this[of "lk_calls l"] show ?thesis unfolding exclusive_def using same_owner[OF assms] by (auto simp: owning_def)
qed

lemma holder_eqI:
  assumes "lock_inv l"
    and "\<And>i. (i < length (lk_calls l) \<and> ca_phase (lk_calls l ! i) = Held \<and> ca_key (lk_calls l ! i) = key) = (x = Some i)"
  shows "holder l key = x"
  using holder_iff[OF assms(1), of key] assms(2) by (metis option.exhaust)

text \<open>The three kinds of step as the callers see them.\<close>

lemma holder_same:
  assumes "lock_inv l" "lock_inv l'" "length (lk_calls l) \<le> length (lk_calls l')"
    and "\<And>j. j < length (lk_calls l) \<Longrightarrow> ca_key (lk_calls l' ! j) = ca_key (lk_calls l ! j) \<and>
            (ca_phase (lk_calls l' ! j) = Held) = (ca_phase (lk_calls l ! j) = Held)"
    and "\<And>j. length (lk_calls l) \<le> j \<Longrightarrow> j < length (lk_calls l') \<Longrightarrow> ca_phase (lk_calls l' ! j) \<noteq> Held"
  shows "holder l' = holder l"
proof
  fix key
  show "holder l' key = holder l key"
    using holder_eqI[OF assms(2), of key "holder l key"] holder_iff[OF assms(1), of key] assms(3-5)
    by (metis linorder_not_le order_less_le_trans)
qed

lemma holder_granted:
  assumes "lock_inv l" "lock_inv l'" "length (lk_calls l') = length (lk_calls l)" "i < length (lk_calls l)"
    and "ca_phase (lk_calls l ! i) \<noteq> Held" "ca_phase (lk_calls l' ! i) = Held"
    and "\<And>j. j < length (lk_calls l) \<Longrightarrow> ca_key (lk_calls l' ! j) = ca_key (lk_calls l ! j)"
    and "\<And>j. j < length (lk_calls l) \<Longrightarrow> j \<noteq> i \<Longrightarrow> ca_phase (lk_calls l' ! j) = ca_phase (lk_calls l ! j)"
  shows "holder l (ca_key (lk_calls l ! i)) = None \<and> holder l' = (holder l)(ca_key (lk_calls l ! i) \<mapsto> i)"
proof -
  let ?k = "ca_key (lk_calls l ! i)"
  have held: "holder l' ?k = Some i" using holder_iff[OF assms(2)] assms by simp
  have "holder l ?k = None"
  proof (rule ccontr)
    assume "\<not> holder l ?k = None"
    then obtain j where j: "holder l ?k = Some j" by blast
    then have "j < length (lk_calls l)" "ca_phase (lk_calls l ! j) = Held" "ca_key (lk_calls l ! j) = ?k"
      using holder_iff[OF assms(1)] by auto
    then have "holder l' ?k = Some j" using holder_iff[OF assms(2)] assms by (metis)
    with held have "j = i" by simp
    with \<open>ca_phase (lk_calls l ! j) = Held\<close> assms show False by simp
  qed
  moreover have "holder l' key = holder l key" if "key \<noteq> ?k" for key
    using holder_eqI[OF assms(2), of key "holder l key"] holder_iff[OF assms(1), of key] assms(3-8) that by metis
  ultimately show ?thesis using held by auto
qed

lemma holder_freed:
  assumes "lock_inv l" "lock_inv l'" "length (lk_calls l') = length (lk_calls l)" "i < length (lk_calls l)"
    and "ca_phase (lk_calls l ! i) = Held" "ca_phase (lk_calls l' ! i) \<noteq> Held"
    and "\<And>j. j < length (lk_calls l) \<Longrightarrow> ca_key (lk_calls l' ! j) = ca_key (lk_calls l ! j)"
    and "\<And>j. j < length (lk_calls l) \<Longrightarrow> j \<noteq> i \<Longrightarrow> ca_phase (lk_calls l' ! j) = ca_phase (lk_calls l ! j)"
  shows "holder l (ca_key (lk_calls l ! i)) = Some i \<and> holder l' = (holder l)(ca_key (lk_calls l ! i) := None)"
proof -
  let ?k = "ca_key (lk_calls l ! i)"
  have held: "holder l ?k = Some i" using holder_iff[OF assms(1)] assms by simp
  have "holder l' ?k = None"
  proof (rule ccontr)
    assume "\<not> holder l' ?k = None"
    then obtain j where j: "holder l' ?k = Some j" by blast
    then have "j < length (lk_calls l)" "ca_phase (lk_calls l' ! j) = Held" "ca_key (lk_calls l' ! j) = ?k"
      using holder_iff[OF assms(2)] assms(3) by auto
    then have "holder l ?k = Some j" using holder_iff[OF assms(1)] assms by metis
    with held have "j = i" by simp
    with \<open>ca_phase (lk_calls l' ! j) = Held\<close> assms show False by simp
  qed
  moreover have "holder l' key = holder l key" if "key \<noteq> ?k" for key
    using holder_eqI[OF assms(2), of key "holder l key"] holder_iff[OF assms(1), of key] assms(3-8) that by metis
  ultimately show ?thesis using held by auto
qed

section \<open>The work left\<close>

fun toDo :: "phase \<Rightarrow> nat" where
  "toDo Waiting = 4" | "toDo Got = 3" | "toDo Held = 2" | "toDo Dropped = 3" | "toDo DroppedGot = 2"
| "toDo Trying = 3" | "toDo Leaving = 1" | "toDo Finished = 0"

definition work :: "locker \<Rightarrow> nat" where
  "work l = sum_list (map (\<lambda>c. toDo (ca_phase c)) (lk_calls l))"

lemma work_update:
  assumes "lk_calls l' = (lk_calls l)[i := c]" "i < length (lk_calls l)" "toDo (ca_phase c) < toDo (ca_phase (lk_calls l ! i))"
  shows "work l' < work l"
proof -
  have "toDo (ca_phase (lk_calls l ! i)) \<le> work l"
    using assms(2) by (auto simp: work_def intro: member_le_sum_list)
  then show ?thesis using assms by (simp add: work_def map_update sum_list_update)
qed

section \<open>The properties of the lock\<close>

text \<open>What the users of the keyed lock rely on.\<close>

lemma lock_calls_step:
  assumes "lockStep a l = Some l'"
  shows "(callOf a = None \<and> (\<exists>c. lk_calls l' = lk_calls l @ [c] \<and> ca_phase c \<in> {Waiting, Trying})) \<or>
     (\<exists>i c. callOf a = Some i \<and> i < length (lk_calls l) \<and> lk_calls l' = (lk_calls l)[i := c] \<and>
        ca_key c = ca_key (lk_calls l ! i) \<and>
        (toDo (ca_phase c) < toDo (ca_phase (lk_calls l ! i)) \<or> l' = l) \<and>
        (ca_phase c = Held \<and> ca_phase (lk_calls l ! i) \<noteq> Held \<longrightarrow> a = SelectGot i \<or> a = TryLock i) \<and>
        (ca_phase c \<noteq> Held \<and> ca_phase (lk_calls l ! i) = Held \<longrightarrow> a = Release i))"
proof -
  note i = lockStepE(1)[OF assms] and two = lockStepE(2)[OF assms]
  have u: "lk_calls (setPhase k p l) = (lk_calls l)[k := (lk_calls l ! k)\<lparr>ca_phase := p\<rparr>]"
    "lk_calls (setLocked b k l) = lk_calls l"
    "lk_calls (handOut k l) = (lk_calls l)[k := (lk_calls l ! k)\<lparr>ca_phase := Held, ca_release := True\<rparr>]"
    "lk_calls (putEntry key e l) = lk_calls l" for k p b l key e
    by (auto simp: setPhase_def setLocked_def handOut_def updEntry_def putEntry_def Let_def)
  have s: "\<exists>c. lk_calls (startCall p key l) = lk_calls l @ [c] \<and> ca_phase c = p" for p key
    by (auto simp: startCall_def getEntry_def updEntry_def split: option.splits)
  have same: "\<exists>c. lk_calls l = (lk_calls l)[k := c] \<and> ca_key c = ca_key (lk_calls l ! k) \<and> ca_phase c = ca_phase (lk_calls l ! k)" for k
    by (rule exI[of _ "lk_calls l ! k"]) simp
  have mv: ?thesis
    if "callOf a = Some k" "lk_calls l' = (lk_calls l)[k := c]" "ca_key c = ca_key (lk_calls l ! k)"
      "toDo (ca_phase c) < toDo (ca_phase (lk_calls l ! k)) \<or> l' = l"
      "ca_phase c = Held \<and> ca_phase (lk_calls l ! k) \<noteq> Held \<longrightarrow> a = SelectGot k \<or> a = TryLock k"
      "ca_phase c \<noteq> Held \<and> ca_phase (lk_calls l ! k) = Held \<longrightarrow> a = Release k" for k c
    using that i[OF that(1)] by blast
  let ?to = "\<lambda>k p. (lk_calls l ! k)\<lparr>ca_phase := p\<rparr>"
  let ?held = "\<lambda>k. (lk_calls l ! k)\<lparr>ca_phase := Held, ca_release := True\<rparr>"
  show ?thesis
  proof (cases a)
    case (Acquire key) then show ?thesis using two s[of Waiting key] by auto
  next
    case (TryAcquire key) then show ?thesis using two s[of Trying key] by auto
  next
    case (GrabMutex k)
    show ?thesis
    proof (cases "ca_phase (lk_calls l ! k) = Waiting")
      case True
      with GrabMutex two show ?thesis by (intro mv[of k "?to k Got"]) (auto split: if_splits simp: u)
    next
      case False
      with GrabMutex two show ?thesis by (intro mv[of k "?to k DroppedGot"]) (auto split: if_splits phase.splits simp: u)
    qed
  next
    case (SelectGot k)
    with two show ?thesis by (intro mv[of k "?held k"]) (auto split: if_splits simp: u)
  next
    case (SelectDone k)
    show ?thesis
    proof (cases "ca_phase (lk_calls l ! k) = Waiting")
      case True
      with SelectDone two show ?thesis by (intro mv[of k "?to k Dropped"]) (auto simp: u)
    next
      case False
      with SelectDone two show ?thesis by (intro mv[of k "?to k DroppedGot"]) (auto split: phase.splits simp: u)
    qed
  next
    case (Release k)
    show ?thesis
    proof (cases "ca_phase (lk_calls l ! k) = Held")
      case True
      with Release two show ?thesis by (intro mv[of k "?to k Leaving"]) (auto split: if_splits simp: u)
    next
      case False
      with Release two show ?thesis by (intro mv[of k "lk_calls l ! k"]) (auto split: if_splits)
    qed
  next
    case (DropMutex k)
    with two show ?thesis by (intro mv[of k "?to k Leaving"]) (auto split: if_splits simp: u)
  next
    case (Put k)
    with two show ?thesis by (intro mv[of k "?to k Finished"]) (auto split: if_splits simp: u)
  next
    case (TryLock k)
    show ?thesis
    proof (cases "entryLocked k l")
      case True
      with TryLock two show ?thesis by (intro mv[of k "?to k Leaving"]) (auto split: if_splits simp: u)
    next
      case False
      with TryLock two show ?thesis by (intro mv[of k "?held k"]) (auto split: if_splits simp: u)
    qed
  qed
qed

text \<open>
  C24.  The keyed lock implements one lock per key although entries are shared, deleted when
  their count is zero and made again: in every reachable state no two callers hold one key, and
  a step leaves the holders as they are, grants a free key to the call that takes it, or frees
  the key of the call that releases it.
\<close>

theorem lock_implements_one_lock_per_key:
  assumes "lock_reach l" "lockStep a l = Some l'"
  shows "exclusive l' \<and>
     (holder l' = holder l \<or>
      (\<exists>i key. (a = SelectGot i \<or> a = TryLock i) \<and> holder l key = None \<and> holder l' = (holder l)(key \<mapsto> i)) \<or>
      (\<exists>i key. a = Release i \<and> holder l key = Some i \<and> holder l' = (holder l)(key := None)))"
proof -
  have inv: "lock_inv l" "lock_inv l'" using lock_inv_reach[OF assms(1)] lock_inv_step[OF _ assms(2)] by auto
  have ex: "exclusive l'" by (rule exclusive_inv[OF inv(2)])
  from lock_calls_step[OF assms(2)]
  consider (started) c where "lk_calls l' = lk_calls l @ [c]" "ca_phase c \<in> {Waiting, Trying}"
    | (moved) i c where "i < length (lk_calls l)" "lk_calls l' = (lk_calls l)[i := c]" "ca_key c = ca_key (lk_calls l ! i)"
        "ca_phase c = Held \<and> ca_phase (lk_calls l ! i) \<noteq> Held \<longrightarrow> a = SelectGot i \<or> a = TryLock i"
        "ca_phase c \<noteq> Held \<and> ca_phase (lk_calls l ! i) = Held \<longrightarrow> a = Release i" by blast
  then show ?thesis
  proof cases
    case (started c)
    then have c: "lk_calls l' = lk_calls l @ [c]" "ca_phase c \<in> {Waiting, Trying}" .
    have "holder l' = holder l" by (rule holder_same[OF inv]) (use c in \<open>auto simp: nth_append\<close>)
    with ex show ?thesis by simp
  next
    case (moved i c)
    note i = moved(1) and c = moved(2,3) and g = moved(4) and f = moved(5)
    have len: "length (lk_calls l') = length (lk_calls l)" using c by simp
    have keys: "ca_key (lk_calls l' ! j) = ca_key (lk_calls l ! j)" if "j < length (lk_calls l)" for j
      using that c by (cases "j = i") auto
    have rest: "ca_phase (lk_calls l' ! j) = ca_phase (lk_calls l ! j)" if "j < length (lk_calls l)" "j \<noteq> i" for j
      using that c by simp
    have at: "ca_phase (lk_calls l' ! i) = ca_phase c" using i c by simp
    consider "ca_phase c = Held" "ca_phase (lk_calls l ! i) \<noteq> Held" | "ca_phase c \<noteq> Held" "ca_phase (lk_calls l ! i) = Held"
      | "(ca_phase c = Held) = (ca_phase (lk_calls l ! i) = Held)" by blast
    then show ?thesis
    proof cases
      case 1 then show ?thesis using holder_granted[OF inv len i] keys rest at g ex by metis
    next
      case 2 then show ?thesis using holder_freed[OF inv len i] keys rest at f ex by metis
    next
      case 3
      have "holder l' = holder l"
      proof (rule holder_same[OF inv], goal_cases)
        case (2 j) then show ?case using 3 keys[of j] rest[of j] at by (cases "j = i") auto
      qed (use len in auto)
      with ex show ?thesis by simp
    qed
  qed
qed

definition lockTrace :: "lock_act list \<Rightarrow> locker" where
  "lockTrace as = fold (\<lambda>a l. case lockStep a l of Some l' \<Rightarrow> l' | None \<Rightarrow> l) as NewInProcessLocker"

lemma lockTrace_reach: "lock_reach (lockTrace as)"
proof (induction as rule: rev_induct)
  case Nil then show ?case by (simp add: lockTrace_def lock_reach.init)
next
  case (snoc a as)
  then show ?case by (auto simp: lockTrace_def split: option.splits intro: lock_reach.step)
qed

text \<open>Two callers of one key: the first holds it, the second gave up waiting and the entry stays.\<close>

definition lockSample :: locker where
  "lockSample = lockTrace [Acquire ''m'', Acquire ''m'', GrabMutex 0, SelectDone 1]"

lemma lockSample_simps:
  "lockSample = \<lparr>lk_table = (\<lambda>_. None)(''m'' \<mapsto> 0), lk_heap = [\<lparr>rm_locked = True, rm_refs = 2\<rparr>],
     lk_calls = [\<lparr>ca_key = ''m'', ca_entry = 0, ca_phase = Got, ca_release = False\<rparr>,
                 \<lparr>ca_key = ''m'', ca_entry = 0, ca_phase = Dropped, ca_release = False\<rparr>]\<rparr>"
  by (simp add: lockSample_def lockTrace_def lockStep_def NewInProcessLocker_def startCall_def getEntry_def updEntry_def
      entryLocked_def setPhase_def setLocked_def)

lemma lock_implements_one_lock_per_key_witness:
  "holder lockSample ''m'' = None \<and> holder (handOut 0 lockSample) ''m'' = Some 0 \<and> exclusive (handOut 0 lockSample)"
proof -
  have "lockStep (SelectGot 0) lockSample = Some (handOut 0 lockSample)"
    by (simp add: lockStep_def lockSample_simps)
  from lock_implements_one_lock_per_key[OF lockTrace_reach this[unfolded lockSample_def]]
  have "exclusive (handOut 0 lockSample)" by (simp add: lockSample_def)
  then show ?thesis by (simp add: holder_def lockSample_simps handOut_def)
qed

text \<open>
  C25.  The lock's table does not grow with the keys ever used: in every reachable state a key
  has an entry exactly while some call of that key still refers to it, and the entry's count is
  the number of those calls, abandoned ones included.
\<close>

theorem lock_entries_are_reclaimed:
  assumes "lock_reach l"
  shows "(lk_table l key = None) = (filter (\<lambda>c. ca_key c = key \<and> ca_phase c \<noteq> Finished) (lk_calls l) = []) \<and>
     (lk_table l key = Some e \<longrightarrow>
        rm_refs (lk_heap l ! e) = int (length (filter (\<lambda>c. ca_key c = key \<and> ca_phase c \<noteq> Finished) (lk_calls l))))"
proof -
  note inv = lock_inv_reach[OF assms]
  have cnt: "rm_refs (lk_heap l ! a) = int (length (filter (\<lambda>c. ca_key c = key \<and> ca_phase c \<noteq> Finished) (lk_calls l)))"
    if t: "lk_table l key = Some a" for a
  proof -
    have "(ca_entry c = a \<and> pinned c) = (ca_key c = key \<and> ca_phase c \<noteq> Finished)" if c: "c \<in> set (lk_calls l)" for c
    proof -
      obtain n where n: "n < length (lk_calls l)" "c = lk_calls l ! n" using c by (auto simp: in_set_conv_nth)
      have "pinned c \<Longrightarrow> lk_table l (ca_key c) = Some (ca_entry c)" using lock_invD(2)[OF inv n(1)] n(2) by simp
      moreover have "lk_table l (ca_key c) = Some a \<Longrightarrow> key = ca_key c" by (rule lock_invD(5)[OF inv t])
      ultimately show ?thesis using t by (auto simp: pinned_def)
    qed
    then have "filter (\<lambda>c. ca_entry c = a \<and> pinned c) (lk_calls l) = filter (\<lambda>c. ca_key c = key \<and> ca_phase c \<noteq> Finished) (lk_calls l)"
      by (rule filter_cong[OF refl])
    then show ?thesis using lock_invD(6)[OF inv lock_invD(3)[OF inv t]] by (simp add: countAt_def)
  qed
  have "lk_table l key = None \<Longrightarrow> filter (\<lambda>c. ca_key c = key \<and> ca_phase c \<noteq> Finished) (lk_calls l) = []"
    using lock_invD(2)[OF inv] by (fastforce simp: filter_empty_conv in_set_conv_nth pinned_def)
  moreover have "filter (\<lambda>c. ca_key c = key \<and> ca_phase c \<noteq> Finished) (lk_calls l) \<noteq> []" if "lk_table l key = Some a" for a
    using cnt[OF that] lock_invD(4)[OF inv that] by auto
  ultimately show ?thesis using cnt by (cases "lk_table l key") auto
qed

lemma lock_entries_are_reclaimed_witness: "lk_table lockSample ''m'' \<noteq> None \<and> lk_table lockSample ''n'' = None"
  using lock_entries_are_reclaimed[OF lockTrace_reach, of "[Acquire ''m'', Acquire ''m'', GrabMutex 0, SelectDone 1]" "''m''"]
    lock_entries_are_reclaimed[OF lockTrace_reach, of "[Acquire ''m'', Acquire ''m'', GrabMutex 0, SelectDone 1]" "''n''"]
  unfolding lockSample_def[symmetric] by (simp add: lockSample_simps)

text \<open>A locked entry has an owner, and a call that owns its entry or finds it open can step.\<close>

lemma owning_pinned: "owning c \<Longrightarrow> pinned c"
  by (auto simp: owning_def pinned_def)

lemma lock_owner:
  assumes inv: "lock_inv l" and i: "i < length (lk_calls l)" "pinned (lk_calls l ! i)" "entryLocked i l"
  obtains j where "j < length (lk_calls l)" "owning (lk_calls l ! j)" "ca_key (lk_calls l ! j) = ca_key (lk_calls l ! i)"
proof -
  let ?e = "ca_entry (lk_calls l ! i)"
  have "countAt owning ?e (lk_calls l) = 1"
    using lock_invD(7)[OF inv lock_invD(1)[OF inv i(1)]] i(3) by (simp add: entryLocked_def)
  then have "filter (\<lambda>c. ca_entry c = ?e \<and> owning c) (lk_calls l) \<noteq> []" by (auto simp: countAt_def)
  then obtain j where j: "j < length (lk_calls l)" "ca_entry (lk_calls l ! j) = ?e" "owning (lk_calls l ! j)"
    by (auto simp: filter_empty_conv in_set_conv_nth)
  have "ca_key (lk_calls l ! j) = ca_key (lk_calls l ! i)"
    using lock_invD(2)[OF inv i(1,2)] lock_invD(2)[OF inv j(1)] lock_invD(5)[OF inv] j by (auto simp: pinned_def owning_def)
  then show thesis using that j by blast
qed

lemma lock_next_step:
  assumes i: "i < length (lk_calls l)" "pinned (lk_calls l ! i)" "ca_phase (lk_calls l ! i) \<noteq> Held"
    and go: "owning (lk_calls l ! i) \<or> \<not> entryLocked i l"
  obtains b m where "callOf b = Some i" "b \<noteq> SelectDone i" "lockStep b l = Some m" "m \<noteq> l"
proof -
  have ph: "ca_phase (lk_calls l ! k) \<noteq> ca_phase (lk_calls m ! k) \<Longrightarrow> m \<noteq> l" for k m by auto
  have "\<exists>b m. callOf b = Some i \<and> b \<noteq> SelectDone i \<and> lockStep b l = Some m \<and> m \<noteq> l"
  proof (cases "ca_phase (lk_calls l ! i)")
    case Waiting
    then show ?thesis using i go
      by (intro exI[of _ "GrabMutex i"] exI[of _ "setPhase i Got (setLocked True i l)"])
        (auto simp: lockStep_def phase_step_eqs owning_def intro!: ph[of i])
  next
    case Dropped
    then show ?thesis using i go
      by (intro exI[of _ "GrabMutex i"] exI[of _ "setPhase i DroppedGot (setLocked True i l)"])
        (auto simp: lockStep_def phase_step_eqs owning_def intro!: ph[of i])
  next
    case Trying
    then show ?thesis using i go
      by (intro exI[of _ "TryLock i"] exI[of _ "handOut i (setLocked True i l)"])
        (auto simp: lockStep_def phase_step_eqs owning_def intro!: ph[of i])
  next
    case Got
    then show ?thesis using i
      by (intro exI[of _ "SelectGot i"] exI[of _ "handOut i l"]) (auto simp: lockStep_def handOut_def intro!: ph[of i])
  next
    case DroppedGot
    then show ?thesis using i
      by (intro exI[of _ "DropMutex i"] exI[of _ "setPhase i Leaving (setLocked False i l)"])
        (auto simp: lockStep_def phase_step_eqs intro!: ph[of i])
  next
    case Leaving
    then show ?thesis using i
      by (intro exI[of _ "Put i"] exI[of _ "setPhase i Finished (putEntry (ca_key (lk_calls l ! i)) (ca_entry (lk_calls l ! i)) l)"])
        (auto simp: lockStep_def put_sel intro!: ph[of i])
  qed (use i in \<open>simp_all add: pinned_def\<close>)
  then show thesis using that by blast
qed

text \<open>
  C26.  No call of the lock is lost: every step of a call, a repeated release apart, takes work
  off the calls, so they cannot run for ever, and while a call for a key that nobody holds is
  unfinished some call of that key can make such a step, without a context being cancelled.
\<close>

theorem lock_makes_progress:
  assumes "lock_reach l"
  shows "(callOf a \<noteq> None \<and> lockStep a l = Some l' \<longrightarrow> work l' < work l \<or> l' = l) \<and>
     (i < length (lk_calls l) \<and> ca_phase (lk_calls l ! i) \<noteq> Finished \<and> holder l (ca_key (lk_calls l ! i)) = None \<longrightarrow>
        (\<exists>b j m. callOf b = Some j \<and> b \<noteq> SelectDone j \<and> j < length (lk_calls l) \<and>
           ca_key (lk_calls l ! j) = ca_key (lk_calls l ! i) \<and> lockStep b l = Some m \<and> work m < work l))"
proof (intro conjI impI)
  assume "callOf a \<noteq> None \<and> lockStep a l = Some l'"
  then show "work l' < work l \<or> l' = l" using lock_calls_step[of a l l'] work_update[of l' l] by fastforce
next
  note inv = lock_inv_reach[OF assms]
  assume h: "i < length (lk_calls l) \<and> ca_phase (lk_calls l ! i) \<noteq> Finished \<and> holder l (ca_key (lk_calls l ! i)) = None"
  let ?key = "ca_key (lk_calls l ! i)"
  have i: "i < length (lk_calls l)" "pinned (lk_calls l ! i)" using h by (auto simp: pinned_def)
  have free: "ca_phase (lk_calls l ! j) \<noteq> Held" if "j < length (lk_calls l)" "ca_key (lk_calls l ! j) = ?key" for j
    using h that holder_iff[OF inv, of ?key j] by auto
  obtain j where j: "j < length (lk_calls l)" "ca_key (lk_calls l ! j) = ?key" "pinned (lk_calls l ! j)"
      "owning (lk_calls l ! j) \<or> \<not> entryLocked j l"
  proof (cases "entryLocked i l")
    case True
    with lock_owner[OF inv i] that show ?thesis by (metis owning_pinned)
  next
    case False
    with i that[of i] show ?thesis by simp
  qed
  obtain b m where b: "callOf b = Some j" "b \<noteq> SelectDone j" "lockStep b l = Some m" "m \<noteq> l"
    using lock_next_step[OF j(1,3) free[OF j(1,2)] j(4)] by blast
  have "work m < work l" using lock_calls_step[OF b(3)] b work_update[of m l] by fastforce
  then show "\<exists>b j m. callOf b = Some j \<and> b \<noteq> SelectDone j \<and> j < length (lk_calls l) \<and>
           ca_key (lk_calls l ! j) = ?key \<and> lockStep b l = Some m \<and> work m < work l"
    using b j by blast
qed

lemma lock_makes_progress_witness: "work (handOut 0 lockSample) < work lockSample"
proof -
  have "lockStep (SelectGot 0) lockSample = Some (handOut 0 lockSample)"
    by (simp add: lockStep_def lockSample_simps)
  moreover have "handOut 0 lockSample \<noteq> lockSample" by (simp add: lockSample_simps handOut_def)
  ultimately show ?thesis
    using lock_makes_progress[OF lockTrace_reach, folded lockSample_def, where a="SelectGot 0" and l'="handOut 0 lockSample"]
    by (auto simp: lockSample_def)
qed

end
