(* ===== verification/Keyring.thy ===== *)
theory Keyring
  imports Session NetIP
begin

text \<open>
  The encryption of stored secrets (\<open>pkg/crypto/crypto.go\<close>): the key ring with several key
  versions, the textual form \<open>v1:<key_id>:<nonce>:<ciphertext>\<close>, and base64 with padding.
  AES-GCM itself is a parameter: \<open>seal key nonce plaintext\<close> and its partial inverse \<open>opn\<close>.
\<close>

section \<open>\<open>base64.StdEncoding\<close>\<close>

definition stdAlphabet :: string where
  "stdAlphabet = ''ABCDEFGHIJKLMNOPQRSTUVWXYZabcdefghijklmnopqrstuvwxyz0123456789+/''"

definition stdChar :: "nat \<Rightarrow> char" where "stdChar n = stdAlphabet ! n"

definition stdVal :: "char \<Rightarrow> nat option" where
  "stdVal c = (let n = (of_char c :: nat) in
     if 65 \<le> n \<and> n \<le> 90 then Some (n - 65)
     else if 97 \<le> n \<and> n \<le> 122 then Some (n - 71)
     else if 48 \<le> n \<and> n \<le> 57 then Some (n + 4)
     else if n = 43 then Some 62 else if n = 47 then Some 63 else None)"

definition stdPad :: "string \<Rightarrow> string" where
  "stdPad ds = ds @ replicate ((4 - length ds mod 4) mod 4) (CHR ''='')"

definition stdEncode :: "string \<Rightarrow> string" where
  "stdEncode s = stdPad (map stdChar (b64Groups (map of_char s)))"

text \<open>
  The decoder skips line breaks, wants whole groups of four with \<open>=\<close> at the very end only, and
  does not look at the unused bits of the last digit.
\<close>

fun stdDigits :: "string \<Rightarrow> string option" where
  "stdDigits [] = Some []"
| "stdDigits (a # b # c # d # r) =
     (if a = CHR ''='' \<or> b = CHR ''='' then None
      else if c = CHR ''='' then (if d = CHR ''='' \<and> r = [] then Some [a, b] else None)
      else if d = CHR ''='' then (if r = [] then Some [a, b, c] else None)
      else map_option (\<lambda>t. a # b # c # d # t) (stdDigits r))"
| "stdDigits _ = None"

definition stdDecode :: "string \<Rightarrow> string option" where
  "stdDecode s = (case stdDigits (filter (\<lambda>c. c \<notin> {CHR 0x0A, CHR 0x0D}) s) of
      None \<Rightarrow> None
    | Some ds \<Rightarrow> (let vs = map stdVal ds in
        if None \<in> set vs then None else map_option (map char_of) (b64Bytes (map the vs))))"

section \<open>The key ring\<close>

datatype keyring_err =
    ErrEmptyKeyring | UnknownCurrentKey | BadKeyLength | BadKeyBase64 | BadAES | NoRandomness
  | ErrBadCiphertext | ErrUnknownKeyID

record keyring =
  kr_keys :: "(string \<times> string) list"
  kr_current :: string

definition formatVersion :: string where "formatVersion = ''v1''"

definition KeySize :: nat where "KeySize = 32"

definition NonceSize :: nat where "NonceSize = 12"

definition NewKeyring :: "string \<Rightarrow> (string \<times> string) list \<Rightarrow> keyring_err + keyring" where
  "NewKeyring current keys =
     (if keys = [] then Inl ErrEmptyKeyring
      else case map_of keys current of
        None \<Rightarrow> Inl UnknownCurrentKey
      | Some cur \<Rightarrow>
          if length cur \<noteq> KeySize then Inl BadKeyLength
          else if list_ex (\<lambda>(i, k). length k \<noteq> KeySize) keys then Inl BadKeyLength
          else Inr \<lparr>kr_keys = keys, kr_current = current\<rparr>)"

definition NewKeyringFromBase64 :: "string \<Rightarrow> string \<Rightarrow> keyring_err + keyring" where
  "NewKeyringFromBase64 keyID b64 =
     (let k = (if keyID = '''' then formatVersion else keyID)
      in case stdDecode (TrimSpace b64) of
           None \<Rightarrow> Inl BadKeyBase64
         | Some raw \<Rightarrow> NewKeyring k [(k, raw)])"

definition CurrentKeyID :: "keyring \<Rightarrow> string" where "CurrentKeyID kr = kr_current kr"

text \<open>\<open>aes.NewCipher\<close> takes keys of 16, 24 or 32 bytes.\<close>

definition newGCM :: "string \<Rightarrow> keyring_err + unit" where
  "newGCM key = (if length key \<in> {16, 24, 32} then Inr () else Inl BadAES)"

definition keyAt :: "keyring \<Rightarrow> string \<Rightarrow> string" where
  "keyAt kr i = (case map_of (kr_keys kr) i of Some k \<Rightarrow> k | None \<Rightarrow> [])"

definition joinColon :: "string list \<Rightarrow> string" where
  "joinColon ps = concat (map (\<lambda>p. p @ '':'') (butlast ps)) @ last ps"

text \<open>\<open>nonce\<close> is what the random source gave, or its failure.\<close>

definition Encrypt ::
  "(string \<Rightarrow> string \<Rightarrow> string \<Rightarrow> string) \<Rightarrow> string option \<Rightarrow> keyring \<Rightarrow> string \<Rightarrow> keyring_err + string" where
  "Encrypt seal nonce kr plaintext =
     (case newGCM (keyAt kr (kr_current kr)) of
        Inl e \<Rightarrow> Inl e
      | Inr _ \<Rightarrow> (case nonce of
          None \<Rightarrow> Inl NoRandomness
        | Some n \<Rightarrow> Inr (joinColon
            [formatVersion, kr_current kr, stdEncode n, stdEncode (seal (keyAt kr (kr_current kr)) n plaintext)])))"

definition Decrypt ::
  "(string \<Rightarrow> string \<Rightarrow> string \<Rightarrow> string option) \<Rightarrow> keyring \<Rightarrow> string \<Rightarrow> keyring_err + string" where
  "Decrypt opn kr s =
     (case splitOn CHR '':'' s of
        [v, keyID, n64, c64] \<Rightarrow>
          (if v \<noteq> formatVersion then Inl ErrBadCiphertext
           else case map_of (kr_keys kr) keyID of
             None \<Rightarrow> Inl ErrUnknownKeyID
           | Some key \<Rightarrow>
              (case (stdDecode n64, stdDecode c64) of
                 (Some nonce, Some ct) \<Rightarrow>
                   (case newGCM key of
                      Inl e \<Rightarrow> Inl e
                    | Inr _ \<Rightarrow>
                        if length nonce \<noteq> NonceSize then Inl ErrBadCiphertext
                        else (case opn key nonce ct of None \<Rightarrow> Inl ErrBadCiphertext | Some pt \<Rightarrow> Inr pt))
               | _ \<Rightarrow> Inl ErrBadCiphertext))
      | _ \<Rightarrow> Inl ErrBadCiphertext)"

definition KeyIDOf :: "string \<Rightarrow> string option" where
  "KeyIDOf s = (case splitOn CHR '':'' s of
      [v, keyID, n64, c64] \<Rightarrow> if v = formatVersion then Some keyID else None
    | _ \<Rightarrow> None)"

section \<open>Facts about the encodings\<close>

lemma std_values: "map stdVal stdAlphabet = map Some [0..<64]"
  by (simp add: stdAlphabet_def stdVal_def upt_rec)

lemma std_plain: "list_all (\<lambda>c. c \<notin> {CHR 0x0A, CHR 0x0D, CHR ''='', CHR '':''}) stdAlphabet"
  by (simp add: stdAlphabet_def)

lemma std_digits: "n < 64 \<Longrightarrow> stdVal (stdChar n) = Some n"
  "n < 64 \<Longrightarrow> stdChar n \<notin> {CHR 0x0A, CHR 0x0D, CHR ''='', CHR '':''}"
proof -
  have len: "length stdAlphabet = 64" by (simp add: stdAlphabet_def)
  show "n < 64 \<Longrightarrow> stdVal (stdChar n) = Some n"
    using arg_cong[OF std_values, of "\<lambda>l. l ! n"] by (simp add: stdChar_def len)
  show "n < 64 \<Longrightarrow> stdChar n \<notin> {CHR 0x0A, CHR 0x0D, CHR ''='', CHR '':''}"
    using std_plain len by (auto simp: stdChar_def list_all_iff dest!: bspec[OF _ nth_mem[of n]])
qed

lemma stdPad_simps:
  "stdPad [] = []" "stdPad [a, b] = [a, b, CHR ''='', CHR ''='']" "stdPad [a, b, c] = [a, b, c, CHR ''='']"
  "stdPad (a # b # c # d # r) = a # b # c # d # stdPad r"
  by (simp_all add: stdPad_def numeral_2_eq_2)

lemma stdDigits_pad:
  "CHR ''='' \<notin> set ds \<Longrightarrow> length ds mod 4 \<noteq> 1 \<Longrightarrow> stdDigits (stdPad ds) = Some ds"
proof (induction ds rule: stdDigits.induct)
  case (2 a b c d r)
  have "length (a # b # c # d # r) mod 4 = length r mod 4" by simp
  then show ?case using 2 by (auto simp: stdPad_simps)
qed (auto simp: stdPad_simps)

lemma b64Groups_length: "length (b64Groups xs) mod 4 \<noteq> 1"
  by (induction xs rule: b64Groups.induct) (simp_all add: add.commute)

lemma std_roundtrip: "stdDecode (stdEncode s) = Some s"
proof -
  let ?g = "b64Groups (map of_char s)"
  have r: "\<forall>n \<in> set ?g. n < 64" by (intro ballI b64Groups_range[of "map of_char s"] bytes_small)
  have c: "\<forall>c \<in> set (stdEncode s). c \<notin> {CHR 0x0A, CHR 0x0D}"
    using r std_digits(2) by (auto simp: stdEncode_def stdPad_def)
  have f: "filter (\<lambda>c. c \<notin> {CHR 0x0A, CHR 0x0D}) (stdEncode s) = stdEncode s"
    using c by (simp add: filter_id_conv)
  have "CHR ''='' \<notin> set (map stdChar ?g)" using r std_digits(2) by fastforce
  then have d: "stdDigits (stdEncode s) = Some (map stdChar ?g)"
    unfolding stdEncode_def using b64Groups_length[of "map of_char s"] by (intro stdDigits_pad) simp_all
  have v: "map stdVal (map stdChar ?g) = map Some ?g" using r std_digits(1) by auto
  have "b64Bytes ?g = Some (map of_char s)" by (intro b64Bytes_Groups bytes_small)
  then show ?thesis unfolding stdDecode_def f d option.case Let_def v by (auto simp: o_def)
qed

lemma stdEncode_no_colon: "CHR '':'' \<notin> set (stdEncode s)"
proof -
  have "\<forall>n \<in> set (b64Groups (map of_char s)). n < 64" by (intro ballI b64Groups_range[of "map of_char s"] bytes_small)
  then show ?thesis using std_digits(2) by (fastforce simp: stdEncode_def stdPad_def)
qed

lemma splitOn_step: "sep \<notin> set p \<Longrightarrow> splitOn sep (p @ sep # s) = p # splitOn sep s"
  by (induction p) auto

lemma length_splitOn: "length (splitOn sep s) = Suc (length (filter (\<lambda>c. c = sep) s))"
  by (induction s) (auto simp: splitOn_not_Nil split: list.splits)


section \<open>What is encrypted stays readable\<close>

lemma NewKeyring_Inr:
  assumes "NewKeyring cur keys = Inr kr"
  obtains k where "kr = \<lparr>kr_keys = keys, kr_current = cur\<rparr>" "map_of keys cur = Some k" "length k = KeySize"
  using assms by (auto simp: NewKeyring_def split: if_splits option.splits)

lemma joinColon4: "joinColon [a, b, c, d] = a @ CHR '':'' # b @ CHR '':'' # c @ CHR '':'' # d"
  by (simp add: joinColon_def)

lemma split_joinColon4:
  assumes "CHR '':'' \<notin> set a" "CHR '':'' \<notin> set c" "CHR '':'' \<notin> set d"
  shows "CHR '':'' \<notin> set b \<Longrightarrow> splitOn CHR '':'' (joinColon [a, b, c, d]) = [a, b, c, d]"
    and "CHR '':'' \<in> set b \<Longrightarrow> 4 < length (splitOn CHR '':'' (joinColon [a, b, c, d]))"
proof -
  show "CHR '':'' \<notin> set b \<Longrightarrow> splitOn CHR '':'' (joinColon [a, b, c, d]) = [a, b, c, d]"
    using assms by (simp add: joinColon4 splitOn_step splitOn_none)
  assume "CHR '':'' \<in> set b"
  then have "filter (\<lambda>x. x = CHR '':'') b \<noteq> []" by (auto simp: filter_empty_conv)
  then have "0 < length (filter (\<lambda>x. x = CHR '':'') b)" by simp
  then show "4 < length (splitOn CHR '':'' (joinColon [a, b, c, d]))"
    unfolding length_splitOn joinColon4 filter_append filter.simps length_append by simp
qed

text \<open>
  C27.  What one key ring encrypts, every later key ring that still has the same key under the
  same key id decrypts to the plaintext, whichever key is current by then; a key id that contains
  a colon is the exception: it is accepted, and no ring ever decrypts its ciphertexts.
\<close>

theorem secrets_survive_rotation:
  assumes "NewKeyring cur keys = Inr kr" "NewKeyring cur' keys' = Inr kr'" "map_of keys' cur = map_of keys cur"
    and "\<forall>k n p. opn k n (seal k n p) = Some p" "length nonce = NonceSize"
  shows "\<exists>s. Encrypt seal (Some nonce) kr p = Inr s \<and>
     Decrypt opn kr' s = (if CHR '':'' \<in> set cur then Inl ErrBadCiphertext else Inr p) \<and>
     KeyIDOf s = (if CHR '':'' \<in> set cur then None else Some cur)"
proof -
  obtain k where kr: "kr = \<lparr>kr_keys = keys, kr_current = cur\<rparr>" "map_of keys cur = Some k" "length k = KeySize"
    using NewKeyring_Inr[OF assms(1)] .
  obtain k' where kr': "kr' = \<lparr>kr_keys = keys', kr_current = cur'\<rparr>"
    using NewKeyring_Inr[OF assms(2)] by metis
  define s where "s = joinColon [formatVersion, cur, stdEncode nonce, stdEncode (seal k nonce p)]"
  have enc: "Encrypt seal (Some nonce) kr p = Inr s"
    using kr by (simp add: Encrypt_def keyAt_def newGCM_def KeySize_def s_def)
  have v: "CHR '':'' \<notin> set formatVersion" by (simp add: formatVersion_def)
  note sp = split_joinColon4[OF v stdEncode_no_colon stdEncode_no_colon, of cur nonce "seal k nonce p", folded s_def]
  show ?thesis
  proof (cases "CHR '':'' \<in> set cur")
    case True
    then have "4 < length (splitOn CHR '':'' s)" by (rule sp(2))
    then have "Decrypt opn kr' s = Inl ErrBadCiphertext \<and> KeyIDOf s = None"
      by (auto simp: Decrypt_def KeyIDOf_def split: list.splits)
    with enc True show ?thesis by auto
  next
    case False
    then have "Decrypt opn kr' s = Inr p \<and> KeyIDOf s = Some cur"
      using sp(1) kr kr' assms(3-5)
      by (simp add: Decrypt_def KeyIDOf_def std_roundtrip newGCM_def KeySize_def)
    with enc False show ?thesis by auto
  qed
qed

definition sampleSeal :: "string \<Rightarrow> string \<Rightarrow> string \<Rightarrow> string" where "sampleSeal k n p = k @ n @ rev p"

definition sampleOpen :: "string \<Rightarrow> string \<Rightarrow> string \<Rightarrow> string option" where
  "sampleOpen k n c =
     (if take (length k + length n) c = k @ n then Some (rev (drop (length k + length n) c)) else None)"

definition oldKey :: string where "oldKey = replicate 32 (CHR ''k'')"

definition newKey :: string where "newKey = replicate 32 (CHR ''n'')"

lemma secrets_survive_rotation_witness:
  "\<exists>s. Encrypt sampleSeal (Some (replicate 12 (CHR 0x00))) \<lparr>kr_keys = [(''v1'', oldKey)], kr_current = ''v1''\<rparr> ''secret'' = Inr s \<and>
     Decrypt sampleOpen \<lparr>kr_keys = [(''v2'', newKey), (''v1'', oldKey)], kr_current = ''v2''\<rparr> s = Inr ''secret''"
proof -
  have "NewKeyring ''v1'' [(''v1'', oldKey)] = Inr \<lparr>kr_keys = [(''v1'', oldKey)], kr_current = ''v1''\<rparr>"
    "NewKeyring ''v2'' [(''v2'', newKey), (''v1'', oldKey)] =
       Inr \<lparr>kr_keys = [(''v2'', newKey), (''v1'', oldKey)], kr_current = ''v2''\<rparr>"
    by (simp_all add: NewKeyring_def KeySize_def oldKey_def newKey_def)
  from secrets_survive_rotation[OF this, of sampleOpen sampleSeal "replicate 12 (CHR 0x00)" "''secret''"]
  show ?thesis by (auto simp: sampleSeal_def sampleOpen_def NonceSize_def)
qed

end
