(* ===== verification/Breaker.thy ===== *)
theory Breaker
  imports GoLib
begin

text \<open>
  The two guards of the upstream client (\<open>adapter/newapi/ratelimit.go\<close>): the token bucket that
  limits the rate of requests and the circuit breaker that stops sending after repeated failures.
  Times are nanoseconds; the clock reading is an argument of each operation.
\<close>

section \<open>The token bucket\<close>

type_synonym flt = "int \<times> int"

definition fAdd :: "flt \<Rightarrow> flt \<Rightarrow> flt" where
  "fAdd a b = fl (fst a * snd b + fst b * snd a, snd a * snd b)"

definition fSub :: "flt \<Rightarrow> flt \<Rightarrow> flt" where
  "fSub a b = fl (fst a * snd b - fst b * snd a, snd a * snd b)"

definition fMul :: "flt \<Rightarrow> flt \<Rightarrow> flt" where
  "fMul a b = fl (fst a * fst b, snd a * snd b)"

definition fDiv :: "flt \<Rightarrow> flt \<Rightarrow> flt" where
  "fDiv a b = fl (fst a * snd b, snd a * fst b)"

definition fLess :: "flt \<Rightarrow> flt \<Rightarrow> bool" where
  "fLess a b \<longleftrightarrow> fst a * snd b < fst b * snd a"

text \<open>\<open>Duration.Seconds\<close> of a positive duration.\<close>

definition seconds :: "int \<Rightarrow> flt" where
  "seconds d = fAdd (fl (d div 10 ^ 9, 1)) (fl (d mod 10 ^ 9, 10 ^ 9))"

record tokenBucket =
  tb_rate :: flt
  tb_burst :: flt
  tb_tokens :: flt
  tb_last :: int

definition newTokenBucket :: "flt \<Rightarrow> int \<Rightarrow> int \<Rightarrow> tokenBucket" where
  "newTokenBucket qps burst now =
     \<lparr>tb_rate = qps, tb_burst = fl (burst, 1), tb_tokens = fl (burst, 1), tb_last = now\<rparr>"

definition refilled :: "int \<Rightarrow> tokenBucket \<Rightarrow> tokenBucket" where
  "refilled now tb =
     (if 0 < now - tb_last tb
      then let t = fAdd (tb_tokens tb) (fMul (seconds (now - tb_last tb)) (tb_rate tb))
           in tb\<lparr>tb_tokens := (if fLess (tb_burst tb) t then tb_burst tb else t), tb_last := now\<rparr>
      else tb)"

text \<open>The duration to wait; zero when a token was taken.\<close>

definition reserve :: "int \<Rightarrow> tokenBucket \<Rightarrow> int \<times> tokenBucket" where
  "reserve now tb =
     (let tb' = refilled now tb
      in if \<not> fLess (tb_tokens tb') (1, 1) then (0, tb'\<lparr>tb_tokens := fSub (tb_tokens tb') (1, 1)\<rparr>)
         else (trunc (fMul (fDiv (fSub (1, 1) (tb_tokens tb')) (tb_rate tb')) (10 ^ 9, 1)), tb'))"

section \<open>The circuit breaker\<close>

datatype cbState = CbClosed | CbOpen | CbHalfOpen

record circuitBreaker =
  cb_state :: cbState
  cb_threshold :: int
  cb_cooldown :: int
  cb_fails :: int
  cb_opened :: int
  cb_probing :: bool

definition newCircuitBreaker :: "int \<Rightarrow> int \<Rightarrow> circuitBreaker" where
  "newCircuitBreaker threshold cooldown =
     \<lparr>cb_state = CbClosed, cb_threshold = threshold, cb_cooldown = cooldown, cb_fails = 0, cb_opened = 0, cb_probing = False\<rparr>"

definition allow :: "int \<Rightarrow> circuitBreaker \<Rightarrow> bool \<times> circuitBreaker" where
  "allow now cb =
     (case cb_state cb of
        CbClosed \<Rightarrow> (True, cb)
      | CbOpen \<Rightarrow> (if cb_cooldown cb \<le> now - cb_opened cb
                   then (True, cb\<lparr>cb_state := CbHalfOpen, cb_probing := True\<rparr>) else (False, cb))
      | CbHalfOpen \<Rightarrow> (if cb_probing cb then (False, cb) else (True, cb\<lparr>cb_probing := True\<rparr>)))"

definition onSuccess :: "circuitBreaker \<Rightarrow> circuitBreaker" where
  "onSuccess cb = cb\<lparr>cb_fails := 0, cb_state := CbClosed, cb_probing := False\<rparr>"

definition probeAbort :: "circuitBreaker \<Rightarrow> circuitBreaker" where
  "probeAbort cb = cb\<lparr>cb_probing := False\<rparr>"

definition onFailure :: "int \<Rightarrow> circuitBreaker \<Rightarrow> circuitBreaker" where
  "onFailure now cb =
     (let cb1 = cb\<lparr>cb_fails := cb_fails cb + 1, cb_probing := False\<rparr>
      in if cb_state cb1 = CbHalfOpen then cb1\<lparr>cb_state := CbOpen, cb_opened := now\<rparr>
         else if cb_threshold cb1 \<le> cb_fails cb1 then cb1\<lparr>cb_state := CbOpen, cb_opened := now\<rparr>
         else cb1)"

text \<open>Its use by any number of callers: a sequence of operations with the times they happen.\<close>

datatype cb_op = CbAllow | CbSuccess | CbFailure | CbAbort

fun cbStep :: "cb_op \<times> int \<Rightarrow> circuitBreaker \<Rightarrow> bool \<times> circuitBreaker" where
  "cbStep (CbAllow, now) cb = allow now cb"
| "cbStep (CbSuccess, now) cb = (True, onSuccess cb)"
| "cbStep (CbFailure, now) cb = (True, onFailure now cb)"
| "cbStep (CbAbort, now) cb = (True, probeAbort cb)"

fun cbRun :: "(cb_op \<times> int) list \<Rightarrow> circuitBreaker \<Rightarrow> bool list" where
  "cbRun [] cb = []"
| "cbRun (o' # os) cb = (case cbStep o' cb of (b, cb') \<Rightarrow> b # cbRun os cb')"

section \<open>What the breaker promises\<close>

text \<open>
  The contract: the failures since the last success, the time of the last failure, and whether a
  probe is under way.  While the failures are fewer than the threshold everything passes; after
  that nothing passes during the cooldown, and then one probe at a time.
\<close>

record breaker_spec =
  bs_fails :: int
  bs_last :: int
  bs_probe :: bool

fun specStep :: "int \<Rightarrow> int \<Rightarrow> cb_op \<times> int \<Rightarrow> breaker_spec \<Rightarrow> bool \<times> breaker_spec" where
  "specStep th cool (CbAllow, now) b =
     (if bs_fails b < th then (True, b)
      else if now < bs_last b + cool \<or> bs_probe b then (False, b)
      else (True, b\<lparr>bs_probe := True\<rparr>))"
| "specStep th cool (CbSuccess, now) b = (True, b\<lparr>bs_fails := 0, bs_probe := False\<rparr>)"
| "specStep th cool (CbFailure, now) b = (True, b\<lparr>bs_fails := bs_fails b + 1, bs_last := now, bs_probe := False\<rparr>)"
| "specStep th cool (CbAbort, now) b = (True, b\<lparr>bs_probe := False\<rparr>)"

fun specRun :: "int \<Rightarrow> int \<Rightarrow> (cb_op \<times> int) list \<Rightarrow> breaker_spec \<Rightarrow> bool list" where
  "specRun th cool [] b = []"
| "specRun th cool (o' # os) b = (case specStep th cool o' b of (r, b') \<Rightarrow> r # specRun th cool os b')"

text \<open>The relation of breaker and contract at a time \<open>now\<close>.\<close>

definition cbRel :: "int \<Rightarrow> circuitBreaker \<Rightarrow> breaker_spec \<Rightarrow> bool" where
  "cbRel now cb b \<longleftrightarrow> 0 < cb_threshold cb \<and> cb_fails cb = bs_fails b \<and> cb_probing cb = bs_probe b \<and>
     (cb_state cb = CbClosed \<longleftrightarrow> bs_fails b < cb_threshold cb) \<and>
     (cb_state cb \<noteq> CbHalfOpen \<longrightarrow> \<not> cb_probing cb) \<and>
     (cb_state cb = CbOpen \<longrightarrow> cb_opened cb = bs_last b) \<and>
     (cb_state cb = CbHalfOpen \<longrightarrow> bs_last b + cb_cooldown cb \<le> now)"

lemma cbRel_later: "cbRel now cb b \<Longrightarrow> now \<le> now' \<Longrightarrow> cbRel now' cb b"
  by (auto simp: cbRel_def)

lemma cbRel_step:
  assumes "cbRel now cb b"
  shows "fst (cbStep (p, now) cb) = fst (specStep (cb_threshold cb) (cb_cooldown cb) (p, now) b) \<and>
     cbRel now (snd (cbStep (p, now) cb)) (snd (specStep (cb_threshold cb) (cb_cooldown cb) (p, now) b)) \<and>
     cb_threshold (snd (cbStep (p, now) cb)) = cb_threshold cb \<and> cb_cooldown (snd (cbStep (p, now) cb)) = cb_cooldown cb"
  using assms
  by (cases p; cases "cb_state cb")
     (auto simp: cbRel_def allow_def onSuccess_def onFailure_def probeAbort_def Let_def)

lemma cbRel_run:
  assumes "cbRel t cb b" "sorted (map snd os)" "\<And>p n. (p, n) \<in> set os \<Longrightarrow> t \<le> n"
  shows "cbRun os cb = specRun (cb_threshold cb) (cb_cooldown cb) os b"
  using assms
proof (induction os arbitrary: t cb b)
  case (Cons o' os)
  obtain p now where o': "o' = (p, now)" by fastforce
  have r: "cbRel now cb b" using cbRel_later[OF Cons.prems(1)] Cons.prems(3) o' by auto
  note st = cbRel_step[OF r, of p]
  have "cbRun os (snd (cbStep (p, now) cb)) =
      specRun (cb_threshold cb) (cb_cooldown cb) os (snd (specStep (cb_threshold cb) (cb_cooldown cb) (p, now) b))"
    using Cons.IH[of now "snd (cbStep (p, now) cb)" "snd (specStep (cb_threshold cb) (cb_cooldown cb) (p, now) b)"]
      st Cons.prems(2) o' by force
  then show ?case using st by (simp add: o' split_beta del: cbStep.simps specStep.simps)
qed simp

text \<open>
  C28.  The circuit breaker refines its contract: in every history of requests, successes,
  failures and aborted probes by any number of callers, with a clock that does not run back, it
  lets a request pass exactly when the failures since the last success are below the threshold,
  or the cooldown after the last failure is over and no probe is under way.
\<close>

theorem breaker_refines_contract:
  assumes "0 < threshold" "sorted (map snd history)"
  shows "cbRun history (newCircuitBreaker threshold cooldown) =
     specRun threshold cooldown history \<lparr>bs_fails = 0, bs_last = 0, bs_probe = False\<rparr>"
proof (cases history)
  case (Cons h hs)
  have "cbRel (snd h) (newCircuitBreaker threshold cooldown) \<lparr>bs_fails = 0, bs_last = 0, bs_probe = False\<rparr>"
    using assms(1) by (simp add: cbRel_def newCircuitBreaker_def)
  from cbRel_run[OF this assms(2)] assms(2) show ?thesis
    by (force simp: Cons newCircuitBreaker_def)
qed simp

lemma breaker_refines_contract_witness:
  "cbRun [(CbAllow, 0), (CbFailure, 1), (CbFailure, 2), (CbAllow, 3), (CbAllow, 12), (CbAllow, 12), (CbSuccess, 13), (CbAllow, 14)]
     (newCircuitBreaker 2 10) = [True, True, True, False, True, False, True, True]"
  by (subst breaker_refines_contract) simp_all

end
