(* ===== verification/GoJson.thy ===== *)
theory GoJson
  imports Session Breaker
begin

text \<open>
  Decoding of JSON values into Go values (\<open>json.Unmarshal\<close> into structs, slices and maps), the
  text of a \<open>float64\<close> and its reading (\<open>strconv\<close>), and the writing of JSON (\<open>json.Marshal\<close>).
  Names of struct fields are matched without case; a member that is \<open>null\<close> leaves a scalar field
  alone and clears a slice or map; a value of the wrong type or out of range is an error; a later
  member of the same name replaces the earlier one.
\<close>

section \<open>Decoding\<close>

type_synonym jmembers = "(string \<times> jvalue) list"

definition getField :: "string \<Rightarrow> (jvalue \<Rightarrow> 'a option) \<Rightarrow> 'a \<Rightarrow> jmembers \<Rightarrow> 'a option" where
  "getField nm dec dflt ms = fold (\<lambda>(k, v) acc. case acc of None \<Rightarrow> None
     | Some a \<Rightarrow> if map lowerChar k \<noteq> nm \<or> v = VNull then Some a else dec v) ms (Some dflt)"

definition decInt :: "jvalue \<Rightarrow> int option" where
  "decInt v = (case v of VNum n \<Rightarrow> parseInt n | _ \<Rightarrow> None)"

definition decStr :: "jvalue \<Rightarrow> string option" where
  "decStr v = (case v of VStr s \<Rightarrow> Some s | _ \<Rightarrow> None)"

definition decBool :: "jvalue \<Rightarrow> bool option" where
  "decBool v = (case v of VBool b \<Rightarrow> Some b | _ \<Rightarrow> None)"

text \<open>A \<open>json.RawMessage\<close> field takes the value as it is, \<open>null\<close> included.\<close>

definition getRaw :: "string \<Rightarrow> jmembers \<Rightarrow> jvalue option" where
  "getRaw nm ms = fold (\<lambda>(k, v) acc. if map lowerChar k = nm then Some v else acc) ms None"

fun decAll :: "(jvalue \<Rightarrow> 'a option) \<Rightarrow> jvalue list \<Rightarrow> 'a list option" where
  "decAll dec [] = Some []"
| "decAll dec (v # vs) = (case dec v of None \<Rightarrow> None | Some x \<Rightarrow> map_option ((#) x) (decAll dec vs))"

text \<open>A slice: \<open>None\<close> is the nil slice.\<close>

definition decSlice :: "(jvalue \<Rightarrow> 'a option) \<Rightarrow> jvalue \<Rightarrow> 'a list option option" where
  "decSlice dec v = (case v of VNull \<Rightarrow> Some None | VArr vs \<Rightarrow> map_option Some (decAll dec vs) | _ \<Rightarrow> None)"

definition getSlice :: "string \<Rightarrow> (jvalue \<Rightarrow> 'a option) \<Rightarrow> jmembers \<Rightarrow> 'a list option option" where
  "getSlice nm dec ms = fold (\<lambda>(k, v) acc. case acc of None \<Rightarrow> None
     | Some a \<Rightarrow> if map lowerChar k \<noteq> nm then Some a else decSlice dec v) ms (Some None)"

text \<open>A struct decoded into a zero value.\<close>

definition decStruct :: "(jmembers \<Rightarrow> 'a option) \<Rightarrow> jvalue \<Rightarrow> 'a option" where
  "decStruct f v = (case v of VNull \<Rightarrow> f [] | VObj ms \<Rightarrow> f ms | _ \<Rightarrow> None)"

text \<open>A scalar element of a slice or map, zero for \<open>null\<close>.\<close>

definition orZero :: "'a \<Rightarrow> (jvalue \<Rightarrow> 'a option) \<Rightarrow> jvalue \<Rightarrow> 'a option" where
  "orZero z dec v = (if v = VNull then Some z else dec v)"

definition putEntryAt :: "string \<Rightarrow> 'v \<Rightarrow> (string \<times> 'v) list \<Rightarrow> (string \<times> 'v) list" where
  "putEntryAt k v es = (if map_of es k \<noteq> None then map (\<lambda>(j, x). (j, if j = k then v else x)) es else es @ [(k, v)])"

definition delEntryAt :: "string \<Rightarrow> (string \<times> 'v) list \<Rightarrow> (string \<times> 'v) list" where
  "delEntryAt k es = filter (\<lambda>(j, x). j \<noteq> k) es"

text \<open>A map with string keys, in the order of insertion: \<open>None\<close> is the nil map.\<close>

definition decMap :: "(jvalue \<Rightarrow> 'a option) \<Rightarrow> jvalue \<Rightarrow> (string \<times> 'a) list option option" where
  "decMap dec v = (case v of
      VNull \<Rightarrow> Some None
    | VObj ms \<Rightarrow> map_option Some (fold (\<lambda>(k, w) acc. case acc of None \<Rightarrow> None
         | Some es \<Rightarrow> map_option (\<lambda>x. putEntryAt k x es) (dec w)) ms (Some []))
    | _ \<Rightarrow> None)"

text \<open>\<open>Unmarshal\<close> of a \<open>RawMessage\<close>: an absent one is not JSON.\<close>

definition unmarshal :: "(jvalue \<Rightarrow> 'a option) \<Rightarrow> jvalue option \<Rightarrow> 'a option" where
  "unmarshal dec d = (case d of None \<Rightarrow> None | Some v \<Rightarrow> dec v)"

section \<open>Numbers\<close>

definition expOf :: "string \<Rightarrow> int" where
  "expOf s = (case parseInt s of Some e \<Rightarrow> e | None \<Rightarrow> (case s of c # r \<Rightarrow> if c = CHR ''-'' then - 100000 else 100000 | [] \<Rightarrow> 0))"

definition powTen :: "int \<Rightarrow> int \<Rightarrow> flt" where
  "powTen n e = (if 0 \<le> e then (n * 10 ^ nat e, 1) else (n, 10 ^ nat (- e)))"

text \<open>\<open>ParseFloat\<close> of a number in JSON's grammar; beyond the range of \<open>float64\<close> it fails.\<close>

definition parseFloat :: "string \<Rightarrow> flt option" where
  "parseFloat s =
     (let neg = (case s of c # r \<Rightarrow> c = CHR ''-'' | [] \<Rightarrow> False);
          s1 = (if neg then tl s else s);
          ip = takeWhile isDigit s1; s2 = dropWhile isDigit s1;
          fp = (case s2 of c # r \<Rightarrow> if c = CHR ''.'' then takeWhile isDigit r else [] | [] \<Rightarrow> []);
          s3 = (case s2 of c # r \<Rightarrow> if c = CHR ''.'' then dropWhile isDigit r else s2 | [] \<Rightarrow> []);
          ex = (case s3 of c # r \<Rightarrow> expOf r | [] \<Rightarrow> 0);
          g = fl (powTen (int (undigits (ip @ fp))) (ex - int (length fp)))
      in if 2 ^ 1024 * snd g \<le> fst g then None else Some (if neg then (- fst g, snd g) else g))"

definition decFloat :: "jvalue \<Rightarrow> flt option" where
  "decFloat v = (case v of VNum n \<Rightarrow> parseFloat n | _ \<Rightarrow> None)"

text \<open>The position of the decimal point: the number of digits before it.\<close>

definition pointAt :: "flt \<Rightarrow> int" where
  "pointAt f = (if snd f \<le> fst f then int (length (digits (nat (trunc f))))
     else (case find (\<lambda>j. snd f \<le> fst f * 10 ^ j) [0..<400] of Some j \<Rightarrow> 1 - int j | None \<Rightarrow> 0))"

definition fEq :: "flt \<Rightarrow> flt \<Rightarrow> bool" where
  "fEq a b \<longleftrightarrow> fst a * snd b = fst b * snd a"

text \<open>The two decimals of \<open>n\<close> digits next to a float, the nearer one first.\<close>

definition decimalsAt :: "flt \<Rightarrow> nat \<Rightarrow> (int \<times> int) list" where
  "decimalsAt f n =
     (let p = pointAt f - int n;
          g = (if 0 \<le> p then (fst f, snd f * 10 ^ nat p) else (fst f * 10 ^ nat (- p), snd f));
          near = rdiv (fst g) (snd g); low = fst g div snd g
      in [(near, p), (if near = low then low + 1 else low, p)])"

text \<open>The shortest decimal that reads back as the float: digits and the power of ten.\<close>

definition shortest :: "flt \<Rightarrow> int \<times> int" where
  "shortest f = (case find (\<lambda>(m, p). fEq (fl (powTen m p)) f) (concat (map (decimalsAt f) [1..<18])) of
      Some d \<Rightarrow> d | None \<Rightarrow> hd (decimalsAt f 17))"

definition stripZeros :: "string \<Rightarrow> string" where
  "stripZeros ds = rev (dropWhile (\<lambda>c. c = CHR ''0'') (rev ds))"

definition zeros :: "int \<Rightarrow> string" where "zeros n = replicate (nat n) (CHR ''0'')"

definition posFloatText :: "flt \<Rightarrow> string" where
  "posFloatText f =
     (case shortest f of (m, p) \<Rightarrow>
        let all = digits (nat m); ds = stripZeros all; dp = int (length all) + p
        in if fst f * 10 ^ 6 < snd f \<or> snd f * 10 ^ 21 \<le> fst f
           then (case ds of [] \<Rightarrow> [] | c # r \<Rightarrow> c # (if r = [] then [] else CHR ''.'' # r)) @ CHR ''e'' #
                (if dp - 1 < 0 then itoa (dp - 1) else CHR ''+'' # itoa (dp - 1))
           else if dp \<le> 0 then ''0.'' @ zeros (- dp) @ ds
           else if int (length ds) \<le> dp then ds @ zeros (dp - int (length ds))
           else take (nat dp) ds @ CHR ''.'' # drop (nat dp) ds)"

definition floatText :: "flt \<Rightarrow> string" where
  "floatText f = (if fst f = 0 then ''0'' else if fst f < 0 then CHR ''-'' # posFloatText (- fst f, snd f) else posFloatText f)"

section \<open>Writing\<close>

fun strLess :: "string \<Rightarrow> string \<Rightarrow> bool" where
  "strLess [] s = (s \<noteq> [])"
| "strLess (c # cs) [] = False"
| "strLess (c # cs) (d # ds) =
     (if c = d then strLess cs ds else (of_char c :: nat) < of_char d)"

fun insertByKey :: "string \<times> 'v \<Rightarrow> (string \<times> 'v) list \<Rightarrow> (string \<times> 'v) list" where
  "insertByKey e [] = [e]"
| "insertByKey e (f # fs) = (if strLess (fst f) (fst e) then f # insertByKey e fs else e # f # fs)"

definition sortByKey :: "(string \<times> 'v) list \<Rightarrow> (string \<times> 'v) list" where
  "sortByKey es = foldr insertByKey es []"

fun jsonText :: "jvalue \<Rightarrow> string" and elemsText :: "jvalue list \<Rightarrow> string" and fieldsText :: "jmembers \<Rightarrow> string" where
  "jsonText VNull = ''null''"
| "jsonText (VBool b) = (if b then ''true'' else ''false'')"
| "jsonText (VNum n) = n"
| "jsonText (VStr s) = quoteStr s"
| "jsonText (VArr vs) = CHR ''['' # elemsText vs @ '']''"
| "jsonText (VObj ms) = CHR ''{'' # fieldsText ms @ ''}''"
| "elemsText [] = []"
| "elemsText (v # vs) = jsonText v @ (if vs = [] then [] else CHR '','' # elemsText vs)"
| "fieldsText [] = []"
| "fieldsText ((k, v) # ms) = quoteStr k @ CHR '':'' # jsonText v @ (if ms = [] then [] else CHR '','' # fieldsText ms)"

text \<open>A map is written with its keys in order.\<close>

definition mapValue :: "('v \<Rightarrow> jvalue) \<Rightarrow> (string \<times> 'v) list \<Rightarrow> jvalue" where
  "mapValue f es = VObj (map (\<lambda>(k, v). (k, f v)) (sortByKey es))"

definition intValue :: "int \<Rightarrow> jvalue" where "intValue i = VNum (itoa i)"

section \<open>Facts\<close>

lemma lookup_putEntryAt: "map_of (putEntryAt k v es) j = (if j = k then Some v else map_of es j)"
proof -
  have "map_of (map (\<lambda>(j, x). (j, if j = k then v else x)) es) j =
      (if j = k then map_option (\<lambda>_. v) (map_of es k) else map_of es j)"
    by (induction es) auto
  then show ?thesis by (cases "map_of es k") (auto simp: putEntryAt_def map_add_def split: option.splits)
qed

lemma lookup_delEntryAt: "map_of (delEntryAt k es) j = (if j = k then None else map_of es j)"
  unfolding delEntryAt_def by (induction es) auto

section \<open>Reading back nested values\<close>

text \<open>
  What is written as JSON reads back: for every value whose numbers are numerals of the grammar, the
  parser of \<open>GoEncoding\<close> returns the value that the writer of \<open>GoJson\<close> was given, however deep it is.
\<close>

fun jsonOk :: "jvalue \<Rightarrow> bool" and elemsOk :: "jvalue list \<Rightarrow> bool" and fieldsOk :: "jmembers \<Rightarrow> bool" where
  "jsonOk (VNum n) \<longleftrightarrow> numOk n \<and> list_all numChar n"
| "jsonOk (VArr vs) \<longleftrightarrow> elemsOk vs"
| "jsonOk (VObj ms) \<longleftrightarrow> fieldsOk ms"
| "jsonOk _ \<longleftrightarrow> True"
| "elemsOk [] \<longleftrightarrow> True"
| "elemsOk (v # vs) \<longleftrightarrow> jsonOk v \<and> elemsOk vs"
| "fieldsOk [] \<longleftrightarrow> True"
| "fieldsOk ((k, v) # ms) \<longleftrightarrow> jsonOk v \<and> fieldsOk ms"

text \<open>What may follow a value: nothing, or a character that does not continue a number.\<close>

definition stops :: "string \<Rightarrow> bool" where
  "stops r \<longleftrightarrow> (case r of [] \<Rightarrow> True | c # _ \<Rightarrow> \<not> numChar c)"

lemma stops_chars [simp]: "stops []" "stops (CHR '','' # r)" "stops (CHR '']'' # r)" "stops (CHR ''}'' # r)" "stops (CHR 0x0A # r)"
  by (simp_all add: stops_def numChar_def isDigit_def)

definition textHead :: "char \<Rightarrow> bool" where
  "textHead c \<longleftrightarrow> \<not> isWs c \<and> c \<noteq> CHR '']''"

lemma textHead_chars [simp]: "textHead (CHR ''n'')" "textHead (CHR ''t'')" "textHead (CHR ''f'')" "textHead (CHR 0x22)"
  "textHead (CHR ''['')" "textHead (CHR ''{'')" "textHead (CHR ''-'')" "isDigit c \<Longrightarrow> textHead c"
  by (auto simp: textHead_def isWs_def isDigit_def)

lemma jsonText_head: "jsonOk v \<Longrightarrow> \<exists>c r. jsonText v = c # r \<and> textHead c"
proof (cases v)
  case (VNum n)
  assume "jsonOk v"
  then obtain c r where "n = c # r" "isDigit c \<or> c = CHR ''-''" using VNum numOk_head[of n] by auto
  then show ?thesis using VNum textHead_chars(7,8) by (intro exI[of _ c] exI[of _ r]) auto
qed (simp_all add: quoteStr_def)

lemma elemsText_head: "elemsOk vs \<Longrightarrow> vs \<noteq> [] \<Longrightarrow> \<exists>c r. elemsText vs = c # r \<and> textHead c"
  by (cases vs) (use jsonText_head in fastforce)+

lemma skip_head: "textHead c \<Longrightarrow> skipWs (c # r) = c # r"
  by (simp add: textHead_def skipWs_def)

lemma skip_comma: "skipWs (CHR '','' # r) = CHR '','' # r" "skipWs (CHR '']'' # r) = CHR '']'' # r"
  "skipWs (CHR ''}'' # r) = CHR ''}'' # r" "skipWs (CHR '':'' # r) = CHR '':'' # r" "skipWs (CHR 0x22 # r) = CHR 0x22 # r"
  by (simp_all add: skipWs_def isWs_def)

lemma parse_number:
  assumes "numOk n" "list_all numChar n" "stops r"
  shows "parseVal (Suc k) (n @ r) = Some (VNum n, r)"
proof -
  obtain d q where d: "n = d # q" "isDigit d \<or> d = CHR ''-''" using numOk_head[OF assms(1)] by blast
  have "takeWhile numChar (n @ r) = n" "dropWhile numChar (n @ r) = r"
    using assms(2,3) by (cases r; simp add: takeWhile_append dropWhile_append list_all_iff stops_def)+
  moreover have "\<not> isWs d \<and> d \<notin> {CHR 0x22, CHR ''{'', CHR ''['', CHR ''t'', CHR ''f'', CHR ''n''}"
    using d(2) by (elim disjE) (use digit_not in blast, simp add: isWs_def)
  ultimately show ?thesis using assms d(1) by (simp add: skipWs_def Let_def)
qed

lemma parse_string: "parseVal (Suc k) (quoteStr t @ r) = Some (VStr t, r)"
  using parse_quoted[of t r] by (simp add: quoteStr_def skip_comma)

lemma parse_literals: "parseVal (Suc k) (''null'' @ r) = Some (VNull, r)" "parseVal (Suc k) (''true'' @ r) = Some (VBool True, r)"
  "parseVal (Suc k) (''false'' @ r) = Some (VBool False, r)"
  by (simp_all add: skipWs_def isWs_def parseLit_def)

lemma parse_array:
  assumes "vs \<noteq> []" "elemsOk vs" "parseElems k (elemsText vs @ CHR '']'' # r) = Some (vs, r)"
  shows "parseVal (Suc k) (jsonText (VArr vs) @ r) = Some (VArr vs, r)"
proof -
  obtain c q where c: "elemsText vs = c # q" "textHead c" using elemsText_head[OF assms(2,1)] by blast
  then have ne: "c \<noteq> CHR '']''" by (simp add: textHead_def)
  have "skipWs (elemsText vs @ CHR '']'' # r) = c # q @ CHR '']'' # r" using c skip_head by simp
  then show ?thesis using assms(3) ne by (simp add: skip_head[of "CHR ''[''"] del: parseElems.simps)
qed

lemma parse_fields:
  assumes "ms \<noteq> []" "parseMembers k (fieldsText ms @ CHR ''}'' # r) = Some (ms, r)"
  shows "parseVal (Suc k) (jsonText (VObj ms) @ r) = Some (VObj ms, r)"
proof -
  obtain q where q: "fieldsText ms = CHR 0x22 # q" using assms(1) by (cases ms) (auto simp: quoteStr_def)
  then show ?thesis using assms(2) by (simp add: skip_head[of "CHR ''{''"] skip_comma del: parseMembers.simps)
qed

lemma parse_field:
  assumes "parseVal k (jsonText v @ s) = Some (v, s)"
  shows "parseMembers (Suc k) (quoteStr key @ CHR '':'' # jsonText v @ s) =
     (case skipWs s of [] \<Rightarrow> None | e # q \<Rightarrow>
        if e = CHR '','' then map_option (\<lambda>(ms, p). ((key, v) # ms, p)) (parseMembers k q)
        else if e = CHR ''}'' then Some ([(key, v)], q) else None)"
  using parse_quoted[of key "CHR '':'' # jsonText v @ s"] assms
  by (simp add: quoteStr_def skip_comma del: parseVal.simps)

theorem parse_written:
  shows "jsonOk v \<Longrightarrow> length (jsonText v) \<le> k \<Longrightarrow> stops r \<Longrightarrow> parseVal k (jsonText v @ r) = Some (v, r)"
    and "elemsOk vs \<Longrightarrow> vs \<noteq> [] \<Longrightarrow> length (elemsText vs) + 1 \<le> k \<Longrightarrow> parseElems k (elemsText vs @ CHR '']'' # r) = Some (vs, r)"
    and "fieldsOk ms \<Longrightarrow> ms \<noteq> [] \<Longrightarrow> length (fieldsText ms) + 1 \<le> k \<Longrightarrow> parseMembers k (fieldsText ms @ CHR ''}'' # r) = Some (ms, r)"
proof (induction v and vs and ms arbitrary: k r and k r and k r rule: jsonText_elemsText_fieldsText.induct)
  case 1
  then obtain j where "k = Suc j" by (cases k) auto
  then show ?case using parse_literals(1) by simp
next
  case (2 b)
  then obtain j where "k = Suc j" by (cases k) (auto split: if_splits)
  then show ?case using parse_literals(2,3) by simp
next
  case (3 n)
  then have "n \<noteq> []" using numOk_head by force
  then obtain j where "k = Suc j" using 3(2) by (cases k) auto
  then show ?case using parse_number 3 by simp
next
  case (4 s)
  then obtain j where "k = Suc j" by (cases k) (auto simp: quoteStr_def)
  then show ?case using parse_string by simp
next
  case (5 vs)
  obtain j where j: "k = Suc j" using 5(3) by (cases k) auto
  show ?case
  proof (cases "vs = []")
    case True
    then show ?thesis by (simp add: j skip_head skip_comma)
  next
    case False
    then show ?thesis using parse_array[OF False, of j r] 5 by (simp add: j)
  qed
next
  case (6 ms)
  obtain j where j: "k = Suc j" using 6(3) by (cases k) auto
  show ?case
  proof (cases "ms = []")
    case True
    then show ?thesis by (simp add: j skip_head skip_comma)
  next
    case False
    then show ?thesis using parse_fields[OF False, of j r] 6 by (simp add: j)
  qed
next
  case 7
  then show ?case by simp
next
  case (8 v vs)
  obtain j where j: "k = Suc j" using 8(5) by (cases k) auto
  obtain c q where c: "jsonText v = c # q" using jsonText_head[of v] 8(3) by auto
  show ?case
  proof (cases "vs = []")
    case True
    have "parseVal j (jsonText v @ CHR '']'' # r) = Some (v, CHR '']'' # r)" using 8 j True by simp
    then show ?thesis by (simp add: j True skip_comma)
  next
    case False
    have "parseVal j (jsonText v @ CHR '','' # elemsText vs @ CHR '']'' # r) = Some (v, CHR '','' # elemsText vs @ CHR '']'' # r)"
      using 8 j False by simp
    moreover have "parseElems j (elemsText vs @ CHR '']'' # r) = Some (vs, r)" using 8 j False c by simp
    ultimately show ?thesis using False by (simp add: j skip_comma)
  qed
next
  case 9
  then show ?case by simp
next
  case (10 key v ms)
  obtain j where j: "k = Suc j" using 10(5) by (cases k) auto
  show ?case
  proof (cases "ms = []")
    case True
    have "parseVal j (jsonText v @ CHR ''}'' # r) = Some (v, CHR ''}'' # r)" using 10 j True by simp
    then show ?thesis using parse_field[of j v "CHR ''}'' # r" key] by (simp add: j True skip_comma)
  next
    case False
    have "parseVal j (jsonText v @ CHR '','' # fieldsText ms @ CHR ''}'' # r) = Some (v, CHR '','' # fieldsText ms @ CHR ''}'' # r)"
      using 10 j False by simp
    moreover have "parseMembers j (fieldsText ms @ CHR ''}'' # r) = Some (ms, r)" using 10 j False by simp
    ultimately show ?thesis using False parse_field[of j v "CHR '','' # fieldsText ms @ CHR ''}'' # r" key]
      by (simp add: j skip_comma del: parseMembers.simps)
  qed
qed

end
