(* ===== verification/Client.thy ===== *)
theory Client
  imports GoJson Support NetIP
begin

text \<open>
  The single exit to new-api (\<open>adapter/newapi/client.go\<close>): configuration, the headers of the three
  ways to authenticate, one request with the reading of its answer, and the loop of guarded,
  retried requests.  The network, the clock, the timers and the cancellation of contexts are an
  environment supplied to the client, over a state of its own; everything that client code
  decides is defined here.  \<open>http.NewRequest\<close> fails on addresses the environment rejects.
\<close>

section \<open>Configuration\<close>

record up_config =
  cf_base :: string
  cf_admin_token :: string
  cf_admin_user :: int
  cf_timeout :: int
  cf_retries :: int
  cf_backoff :: int
  cf_qps :: flt
  cf_burst :: int
  cf_threshold :: int
  cf_cooldown :: int

definition trimSlashes :: "string \<Rightarrow> string" where
  "trimSlashes s = rev (dropWhile (\<lambda>c. c = CHR ''/'') (rev s))"

definition normalize_cf :: "up_config \<Rightarrow> up_config" where
  "normalize_cf c =
     c\<lparr>cf_base := trimSlashes (cf_base c),
       cf_timeout := (if cf_timeout c \<le> 0 then 8 * 10 ^ 9 else cf_timeout c),
       cf_retries := (let r = (if cf_retries c < 0 then 0 else cf_retries c) in if r = 0 then 2 else r),
       cf_backoff := (if cf_backoff c \<le> 0 then 200 * 10 ^ 6 else cf_backoff c),
       cf_qps := (if fst (cf_qps c) \<le> 0 then (20, 1) else cf_qps c),
       cf_burst := (if cf_burst c \<le> 0 then 10 else cf_burst c),
       cf_threshold := (if cf_threshold c \<le> 0 then 5 else cf_threshold c),
       cf_cooldown := (if cf_cooldown c \<le> 0 then 10 * 10 ^ 9 else cf_cooldown c)\<rparr>"

section \<open>The environment and the state\<close>

record auth_mode =
  am_bearer :: string
  am_user :: string
  am_cookie :: string
  am_none :: bool

record up_request =
  uq_method :: string
  uq_url :: string
  uq_headers :: "(string \<times> string) list"
  uq_body :: "jvalue option"

record up_response =
  ur_status :: int
  ur_body :: string
  ur_cookies :: "string list"

text \<open>
  \<open>ev_send\<close> delivers a request: an answer, or a transport error that is or is not a time-out.
  \<open>ev_pause d\<close> waits for a timer: \<open>None\<close> when it fires, otherwise the context ended first (\<open>Some
  True\<close> for a passed deadline).  \<open>ev_acquire\<close> takes a lock of the keyed locker, or the context
  ends.  \<open>ev_reveal_fault\<close> is the switch by which tests make the last step of opening an account fail.
  \<open>ev_rounds\<close> bounds how often the limiter is asked before a request.
\<close>

record 'n upenv =
  ev_now :: "'n \<Rightarrow> int"
  ev_send :: "up_request \<Rightarrow> 'n \<Rightarrow> (bool + up_response) \<times> 'n"
  ev_pause :: "int \<Rightarrow> 'n \<Rightarrow> bool option \<times> 'n"
  ev_jitter :: "'n \<Rightarrow> flt \<times> 'n"
  ev_acquire :: "string \<Rightarrow> 'n \<Rightarrow> bool \<times> 'n"
  ev_url_ok :: "string \<Rightarrow> bool"
  ev_reveal_fault :: bool
  ev_rounds :: nat

record 'n upstate =
  us_net :: 'n
  us_bucket :: tokenBucket
  us_cb :: circuitBreaker

text \<open>
  The errors inside the adapter: an upstream error with the raw message of the server (which never
  leaves the adapter), or another error.
\<close>

datatype cerr = UpErr upstream_error string | CErr err

type_synonym ('n, 'a) cop = "('n upstate, cerr, 'a) m"

definition newClient :: "up_config \<Rightarrow> int \<Rightarrow> 'n \<Rightarrow> 'n upstate" where
  "newClient cf now net =
     (let c = normalize_cf cf
      in \<lparr>us_net = net, us_bucket = newTokenBucket (cf_qps c) (cf_burst c) now,
          us_cb = newCircuitBreaker (cf_threshold c) (cf_cooldown c)\<rparr>)"

definition envStep :: "('n \<Rightarrow> 'x \<times> 'n) \<Rightarrow> ('n, 'x) cop" where
  "envStep f s = (case f (us_net s) of (x, n) \<Rightarrow> (Inr x, s\<lparr>us_net := n\<rparr>))"

definition nowC :: "'n upenv \<Rightarrow> ('n, int) cop" where
  "nowC ev = gets (\<lambda>s. ev_now ev (us_net s))"

definition onBreaker :: "(circuitBreaker \<Rightarrow> circuitBreaker) \<Rightarrow> ('n, unit) cop" where
  "onBreaker f s = (Inr (), s\<lparr>us_cb := f (us_cb s)\<rparr>)"

definition allowC :: "'n upenv \<Rightarrow> ('n, bool) cop" where
  "allowC ev s = (case allow (ev_now ev (us_net s)) (us_cb s) of (b, cb) \<Rightarrow> (Inr b, s\<lparr>us_cb := cb\<rparr>))"

definition reserveC :: "'n upenv \<Rightarrow> ('n, int) cop" where
  "reserveC ev s = (case reserve (ev_now ev (us_net s)) (us_bucket s) of (d, tb) \<Rightarrow> (Inr d, s\<lparr>us_bucket := tb\<rparr>))"

section \<open>Authentication\<close>

definition adminAuth :: "up_config \<Rightarrow> auth_mode" where
  "adminAuth cf = \<lparr>am_bearer = cf_admin_token cf, am_user = itoa (cf_admin_user cf), am_cookie = [], am_none = False\<rparr>"

definition userAuth :: "cred \<Rightarrow> auth_mode" where
  "userAuth c = \<lparr>am_bearer = cr_token c, am_user = itoa (cr_user c), am_cookie = [], am_none = False\<rparr>"

definition sessionAuth :: "string \<Rightarrow> int \<Rightarrow> auth_mode" where
  "sessionAuth cookie user = \<lparr>am_bearer = [], am_user = itoa user, am_cookie = cookie, am_none = False\<rparr>"

definition noAuth :: auth_mode where
  "noAuth = \<lparr>am_bearer = [], am_user = [], am_cookie = [], am_none = True\<rparr>"

section \<open>Reading an answer\<close>

definition lowerText :: "string \<Rightarrow> string" where "lowerText = map lowerChar"

text \<open>The Chinese words in the messages of new-api, as UTF-8.\<close>

definition wNoRight :: string where "wNoRight = [CHR 0xE6, CHR 0x97, CHR 0xA0, CHR 0xE6, CHR 0x9D, CHR 0x83]"
definition wLogin :: string where "wLogin = [CHR 0xE7, CHR 0x99, CHR 0xBB, CHR 0xE5, CHR 0xBD, CHR 0x95]"
definition wExists :: string where
  "wExists = [CHR 0xE5, CHR 0xB7, CHR 0xB2, CHR 0xE5, CHR 0xAD, CHR 0x98, CHR 0xE5, CHR 0x9C, CHR 0xA8]"
definition wTaken :: string where "wTaken = [CHR 0xE5, CHR 0xB7, CHR 0xB2, CHR 0xE8, CHR 0xA2, CHR 0xAB]"
definition wMissing :: string where
  "wMissing = [CHR 0xE4, CHR 0xB8, CHR 0x8D, CHR 0xE5, CHR 0xAD, CHR 0x98, CHR 0xE5, CHR 0x9C, CHR 0xA8]"
definition wInvalid :: string where "wInvalid = [CHR 0xE6, CHR 0x97, CHR 0xA0, CHR 0xE6, CHR 0x95, CHR 0x88]"

definition looksLikeAuthFailure :: "string \<Rightarrow> bool" where
  "looksLikeAuthFailure msg =
     (let m = lowerText msg in contains ''access token'' m \<or> contains ''unauthorized'' m \<or>
        contains wNoRight m \<or> contains wLogin m \<or> contains ''token invalid'' m)"

definition joinWith :: "string \<Rightarrow> string list \<Rightarrow> string" where
  "joinWith sep ps = (case ps of [] \<Rightarrow> [] | p # r \<Rightarrow> p @ concat (map (\<lambda>x. sep @ x) r))"

definition extractSessionCookie :: "string list \<Rightarrow> string" where
  "extractSessionCookie cs =
     joinWith ''; '' (filter (\<lambda>c. c \<noteq> []) (map (\<lambda>c. TrimSpace (takeWhile (\<lambda>x. x \<noteq> CHR '';'') c)) cs))"

record envelope =
  en_success :: bool
  en_message :: string
  en_data :: "jvalue option"

definition decEnvelope :: "jmembers \<Rightarrow> envelope option" where
  "decEnvelope ms =
     (case (getField ''success'' decBool False ms, getField ''message'' decStr [] ms) of
        (Some ok, Some msg) \<Rightarrow> Some \<lparr>en_success = ok, en_message = msg, en_data = getRaw ''data'' ms\<rparr>
      | _ \<Rightarrow> None)"

text \<open>A body that is no envelope is taken as the data.\<close>

definition readEnvelope :: "string \<Rightarrow> envelope" where
  "readEnvelope raw =
     (if raw = [] then \<lparr>en_success = True, en_message = [], en_data = None\<rparr>
      else case parseJson raw of
        None \<Rightarrow> \<lparr>en_success = True, en_message = [], en_data = None\<rparr>
      | Some v \<Rightarrow> (case decStruct decEnvelope v of
            Some e \<Rightarrow> e
          | None \<Rightarrow> \<lparr>en_success = True, en_message = [], en_data = Some v\<rparr>))"

record callResult =
  cl_data :: "jvalue option"
  cl_cookie :: string

section \<open>One request\<close>

definition bizReject :: "string \<Rightarrow> int \<Rightarrow> upstream_error" where
  "bizReject step status =
     \<lparr>ue_step = step, ue_http = status, ue_code = platformCodeForBiz step, ue_class = ClassNonRetryable\<rparr>"

definition stepErr :: "string \<Rightarrow> int \<Rightarrow> err_class \<Rightarrow> cerr" where
  "stepErr step code cls = UpErr \<lparr>ue_step = step, ue_http = 0, ue_code = code, ue_class = cls\<rparr> []"

definition headers :: "auth_mode \<Rightarrow> jvalue option \<Rightarrow> (string \<times> string) list" where
  "headers au body =
     (if body = None then [] else [(''Content-Type'', ''application/json'')]) @
     (if am_none au then []
      else (if am_bearer au = [] then [] else [(''Authorization'', ''Bearer '' @ am_bearer au)]) @
           (if am_user au = [] then [] else [(''New-Api-User'', am_user au)]) @
           (if am_cookie au = [] then [] else [(''Cookie'', am_cookie au)]))"

definition requestOf :: "up_config \<Rightarrow> string \<Rightarrow> string \<Rightarrow> auth_mode \<Rightarrow> jvalue option \<Rightarrow> up_request" where
  "requestOf cf meth path au body =
     \<lparr>uq_method = meth, uq_url = cf_base cf @ path, uq_headers = headers au body, uq_body = body\<rparr>"

definition readAnswer :: "string \<Rightarrow> up_response \<Rightarrow> cerr + callResult" where
  "readAnswer step rs =
     (if ur_status rs < 200 \<or> 300 \<le> ur_status rs then Inl (UpErr (classifyHTTP step (ur_status rs)) [])
      else let env = readEnvelope (take (2 ^ 20) (ur_body rs))
           in if \<not> en_success env then
                (if looksLikeAuthFailure (en_message env) then Inl (UpErr (classifyHTTP step 401) [])
                 else Inl (UpErr (bizReject step (ur_status rs)) (en_message env)))
              else Inr \<lparr>cl_data = en_data env, cl_cookie = extractSessionCookie (ur_cookies rs)\<rparr>)"

definition doOnce :: "'n upenv \<Rightarrow> up_config \<Rightarrow> string \<Rightarrow> string \<Rightarrow> string \<Rightarrow> auth_mode \<Rightarrow> jvalue option \<Rightarrow> ('n, callResult) cop" where
  "doOnce ev cf step meth path au body =
     (if \<not> ev_url_ok ev (cf_base cf @ path) then throw (stepErr step 50000 ClassNonRetryable)
      else bind (envStep (ev_send ev (requestOf cf meth path au body))) (\<lambda>r. case r of
          Inl timeout \<Rightarrow> throw (UpErr (newTransportError step timeout) [])
        | Inr rs \<Rightarrow> (case readAnswer step rs of Inl e \<Rightarrow> throw e | Inr res \<Rightarrow> return res)))"

section \<open>Guards and retries\<close>

text \<open>\<open>tokenBucket.wait\<close>: \<open>None\<close> when a token was taken, else how the context ended.\<close>

fun waitToken :: "'n upenv \<Rightarrow> nat \<Rightarrow> ('n, bool option) cop" where
  "waitToken ev 0 = throw (CErr OutOfFuel)"
| "waitToken ev (Suc k) = bind (reserveC ev) (\<lambda>d.
     if d \<le> 0 then return None
     else bind (envStep (ev_pause ev d)) (\<lambda>r. case r of
            None \<Rightarrow> waitToken ev k
          | Some b \<Rightarrow> return (Some b)))"

definition sleepBackoff :: "'n upenv \<Rightarrow> up_config \<Rightarrow> nat \<Rightarrow> ('n, bool) cop" where
  "sleepBackoff ev cf n =
     bind (envStep (ev_jitter ev)) (\<lambda>x.
     bind (envStep (ev_pause ev (trunc (fMul (toFloat (i64 (cf_backoff cf * 2 ^ (n - 1))), 1) (fAdd (1, 2) x))))) (\<lambda>r.
     return (r = None)))"

definition settleFailure :: "'n upenv \<Rightarrow> ('n, unit) cop" where
  "settleFailure ev = bind (nowC ev) (\<lambda>t. onBreaker (onFailure t))"

text \<open>The attempts: \<open>k\<close> more may follow the one numbered \<open>n\<close>.\<close>

fun attempts :: "'n upenv \<Rightarrow> up_config \<Rightarrow> string \<Rightarrow> ('n, callResult) cop \<Rightarrow> nat \<Rightarrow> nat \<Rightarrow> ('n, callResult) cop" where
  "attempts ev cf step once k n =
     bind (if n = 0 then return True else sleepBackoff ev cf n) (\<lambda>ok.
     if \<not> ok then throw (UpErr (newTransportError step True) [])
     else bind (attempt once) (\<lambda>r. case r of
         Inr res \<Rightarrow> bind (onBreaker onSuccess) (\<lambda>_. return res)
       | Inl e \<Rightarrow>
          (case e of
             UpErr u msg \<Rightarrow>
               (if Retryable u then
                  bind (settleFailure ev) (\<lambda>_. case k of 0 \<Rightarrow> throw e | Suc j \<Rightarrow> attempts ev cf step once j (Suc n))
                else bind (onBreaker onSuccess) (\<lambda>_. throw e))
           | CErr x \<Rightarrow> throw e)))"

definition doCall :: "'n upenv \<Rightarrow> up_config \<Rightarrow> string \<Rightarrow> string \<Rightarrow> string \<Rightarrow> auth_mode \<Rightarrow> jvalue option \<Rightarrow> ('n, callResult) cop" where
  "doCall ev cf step meth path au body =
     bind (allowC ev) (\<lambda>ok.
     if \<not> ok then throw (UpErr ErrCircuitOpen [])
     else bind (waitToken ev (ev_rounds ev)) (\<lambda>w. case w of
         Some timedOut \<Rightarrow> bind (onBreaker probeAbort) (\<lambda>_. throw (UpErr (newTransportError step timedOut) []))
       | None \<Rightarrow> attempts ev cf step (doOnce ev cf step meth path au body) (nat (cf_retries cf)) 0))"

section \<open>Queries\<close>

definition hexUpper :: "nat \<Rightarrow> char" where "hexUpper n = ''0123456789ABCDEF'' ! n"

definition QueryEscape :: "string \<Rightarrow> string" where
  "QueryEscape s = concat (map (\<lambda>c. let n = (of_char c :: nat) in
     if isDigit c \<or> 65 \<le> n \<and> n \<le> 90 \<or> 97 \<le> n \<and> n \<le> 122 \<or> c \<in> {CHR ''-'', CHR ''_'', CHR ''.'', CHR ''~''} then [c]
     else if c = CHR '' '' then ''+''
     else [CHR ''%'', hexUpper (n div 16), hexUpper (n mod 16)]) s)"

definition query_path :: "string \<Rightarrow> (string \<times> string) list \<Rightarrow> string" where
  "query_path path kv =
     (if kv = [] then path
      else path @ CHR ''?'' # joinWith ''&'' (map (\<lambda>(k, v). QueryEscape k @ CHR ''='' # QueryEscape v) (sortByKey kv)))"

end
