(* ===== verification/Adapter.thy ===== *)
theory Adapter
  imports Client Pricing
begin

text \<open>
  The methods of the adapter (\<open>adapter/newapi/adapter.go\<close>, \<open>token_update.go\<close>, \<open>logs.go\<close>,
  \<open>subscription.go\<close>, \<open>associate.go\<close>, \<open>user_group.go\<close>): each builds its requests, sends them through
  the client and reads the data of the answers.
\<close>

section \<open>Answers\<close>

definition objBody :: "jmembers \<Rightarrow> jvalue option" where
  "objBody ms = Some (VObj (sortByKey ms))"

text \<open>A list that is bare or wrapped in \<open>items\<close>, \<open>data\<close> or \<open>list\<close>.\<close>

definition parseListOf :: "(jvalue \<Rightarrow> 'a option) \<Rightarrow> jvalue option \<Rightarrow> 'a list" where
  "parseListOf dec d =
     (case unmarshal (decSlice dec) d of
        Some (Some xs) \<Rightarrow> xs
      | _ \<Rightarrow> (case unmarshal (decStruct (\<lambda>ms.
                case (getSlice ''items'' dec ms, getSlice ''data'' dec ms, getSlice ''list'' dec ms) of
                  (Some a, Some b, Some c) \<Rightarrow> Some (a, b, c) | _ \<Rightarrow> None)) d of
            Some (Some xs, _, _) \<Rightarrow> xs
          | Some (None, Some xs, _) \<Rightarrow> xs
          | Some (None, None, Some xs) \<Rightarrow> xs
          | _ \<Rightarrow> []))"

text \<open>\<open>userObj\<close> and \<open>tokenObj\<close>: an identifier with a name.\<close>

definition decNamed :: "string \<Rightarrow> jvalue \<Rightarrow> (int \<times> string) option" where
  "decNamed nm = decStruct (\<lambda>ms. case (getField ''id'' decInt 0 ms, getField nm decStr [] ms) of
     (Some i, Some s) \<Rightarrow> Some (i, s) | _ \<Rightarrow> None)"

definition parseUserList :: "jvalue option \<Rightarrow> (int \<times> string) list" where
  "parseUserList = parseListOf (decNamed ''username'')"

definition parseTokenList :: "jvalue option \<Rightarrow> (int \<times> string) list" where
  "parseTokenList = parseListOf (decNamed ''name'')"

definition bareString :: "jvalue option \<Rightarrow> string" where
  "bareString d = (case unmarshal (orZero [] decStr) d of Some s \<Rightarrow> s | None \<Rightarrow> [])"

definition stringField :: "string \<Rightarrow> jvalue option \<Rightarrow> string" where
  "stringField nm d = (case unmarshal (decStruct (getField nm decStr [])) d of Some s \<Rightarrow> s | None \<Rightarrow> [])"

definition parseTokenKey :: "jvalue option \<Rightarrow> string" where
  "parseTokenKey d = (if bareString d \<noteq> [] then bareString d else stringField ''key'' d)"

text \<open>The failures a message of new-api stands for.\<close>

definition failMessage :: "cerr \<Rightarrow> string" where
  "failMessage e = (case e of UpErr u msg \<Rightarrow> msg | CErr x \<Rightarrow> [])"

definition isAlreadyExists :: "cerr \<Rightarrow> bool" where
  "isAlreadyExists e = (let m = failMessage e in
     contains ''exist'' (lowerText m) \<or> contains wExists m \<or> contains wTaken m)"

definition isNotFound :: "cerr \<Rightarrow> bool" where
  "isNotFound e = (let m = failMessage e in
     contains ''not found'' (lowerText m) \<or> contains ''not exist'' (lowerText m) \<or> contains wMissing m \<or> contains wInvalid m)"

section \<open>Tokens\<close>

definition tokenPayload :: "token_spec \<Rightarrow> jmembers" where
  "tokenPayload sp =
     [(''name'', VStr (ts_name sp)), (''remain_quota'', intValue (ts_quota sp)),
      (''unlimited_quota'', VBool (ts_unlimited sp)), (''expired_time'', intValue (ts_expired sp))] @
     (if ts_models sp \<noteq> []
      then [(''model_limits_enabled'', VBool True), (''model_limits'', VStr (joinWith '','' (ts_models sp)))]
      else [(''model_limits_enabled'', VBool False)]) @
     (if ts_group sp = [] then [] else [(''group'', VStr (ts_group sp))]) @
     (if ts_ips sp = [] then [] else [(''allow_ips'', VStr (ts_ips sp))])"

definition findTokenByName :: "'n upenv \<Rightarrow> up_config \<Rightarrow> cred \<Rightarrow> string \<Rightarrow> ('n, int option) cop" where
  "findTokenByName ev cf cr nm =
     bind (doCall ev cf ''CreateToken'' ''GET'' (query_path ''/api/token/'' [(''p'', ''0''), (''size'', ''100'')]) (userAuth cr) None) (\<lambda>res.
     return (map_option fst (find (\<lambda>t. snd t = nm) (parseTokenList (cl_data res)))))"

definition CreateToken :: "'n upenv \<Rightarrow> up_config \<Rightarrow> cred \<Rightarrow> token_spec \<Rightarrow> ('n, int) cop" where
  "CreateToken ev cf cr sp =
     bind (findTokenByName ev cf cr (ts_name sp)) (\<lambda>f. case f of
       Some i \<Rightarrow> return i
     | None \<Rightarrow>
     bind (doCall ev cf ''CreateToken'' ''POST'' ''/api/token/'' (userAuth cr) (objBody (tokenPayload sp))) (\<lambda>_.
     bind (findTokenByName ev cf cr (ts_name sp)) (\<lambda>g. case g of
       Some i \<Rightarrow> return i
     | None \<Rightarrow> throw (stepErr ''CreateToken'' 50202 ClassRetryable))))"

definition RevealTokenKey :: "'n upenv \<Rightarrow> up_config \<Rightarrow> cred \<Rightarrow> int \<Rightarrow> ('n, string) cop" where
  "RevealTokenKey ev cf cr i =
     bind (doCall ev cf ''RevealTokenKey'' ''POST'' (''/api/token/'' @ itoa i @ ''/key'') (userAuth cr) None) (\<lambda>res.
     let key = parseTokenKey (cl_data res)
     in if key = [] then throw (stepErr ''RevealTokenKey'' 50203 ClassRetryable) else return key)"

definition DeleteToken :: "'n upenv \<Rightarrow> up_config \<Rightarrow> cred \<Rightarrow> int \<Rightarrow> ('n, unit) cop" where
  "DeleteToken ev cf cr i =
     bind (attempt (doCall ev cf ''DeleteToken'' ''DELETE'' (''/api/token/'' @ itoa i) (userAuth cr) None)) (\<lambda>r. case r of
       Inr _ \<Rightarrow> return ()
     | Inl e \<Rightarrow> if isNotFound e then return () else throw e)"

definition RotateToken :: "'n upenv \<Rightarrow> up_config \<Rightarrow> cred \<Rightarrow> int \<Rightarrow> token_spec \<Rightarrow> ('n, int \<times> string) cop" where
  "RotateToken ev cf cr old sp =
     bind (CreateToken ev cf cr sp) (\<lambda>new.
     bind (RevealTokenKey ev cf cr new) (\<lambda>key.
     bind (guard_when (0 < old \<and> old \<noteq> new) (ignoreErr (DeleteToken ev cf cr old))) (\<lambda>_.
     return (new, key))))"

definition UpdateToken :: "'n upenv \<Rightarrow> up_config \<Rightarrow> cred \<Rightarrow> int \<Rightarrow> token_spec \<Rightarrow> ('n, unit) cop" where
  "UpdateToken ev cf cr i sp =
     bind (doCall ev cf ''CreateToken'' ''PUT'' ''/api/token/'' (userAuth cr) (objBody ((''id'', intValue i) # tokenPayload sp))) (\<lambda>_. return ())"

definition SetTokenStatus :: "'n upenv \<Rightarrow> up_config \<Rightarrow> cred \<Rightarrow> int \<Rightarrow> bool \<Rightarrow> ('n, unit) cop" where
  "SetTokenStatus ev cf cr i enabled =
     bind (doCall ev cf ''CreateToken'' ''PUT'' ''/api/token/?status_only=1'' (userAuth cr)
             (objBody [(''id'', intValue i), (''status'', intValue (if enabled then 1 else 2))])) (\<lambda>_. return ())"

section \<open>Users\<close>

definition modeText :: "quota_mode \<Rightarrow> string" where
  "modeText m = (case m of QuotaOverride \<Rightarrow> ''override'' | QuotaAdd \<Rightarrow> ''add'' | QuotaSubtract \<Rightarrow> ''subtract'')"

definition quotaBody :: "int \<Rightarrow> quota_mode \<Rightarrow> int \<Rightarrow> jmembers" where
  "quotaBody user mode quota =
     [(''id'', intValue user), (''action'', VStr ''add_quota''), (''mode'', VStr (modeText mode)), (''value'', intValue quota)]"

definition ManageUserQuota :: "'n upenv \<Rightarrow> up_config \<Rightarrow> int \<Rightarrow> quota_mode \<Rightarrow> int \<Rightarrow> ('n, unit) cop" where
  "ManageUserQuota ev cf user mode quota =
     bind (doCall ev cf ''ManageUserQuota'' ''POST'' ''/api/user/manage'' (adminAuth cf) (objBody (quotaBody user mode quota))) (\<lambda>_. return ())"

definition userPath :: "int \<Rightarrow> string" where "userPath user = ''/api/user/'' @ itoa user"

definition intField :: "string \<Rightarrow> jvalue option \<Rightarrow> int option" where
  "intField nm = unmarshal (decStruct (getField nm decInt 0))"

definition GetUserQuota :: "'n upenv \<Rightarrow> up_config \<Rightarrow> int \<Rightarrow> ('n, int) cop" where
  "GetUserQuota ev cf user =
     bind (doCall ev cf ''GetUser'' ''GET'' (userPath user) (adminAuth cf) None) (\<lambda>res.
     case intField ''quota'' (cl_data res) of
       None \<Rightarrow> throw (stepErr ''GetUser'' 50000 ClassNonRetryable)
     | Some n \<Rightarrow> return n)"

definition SetUserStatus :: "'n upenv \<Rightarrow> up_config \<Rightarrow> int \<Rightarrow> bool \<Rightarrow> ('n, unit) cop" where
  "SetUserStatus ev cf user enabled =
     bind (doCall ev cf ''SetUserStatus'' ''POST'' ''/api/user/manage'' (adminAuth cf)
       (objBody [(''id'', intValue user), (''action'', VStr (if enabled then ''enable'' else ''disable''))])) (\<lambda>_. return ())"

definition failOf :: "string \<Rightarrow> cerr \<Rightarrow> upstream_error" where
  "failOf step e = (case e of UpErr u msg \<Rightarrow> u | CErr x \<Rightarrow> asUpstreamError step x)"

definition ProbeAccessToken :: "'n upenv \<Rightarrow> up_config \<Rightarrow> cred \<Rightarrow> ('n, bool) cop" where
  "ProbeAccessToken ev cf cr =
     bind (attempt (doCall ev cf ''ProbeAccessToken'' ''GET'' (query_path ''/api/token/'' [(''p'', ''0''), (''size'', ''1'')]) (userAuth cr) None)) (\<lambda>r. case r of
       Inr _ \<Rightarrow> return True
     | Inl e \<Rightarrow> if AuthExpired (failOf ''ProbeAccessToken'' e) then return False else throw e)"

text \<open>The search by name, up to twenty pages of a hundred.\<close>

fun searchUser :: "'n upenv \<Rightarrow> up_config \<Rightarrow> string \<Rightarrow> nat list \<Rightarrow> ('n, int option) cop" where
  "searchUser ev cf nm [] = return None"
| "searchUser ev cf nm (p # ps) =
     bind (doCall ev cf ''GetUser'' ''GET''
            (query_path ''/api/user/search'' [(''keyword'', nm), (''p'', itoa (int p)), (''page_size'', ''100'')]) (adminAuth cf) None) (\<lambda>res.
     let us = parseUserList (cl_data res)
     in case find (\<lambda>u. snd u = nm) us of
          Some u \<Rightarrow> return (Some (fst u))
        | None \<Rightarrow> if length us < 100 then return None else searchUser ev cf nm ps)"

definition getUserByUsername :: "'n upenv \<Rightarrow> up_config \<Rightarrow> string \<Rightarrow> ('n, int option) cop" where
  "getUserByUsername ev cf nm = searchUser ev cf nm [1..<21]"

text \<open>A user object read into \<open>map[string]any\<close>: numbers become floats.\<close>

fun anyVal :: "jvalue \<Rightarrow> jvalue option" and anyVals :: "jvalue list \<Rightarrow> jvalue list option"
  and anyFields :: "jmembers \<Rightarrow> jmembers \<Rightarrow> jmembers option" where
  "anyVal VNull = Some VNull"
| "anyVal (VBool b) = Some (VBool b)"
| "anyVal (VStr s) = Some (VStr s)"
| "anyVal (VNum n) = map_option (\<lambda>f. VNum (floatText f)) (parseFloat n)"
| "anyVal (VArr vs) = map_option VArr (anyVals vs)"
| "anyVal (VObj ms) = map_option (\<lambda>es. VObj (sortByKey es)) (anyFields ms [])"
| "anyVals [] = Some []"
| "anyVals (v # vs) = (case anyVal v of None \<Rightarrow> None | Some w \<Rightarrow> map_option ((#) w) (anyVals vs))"
| "anyFields [] es = Some es"
| "anyFields ((k, v) # ms) es = (case anyVal v of None \<Rightarrow> None | Some w \<Rightarrow> anyFields ms (putEntryAt k w es))"

definition decAnyMap :: "jvalue \<Rightarrow> jmembers option option" where
  "decAnyMap v = (case v of VNull \<Rightarrow> Some None | VObj ms \<Rightarrow> map_option Some (anyFields ms []) | _ \<Rightarrow> None)"

definition SetUserGroup :: "'n upenv \<Rightarrow> up_config \<Rightarrow> int \<Rightarrow> string \<Rightarrow> ('n, unit) cop" where
  "SetUserGroup ev cf user grp =
     bind (doCall ev cf ''GetUser'' ''GET'' (userPath user) (adminAuth cf) None) (\<lambda>res.
     case unmarshal decAnyMap (cl_data res) of
       None \<Rightarrow> throw (stepErr ''GetUser'' 50000 ClassNonRetryable)
     | Some None \<Rightarrow> throw (stepErr ''GetUser'' 50400 ClassNonRetryable)
     | Some (Some u) \<Rightarrow>
         if (case map_of u ''group'' of Some (VStr s) \<Rightarrow> s | _ \<Rightarrow> []) = grp then return ()
         else bind (doCall ev cf ''ManageUserQuota'' ''PUT'' ''/api/user/'' (adminAuth cf)
                      (objBody (putEntryAt ''group'' (VStr grp) u))) (\<lambda>_. return ()))"

section \<open>The user's own account\<close>

definition decSelf :: "jmembers \<Rightarrow> self_info option" where
  "decSelf ms =
     (case (getField ''id'' decInt 0 ms, getField ''username'' decStr [] ms, getField ''role'' decInt 0 ms,
            getField ''status'' decInt 0 ms, getField ''group'' decStr [] ms) of
        (Some i, Some nm, Some rl, Some st, Some grp) \<Rightarrow>
          Some \<lparr>si_id = i, si_username = nm, si_role = rl, si_group = grp\<rparr>
      | _ \<Rightarrow> None)"

definition GetSelfInfo :: "'n upenv \<Rightarrow> up_config \<Rightarrow> cred \<Rightarrow> ('n, self_info) cop" where
  "GetSelfInfo ev cf cr =
     bind (doCall ev cf ''GetSelfInfo'' ''GET'' ''/api/user/self'' (userAuth cr) None) (\<lambda>res.
     case unmarshal (decStruct decSelf) (cl_data res) of
       None \<Rightarrow> throw (stepErr ''GetSelfInfo'' 50000 ClassNonRetryable)
     | Some info \<Rightarrow> return info)"

definition decToken :: "jvalue \<Rightarrow> user_token option" where
  "decToken = decStruct (\<lambda>ms.
     case (getField ''id'' decInt 0 ms, getField ''name'' decStr [] ms, getField ''group'' decStr [] ms,
           getField ''status'' decInt 0 ms, getField ''key'' decStr [] ms) of
       (Some i, Some nm, Some grp, Some st, Some key) \<Rightarrow>
         (case (getField ''unlimited_quota'' decBool False ms, getField ''expired_time'' decInt 0 ms,
                getField ''model_limits'' decStr [] ms) of
            (Some _, Some _, Some _) \<Rightarrow>
              Some \<lparr>ut_id = i, ut_name = nm, ut_status = st, ut_group = grp, ut_masked = key\<rparr>
          | _ \<Rightarrow> None)
     | _ \<Rightarrow> None)"

definition decTokenPage :: "jmembers \<Rightarrow> (user_token list \<times> int) option" where
  "decTokenPage ms = (case (getSlice ''items'' decToken ms, getField ''total'' decInt 0 ms) of
     (Some items, Some tot) \<Rightarrow> Some (case items of Some xs \<Rightarrow> xs | None \<Rightarrow> [], tot) | _ \<Rightarrow> None)"

fun tokenPages :: "'n upenv \<Rightarrow> up_config \<Rightarrow> cred \<Rightarrow> nat list \<Rightarrow> user_token list \<Rightarrow> ('n, user_token list) cop" where
  "tokenPages ev cf cr [] acc = return acc"
| "tokenPages ev cf cr (p # ps) acc =
     bind (doCall ev cf ''ListUserTokens'' ''GET''
            (query_path ''/api/token/'' [(''p'', itoa (int p)), (''page_size'', ''100'')]) (userAuth cr) None) (\<lambda>res.
     case unmarshal (decStruct decTokenPage) (cl_data res) of
       None \<Rightarrow> throw (stepErr ''ListUserTokens'' 50000 ClassNonRetryable)
     | Some (items, tot) \<Rightarrow>
         if tot \<le> int p * 100 \<or> items = [] then return (acc @ items)
         else tokenPages ev cf cr ps (acc @ items))"

definition ListUserTokens :: "'n upenv \<Rightarrow> up_config \<Rightarrow> cred \<Rightarrow> ('n, user_token list) cop" where
  "ListUserTokens ev cf cr = tokenPages ev cf cr [1..<101] []"

definition GetSelfSubscription :: "'n upenv \<Rightarrow> up_config \<Rightarrow> cred \<Rightarrow> ('n, string \<times> bool) cop" where
  "GetSelfSubscription ev cf cr =
     bind (doCall ev cf ''Subscription'' ''GET'' ''/api/subscription/self'' (userAuth cr) None) (\<lambda>res.
     case unmarshal (decStruct (\<lambda>ms. case (getField ''billing_preference'' decStr [] ms, getSlice ''subscriptions'' Some ms) of
              (Some pref, Some subs) \<Rightarrow> Some (pref, case subs of Some xs \<Rightarrow> xs \<noteq> [] | None \<Rightarrow> False) | _ \<Rightarrow> None)) (cl_data res) of
       None \<Rightarrow> throw (stepErr ''Subscription'' 50000 ClassNonRetryable)
     | Some p \<Rightarrow> return p)"

text \<open>The nil pointer of a success is returned in an \<open>error\<close>, which is not nil.\<close>

definition SetBillingPreference :: "'n upenv \<Rightarrow> up_config \<Rightarrow> cred \<Rightarrow> string \<Rightarrow> ('n, unit) cop" where
  "SetBillingPreference ev cf cr pref =
     bind (doCall ev cf ''Subscription'' ''PUT'' ''/api/subscription/self/preference'' (userAuth cr)
             (objBody [(''billing_preference'', VStr pref)])) (\<lambda>_. throw (CErr NilUpstream))"

section \<open>Logs\<close>

definition decLog :: "jvalue \<Rightarrow> log_entry option" where
  "decLog = decStruct (\<lambda>ms.
     case (getField ''id'' decInt 0 ms, getField ''user_id'' decInt 0 ms, getField ''created_at'' decInt 0 ms,
           getField ''model_name'' decStr [] ms, getField ''quota'' decInt 0 ms) of
       (Some i, Some user, Some created, Some model, Some quota) \<Rightarrow>
         (case (getField ''prompt_tokens'' decInt 0 ms, getField ''completion_tokens'' decInt 0 ms,
                getField ''token_id'' decInt 0 ms, getField ''token_name'' decStr [] ms) of
            (Some pt, Some ct, Some tok, Some _) \<Rightarrow>
              Some \<lparr>e_id = i, e_user = user, e_created = created, e_model = model, e_quota = quota,
                    e_prompt = pt, e_completion = ct, e_token = tok\<rparr>
          | _ \<Rightarrow> None)
     | _ \<Rightarrow> None)"

definition parseLogPage :: "jvalue option \<Rightarrow> ('n, log_entry list \<times> int) cop" where
  "parseLogPage d =
     (case unmarshal (decStruct (\<lambda>ms. case (getSlice ''items'' decLog ms, getField ''total'' decInt 0 ms) of
              (Some items, Some tot) \<Rightarrow> Some (case items of Some xs \<Rightarrow> xs | None \<Rightarrow> [], tot) | _ \<Rightarrow> None)) d of
        None \<Rightarrow> throw (stepErr ''ReadConsumptionLogs'' 50000 ClassNonRetryable)
      | Some p \<Rightarrow> return p)"

definition logPath :: "int \<Rightarrow> int \<Rightarrow> int \<Rightarrow> int \<Rightarrow> string" where
  "logPath since until p sz =
     ''/api/log/?type=2&start_timestamp='' @ itoa since @ ''&end_timestamp='' @ itoa until @
     ''&p='' @ itoa (if p \<le> 0 then 1 else p) @ ''&page_size='' @ itoa (if sz \<le> 0 \<or> 100 < sz then 100 else sz)"

definition ReadConsumptionLogs :: "'n upenv \<Rightarrow> up_config \<Rightarrow> int \<Rightarrow> int \<Rightarrow> int \<Rightarrow> int \<Rightarrow> ('n, log_entry list \<times> int) cop" where
  "ReadConsumptionLogs ev cf since until p sz =
     bind (doCall ev cf ''ReadConsumptionLogs'' ''GET'' (logPath since until p sz) (adminAuth cf) None) (\<lambda>res.
     parseLogPage (cl_data res))"

definition ReadConsumptionLogsByUsername ::
  "'n upenv \<Rightarrow> up_config \<Rightarrow> string \<Rightarrow> int \<Rightarrow> int \<Rightarrow> int \<Rightarrow> int \<Rightarrow> ('n, log_entry list \<times> int) cop" where
  "ReadConsumptionLogsByUsername ev cf nm since until p sz =
     bind (doCall ev cf ''ReadConsumptionLogs'' ''GET'' (logPath since until p sz @ ''&username='' @ QueryEscape nm) (adminAuth cf) None) (\<lambda>res.
     parseLogPage (cl_data res))"

definition SumConsumedQuotaByUsername :: "'n upenv \<Rightarrow> up_config \<Rightarrow> string \<Rightarrow> int \<Rightarrow> ('n, int) cop" where
  "SumConsumedQuotaByUsername ev cf nm until =
     bind (doCall ev cf ''ReadConsumptionLogs'' ''GET''
            (''/api/log/stat?type=2&username='' @ QueryEscape nm @ ''&start_timestamp=0&end_timestamp='' @ itoa until) (adminAuth cf) None) (\<lambda>res.
     case intField ''quota'' (cl_data res) of
       None \<Rightarrow> throw (stepErr ''ReadConsumptionLogs'' 50000 ClassNonRetryable)
     | Some n \<Rightarrow> return n)"

end
