(* ===== verification/Options.thy ===== *)
theory Options
  imports Adapter
begin

text \<open>
  The price options of new-api (\<open>adapter/newapi/options.go\<close>, \<open>groups.go\<close>): reading an option, the
  read-modify-write of the special ratios under one lock, the authoritative write of an
  organization's ratios with its read-back rounds, and the usable groups.  A Go map is the list
  of its pairs in order of insertion; it is written with sorted keys.
\<close>

section \<open>Reading\<close>

definition decOption :: "jvalue \<Rightarrow> (string \<times> string) option" where
  "decOption = decStruct (\<lambda>ms. case (getField ''key'' decStr [] ms, getField ''value'' decStr [] ms) of
     (Some k, Some v) \<Rightarrow> Some (k, v) | _ \<Rightarrow> None)"

text \<open>The value of an option in the list of all options; a missing one leaves the zero value.\<close>

definition readOption :: "string \<Rightarrow> (jvalue \<Rightarrow> 'a option) \<Rightarrow> 'a \<Rightarrow> jvalue option \<Rightarrow> 'a option" where
  "readOption key dec zero d =
     (case unmarshal (decSlice decOption) d of
        None \<Rightarrow> None
      | Some opts \<Rightarrow>
         (case find (\<lambda>kv. fst kv = key \<and> snd kv \<noteq> []) (case opts of Some xs \<Rightarrow> xs | None \<Rightarrow> []) of
            None \<Rightarrow> Some zero
          | Some kv \<Rightarrow> unmarshal dec (parseJson (snd kv))))"

definition getOptionJSON :: "'n upenv \<Rightarrow> up_config \<Rightarrow> string \<Rightarrow> (jvalue \<Rightarrow> 'a option) \<Rightarrow> 'a \<Rightarrow> ('n, 'a) cop" where
  "getOptionJSON ev cf key dec zero =
     bind (doCall ev cf ''GetOption'' ''GET'' ''/api/option/'' (adminAuth cf) None) (\<lambda>res.
     case readOption key dec zero (cl_data res) of
       None \<Rightarrow> throw (stepErr ''GetOption'' 50000 ClassNonRetryable)
     | Some x \<Rightarrow> return x)"

type_synonym ratios = "(string \<times> flt) list"

type_synonym ratio_map = "(string \<times> ratios option) list"

definition decRatios :: "jvalue \<Rightarrow> ratios option option" where
  "decRatios = decMap (orZero (0, 1) decFloat)"

definition decRatioMap :: "jvalue \<Rightarrow> ratio_map option option" where
  "decRatioMap = decMap decRatios"

definition entries :: "'v list option \<Rightarrow> 'v list" where
  "entries m = (case m of Some es \<Rightarrow> es | None \<Rightarrow> [])"

definition groupRatios :: "'n upenv \<Rightarrow> up_config \<Rightarrow> ('n, ratios) cop" where
  "groupRatios ev cf = bind (getOptionJSON ev cf ''GroupRatio'' decRatios None) (\<lambda>m. return (entries m))"

definition GetGroupRatio :: "'n upenv \<Rightarrow> up_config \<Rightarrow> string \<Rightarrow> ('n, flt option) cop" where
  "GetGroupRatio ev cf g = bind (groupRatios ev cf) (\<lambda>m. return (map_of m g))"

definition ListGroupRatios :: "'n upenv \<Rightarrow> up_config \<Rightarrow> ('n, ratios) cop" where
  "ListGroupRatios ev cf = groupRatios ev cf"

definition getGroupGroupRatioMap :: "'n upenv \<Rightarrow> up_config \<Rightarrow> ('n, ratio_map) cop" where
  "getGroupGroupRatioMap ev cf = bind (getOptionJSON ev cf ''GroupGroupRatio'' decRatioMap None) (\<lambda>m. return (entries m))"

definition innerOf :: "string \<Rightarrow> ratio_map \<Rightarrow> ratios" where
  "innerOf ug m = (case map_of m ug of Some (Some es) \<Rightarrow> es | _ \<Rightarrow> [])"

definition GetGroupGroupRatio :: "'n upenv \<Rightarrow> up_config \<Rightarrow> string \<Rightarrow> string \<Rightarrow> ('n, flt option) cop" where
  "GetGroupGroupRatio ev cf ug tg = bind (getGroupGroupRatioMap ev cf) (\<lambda>m. return (map_of (innerOf ug m) tg))"

section \<open>Writing the special ratios\<close>

definition ratioMapValue :: "ratio_map \<Rightarrow> jvalue" where
  "ratioMapValue = mapValue (\<lambda>inner. case inner of None \<Rightarrow> VNull | Some es \<Rightarrow> mapValue (\<lambda>f. VNum (floatText f)) es)"

definition optionBody :: "string \<Rightarrow> jvalue \<Rightarrow> jvalue option" where
  "optionBody key v = objBody [(''key'', VStr key), (''value'', VStr (jsonText v))]"

definition putOption :: "'n upenv \<Rightarrow> up_config \<Rightarrow> string \<Rightarrow> jvalue \<Rightarrow> ('n, unit) cop" where
  "putOption ev cf key v =
     bind (doCall ev cf ''SetOption'' ''PUT'' ''/api/option/'' (adminAuth cf) (optionBody key v)) (\<lambda>_. return ())"

text \<open>A lock of the keyed locker around a read-modify-write.\<close>

definition locked :: "'n upenv \<Rightarrow> string \<Rightarrow> string \<Rightarrow> ('n, 'a) cop \<Rightarrow> ('n, 'a) cop" where
  "locked ev key step body =
     bind (envStep (ev_acquire ev key)) (\<lambda>ok. if ok then body else throw (stepErr step 50000 ClassRetryable))"

definition mutateGroupGroupRatio :: "'n upenv \<Rightarrow> up_config \<Rightarrow> (ratio_map \<Rightarrow> ratio_map) \<Rightarrow> ('n, unit) cop" where
  "mutateGroupGroupRatio ev cf f =
     locked ev ''option:GroupGroupRatio'' ''SetOption'' (
     bind (getGroupGroupRatioMap ev cf) (\<lambda>m. putOption ev cf ''GroupGroupRatio'' (ratioMapValue (f m))))"

definition setRatio :: "string \<Rightarrow> string \<Rightarrow> flt \<Rightarrow> ratio_map \<Rightarrow> ratio_map" where
  "setRatio ug tg r m = putEntryAt ug (Some (putEntryAt tg r (innerOf ug m))) m"

definition deleteRatio :: "string \<Rightarrow> string \<Rightarrow> ratio_map \<Rightarrow> ratio_map" where
  "deleteRatio ug tg m =
     (case map_of m ug of
        None \<Rightarrow> m
      | Some inner \<Rightarrow>
          (let es = delEntryAt tg (entries inner)
           in if es = [] then delEntryAt ug m else putEntryAt ug (Some es) m))"

definition SetGroupGroupRatio :: "'n upenv \<Rightarrow> up_config \<Rightarrow> string \<Rightarrow> string \<Rightarrow> flt \<Rightarrow> ('n, unit) cop" where
  "SetGroupGroupRatio ev cf ug tg r = mutateGroupGroupRatio ev cf (setRatio ug tg r)"

definition DeleteGroupGroupRatio :: "'n upenv \<Rightarrow> up_config \<Rightarrow> string \<Rightarrow> string \<Rightarrow> ('n, unit) cop" where
  "DeleteGroupGroupRatio ev cf ug tg = mutateGroupGroupRatio ev cf (deleteRatio ug tg)"

definition withDesired :: "string \<Rightarrow> ratios \<Rightarrow> ratio_map \<Rightarrow> ratio_map" where
  "withDesired ug desired m = (if desired = [] then delEntryAt ug m else putEntryAt ug (Some desired) m)"

definition writeOnce :: "'n upenv \<Rightarrow> up_config \<Rightarrow> string \<Rightarrow> ratios \<Rightarrow> ('n, unit) cop" where
  "writeOnce ev cf ug desired =
     bind (getGroupGroupRatioMap ev cf) (\<lambda>m. putOption ev cf ''GroupGroupRatio'' (ratioMapValue (withDesired ug desired m)))"

definition ratiosEqual :: "ratios \<Rightarrow> ratios \<Rightarrow> bool" where
  "ratiosEqual inner desired \<longleftrightarrow> length inner = length desired \<and>
     list_all (\<lambda>(g, want). case map_of inner g of None \<Rightarrow> False | Some got \<Rightarrow> \<not> fless ratioEps (fdist got want)) desired"

definition orgRatiosMatch :: "'n upenv \<Rightarrow> up_config \<Rightarrow> string \<Rightarrow> ratios \<Rightarrow> ('n, bool) cop" where
  "orgRatiosMatch ev cf ug desired =
     bind (attempt (getGroupGroupRatioMap ev cf)) (\<lambda>r. return (case r of
       Inl _ \<Rightarrow> False | Inr m \<Rightarrow> ratiosEqual (innerOf ug m) desired))"

definition ggrVerifyBackoffs :: "int list" where
  "ggrVerifyBackoffs = [120 * 10 ^ 6, 360 * 10 ^ 6, 800 * 10 ^ 6]"

fun verifyRounds :: "'n upenv \<Rightarrow> up_config \<Rightarrow> string \<Rightarrow> ratios \<Rightarrow> int list \<Rightarrow> ('n, unit) cop" where
  "verifyRounds ev cf ug desired [] = return ()"
| "verifyRounds ev cf ug desired (b # bs) =
     bind (orgRatiosMatch ev cf ug desired) (\<lambda>ok.
     if ok then return ()
     else bind (envStep (ev_pause ev b)) (\<lambda>r. case r of
         Some _ \<Rightarrow> throw (CErr CtxError)
       | None \<Rightarrow> bind (writeOnce ev cf ug desired) (\<lambda>_. verifyRounds ev cf ug desired bs)))"

definition SetOrgGroupRatios :: "'n upenv \<Rightarrow> up_config \<Rightarrow> string \<Rightarrow> ratios \<Rightarrow> ('n, unit) cop" where
  "SetOrgGroupRatios ev cf ug desired =
     locked ev ''option:GroupGroupRatio'' ''SetOption'' (
     bind (writeOnce ev cf ug desired) (\<lambda>_. verifyRounds ev cf ug desired ggrVerifyBackoffs))"

section \<open>Groups\<close>

definition decPriceRow :: "jvalue \<Rightarrow> (string \<times> string list) option" where
  "decPriceRow = decStruct (\<lambda>ms.
     case (getField ''model_name'' decStr [] ms, getSlice ''enable_groups'' (orZero [] decStr) ms) of
       (Some nm, Some gs) \<Rightarrow> Some (nm, entries gs) | _ \<Rightarrow> None)"

definition addModel :: "string \<Rightarrow> string \<Rightarrow> (string \<times> string list) list \<Rightarrow> (string \<times> string list) list" where
  "addModel nm g out = putEntryAt g ((case map_of out g of Some ms \<Rightarrow> ms | None \<Rightarrow> []) @ [nm]) out"

definition groupModels :: "(string \<times> string list) list \<Rightarrow> (string \<times> string list) list" where
  "groupModels rows = fold (\<lambda>(nm, gs). fold (addModel nm) gs) rows []"

definition ListGroupModels :: "'n upenv \<Rightarrow> up_config \<Rightarrow> ('n, (string \<times> string list) list) cop" where
  "ListGroupModels ev cf =
     bind (doCall ev cf ''GetOption'' ''GET'' ''/api/pricing'' (adminAuth cf) None) (\<lambda>res.
     case unmarshal (decSlice decPriceRow) (cl_data res) of
       None \<Rightarrow> throw (stepErr ''GetOption'' 50000 ClassNonRetryable)
     | Some rows \<Rightarrow> return (groupModels (entries rows)))"

definition optGroupSpecialUsable :: string where
  "optGroupSpecialUsable = ''group_ratio_setting.group_special_usable_group''"

type_synonym usable_map = "(string \<times> (string \<times> string) list option) list"

definition decUsable :: "jvalue \<Rightarrow> usable_map option option" where
  "decUsable = decMap (decMap (orZero [] decStr))"

definition usableOf :: "string \<Rightarrow> usable_map \<Rightarrow> (string \<times> string) list" where
  "usableOf ug m = (case map_of m ug of Some (Some es) \<Rightarrow> es | _ \<Rightarrow> [])"

definition usableValue :: "usable_map \<Rightarrow> jvalue" where
  "usableValue = mapValue (\<lambda>inner. case inner of None \<Rightarrow> VNull | Some es \<Rightarrow> mapValue VStr es)"

definition GetOrgUsableGroups :: "'n upenv \<Rightarrow> up_config \<Rightarrow> string \<Rightarrow> ('n, string list) cop" where
  "GetOrgUsableGroups ev cf ug =
     bind (getOptionJSON ev cf optGroupSpecialUsable decUsable None) (\<lambda>m. return (map fst (usableOf ug (entries m))))"

definition AddOrgUsableGroup :: "'n upenv \<Rightarrow> up_config \<Rightarrow> string \<Rightarrow> string \<Rightarrow> ('n, unit) cop" where
  "AddOrgUsableGroup ev cf ug g =
     (if g = '''' \<or> g = ''default'' \<or> g = ug then return ()
      else locked ev (''option:'' @ optGroupSpecialUsable) ''SetOption'' (
        bind (getOptionJSON ev cf optGroupSpecialUsable decUsable None) (\<lambda>mo.
        let m = entries mo; inner = usableOf ug m
        in if map_of inner g \<noteq> None then return ()
           else putOption ev cf optGroupSpecialUsable (usableValue (putEntryAt ug (Some (putEntryAt g ''platform'' inner)) m)))))"

end
