(* ===== verification/Bootstrap.thy ===== *)
theory Bootstrap
  imports Options
begin

text \<open>
  Opening an account at new-api (\<open>adapter/newapi/bootstrap.go\<close>) and the whole adapter as the
  interface of the service.  A failure after the account was found carries the part of the result
  that exists already, next to the error.
\<close>

section \<open>Logging in\<close>

definition parseLoginUserID :: "jvalue option \<Rightarrow> int" where
  "parseLoginUserID d = (case intField ''id'' d of Some i \<Rightarrow> i | None \<Rightarrow> 0)"

definition parseAccessToken :: "jvalue option \<Rightarrow> string" where
  "parseAccessToken d =
     (if bareString d \<noteq> [] then bareString d
      else case unmarshal (decStruct (\<lambda>ms. case (getField ''access_token'' decStr [] ms, getField ''key'' decStr [] ms) of
                  (Some a, Some k) \<Rightarrow> Some (a, k) | _ \<Rightarrow> None)) d of
        Some (a, k) \<Rightarrow> if a \<noteq> [] then a else k
      | None \<Rightarrow> [])"

definition loginAndGetToken :: "'n upenv \<Rightarrow> up_config \<Rightarrow> string \<Rightarrow> string \<Rightarrow> ('n, string) cop" where
  "loginAndGetToken ev cf username password =
     bind (doCall ev cf ''Login'' ''POST'' ''/api/user/login'' noAuth
             (objBody [(''username'', VStr username), (''password'', VStr password)])) (\<lambda>login.
     let cookie = cl_cookie login
     in if cookie = [] then throw (stepErr ''Login'' 50301 ClassNonRetryable)
        else let user = parseLoginUserID (cl_data login)
        in if user = 0 then throw (stepErr ''Login'' 50301 ClassNonRetryable)
        else bind (doCall ev cf ''GetToken'' ''GET'' ''/api/user/token'' (sessionAuth cookie user) None) (\<lambda>tok.
             let t = parseAccessToken (cl_data tok)
             in if t = [] then throw (stepErr ''GetToken'' 50301 ClassNonRetryable) else return t))"

definition compensateDisable :: "'n upenv \<Rightarrow> up_config \<Rightarrow> int \<Rightarrow> ('n, unit) cop" where
  "compensateDisable ev cf user = ignoreErr (SetUserStatus ev cf user False)"

section \<open>Opening an account\<close>

definition bootstrapLockKey :: "int \<Rightarrow> int \<Rightarrow> string" where
  "bootstrapLockKey org mem = ''bootstrap:'' @ itoa org @ '':'' @ itoa mem"

definition deriveBootToken :: "int \<Rightarrow> int \<Rightarrow> string" where
  "deriveBootToken mem rotation = ''nexus_m'' @ itoa mem @ ''_v'' @ itoa rotation"

definition defaultBootstrapTokenSpec :: "int \<Rightarrow> token_spec" where
  "defaultBootstrapTokenSpec mem = \<lparr>ts_name = deriveBootToken mem 1, ts_quota = 0, ts_unlimited = True,
     ts_models = [], ts_group = [], ts_expired = -1, ts_ips = []\<rparr>"

text \<open>The first \<open>n\<close> characters of well-formed UTF-8: continuation bytes belong to the one before.\<close>

definition isContinuation :: "char \<Rightarrow> bool" where
  "isContinuation c \<longleftrightarrow> 0x80 \<le> (of_char c :: nat) \<and> (of_char c :: nat) < 0xC0"

fun truncateRunes :: "string \<Rightarrow> nat \<Rightarrow> string" where
  "truncateRunes [] n = []"
| "truncateRunes (c # s) n =
     (if isContinuation c then c # truncateRunes s n
      else case n of 0 \<Rightarrow> [] | Suc k \<Rightarrow> c # truncateRunes s k)"

definition roleValue :: int where "roleValue = 1"

definition createUserBody :: "boot_input \<Rightarrow> jvalue option" where
  "createUserBody bi = objBody [(''username'', VStr (bi_username bi)), (''password'', VStr (bi_password bi)),
     (''display_name'', VStr (truncateRunes (bi_display bi) 20)), (''role'', intValue roleValue)]"

text \<open>Identifier, access token, token identifier and key.\<close>

record boot_full =
  bf_user :: int
  bf_access :: string
  bf_token :: int
  bf_key :: string
  bf_adopted :: bool

definition noResult :: boot_full where
  "noResult = \<lparr>bf_user = 0, bf_access = [], bf_token = 0, bf_key = [], bf_adopted = False\<rparr>"

definition usernameConflict :: cerr where
  "usernameConflict = stepErr ''CreateUser'' 50409 ClassNonRetryable"

text \<open>What \<open>asUpstreamError(step, err)\<close> makes of an error.\<close>

definition asFail :: "string \<Rightarrow> cerr \<Rightarrow> cerr" where
  "asFail step e = (case e of UpErr u msg \<Rightarrow> e | CErr x \<Rightarrow> UpErr (asUpstreamError step x) [])"

text \<open>Creating the user: whether an existing one is adopted.\<close>

definition createOrAdopt :: "'n upenv \<Rightarrow> up_config \<Rightarrow> boot_input \<Rightarrow> ('n, bool) cop" where
  "createOrAdopt ev cf bi =
     bind (attempt (doCall ev cf ''CreateUser'' ''POST'' ''/api/user/'' (adminAuth cf) (createUserBody bi))) (\<lambda>r. case r of
       Inr _ \<Rightarrow> return False
     | Inl e \<Rightarrow>
         if isAlreadyExists e then (if bi_adopt bi then return True else throw usernameConflict)
         else bind (attempt (getUserByUsername ev cf (bi_username bi))) (\<lambda>g. case g of
             Inr (Some _) \<Rightarrow> return True
           | _ \<Rightarrow> throw (asFail ''CreateUser'' e)))"

text \<open>The steps once the user is known to exist.\<close>

definition issueCredential :: "'n upenv \<Rightarrow> up_config \<Rightarrow> boot_input \<Rightarrow> int \<Rightarrow> bool \<Rightarrow> ('n, boot_full \<times> cerr option) cop" where
  "issueCredential ev cf bi user adopted =
     bind (attempt (loginAndGetToken ev cf (bi_username bi) (bi_password bi))) (\<lambda>r. case r of
       Inl e \<Rightarrow> bind (compensateDisable ev cf user) (\<lambda>_. return (noResult, Some e))
     | Inr access \<Rightarrow>
         let res = noResult\<lparr>bf_user := user, bf_access := access, bf_adopted := adopted\<rparr>;
             cr = \<lparr>cr_user = user, cr_token = access\<rparr>
         in if bi_skip_token bi then return (res, None)
            else bind (attempt (CreateToken ev cf cr (defaultBootstrapTokenSpec (bi_member bi)))) (\<lambda>t. case t of
                Inl e \<Rightarrow> return (res, Some e)
              | Inr tok \<Rightarrow>
                  bind (attempt (RevealTokenKey ev cf cr tok)) (\<lambda>k. case k of
                    Inl e \<Rightarrow> return (res\<lparr>bf_token := tok\<rparr>, Some e)
                  | Inr key \<Rightarrow>
                      if ev_reveal_fault ev
                      then return (res\<lparr>bf_token := tok\<rparr>, Some (stepErr ''RevealTokenKey'' 50000 ClassNonRetryable))
                      else return (res\<lparr>bf_token := tok, bf_key := key\<rparr>, None))))"

definition BootstrapMember :: "'n upenv \<Rightarrow> up_config \<Rightarrow> boot_input \<Rightarrow> ('n, boot_full \<times> cerr option) cop" where
  "BootstrapMember ev cf bi =
     (if bi_username bi = [] \<or> bi_password bi = [] then throw (stepErr ''CreateUser'' 50000 ClassNonRetryable)
      else if 20 < length (bi_username bi) then throw (stepErr ''CreateUser'' 50000 ClassNonRetryable)
      else if length (bi_password bi) < 8 \<or> 20 < length (bi_password bi) then throw (stepErr ''CreateUser'' 50000 ClassNonRetryable)
      else locked ev (bootstrapLockKey (bi_org bi) (bi_member bi)) ''lock'' (
        bind (if bi_adopt bi then return (Inr None) else attempt (getUserByUsername ev cf (bi_username bi))) (\<lambda>pre.
        if (case pre of Inr (Some _) \<Rightarrow> True | _ \<Rightarrow> False) then throw usernameConflict
        else
        bind (createOrAdopt ev cf bi) (\<lambda>adopted.
        bind (attempt (getUserByUsername ev cf (bi_username bi))) (\<lambda>g. case g of
          Inl e \<Rightarrow> throw (asFail ''GetUser'' e)
        | Inr None \<Rightarrow> throw (stepErr ''GetUser'' 50201 ClassRetryable)
        | Inr (Some user) \<Rightarrow> issueCredential ev cf bi user adopted)))))"

definition RefreshAccessToken :: "'n upenv \<Rightarrow> up_config \<Rightarrow> boot_input \<Rightarrow> ('n, string) cop" where
  "RefreshAccessToken ev cf bi =
     locked ev (bootstrapLockKey (bi_org bi) (bi_member bi)) ''lock''
       (loginAndGetToken ev cf (bi_username bi) (bi_password bi))"

section \<open>The adapter\<close>

text \<open>An error as it leaves the adapter: the raw message stays inside.\<close>

definition publicErr :: "cerr \<Rightarrow> err" where
  "publicErr e = (case e of UpErr u msg \<Rightarrow> Upstream u | CErr x \<Rightarrow> x)"

definition expose :: "('n, 'a) cop \<Rightarrow> ('n upstate, err, 'a) m" where
  "expose f s = (case f s of (Inl e, s') \<Rightarrow> (Inl (publicErr e), s') | (Inr a, s') \<Rightarrow> (Inr a, s'))"

definition bootResult :: "boot_full \<times> cerr option \<Rightarrow> ('n, boot_result) cop" where
  "bootResult p = (case snd p of Some e \<Rightarrow> throw e
     | None \<Rightarrow> return \<lparr>br_user = bf_user (fst p), br_access = bf_access (fst p)\<rparr>)"

definition adapterOf :: "'n upenv \<Rightarrow> up_config \<Rightarrow> 'n upstate newapi" where
  "adapterOf ev cf0 = (let cf = normalize_cf cf0 in \<lparr>
     na_BootstrapMember = (\<lambda>bi. expose (bind (BootstrapMember ev cf bi) bootResult)),
     na_CreateToken = (\<lambda>c sp. expose (CreateToken ev cf c sp)),
     na_RevealTokenKey = (\<lambda>c i. expose (RevealTokenKey ev cf c i)),
     na_RotateToken = (\<lambda>c i sp. expose (RotateToken ev cf c i sp)),
     na_UpdateToken = (\<lambda>c i sp. expose (UpdateToken ev cf c i sp)),
     na_SetTokenStatus = (\<lambda>c i b. expose (SetTokenStatus ev cf c i b)),
     na_DeleteToken = (\<lambda>c i. expose (DeleteToken ev cf c i)),
     na_ManageUserQuota = (\<lambda>u mode v. expose (ManageUserQuota ev cf u mode v)),
     na_GetUserQuota = (\<lambda>u. expose (GetUserQuota ev cf u)),
     na_SetUserStatus = (\<lambda>u b. expose (SetUserStatus ev cf u b)),
     na_SetUserGroup = (\<lambda>u g. expose (SetUserGroup ev cf u g)),
     na_ProbeAccessToken = (\<lambda>c. expose (ProbeAccessToken ev cf c)),
     na_RefreshAccessToken = (\<lambda>bi. expose (RefreshAccessToken ev cf bi)),
     na_GetSelfSubscription = (\<lambda>c. expose (GetSelfSubscription ev cf c)),
     na_SetBillingPreference = (\<lambda>c p. expose (SetBillingPreference ev cf c p)),
     na_GetSelfInfo = (\<lambda>c. expose (GetSelfInfo ev cf c)),
     na_ListUserTokens = (\<lambda>c. expose (ListUserTokens ev cf c)),
     na_GetOrgUsableGroups = (\<lambda>ug. expose (GetOrgUsableGroups ev cf ug)),
     na_AddOrgUsableGroup = (\<lambda>ug g. expose (AddOrgUsableGroup ev cf ug g)),
     na_ReadConsumptionLogs = (\<lambda>a b p z. expose (ReadConsumptionLogs ev cf a b p z)),
     na_ReadConsumptionLogsByUsername = (\<lambda>n a b p z. expose (ReadConsumptionLogsByUsername ev cf n a b p z)),
     na_GetGroupRatio = (\<lambda>g. expose (GetGroupRatio ev cf g)),
     na_GetGroupGroupRatio = (\<lambda>ug g. expose (GetGroupGroupRatio ev cf ug g)),
     na_SetOrgGroupRatios = (\<lambda>ug d. expose (SetOrgGroupRatios ev cf ug d)),
     na_ListGroupRatios = expose (ListGroupRatios ev cf),
     na_ListGroupModels = expose (ListGroupModels ev cf),
     na_SumConsumedQuotaByUsername = (\<lambda>n u. expose (SumConsumedQuotaByUsername ev cf n u)) \<rparr>)"

end
