(* ===== verification/ClientClaims.thy ===== *)
theory ClientClaims
  imports Bootstrap
begin

text \<open>
  What the client guarantees for every environment.  An environment is observed by a log of the
  requests it got and the answers it gave; everything else it does is left to it.
\<close>

section \<open>Observing\<close>

type_synonym answer = "bool + up_response"

type_synonym exchange = "up_request \<times> answer"

definition keepLog :: "('n \<Rightarrow> 'x \<times> 'n) \<Rightarrow> exchange list \<times> 'n \<Rightarrow> 'x \<times> (exchange list \<times> 'n)" where
  "keepLog f p = (case f (snd p) of (x, n) \<Rightarrow> (x, (fst p, n)))"

definition logged :: "'n upenv \<Rightarrow> (exchange list \<times> 'n) upenv" where
  "logged ev = \<lparr>
     ev_now = (\<lambda>p. ev_now ev (snd p)),
     ev_send = (\<lambda>q p. case ev_send ev q (snd p) of (a, n) \<Rightarrow> (a, (fst p @ [(q, a)], n))),
     ev_pause = (\<lambda>d. keepLog (ev_pause ev d)),
     ev_jitter = keepLog (ev_jitter ev),
     ev_acquire = (\<lambda>k. keepLog (ev_acquire ev k)),
     ev_url_ok = ev_url_ok ev,
     ev_reveal_fault = ev_reveal_fault ev,
     ev_rounds = ev_rounds ev \<rparr>"

definition sent :: "(exchange list \<times> 'n) upstate \<Rightarrow> exchange list" where
  "sent s = fst (us_net s)"

text \<open>Only exchanges with a property are added.\<close>

definition sends :: "(exchange \<Rightarrow> bool) \<Rightarrow> (exchange list \<times> 'n) upstate \<Rightarrow> (exchange list \<times> 'n) upstate \<Rightarrow> bool" where
  "sends P s s' \<longleftrightarrow> (\<exists>t. sent s' = sent s @ t \<and> list_all P t)"

lemma sends_same: "sent s' = sent s \<Longrightarrow> sends P s s'"
  by (simp add: sends_def)

interpretation sends: guarantee "sends P"
  by unfold_locales (auto simp: sends_def)

lemma sends_mono: "sends P s s' \<Longrightarrow> (\<And>x. P x \<Longrightarrow> P' x) \<Longrightarrow> sends P' s s'"
  by (auto simp: sends_def list_all_iff)

definition sameSent :: "(exchange list \<times> 'n) upstate \<Rightarrow> (exchange list \<times> 'n) upstate \<Rightarrow> bool" where
  "sameSent s s' \<longleftrightarrow> sent s' = sent s"

interpretation sameSent: guarantee sameSent
  by unfold_locales (auto simp: sameSent_def)

lemma quiet_steps [guar_intros]:
  "guar sameSent (envStep (ev_pause (logged ev) d))" "guar sameSent (envStep (ev_jitter (logged ev)))"
  "guar sameSent (envStep (ev_acquire (logged ev) k))" "guar sameSent (onBreaker f)"
  "guar sameSent (allowC e)" "guar sameSent (reserveC e)" "guar sameSent (nowC e)"
  by (auto simp: guar_def sameSent_def sent_def envStep_def logged_def keepLog_def onBreaker_def allowC_def reserveC_def
      nowC_def gets_def split: prod.splits)

lemma quiet_waitToken [guar_intros]: "guar sameSent (waitToken (logged ev) k)"
  by (induction k) (simp_all only: waitToken.simps, (intro guar_intros | assumption)+)

lemma quiet_sleep [guar_intros]: "guar sameSent (sleepBackoff (logged ev) cf n)" "guar sameSent (settleFailure (logged ev))"
  unfolding sleepBackoff_def settleFailure_def by (intro guar_intros)+

lemma wp_quiet: "guar sameSent m \<Longrightarrow> (\<And>a s'. sent s' = sent s \<Longrightarrow> Q a s') \<Longrightarrow> (\<And>e s'. sent s' = sent s \<Longrightarrow> E e s') \<Longrightarrow> wp m Q E s"
  using guarD[of sameSent m s] by (auto simp: wp_def sameSent_def split: prod.splits sum.splits)

section \<open>The reading of an answer\<close>

definition verdict :: "string \<Rightarrow> answer \<Rightarrow> cerr + callResult" where
  "verdict step a = (case a of Inl timeout \<Rightarrow> Inl (UpErr (newTransportError step timeout) []) | Inr rs \<Rightarrow> readAnswer step rs)"

definition retryErr :: "cerr \<Rightarrow> bool" where
  "retryErr e = (case e of UpErr u msg \<Rightarrow> Retryable u | CErr x \<Rightarrow> False)"

definition retryAnswer :: "string \<Rightarrow> answer \<Rightarrow> bool" where
  "retryAnswer step a = (case verdict step a of Inl e \<Rightarrow> retryErr e | Inr res \<Rightarrow> False)"

text \<open>The errors of a call that do not come from an answer: the breaker, the limiter, a cancelled
  context, an address that is none.\<close>

definition localErr :: "string \<Rightarrow> cerr \<Rightarrow> bool" where
  "localErr step e \<longleftrightarrow> e \<in> {UpErr ErrCircuitOpen [], UpErr (newTransportError step True) [], UpErr (newTransportError step False) [],
     stepErr step 50000 ClassNonRetryable, CErr OutOfFuel}"

lemma readAnswer_UpErr: "readAnswer step rs = Inl e \<Longrightarrow> \<exists>u msg. e = UpErr u msg"
  by (auto simp: readAnswer_def Let_def split: if_splits)

lemma doOnce_log:
  "wp (doOnce (logged ev) cf step meth path au body)
     (\<lambda>res s'. \<exists>a. sent s' = sent s @ [(requestOf cf meth path au body, a)] \<and> verdict step a = Inr res)
     (\<lambda>e s'. (\<exists>u msg. e = UpErr u msg) \<and>
        ((\<exists>a. sent s' = sent s @ [(requestOf cf meth path au body, a)] \<and> verdict step a = Inl e) \<or>
         sent s' = sent s \<and> e = stepErr step 50000 ClassNonRetryable)) s"
proof (cases "ev_url_ok ev (cf_base cf @ path)")
  case True
  let ?q = "requestOf cf meth path au body"
  obtain a n where a: "ev_send ev ?q (snd (us_net s)) = (a, n)" by fastforce
  let ?s = "s\<lparr>us_net := (fst (us_net s) @ [(?q, a)], n)\<rparr>"
  have send: "envStep (ev_send (logged ev) ?q) s = (Inr a, ?s)"
    by (simp add: envStep_def logged_def a)
  have st: "sent ?s = sent s @ [(?q, a)]" by (simp add: sent_def)
  have ok: "ev_url_ok (logged ev) (cf_base cf @ path)" using True by (simp add: logged_def)
  show ?thesis
  proof (cases a)
    case (Inl timeout)
    then show ?thesis using ok st by (simp add: doOnce_def wp_def bind_def send throw_def) (simp add: verdict_def)
  next
    case (Inr rs)
    show ?thesis
    proof (cases "readAnswer step rs")
      case (Inl e)
      then show ?thesis using ok st Inr readAnswer_UpErr[OF Inl]
        by (simp add: doOnce_def wp_def bind_def send throw_def) (auto simp: verdict_def)
    next
      case b: (Inr res)
      then show ?thesis using ok st Inr
        by (simp add: doOnce_def wp_def bind_def send return_def) (auto simp: verdict_def)
    qed
  qed
next
  case False
  then show ?thesis by (simp add: doOnce_def logged_def wp_throw stepErr_def sent_def)
qed

lemma wp_onBreaker [wp_simps]: "wp (onBreaker f) Q E s = Q () (s\<lparr>us_cb := f (us_cb s)\<rparr>)"
  by (simp add: wp_def onBreaker_def)

lemma sent_cb [simp]: "sent (s\<lparr>us_cb := cb\<rparr>) = sent s"
  by (simp add: sent_def)

lemma wp_settleFailure [wp_simps]:
  "wp (settleFailure ev) Q E s = Q () (s\<lparr>us_cb := onFailure (ev_now ev (us_net s)) (us_cb s)\<rparr>)"
  by (simp add: settleFailure_def nowC_def wp_simps)

lemma wp_sleep:
  "(\<And>b s'. sent s' = sent s \<Longrightarrow> Q b s') \<Longrightarrow> wp (sleepBackoff (logged ev) cf n) Q E s"
  by (auto simp: wp_def sleepBackoff_def bind_def envStep_def return_def logged_def keepLog_def sent_def split: prod.splits)

lemma attempts_round:
  assumes fin: "\<And>a res s'. sent s' = sent s @ [(requestOf cf meth path au body, a)] \<Longrightarrow> verdict step a = Inr res \<Longrightarrow> Q res s'"
    and bad: "\<And>a e s'. sent s' = sent s @ [(requestOf cf meth path au body, a)] \<Longrightarrow> verdict step a = Inl e \<Longrightarrow>
                k = 0 \<or> \<not> retryErr e \<Longrightarrow> E e s'"
    and again: "\<And>a j s'. k = Suc j \<Longrightarrow> sent s' = sent s @ [(requestOf cf meth path au body, a)] \<Longrightarrow> retryAnswer step a \<Longrightarrow>
                wp (attempts (logged ev) cf step (doOnce (logged ev) cf step meth path au body) j (Suc n)) Q E s'"
    and loc: "\<And>e s'. sent s' = sent s \<Longrightarrow> localErr step e \<Longrightarrow> E e s'"
  shows "wp (attempts (logged ev) cf step (doOnce (logged ev) cf step meth path au body) k n) Q E s"
proof -
  let ?once = "doOnce (logged ev) cf step meth path au body"
  have body: "wp (bind (attempt ?once) (\<lambda>r. case r of
         Inr res \<Rightarrow> bind (onBreaker onSuccess) (\<lambda>_. return res)
       | Inl e \<Rightarrow>
          (case e of
             UpErr u msg \<Rightarrow>
               (if Retryable u then
                  bind (settleFailure (logged ev)) (\<lambda>_. case k of 0 \<Rightarrow> throw e
                    | Suc j \<Rightarrow> attempts (logged ev) cf step ?once j (Suc n))
                else bind (onBreaker onSuccess) (\<lambda>_. throw e))
           | CErr x \<Rightarrow> throw e))) Q E s1"
    if s1: "sent s1 = sent s" for s1
    unfolding wp_bind wp_attempt
  proof (rule wp_mono[OF doOnce_log], goal_cases)
    case (1 res s2)
    then show ?case using fin s1 by (auto simp: wp_simps)
  next
    case (2 e s2)
    then obtain u msg where u: "e = UpErr u msg" by blast
    from 2 consider (got) a where "sent s2 = sent s @ [(requestOf cf meth path au body, a)]" "verdict step a = Inl e"
      | (none) "sent s2 = sent s" "e = stepErr step 50000 ClassNonRetryable" using s1 by auto
    then show ?case
    proof cases
      case got
      show ?thesis
      proof (cases "Retryable u")
        case True
        then have "retryAnswer step a" using got u by (simp add: retryAnswer_def retryErr_def)
        then show ?thesis using True got u again bad
          by (cases k) (simp_all add: wp_simps)
      next
        case False
        then show ?thesis using got u bad by (simp add: wp_simps retryErr_def)
      qed
    next
      case none
      then show ?thesis using loc[of _ e] by (auto simp: wp_simps stepErr_def localErr_def Retryable_def)
    qed
  qed
  show ?thesis
  proof (cases "n = 0")
    case True
    then show ?thesis using body[of s]
      by (subst attempts.simps) (simp add: wp_bind wp_return)
  next
    case False
    have cont: "wp (if \<not> ok then throw (UpErr (newTransportError step True) []) else m) Q E s1"
      if "sent s1 = sent s" "wp m Q E s1" for ok s1 and m :: "(_, cerr, _) m"
      using that loc by (simp add: wp_throw localErr_def)
    from False show ?thesis
      by (subst attempts.simps) (auto simp only: wp_bind if_False intro!: wp_sleep cont body)
  qed
qed

lemma attempts_log:
  fixes cf meth path au body
  defines "rq \<equiv> requestOf cf meth path au body"
  shows "wp (attempts (logged ev) cf step (doOnce (logged ev) cf step meth path au body) k n)
     (\<lambda>res s'. \<exists>t a. sent s' = sent s @ t @ [(rq, a)] \<and> length t \<le> k \<and>
        list_all (\<lambda>(q, b). q = rq \<and> retryAnswer step b) t \<and> verdict step a = Inr res)
     (\<lambda>e s'. (\<exists>t. sent s' = sent s @ t \<and> length t \<le> k \<and>
                list_all (\<lambda>(q, b). q = rq \<and> retryAnswer step b) t \<and> localErr step e) \<or>
             (\<exists>t a. sent s' = sent s @ t @ [(rq, a)] \<and> length t \<le> k \<and>
                list_all (\<lambda>(q, b). q = rq \<and> retryAnswer step b) t \<and> verdict step a = Inl e \<and>
                (retryErr e \<longrightarrow> length t = k))) s" (is "wp _ (?Q k s) (?E k s) s")
proof (induction k arbitrary: n s)
  case (0 n s)
  show ?case
    by (rule attempts_round) (force simp: rq_def)+
next
  case (Suc k n s)
  show ?case
  proof (rule attempts_round, goal_cases)
    case (1 a res s')
    then show ?case by (intro exI[of _ "[]"] exI[of _ a]) (simp add: rq_def)
  next
    case (2 a e s')
    then have "\<exists>t a. sent s' = sent s @ t @ [(rq, a)] \<and> length t \<le> Suc k \<and>
        list_all (\<lambda>(q, b). q = rq \<and> retryAnswer step b) t \<and> verdict step a = Inl e \<and> (retryErr e \<longrightarrow> length t = Suc k)"
      by (intro exI[of _ "[]"] exI[of _ a]) (simp add: rq_def)
    then show ?case by blast
  next
    case (3 a j s')
    then have j: "j = k" and s': "sent s' = sent s @ [(rq, a)]" and ra: "retryAnswer step a" by (auto simp: rq_def)
    have Q: "?Q k s' res s2 \<Longrightarrow> ?Q (Suc k) s res s2" for res s2
    proof (elim exE conjE)
      fix t b assume "sent s2 = sent s' @ t @ [(rq, b)]" "length t \<le> k"
        "list_all (\<lambda>(q, b). q = rq \<and> retryAnswer step b) t" "verdict step b = Inr res"
      then show "?Q (Suc k) s res s2" using s' ra by (intro exI[of _ "(rq, a) # t"] exI[of _ b]) simp
    qed
    have E: "?E k s' e s2 \<Longrightarrow> ?E (Suc k) s e s2" for e s2
    proof (elim disjE exE conjE, goal_cases)
      case (1 t)
      then show ?case using s' ra by (intro disjI1 exI[of _ "(rq, a) # t"]) simp
    next
      case (2 t b)
      then show ?case using s' ra by (intro disjI2 exI[of _ "(rq, a) # t"] exI[of _ b]) simp
    qed
    show ?case unfolding j rq_def[symmetric] using Suc.IH[of "Suc n" s'] by (rule wp_mono) (use Q E in blast)+
  next
    case (4 e s')
    then show ?case by (intro disjI1 exI[of _ "[]"]) simp
  qed
qed


section \<open>One call\<close>

lemma quiet_allow: "allowC ev s = (Inr b, s1) \<Longrightarrow> sent s1 = sent s"
  by (auto simp: allowC_def sent_def split: prod.splits)

lemma wp_allowC: "(\<And>b s'. sent s' = sent s \<Longrightarrow> Q b s') \<Longrightarrow> wp (allowC ev) Q E s"
  by (auto simp: wp_def allowC_def sent_def split: prod.splits)

lemma wp_waitToken:
  "(\<And>w s'. sent s' = sent s \<Longrightarrow> Q w s') \<Longrightarrow> (\<And>s'. sent s' = sent s \<Longrightarrow> E (CErr OutOfFuel) s') \<Longrightarrow>
   wp (waitToken (logged ev) k) Q E s"
proof (induction k arbitrary: s)
  case 0
  then show ?case by (simp add: wp_throw)
next
  case (Suc k)
  have r: "wp (reserveC (logged ev)) Q' E s" if "\<And>d s'. sent s' = sent s \<Longrightarrow> Q' d s'" for Q'
    using that by (auto simp: wp_def reserveC_def sent_def split: prod.splits)
  have p: "wp (envStep (ev_pause (logged ev) d)) Q' E s1" if "\<And>x s'. sent s' = sent s1 \<Longrightarrow> Q' x s'" for Q' d s1
    using that by (auto simp: wp_def envStep_def logged_def keepLog_def sent_def split: prod.splits)
  show ?case
    unfolding waitToken.simps wp_bind
    by (rule r) (auto simp: wp_simps Suc.prems split: option.splits intro!: p Suc.IH)
qed

lemma doCall_log:
  fixes cf meth path au body
  defines "rq \<equiv> requestOf cf meth path au body"
  defines "N \<equiv> nat (cf_retries cf)"
  shows "wp (doCall (logged ev) cf step meth path au body)
     (\<lambda>res s'. \<exists>t a. sent s' = sent s @ t @ [(rq, a)] \<and> length t \<le> N \<and>
        list_all (\<lambda>(q, b). q = rq \<and> retryAnswer step b) t \<and> verdict step a = Inr res)
     (\<lambda>e s'. (\<exists>t. sent s' = sent s @ t \<and> length t \<le> N \<and>
                list_all (\<lambda>(q, b). q = rq \<and> retryAnswer step b) t \<and> localErr step e) \<or>
             (\<exists>t a. sent s' = sent s @ t @ [(rq, a)] \<and> length t \<le> N \<and>
                list_all (\<lambda>(q, b). q = rq \<and> retryAnswer step b) t \<and> verdict step a = Inl e \<and>
                (retryErr e \<longrightarrow> length t = N))) s" (is "wp _ ?Q ?E s")
proof -
  have loc: "?E e s'" if "sent s' = sent s" "localErr step e" for e s'
    using that by (intro disjI1 exI[of _ "[]"]) simp
  show ?thesis
    unfolding doCall_def wp_bind
  proof (rule wp_allowC, goal_cases)
    case (1 ok s1)
    show ?case
    proof (cases ok)
      case False
      then show ?thesis using loc 1 by (simp add: wp_throw localErr_def)
    next
      case True
      then have nf: "\<not> \<not> ok" by simp
      show ?thesis
        unfolding if_not_P[OF nf] wp_bind
      proof (rule wp_waitToken, goal_cases)
        case (1 w s2)
        then have s2: "sent s2 = sent s" using \<open>sent s1 = sent s\<close> by simp
        show ?case
        proof (cases w)
          case None
          show ?thesis
            using attempts_log[of ev cf step meth path au body N 0 s2] by (simp add: None s2 rq_def N_def)
        next
          case (Some b)
          then show ?thesis using loc s2 by (cases b) (simp_all add: wp_simps localErr_def)
        qed
      next
        case (2 s2)
        then show ?case using loc \<open>sent s1 = sent s\<close> by (simp add: localErr_def)
      qed
    qed
  qed
qed

text \<open>A scripted network: its answers in order, then only time-outs; waiting moves its clock.\<close>

definition scriptEnv :: "(int \<times> answer list) upenv" where
  "scriptEnv = \<lparr>
     ev_now = fst,
     ev_send = (\<lambda>q n. case snd n of [] \<Rightarrow> (Inl True, n) | a # r \<Rightarrow> (a, (fst n, r))),
     ev_pause = (\<lambda>d n. (None, (fst n + d, snd n))),
     ev_jitter = (\<lambda>n. ((1, 2), n)),
     ev_acquire = (\<lambda>k n. (True, n)),
     ev_url_ok = (\<lambda>u. True),
     ev_reveal_fault = False,
     ev_rounds = 3 \<rparr>"

definition sampleConfig :: up_config where
  "sampleConfig = normalize_cf \<lparr>cf_base = ''http://up'', cf_admin_token = ''root'', cf_admin_user = 1, cf_timeout = 0, cf_retries = 0,
     cf_backoff = 0, cf_qps = (0, 1), cf_burst = 0, cf_threshold = 0, cf_cooldown = 0\<rparr>"

definition freshClient :: "answer list \<Rightarrow> (exchange list \<times> (int \<times> answer list)) upstate" where
  "freshClient as = newClient sampleConfig 0 ([], (0, as))"

definition okData :: "string \<Rightarrow> answer" where
  "okData d = Inr \<lparr>ur_status = 200, ur_body = CHR ''{'' # quoteStr ''success'' @ '':true,'' @ quoteStr ''data'' @ '':'' @ d @ ''}'', ur_cookies = []\<rparr>"



text \<open>
  The retries do not ask what the request does: a subtraction from a quota whose answers are lost
  is sent three times.
\<close>

lemma lost_subtraction_is_repeated:
  "length (sent (snd (ManageUserQuota (logged scriptEnv) sampleConfig 3 QuotaSubtract 10 (freshClient [])))) = 3"
  "list_all (\<lambda>x. uq_body (fst x) = objBody (quotaBody 3 QuotaSubtract 10))
     (sent (snd (ManageUserQuota (logged scriptEnv) sampleConfig 3 QuotaSubtract 10 (freshClient []))))"
  by code_simp+

section \<open>The breaker in use\<close>

lemma wp_free: "wp m (\<lambda>_ _. True) (\<lambda>_ _. True) s"
  by (auto simp: wp_def split: prod.splits sum.splits)

definition sameCb :: "'n upstate \<Rightarrow> 'n upstate \<Rightarrow> bool" where "sameCb s s' \<longleftrightarrow> us_cb s' = us_cb s"

interpretation sameCb: guarantee sameCb
  by unfold_locales (auto simp: sameCb_def)

lemma cb_steps [guar_intros]: "guar sameCb (envStep f)" "guar sameCb (reserveC e)" "guar sameCb (nowC e)"
  by (auto simp: guar_def sameCb_def envStep_def reserveC_def nowC_def gets_def split: prod.splits)

lemma cb_wait [guar_intros]: "guar sameCb (waitToken ev k)"
  by (induction k) (simp_all only: waitToken.simps, (intro guar_intros | assumption)+)

lemma cb_sleep [guar_intros]: "guar sameCb (sleepBackoff ev cf n)"
  unfolding sleepBackoff_def by (intro guar_intros)

lemma cb_doOnce [guar_intros]: "guar sameCb (doOnce ev cf step meth path au body)"
  unfolding doOnce_def by (intro guar_intros)

lemma doOnce_UpErr: "doOnce ev cf step meth path au body s = (Inl e, s') \<Longrightarrow> \<exists>u msg. e = UpErr u msg"
  using readAnswer_UpErr
  by (fastforce simp: doOnce_def stepErr_def throw_def bind_def envStep_def return_def split: if_splits prod.splits sum.splits)

definition settledCb :: "'n upstate \<Rightarrow> bool" where "settledCb s \<longleftrightarrow> \<not> cb_probing (us_cb s)"

lemma wp_cb_frame: "guar sameCb m \<Longrightarrow> settledCb s \<Longrightarrow> (\<And>a s'. settledCb s' \<Longrightarrow> Q a s') \<Longrightarrow> (\<And>e s'. settledCb s' \<Longrightarrow> E e s') \<Longrightarrow> wp m Q E s"
  using guarD[of sameCb m s] by (auto simp: wp_def sameCb_def settledCb_def split: prod.splits sum.splits)

lemma settle_round:
  assumes again: "\<And>e s1. settledCb s1 \<Longrightarrow>
      wp (case k of 0 \<Rightarrow> throw e | Suc j \<Rightarrow> attempts ev cf step (doOnce ev cf step meth path au body) j (Suc n))
        (\<lambda>_. settledCb) (\<lambda>_. settledCb) s1"
    and start: "n = 0 \<or> settledCb s"
  shows "wp (attempts ev cf step (doOnce ev cf step meth path au body) k n) (\<lambda>_. settledCb) (\<lambda>_. settledCb) s"
proof -
  let ?P = "\<lambda>_. settledCb"
  have once: "wp (doOnce ev cf step meth path au body) (\<lambda>_ _. True) (\<lambda>e _. \<exists>u msg. e = UpErr u msg) s1" for s1
    by (auto simp: wp_def dest: doOnce_UpErr split: prod.splits sum.splits)
  have sets: "settledCb (s1\<lparr>us_cb := onSuccess cb\<rparr>)" "settledCb (s1\<lparr>us_cb := onFailure t cb\<rparr>)" for s1 cb t
    by (auto simp: settledCb_def onSuccess_def onFailure_def Let_def)
  have body: "wp (bind (attempt (doOnce ev cf step meth path au body)) (\<lambda>r. case r of
         Inr res \<Rightarrow> bind (onBreaker onSuccess) (\<lambda>_. return res)
       | Inl e \<Rightarrow> (case e of UpErr u msg \<Rightarrow>
               (if Retryable u then bind (settleFailure ev) (\<lambda>_. case k of 0 \<Rightarrow> throw e
                    | Suc j \<Rightarrow> attempts ev cf step (doOnce ev cf step meth path au body) j (Suc n))
                else bind (onBreaker onSuccess) (\<lambda>_. throw e)) | CErr x \<Rightarrow> throw e))) ?P ?P s1" for s1
    unfolding wp_bind wp_attempt
    by (rule wp_mono[OF once]) (auto simp: wp_bind wp_onBreaker wp_settleFailure wp_return wp_throw sets again simp del: attempts.simps)
  show ?thesis
  proof (cases "n = 0")
    case True
    show ?thesis
      unfolding attempts.simps[of _ _ _ _ k] True if_P[OF refl] wp_bind[of "return True"] wp_return
      using body[of s] unfolding True by simp
  next
    case False
    with start have "settledCb s" by simp
    then show ?thesis
      unfolding attempts.simps[of _ _ _ _ k] if_not_P[OF False] wp_bind[of "sleepBackoff _ _ _"]
      by (rule wp_cb_frame[OF cb_sleep]) (simp_all only: wp_if wp_throw body simp_thms if_True if_False cong: if_cong split: if_splits)
  qed
qed

lemma attempts_settle:
  "n = 0 \<or> settledCb s \<Longrightarrow>
   wp (attempts ev cf step (doOnce ev cf step meth path au body) k n) (\<lambda>_. settledCb) (\<lambda>_. settledCb) s"
proof (induction k arbitrary: n s)
  case (0 n s)
  show ?case by (rule settle_round) (use 0 in \<open>auto simp: wp_throw\<close>)
next
  case (Suc k n s)
  show ?case by (rule settle_round) (use Suc in \<open>auto simp del: attempts.simps\<close>)
qed

text \<open>
  C30.  Used by one caller after the other the breaker never stays shut: whatever the network,
  the clock and the contexts do, after a call no probe is left under way, so once the cooldown
  after the last failure is over the next request is let through.
\<close>

theorem breaker_never_sticks:
  assumes "doCall ev cf step meth path au body s = (r, s')" "r \<noteq> Inl (CErr OutOfFuel)" "\<not> cb_probing (us_cb s)"
  shows "\<not> cb_probing (us_cb s') \<and>
     (cb_opened (us_cb s') + cb_cooldown (us_cb s') \<le> now \<longrightarrow> fst (allow now (us_cb s')))"
proof -
  have fuel: "wp (waitToken ev k) (\<lambda>_ _. True) (\<lambda>e _. e = CErr OutOfFuel) s1" for k s1
  proof (induction k arbitrary: s1)
    case (Suc k)
    have r: "wp (reserveC ev) Q E t" if "\<And>d t'. Q d t'" for Q E t
      using that by (auto simp: wp_def reserveC_def split: prod.splits)
    have p: "wp (envStep f) Q E t" if "\<And>x t'. Q x t'" for Q E t and f :: "'a \<Rightarrow> 'x \<times> 'a"
      using that by (auto simp: wp_def envStep_def split: prod.splits)
    show ?case
      unfolding waitToken.simps wp_bind
      by (rule r) (auto simp: wp_simps Suc split: option.splits intro!: p)
  qed (simp add: wp_throw)
  have "wp (doCall ev cf step meth path au body) (\<lambda>_. settledCb) (\<lambda>e s2. e = CErr OutOfFuel \<or> settledCb s2) s"
  proof -
    obtain ok cb where a: "allow (ev_now ev (us_net s)) (us_cb s) = (ok, cb)" by fastforce
    have al: "wp (allowC ev) Q E s = Q ok (s\<lparr>us_cb := cb\<rparr>)" for Q E by (simp add: wp_def allowC_def a)
    have no: "\<not> ok \<Longrightarrow> cb = us_cb s" using a by (auto simp: allow_def split: cbState.splits if_splits)
    have ab: "settledCb (s1\<lparr>us_cb := probeAbort c\<rparr>)" for s1 c by (simp add: settledCb_def probeAbort_def)
    show ?thesis
    proof (cases ok)
      case False
      then show ?thesis
        unfolding doCall_def wp_bind al if_P[of "\<not> ok", OF False] using no assms(3) by (simp add: wp_throw settledCb_def)
    next
      case True
      then have nf: "\<not> \<not> ok" by simp
      show ?thesis
        unfolding doCall_def wp_bind al if_not_P[OF nf]
        by (rule wp_mono[OF fuel])
           (auto simp: wp_bind wp_onBreaker wp_throw ab simp del: attempts.simps split: option.splits
             intro!: wp_mono[OF attempts_settle])
    qed
  qed
  from wp_run[of "doCall ev cf step meth path au body" s] this
  have "settledCb s'" using assms(1,2) by (cases r) (auto simp: wp_def)
  then have np: "\<not> cb_probing (us_cb s')" by (simp add: settledCb_def)
  then show ?thesis by (auto simp: allow_def split: cbState.splits)
qed

lemma breaker_never_sticks_witness:
  "\<not> cb_probing (us_cb (snd (doCall (logged scriptEnv) sampleConfig ''GetUser'' ''GET'' ''/x'' noAuth None (freshClient []))))"
proof -
  let ?run = "doCall (logged scriptEnv) sampleConfig ''GetUser'' ''GET'' ''/x'' noAuth None (freshClient [])"
  have "fst ?run = Inl (UpErr (newTransportError ''GetUser'' True) [])" by code_simp
  then have ok: "fst ?run \<noteq> Inl (CErr OutOfFuel)" by simp
  have "\<not> cb_probing (us_cb (freshClient as))" for as
    by (simp add: freshClient_def newClient_def newCircuitBreaker_def Let_def)
  from breaker_never_sticks[OF prod.collapse[symmetric] ok this] show ?thesis by (rule conjunct1)
qed

end
