(* ===== verification/AdapterClaims.thy ===== *)
theory AdapterClaims
  imports ClientClaims
begin

text \<open>What the adapter may send to new-api, whatever is asked of it and however new-api answers.\<close>

section \<open>Every call of the interface\<close>

datatype na_call =
    NaBootstrap boot_input | NaCreateToken cred token_spec | NaReveal cred int | NaRotate cred int token_spec
  | NaUpdateToken cred int token_spec | NaTokenStatus cred int bool | NaDeleteToken cred int
  | NaQuota int quota_mode int | NaGetQuota int | NaUserStatus int bool | NaUserGroup int string
  | NaProbe cred | NaRefresh boot_input | NaSubscription cred | NaPreference cred string | NaSelf cred
  | NaTokens cred | NaUsable string | NaAddUsable string string | NaLogs int int int int
  | NaUserLogs string int int int int | NaGroupRatio string | NaSpecial string string
  | NaSetRatios string ratios | NaAllRatios | NaModels | NaSum string int

fun perform :: "'u newapi \<Rightarrow> na_call \<Rightarrow> ('u, err, unit) m" where
  "perform A (NaBootstrap bi) = ignoreErr (na_BootstrapMember A bi)"
| "perform A (NaCreateToken c sp) = ignoreErr (na_CreateToken A c sp)"
| "perform A (NaReveal c i) = ignoreErr (na_RevealTokenKey A c i)"
| "perform A (NaRotate c i sp) = ignoreErr (na_RotateToken A c i sp)"
| "perform A (NaUpdateToken c i sp) = ignoreErr (na_UpdateToken A c i sp)"
| "perform A (NaTokenStatus c i b) = ignoreErr (na_SetTokenStatus A c i b)"
| "perform A (NaDeleteToken c i) = ignoreErr (na_DeleteToken A c i)"
| "perform A (NaQuota u mode v) = ignoreErr (na_ManageUserQuota A u mode v)"
| "perform A (NaGetQuota u) = ignoreErr (na_GetUserQuota A u)"
| "perform A (NaUserStatus u b) = ignoreErr (na_SetUserStatus A u b)"
| "perform A (NaUserGroup u g) = ignoreErr (na_SetUserGroup A u g)"
| "perform A (NaProbe c) = ignoreErr (na_ProbeAccessToken A c)"
| "perform A (NaRefresh bi) = ignoreErr (na_RefreshAccessToken A bi)"
| "perform A (NaSubscription c) = ignoreErr (na_GetSelfSubscription A c)"
| "perform A (NaPreference c p) = ignoreErr (na_SetBillingPreference A c p)"
| "perform A (NaSelf c) = ignoreErr (na_GetSelfInfo A c)"
| "perform A (NaTokens c) = ignoreErr (na_ListUserTokens A c)"
| "perform A (NaUsable g) = ignoreErr (na_GetOrgUsableGroups A g)"
| "perform A (NaAddUsable ug g) = ignoreErr (na_AddOrgUsableGroup A ug g)"
| "perform A (NaLogs a b p z) = ignoreErr (na_ReadConsumptionLogs A a b p z)"
| "perform A (NaUserLogs u a b p z) = ignoreErr (na_ReadConsumptionLogsByUsername A u a b p z)"
| "perform A (NaGroupRatio g) = ignoreErr (na_GetGroupRatio A g)"
| "perform A (NaSpecial ug g) = ignoreErr (na_GetGroupGroupRatio A ug g)"
| "perform A (NaSetRatios ug d) = ignoreErr (na_SetOrgGroupRatios A ug d)"
| "perform A NaAllRatios = ignoreErr (na_ListGroupRatios A)"
| "perform A NaModels = ignoreErr (na_ListGroupModels A)"
| "perform A (NaSum u t) = ignoreErr (na_SumConsumedQuotaByUsername A u t)"

section \<open>The requests it may send\<close>

definition at_path :: "up_config \<Rightarrow> string \<Rightarrow> string \<Rightarrow> up_request \<Rightarrow> bool" where
  "at_path cf meth path q \<longleftrightarrow> uq_method q = meth \<and> uq_url q = cf_base cf @ path"

definition manages :: "string \<Rightarrow> up_request \<Rightarrow> bool" where
  "manages action q \<longleftrightarrow> (\<exists>ms. uq_body q = objBody ms \<and> map_of ms ''action'' = Some (VStr action))"

text \<open>
  Reading; creating a user and logging in; making, revealing, changing and deleting tokens; quota
  and status of a user; the user's group and billing preference; the two options of the platform.
\<close>

definition permitted :: "up_config \<Rightarrow> up_request \<Rightarrow> bool" where
  "permitted cf q \<longleftrightarrow> uq_method q = ''GET'' \<or>
     at_path cf ''POST'' ''/api/user/'' q \<or> at_path cf ''POST'' ''/api/user/login'' q \<or>
     at_path cf ''POST'' ''/api/token/'' q \<or> (\<exists>i. at_path cf ''POST'' (''/api/token/'' @ itoa i @ ''/key'') q) \<or>
     at_path cf ''PUT'' ''/api/token/'' q \<or> at_path cf ''PUT'' ''/api/token/?status_only=1'' q \<or>
     (\<exists>i. at_path cf ''DELETE'' (''/api/token/'' @ itoa i) q) \<or>
     at_path cf ''POST'' ''/api/user/manage'' q \<and> (manages ''add_quota'' q \<or> manages ''enable'' q \<or> manages ''disable'' q) \<or>
     at_path cf ''PUT'' ''/api/user/'' q \<or> at_path cf ''PUT'' ''/api/subscription/self/preference'' q \<or>
     at_path cf ''PUT'' ''/api/option/'' q \<and>
       (\<exists>v. uq_body q = optionBody ''GroupGroupRatio'' v \<or> uq_body q = optionBody optGroupSpecialUsable v)"

lemma sends_doCall:
  assumes "\<And>a. P (requestOf cf meth path au body, a)"
  shows "guar (sends P) (doCall (logged ev) cf step meth path au body)"
proof -
  have "wp (doCall (logged ev) cf step meth path au body) (\<lambda>_. sends P s) (\<lambda>_. sends P s) s" for s
  proof (rule wp_mono[OF doCall_log], goal_cases)
    case (1 res s')
    then show ?case using assms by (force simp: sends_def list_all_iff)
  next
    case (2 e s')
    then show ?case using assms by (elim disjE exE conjE) (force simp: sends_def list_all_iff)+
  qed
  then show ?thesis by (simp add: guar_def wp_snd)
qed

lemma sends_acquire [guar_intros]: "guar (sends P) (envStep (ev_acquire (logged ev) k))" "guar (sends P) (envStep (ev_pause (logged ev) d))"
  using quiet_steps(1,3)[of ev] by (auto simp: guar_def sameSent_def intro: sends_same)

lemma sends_locked [guar_intros]: "guar (sends P) body \<Longrightarrow> guar (sends P) (locked (logged ev) key step body)"
  unfolding locked_def by (intro guar_intros)

lemma guar_expose [guar_intros]: "guar R f \<Longrightarrow> guar R (expose f)"
  by (auto simp: guar_def expose_def split: prod.splits sum.splits) (metis snd_conv)+

definition foot :: "up_config \<Rightarrow> exchange \<Rightarrow> bool" where "foot cf x = permitted cf (fst x)"

lemma foot_get [guar_intros]: "guar (sends (foot cf)) (doCall (logged ev) cf step ''GET'' path au body)"
  by (rule sends_doCall) (simp add: foot_def permitted_def requestOf_def)

lemma foot_posts [guar_intros]:
  "guar (sends (foot cf)) (doCall (logged ev) cf step ''POST'' ''/api/user/'' au body)"
  "guar (sends (foot cf)) (doCall (logged ev) cf step ''POST'' ''/api/user/login'' au body)"
  "guar (sends (foot cf)) (doCall (logged ev) cf step ''POST'' ''/api/token/'' au body)"
  "guar (sends (foot cf)) (doCall (logged ev) cf step ''POST'' (''/api/token/'' @ itoa i @ ''/key'') au body)"
  "guar (sends (foot cf)) (doCall (logged ev) cf step ''PUT'' ''/api/token/'' au body)"
  "guar (sends (foot cf)) (doCall (logged ev) cf step ''PUT'' ''/api/token/?status_only=1'' au body)"
  "guar (sends (foot cf)) (doCall (logged ev) cf step ''DELETE'' (''/api/token/'' @ itoa i) au body)"
  "guar (sends (foot cf)) (doCall (logged ev) cf step ''PUT'' ''/api/user/'' au body)"
  "guar (sends (foot cf)) (doCall (logged ev) cf step ''PUT'' ''/api/subscription/self/preference'' au body)"
  by (rule sends_doCall, auto simp: foot_def permitted_def at_path_def requestOf_def)+

lemma foot_manage [guar_intros]:
  "map_of ms ''action'' \<in> {Some (VStr ''add_quota''), Some (VStr ''enable''), Some (VStr ''disable'')} \<Longrightarrow>
   guar (sends (foot cf)) (doCall (logged ev) cf step ''POST'' ''/api/user/manage'' au (objBody ms))"
  by (rule sends_doCall) (auto simp: foot_def permitted_def at_path_def requestOf_def manages_def)

lemma foot_option [guar_intros]:
  "key \<in> {''GroupGroupRatio'', optGroupSpecialUsable} \<Longrightarrow>
   guar (sends (foot cf)) (doCall (logged ev) cf step ''PUT'' ''/api/option/'' au (optionBody key v))"
  by (rule sends_doCall) (auto simp: foot_def permitted_def at_path_def requestOf_def)

lemma foot_find [guar_intros]: "guar (sends (foot cf)) (findTokenByName (logged ev) cf cr nm)"
  unfolding findTokenByName_def by (intro guar_intros)

lemma foot_search [guar_intros]: "guar (sends (foot cf)) (searchUser (logged ev) cf nm ps)"
  by (induction ps) (simp_all only: searchUser.simps Let_def, (intro guar_intros | assumption)+)

lemma foot_user [guar_intros]: "guar (sends (foot cf)) (getUserByUsername (logged ev) cf nm)"
  unfolding getUserByUsername_def by (intro guar_intros)

lemma foot_pages [guar_intros]: "guar (sends (foot cf)) (tokenPages (logged ev) cf cr ps acc)"
  by (induction ps arbitrary: acc) (simp_all only: tokenPages.simps Let_def, (intro guar_intros | assumption)+)

lemma foot_tokens [guar_intros]:
  "guar (sends (foot cf)) (CreateToken (logged ev) cf cr sp)" "guar (sends (foot cf)) (RevealTokenKey (logged ev) cf cr i)"
  "guar (sends (foot cf)) (DeleteToken (logged ev) cf cr i)" "guar (sends (foot cf)) (UpdateToken (logged ev) cf cr i sp)"
  "guar (sends (foot cf)) (SetTokenStatus (logged ev) cf cr i b)" "guar (sends (foot cf)) (ProbeAccessToken (logged ev) cf cr)"
  "guar (sends (foot cf)) (ListUserTokens (logged ev) cf cr)"
  unfolding CreateToken_def RevealTokenKey_def DeleteToken_def UpdateToken_def SetTokenStatus_def ProbeAccessToken_def
    ListUserTokens_def Let_def
  by (intro guar_intros)+

lemma foot_rotate [guar_intros]: "guar (sends (foot cf)) (RotateToken (logged ev) cf cr i sp)"
  unfolding RotateToken_def by (intro guar_intros)

lemma foot_users [guar_intros]:
  "guar (sends (foot cf)) (ManageUserQuota (logged ev) cf u mode v)" "guar (sends (foot cf)) (SetUserStatus (logged ev) cf u b)"
  "guar (sends (foot cf)) (GetUserQuota (logged ev) cf u)" "guar (sends (foot cf)) (SetUserGroup (logged ev) cf u g)"
  unfolding ManageUserQuota_def SetUserStatus_def GetUserQuota_def SetUserGroup_def quotaBody_def
  by (intro guar_intros; simp)+

lemma foot_self [guar_intros]:
  "guar (sends (foot cf)) (GetSelfInfo (logged ev) cf cr)" "guar (sends (foot cf)) (GetSelfSubscription (logged ev) cf cr)"
  "guar (sends (foot cf)) (SetBillingPreference (logged ev) cf cr p)"
  unfolding GetSelfInfo_def GetSelfSubscription_def SetBillingPreference_def by (intro guar_intros)+

lemma foot_logs [guar_intros]:
  "guar (sends (foot cf)) (parseLogPage d)"
  "guar (sends (foot cf)) (ReadConsumptionLogs (logged ev) cf a b p z)"
  "guar (sends (foot cf)) (ReadConsumptionLogsByUsername (logged ev) cf u a b p z)"
  "guar (sends (foot cf)) (SumConsumedQuotaByUsername (logged ev) cf u t)"
  unfolding ReadConsumptionLogs_def ReadConsumptionLogsByUsername_def SumConsumedQuotaByUsername_def parseLogPage_def
  by (intro guar_intros)+

lemma foot_options [guar_intros]:
  "guar (sends (foot cf)) (getOptionJSON (logged ev) cf key dec z)"
  unfolding getOptionJSON_def by (intro guar_intros)

lemma foot_ratios [guar_intros]:
  "guar (sends (foot cf)) (groupRatios (logged ev) cf)" "guar (sends (foot cf)) (getGroupGroupRatioMap (logged ev) cf)"
  unfolding groupRatios_def getGroupGroupRatioMap_def by (intro guar_intros)+

lemma foot_write [guar_intros]:
  "guar (sends (foot cf)) (writeOnce (logged ev) cf ug d)" "guar (sends (foot cf)) (orgRatiosMatch (logged ev) cf ug d)"
  unfolding writeOnce_def putOption_def orgRatiosMatch_def by (intro guar_intros; simp)+

lemma foot_verify [guar_intros]: "guar (sends (foot cf)) (verifyRounds (logged ev) cf ug d bs)"
  by (induction bs) (simp_all only: verifyRounds.simps, (intro guar_intros | assumption)+)

lemma foot_groups [guar_intros]:
  "guar (sends (foot cf)) (GetGroupRatio (logged ev) cf g)" "guar (sends (foot cf)) (ListGroupRatios (logged ev) cf)"
  "guar (sends (foot cf)) (GetGroupGroupRatio (logged ev) cf ug g)" "guar (sends (foot cf)) (SetOrgGroupRatios (logged ev) cf ug d)"
  "guar (sends (foot cf)) (ListGroupModels (logged ev) cf)" "guar (sends (foot cf)) (GetOrgUsableGroups (logged ev) cf ug)"
  unfolding GetGroupRatio_def ListGroupRatios_def GetGroupGroupRatio_def SetOrgGroupRatios_def ListGroupModels_def GetOrgUsableGroups_def
  by (intro guar_intros)+

lemma foot_usable [guar_intros]: "guar (sends (foot cf)) (AddOrgUsableGroup (logged ev) cf ug g)"
  unfolding AddOrgUsableGroup_def Let_def putOption_def by (intro guar_intros; simp)

lemma foot_login [guar_intros]: "guar (sends (foot cf)) (loginAndGetToken (logged ev) cf u pw)"
  unfolding loginAndGetToken_def Let_def by (intro guar_intros)

lemma foot_boot [guar_intros]:
  "guar (sends (foot cf)) (createOrAdopt (logged ev) cf bi)" "guar (sends (foot cf)) (compensateDisable (logged ev) cf u)"
  unfolding createOrAdopt_def compensateDisable_def by (intro guar_intros)+

lemma foot_issue [guar_intros]: "guar (sends (foot cf)) (issueCredential (logged ev) cf bi u a)"
  unfolding issueCredential_def Let_def by (intro guar_intros)

lemma foot_bootstrap [guar_intros]:
  "guar (sends (foot cf)) (BootstrapMember (logged ev) cf bi)" "guar (sends (foot cf)) (RefreshAccessToken (logged ev) cf bi)"
  "guar (sends (foot cf)) (bootResult r)"
  unfolding BootstrapMember_def RefreshAccessToken_def bootResult_def by (intro guar_intros)+



section \<open>Names that belong to others\<close>

definition lookupOrCreate :: "up_config \<Rightarrow> up_request \<Rightarrow> bool" where
  "lookupOrCreate cf q \<longleftrightarrow> uq_method q = ''GET'' \<and> take (length (cf_base cf @ ''/api/user/search?'')) (uq_url q) = cf_base cf @ ''/api/user/search?''
     \<or> at_path cf ''POST'' ''/api/user/'' q"

lemma looks_search [guar_intros]: "guar (sends (\<lambda>x. lookupOrCreate cf (fst x))) (searchUser (logged ev) cf nm ps)"
proof (induction ps)
  case (Cons p ps)
  have "guar (sends (\<lambda>x. lookupOrCreate cf (fst x))) (doCall (logged ev) cf step ''GET'' (query_path ''/api/user/search'' (kv # kvs)) au b)"
    for step kv kvs au b
    by (rule sends_doCall) (simp add: lookupOrCreate_def requestOf_def query_path_def)
  then show ?case unfolding searchUser.simps Let_def by (intro guar_intros Cons.IH)
qed (simp add: sends.return)

lemma looks_create [guar_intros]:
  "guar (sends (\<lambda>x. lookupOrCreate cf (fst x))) (getUserByUsername (logged ev) cf nm)"
  "guar (sends (\<lambda>x. lookupOrCreate cf (fst x))) (doCall (logged ev) cf step ''POST'' ''/api/user/'' au b)"
proof -
  show "guar (sends (\<lambda>x. lookupOrCreate cf (fst x))) (getUserByUsername (logged ev) cf nm)"
    unfolding getUserByUsername_def by (rule looks_search)
  show "guar (sends (\<lambda>x. lookupOrCreate cf (fst x))) (doCall (logged ev) cf step ''POST'' ''/api/user/'' au b)"
    by (rule sends_doCall) (simp add: lookupOrCreate_def at_path_def requestOf_def)
qed

lemma looks_adopt [guar_intros]: "guar (sends (\<lambda>x. lookupOrCreate cf (fst x))) (createOrAdopt (logged ev) cf bi)"
  unfolding createOrAdopt_def by (intro guar_intros)

text \<open>A guarantee for the case that the operation fails.\<close>

definition failGuar :: "('s \<Rightarrow> 's \<Rightarrow> bool) \<Rightarrow> ('s, 'e, 'a) m \<Rightarrow> bool" where
  "failGuar R m \<longleftrightarrow> (\<forall>s e s'. m s = (Inl e, s') \<longrightarrow> R s s')"

lemma failGuar_guar: "guar R m \<Longrightarrow> failGuar R m"
  by (auto simp: failGuar_def dest: guarD')

lemma failGuar_bind: "guarantee R \<Longrightarrow> guar R m \<Longrightarrow> (\<And>a. failGuar R (f a)) \<Longrightarrow> failGuar R (bind m f)"
  by (auto simp: failGuar_def bind_def dest: guarD' split: prod.splits sum.splits) (meson guarD' guarantee.trans)

definition noFail :: "('s, 'e, 'a) m \<Rightarrow> bool" where
  "noFail m \<longleftrightarrow> (\<forall>s. \<exists>a s'. m s = (Inr a, s'))"

lemma failGuar_never: "noFail m \<Longrightarrow> failGuar R m"
  unfolding noFail_def failGuar_def by (metis Inl_Inr_False fst_conv)

lemma noFail_return: "noFail (return a)"
  by (simp add: noFail_def return_def)

lemma noFail_attempt: "noFail (attempt m)"
  unfolding noFail_def
proof
  fix s
  show "\<exists>a s'. attempt m s = (Inr a, s')" by (cases "m s") (simp add: attempt_def)
qed

lemma noFail_bind: "noFail m \<Longrightarrow> (\<And>x. noFail (f x)) \<Longrightarrow> noFail (bind m f)"
  unfolding noFail_def bind_def by (metis (no_types, lifting) old.prod.case old.sum.simps(6))

lemma noFail_if: "noFail m \<Longrightarrow> noFail n \<Longrightarrow> noFail (if b then m else n)"
  by simp

lemma noFail_sum: "(\<And>x. noFail (f x)) \<Longrightarrow> (\<And>x. noFail (g x)) \<Longrightarrow> noFail (case z of Inl x \<Rightarrow> f x | Inr x \<Rightarrow> g x)"
  by (cases z) auto

lemma issue_returns: "noFail (issueCredential ev cf bi u b)"
  unfolding issueCredential_def Let_def compensateDisable_def ignoreErr_def
  by (intro noFail_bind noFail_attempt noFail_return noFail_if noFail_sum)



text \<open>A network that answers nothing in time: the breaker opens and the account is not opened.\<close>

definition sampleBoot :: boot_input where
  "sampleBoot = \<lparr>bi_org = 7, bi_member = 0, bi_username = ''taken'', bi_password = ''secret-pw'', bi_display = ''Acme'',
     bi_skip_token = True, bi_adopt = False\<rparr>"

definition timidConfig :: up_config where
  "timidConfig = sampleConfig\<lparr>cf_retries := 1, cf_threshold := 1\<rparr>"


section \<open>The ratios of other organizations\<close>

definition readReq :: "up_config \<Rightarrow> up_request" where
  "readReq cf = requestOf cf ''GET'' ''/api/option/'' (adminAuth cf) None"

definition writeReq :: "up_config \<Rightarrow> ratio_map \<Rightarrow> up_request" where
  "writeReq cf m = requestOf cf ''PUT'' ''/api/option/'' (adminAuth cf) (optionBody ''GroupGroupRatio'' (ratioMapValue m))"

text \<open>The ratio map an answer to the reading request holds.\<close>

definition mapOfAnswer :: "answer \<Rightarrow> ratio_map option" where
  "mapOfAnswer a = (case verdict ''GetOption'' a of
     Inl e \<Rightarrow> None
   | Inr res \<Rightarrow> map_option entries (readOption ''GroupGroupRatio'' decRatioMap None (cl_data res)))"

text \<open>
  In a log every write is the map that was read last, with the group \<open>ug\<close> replaced; \<open>cur\<close> is the
  map read last before the log.
\<close>

fun writesFollowReads :: "up_config \<Rightarrow> string \<Rightarrow> ratios \<Rightarrow> ratio_map option \<Rightarrow> exchange list \<Rightarrow> bool" where
  "writesFollowReads cf ug desired cur [] = True"
| "writesFollowReads cf ug desired cur (x # t) =
     (if fst x = readReq cf
      then writesFollowReads cf ug desired (case mapOfAnswer (snd x) of Some m \<Rightarrow> Some m | None \<Rightarrow> cur) t
      else (case cur of None \<Rightarrow> False | Some m \<Rightarrow> fst x = writeReq cf (withDesired ug desired m)) \<and>
           writesFollowReads cf ug desired cur t)"

fun lastRead :: "up_config \<Rightarrow> ratio_map option \<Rightarrow> exchange list \<Rightarrow> ratio_map option" where
  "lastRead cf cur [] = cur"
| "lastRead cf cur (x # t) =
     lastRead cf (if fst x = readReq cf then (case mapOfAnswer (snd x) of Some m \<Rightarrow> Some m | None \<Rightarrow> cur) else cur) t"

lemma writes_append:
  "writesFollowReads cf ug d cur (t @ u) \<longleftrightarrow> writesFollowReads cf ug d cur t \<and> writesFollowReads cf ug d (lastRead cf cur t) u"
  by (induction t arbitrary: cur) auto

lemma lastRead_append: "lastRead cf cur (t @ u) = lastRead cf (lastRead cf cur t) u"
  by (induction t arbitrary: cur) auto

lemma writes_reads: "list_all (\<lambda>x. fst x = readReq cf) t \<Longrightarrow> writesFollowReads cf ug d cur t"
  by (induction t arbitrary: cur) auto

lemma read_ne_write: "writeReq cf m \<noteq> readReq cf"
  by (simp add: writeReq_def readReq_def requestOf_def)

lemma writes_writes:
  "list_all (\<lambda>x. fst x = writeReq cf (withDesired ug d m)) t \<Longrightarrow> writesFollowReads cf ug d (Some m) t"
  by (induction t) (auto simp: read_ne_write)

definition careful :: "up_config \<Rightarrow> string \<Rightarrow> ratios \<Rightarrow> (exchange list \<times> 'n) upstate \<Rightarrow> (exchange list \<times> 'n) upstate \<Rightarrow> bool" where
  "careful cf ug d s s' \<longleftrightarrow> (\<exists>t. sent s' = sent s @ t \<and> (\<forall>cur. writesFollowReads cf ug d cur t))"

interpretation careful: guarantee "careful cf ug d"
proof
  show "careful cf ug d s s" for s by (simp add: careful_def)
next
  fix s t u assume "careful cf ug d s t" "careful cf ug d t u"
  then show "careful cf ug d s u" unfolding careful_def using writes_append by (metis append_assoc)
qed

lemma read_log:
  "wp (getGroupGroupRatioMap (logged ev) cf)
     (\<lambda>m s'. \<exists>t. sent s' = sent s @ t \<and> list_all (\<lambda>x. fst x = readReq cf) t \<and> (\<forall>cur. lastRead cf cur t = Some m))
     (\<lambda>_ s'. \<exists>t. sent s' = sent s @ t \<and> list_all (\<lambda>x. fst x = readReq cf) t) s"
  unfolding getGroupGroupRatioMap_def getOptionJSON_def wp_bind wp_return
proof (rule wp_mono[OF doCall_log], goal_cases)
  case (1 res s')
  then obtain t a where t: "sent s' = sent s @ t @ [(readReq cf, a)]" "list_all (\<lambda>x. fst x = readReq cf) t"
    "verdict ''GetOption'' a = Inr res" by (auto simp: readReq_def list_all_iff split_beta)
  show ?case
  proof (cases "readOption ''GroupGroupRatio'' decRatioMap None (cl_data res)")
    case None
    then show ?thesis using t by (auto simp: wp_throw intro!: exI[of _ "t @ [(readReq cf, a)]"])
  next
    case (Some m)
    then have "mapOfAnswer a = Some (entries m)" using t by (simp add: mapOfAnswer_def)
    then show ?thesis using t Some by (auto simp: wp_return lastRead_append intro!: exI[of _ "t @ [(readReq cf, a)]"])
  qed
next
  case (2 e s')
  then show ?case
    by (elim disjE exE conjE) (auto simp: readReq_def list_all_iff split_beta)
qed

lemma put_log:
  "wp (putOption (logged ev) cf ''GroupGroupRatio'' (ratioMapValue m))
     (\<lambda>_ s'. \<exists>t. sent s' = sent s @ t \<and> list_all (\<lambda>x. fst x = writeReq cf m) t)
     (\<lambda>_ s'. \<exists>t. sent s' = sent s @ t \<and> list_all (\<lambda>x. fst x = writeReq cf m) t) s"
  unfolding putOption_def wp_bind wp_return
proof (rule wp_mono[OF doCall_log], goal_cases)
  case (1 res s')
  then obtain t a where "sent s' = sent s @ t @ [(writeReq cf m, a)]" "list_all (\<lambda>x. fst x = writeReq cf m) t"
    by (auto simp: writeReq_def list_all_iff split_beta)
  then show ?case by (auto intro!: exI[of _ "t @ [(writeReq cf m, a)]"])
next
  case (2 e s')
  then show ?case by (elim disjE exE conjE) (auto simp: writeReq_def list_all_iff split_beta)
qed

lemma careful_write [guar_intros]: "guar (careful cf ug d) (writeOnce (logged ev) cf ug d)"
proof -
  have "wp (writeOnce (logged ev) cf ug d) (\<lambda>_. careful cf ug d s) (\<lambda>_. careful cf ug d s) s" for s
    unfolding writeOnce_def wp_bind
  proof (rule wp_mono[OF read_log], goal_cases)
    case (1 m s1)
    then obtain t where t: "sent s1 = sent s @ t" "list_all (\<lambda>x. fst x = readReq cf) t" "\<forall>cur. lastRead cf cur t = Some m" by blast
    have "careful cf ug d s s2" if "\<exists>u. sent s2 = sent s1 @ u \<and> list_all (\<lambda>x. fst x = writeReq cf (withDesired ug d m)) u" for s2
      using that t writes_reads[OF t(2)] writes_writes unfolding careful_def by (metis append_assoc writes_append)
    then show ?case by (auto intro!: wp_mono[OF put_log])
  next
    case (2 e s1)
    then show ?case unfolding careful_def using writes_reads by blast
  qed
  then show ?thesis by (simp add: guar_def wp_snd)
qed

lemma careful_match [guar_intros]: "guar (careful cf ug d) (orgRatiosMatch (logged ev) cf ug d)"
proof -
  have "wp (getGroupGroupRatioMap (logged ev) cf) (\<lambda>_. careful cf ug d s) (\<lambda>_. careful cf ug d s) s" for s
    by (rule wp_mono[OF read_log]; unfold careful_def; elim exE conjE; blast intro: writes_reads)
  then have "guar (careful cf ug d) (getGroupGroupRatioMap (logged ev) cf)" by (simp add: guar_def wp_snd)
  then show ?thesis unfolding orgRatiosMatch_def by (intro guar_intros)
qed

lemma careful_pause [guar_intros]:
  "guar (careful cf ug d) (envStep (ev_pause (logged ev) b))" "guar (careful cf ug d) (envStep (ev_acquire (logged ev) k))"
  using quiet_steps(1,3)[of ev] by (auto simp: guar_def sameSent_def careful_def)

lemma careful_rounds [guar_intros]: "guar (careful cf ug d) (verifyRounds (logged ev) cf ug d bs)"
  by (induction bs) (simp_all only: verifyRounds.simps, (intro guar_intros | assumption)+)

text \<open>
  C33.  Setting an organization's ratios leaves everybody else's alone: each write it sends is the
  map new-api answered last, in which the organization's own group alone is replaced by exactly
  the platform's ratios or, with none, removed.
\<close>

theorem other_ratios_preserved:
  "(\<exists>t. sent (snd (SetOrgGroupRatios (logged ev) cf ug desired s)) = sent s @ t \<and> writesFollowReads cf ug desired None t) \<and>
   map_of (withDesired ug desired m) g =
     (if g = ug then (if desired = [] then None else Some (Some desired)) else map_of m g)"
proof -
  have "guar (careful cf ug desired) (SetOrgGroupRatios (logged ev) cf ug desired)"
    unfolding SetOrgGroupRatios_def locked_def by (intro guar_intros)
  from guarD[OF this, of s] show ?thesis
    by (auto simp: careful_def withDesired_def lookup_putEntryAt lookup_delEntryAt)
qed


section \<open>All tokens of an account\<close>

lemma doOnce_answer:
  "wp (doOnce ev cf step meth path au body)
     (\<lambda>res s'. \<exists>n. verdict step (fst (ev_send ev (requestOf cf meth path au body) n)) = Inr res) (\<lambda>_ _. True) s"
proof -
  obtain a n where a: "ev_send ev (requestOf cf meth path au body) (us_net s) = (a, n)" by fastforce
  have v: "verdict step a = Inr res \<Longrightarrow> \<exists>n. verdict step (fst (ev_send ev (requestOf cf meth path au body) n)) = Inr res" for res
    using a by (intro exI[of _ "us_net s"]) simp
  show ?thesis
    using v by (auto simp: doOnce_def wp_def bind_def envStep_def a throw_def return_def verdict_def split: sum.splits)
qed

lemma attempts_answer:
  "wp (attempts ev cf step (doOnce ev cf step meth path au body) k n)
     (\<lambda>res s'. \<exists>n. verdict step (fst (ev_send ev (requestOf cf meth path au body) n)) = Inr res) (\<lambda>_ _. True) s" (is "wp _ ?Q ?E s")
proof (induction k arbitrary: n s rule: less_induct)
  case (less k)
  have again: "wp (case k of 0 \<Rightarrow> throw e | Suc j \<Rightarrow> attempts ev cf step (doOnce ev cf step meth path au body) j (Suc n)) ?Q ?E s1" for e s1
    using less[of "k - 1" "Suc n" s1] by (cases k) (simp_all add: wp_throw del: attempts.simps)
  have any: "(\<And>a s'. Q a s') \<Longrightarrow> wp m Q ?E s1" for m :: "('a, bool) cop" and Q s1
    by (auto simp: wp_def split: prod.splits sum.splits)
  have body: "wp (bind (attempt (doOnce ev cf step meth path au body)) (\<lambda>r. case r of
         Inr res \<Rightarrow> bind (onBreaker onSuccess) (\<lambda>_. return res)
       | Inl e \<Rightarrow> (case e of UpErr u msg \<Rightarrow>
               (if Retryable u then bind (settleFailure ev) (\<lambda>_. case k of 0 \<Rightarrow> throw e
                    | Suc j \<Rightarrow> attempts ev cf step (doOnce ev cf step meth path au body) j (Suc n))
                else bind (onBreaker onSuccess) (\<lambda>_. throw e)) | CErr x \<Rightarrow> throw e))) ?Q ?E s1" for s1
    unfolding wp_bind wp_attempt
    by (rule wp_mono[OF doOnce_answer])
       (auto simp: wp_bind wp_onBreaker wp_settleFailure wp_return wp_throw again simp del: attempts.simps split: cerr.splits)
  show ?case
    unfolding attempts.simps[of _ _ _ _ k] wp_bind[of "if _ then _ else _"]
    by (rule any) (simp only: wp_if wp_throw body if_True if_False simp_thms split: if_splits)
qed

lemma doCall_answer:
  assumes "doCall ev cf step meth path au body s = (Inr res, s')"
  shows "\<exists>n. verdict step (fst (ev_send ev (requestOf cf meth path au body) n)) = Inr res"
proof -
  have any: "(\<And>a s'. Q a s') \<Longrightarrow> wp m Q (\<lambda>_ _. True) s1" for m :: "('a, 'x) cop" and Q s1
    by (auto simp: wp_def split: prod.splits sum.splits)
  have "wp (doCall ev cf step meth path au body)
     (\<lambda>res s'. \<exists>n. verdict step (fst (ev_send ev (requestOf cf meth path au body) n)) = Inr res) (\<lambda>_ _. True) s"
    unfolding doCall_def wp_bind
  proof (rule any, goal_cases)
    case (1 ok s1)
    show ?case
    proof (cases ok)
      case True
      then have nf: "\<not> \<not> ok" by simp
      show ?thesis
        unfolding if_not_P[OF nf] wp_bind
        by (rule any) (auto simp: wp_bind wp_onBreaker wp_throw attempts_answer simp del: attempts.simps split: option.splits)
    qed (simp add: wp_throw)
  qed
  from wp_Inr[OF this assms] show ?thesis .
qed

definition pageReq :: "up_config \<Rightarrow> cred \<Rightarrow> nat \<Rightarrow> up_request" where
  "pageReq cf cr p = requestOf cf ''GET'' (query_path ''/api/token/'' [(''p'', itoa (int p)), (''page_size'', ''100'')]) (userAuth cr) None"

text \<open>A server that, when it answers a page at all, answers with that page of the tokens and their number.\<close>

definition honestPager :: "'n upenv \<Rightarrow> up_config \<Rightarrow> cred \<Rightarrow> user_token list \<Rightarrow> bool" where
  "honestPager ev cf cr toks \<longleftrightarrow>
     (\<forall>p n. case verdict ''ListUserTokens'' (fst (ev_send ev (pageReq cf cr p) n)) of
        Inl e \<Rightarrow> True
      | Inr res \<Rightarrow> 1 \<le> p \<longrightarrow> unmarshal (decStruct decTokenPage) (cl_data res) =
          Some (List.take 100 (List.drop ((p - 1) * 100) toks), int (length toks)))"

lemma tokenPages_complete:
  assumes honest: "honestPager ev cf cr toks" and len: "length toks \<le> 100 * m"
  shows "1 \<le> k \<Longrightarrow> k \<le> Suc m \<Longrightarrow> tokenPages ev cf cr [k..<Suc m] (List.take ((k - 1) * 100) toks) s = (Inr xs, s') \<Longrightarrow> xs = toks"
proof (induction "Suc m - k" arbitrary: k s)
  case 0
  then have k: "k = Suc m" by simp
  then have "List.take ((k - 1) * 100) toks = toks" using len by simp
  moreover have "[k..<Suc m] = []" using k by simp
  ultimately show ?case using 0(4) by (simp add: return_def)
next
  case (Suc i)
  then have k: "1 \<le> k" "k < Suc m" by simp_all
  have up: "[k..<Suc m] = k # [Suc k..<Suc m]" using k by (simp add: upt_conv_Cons)
  let ?call = "doCall ev cf ''ListUserTokens'' ''GET'' (query_path ''/api/token/'' [(''p'', itoa (int k)), (''page_size'', ''100'')]) (userAuth cr) None"
  let ?items = "List.take 100 (List.drop ((k - 1) * 100) toks)"
  have glue: "List.take ((k - 1) * 100) toks @ ?items = List.take (k * 100) toks"
  proof -
    have "k * 100 = (k - 1) * 100 + 100" using k by (cases k) auto
    then show ?thesis by (simp only: take_add)
  qed
  obtain r s1 where call: "?call s = (r, s1)" by fastforce
  show ?case
  proof (cases r)
    case (Inl e)
    then show ?thesis using Suc.prems(3)[unfolded up tokenPages.simps] call by (simp add: bind_def)
  next
    case (Inr res)
    obtain n where n: "verdict ''ListUserTokens'' (fst (ev_send ev (pageReq cf cr k) n)) = Inr res"
      using doCall_answer[OF call[unfolded Inr]] by (auto simp: pageReq_def)
    have dec: "unmarshal (decStruct decTokenPage) (cl_data res) = Some (?items, int (length toks))"
      using spec[OF spec[OF honest[unfolded honestPager_def], of k], of n] n k by simp
    have run: "(if int (length toks) \<le> int k * 100 \<or> ?items = [] then return (List.take (k * 100) toks)
                else tokenPages ev cf cr [Suc k..<Suc m] (List.take (k * 100) toks)) s1 = (Inr xs, s')"
      using Suc.prems(3)[unfolded up tokenPages.simps]
      by (simp only: bind_def call Inr old.prod.case old.sum.simps dec option.case glue)
    show ?thesis
    proof (cases "int (length toks) \<le> int k * 100 \<or> ?items = []")
      case True
      then have "List.take (k * 100) toks = toks" using glue by auto
      then show ?thesis using run True by (simp add: return_def)
    next
      case False
      then have "tokenPages ev cf cr [Suc k..<Suc m] (List.take ((Suc k - 1) * 100) toks) s1 = (Inr xs, s')" using run by simp
      then show ?thesis using Suc.hyps(1)[of "Suc k" s1] Suc.hyps(2) k by simp
    qed
  qed
qed

text \<open>
  C34.  Listing the tokens of an account of at most ten thousand of them returns exactly the
  account's tokens in the server's order, whenever it returns a list: no page is left out or
  repeated, in spite of retries, lost answers and pages that are full.
\<close>

theorem token_list_complete:
  assumes "honestPager ev cf cr toks" "length toks \<le> 10000" "ListUserTokens ev cf cr s = (Inr xs, s')"
  shows "xs = toks"
proof -
  have "length toks \<le> 100 * 100" using assms(2) by simp
  from tokenPages_complete[OF assms(1) this, of 1 s xs s'] assms(3) show ?thesis
    by (simp add: ListUserTokens_def)
qed


text \<open>A server with one token; other pages than the first it never answers.\<close>

definition oneToken :: user_token where
  "oneToken = \<lparr>ut_id = 5, ut_name = [], ut_status = 0, ut_group = [], ut_masked = []\<rparr>"

definition onePage :: string where
  "onePage = CHR ''{'' # quoteStr ''success'' @ '':true,'' @ quoteStr ''data'' @ '':{'' @ quoteStr ''items'' @ '':[{'' @
     quoteStr ''id'' @ '':5}],'' @ quoteStr ''total'' @ '':1}}''"

definition sampleCred :: cred where "sampleCred = \<lparr>cr_user = 9, cr_token = ''at''\<rparr>"

definition pagerEnv :: "int upenv" where
  "pagerEnv = \<lparr>
     ev_now = (\<lambda>n. n),
     ev_send = (\<lambda>q n. (if q = pageReq sampleConfig sampleCred 1 then Inr \<lparr>ur_status = 200, ur_body = onePage, ur_cookies = []\<rparr>
                       else Inl True, n)),
     ev_pause = (\<lambda>d n. (None, n + d)),
     ev_jitter = (\<lambda>n. ((1, 2), n)),
     ev_acquire = (\<lambda>k n. (True, n)),
     ev_url_ok = (\<lambda>u. True),
     ev_reveal_fault = False,
     ev_rounds = 3 \<rparr>"

lemma onePage_json: "parseJson onePage = Some (VObj [(''success'', VBool True),
     (''data'', VObj [(''items'', VArr [VObj [(''id'', VNum ''5'')]]), (''total'', VNum ''1'')])])"
  by code_simp

lemma onePage_short: "List.take (2 ^ 20) onePage = onePage" "onePage \<noteq> []" "List.take 1048576 onePage = onePage"
  by (simp_all add: onePage_def quoteStr_def quoteChar_def)

definition onePageData :: jvalue where
  "onePageData = VObj [(''items'', VArr [VObj [(''id'', VNum ''5'')]]), (''total'', VNum ''1'')]"

lemma onePage_envelope: "decStruct decEnvelope (VObj [(''success'', VBool True), (''data'', onePageData)]) =
   Some \<lparr>en_success = True, en_message = [], en_data = Some onePageData\<rparr>"
  by code_simp

lemma onePage_data: "unmarshal (decStruct decTokenPage) (Some onePageData) = Some ([oneToken], 1)"
  by code_simp

lemma onePage_read: "verdict ''ListUserTokens'' (Inr \<lparr>ur_status = 200, ur_body = onePage, ur_cookies = []\<rparr>) =
   Inr \<lparr>cl_data = Some onePageData, cl_cookie = []\<rparr>"
proof -
  have "readEnvelope onePage = \<lparr>en_success = True, en_message = [], en_data = Some onePageData\<rparr>"
    using onePage_envelope by (simp add: readEnvelope_def onePage_short onePage_json onePageData_def)
  moreover have "extractSessionCookie [] = []" by (simp add: extractSessionCookie_def joinWith_def)
  ultimately show ?thesis
    by (simp add: verdict_def readAnswer_def onePage_short Let_def)
qed

lemma QueryEscape_digits: "list_all isDigit s \<Longrightarrow> QueryEscape s = s"
  by (induction s) (auto simp: QueryEscape_def Let_def)

lemma pageReq_inj:
  assumes "pageReq cf cr p = pageReq cf cr p'"
  shows "p = p'"
proof -
  have "query_path ''/api/token/'' [(''p'', itoa (int n)), (''page_size'', ''100'')] = ''/api/token/?p='' @ digits n @ ''&page_size=100''" for n
    using QueryEscape_digits[OF isDigit_digits, of n] by (simp add: query_path_def sortByKey_def joinWith_def itoa_def QueryEscape_def isDigit_def)
  then show ?thesis using assms by (simp add: pageReq_def requestOf_def)
qed

lemma pagerEnv_honest: "honestPager pagerEnv sampleConfig sampleCred [oneToken]"
proof -
  have other: "verdict ''ListUserTokens'' (Inl True) = Inl (UpErr (newTransportError ''ListUserTokens'' True) [])"
    by (simp add: verdict_def)
  show ?thesis
    unfolding honestPager_def
  proof (intro allI)
    fix p :: nat and n :: int
    have "pageReq sampleConfig sampleCred p = pageReq sampleConfig sampleCred 1 \<Longrightarrow> p = 1" by (rule pageReq_inj)
    then show "case verdict ''ListUserTokens'' (fst (ev_send pagerEnv (pageReq sampleConfig sampleCred p) n)) of
        Inl e \<Rightarrow> True
      | Inr res \<Rightarrow> 1 \<le> p \<longrightarrow> unmarshal (decStruct decTokenPage) (cl_data res) =
          Some (List.take 100 (List.drop ((p - 1) * 100) [oneToken]), int (length [oneToken]))"
      by (cases "pageReq sampleConfig sampleCred p = pageReq sampleConfig sampleCred 1")
         (simp_all add: pagerEnv_def other onePage_read onePage_data)
  qed
qed

lemma onePage_allowed: "fst (allowC pagerEnv (newClient sampleConfig 0 0)) = Inr True" by code_simp
lemma onePage_token: "fst (waitToken pagerEnv (ev_rounds pagerEnv) (snd (allowC pagerEnv (newClient sampleConfig 0 0)))) = Inr None" by code_simp

lemma onePage_call:
  "\<exists>s'. doCall pagerEnv sampleConfig ''ListUserTokens'' ''GET'' (query_path ''/api/token/'' [(''p'', itoa (int 1)), (''page_size'', ''100'')])
      (userAuth sampleCred) None (newClient sampleConfig 0 0) = (Inr \<lparr>cl_data = Some onePageData, cl_cookie = []\<rparr>, s')"
proof -
  let ?q = "query_path ''/api/token/'' [(''p'', itoa (int 1)), (''page_size'', ''100'')]"
  obtain s1 where s1: "allowC pagerEnv (newClient sampleConfig 0 0) = (Inr True, s1)"
    using onePage_allowed by (cases "allowC pagerEnv (newClient sampleConfig 0 0)") auto
  obtain s2 where s2: "waitToken pagerEnv (ev_rounds pagerEnv) s1 = (Inr None, s2)"
    using onePage_token by (cases "waitToken pagerEnv (ev_rounds pagerEnv) s1") (auto simp: s1)
  have q: "requestOf sampleConfig ''GET'' ?q (userAuth sampleCred) None = pageReq sampleConfig sampleCred 1"
    by (simp add: pageReq_def)
  have rd: "readAnswer ''ListUserTokens'' \<lparr>ur_status = 200, ur_body = onePage, ur_cookies = []\<rparr> = Inr \<lparr>cl_data = Some onePageData, cl_cookie = []\<rparr>"
    using onePage_read by (simp add: verdict_def)
  have once: "\<exists>s'. doOnce pagerEnv sampleConfig ''ListUserTokens'' ''GET'' ?q (userAuth sampleCred) None s2 = (Inr \<lparr>cl_data = Some onePageData, cl_cookie = []\<rparr>, s')"
    unfolding doOnce_def q
    by (simp add: bind_def envStep_def pagerEnv_def rd return_def split: prod.splits)
  then obtain s3 where "doOnce pagerEnv sampleConfig ''ListUserTokens'' ''GET'' ?q (userAuth sampleCred) None s2 = (Inr \<lparr>cl_data = Some onePageData, cl_cookie = []\<rparr>, s3)" by blast
  then show ?thesis
    unfolding doCall_def
    by (simp add: bind_def s1 s2 attempt_def return_def onBreaker_def split: prod.splits nat.splits) 
qed

lemma token_list_complete_witness:
  "fst (ListUserTokens pagerEnv sampleConfig sampleCred (newClient sampleConfig 0 0)) = Inr [oneToken]"
proof -
  obtain s1 where call: "doCall pagerEnv sampleConfig ''ListUserTokens'' ''GET'' (query_path ''/api/token/'' [(''p'', itoa (int 1)), (''page_size'', ''100'')])
      (userAuth sampleCred) None (newClient sampleConfig 0 0) = (Inr \<lparr>cl_data = Some onePageData, cl_cookie = []\<rparr>, s1)"
    using onePage_call by blast
  have up: "[1..<101] = 1 # [2..<(101::nat)]" by (simp add: upt_conv_Cons)
  have "\<exists>xs s'. ListUserTokens pagerEnv sampleConfig sampleCred (newClient sampleConfig 0 0) = (Inr xs, s')"
    unfolding ListUserTokens_def up tokenPages.simps
    by (simp only: bind_def call old.prod.case old.sum.simps onePage_data callResult.simps option.case) (simp add: return_def)
  then obtain xs s' where run: "ListUserTokens pagerEnv sampleConfig sampleCred (newClient sampleConfig 0 0) = (Inr xs, s')" by blast
  show ?thesis using token_list_complete[OF pagerEnv_honest _ run] run by simp
qed

end
