(* ===== verification/UsageReports.thy ===== *)
theory UsageReports
  imports GoJson Reset
begin

text \<open>
  The usage dashboards: the aggregations of the hourly ledger and of the per-call detail
  (\<open>repo/usage_report.go\<close>, the two aggregations of \<open>repo/settlement.go\<close>) and the reports built from
  them (\<open>service/usage.go\<close>).  A Go map is the list of its entries in the order of insertion; where
  Go iterates a map and then sorts by consumption, entries that consume the same stay in that order.
  Sums are exact in the database, \<open>int64\<close> in the program; a database sum that does not fit is an
  error of the driver.
\<close>

section \<open>Aggregation\<close>

text \<open>\<open>m[k] += v\<close>.\<close>

definition addInt :: "'k \<Rightarrow> int \<Rightarrow> ('k \<times> int) list \<Rightarrow> ('k \<times> int) list" where
  "addInt k v es = (if map_of es k = None then es @ [(k, v)]
     else map (\<lambda>(j, x). (j, if j = k then i64 (x + v) else x)) es)"

definition getInt :: "'k \<Rightarrow> ('k \<times> int) list \<Rightarrow> int" where
  "getInt k es = (case map_of es k of Some v \<Rightarrow> v | None \<Rightarrow> 0)"

type_synonym usage_agg = "(string \<times> int) list \<times> (int \<times> int) list \<times> int"

text \<open>\<open>SELECT model_name, member_id, SUM(consumed_quota) ... GROUP BY model_name, member_id\<close>.\<close>

definition ledgerGroups :: "ledger_row list \<Rightarrow> ((string \<times> int) \<times> int) list" where
  "ledgerGroups rows = map (\<lambda>k. (k, sumBy l_consumed (filter (\<lambda>l. (l_model l, l_member l) = k) rows)))
     (remdups (map (\<lambda>l. (l_model l, l_member l)) rows))"

definition scanUsage :: "(string \<times> int) \<times> int \<Rightarrow> usage_agg \<Rightarrow> ('u, usage_agg) op" where
  "scanUsage g acc = (case g of ((m, mem), q) \<Rightarrow> case acc of (bm, bp, t) \<Rightarrow>
     if fits64 q then return (addInt m q bm, addInt mem q bp, i64 (t + q)) else throw DriverError)"

definition inWindow :: "int \<Rightarrow> int \<Rightarrow> int option \<Rightarrow> ledger_row \<Rightarrow> bool" where
  "inWindow org since mf l \<longleftrightarrow> l_org l = org \<and> since \<le> l_bucket l \<and> (case mf of None \<Rightarrow> True | Some i \<Rightarrow> l_member l = i)"

definition AggregateUsageLedger :: "int \<Rightarrow> int \<Rightarrow> int option \<Rightarrow> ('u, usage_agg) op" where
  "AggregateUsageLedger org since mf =
     bind (query (\<lambda>d. ledgerGroups (filter (inWindow org since mf) (ledger d)))) (\<lambda>gs. foldM scanUsage gs ([], [], 0))"

text \<open>The join with \<open>member\<close> on identifier and organization: team 0 is \<open>team_id IS NULL\<close>.\<close>

definition inTeam :: "int \<Rightarrow> member list \<Rightarrow> ledger_row \<Rightarrow> bool" where
  "inTeam team ms l \<longleftrightarrow> list_ex (\<lambda>m. m_id m = l_member l \<and> m_org m = l_org l
      \<and> m_team m = (if team = 0 then None else Some team)) ms"

definition AggregateUsageLedgerByTeam :: "int \<Rightarrow> int \<Rightarrow> int \<Rightarrow> ('u, usage_agg) op" where
  "AggregateUsageLedgerByTeam org since team =
     bind (query (\<lambda>d. ledgerGroups (filter (\<lambda>l. inWindow org since None l \<and> inTeam team (members d) l) (ledger d))))
       (\<lambda>gs. foldM scanUsage gs ([], [], 0))"

definition AggregateUsageLedgerByKey :: "int \<Rightarrow> int \<Rightarrow> int option \<Rightarrow> ('u, (int \<times> int) list) op" where
  "AggregateUsageLedgerByKey org since user =
     bind (query (\<lambda>d. let rows = filter (\<lambda>l. inWindow org since None l \<and> (case user of None \<Rightarrow> True | Some u \<Rightarrow> l_user l = u)) (ledger d)
       in map (\<lambda>k. (k, sumBy l_consumed (filter (\<lambda>l. l_key l = k) rows))) (remdups (map l_key rows)))) (\<lambda>gs.
     if list_all (\<lambda>g. fits64 (snd g)) gs then return gs else throw DriverError)"

definition CountUsageDetailByDim :: "int \<Rightarrow> int \<Rightarrow> int list \<Rightarrow> ('u, (string \<times> int) list \<times> (int \<times> int) list) op" where
  "CountUsageDetailByDim org since mids =
     bind (query (\<lambda>d. let rows = filter (\<lambda>r. d_org r = org \<and> since \<le> d_ts r \<and> (mids = [] \<or> d_member r \<in> set mids)) (details d)
       in map (\<lambda>k. (k, int (length (filter (\<lambda>r. (d_model r, d_member r) = k) rows))))
            (remdups (map (\<lambda>r. (d_model r, d_member r)) rows)))) (\<lambda>gs.
     return (fold (\<lambda>((m, mem), n) (bm, bp). (addInt m n bm, addInt mem n bp)) gs ([], [])))"

section \<open>The time axis\<close>

text \<open>The year, month and day of a day since 1970-01-01.\<close>

definition civil :: "int \<Rightarrow> int \<times> int \<times> int" where
  "civil n =
     (let z = n + 719468; era = z div 146097; doe = z - era * 146097;
          yoe = (doe - doe div 1460 + doe div 36524 - doe div 146096) div 365;
          doy = doe - (365 * yoe + yoe div 4 - yoe div 100);
          mp = (5 * doy + 2) div 153;
          m = (if mp < 10 then mp + 3 else mp - 9)
      in (yoe + era * 400 + (if m \<le> 2 then 1 else 0), m, doy - (153 * mp + 2) div 5 + 1))"

definition padTo :: "nat \<Rightarrow> int \<Rightarrow> string" where
  "padTo k n = (let ds = digits (nat n) in replicate (k - length ds) (CHR ''0'') @ ds)"

text \<open>The ISO year and week (\<open>%x\<close>, \<open>%v\<close>): those of the Thursday of the week.\<close>

definition isoWeek :: "int \<Rightarrow> int \<times> int" where
  "isoWeek n = (let thu = n - isoWeekday n + 4; y = fst (civil thu)
     in (y, (thu - daysFromCivil y 1 1) div 7 + 1))"

text \<open>\<open>DATE_FORMAT(DATE_ADD(time_bucket, INTERVAL 8 HOUR), ...)\<close>.\<close>

definition timeBucketPeriod :: "string \<Rightarrow> int \<Rightarrow> string" where
  "timeBucketPeriod gran bucket =
     (let day = (bucket + 8 * hourNs) div dayNs; (y, m, d) = civil day
      in if gran = ''week'' then (case isoWeek day of (iy, iw) \<Rightarrow> padTo 4 iy @ ''-W'' @ padTo 2 iw)
         else if gran = ''month'' then padTo 4 y @ ''-'' @ padTo 2 m
         else padTo 4 y @ ''-'' @ padTo 2 m @ ''-'' @ padTo 2 d)"

definition AggregateUsageByTime :: "int \<Rightarrow> int \<Rightarrow> string \<Rightarrow> int option \<Rightarrow> int option \<Rightarrow> ('u, (string \<times> int) list) op" where
  "AggregateUsageByTime org since gran mf kf =
     bind (query (\<lambda>d. let rows = filter (\<lambda>l. inWindow org since mf l \<and> (case kf of None \<Rightarrow> True | Some k \<Rightarrow> l_key l = k)) (ledger d)
       in sortByKey (map (\<lambda>p. (p, sumBy l_consumed (filter (\<lambda>l. timeBucketPeriod gran (l_bucket l) = p) rows)))
            (remdups (map (\<lambda>l. timeBucketPeriod gran (l_bucket l)) rows))))) (\<lambda>ps.
     if list_all (\<lambda>p. fits64 (snd p)) ps then return ps else throw DriverError)"

section \<open>The detail list\<close>

record detail_filter =
  df_org :: int
  df_member :: "int option"
  df_key :: "int option"
  df_model :: string
  df_since :: int

definition detailWhere :: "detail_filter \<Rightarrow> detail_row \<Rightarrow> bool" where
  "detailWhere f r \<longleftrightarrow> d_org r = df_org f \<and> df_since f \<le> d_ts r
     \<and> (case df_member f of None \<Rightarrow> True | Some i \<Rightarrow> d_member r = i)
     \<and> (case df_key f of None \<Rightarrow> True | Some k \<Rightarrow> d_key r = k)
     \<and> (df_model f = '''' \<or> d_model r = df_model f)"

text \<open>\<open>ORDER BY log_ts DESC, id DESC LIMIT ? OFFSET ?\<close>; a negative offset is not SQL.\<close>

definition ListUsageDetail :: "detail_filter \<Rightarrow> int \<Rightarrow> int \<Rightarrow> ('u, detail_row list) op" where
  "ListUsageDetail f lim off =
     bind (query (\<lambda>d. take (nat lim) (drop (nat off) (sort_key (\<lambda>r. - d_ts r) (rev (filter (detailWhere f) (details d))))))) (\<lambda>rs.
     if off < 0 \<or> lim < 0 then throw (SqlError 1064) else return rs)"

definition CountUsageDetail :: "detail_filter \<Rightarrow> ('u, int) op" where
  "CountUsageDetail f = query (\<lambda>d. int (length (filter (detailWhere f) (details d))))"

section \<open>The reports\<close>

record usage_bucket =
  ub_key :: string
  ub_label :: string
  ub_member :: int
  ub_consumed :: int
  ub_count :: int

text \<open>\<open>None\<close> is the nil slice.\<close>

record usage_report =
  us_hours :: int
  us_total :: int
  us_by_model :: "usage_bucket list"
  us_by_member :: "usage_bucket list option"
  us_by_team :: "usage_bucket list option"

definition maxUsageWindowHours :: int where "maxUsageWindowHours = 24 * 366 * 30"

definition clampHours :: "int \<Rightarrow> int" where
  "clampHours h = (if h \<le> 0 \<or> maxUsageWindowHours < h then 24 else h)"

definition detailSince :: "int \<Rightarrow> int \<Rightarrow> int" where
  "detailSince now h = (now div 10 ^ 9 - clampHours h * 3600) * 10 ^ 9"

definition sortBuckets :: "usage_bucket list \<Rightarrow> usage_bucket list" where
  "sortBuckets bs = sort_key (\<lambda>b. - ub_consumed b) bs"

text \<open>\<open>Team #7\<close> and \<open>Not grouped\<close> in Chinese, as bytes of UTF-8.\<close>

definition wTeamNo :: string where
  "wTeamNo = [CHR 0xE5, CHR 0x9B, CHR 0xA2, CHR 0xE9, CHR 0x98, CHR 0x9F, CHR ''#'']"

definition wUngrouped :: string where
  "wUngrouped = [CHR 0xE6, CHR 0x9C, CHR 0xAA, CHR 0xE5, CHR 0x88, CHR 0x86, CHR 0xE7, CHR 0xBB, CHR 0x84]"

definition labelTeams :: "int \<Rightarrow> (int \<times> int) list \<Rightarrow> ('u, usage_bucket list) op" where
  "labelTeams org byTeam =
     bind (attempt (ListTeamsRepo org)) (\<lambda>r.
     let names = (case r of Inl _ \<Rightarrow> [] | Inr ts \<Rightarrow> map (\<lambda>t. (t_id t, t_name t)) ts)
     in return (sortBuckets (map (\<lambda>(tid, q). \<lparr>ub_key = itoa tid,
          ub_label = (if tid = 0 then wUngrouped else case map_of names tid of Some n \<Rightarrow> n | None \<Rightarrow> wTeamNo @ itoa tid),
          ub_member = 0, ub_consumed = q, ub_count = 0\<rparr>) byTeam)))"

text \<open>One member of the list: its name and its team as they are now.\<close>

definition labelMember :: "int \<Rightarrow> (int \<times> int) list \<Rightarrow> int \<times> int \<Rightarrow> usage_bucket list \<times> (int \<times> int) list
    \<Rightarrow> ('u, usage_bucket list \<times> (int \<times> int) list) op" where
  "labelMember org counts e acc = (case e of (mid, q) \<Rightarrow> case acc of (bs, byTeam) \<Rightarrow>
     bind (attempt (GetMember org mid)) (\<lambda>r.
     let b = \<lparr>ub_key = itoa mid,
              ub_label = (case r of Inl _ \<Rightarrow> [] | Inr m \<Rightarrow>
                 (case m_display m of Some n \<Rightarrow> if n = '''' then m_email m else n | None \<Rightarrow> m_email m)),
              ub_member = mid, ub_consumed = q, ub_count = getInt mid counts\<rparr>;
         team = (case r of Inl _ \<Rightarrow> 0 | Inr m \<Rightarrow> (case m_team m of Some t \<Rightarrow> t | None \<Rightarrow> 0))
     in return (bs @ [b], addInt team q byTeam)))"

definition modelReport :: "int \<Rightarrow> (string \<times> int) list \<Rightarrow> (string \<times> int) list \<Rightarrow> usage_report" where
  "modelReport h bm counts = \<lparr>us_hours = h, us_total = fold (\<lambda>e t. i64 (t + snd e)) bm 0,
     us_by_model = sortBuckets (map (\<lambda>e. \<lparr>ub_key = fst e, ub_label = [], ub_member = 0, ub_consumed = snd e,
        ub_count = getInt (fst e) counts\<rparr>) bm),
     us_by_member = None, us_by_team = None\<rparr>"

definition memberReport :: "int \<Rightarrow> (int \<times> int) list \<Rightarrow> (int \<times> int) list \<Rightarrow> bool \<Rightarrow> usage_report \<Rightarrow> ('u, usage_report) op" where
  "memberReport org bp counts teamsToo rep =
     bind (foldM (labelMember org counts) bp ([], [])) (\<lambda>acc.
     let rep1 = rep\<lparr>us_by_member := Some (sortBuckets (fst acc))\<rparr>
     in if \<not> teamsToo then return rep1
        else bind (labelTeams org (snd acc)) (\<lambda>ts. return (rep1\<lparr>us_by_team := Some ts\<rparr>)))"

definition aggregateUsage :: "int \<Rightarrow> int option \<Rightarrow> int option \<Rightarrow> int option \<Rightarrow> ('u, usage_report) op" where
  "aggregateUsage hours orgFilter memberFilter teamFilter =
     (let h = clampHours hours in
      case orgFilter of
        None \<Rightarrow> return (modelReport h [] [])
      | Some org \<Rightarrow>
        bind clock (\<lambda>now. let since = detailSince now h in
        bind (mapErr internal (case teamFilter of
            Some t \<Rightarrow> AggregateUsageLedgerByTeam org since t
          | None \<Rightarrow> AggregateUsageLedger org since memberFilter)) (\<lambda>agg.
        bind (mapErr internal (CountUsageDetailByDim org since
               (if teamFilter \<noteq> None \<or> memberFilter \<noteq> None
                then map fst (fst (snd agg)) @ (case memberFilter of Some i \<Rightarrow> [i] | None \<Rightarrow> []) else []))) (\<lambda>counts.
        let rep = modelReport h (fst agg) (fst counts)
        in if memberFilter \<noteq> None then return rep
           else memberReport org (fst (snd agg)) (snd counts) (teamFilter = None) rep))))"

definition OrgUsage :: "claims \<Rightarrow> int \<Rightarrow> int \<Rightarrow> ('u, usage_report) op" where
  "OrgUsage c org hours =
     bind (assertOrgScope c org) (\<lambda>_.
     bind (assertRole c [RoleOperator, RoleOrgAdmin]) (\<lambda>_.
     aggregateUsage hours (Some org) None None))"

definition TeamUsage :: "claims \<Rightarrow> int \<Rightarrow> int \<Rightarrow> int \<Rightarrow> ('u, usage_report) op" where
  "TeamUsage c org team hours =
     bind (assertOrgScope c org) (\<lambda>_.
     bind (assertRole c [RoleOperator, RoleOrgAdmin]) (\<lambda>_.
     bind (guard_when (team \<noteq> 0) (bind (mapErr (\<lambda>_. NotFound) (GetTeam org team)) (\<lambda>_. return ()))) (\<lambda>_.
     aggregateUsage hours (Some org) None (Some team))))"

text \<open>The checks in front of the views of one member.\<close>

definition usageMember :: "claims \<Rightarrow> int \<Rightarrow> int \<Rightarrow> ('u, member) op" where
  "usageMember c org mid =
     bind (assertOrgScope c org) (\<lambda>_.
     bind (mapErr (\<lambda>_. NotFound) (GetMember org mid)) (\<lambda>m.
     bind (assertSelf c mid) (\<lambda>_.
     bind (guard_when (cl_role c = RoleTeamLeader) (assertTeamScope c (m_team m))) (\<lambda>_. return m))))"

definition MemberUsage :: "claims \<Rightarrow> int \<Rightarrow> int \<Rightarrow> int \<Rightarrow> ('u, usage_report) op" where
  "MemberUsage c org mid hours =
     bind (usageMember c org mid) (\<lambda>m. aggregateUsage hours (Some org) (Some (m_id m)) None)"

definition validGranularity :: "string \<Rightarrow> string" where
  "validGranularity g = (if g = ''week'' \<or> g = ''month'' then g else ''day'')"

definition usageTimeSeries :: "int \<Rightarrow> int \<Rightarrow> string \<Rightarrow> int option \<Rightarrow> ('u, (string \<times> int) list) op" where
  "usageTimeSeries org hours gran mf =
     bind clock (\<lambda>now.
     mapErr internal (AggregateUsageByTime org (detailSince now hours) (validGranularity gran) mf None))"

definition OrgUsageTimeSeries :: "claims \<Rightarrow> int \<Rightarrow> int \<Rightarrow> string \<Rightarrow> ('u, (string \<times> int) list) op" where
  "OrgUsageTimeSeries c org hours gran =
     bind (assertOrgScope c org) (\<lambda>_.
     bind (assertRole c [RoleOperator, RoleOrgAdmin]) (\<lambda>_.
     usageTimeSeries org hours gran None))"

definition MemberUsageTimeSeries :: "claims \<Rightarrow> int \<Rightarrow> int \<Rightarrow> int \<Rightarrow> string \<Rightarrow> ('u, (string \<times> int) list) op" where
  "MemberUsageTimeSeries c org mid hours gran =
     bind (usageMember c org mid) (\<lambda>m. usageTimeSeries org hours gran (Some (m_id m)))"

record detail_page =
  dp_records :: "detail_row list"
  dp_total :: int
  dp_page :: int
  dp_size :: int

definition usageDetailMaxPageSize :: int where "usageDetailMaxPageSize = 200"

definition clampDetailPage :: "int \<Rightarrow> int \<Rightarrow> int \<times> int" where
  "clampDetailPage pg sz = (if pg \<le> 0 then 1 else pg,
     let s1 = (if sz \<le> 0 then 50 else sz) in if usageDetailMaxPageSize < s1 then usageDetailMaxPageSize else s1)"

definition usageDetail :: "detail_filter \<Rightarrow> int \<Rightarrow> int \<Rightarrow> ('u, detail_page) op" where
  "usageDetail f pg0 sz0 = (case clampDetailPage pg0 sz0 of (pg, sz) \<Rightarrow>
     bind (mapErr internal (CountUsageDetail f)) (\<lambda>tot.
     bind (mapErr internal (ListUsageDetail f sz (i64 (i64 (pg - 1) * sz)))) (\<lambda>rs.
     return \<lparr>dp_records = rs, dp_total = tot, dp_page = pg, dp_size = sz\<rparr>)))"

definition OrgUsageDetail :: "claims \<Rightarrow> int \<Rightarrow> int \<Rightarrow> int option \<Rightarrow> int option \<Rightarrow> string \<Rightarrow> int \<Rightarrow> int \<Rightarrow> ('u, detail_page) op" where
  "OrgUsageDetail c org hours mf kf model pg sz =
     bind (assertOrgScope c org) (\<lambda>_.
     bind (assertRole c [RoleOperator, RoleOrgAdmin]) (\<lambda>_.
     bind clock (\<lambda>now.
     usageDetail \<lparr>df_org = org, df_member = mf, df_key = kf, df_model = model, df_since = detailSince now hours\<rparr> pg sz)))"

definition MemberUsageDetail :: "claims \<Rightarrow> int \<Rightarrow> int \<Rightarrow> int \<Rightarrow> int \<Rightarrow> int \<Rightarrow> ('u, detail_page) op" where
  "MemberUsageDetail c org mid hours pg sz =
     bind (usageMember c org mid) (\<lambda>_.
     bind clock (\<lambda>now.
     usageDetail \<lparr>df_org = org, df_member = Some mid, df_key = None, df_model = '''', df_since = detailSince now hours\<rparr> pg sz))"

text \<open>The two figures of the budget bar.\<close>

definition OrgBudgetRef :: "claims \<Rightarrow> int \<Rightarrow> ('u, int \<times> int) op" where
  "OrgBudgetRef c org =
     bind (assertOrgScope c org) (\<lambda>_.
     bind (assertRole c [RoleOperator, RoleOrgAdmin]) (\<lambda>_.
     bind (mapErr internal (AggregateUsageLedger org 0 None)) (\<lambda>(_, _, consumed).
     bind (mapErr internal (GetOrCreateBalance org)) (\<lambda>b.
     return (consumed, b_recharged b)))))"

end
