(* ===== verification/UsageClaims.thy ===== *)
theory UsageClaims
  imports UsageReports Sample
begin

text \<open>
  The dashboards add up: the figures of a report, by model, by member and by team, have one total,
  and it is the consumption in the organization's ledger.
\<close>

section \<open>Sums over groups\<close>

lemma addInt_distinct: "distinct (map fst es) \<Longrightarrow> distinct (map fst (addInt k v es))"
  by (auto simp: addInt_def map_of_eq_None_iff comp_def case_prod_beta)

lemma sum_addInt:
  assumes "distinct (map fst es)"
  shows "i64 (sumBy snd (addInt k v es)) = i64 (sumBy snd es + v)"
proof (cases "map_of es k = None")
  case True
  then show ?thesis by (simp add: addInt_def)
next
  case False
  have upd: "k \<in> fst ` set es \<Longrightarrow> distinct (map fst es) \<Longrightarrow>
      \<exists>x. i64 (sumBy snd (map (\<lambda>(j, x). (j, if j = k then i64 (x + v) else x)) es)) = i64 (sumBy snd es + v)" for es
  proof (induction es)
    case (Cons e es)
    obtain j x where e: "e = (j, x)" by fastforce
    show ?case
    proof (cases "j = k")
      case True
      then have "map (\<lambda>(j, x). (j, if j = k then i64 (x + v) else x)) es = es"
        using Cons.prems(2) e by (intro map_idI) (auto simp: rev_image_eqI)
      then show ?thesis using True e i64_add_i64[of "sumBy snd es" "x + v"] by (simp add: algebra_simps i64_i64_add)
    next
      case False
      then have "i64 (sumBy snd (map (\<lambda>(j, x). (j, if j = k then i64 (x + v) else x)) es)) = i64 (sumBy snd es + v)"
        using Cons e by auto
      then have "i64 (x + i64 (sumBy snd (map (\<lambda>(j, x). (j, if j = k then i64 (x + v) else x)) es))) = i64 (x + i64 (sumBy snd es + v))"
        by simp
      then show ?thesis using False e by (simp add: i64_add_i64 algebra_simps)
    qed
  qed simp
  show ?thesis using upd[of es] assms False by (auto simp: addInt_def map_of_eq_None_iff)
qed

lemma sum_pick: "distinct ks \<Longrightarrow> a \<in> set ks \<Longrightarrow> sumBy (\<lambda>k. if a = k then c else 0) ks = c"
proof (induction ks)
  case (Cons k ks)
  have "a \<notin> set ks \<Longrightarrow> sumBy (\<lambda>k. if a = k then c else 0) ks = 0" by (induction ks) auto
  with Cons show ?case by auto
qed simp

lemma sum_groups:
  "sumBy snd (map (\<lambda>k. (k, sumBy f (filter (\<lambda>r. g r = k) rows))) (remdups (map g rows))) = sumBy f rows"
proof -
  have extra: "set (map g rows) \<subseteq> set ks \<Longrightarrow> distinct ks \<Longrightarrow>
      sumBy (\<lambda>k. sumBy f (filter (\<lambda>r. g r = k) rows)) ks = sumBy f rows" for ks
  proof (induction rows)
    case (Cons r rows)
    have one: "sumBy (\<lambda>k. if g r = k then f r else 0) ks = f r"
      using Cons.prems by (intro sum_pick) auto
    have "sumBy (\<lambda>k. sumBy f (filter (\<lambda>r. g r = k) (r # rows))) ks =
        sumBy (\<lambda>k. (if g r = k then f r else 0) + sumBy f (filter (\<lambda>r. g r = k) rows)) ks"
      by (rule sumBy_cong) simp
    then show ?case using Cons one by (simp add: sumBy_add)
  qed simp
  show ?thesis by (simp add: sumBy_map extra)
qed

lemma sum_insort: "sumBy f (insort_key g x xs) = f x + sumBy f xs"
  by (induction xs) auto

lemma sum_sort: "sumBy f (sort_key g xs) = sumBy f xs"
  by (induction xs) (simp_all add: sum_insort)

lemma sum_insertByKey: "sumBy snd (insertByKey e es) = snd e + sumBy snd es"
  by (induction es) auto

lemma sum_sortByKey: "sumBy snd (sortByKey es) = sumBy snd es"
  unfolding sortByKey_def by (induction es) (simp_all add: sum_insertByKey)


section \<open>What the aggregations return\<close>

text \<open>An aggregate in which the entries by model and by member have the total \<open>T\<close>.\<close>

definition balanced :: "int \<Rightarrow> usage_agg \<Rightarrow> bool" where
  "balanced T acc \<longleftrightarrow> (case acc of (bm, bp, t) \<Rightarrow> distinct (map fst bm) \<and> distinct (map fst bp)
     \<and> i64 (sumBy snd bm) = i64 T \<and> i64 (sumBy snd bp) = i64 T \<and> t = i64 T)"

lemma i64_shift: "i64 a = i64 b \<Longrightarrow> i64 (a + q) = i64 (b + q)"
  by (metis i64_i64_add)

lemma scan_balanced:
  "balanced T acc \<Longrightarrow> dbval ((=) d0) (foldM scanUsage gs acc :: ('u, usage_agg) op) (\<lambda>acc' d. d = d0 \<and> balanced (T + sumBy snd gs) acc')"
proof (induction gs arbitrary: acc T)
  case Nil
  then show ?case by (simp add: dbval_return)
next
  case (Cons g gs)
  obtain m mem q bm bp t where g: "g = ((m, mem), q)" "acc = (bm, bp, t)" by (metis surj_pair)
  let ?acc = "(addInt m q bm, addInt mem q bp, i64 (t + q))"
  have next_ok: "balanced (T + q) ?acc"
  proof -
    have h: "distinct (map fst bm)" "distinct (map fst bp)" "i64 (sumBy snd bm) = i64 T" "i64 (sumBy snd bp) = i64 T" "t = i64 T"
      using Cons.prems g by (auto simp: balanced_def)
    show ?thesis
      unfolding balanced_def split h(5)
      by (simp add: addInt_distinct h(1,2) sum_addInt[OF h(1)] sum_addInt[OF h(2)] i64_shift[OF h(3)] i64_shift[OF h(4)] i64_i64_add)
  qed
  have "dbval ((=) d0) (scanUsage g acc :: ('u, usage_agg) op) (\<lambda>a d. d = d0 \<and> a = ?acc)"
    by (auto simp: scanUsage_def g intro!: dbval_return dbval_throw)
  moreover have "dbval (\<lambda>d. d = d0 \<and> a = ?acc) (foldM scanUsage gs a :: ('u, usage_agg) op)
      (\<lambda>acc' d. d = d0 \<and> balanced (T + sumBy snd (g # gs)) acc')" for a
  proof (rule dbval_imp)
    fix d assume "d = d0 \<and> a = ?acc"
    then show "dbval ((=) d) (foldM scanUsage gs a :: ('u, usage_agg) op) (\<lambda>acc' d. d = d0 \<and> balanced (T + sumBy snd (g # gs)) acc')"
      using Cons.IH[OF next_ok] g by (simp add: algebra_simps)
  qed
  ultimately show ?case unfolding foldM.simps by (rule dbval_bind)
qed

lemma balanced_start: "balanced 0 ([], [], 0)"
  by (simp add: balanced_def fits64_def)

lemma ledgerGroups_sum: "sumBy snd (ledgerGroups rows) = sumBy l_consumed rows"
  unfolding ledgerGroups_def by (rule sum_groups)

lemma ledger_balanced:
  "dbval ((=) d0) (AggregateUsageLedger org since mf)
     (\<lambda>acc d. d = d0 \<and> balanced (sumBy l_consumed (filter (inWindow org since mf) (ledger d0))) acc)"
  unfolding AggregateUsageLedger_def
proof (rule dbval_bind[OF dbval_query], rule dbval_imp)
  fix gs d assume "d0 = d \<and> gs = ledgerGroups (filter (inWindow org since mf) (ledger d))"
  then show "dbval ((=) d) (foldM scanUsage gs ([], [], 0))
     (\<lambda>acc d. d = d0 \<and> balanced (sumBy l_consumed (filter (inWindow org since mf) (ledger d0))) acc)"
    using scan_balanced[OF balanced_start, of d gs]
    by (simp add: ledgerGroups_sum)
qed

definition membersOk :: "int \<Rightarrow> usage_bucket list \<times> (int \<times> int) list \<Rightarrow> bool" where
  "membersOk T acc \<longleftrightarrow> (case acc of (bs, bt) \<Rightarrow> distinct (map fst bt)
     \<and> sumBy ub_consumed bs = T \<and> i64 (sumBy snd bt) = i64 T)"

lemma members_balanced:
  "membersOk T acc \<Longrightarrow> dbval ((=) d0) (foldM (labelMember org cp) es acc :: ('u, usage_bucket list \<times> (int \<times> int) list) op) (\<lambda>acc' d. d = d0 \<and> membersOk (T + sumBy snd es) acc')"
proof (induction es arbitrary: acc T)
  case Nil
  then show ?case by (simp add: dbval_return)
next
  case (Cons e es)
  obtain mid q bs bt where e: "e = (mid, q)" "acc = (bs, bt)" by fastforce
  have step: "membersOk (T + q) (bs @ [b], addInt t q bt)" if "ub_consumed b = q" for b t
  proof -
    have h: "distinct (map fst bt)" "sumBy ub_consumed bs = T" "i64 (sumBy snd bt) = i64 T"
      using Cons.prems e by (auto simp: membersOk_def)
    show ?thesis
      unfolding membersOk_def split
      by (simp add: addInt_distinct h(1,2) sum_addInt[OF h(1)] i64_shift[OF h(3)] that)
  qed
  have "dbval ((=) d0) (labelMember org cp e acc :: ('u, usage_bucket list \<times> (int \<times> int) list) op) (\<lambda>acc d. d = d0 \<and> membersOk (T + q) acc)"
    unfolding labelMember_def e GetMember_def Let_def split
    by (rule dbval_bind[OF dbval_attempt_getRow]) (auto intro!: dbval_return step)
  moreover have "dbval (\<lambda>d. d = d0 \<and> membersOk (T + q) a) (foldM (labelMember org cp) es a :: ('u, usage_bucket list \<times> (int \<times> int) list) op)
      (\<lambda>acc' d. d = d0 \<and> membersOk (T + sumBy snd (e # es)) acc')" for a
  proof (rule dbval_imp)
    fix d assume "d = d0 \<and> membersOk (T + q) a"
    then show "dbval ((=) d) (foldM (labelMember org cp) es a :: ('u, usage_bucket list \<times> (int \<times> int) list) op) (\<lambda>acc' d. d = d0 \<and> membersOk (T + sumBy snd (e # es)) acc')"
      using Cons.IH[of "T + q" a] e by (auto simp: algebra_simps)
  qed
  ultimately show ?case unfolding foldM.simps by (rule dbval_bind)
qed


section \<open>The organization's report\<close>

lemma fold_i64: "fold (\<lambda>e t. i64 (t + snd e)) es (i64 a) = i64 (a + sumBy snd es)"
proof (induction es arbitrary: a)
  case (Cons e es)
  have "fold (\<lambda>e t. i64 (t + snd e)) (e # es) (i64 a) = fold (\<lambda>e t. i64 (t + snd e)) es (i64 (a + snd e))"
    by (simp add: i64_i64_add)
  then show ?case using Cons[of "a + snd e"] by (simp add: algebra_simps)
qed simp

text \<open>The figures of a report have the total \<open>T\<close>, up to the width of \<open>int64\<close>.\<close>

definition addsUp :: "int \<Rightarrow> usage_report \<Rightarrow> bool" where
  "addsUp T rep \<longleftrightarrow> us_total rep = i64 T \<and> i64 (sumBy ub_consumed (us_by_model rep)) = i64 T
     \<and> (case us_by_member rep of None \<Rightarrow> False | Some bs \<Rightarrow> i64 (sumBy ub_consumed bs) = i64 T)
     \<and> (case us_by_team rep of None \<Rightarrow> False | Some bs \<Rightarrow> i64 (sumBy ub_consumed bs) = i64 T)"

lemma counts_pure:
  "dbval ((=) d0) (CountUsageDetailByDim org since mids) (\<lambda>_. (=) d0)"
  unfolding CountUsageDetailByDim_def
  by (rule dbval_bind[OF dbval_query]) (auto intro: dbval_return)

lemma teams_pure: "dbval ((=) d0) (attempt (ListTeamsRepo org)) (\<lambda>_. (=) d0)"
  by (rule dbvalI) (auto simp: attempt_def ListTeamsRepo_def query_def stmt_def split: prod.splits list.splits fault.splits)

lemma teams_sum:
  "dbval ((=) d0) (labelTeams org bt) (\<lambda>bs d. d = d0 \<and> sumBy ub_consumed bs = sumBy snd bt)"
  unfolding labelTeams_def Let_def
  by (rule dbval_bind[OF teams_pure], rule dbval_return)
     (simp add: sortBuckets_def sum_sort sumBy_map case_prod_beta)

lemma model_sum: "us_total (modelReport h bm cm) = i64 (sumBy snd bm)"
  "sumBy ub_consumed (us_by_model (modelReport h bm cm)) = sumBy snd bm"
  using fold_i64[of bm 0] by (simp_all add: modelReport_def sortBuckets_def sum_sort sumBy_map fits64_def)

lemma members_sum:
  assumes "us_total rep = i64 T" "i64 (sumBy ub_consumed (us_by_model rep)) = i64 T" "i64 (sumBy snd bp) = i64 T"
  shows "dbval ((=) d0) (memberReport org bp cp True rep :: ('u, usage_report) op) (\<lambda>rep d. d = d0 \<and> addsUp T rep)"
  unfolding memberReport_def Let_def
proof (rule dbval_bind)
  have start: "membersOk 0 ([], [])" by (simp add: membersOk_def)
  show "dbval ((=) d0) (foldM (labelMember org cp) bp ([], []) :: ('u, usage_bucket list \<times> (int \<times> int) list) op)
      (\<lambda>acc d. d = d0 \<and> membersOk (sumBy snd bp) acc)"
    using members_balanced[OF start] by simp
  fix acc
  show "dbval (\<lambda>d. d = d0 \<and> membersOk (sumBy snd bp) acc)
      (if \<not> True then return (rep\<lparr>us_by_member := Some (sortBuckets (fst acc))\<rparr>)
       else bind (labelTeams org (snd acc)) (\<lambda>ts. return (rep\<lparr>us_by_member := Some (sortBuckets (fst acc)), us_by_team := Some ts\<rparr>)) :: ('u, usage_report) op)
      (\<lambda>rep d. d = d0 \<and> addsUp T rep)"
  proof (rule dbval_imp)
    fix d assume d: "d = d0 \<and> membersOk (sumBy snd bp) acc"
    then have "sumBy ub_consumed (fst acc) = sumBy snd bp" "i64 (sumBy snd (snd acc)) = i64 T"
      using assms(3) by (auto simp: membersOk_def)
    with d assms have ok: "sumBy ub_consumed ts = sumBy snd (snd acc) \<Longrightarrow>
        d = d0 \<and> addsUp T (rep\<lparr>us_by_member := Some (sortBuckets (fst acc)), us_by_team := Some ts\<rparr>)" for ts
      by (simp add: addsUp_def sortBuckets_def sum_sort)
    show "dbval ((=) d) (if \<not> True then return (rep\<lparr>us_by_member := Some (sortBuckets (fst acc))\<rparr>)
       else bind (labelTeams org (snd acc)) (\<lambda>ts. return (rep\<lparr>us_by_member := Some (sortBuckets (fst acc)), us_by_team := Some ts\<rparr>)) :: ('u, usage_report) op)
      (\<lambda>rep d. d = d0 \<and> addsUp T rep)"
      unfolding not_True_eq_False if_False
      by (rule dbval_bind[OF teams_sum], rule dbval_return) (use ok in blast)
  qed
qed

lemma run_clock: "bind clock f w = f (w_now w) w"
  by (simp add: bind_def clock_def gets_def)

lemma aggregate_adds_up:
  assumes run: "aggregateUsage h (Some org) None None w = (Inr rep, w')"
  shows "w_db w' = w_db w \<and>
    addsUp (sumBy l_consumed (filter (inWindow org (detailSince (w_now w) (clampHours h)) None) (ledger (w_db w)))) rep"
proof -
  let ?T = "sumBy l_consumed (filter (inWindow org (detailSince (w_now w) (clampHours h)) None) (ledger (w_db w)))"
  let ?d = "w_db w"
  let ?rest = "\<lambda>agg. bind (mapErr internal (CountUsageDetailByDim org (detailSince (w_now w) (clampHours h)) [])) (\<lambda>counts.
        memberReport org (fst (snd agg)) (snd counts) True (modelReport (clampHours h) (fst agg) (fst counts))) :: ('a, usage_report) op"
  have "dbval ((=) ?d) (bind (mapErr internal (AggregateUsageLedger org (detailSince (w_now w) (clampHours h)) None)) ?rest)
      (\<lambda>rep d. d = ?d \<and> addsUp ?T rep)"
  proof (rule dbval_bind[OF dbval_mapErr[OF ledger_balanced]], rule dbval_imp)
    fix agg d
    assume agg: "d = ?d \<and> balanced ?T agg"
    have "i64 (sumBy snd (fst agg)) = i64 ?T" "i64 (sumBy snd (fst (snd agg))) = i64 ?T"
      using agg by (auto simp: balanced_def)
    with agg show "dbval ((=) d) (?rest agg) (\<lambda>rep d. d = ?d \<and> addsUp ?T rep)"
      by (intro dbval_bind[OF dbval_mapErr[OF counts_pure]]) (auto intro!: members_sum simp: model_sum)
  qed
  from dbvalD[OF this refl, of rep w'] run show ?thesis
    by (simp add: aggregateUsage_def run_clock Let_def)
qed


lemma series_sum:
  "dbval ((=) d0) (AggregateUsageByTime org since gran mf None) (\<lambda>ps d. d = d0 \<and> sumBy snd ps = sumBy l_consumed (filter (inWindow org since mf) (ledger d0)))"
  unfolding AggregateUsageByTime_def Let_def
proof (rule dbval_bind[OF dbval_query], rule dbval_if, rule dbval_return)
  fix ps d
  assume "d0 = d \<and> ps = sortByKey (map (\<lambda>p. (p, sumBy l_consumed (filter (\<lambda>l. timeBucketPeriod gran (l_bucket l) = p)
        (filter (\<lambda>l. inWindow org since mf l \<and> (case None of None \<Rightarrow> True | Some k \<Rightarrow> l_key l = k)) (ledger d)))))
      (remdups (map (\<lambda>l. timeBucketPeriod gran (l_bucket l))
        (filter (\<lambda>l. inWindow org since mf l \<and> (case None of None \<Rightarrow> True | Some k \<Rightarrow> l_key l = k)) (ledger d)))))"
  then show "d = d0 \<and> sumBy snd ps = sumBy l_consumed (filter (inWindow org since mf) (ledger d0))"
    by (simp only: sum_sortByKey sum_groups option.case simp_thms)
qed (rule dbval_throw)


definition usageSample :: "sample world" where
  "usageSample = sampleWorld (sampleDb\<lparr>ledger :=
     [\<lparr>l_org = 1, l_member = 2, l_user = 101, l_key = 5, l_team = None, l_model = ''m1'', l_bucket = 7200 * 10 ^ 9, l_consumed = 30, l_max_ts = 7300\<rparr>,
      \<lparr>l_org = 1, l_member = 9, l_user = 101, l_key = 0, l_team = None, l_model = ''m2'', l_bucket = 7200 * 10 ^ 9, l_consumed = 12, l_max_ts = 7400\<rparr>]\<rparr>) 10000"


end
