(* ===== verification/Secrets.thy ===== *)
theory Secrets
  imports Bootstrap MemberOps Keyring
begin

text \<open>
  The generated names and passwords (\<open>service/secret.go\<close>) as functions of the bytes that the random
  source gave, \<open>None\<close> when it failed, and what the rest of the program relies on: they fit the limits
  of new-api, so that opening an account is never refused for its own credentials, and a random
  suffix is safe inside a displayed name.
\<close>

section \<open>The generators\<close>

definition replaceChars :: "(char \<times> char) list \<Rightarrow> string \<Rightarrow> string" where
  "replaceChars tab = map (\<lambda>c. case map_of tab c of Some d \<Rightarrow> d | None \<Rightarrow> c)"

definition genNewapiPassword :: "string option \<Rightarrow> string option" where
  "genNewapiPassword rnd = map_option (\<lambda>b. ''Px'' @
     replaceChars [(CHR ''+'', CHR ''A''), (CHR ''/'', CHR ''a''), (CHR ''='', CHR ''z'')] (stdEncode b) @ ''9!'') rnd"

definition genPlatformPassword :: "string option \<Rightarrow> string option" where
  "genPlatformPassword rnd = map_option (\<lambda>b.
     replaceChars [(CHR ''+'', CHR ''X''), (CHR ''/'', CHR ''x''), (CHR ''='', CHR ''Z'')] (stdEncode b)) rnd"

text \<open>The error of the random source is dropped here: the bytes are then zero.\<close>

definition randEmailSuffix :: "string \<Rightarrow> string" where
  "randEmailSuffix b = map lowerChar (b64Encode b)"

definition deriveOrgUsername :: "int \<Rightarrow> string" where
  "deriveOrgUsername org = ''org'' @ itoa org"

text \<open>\<open>base32.StdEncoding\<close> without padding, in lower case.\<close>

fun b32Groups :: "nat list \<Rightarrow> nat list" where
  "b32Groups (a # b # c # d # e # r) =
     [a div 8, a mod 8 * 4 + b div 64, b div 2 mod 32, b mod 2 * 16 + c div 16,
      c mod 16 * 2 + d div 128, d div 4 mod 32, d mod 4 * 8 + e div 32, e mod 32] @ b32Groups r"
| "b32Groups [a, b, c, d] =
     [a div 8, a mod 8 * 4 + b div 64, b div 2 mod 32, b mod 2 * 16 + c div 16,
      c mod 16 * 2 + d div 128, d div 4 mod 32, d mod 4 * 8]"
| "b32Groups [a, b, c] =
     [a div 8, a mod 8 * 4 + b div 64, b div 2 mod 32, b mod 2 * 16 + c div 16, c mod 16 * 2]"
| "b32Groups [a, b] = [a div 8, a mod 8 * 4 + b div 64, b div 2 mod 32, b mod 2 * 16]"
| "b32Groups [a] = [a div 8, a mod 8 * 4]"
| "b32Groups [] = []"

definition b32Alphabet :: string where "b32Alphabet = ''ABCDEFGHIJKLMNOPQRSTUVWXYZ234567''"

definition b32Encode :: "string \<Rightarrow> string" where
  "b32Encode s = map (\<lambda>n. b32Alphabet ! n) (b32Groups (map of_char s))"

definition genOrgUsername :: "string option \<Rightarrow> string option" where
  "genOrgUsername rnd = map_option (\<lambda>b. ''ent_'' @ map lowerChar (b32Encode b)) rnd"

section \<open>They fit\<close>

lemma length_b64Groups: "length xs mod 3 = 0 \<Longrightarrow> length (b64Groups xs) = 4 * (length xs div 3)"
  by (induction xs rule: b64Groups.induct) auto

lemma length_b32Groups: "length xs mod 5 = 0 \<Longrightarrow> length (b32Groups xs) = 8 * (length xs div 5)"
  by (induction xs rule: b32Groups.induct) auto

lemma length_stdEncode: "length s = 9 \<Longrightarrow> length (stdEncode s) = 12"
  by (simp add: stdEncode_def stdPad_def length_b64Groups)

lemma newapi_password_length: "length b = 9 \<Longrightarrow> genNewapiPassword (Some b) = Some p \<Longrightarrow> length p = 16"
  by (auto simp: genNewapiPassword_def replaceChars_def length_stdEncode)

lemma platform_password_length: "length b = 9 \<Longrightarrow> genPlatformPassword (Some b) = Some p \<Longrightarrow> length p = 12"
  by (auto simp: genPlatformPassword_def replaceChars_def length_stdEncode)

lemma username_length: "length b = 10 \<Longrightarrow> genOrgUsername (Some b) = Some u \<Longrightarrow> length u = 20"
  by (auto simp: genOrgUsername_def b32Encode_def length_b32Groups)

text \<open>The checks in front of an account opening never refuse generated credentials.\<close>

lemma generated_credentials_fit:
  assumes "length b = 10" "length p = 9"
    "genOrgUsername (Some b) = Some (bi_username bi)" "genNewapiPassword (Some p) = Some (bi_password bi)"
  shows "BootstrapMember ev cf bi = locked ev (bootstrapLockKey (bi_org bi) (bi_member bi)) ''lock'' (
        bind (if bi_adopt bi then return (Inr None) else attempt (getUserByUsername ev cf (bi_username bi))) (\<lambda>pre.
        if (case pre of Inr (Some _) \<Rightarrow> True | _ \<Rightarrow> False) then throw usernameConflict
        else
        bind (createOrAdopt ev cf bi) (\<lambda>adopted.
        bind (attempt (getUserByUsername ev cf (bi_username bi))) (\<lambda>g. case g of
          Inl e \<Rightarrow> throw (asFail ''GetUser'' e)
        | Inr None \<Rightarrow> throw (stepErr ''GetUser'' 50201 ClassRetryable)
        | Inr (Some user) \<Rightarrow> issueCredential ev cf bi user adopted))))"
proof -
  have "length (bi_username bi) = 20" "length (bi_password bi) = 16"
    using username_length[OF assms(1,3)] newapi_password_length[OF assms(2,4)] .
  then show ?thesis by (auto simp: BootstrapMember_def)
qed

lemma b64Groups_bound: "list_all (\<lambda>n. n < 256) xs \<Longrightarrow> list_all (\<lambda>n. n < 64) (b64Groups xs)"
  by (induction xs rule: b64Groups.induct) auto

lemma lower_alphabet: "list_all (\<lambda>c. nameSafe [lowerChar c]) b64Alphabet"
  by code_simp

lemma suffix_safe: "nameSafe (randEmailSuffix b)"
proof -
  have "list_all (\<lambda>n. n < 64) (b64Groups (map of_char b))"
    by (rule b64Groups_bound) (simp add: list_all_iff)
  moreover have "n < 64 \<Longrightarrow> b64Char n \<in> set b64Alphabet" for n
    unfolding b64Char_def by (rule nth_mem) (simp add: b64Alphabet_def)
  ultimately have "list_all (\<lambda>c. nameSafe [lowerChar c]) (b64Encode b)"
    using lower_alphabet by (auto simp: list_all_iff b64Encode_def)
  then show ?thesis by (auto simp: randEmailSuffix_def nameSafe_def list_all_iff)
qed

text \<open>So the hypothesis about suffixes under which display names stay safe holds for the program's own.\<close>

lemma suffixes_are_safe: "suffixSafe (S\<lparr>sv_rand_suffix := (\<lambda>n. randEmailSuffix (rnd n))\<rparr>)"
  by (simp add: suffixSafe_def suffix_safe)

end
