(* ===== verification/Migrations.thy ===== *)
theory Migrations
  imports Effects NetIP GoJson
begin

text \<open>
  The schema migrations (\<open>repo/db.go\<close>): which files run, in which order, what a statement's failure
  means and what is recorded.  The schema and its rows are of any type \<open>'d\<close> and the execution of a
  statement on them is a parameter, \<open>ex\<close>; a statement fails without an effect of its own (each is
  atomic in MySQL 8).  A run meets a schedule of faults like every other operation: killing the process
  is a fault that ends the run, with or without the effect of the statement under way.  The list of the
  recorded files is read row by row, and the connection may break after some rows (\<open>mg_cut\<close>); the
  code does not look at the error that ends the rows.
\<close>

section \<open>The database while it migrates\<close>

record 'd migr =
  mg_applied :: "string list"
  mg_data :: 'd
  mg_faults :: "fault list"
  mg_cut :: "nat option"

type_synonym 'd exec = "string \<Rightarrow> 'd \<Rightarrow> (err + unit) \<times> 'd"

definition migStmt :: "('d migr \<Rightarrow> (err + 'a) \<times> 'd migr) \<Rightarrow> ('d migr, err, 'a) m" where
  "migStmt f s = (case mg_faults s of
      [] \<Rightarrow> f s
    | Fine # fs \<Rightarrow> (case f s of (r, t) \<Rightarrow> (r, t\<lparr>mg_faults := fs\<rparr>))
    | Fails # fs \<Rightarrow> (Inl DriverError, s\<lparr>mg_faults := fs\<rparr>)
    | LostAck # fs \<Rightarrow> (Inl DriverError, (snd (f s))\<lparr>mg_faults := fs\<rparr>))"

definition execSQL :: "'d exec \<Rightarrow> string \<Rightarrow> ('d migr, err, unit) m" where
  "execSQL ex sql = migStmt (\<lambda>s. case ex sql (mg_data s) of
     (Inr _, d) \<Rightarrow> (Inr (), s\<lparr>mg_data := d\<rparr>) | (Inl e, _) \<Rightarrow> (Inl e, s))"

definition createMigrationTable :: "('d migr, err, unit) m" where
  "createMigrationTable = migStmt (\<lambda>s. (Inr (), s))"

definition readApplied :: "('d migr, err, string list) m" where
  "readApplied = migStmt (\<lambda>s. (Inr (case mg_cut s of None \<Rightarrow> mg_applied s | Some n \<Rightarrow> take n (mg_applied s)), s))"

definition recordFile :: "string \<Rightarrow> ('d migr, err, unit) m" where
  "recordFile name = migStmt (\<lambda>s. if name \<in> set (mg_applied s) then (Inl (SqlError 1062), s)
     else (Inr (), s\<lparr>mg_applied := mg_applied s @ [name]\<rparr>))"

section \<open>Cutting a file into statements\<close>

text \<open>A line ends where its first \<open>--\<close> begins.\<close>

fun cutComment :: "string \<Rightarrow> string" where
  "cutComment [] = []"
| "cutComment (c # cs) = (if take 2 (c # cs) = ''--'' then [] else c # cutComment cs)"

definition splitSQL :: "string \<Rightarrow> string list" where
  "splitSQL s =
     (let ls = filter (\<lambda>l. TrimSpace l \<noteq> []) (map cutComment (splitOn CHR 0x0A s))
      in filter (\<lambda>p. TrimSpace p \<noteq> []) (splitOn CHR '';'' (concat (map (\<lambda>l. l @ [CHR 0x0A]) ls))))"

section \<open>The run\<close>

definition hasSuffix :: "string \<Rightarrow> string \<Rightarrow> bool" where
  "hasSuffix s suf \<longleftrightarrow> length suf \<le> length s \<and> drop (length s - length suf) s = suf"

definition runStatement :: "'d exec \<Rightarrow> string \<Rightarrow> ('d migr, err, unit) m" where
  "runStatement ex sql = bind (attempt (execSQL ex sql)) (\<lambda>r. case r of
     Inr _ \<Rightarrow> return ()
   | Inl e \<Rightarrow> if isAlreadyApplied e then return () else throw e)"

definition migrateFile :: "'d exec \<Rightarrow> string list \<Rightarrow> string \<times> string \<Rightarrow> ('d migr, err, unit) m" where
  "migrateFile ex applied f =
     (if fst f \<in> set applied then return ()
      else bind (foreach (splitSQL (snd f)) (runStatement ex)) (\<lambda>_. recordFile (fst f)))"

text \<open>The embedded files are name and content; \<open>fs.ReadDir\<close> and \<open>ReadFile\<close> of an embedded directory do not fail.\<close>

definition migrationFiles :: "(string \<times> string) list \<Rightarrow> (string \<times> string) list" where
  "migrationFiles entries = sortByKey (filter (\<lambda>f. hasSuffix (fst f) ''.sql'') entries)"

definition Migrate :: "'d exec \<Rightarrow> (string \<times> string) list \<Rightarrow> ('d migr, err, unit) m" where
  "Migrate ex entries =
     bind createMigrationTable (\<lambda>_.
     bind readApplied (\<lambda>applied.
     foreach (migrationFiles entries) (migrateFile ex applied)))"

section \<open>How far a database has come\<close>

definition effect :: "'d exec \<Rightarrow> string \<Rightarrow> 'd \<Rightarrow> 'd" where
  "effect ex q d = (case ex q d of (Inr _, d') \<Rightarrow> d' | (Inl _, _) \<Rightarrow> d)"

definition stmtsAt :: "(string \<times> string) list \<Rightarrow> nat \<Rightarrow> string list" where
  "stmtsAt fs k = splitSQL (snd (fs ! k))"

text \<open>The data when the first \<open>k\<close> files and \<open>j\<close> statements of the next one have run.\<close>

definition dataAt :: "'d exec \<Rightarrow> (string \<times> string) list \<Rightarrow> 'd \<Rightarrow> nat \<Rightarrow> nat \<Rightarrow> 'd" where
  "dataAt ex fs d k j = fold (effect ex) (if k < length fs then take j (stmtsAt fs k) else [])
     (fold (effect ex) (concat (map (\<lambda>f. splitSQL (snd f)) (take k fs))) d)"

definition works :: "'d exec \<Rightarrow> 'd \<Rightarrow> string \<Rightarrow> bool" where
  "works ex d q \<longleftrightarrow> (case fst (ex q d) of Inr _ \<Rightarrow> True | Inl e \<Rightarrow> isAlreadyApplied e)"

text \<open>
  A set of files is rerunnable when every statement works where a first run meets it, and when each
  statement of a file that has run works again, without an effect, at every later point of the same file.
\<close>

definition rerunnable :: "'d exec \<Rightarrow> (string \<times> string) list \<Rightarrow> 'd \<Rightarrow> bool" where
  "rerunnable ex fs d \<longleftrightarrow> list_all (\<lambda>k. list_all (\<lambda>j.
     (j < length (stmtsAt fs k) \<longrightarrow> works ex (dataAt ex fs d k j) (stmtsAt fs k ! j))
     \<and> list_all (\<lambda>q. works ex (dataAt ex fs d k j) q \<and> effect ex q (dataAt ex fs d k j) = dataAt ex fs d k j)
         (take j (stmtsAt fs k))) [0..<Suc (length (stmtsAt fs k))]) [0..<length fs]"

definition cameTo :: "'d exec \<Rightarrow> (string \<times> string) list \<Rightarrow> 'd \<Rightarrow> nat \<Rightarrow> nat \<Rightarrow> 'd migr \<Rightarrow> bool" where
  "cameTo ex fs d k j s \<longleftrightarrow> k \<le> length fs \<and> mg_applied s = map fst (take k fs) \<and> mg_data s = dataAt ex fs d k j
     \<and> (k < length fs \<longrightarrow> j \<le> length (stmtsAt fs k))"

lemma dataAt_next: "k < length fs \<Longrightarrow> dataAt ex fs d k (length (stmtsAt fs k)) = dataAt ex fs d (Suc k) 0"
  by (simp add: dataAt_def take_Suc_conv_app_nth stmtsAt_def)

lemma dataAt_step:
  "k < length fs \<Longrightarrow> j < length (stmtsAt fs k) \<Longrightarrow>
   dataAt ex fs d k (Suc j) = effect ex (stmtsAt fs k ! j) (dataAt ex fs d k j)"
  by (simp add: dataAt_def take_Suc_conv_app_nth)

lemma rerunnableD:
  assumes "rerunnable ex fs d" "k < length fs" "j \<le> length (stmtsAt fs k)"
  shows "j < length (stmtsAt fs k) \<Longrightarrow> works ex (dataAt ex fs d k j) (stmtsAt fs k ! j)"
    and "i < j \<Longrightarrow> works ex (dataAt ex fs d k j) (stmtsAt fs k ! i)
           \<and> effect ex (stmtsAt fs k ! i) (dataAt ex fs d k j) = dataAt ex fs d k j"
proof -
  have all: "(j < length (stmtsAt fs k) \<longrightarrow> works ex (dataAt ex fs d k j) (stmtsAt fs k ! j))
     \<and> (\<forall>q \<in> set (take j (stmtsAt fs k)). works ex (dataAt ex fs d k j) q \<and> effect ex q (dataAt ex fs d k j) = dataAt ex fs d k j)"
    using assms by (simp add: rerunnable_def list_all_iff del: upt_Suc)
  show "j < length (stmtsAt fs k) \<Longrightarrow> works ex (dataAt ex fs d k j) (stmtsAt fs k ! j)" using all by blast
  assume "i < j"
  then have "stmtsAt fs k ! i \<in> set (take j (stmtsAt fs k))" using assms(3) by (auto simp: in_set_conv_nth)
  then show "works ex (dataAt ex fs d k j) (stmtsAt fs k ! i)
           \<and> effect ex (stmtsAt fs k ! i) (dataAt ex fs d k j) = dataAt ex fs d k j"
    using all by blast
qed

section \<open>One run\<close>

text \<open>
  A statement leaves the record of files alone; without a fault it does what \<open>ex\<close> does, with one it
  may have done it or not.
\<close>

lemma execSQL_cases:
  assumes "execSQL ex q s = (r, t)"
  shows "mg_applied t = mg_applied s" "mg_cut t = mg_cut s" "mg_data t \<in> {mg_data s, effect ex q (mg_data s)}"
    "r = fst (ex q (mg_data s)) \<and> mg_data t = effect ex q (mg_data s) \<or> r = Inl DriverError \<and> mg_faults s \<noteq> []"
    "mg_faults s = [] \<Longrightarrow> mg_faults t = []"
proof -
  obtain x y where e: "ex q (mg_data s) = (x, y)" by force
  consider (none) "mg_faults s = []" | (some) f fs where "mg_faults s = f # fs" by (cases "mg_faults s") auto
  then have "mg_applied t = mg_applied s \<and> mg_cut t = mg_cut s \<and> mg_data t \<in> {mg_data s, effect ex q (mg_data s)}
    \<and> (r = fst (ex q (mg_data s)) \<and> mg_data t = effect ex q (mg_data s) \<or> r = Inl DriverError \<and> mg_faults s \<noteq> [])
    \<and> (mg_faults s = [] \<longrightarrow> mg_faults t = [])"
  proof cases
    case none
    then show ?thesis using assms e by (cases x) (auto simp: execSQL_def migStmt_def effect_def)
  next
    case (some f fs)
    then show ?thesis using assms e
      by (cases x; cases f) (auto simp: execSQL_def migStmt_def effect_def)
  qed
  then show "mg_applied t = mg_applied s" "mg_cut t = mg_cut s" "mg_data t \<in> {mg_data s, effect ex q (mg_data s)}"
    "r = fst (ex q (mg_data s)) \<and> mg_data t = effect ex q (mg_data s) \<or> r = Inl DriverError \<and> mg_faults s \<noteq> []"
    "mg_faults s = [] \<Longrightarrow> mg_faults t = []" by blast+
qed

lemma runStatement_cases:
  assumes run: "runStatement ex q s = (r, t)"
  shows "mg_applied t = mg_applied s" "mg_cut t = mg_cut s"
    "works ex (mg_data s) q \<Longrightarrow> r = Inr () \<Longrightarrow> mg_data t = effect ex q (mg_data s)"
    "mg_data t \<in> {mg_data s, effect ex q (mg_data s)}"
    "works ex (mg_data s) q \<Longrightarrow> mg_faults s = [] \<Longrightarrow> r = Inr ()"
    "mg_faults s = [] \<Longrightarrow> mg_faults t = []"
proof -
  obtain x s1 where 1: "execSQL ex q s = (x, s1)" by force
  have t: "t = s1" and r: "r = (case x of Inr _ \<Rightarrow> Inr () | Inl e \<Rightarrow> if isAlreadyApplied e then Inr () else Inl e)"
    using run by (auto simp: runStatement_def bind_def attempt_def return_def throw_def 1 split: sum.splits if_splits)
  note e = execSQL_cases[OF 1]
  have no: "\<not> isAlreadyApplied DriverError" by (simp add: isAlreadyApplied_def)
  show "mg_applied t = mg_applied s" "mg_cut t = mg_cut s" "mg_data t \<in> {mg_data s, effect ex q (mg_data s)}"
    using e(1-3) t by simp_all
  show "mg_faults s = [] \<Longrightarrow> mg_faults t = []" using e(5) t by simp
  show "works ex (mg_data s) q \<Longrightarrow> r = Inr () \<Longrightarrow> mg_data t = effect ex q (mg_data s)"
    using e(4) r t no by auto
  show "works ex (mg_data s) q \<Longrightarrow> mg_faults s = [] \<Longrightarrow> r = Inr ()"
    using e(4) r no by (auto simp: works_def split: sum.splits)
qed

lemma statements_run:
  assumes rer: "rerunnable ex fs d" and k: "k < length fs"
    and at: "cameTo ex fs d k j s" and run: "foreach (drop i (stmtsAt fs k)) (runStatement ex) s = (r, t)" and ij: "i \<le> j"
  shows "\<exists>j' \<ge> j. cameTo ex fs d k j' t \<and> (r = Inr () \<longrightarrow> j' = length (stmtsAt fs k))
           \<and> mg_cut t = mg_cut s \<and> (mg_faults s = [] \<longrightarrow> r = Inr () \<and> mg_faults t = [])"
  using at run ij
proof (induction "length (stmtsAt fs k) - i" arbitrary: i j s)
  case 0
  then have "j = length (stmtsAt fs k)" "t = s" "r = Inr ()" using k by (auto simp: return_def cameTo_def)
  then show ?case using 0(2) by blast
next
  case (Suc n)
  have i: "i < length (stmtsAt fs k)" using Suc.hyps(2) by simp
  have at: "mg_data s = dataAt ex fs d k j" "j \<le> length (stmtsAt fs k)" "mg_applied s = map fst (take k fs)"
    using Suc.prems(1) k by (simp_all add: cameTo_def)
  have w: "works ex (mg_data s) (stmtsAt fs k ! i)"
    and e: "effect ex (stmtsAt fs k ! i) (mg_data s) = dataAt ex fs d k (max (Suc i) j)"
    using rerunnableD[OF rer k at(2)] Suc.prems(3) i at(1) dataAt_step[OF k, of i ex d]
    by (cases "i = j"; simp add: max_def)+
  obtain r1 s1 where 1: "runStatement ex (stmtsAt fs k ! i) s = (r1, s1)" by force
  note one = runStatement_cases(1,2)[OF 1] runStatement_cases(3)[OF 1 w] runStatement_cases(4)[OF 1]
    runStatement_cases(5)[OF 1 w] runStatement_cases(6)[OF 1]
  have j1: "max (Suc i) j \<le> length (stmtsAt fs k)" using i at(2) by simp
  show ?case
  proof (cases r1)
    case (Inl err)
    then have "r = Inl err" "t = s1"
      using Suc.prems(2) 1 by (auto simp: Cons_nth_drop_Suc[OF i, symmetric] bind_def)
    moreover have "cameTo ex fs d k j s1 \<or> cameTo ex fs d k (max (Suc i) j) s1"
      using one(1,4) at k j1 e by (auto simp: cameTo_def)
    ultimately show ?thesis using one(2,5) Inl by (metis Inl_Inr_False max.cobounded2 order_refl)
  next
    case (Inr u)
    then have rest: "foreach (drop (Suc i) (stmtsAt fs k)) (runStatement ex) s1 = (r, t)"
      using Suc.prems(2) 1 by (auto simp: Cons_nth_drop_Suc[OF i, symmetric] bind_def)
    have "cameTo ex fs d k (max (Suc i) j) s1"
      using one(1,3) Inr at k j1 e by (simp add: cameTo_def)
    moreover have "n = length (stmtsAt fs k) - Suc i" using Suc.hyps(2) by simp
    ultimately obtain j' where
      "j' \<ge> max (Suc i) j" "cameTo ex fs d k j' t" "r = Inr () \<longrightarrow> j' = length (stmtsAt fs k)" "mg_cut t = mg_cut s1"
      "mg_faults s1 = [] \<longrightarrow> r = Inr () \<and> mg_faults t = []"
      using Suc.hyps(1)[OF _ _ rest] by fastforce
    then show ?thesis using one(2,6) by (intro exI[of _ j']) auto
  qed
qed

section \<open>The record of files\<close>

lemma foreach_append: "foreach (xs @ ys) f = bind (foreach xs f) (\<lambda>_. foreach ys f)"
  by (induction xs) (auto simp: bind_def return_def fun_eq_iff split: prod.splits sum.splits)

lemma skip_applied: "(\<And>f. f \<in> set xs \<Longrightarrow> fst f \<in> set applied) \<Longrightarrow> foreach xs (migrateFile ex applied) = return ()"
  by (induction xs) (auto simp: migrateFile_def bind_def return_def)

lemma skip_prefix:
  "foreach fs (migrateFile ex (map fst (take a fs))) = foreach (drop a fs) (migrateFile ex (map fst (take a fs)))"
proof -
  have "foreach (take a fs @ drop a fs) (migrateFile ex (map fst (take a fs)))
      = foreach (drop a fs) (migrateFile ex (map fst (take a fs)))"
    unfolding foreach_append by (subst skip_applied) (auto simp: bind_def return_def)
  then show ?thesis by simp
qed

lemma statements_keep_record:
  "foreach qs (runStatement ex) s = (r, t) \<Longrightarrow> mg_applied t = mg_applied s \<and> mg_cut t = mg_cut s"
proof (induction qs arbitrary: s)
  case Nil
  then show ?case by (auto simp: return_def)
next
  case (Cons q qs)
  obtain r1 s1 where 1: "runStatement ex q s = (r1, s1)" by force
  show ?case using Cons 1 runStatement_cases(1,2)[OF 1] by (cases r1) (auto simp: bind_def)
qed

lemma recordFile_cases:
  assumes "recordFile nm s = (r, t)"
  shows "nm \<in> set (mg_applied s) \<Longrightarrow> mg_applied t = mg_applied s \<and> r \<noteq> Inr ()"
    and "nm \<notin> set (mg_applied s) \<Longrightarrow> mg_applied t = mg_applied s \<and> r \<noteq> Inr () \<or> mg_applied t = mg_applied s @ [nm]"
    and "nm \<notin> set (mg_applied s) \<Longrightarrow> mg_faults s = [] \<Longrightarrow> r = Inr ()"
    and "mg_data t = mg_data s" "mg_cut t = mg_cut s" "mg_faults s = [] \<Longrightarrow> mg_faults t = []"
  using assms by (auto simp: recordFile_def migStmt_def split: list.splits fault.splits if_splits)

lemma nth_notin_take: "distinct xs \<Longrightarrow> m < length xs \<Longrightarrow> n \<le> m \<Longrightarrow> xs ! m \<notin> set (take n xs)"
  by (auto simp: in_set_conv_nth nth_eq_iff_index_eq)

lemma names_notin_take:
  assumes "distinct (map fst fs)" "m < length fs" "n \<le> m"
  shows "fst (fs ! m) \<notin> set (map fst (take n fs))"
  using nth_notin_take[of "map fst fs" m n] assms by (simp add: take_map)

lemma record_prefix:
  assumes dist: "distinct (map fst fs)" and run: "foreach (drop m fs) (migrateFile ex (map fst (take a fs))) s = (r, t)"
    and b: "a \<le> m" "m \<le> k" "k \<le> length fs" and at: "mg_applied s = map fst (take k fs)"
  shows "\<exists>k' \<ge> k. k' \<le> length fs \<and> mg_applied t = map fst (take k' fs) \<and> (r = Inr () \<longrightarrow> k' = length fs)"
  using run b at
proof (induction "length fs - m" arbitrary: m k s)
  case 0
  then have "k = length fs" "t = s" by (auto simp: return_def)
  then show ?case using 0 by auto
next
  case (Suc n)
  have m: "m < length fs" using Suc.hyps(2) by simp
  have new: "fst (fs ! m) \<notin> set (map fst (take a fs))" by (rule names_notin_take[OF dist m Suc.prems(2)])
  obtain r1 s1 where 1: "foreach (splitSQL (snd (fs ! m))) (runStatement ex) s = (r1, s1)" by force
  have a1: "mg_applied s1 = map fst (take k fs)" using statements_keep_record[OF 1] Suc.prems(5) by simp
  show ?case
  proof (cases r1)
    case (Inl e)
    then have "r = Inl e" "t = s1"
      using Suc.prems(1) 1 new by (auto simp: Cons_nth_drop_Suc[OF m, symmetric] migrateFile_def bind_def)
    then show ?thesis using a1 Suc.prems(4) by auto
  next
    case (Inr u)
    obtain r2 s2 where 2: "recordFile (fst (fs ! m)) s1 = (r2, s2)" by force
    note rec = recordFile_cases(1,2)[OF 2]
    show ?thesis
    proof (cases r2)
      case (Inl e)
      then have rt: "r = Inl e" "t = s2"
        using Suc.prems(1) 1 new Inr 2 by (auto simp: Cons_nth_drop_Suc[OF m, symmetric] migrateFile_def bind_def)
      have "k \<noteq> m \<Longrightarrow> fst (fs ! m) \<in> set (mg_applied s1)"
      proof -
        assume "k \<noteq> m"
        then have "fs ! m \<in> set (take k fs)" using Suc.prems(3) m by (auto simp: in_set_conv_nth intro!: exI[of _ m])
        then show ?thesis using a1 by auto
      qed
      moreover have "k = m \<Longrightarrow> mg_applied s1 @ [fst (fs ! m)] = map fst (take (Suc k) fs)"
        using a1 m by (simp add: take_Suc_conv_app_nth)
      ultimately have "mg_applied s2 = map fst (take k fs) \<or> k = m \<and> mg_applied s2 = map fst (take (Suc k) fs)"
        using rec a1 by metis
      then show ?thesis using rt Suc.prems(4) m by (metis Inl_Inr_False Suc_leI le_Suc_eq order_refl)
    next
      case R2: (Inr v)
      have k: "k = m"
      proof (rule ccontr)
        assume "k \<noteq> m"
        then have "fs ! m \<in> set (take k fs)" using Suc.prems(3) m by (auto simp: in_set_conv_nth intro!: exI[of _ m])
        then have "fst (fs ! m) \<in> set (mg_applied s1)" using a1 by auto
        then show False using rec(1) R2 by simp
      qed
      have nm: "fst (fs ! m) \<notin> set (mg_applied s1)" using names_notin_take[OF dist m, of m] a1 k by simp
      have a2: "mg_applied s2 = map fst (take (Suc m) fs)"
        using rec(2)[OF nm] R2 a1 k m by (auto simp: take_Suc_conv_app_nth)
      have rest: "foreach (drop (Suc m) fs) (migrateFile ex (map fst (take a fs))) s2 = (r, t)"
        using Suc.prems(1) 1 new Inr 2 R2 by (auto simp: Cons_nth_drop_Suc[OF m, symmetric] migrateFile_def bind_def)
      have n: "n = length fs - Suc m" using Suc.hyps(2) by simp
      have "\<exists>k'\<ge>Suc m. k' \<le> length fs \<and> mg_applied t = map fst (take k' fs) \<and> (r = Inr () \<longrightarrow> k' = length fs)"
        by (rule Suc.hyps(1)[OF n rest _ _ _ a2]) (use Suc.prems(2) m in auto)
      then show ?thesis using k by (metis Suc_leD)
    qed
  qed
qed

section \<open>A run and a history of starts\<close>

lemma cameTo_next: "k < length fs \<Longrightarrow> cameTo ex fs d k (length (stmtsAt fs k)) s \<Longrightarrow>
    mg_applied t = mg_applied s @ [fst (fs ! k)] \<Longrightarrow> mg_data t = mg_data s \<Longrightarrow> cameTo ex fs d (Suc k) 0 t"
  by (auto simp: cameTo_def dataAt_next take_Suc_conv_app_nth)

lemma files_run:
  assumes rer: "rerunnable ex fs d" and dist: "distinct (map fst fs)" and a: "a \<le> m"
    and run: "foreach (drop m fs) (migrateFile ex (map fst (take a fs))) s = (r, t)" and at: "cameTo ex fs d m j s"
  shows "\<exists>k' j'. cameTo ex fs d k' j' t \<and> (r = Inr () \<longrightarrow> k' = length fs) \<and> (mg_faults s = [] \<longrightarrow> r = Inr () \<and> mg_faults t = [])"
  using run at a
proof (induction "length fs - m" arbitrary: m j s)
  case 0
  then have "m = length fs" "t = s" "r = Inr ()" by (auto simp: return_def cameTo_def)
  then show ?case using 0 by blast
next
  case (Suc n)
  have m: "m < length fs" using Suc.hyps(2) by simp
  have new: "fst (fs ! m) \<notin> set (map fst (take a fs))" by (rule names_notin_take[OF dist m Suc.prems(3)])
  obtain r1 s1 where 1: "foreach (drop 0 (stmtsAt fs m)) (runStatement ex) s = (r1, s1)" by force
  obtain j1 where j1: "cameTo ex fs d m j1 s1" "r1 = Inr () \<longrightarrow> j1 = length (stmtsAt fs m)"
      "mg_faults s = [] \<longrightarrow> r1 = Inr () \<and> mg_faults s1 = []"
    using statements_run[OF rer m Suc.prems(2) 1] by blast
  have 1: "foreach (splitSQL (snd (fs ! m))) (runStatement ex) s = (r1, s1)" using 1 by (simp add: stmtsAt_def)
  show ?case
  proof (cases r1)
    case (Inl e)
    then have "r = Inl e" "t = s1"
      using Suc.prems(1) 1 new by (auto simp: Cons_nth_drop_Suc[OF m, symmetric] migrateFile_def bind_def)
    then show ?thesis using j1 Inl by auto
  next
    case (Inr u)
    obtain r2 s2 where 2: "recordFile (fst (fs ! m)) s1 = (r2, s2)" by force
    note rec = recordFile_cases[OF 2]
    have j: "cameTo ex fs d m (length (stmtsAt fs m)) s1" using j1 Inr by simp
    have nm: "fst (fs ! m) \<notin> set (mg_applied s1)"
      using names_notin_take[OF dist m, of m] j by (simp add: cameTo_def)
    have after: "cameTo ex fs d m (length (stmtsAt fs m)) s2 \<and> r2 \<noteq> Inr () \<or> cameTo ex fs d (Suc m) 0 s2"
      using rec(2)[OF nm] cameTo_next[OF m j _ rec(4)] rec(4) j by (auto simp: cameTo_def)
    show ?thesis
    proof (cases r2)
      case (Inl e)
      then have "r = Inl e" "t = s2"
        using Suc.prems(1) 1 new Inr 2 by (auto simp: Cons_nth_drop_Suc[OF m, symmetric] migrateFile_def bind_def)
      then show ?thesis using after rec(3)[OF nm] j1(3) Inl by (metis Inl_Inr_False)
    next
      case R2: (Inr v)
      have rest: "foreach (drop (Suc m) fs) (migrateFile ex (map fst (take a fs))) s2 = (r, t)"
        using Suc.prems(1) 1 new Inr 2 R2 by (auto simp: Cons_nth_drop_Suc[OF m, symmetric] migrateFile_def bind_def)
      have n: "n = length fs - Suc m" using Suc.hyps(2) by simp
      have at2: "cameTo ex fs d (Suc m) 0 s2" using after R2 by simp
      show ?thesis using Suc.hyps(1)[OF n rest at2] Suc.prems(3) j1(3) rec(6) by fastforce
    qed
  qed
qed

text \<open>A start of the program with its own faults; \<open>cut\<close> is where the reading of the recorded files breaks.\<close>

definition startWith :: "'d exec \<Rightarrow> (string \<times> string) list \<Rightarrow> fault list \<times> nat option \<Rightarrow> 'd migr \<Rightarrow> 'd migr" where
  "startWith ex entries c s = snd (Migrate ex entries (s\<lparr>mg_faults := fst c, mg_cut := snd c\<rparr>))"

definition fresh :: "'d \<Rightarrow> 'd migr" where
  "fresh d = \<lparr>mg_applied = [], mg_data = d, mg_faults = [], mg_cut = None\<rparr>"

lemma readApplied_cases:
  assumes "readApplied s = (r, t)"
  shows "mg_applied t = mg_applied s \<and> mg_data t = mg_data s \<and> (mg_faults s = [] \<longrightarrow> mg_faults t = [])
    \<and> (r = Inr (case mg_cut s of None \<Rightarrow> mg_applied s | Some n \<Rightarrow> take n (mg_applied s))
       \<or> mg_faults s \<noteq> [] \<and> (\<exists>e. r = Inl e))"
  using assms by (auto simp: readApplied_def migStmt_def split: list.splits fault.splits)

lemma Migrate_cases:
  assumes "Migrate ex entries s = (r, t)" and at: "mg_applied s = map fst (take k (migrationFiles entries))"
  shows "(\<exists>s1 a. a \<le> k \<and> (mg_cut s = None \<longrightarrow> a = k) \<and> mg_applied s1 = mg_applied s \<and> mg_data s1 = mg_data s
       \<and> (mg_faults s = [] \<longrightarrow> mg_faults s1 = [])
       \<and> foreach (drop a (migrationFiles entries)) (migrateFile ex (map fst (take a (migrationFiles entries)))) s1 = (r, t))
     \<or> mg_applied t = mg_applied s \<and> mg_data t = mg_data s \<and> mg_faults s \<noteq> [] \<and> r \<noteq> Inr ()"
proof -
  define cut where "cut = (case mg_cut s of None \<Rightarrow> k | Some n \<Rightarrow> min n k)"
  have cut: "(case mg_cut s of None \<Rightarrow> mg_applied s | Some n \<Rightarrow> take n (mg_applied s))
      = map fst (take cut (migrationFiles entries))" "cut \<le> k" "mg_cut s = None \<longrightarrow> cut = k"
    using at by (auto simp: cut_def take_map min_def split: option.splits)
  obtain r0 s0 where 0: "createMigrationTable s = (r0, s0)" by force
  have s0: "mg_applied s0 = mg_applied s \<and> mg_data s0 = mg_data s \<and> mg_cut s0 = mg_cut s
      \<and> (mg_faults s = [] \<longrightarrow> mg_faults s0 = []) \<and> (r0 = Inr () \<or> mg_faults s \<noteq> [])"
    using 0 by (auto simp: createMigrationTable_def migStmt_def split: list.splits fault.splits)
  show ?thesis
  proof (cases r0)
    case (Inl e)
    then show ?thesis using assms(1) s0 by (auto simp: Migrate_def bind_def 0)
  next
    case (Inr u)
    obtain r1 s1 where 1: "readApplied s0 = (r1, s1)" by force
    have s1: "mg_applied s1 = mg_applied s \<and> mg_data s1 = mg_data s \<and> (mg_faults s = [] \<longrightarrow> mg_faults s1 = [])
        \<and> (r1 = Inr (map fst (take cut (migrationFiles entries))) \<or> mg_faults s \<noteq> [] \<and> (\<exists>e. r1 = Inl e))"
    proof -
      have same: "mg_cut s0 = mg_cut s" "mg_applied s0 = mg_applied s" using s0 by blast+
      have "(case mg_cut s0 of None \<Rightarrow> mg_applied s0 | Some n \<Rightarrow> take n (mg_applied s0))
          = map fst (take cut (migrationFiles entries))" unfolding same by (rule cut(1))
      then show ?thesis using readApplied_cases[OF 1] s0 by fastforce
    qed
    show ?thesis
    proof (cases r1)
      case (Inl e)
      then show ?thesis using assms(1) s1 by (auto simp: Migrate_def bind_def 0 1 Inr)
    next
      case R1: (Inr v)
      then have "foreach (migrationFiles entries) (migrateFile ex (map fst (take cut (migrationFiles entries)))) s1 = (r, t)"
        using assms(1) s1 by (auto simp: Migrate_def bind_def 0 1 Inr)
      then have "foreach (drop cut (migrationFiles entries)) (migrateFile ex (map fst (take cut (migrationFiles entries)))) s1 = (r, t)"
        using skip_prefix[of "migrationFiles entries" ex cut] by simp
      then show ?thesis using s1 cut(2,3) by (intro disjI1 exI[of _ s1] exI[of _ cut] conjI) simp_all
    qed
  qed
qed

lemma set_insertByKey: "set (insertByKey e es) = insert e (set es)"
  by (induction es) auto

lemma distinct_insertByKey: "fst e \<notin> fst ` set es \<Longrightarrow> distinct (map fst es) \<Longrightarrow> distinct (map fst (insertByKey e es))"
  by (induction es) (auto simp: set_insertByKey)

lemma set_sortedByKey: "set (sortByKey es) = set es"
  by (induction es) (auto simp: sortByKey_def set_insertByKey)

lemma distinct_sortByKey: "distinct (map fst es) \<Longrightarrow> distinct (map fst (sortByKey es))"
proof (induction es)
  case (Cons e es)
  have "sortByKey (e # es) = insertByKey e (sortByKey es)" by (simp add: sortByKey_def)
  then show ?case using Cons distinct_insertByKey[of e "sortByKey es"] by (simp add: set_sortedByKey)
qed (simp add: sortByKey_def)

lemma distinct_files: "distinct (map fst entries) \<Longrightarrow> distinct (map fst (migrationFiles entries))"
  unfolding migrationFiles_def by (rule distinct_sortByKey) (simp add: distinct_map_filter)

lemma start_records:
  assumes dist: "distinct (map fst entries)" and at: "mg_applied s = map fst (take k (migrationFiles entries))"
    and k: "k \<le> length (migrationFiles entries)" and run: "Migrate ex entries s = (r, t)"
  shows "\<exists>k' \<le> length (migrationFiles entries). mg_applied t = map fst (take k' (migrationFiles entries))
    \<and> (r = Inr () \<longrightarrow> k' = length (migrationFiles entries))"
  using Migrate_cases[OF run at]
proof (elim disjE exE conjE)
  fix s1 a
  assume a: "a \<le> k" "mg_applied s1 = mg_applied s"
    "foreach (drop a (migrationFiles entries)) (migrateFile ex (map fst (take a (migrationFiles entries)))) s1 = (r, t)"
  have "mg_applied s1 = map fst (take k (migrationFiles entries))" using a(2) at by simp
  from record_prefix[OF distinct_files[OF dist] a(3) order_refl a(1) k this] obtain k' where
    "k' \<le> length (migrationFiles entries)" "mg_applied t = map fst (take k' (migrationFiles entries))"
    "r = Inr () \<longrightarrow> k' = length (migrationFiles entries)" by (elim exE conjE)
  then show ?thesis by (intro exI[of _ k'] conjI)
next
  assume "mg_applied t = mg_applied s" "r \<noteq> Inr ()"
  then show ?thesis using at k by (intro exI[of _ k]) simp
qed

lemma start_comes_to:
  assumes dist: "distinct (map fst entries)" and rer: "rerunnable ex (migrationFiles entries) d"
    and at: "cameTo ex (migrationFiles entries) d k j s" and run: "Migrate ex entries s = (r, t)" and whole: "mg_cut s = None"
  shows "\<exists>k' j'. cameTo ex (migrationFiles entries) d k' j' t \<and> (r = Inr () \<longrightarrow> k' = length (migrationFiles entries))
    \<and> (mg_faults s = [] \<longrightarrow> r = Inr () \<and> mg_faults t = [])"
proof -
  have "mg_applied s = map fst (take k (migrationFiles entries))" using at by (simp add: cameTo_def)
  from Migrate_cases[OF run this] whole show ?thesis
  proof (elim disjE exE conjE)
    fix s1 a
    assume a: "mg_cut s = None \<longrightarrow> a = k" "mg_applied s1 = mg_applied s" "mg_data s1 = mg_data s" "mg_faults s = [] \<longrightarrow> mg_faults s1 = []"
      "foreach (drop a (migrationFiles entries)) (migrateFile ex (map fst (take a (migrationFiles entries)))) s1 = (r, t)"
    have "cameTo ex (migrationFiles entries) d k j s1" using at a(2,3) by (simp add: cameTo_def)
    moreover have "a = k" using a(1) whole by simp
    ultimately show ?thesis using files_run[OF rer distinct_files[OF dist] order_refl, of k s1 r t j] a(4,5) by blast
  next
    assume "mg_applied t = mg_applied s" "mg_data t = mg_data s" "mg_faults s \<noteq> []" "r \<noteq> Inr ()"
    then show ?thesis using at by (intro exI[of _ k] exI[of _ j]) (simp add: cameTo_def)
  qed
qed

lemma Migrate_keeps_cut: "mg_cut (snd (Migrate ex entries s)) = mg_cut s"
proof -
  have g: "guarantee (\<lambda>s t :: 'a migr. mg_cut t = mg_cut s)" by unfold_locales auto
  have st: "guar (\<lambda>s t :: 'a migr. mg_cut t = mg_cut s) (migStmt f)" if "\<And>s :: 'a migr. mg_cut (snd (f s)) = mg_cut s"
    for f :: "'a migr \<Rightarrow> (err + 'z) \<times> 'a migr"
    using that by (auto simp: guar_def migStmt_def split: list.splits fault.splits prod.splits) (metis snd_conv)
  have e: "guar (\<lambda>s t :: 'a migr. mg_cut t = mg_cut s) (execSQL ex q)" for q
    unfolding execSQL_def by (rule st) (simp split: prod.splits sum.splits)
  have rd: "guar (\<lambda>s t :: 'a migr. mg_cut t = mg_cut s) readApplied"
    "guar (\<lambda>s t :: 'a migr. mg_cut t = mg_cut s) createMigrationTable"
    "guar (\<lambda>s t :: 'a migr. mg_cut t = mg_cut s) (recordFile nm)" for nm
    unfolding readApplied_def createMigrationTable_def recordFile_def by (rule st; simp)+
  have "guar (\<lambda>s t :: 'a migr. mg_cut t = mg_cut s) (Migrate ex entries)"
    unfolding Migrate_def migrateFile_def runStatement_def
    by (intro guarantee.bind[OF g] guarantee.foreach[OF g] guarantee.return[OF g] guarantee.throw[OF g] guar_if guar_sum guar_attempt rd e)
  then show ?thesis by (simp add: guar_def)
qed

section \<open>Interrupted starts\<close>

lemma history_records:
  assumes "distinct (map fst entries)"
  shows "\<exists>k \<le> length (migrationFiles entries). mg_applied (fold (startWith ex entries) starts (fresh d)) = map fst (take k (migrationFiles entries))"
proof (induction starts rule: rev_induct)
  case Nil
  show ?case by (rule exI[of _ 0]) (simp add: fresh_def)
next
  case (snoc c cs)
  then obtain k where k: "k \<le> length (migrationFiles entries)"
    "mg_applied (fold (startWith ex entries) cs (fresh d)) = map fst (take k (migrationFiles entries))" by blast
  let ?s = "(fold (startWith ex entries) cs (fresh d))\<lparr>mg_faults := fst c, mg_cut := snd c\<rparr>"
  obtain r t where run: "Migrate ex entries ?s = (r, t)" by force
  have "mg_applied ?s = map fst (take k (migrationFiles entries))" using k(2) by simp
  moreover have "fold (startWith ex entries) (cs @ [c]) (fresh d) = t" by (simp add: startWith_def run)
  ultimately show ?case using start_records[OF assms _ k(1) run] by metis
qed

lemma history_comes_to:
  assumes "distinct (map fst entries)" "rerunnable ex (migrationFiles entries) d" "\<forall>c \<in> set starts. snd c = None"
  shows "\<exists>k j. cameTo ex (migrationFiles entries) d k j (fold (startWith ex entries) starts (fresh d))"
  using assms(3)
proof (induction starts rule: rev_induct)
  case Nil
  show ?case by (intro exI[of _ 0]) (simp add: fresh_def cameTo_def dataAt_def)
next
  case (snoc c cs)
  then obtain k j where k: "cameTo ex (migrationFiles entries) d k j (fold (startWith ex entries) cs (fresh d))" by auto
  let ?s = "(fold (startWith ex entries) cs (fresh d))\<lparr>mg_faults := fst c, mg_cut := snd c\<rparr>"
  obtain r t where run: "Migrate ex entries ?s = (r, t)" by force
  have "cameTo ex (migrationFiles entries) d k j ?s" "mg_cut ?s = None" using k snoc.prems by (simp_all add: cameTo_def)
  moreover have "fold (startWith ex entries) (cs @ [c]) (fresh d) = t" by (simp add: startWith_def run)
  ultimately show ?case using start_comes_to[OF assms(1,2) _ run] by metis
qed


section \<open>A table and two files\<close>

text \<open>
  Enough of MySQL's answers to the statements on one table to run migration files on it: a table that
  exists may be created again with \<open>IF NOT EXISTS\<close>; an index that exists is error 1061, a column that
  exists 1060, an index that does not exist cannot be dropped (1091).
\<close>

definition sqlWords :: "string \<Rightarrow> string list" where
  "sqlWords q = filter (\<lambda>w. w \<noteq> []) (concat (map (splitOn CHR '' '') (splitOn CHR 0x0A q)))"

definition tableDDL :: "(string list \<times> string list) exec" where
  "tableDDL q sch = (case sch of (cols, idx) \<Rightarrow>
     (let w = sqlWords q; verb = take 2 (drop 3 w); nm = w ! 5 in
      if take 2 w = [''CREATE'', ''TABLE''] then (Inr (), sch)
      else if verb = [''ADD'', ''COLUMN''] then
        (if nm \<in> set cols then (Inl (SqlError 1060), sch) else (Inr (), (cols @ [nm], idx)))
      else if verb = [''DROP'', ''INDEX''] then
        (if nm \<in> set idx then (Inr (), (cols, filter (\<lambda>i. i \<noteq> nm) idx)) else (Inl (SqlError 1091), sch))
      else if verb = [''ADD'', ''UNIQUE''] then
        (if w ! 6 \<in> set idx then (Inl (SqlError 1061), sch) else (Inr (), (cols, idx @ [w ! 6])))
      else if verb = [''ADD'', ''KEY''] then
        (if nm \<in> set idx then (Inl (SqlError 1061), sch) else (Inr (), (cols, idx @ [nm])))
      else (Inl (SqlError 1064), sch)))"

definition newline :: string where "newline = [CHR 0x0A]"

definition file1 :: string where "file1 = ''CREATE TABLE IF NOT EXISTS t (id INT);'' @ newline"

definition file2 :: string where
  "file2 = ''-- a second column; and its index'' @ newline @ ''ALTER TABLE t ADD COLUMN k INT;'' @ newline
       @ ''ALTER TABLE t ADD KEY ik (k);'' @ newline"

definition twoFiles :: "(string \<times> string) list" where
  "twoFiles = [(''0002_key.sql'', file2), (''migrations.go'', ''package migrations''), (''0001_init.sql'', file1)]"

lemma two_files: "migrationFiles twoFiles = [(''0001_init.sql'', file1), (''0002_key.sql'', file2)]"
  by (simp add: migrationFiles_def twoFiles_def hasSuffix_def sortByKey_def)

lemma two_files_statements:
  "splitSQL file1 = [''CREATE TABLE IF NOT EXISTS t (id INT)'']"
  "splitSQL file2 = [''ALTER TABLE t ADD COLUMN k INT'', newline @ ''ALTER TABLE t ADD KEY ik (k)'']"
  by code_simp+

lemma two_files_words:
  "sqlWords ''CREATE TABLE IF NOT EXISTS t (id INT)'' = [''CREATE'', ''TABLE'', ''IF'', ''NOT'', ''EXISTS'', ''t'', ''(id'', ''INT)'']"
  "sqlWords ''ALTER TABLE t ADD COLUMN k INT'' = [''ALTER'', ''TABLE'', ''t'', ''ADD'', ''COLUMN'', ''k'', ''INT'']"
  "sqlWords (newline @ ''ALTER TABLE t ADD KEY ik (k)'') = [''ALTER'', ''TABLE'', ''t'', ''ADD'', ''KEY'', ''ik'', ''(k)'']"
  by code_simp+

lemma two_files_ddl:
  "tableDDL ''CREATE TABLE IF NOT EXISTS t (id INT)'' sch = (Inr (), sch)"
  "tableDDL ''ALTER TABLE t ADD COLUMN k INT'' (cols, idx) =
     (if ''k'' \<in> set cols then (Inl (SqlError 1060), (cols, idx)) else (Inr (), (cols @ [''k''], idx)))"
  "tableDDL (newline @ ''ALTER TABLE t ADD KEY ik (k)'') (cols, idx) =
     (if ''ik'' \<in> set idx then (Inl (SqlError 1061), (cols, idx)) else (Inr (), (cols, idx @ [''ik''])))"
  by (simp_all add: tableDDL_def two_files_words Let_def split: prod.split)

lemmas migrate_run = Migrate_def migrateFile_def runStatement_def execSQL_def createMigrationTable_def readApplied_def
  recordFile_def migStmt_def bind_def attempt_def return_def throw_def isAlreadyApplied_def


section \<open>A file that is not rerunnable\<close>

text \<open>The statements of \<open>migrations/0016_ledger_keyid.sql\<close>, which drops an index to build it anew.\<close>

definition stmts0016 :: "string list" where
  "stmts0016 = [''ALTER TABLE usage_ledger'' @ newline @ ''  ADD COLUMN key_id BIGINT UNSIGNED NOT NULL DEFAULT 0 AFTER newapi_user_id'',
     newline @ ''ALTER TABLE usage_ledger DROP INDEX uk_ledger_dedup'',
     newline @ ''ALTER TABLE usage_ledger'' @ newline @ ''  ADD UNIQUE KEY uk_ledger_dedup (org_id, newapi_user_id, key_id, model_name, time_bucket)'',
     newline @ ''ALTER TABLE usage_ledger'' @ newline @ ''  ADD KEY idx_ledger_org_key (org_id, key_id, time_bucket)'']"

lemma ddl_0016:
  "tableDDL (stmts0016 ! 0) (cols, idx) = (if ''key_id'' \<in> set cols then (Inl (SqlError 1060), (cols, idx)) else (Inr (), (cols @ [''key_id''], idx)))"
  "tableDDL (stmts0016 ! 1) (cols, idx) = (if ''uk_ledger_dedup'' \<in> set idx
     then (Inr (), (cols, filter (\<lambda>i. i \<noteq> ''uk_ledger_dedup'') idx)) else (Inl (SqlError 1091), (cols, idx)))"
proof -
  have "take 6 (sqlWords (stmts0016 ! 0)) = [''ALTER'', ''TABLE'', ''usage_ledger'', ''ADD'', ''COLUMN'', ''key_id'']" by code_simp
  then have "take 2 (sqlWords (stmts0016 ! 0)) = [''ALTER'', ''TABLE'']" "take 2 (drop 3 (sqlWords (stmts0016 ! 0))) = [''ADD'', ''COLUMN'']"
    "sqlWords (stmts0016 ! 0) ! 5 = ''key_id''" by code_simp+
  then show "tableDDL (stmts0016 ! 0) (cols, idx) = (if ''key_id'' \<in> set cols then (Inl (SqlError 1060), (cols, idx)) else (Inr (), (cols @ [''key_id''], idx)))"
    by (simp add: tableDDL_def Let_def)
  have "sqlWords (stmts0016 ! 1) = [''ALTER'', ''TABLE'', ''usage_ledger'', ''DROP'', ''INDEX'', ''uk_ledger_dedup'']" by code_simp
  then show "tableDDL (stmts0016 ! 1) (cols, idx) = (if ''uk_ledger_dedup'' \<in> set idx
     then (Inr (), (cols, filter (\<lambda>i. i \<noteq> ''uk_ledger_dedup'') idx)) else (Inl (SqlError 1091), (cols, idx)))"
    by (simp add: tableDDL_def Let_def)
qed

text \<open>
  When the program dies between dropping the index and building it, error 1091 of the repeated \<open>DROP\<close>
  is not among the tolerated ones: this and every later start fails, and the ledger stays without
  its unique key.
\<close>

lemma migration_0016_is_stuck:
  fixes ledger_columns :: "string list" and content :: string
  defines "files \<equiv> [(''0016_ledger_keyid.sql'', content)]"
  defines "s \<equiv> startWith tableDDL files ([Fine, Fine, Fine, Fine, Fails], None) (fresh (ledger_columns, [''uk_ledger_dedup'']))"
  assumes "splitSQL content = stmts0016" "''key_id'' \<notin> set ledger_columns"
  shows "Migrate tableDDL files s = (Inl (SqlError 1091), s)" "snd (mg_data s) = []"
proof -
  have sorted: "migrationFiles files = [(''0016_ledger_keyid.sql'', content)]"
    by (simp add: migrationFiles_def files_def hasSuffix_def sortByKey_def)
  obtain q1 q2 q3 q4 where st: "splitSQL content = [q1, q2, q3, q4]" and q: "q1 = stmts0016 ! 0" "q2 = stmts0016 ! 1"
    unfolding assms(3) by (auto simp: stmts0016_def)
  note ddl = ddl_0016[folded q]
  have s: "s = \<lparr>mg_applied = [], mg_data = (ledger_columns @ [''key_id''], []), mg_faults = [], mg_cut = None\<rparr>"
    by (simp add: s_def startWith_def fresh_def migrate_run sorted st ddl assms(4))
  show "Migrate tableDDL files s = (Inl (SqlError 1091), s)"
    by (simp add: s migrate_run sorted st ddl)
  show "snd (mg_data s) = []" by (simp add: s)
qed

end
