(* ===== verification/Workers.thy ===== *)
theory Workers
  imports Escrow Reset Pricing Reconcile Backfill
begin

text \<open>
  The background loops (\<open>worker/*.go\<close>): what one tick does and in which order, that an error of one
  part does not keep the others from running, and the loop around the ticks.  A tick's own deadline
  shows as errors of the calls under way, which the fault schedule already places anywhere; log lines
  are left out.
\<close>

section \<open>The workers\<close>

record worker =
  wk_interval :: int
  wk_batch :: nat

definition minuteNs :: int where "minuteNs = 60 * 10 ^ 9"

definition NewQuotaWorker :: "int \<Rightarrow> int \<Rightarrow> worker" where
  "NewQuotaWorker interval batch =
     \<lparr>wk_interval = (if interval \<le> 0 then minuteNs else interval), wk_batch = (if batch \<le> 0 then 100 else nat batch)\<rparr>"

definition NewSettlementWorker :: "int \<Rightarrow> worker" where
  "NewSettlementWorker interval = \<lparr>wk_interval = (if interval \<le> 0 then minuteNs else interval), wk_batch = 0\<rparr>"

definition NewReconcileWorker :: "int \<Rightarrow> worker" where
  "NewReconcileWorker interval = \<lparr>wk_interval = (if interval \<le> 0 then 10 * minuteNs else interval), wk_batch = 0\<rparr>"

section \<open>One tick\<close>

text \<open>Nothing that goes wrong inside a tick leaves it.\<close>

definition safeTick :: "('u, unit) op \<Rightarrow> ('u, unit) op" where
  "safeTick body w = (Inr (), snd (body w))"

definition quotaTick :: "'u service \<Rightarrow> nat \<Rightarrow> ('u, unit) op" where
  "quotaTick S batch =
     bind (ignoreErr (ReverseExpiredGrants S batch)) (\<lambda>_.
     bind (ignoreErr (ResetDuePolicies S)) (\<lambda>_.
     ignoreErr (AutoRefill S)))"

definition settlementTick :: "'u service \<Rightarrow> ('u, unit) op" where
  "settlementTick S =
     bind (ignoreErr (RunSettlement S)) (\<lambda>_.
     ignoreErr (RunBackfillSlice S))"

definition reconcileTick :: "'u service \<Rightarrow> ('u, unit) op" where
  "reconcileTick S =
     bind (ignoreErr (ReconcileDiscounts S)) (\<lambda>_.
     bind (ignoreErr (ReconcileBilling S)) (\<lambda>_.
     bind (ignoreErr (ReconcileBalanceLedger S)) (\<lambda>_.
     bind (ignoreErr (ReconcileEscrow S)) (\<lambda>_.
     bind (ignoreErr (ReconcileBackfillLedger S)) (\<lambda>_.
     bind (ignoreErr (ReassertWalletOnly S)) (\<lambda>_.
     ignoreErr (PurgeOldUsageDetail S)))))))"

section \<open>The loop\<close>

text \<open>
  What the \<open>select\<close> of a loop meets: the ticker, the cancelled context, or nothing for itself while
  the rest of the world moves on.
\<close>

datatype 'u wake = Ticked | Cancelled | Elsewhere "'u world \<Rightarrow> 'u world"

fun workerLoop :: "('u, unit) op \<Rightarrow> 'u wake list \<Rightarrow> ('u, unit) op" where
  "workerLoop tick [] = return ()"
| "workerLoop tick (Cancelled # es) = return ()"
| "workerLoop tick (Ticked # es) = bind (safeTick tick) (\<lambda>_. workerLoop tick es)"
| "workerLoop tick (Elsewhere f # es) = bind (\<lambda>w. (Inr (), f w)) (\<lambda>_. workerLoop tick es)"

text \<open>The quota worker runs once at once, the others wait for their first tick.\<close>

definition runQuotaWorker :: "'u service \<Rightarrow> worker \<Rightarrow> 'u wake list \<Rightarrow> ('u, unit) op" where
  "runQuotaWorker S wk es = bind (safeTick (quotaTick S (wk_batch wk))) (\<lambda>_. workerLoop (quotaTick S (wk_batch wk)) es)"

definition runSettlementWorker :: "'u service \<Rightarrow> 'u wake list \<Rightarrow> ('u, unit) op" where
  "runSettlementWorker S es = workerLoop (settlementTick S) es"

definition runReconcileWorker :: "'u service \<Rightarrow> 'u wake list \<Rightarrow> ('u, unit) op" where
  "runReconcileWorker S es = workerLoop (reconcileTick S) es"

section \<open>Facts\<close>

lemma worker_intervals:
  "0 < wk_interval (NewQuotaWorker i b)" "0 < wk_batch (NewQuotaWorker i b)"
  "0 < wk_interval (NewSettlementWorker i)" "0 < wk_interval (NewReconcileWorker i)"
  by (simp_all add: NewQuotaWorker_def NewSettlementWorker_def NewReconcileWorker_def minuteNs_def)

text \<open>A loop never ends with an error, and after its cancellation nothing runs.\<close>

lemma workerLoop_returns: "\<exists>w'. workerLoop tick es w = (Inr (), w')"
  by (induction tick es arbitrary: w rule: workerLoop.induct) (auto simp: return_def bind_def safeTick_def)

lemma workerLoop_stops: "workerLoop tick (es @ Cancelled # rest) = workerLoop tick es"
  by (induction tick es rule: workerLoop.induct) auto

text \<open>An error of the settlement does not keep the backfill of the same tick from running, on the world the settlement left.\<close>

lemma backfill_follows_settlement:
  "settlementTick S w = (Inr (), snd (RunBackfillSlice S (snd (RunSettlement S w))))"
  by (simp add: settlementTick_def ignoreErr_def attempt_def bind_def return_def split: prod.splits)

text \<open>A process that is not the leader settles and fills back nothing.\<close>

lemma follower_idle: "\<not> sv_leader S \<Longrightarrow> settlementTick S w = (Inr (), w)"
  by (simp add: backfill_follows_settlement RunSettlement_def RunBackfillSlice_def return_def)

text \<open>In the observing deployment the quota worker reverses no grant and resets no policy.\<close>

lemma observer_keeps_quotas: "sv_observe S \<Longrightarrow> quotaTick S n w = ignoreErr (AutoRefill S) w"
  by (simp add: quotaTick_def ReverseExpiredGrants_def ResetDuePolicies_def ignoreErr_def attempt_def bind_def return_def)

end
