(* ===== verification/Startup.thy ===== *)
theory Startup
  imports Workers Migrations Keyring Identity ClientClaims Sample
begin

text \<open>
  The start of the process (\<open>cmd/server/main.go\<close>, \<open>service/service.go\<close>, \<open>service/leadership.go\<close>): which
  settings are read, what makes it refuse to start and after which effects, and the service and the
  workers it runs.  The environment is a function that gives the empty string for what is not set.
  Reaching the database and seeding the operator take their place in the order of the code.
  The end of the process is a step relation over the loops of the workers, the connections and the clock.
\<close>

section \<open>Settings\<close>

type_synonym environ = "string \<Rightarrow> string"

definition envOr :: "environ \<Rightarrow> string \<Rightarrow> string \<Rightarrow> string" where
  "envOr env key dflt = (if env key \<noteq> '''' then env key else dflt)"

definition atoiOr :: "environ \<Rightarrow> string \<Rightarrow> int \<Rightarrow> int" where
  "atoiOr env key dflt = (if env key = '''' then dflt else case parseInt (env key) of Some n \<Rightarrow> n | None \<Rightarrow> dflt)"

datatype startup_err =
    MissingDSN | MissingMasterKey | ShortSessionKey | DevSessionKey | DevMasterKey
  | BadKeyring keyring_err | BadSigner session_err
  | NoDatabase err | NotMigrated err | FundingWhileObserving | NotSeeded err

definition devSessionKeys :: "string list" where
  "devSessionKeys = [''dev-only-session-signing-key-32bytes!!'']"

definition devMasterKeys :: "string list" where
  "devMasterKeys = [''MDEyMzQ1Njc4OWFiY2RlZjAxMjM0NTY3ODlhYmNkZWY='']"

definition readKeys :: "(string \<Rightarrow> string \<Rightarrow> string) \<Rightarrow> environ \<Rightarrow> startup_err + keyring \<times> signer" where
  "readKeys hmac env =
     (let mk = env ''NEXUS_MASTER_KEY''; sk = env ''NEXUS_SESSION_KEY'' in
      if env ''NEXUS_DB_DSN'' = '''' then Inl MissingDSN
      else if mk = '''' then Inl MissingMasterKey
      else if length sk < 16 then Inl ShortSessionKey
      else if env ''NEXUS_ALLOW_DEV_KEYS'' \<noteq> ''true'' \<and> sk \<in> set devSessionKeys then Inl DevSessionKey
      else if env ''NEXUS_ALLOW_DEV_KEYS'' \<noteq> ''true'' \<and> mk \<in> set devMasterKeys then Inl DevMasterKey
      else case NewKeyringFromBase64 (envOr env ''NEXUS_MASTER_KEY_ID'' ''v1'') mk of
        Inl e \<Rightarrow> Inl (BadKeyring e)
      | Inr kr \<Rightarrow>
        (case NewSigner hmac sk (i64 (atoiOr env ''NEXUS_SESSION_TTL_HOURS'' 12 * hourNs)) of
           Inl e \<Rightarrow> Inl (BadSigner e)
         | Inr sg \<Rightarrow> Inr (kr, sg)))"

definition readUpstream :: "environ \<Rightarrow> up_config" where
  "readUpstream env = \<lparr>cf_base = env ''NEWAPI_BASE_URL'', cf_admin_token = env ''NEWAPI_ADMIN_TOKEN'',
     cf_admin_user = atoiOr env ''NEWAPI_ADMIN_USER_ID'' 1, cf_timeout = 0, cf_retries = 0, cf_backoff = 0,
     cf_qps = (0, 1), cf_burst = 0, cf_threshold = 0, cf_cooldown = 0\<rparr>"

section \<open>The service\<close>

record deps =
  dp_observe :: bool
  dp_funding :: bool
  dp_leader :: "bool option"
  dp_windows :: int
  dp_retention :: int

definition NewEnvLeadership :: "bool \<Rightarrow> bool" where "NewEnvLeadership enabled = enabled"

text \<open>
  \<open>New\<close> on the parts that are functions of keys and libraries, \<open>basis\<close>.  The pages per second of the
  backfill only set a pause and are left out.
\<close>

definition newService :: "'u service \<Rightarrow> 'u newapi \<Rightarrow> deps \<Rightarrow> 'u service" where
  "newService basis up d = basis\<lparr>sv_up := up, sv_observe := dp_observe d, sv_funding := dp_funding d,
     sv_leader := (case dp_leader d of None \<Rightarrow> NewEnvLeadership True | Some b \<Rightarrow> b),
     sv_windows_per_tick := (if dp_windows d \<le> 0 then 8 else nat (dp_windows d)),
     sv_retention_days := dp_retention d\<rparr>"

section \<open>The start\<close>

record 'u program =
  pr_addr :: string
  pr_mvp :: bool
  pr_keyring :: keyring
  pr_signer :: signer
  pr_config :: up_config
  pr_service :: "'u service"
  pr_workers :: "(worker \<times> worker \<times> worker) option"

definition secondNs :: int where "secondNs = 10 ^ 9"

definition startWorkers :: "environ \<Rightarrow> (worker \<times> worker \<times> worker) option" where
  "startWorkers env =
     (if env ''NEXUS_WORKER_ENABLED'' = ''false'' then None
      else let iv = i64 (atoiOr env ''NEXUS_WORKER_INTERVAL_SEC'' 60 * secondNs);
               rv = i64 (atoiOr env ''NEXUS_RECONCILE_INTERVAL_SEC'' 600 * secondNs)
           in Some (NewQuotaWorker iv 100, NewSettlementWorker iv, NewReconcileWorker rv))"

definition seedFrom :: "'u service \<Rightarrow> environ \<Rightarrow> ('u, unit) op" where
  "seedFrom S env = (if env ''NEXUS_BOOTSTRAP_OPERATOR_EMAIL'' = '''' then return ()
     else SeedOperator S (env ''NEXUS_BOOTSTRAP_OPERATOR_EMAIL'') (env ''NEXUS_BOOTSTRAP_OPERATOR_PASSWORD''))"

text \<open>
  \<open>run\<close> up to the listening socket.  \<open>db_open\<close> is the outcome of \<open>repo.Open\<close>; the schema (with the
  migrations' own faults) and the world the service works in are the state.
\<close>

definition run :: "(string \<Rightarrow> string \<Rightarrow> string) \<Rightarrow> 'n upenv \<Rightarrow> 'n upstate service \<Rightarrow> err option \<Rightarrow> 'd exec \<Rightarrow>
    (string \<times> string) list \<Rightarrow> environ \<Rightarrow> 'd migr \<Rightarrow> 'n upstate world \<Rightarrow>
    (startup_err + 'n upstate program) \<times> 'd migr \<times> 'n upstate world" where
  "run hmac ev basis db_open ex files env ms w =
     (case readKeys hmac env of
        Inl e \<Rightarrow> (Inl e, ms, w)
      | Inr (kr, sg) \<Rightarrow>
     (case db_open of
        Some e \<Rightarrow> (Inl (NoDatabase e), ms, w)
      | None \<Rightarrow>
     (case Migrate ex files ms of
        (Inl e, ms1) \<Rightarrow> (Inl (NotMigrated e), ms1, w)
      | (Inr _, ms1) \<Rightarrow>
     (let cf = normalize_cf (readUpstream env);
          w1 = w\<lparr>w_up := newClient (readUpstream env) (w_now w) (us_net (w_up w))\<rparr>;
          mvp = (env ''NEXUS_MVP_MODE'' = ''true'');
          funding = (env ''NEXUS_PLATFORM_FUNDING_ENABLED'' = ''true'')
      in if funding \<and> mvp then (Inl FundingWhileObserving, ms1, w)
         else let S = newService basis (adapterOf ev cf)
                    \<lparr>dp_observe = mvp, dp_funding = funding,
                     dp_leader = Some (NewEnvLeadership (env ''NEXUS_WORKER_ENABLED'' \<noteq> ''false'')),
                     dp_windows = atoiOr env ''NEXUS_BACKFILL_WINDOWS_PER_TICK'' 8,
                     dp_retention = atoiOr env ''NEXUS_USAGE_DETAIL_RETENTION_DAYS'' 0\<rparr>
              in (case seedFrom S env w1 of
                    (Inl e, w2) \<Rightarrow> (Inl (NotSeeded e), ms1, w2)
                  | (Inr _, w2) \<Rightarrow>
                      (Inr \<lparr>pr_addr = envOr env ''LISTEN_ADDR'' '':8080'', pr_mvp = mvp, pr_keyring = kr, pr_signer = sg,
                           pr_config = cf, pr_service = S, pr_workers = startWorkers env\<rparr>, ms1, w2))))))"

section \<open>The end\<close>

text \<open>
  From the listening socket to the exit (\<open>main.go\<close>, 177 to 224): the loops of the workers in their
  \<open>select\<close>s, the connections of the HTTP server, the signal, the wait for the workers and the draining.
  A loop that finds both its ticker and the cancelled context may take either, so a tick can begin
  after the signal.
\<close>

datatype loop_at = Selecting | InTick | Returned

datatype process_phase = Serving | WaitingForWorkers int | DrainingHTTP int | Exited bool

record process =
  ps_loops :: "loop_at list"
  ps_cancelled :: bool
  ps_phase :: process_phase
  ps_requests :: nat
  ps_now :: int

definition startWorker :: "process \<Rightarrow> process" where
  "startWorker p = p\<lparr>ps_loops := ps_loops p @ [Selecting]\<rparr>"

definition startedWith :: "(worker \<times> worker \<times> worker) option \<Rightarrow> int \<Rightarrow> process" where
  "startedWith ws now =
     (let p = \<lparr>ps_loops = [], ps_cancelled = False, ps_phase = Serving, ps_requests = 0, ps_now = now\<rparr>
      in case ws of None \<Rightarrow> p | Some _ \<Rightarrow> (startWorker ^^ 3) p)"

text \<open>\<open>waitWorkers\<close>: all loops have returned, or the time is over.\<close>

definition waitWorkers :: "int \<Rightarrow> process \<Rightarrow> bool" where
  "waitWorkers deadline p \<longleftrightarrow> list_all (\<lambda>l. l = Returned) (ps_loops p) \<or> deadline \<le> ps_now p"

inductive process_step :: "process \<Rightarrow> process \<Rightarrow> bool" where
  tick: "i < length (ps_loops p) \<Longrightarrow> ps_loops p ! i = Selecting \<Longrightarrow> process_step p (p\<lparr>ps_loops := (ps_loops p)[i := InTick]\<rparr>)"
| tick_over: "i < length (ps_loops p) \<Longrightarrow> ps_loops p ! i = InTick \<Longrightarrow> process_step p (p\<lparr>ps_loops := (ps_loops p)[i := Selecting]\<rparr>)"
| leave: "i < length (ps_loops p) \<Longrightarrow> ps_loops p ! i = Selecting \<Longrightarrow> ps_cancelled p \<Longrightarrow>
    process_step p (p\<lparr>ps_loops := (ps_loops p)[i := Returned]\<rparr>)"
| pass: "0 \<le> d \<Longrightarrow> process_step p (p\<lparr>ps_now := ps_now p + d\<rparr>)"
| accept: "ps_phase p \<in> {Serving} \<union> range WaitingForWorkers \<Longrightarrow> process_step p (p\<lparr>ps_requests := ps_requests p + 1\<rparr>)"
| answered: "0 < ps_requests p \<Longrightarrow> process_step p (p\<lparr>ps_requests := ps_requests p - 1\<rparr>)"
| listen_fails: "ps_phase p \<in> {Serving} \<union> range WaitingForWorkers \<Longrightarrow> process_step p (p\<lparr>ps_phase := Exited False\<rparr>)"
| signal: "ps_phase p = Serving \<Longrightarrow>
    process_step p (p\<lparr>ps_cancelled := True, ps_phase := WaitingForWorkers (ps_now p + 50 * secondNs)\<rparr>)"
| waited: "ps_phase p = WaitingForWorkers dl \<Longrightarrow> waitWorkers dl p \<Longrightarrow>
    process_step p (p\<lparr>ps_phase := DrainingHTTP (ps_now p + 10 * secondNs)\<rparr>)"
| drained: "ps_phase p = DrainingHTTP dl \<Longrightarrow> ps_requests p = 0 \<Longrightarrow> process_step p (p\<lparr>ps_phase := Exited True\<rparr>)"
| drain_over: "ps_phase p = DrainingHTTP dl \<Longrightarrow> dl \<le> ps_now p \<Longrightarrow> process_step p (p\<lparr>ps_phase := Exited False\<rparr>)"

text \<open>The steps of a process from its start, with the time of the signal, once there was one.\<close>

inductive process_run :: "process \<Rightarrow> int option \<Rightarrow> process \<Rightarrow> bool" for p0 where
  begins: "process_run p0 None p0"
| steps: "process_run p0 t p \<Longrightarrow> process_step p q \<Longrightarrow> \<nexists>b. ps_phase p = Exited b \<Longrightarrow>
    process_run p0 (if ps_phase p = Serving \<and> ps_phase q \<noteq> Serving then Some (ps_now p) else t) q"

definition settled_end :: "int option \<Rightarrow> process \<Rightarrow> bool" where
  "settled_end t p \<longleftrightarrow> list_all (\<lambda>l. l = Returned) (ps_loops p) \<or> (\<exists>t0. t = Some t0 \<and> t0 + 50 * secondNs \<le> ps_now p)"

definition process_inv :: "int option \<Rightarrow> process \<Rightarrow> bool" where
  "process_inv t p \<longleftrightarrow> (case ps_phase p of
      Serving \<Rightarrow> \<not> ps_cancelled p \<and> list_all (\<lambda>l. l \<noteq> Returned) (ps_loops p)
    | WaitingForWorkers dl \<Rightarrow> ps_cancelled p \<and> (\<exists>t0. t = Some t0 \<and> dl = t0 + 50 * secondNs)
    | DrainingHTTP dl \<Rightarrow> settled_end t p
    | Exited ok \<Rightarrow> ok \<longrightarrow> ps_requests p = 0 \<and> settled_end t p)"

lemma settled_end_later: "settled_end t p \<Longrightarrow> ps_loops q = ps_loops p \<Longrightarrow> ps_now p \<le> ps_now q \<Longrightarrow> settled_end t q"
  by (auto simp: settled_end_def)

lemma settled_end_moves:
  assumes "settled_end t p" "i < length (ps_loops p)" "ps_loops p ! i \<noteq> Returned" "ps_now q = ps_now p"
  shows "settled_end t q"
  using assms by (auto simp: settled_end_def list_all_length)

lemma process_inv_step:
  assumes "process_inv t p" "process_step p q" "\<nexists>b. ps_phase p = Exited b"
  shows "process_inv (if ps_phase p = Serving \<and> ps_phase q \<noteq> Serving then Some (ps_now p) else t) q"
  using assms(2)
proof cases
  case (tick i)
  then show ?thesis using assms(1,3) settled_end_moves[of t p i q]
    by (auto simp: process_inv_def list_all_length nth_list_update split: process_phase.splits)
next
  case (tick_over i)
  then show ?thesis using assms(1,3) settled_end_moves[of t p i q]
    by (auto simp: process_inv_def list_all_length nth_list_update split: process_phase.splits)
next
  case (leave i)
  then show ?thesis using assms(1,3) settled_end_moves[of t p i q]
    by (auto simp: process_inv_def split: process_phase.splits)
next
  case (pass d)
  then show ?thesis using assms(1,3) settled_end_later[of t p q]
    by (auto simp: process_inv_def split: process_phase.splits)
next
  case (waited dl)
  then show ?thesis using assms(1) by (auto simp: process_inv_def settled_end_def waitWorkers_def)
qed (use assms(1,3) in \<open>auto simp: process_inv_def settled_end_def split: process_phase.splits\<close>)

text \<open>
  A process that exits without an error has answered every request it took, and every worker's loop
  has returned or fifty seconds have passed since the signal; no loop returns before the signal.
\<close>

lemma orderly_exit:
  assumes "process_run (startedWith ws now) t p"
  shows "ps_phase p = Exited True \<Longrightarrow> ps_requests p = 0 \<and> settled_end t p"
    and "ps_phase p = Serving \<Longrightarrow> list_all (\<lambda>l. l \<noteq> Returned) (ps_loops p)"
proof -
  have start: "process_inv None (startedWith ws now)"
    by (cases ws) (simp_all add: process_inv_def startedWith_def startWorker_def Let_def eval_nat_numeral)
  have "process_inv t p"
    using assms
  proof (induction rule: process_run.induct)
    case begins
    show ?case by (rule start)
  next
    case (steps t p q)
    then show ?case by (intro process_inv_step) auto
  qed
  then show "ps_phase p = Exited True \<Longrightarrow> ps_requests p = 0 \<and> settled_end t p"
    and "ps_phase p = Serving \<Longrightarrow> list_all (\<lambda>l. l \<noteq> Returned) (ps_loops p)"
    by (auto simp: process_inv_def)
qed

text \<open>Whatever the workers and the clients do, a signalled process can always go on to its exit by letting time pass.\<close>

lemma exit_in_reach:
  assumes "ps_phase p = WaitingForWorkers dl"
  shows "\<exists>q. process_step\<^sup>*\<^sup>* p q \<and> ps_phase q = Exited False \<and> ps_now q \<le> max (ps_now p) dl + 10 * secondNs"
proof -
  define p1 where "p1 = p\<lparr>ps_now := ps_now p + max 0 (dl - ps_now p)\<rparr>"
  define p2 where "p2 = p1\<lparr>ps_phase := DrainingHTTP (ps_now p1 + 10 * secondNs)\<rparr>"
  define p3 where "p3 = p2\<lparr>ps_now := ps_now p2 + 10 * secondNs\<rparr>"
  define p4 where "p4 = p3\<lparr>ps_phase := Exited False\<rparr>"
  have "process_step p p1" unfolding p1_def by (rule process_step.pass) simp
  moreover have "process_step p1 p2" unfolding p2_def
    by (rule process_step.waited[where dl = dl]) (auto simp: p1_def assms waitWorkers_def)
  moreover have "process_step p2 p3" unfolding p3_def by (rule process_step.pass) (simp add: secondNs_def)
  moreover have "process_step p3 p4" unfolding p4_def
    by (rule process_step.drain_over[where dl = "ps_now p1 + 10 * secondNs"]) (simp_all add: p3_def p2_def)
  ultimately have "process_step\<^sup>*\<^sup>* p p4" by (meson converse_rtranclp_into_rtranclp rtranclp.rtrancl_refl)
  moreover have "ps_phase p4 = Exited False" "ps_now p4 \<le> max (ps_now p) dl + 10 * secondNs"
    by (simp_all add: p4_def p3_def p2_def p1_def)
  ultimately show ?thesis by blast
qed

section \<open>What a started process is\<close>

lemma readKeys_Inr:
  assumes "readKeys hmac env = Inr (kr, sg)"
  shows "env ''NEXUS_DB_DSN'' \<noteq> ''''" "16 \<le> length (env ''NEXUS_SESSION_KEY'')"
    "env ''NEXUS_ALLOW_DEV_KEYS'' = ''true'' \<or>
       env ''NEXUS_SESSION_KEY'' \<notin> set devSessionKeys \<and> env ''NEXUS_MASTER_KEY'' \<notin> set devMasterKeys"
    "sg_mac sg = hmac (env ''NEXUS_SESSION_KEY'')" "0 < sg_ttl sg"
    "\<exists>raw. stdDecode (TrimSpace (env ''NEXUS_MASTER_KEY'')) = Some raw \<and> length raw = KeySize
       \<and> kr_keys kr = [(kr_current kr, raw)]"
  using assms
  by (auto simp: readKeys_def Let_def NewSigner_def NewKeyringFromBase64_def NewKeyring_def
    split: if_splits sum.splits option.splits)

text \<open>What is refused before the schema is touched.\<close>

fun refusedEarly :: "startup_err \<Rightarrow> bool" where
  "refusedEarly (NotMigrated e) = False"
| "refusedEarly FundingWhileObserving = False"
| "refusedEarly (NotSeeded e) = False"
| "refusedEarly e = True"

lemma readKeys_Inl: "readKeys hmac env = Inl e \<Longrightarrow> refusedEarly e"
  by (auto simp: readKeys_def Let_def split: if_splits sum.splits)

lemma run_cases:
  assumes "run hmac ev basis db ex files env ms w = (r, ms', w')"
  obtains e where "r = Inl e" "refusedEarly e" "ms' = ms" "w' = w"
  | e where "r = Inl (NotMigrated e)" "Migrate ex files ms = (Inl e, ms')" "w' = w"
  | "r = Inl FundingWhileObserving" "w' = w"
      "env ''NEXUS_PLATFORM_FUNDING_ENABLED'' = ''true''" "env ''NEXUS_MVP_MODE'' = ''true''"
  | e where "r = Inl (NotSeeded e)"
  | kr sg p where "r = Inr p" "readKeys hmac env = Inr (kr, sg)" "Migrate ex files ms = (Inr (), ms')"
      "\<not> (env ''NEXUS_PLATFORM_FUNDING_ENABLED'' = ''true'' \<and> env ''NEXUS_MVP_MODE'' = ''true'')"
      "p = \<lparr>pr_addr = envOr env ''LISTEN_ADDR'' '':8080'', pr_mvp = (env ''NEXUS_MVP_MODE'' = ''true''),
         pr_keyring = kr, pr_signer = sg, pr_config = normalize_cf (readUpstream env),
         pr_service = newService basis (adapterOf ev (normalize_cf (readUpstream env)))
           \<lparr>dp_observe = (env ''NEXUS_MVP_MODE'' = ''true''), dp_funding = (env ''NEXUS_PLATFORM_FUNDING_ENABLED'' = ''true''),
            dp_leader = Some (NewEnvLeadership (env ''NEXUS_WORKER_ENABLED'' \<noteq> ''false'')),
            dp_windows = atoiOr env ''NEXUS_BACKFILL_WINDOWS_PER_TICK'' 8,
            dp_retention = atoiOr env ''NEXUS_USAGE_DETAIL_RETENTION_DAYS'' 0\<rparr>,
         pr_workers = startWorkers env\<rparr>"
proof -
  obtain a m1 where mig: "Migrate ex files ms = (a, m1)" by force
  consider e where "readKeys hmac env = Inl e" | kr sg where "readKeys hmac env = Inr (kr, sg)"
    by (cases "readKeys hmac env") auto
  then show thesis
  proof cases
    case (1 e)
    then show ?thesis using assms that(1)[of e] readKeys_Inl[OF 1] by (simp add: run_def)
  next
    case keys: (2 kr sg)
    show ?thesis
    proof (cases db)
      case (Some e)
      then show ?thesis using assms keys that(1)[of "NoDatabase e"] by (simp add: run_def)
    next
      case None
      show ?thesis
      proof (cases a)
        case (Inl e)
        then show ?thesis using assms keys None mig that(2)[of e] by (simp add: run_def)
      next
        case (Inr u)
        then show ?thesis using assms keys None mig that(3,4) that(5)[OF _ keys]
          by (auto simp: run_def Let_def split: if_splits prod.splits sum.splits)
      qed
    qed
  qed
qed

lemma startWorkers_runs:
  assumes "startWorkers env = Some (q, s, r)"
  shows "env ''NEXUS_WORKER_ENABLED'' \<noteq> ''false''" "0 < wk_interval q" "0 < wk_batch q" "0 < wk_interval s" "0 < wk_interval r"
  using assms by (auto simp: startWorkers_def Let_def worker_intervals split: if_splits)

section \<open>The service it runs\<close>

text \<open>In the observing process the quota worker does nothing at all, in every world.\<close>

lemma observing_quota_worker:
  assumes "sv_observe S" "\<not> sv_funding S"
  shows "runQuotaWorker S wk (replicate n Ticked) w = (Inr (), w)"
proof -
  have t: "quotaTick S b = return ()" for b
    by (rule ext) (simp add: observer_keeps_quotas[OF assms(1)] AutoRefill_def assms(2) ignoreErr_def attempt_def bind_def return_def)
  have "workerLoop (return ()) (replicate n Ticked) w' = (Inr (), w')" for w'
    by (induction n arbitrary: w') (simp_all add: safeTick_def bind_def return_def)
  then show ?thesis by (simp add: runQuotaWorker_def t safeTick_def bind_def return_def)
qed


section \<open>A start\<close>

definition setting :: "(string \<times> string) list \<Rightarrow> environ" where
  "setting kvs k = (case map_of kvs k of Some v \<Rightarrow> v | None \<Rightarrow> '''')"

definition observerEnv :: environ where
  "observerEnv = setting [(''NEXUS_DB_DSN'', ''dsn''), (''NEXUS_SESSION_KEY'', ''0123456789abcdef''),
     (''NEXUS_MASTER_KEY'', ''AAECAwQFBgcICQoLDA0ODxAREhMUFRYXGBkaGxwdHh8=''), (''NEXUS_MVP_MODE'', ''true''),
     (''NEXUS_WORKER_ENABLED'', ''false'')]"

definition keyFunctions :: "(int \<times> answer list) upstate service" where
  "keyFunctions = (let s = sampleSvc [] False False in
     \<lparr> sv_up = adapterOf scriptEnv sampleConfig, sv_observe = False, sv_funding = False, sv_leader = False,
       sv_windows_per_tick = 0, sv_retention_days = 0, sv_encrypt = sv_encrypt s, sv_decrypt = sv_decrypt s,
       sv_gen_username = sv_gen_username s, sv_gen_newapi_password = sv_gen_newapi_password s,
       sv_gen_platform_password = sv_gen_platform_password s, sv_hash_password = sv_hash_password s,
       sv_check_password = sv_check_password s, sv_rand_suffix = sv_rand_suffix s, sv_zone = sv_zone s \<rparr>)"

definition startWorld :: "(int \<times> answer list) upstate world" where
  "startWorld = \<lparr> w_db = sampleDb, w_up = newClient sampleConfig 0 (0, []), w_now = 0, w_faults = [], w_held = [], w_draws = 0 \<rparr>"

lemma observer_settings:
  "observerEnv ''NEXUS_DB_DSN'' = ''dsn''" "observerEnv ''NEXUS_SESSION_KEY'' = ''0123456789abcdef''"
  "observerEnv ''NEXUS_MASTER_KEY'' = ''AAECAwQFBgcICQoLDA0ODxAREhMUFRYXGBkaGxwdHh8=''"
  "observerEnv ''NEXUS_MVP_MODE'' = ''true''" "observerEnv ''NEXUS_WORKER_ENABLED'' = ''false''"
  "observerEnv ''NEXUS_ALLOW_DEV_KEYS'' = ''''" "observerEnv ''NEXUS_MASTER_KEY_ID'' = ''''"
  "observerEnv ''NEXUS_SESSION_TTL_HOURS'' = ''''" "observerEnv ''NEXUS_PLATFORM_FUNDING_ENABLED'' = ''''"
  "observerEnv ''NEXUS_BOOTSTRAP_OPERATOR_EMAIL'' = ''''"
  by (simp_all add: observerEnv_def setting_def)

lemma observer_key: "stdDecode (TrimSpace ''AAECAwQFBgcICQoLDA0ODxAREhMUFRYXGBkaGxwdHh8='') = Some (map char_of [0..<32::nat])"
  by code_simp

lemma observer_keys: "\<exists>kr sg. readKeys (\<lambda>k m. k) observerEnv = Inr (kr, sg)"
  by (simp add: readKeys_def observer_settings Let_def devSessionKeys_def devMasterKeys_def NewKeyringFromBase64_def
    observer_key NewKeyring_def NewSigner_def envOr_def KeySize_def)

lemma observer_migrates: "fst (Migrate tableDDL twoFiles (fresh ([''id''], []))) = Inr ()"
  by (simp add: fresh_def migrate_run two_files two_files_statements two_files_ddl)


end
