(* ===== verification/Wire.thy ===== *)
theory Wire
  imports Http GoJson OrgLifecycle Tiers
begin

text \<open>
  The request as it arrives and what the handlers read from it: the path and the query with their
  escapes (\<open>net/url\<close>), numbers in the path (\<open>handler/views.go\<close>), and JSON bodies with unknown
  fields refused (\<open>handler/envelope.go\<close>, the request types of \<open>handler/*.go\<close>), cut at the size
  limit of \<open>handler/middleware.go\<close>.  The path is kept escaped, as the router takes it apart.
\<close>

section \<open>The request\<close>

record wire =
  wi_method :: string
  wi_target :: string
  wi_query :: string
  wi_authorization :: string
  wi_cf_ip :: string
  wi_xff :: string
  wi_remote :: string
  wi_request_id :: string
  wi_body :: string

text \<open>\<open>PathUnescape\<close> and \<open>QueryUnescape\<close>: \<open>None\<close> for a percent sign without two hexadecimal digits.\<close>

fun unescape :: "bool \<Rightarrow> string \<Rightarrow> string option" where
  "unescape inQuery [] = Some []"
| "unescape inQuery (c # s) =
     (if c = CHR ''%'' then (case s of
         a # b # t \<Rightarrow> (case (hexVal a, hexVal b) of
            (Some x, Some y) \<Rightarrow> map_option ((#) (char_of (16 * x + y))) (unescape inQuery t)
          | _ \<Rightarrow> None)
       | _ \<Rightarrow> None)
      else map_option ((#) (if inQuery \<and> c = CHR ''+'' then CHR '' '' else c)) (unescape inQuery s))"

text \<open>What the middlewares see; a path that cannot be unescaped never reaches them.\<close>

definition headOf :: "wire \<Rightarrow> request option" where
  "headOf r = map_option (\<lambda>p. \<lparr>rq_method = wi_method r, rq_path = p, rq_authorization = wi_authorization r,
      rq_cf_ip = wi_cf_ip r, rq_xff = wi_xff r, rq_remote = wi_remote r\<rparr>) (unescape False (wi_target r))"

section \<open>The query\<close>

text \<open>\<open>url.ParseQuery\<close>: pairs between ampersands; one with a semicolon or a broken escape is dropped.\<close>

definition parsePair :: "string \<Rightarrow> (string \<times> string) option" where
  "parsePair s =
     (if s = [] \<or> CHR '';'' \<in> set s then None
      else let k = takeWhile (\<lambda>c. c \<noteq> CHR ''='') s; v = drop (Suc (length k)) s in
        case (unescape True k, unescape True v) of (Some a, Some b) \<Rightarrow> Some (a, b) | _ \<Rightarrow> None)"

definition parseQuery :: "string \<Rightarrow> (string \<times> string) list" where
  "parseQuery q = List.map_filter parsePair (splitOn CHR ''&'' q)"

text \<open>\<open>Values.Get\<close>: the first value, or the empty string.\<close>

definition queryGet :: "wire \<Rightarrow> string \<Rightarrow> string" where
  "queryGet r k = (case map_of (parseQuery (wi_query r)) k of Some v \<Rightarrow> v | None \<Rightarrow> '''')"

definition pagingOf :: "wire \<Rightarrow> int \<times> int \<times> int" where
  "pagingOf r = parsePaging (queryGet r ''page'') (queryGet r ''page_size'') 20"

definition sinceHours :: "wire \<Rightarrow> int" where
  "sinceHours r = atoiDefault (queryGet r ''since_hours'') 24"

definition granularityParam :: "wire \<Rightarrow> string" where
  "granularityParam r = queryGet r ''granularity''"

section \<open>Numbers in the path\<close>

type_synonym pathvals = "(string \<times> string) list"

definition pathValue :: "pathvals \<Rightarrow> string \<Rightarrow> string" where
  "pathValue vals k = (case map_of vals k of Some v \<Rightarrow> v | None \<Rightarrow> '''')"

definition pathInt64 :: "pathvals \<Rightarrow> string \<Rightarrow> (int \<Rightarrow> ('u, 'a) handler) \<Rightarrow> ('u, 'a) handler" where
  "pathInt64 vals k go = (case parseInt (pathValue vals k) of
     None \<Rightarrow> answer (writeErr BadRequest) | Some n \<Rightarrow> go n)"

section \<open>Bodies\<close>

definition maxRequestBodyBytes :: nat where "maxRequestBodyBytes = 2 ^ 20"

text \<open>The first JSON value of the body; what follows it is not read.\<close>

definition firstValue :: "string \<Rightarrow> jvalue option" where
  "firstValue body = (let s = take maxRequestBodyBytes body in map_option fst (parseVal (length s + 1) s))"

text \<open>A struct that refuses members it does not name; \<open>null\<close> leaves it zero.\<close>

definition strictStruct :: "string list \<Rightarrow> (jmembers \<Rightarrow> 'a option) \<Rightarrow> jvalue \<Rightarrow> 'a option" where
  "strictStruct names f v = (case v of
      VNull \<Rightarrow> f []
    | VObj ms \<Rightarrow> if list_all (\<lambda>(k, _). map lowerChar k \<in> set names) ms then f ms else None
    | _ \<Rightarrow> None)"

definition decodeJSON :: "(jvalue \<Rightarrow> 'b option) \<Rightarrow> wire \<Rightarrow> ('b \<Rightarrow> ('u, 'a) handler) \<Rightarrow> ('u, 'a) handler" where
  "decodeJSON dec r go = (case firstValue (wi_body r) of
      None \<Rightarrow> answer (writeErr BadRequest)
    | Some v \<Rightarrow> (case dec v of None \<Rightarrow> answer (writeErr BadRequest) | Some x \<Rightarrow> go x))"

text \<open>A pointer field: absent or \<open>null\<close> is nil.\<close>

definition getPtr :: "string \<Rightarrow> (jvalue \<Rightarrow> 'a option) \<Rightarrow> jmembers \<Rightarrow> 'a option option" where
  "getPtr nm dec ms = fold (\<lambda>(k, v) acc. case acc of None \<Rightarrow> None
     | Some a \<Rightarrow> if map lowerChar k \<noteq> nm then Some a
         else if v = VNull then Some None else map_option Some (dec v)) ms (Some None)"

definition getStr :: "string \<Rightarrow> jmembers \<Rightarrow> string option" where "getStr nm = getField nm decStr ''''"
definition getInt :: "string \<Rightarrow> jmembers \<Rightarrow> int option" where "getInt nm = getField nm decInt 0"
definition getBool :: "string \<Rightarrow> jmembers \<Rightarrow> bool option" where "getBool nm = getField nm decBool False"

text \<open>A slice or a map field, nil read as empty.\<close>

definition getList :: "string \<Rightarrow> (jvalue \<Rightarrow> 'a option) \<Rightarrow> jmembers \<Rightarrow> 'a list option" where
  "getList nm dec ms = map_option (\<lambda>x. case x of None \<Rightarrow> [] | Some l \<Rightarrow> l) (getSlice nm dec ms)"

definition strElem :: "jvalue \<Rightarrow> string option" where "strElem = orZero '''' decStr"
definition intElem :: "jvalue \<Rightarrow> int option" where "intElem = orZero 0 decInt"

definition getCaps :: "string \<Rightarrow> jmembers \<Rightarrow> (string \<times> int) list option" where
  "getCaps nm ms = fold (\<lambda>(k, v) acc. case acc of None \<Rightarrow> None
     | Some a \<Rightarrow> if map lowerChar k \<noteq> nm then Some a
         else map_option (\<lambda>x. case x of None \<Rightarrow> [] | Some es \<Rightarrow> es) (decMap intElem v)) ms (Some [])"

section \<open>The bodies of the handlers\<close>

definition decLogin :: "jvalue \<Rightarrow> (string \<times> string) option" where
  "decLogin = strictStruct [''email'', ''password'', ''otp''] (\<lambda>ms.
     obind (getStr ''email'' ms) (\<lambda>e. obind (getStr ''password'' ms) (\<lambda>p.
     obind (getStr ''otp'' ms) (\<lambda>_. Some (e, p)))))"

definition decPasswords :: "jvalue \<Rightarrow> (string \<times> string) option" where
  "decPasswords = strictStruct [''old_password'', ''new_password''] (\<lambda>ms.
     obind (getStr ''old_password'' ms) (\<lambda>a. map_option (Pair a) (getStr ''new_password'' ms)))"

definition decOneStr :: "string \<Rightarrow> jvalue \<Rightarrow> string option" where
  "decOneStr nm = strictStruct [nm] (getStr nm)"

definition decAssociate :: "jvalue \<Rightarrow> associate_input option" where
  "decAssociate = strictStruct [''newapi_user_id'', ''access_token'', ''name_policy''] (\<lambda>ms.
     obind (getInt ''newapi_user_id'' ms) (\<lambda>u. obind (getStr ''access_token'' ms) (\<lambda>t.
     obind (getStr ''name_policy'' ms) (\<lambda>p. Some \<lparr>as_user = u, as_token = t, as_policy = p\<rparr>))))"

definition decCreateOrg :: "jvalue \<Rightarrow> create_org_input option" where
  "decCreateOrg = strictStruct [''name'', ''slug'', ''admin_email'', ''admin_password'', ''newapi_user_group'', ''associate''] (\<lambda>ms.
     obind (getStr ''name'' ms) (\<lambda>n. obind (getStr ''slug'' ms) (\<lambda>s.
     obind (getStr ''admin_email'' ms) (\<lambda>e. obind (getStr ''admin_password'' ms) (\<lambda>p.
     obind (getStr ''newapi_user_group'' ms) (\<lambda>g. obind (getPtr ''associate'' decAssociate ms) (\<lambda>a.
     Some \<lparr>co_name = n, co_slug = s, co_admin_email = e, co_admin_password = p, co_group = g, co_associate = a\<rparr>)))))))"

definition decOrgSettings :: "jvalue \<Rightarrow> (string option \<times> string option \<times> int option) option" where
  "decOrgSettings = strictStruct [''name'', ''timezone'', ''default_tier_id''] (\<lambda>ms.
     obind (getPtr ''name'' decStr ms) (\<lambda>n. obind (getPtr ''timezone'' decStr ms) (\<lambda>z.
     obind (getPtr ''default_tier_id'' decInt ms) (\<lambda>t. Some (n, z, t)))))"

definition decRules :: "jvalue \<Rightarrow> (int option \<times> int option \<times> int option) option" where
  "decRules = strictStruct [''auto_max_quota'', ''auto_max_days'', ''l1_max_quota''] (\<lambda>ms.
     obind (getPtr ''auto_max_quota'' decInt ms) (\<lambda>a. obind (getPtr ''auto_max_days'' decInt ms) (\<lambda>d.
     obind (getPtr ''l1_max_quota'' decInt ms) (\<lambda>l. Some (a, d, l)))))"

definition decCreateTeam :: "jvalue \<Rightarrow> (string \<times> int option) option" where
  "decCreateTeam = strictStruct [''name'', ''default_tier_id''] (\<lambda>ms.
     obind (getStr ''name'' ms) (\<lambda>n. map_option (Pair n) (getPtr ''default_tier_id'' decInt ms)))"

definition decTier :: "jvalue \<Rightarrow> tier option" where
  "decTier = strictStruct [''name'', ''model_set'', ''model_cap'', ''daily_limit'', ''weekly_limit'', ''monthly_limit'', ''newapi_group''] (\<lambda>ms.
     obind (getStr ''name'' ms) (\<lambda>n. obind (getList ''model_set'' strElem ms) (\<lambda>s.
     obind (getCaps ''model_cap'' ms) (\<lambda>c. obind (getPtr ''daily_limit'' decInt ms) (\<lambda>d.
     obind (getPtr ''weekly_limit'' decInt ms) (\<lambda>w. obind (getPtr ''monthly_limit'' decInt ms) (\<lambda>m.
     obind (getPtr ''newapi_group'' decStr ms) (\<lambda>g.
     Some \<lparr>tr_id = 0, tr_org = 0, tr_name = n, tr_model_set = s, tr_model_cap = c, tr_daily = d, tr_weekly = w,
        tr_monthly = m, tr_group = g, tr_default = False, tr_deleted = False\<rparr>))))))))"

definition ptrSlice :: "jvalue \<Rightarrow> string list option" where
  "ptrSlice v = (case v of VArr vs \<Rightarrow> decAll strElem vs | _ \<Rightarrow> None)"

definition ptrMap :: "jvalue \<Rightarrow> (string \<times> int) list option" where
  "ptrMap v = obind (decMap intElem v) id"

definition decTierInput :: "jvalue \<Rightarrow> tier_input option" where
  "decTierInput = strictStruct [''name'', ''model_set'', ''model_cap'', ''daily_limit'', ''weekly_limit'', ''monthly_limit'', ''newapi_group''] (\<lambda>ms.
     obind (getPtr ''name'' decStr ms) (\<lambda>n. obind (getPtr ''model_set'' ptrSlice ms) (\<lambda>s.
     obind (getPtr ''model_cap'' ptrMap ms) (\<lambda>c. obind (getPtr ''daily_limit'' decInt ms) (\<lambda>d.
     obind (getPtr ''weekly_limit'' decInt ms) (\<lambda>w. obind (getPtr ''monthly_limit'' decInt ms) (\<lambda>m.
     obind (getPtr ''newapi_group'' decStr ms) (\<lambda>g.
     Some \<lparr>ti_name = n, ti_model_set = s, ti_model_cap = c, ti_daily = d, ti_weekly = w, ti_monthly = m, ti_group = g\<rparr>))))))))"

definition decOpenMember :: "jvalue \<Rightarrow> (string \<times> string \<times> int option \<times> int option) option" where
  "decOpenMember = strictStruct [''name'', ''email'', ''team_id'', ''tier_id''] (\<lambda>ms.
     obind (getStr ''name'' ms) (\<lambda>n. obind (getStr ''email'' ms) (\<lambda>e.
     obind (getPtr ''team_id'' decInt ms) (\<lambda>t. obind (getPtr ''tier_id'' decInt ms) (\<lambda>r. Some (n, e, t, r))))))"

definition decUpdateMember :: "jvalue \<Rightarrow> (int option \<times> int option \<times> string option) option" where
  "decUpdateMember = strictStruct [''team_id'', ''tier_id'', ''display_name''] (\<lambda>ms.
     obind (getPtr ''team_id'' decInt ms) (\<lambda>t. obind (getPtr ''tier_id'' decInt ms) (\<lambda>r.
     obind (getPtr ''display_name'' decStr ms) (\<lambda>d. Some (t, r, d)))))"

definition decPolicy :: "jvalue \<Rightarrow> quota_policy option" where
  "decPolicy = strictStruct [''scope'', ''scope_id'', ''period'', ''limit_quota'', ''reset_anchor''] (\<lambda>ms.
     obind (getStr ''scope'' ms) (\<lambda>s. obind (getInt ''scope_id'' ms) (\<lambda>i.
     obind (getStr ''period'' ms) (\<lambda>p. obind (getInt ''limit_quota'' ms) (\<lambda>l.
     obind (getStr ''reset_anchor'' ms) (\<lambda>a.
     Some \<lparr>q_id = 0, q_org = 0, q_scope = s, q_scope_id = i, q_period = p, q_limit = l, q_anchor = a,
        q_status = '''', q_last_reset = None\<rparr>))))))"

definition decApproval :: "jvalue \<Rightarrow> (string \<times> int \<times> string \<times> string) option" where
  "decApproval = strictStruct [''model'', ''amount_quota'', ''duration'', ''reason''] (\<lambda>ms.
     obind (getStr ''model'' ms) (\<lambda>m. obind (getInt ''amount_quota'' ms) (\<lambda>a.
     obind (getStr ''duration'' ms) (\<lambda>d. obind (getStr ''reason'' ms) (\<lambda>r. Some (m, a, d, r))))))"

definition decDecision :: "jvalue \<Rightarrow> (bool \<times> string) option" where
  "decDecision = strictStruct [''approved'', ''comment''] (\<lambda>ms.
     obind (getBool ''approved'' ms) (\<lambda>a. map_option (Pair a) (getStr ''comment'' ms)))"

definition decBulkOpen :: "jvalue \<Rightarrow> (string list \<times> int option \<times> int option) option" where
  "decBulkOpen = strictStruct [''names'', ''team_id'', ''tier_id''] (\<lambda>ms.
     obind (getList ''names'' strElem ms) (\<lambda>n. obind (getPtr ''team_id'' decInt ms) (\<lambda>t.
     obind (getPtr ''tier_id'' decInt ms) (\<lambda>r. Some (n, t, r)))))"

definition decBulkStatus :: "jvalue \<Rightarrow> (int list \<times> bool) option" where
  "decBulkStatus = strictStruct [''member_ids'', ''enabled''] (\<lambda>ms.
     obind (getList ''member_ids'' intElem ms) (\<lambda>i. map_option (Pair i) (getBool ''enabled'' ms)))"

definition decRecharge :: "jvalue \<Rightarrow> (int \<times> string \<times> int option \<times> string) option" where
  "decRecharge = strictStruct [''amount_quota'', ''transfer_no'', ''amount_cny'', ''note''] (\<lambda>ms.
     obind (getInt ''amount_quota'' ms) (\<lambda>a. obind (getStr ''transfer_no'' ms) (\<lambda>t.
     obind (getPtr ''amount_cny'' decInt ms) (\<lambda>y. obind (getStr ''note'' ms) (\<lambda>n. Some (a, t, y, n))))))"

definition decDebit :: "jvalue \<Rightarrow> (int \<times> string) option" where
  "decDebit = strictStruct [''amount_quota'', ''reason''] (\<lambda>ms.
     obind (getInt ''amount_quota'' ms) (\<lambda>a. map_option (Pair a) (getStr ''reason'' ms)))"

definition decRechargeRequest :: "jvalue \<Rightarrow> (string \<times> int \<times> string) option" where
  "decRechargeRequest = strictStruct [''type'', ''amount_quota'', ''note''] (\<lambda>ms.
     obind (getStr ''type'' ms) (\<lambda>t. obind (getInt ''amount_quota'' ms) (\<lambda>a.
     obind (getStr ''note'' ms) (\<lambda>n. Some (t, a, n)))))"

definition decBillingSettings :: "jvalue \<Rightarrow> (bool option \<times> bool option \<times> int option) option" where
  "decBillingSettings = strictStruct [''billing_enabled'', ''hard_stop_enabled'', ''low_watermark_quota''] (\<lambda>ms.
     obind (getPtr ''billing_enabled'' decBool ms) (\<lambda>b. obind (getPtr ''hard_stop_enabled'' decBool ms) (\<lambda>h.
     obind (getPtr ''low_watermark_quota'' decInt ms) (\<lambda>l. Some (b, h, l)))))"

definition decPricing :: "jvalue \<Rightarrow> (string \<times> flt \<times> string list) option" where
  "decPricing = strictStruct [''mode'', ''discount_pct'', ''token_groups''] (\<lambda>ms.
     obind (getStr ''mode'' ms) (\<lambda>m. obind (getField ''discount_pct'' decFloat (0, 1) ms) (\<lambda>d.
     obind (getList ''token_groups'' strElem ms) (\<lambda>g. Some (m, d, g)))))"

definition decAdjust :: "jvalue \<Rightarrow> (int \<times> string \<times> string) option" where
  "decAdjust = strictStruct [''delta_quota'', ''duration'', ''reason''] (\<lambda>ms.
     obind (getInt ''delta_quota'' ms) (\<lambda>d. obind (getStr ''duration'' ms) (\<lambda>u.
     obind (getStr ''reason'' ms) (\<lambda>r. Some (d, u, r)))))"

definition decGrant :: "jvalue \<Rightarrow> (string \<times> string \<times> string \<times> string) option" where
  "decGrant = strictStruct [''type'', ''model'', ''expire_at'', ''reason''] (\<lambda>ms.
     obind (getStr ''type'' ms) (\<lambda>t. obind (getStr ''model'' ms) (\<lambda>m.
     obind (getStr ''expire_at'' ms) (\<lambda>e. obind (getStr ''reason'' ms) (\<lambda>r. Some (t, m, e, r))))))"

definition decEnabled :: "jvalue \<Rightarrow> bool option" where
  "decEnabled = strictStruct [''enabled''] (getBool ''enabled'')"

definition decOpenSupport :: "jvalue \<Rightarrow> (string \<times> string \<times> int \<times> string) option" where
  "decOpenSupport = strictStruct [''scope'', ''grant_type'', ''ttl_seconds'', ''reason''] (\<lambda>ms.
     obind (getStr ''scope'' ms) (\<lambda>s. obind (getStr ''grant_type'' ms) (\<lambda>g.
     obind (getInt ''ttl_seconds'' ms) (\<lambda>t. obind (getStr ''reason'' ms) (\<lambda>r. Some (s, g, t, r))))))"

definition decOptGroup :: "jvalue \<Rightarrow> string option option" where
  "decOptGroup = strictStruct [''group''] (getPtr ''group'' decStr)"

end
