(* ===== verification/Notifications.thy ===== *)
theory Notifications
  imports Members
begin

text \<open>
  Reading the notifications of a member and marking them (\<open>repo/notification.go\<close>, \<open>service/notify.go\<close>),
  and the service status (\<open>service/status.go\<close>).  Rows are only added at the end and never deleted, so
  the identifier of a notification is its position in the table, from 1.
\<close>

definition ownNotifications :: "int \<Rightarrow> int \<Rightarrow> db \<Rightarrow> (nat \<times> notification) list" where
  "ownNotifications org mem d =
     filter (\<lambda>(i, n). n_org n = org \<and> n_member n = mem) (zip [1..<Suc (length (notifications d))] (notifications d))"

definition ListNotificationsRepo :: "int \<Rightarrow> int \<Rightarrow> nat \<Rightarrow> nat \<Rightarrow> ('u, (nat \<times> notification) list \<times> nat \<times> nat) op" where
  "ListNotificationsRepo org mem limit offset =
     bind (query (\<lambda>d. (length (ownNotifications org mem d),
        length (filter (\<lambda>(i, n). \<not> n_read n) (ownNotifications org mem d))))) (\<lambda>(tot, unread).
     bind (query (\<lambda>d. page limit offset (ownNotifications org mem d))) (\<lambda>ns.
     return (ns, tot, unread)))"

definition MarkNotificationReadRepo :: "int \<Rightarrow> int \<Rightarrow> int \<Rightarrow> ('u, unit) op" where
  "MarkNotificationReadRepo org mem i =
     exec (\<lambda>d. d\<lparr>notifications := map (\<lambda>(j, n).
        if n_org n = org \<and> n_member n = mem \<and> (i = 0 \<or> i = int j) then n\<lparr>n_read := True\<rparr> else n)
        (zip [1..<Suc (length (notifications d))] (notifications d))\<rparr>)"

definition ListNotifications :: "claims \<Rightarrow> nat \<Rightarrow> nat \<Rightarrow> ('u, (nat \<times> notification) list \<times> nat \<times> nat) op" where
  "ListNotifications c limit offset = ListNotificationsRepo (cl_org c) (cl_member c) limit offset"

definition MarkNotificationRead :: "claims \<Rightarrow> int \<Rightarrow> ('u, unit) op" where
  "MarkNotificationRead c i = mapErr internal (MarkNotificationReadRepo (cl_org c) (cl_member c) i)"

definition GetServiceStatus :: "string \<times> string list" where
  "GetServiceStatus = (''operational'', [])"

end
