(* ===== verification/Views.thy ===== *)
theory Views
  imports Wire Notifications UsageReports Approvals Admin Pricing Escrow Backfill Billing
begin

text \<open>
  What goes out (\<open>handler/views.go\<close> and the view functions of the handlers, with the JSON tags of the
  service's result types): each view as the JSON value the encoder writes, members in the order of the
  struct or, for a map, in the order of the keys.  Left out with their columns: times of creation,
  titles, bodies and other texts for people, the applicant's name and the identifier of a recharge.
\<close>

section \<open>Pieces\<close>

definition optValue :: "('a \<Rightarrow> jvalue) \<Rightarrow> 'a option \<Rightarrow> jvalue" where
  "optValue f x = (case x of None \<Rightarrow> VNull | Some a \<Rightarrow> f a)"

definition optInt :: "int option \<Rightarrow> jvalue" where "optInt = optValue intValue"
definition optText :: "string option \<Rightarrow> jvalue" where "optText = optValue VStr"
definition natValue :: "nat \<Rightarrow> jvalue" where "natValue n = intValue (int n)"
definition floatValue :: "flt \<Rightarrow> jvalue" where "floatValue f = VNum (floatText f)"

text \<open>A slice that is nil when it is empty, and members left out when they are zero.\<close>

definition nilSlice :: "string list \<Rightarrow> jvalue" where
  "nilSlice xs = (if xs = [] then VNull else VArr (map VStr xs))"

definition omitInt :: "string \<Rightarrow> int \<Rightarrow> jmembers" where
  "omitInt k n = (if n = 0 then [] else [(k, intValue n)])"

definition omitStr :: "string \<Rightarrow> string \<Rightarrow> jmembers" where
  "omitStr k s = (if s = '''' then [] else [(k, VStr s)])"

definition anyMap :: "jmembers \<Rightarrow> jvalue" where "anyMap ms = mapValue id ms"

text \<open>\<open>Format(time.RFC3339)\<close> of a time in a zone that is \<open>off\<close> seconds east of Greenwich.\<close>

definition timeTextAt :: "int \<Rightarrow> int \<Rightarrow> string" where
  "timeTextAt off t =
     (let s = t div 10 ^ 9 + off; (y, m, d) = civil (s div 86400); r = s mod 86400; o' = abs off div 60
      in padTo 4 y @ ''-'' @ padTo 2 m @ ''-'' @ padTo 2 d @ ''T'' @ padTo 2 (r div 3600) @ '':''
         @ padTo 2 (r div 60 mod 60) @ '':'' @ padTo 2 (r mod 60)
         @ (if off = 0 then ''Z'' else (if off < 0 then ''-'' else ''+'') @ padTo 2 (o' div 60) @ '':'' @ padTo 2 (o' mod 60)))"

definition timeText :: "int \<Rightarrow> string" where "timeText = timeTextAt 0"

text \<open>The zone a time was written in: a parsed time keeps it.\<close>

definition writtenZone :: "string \<Rightarrow> int" where
  "writtenZone s = (case zone (drop (length s - 6) s) of Some off \<Rightarrow> off | None \<Rightarrow> 0)"

section \<open>Enumerations\<close>

fun orgStatusText :: "org_status \<Rightarrow> string" where
  "orgStatusText OrgStatusActive = ''active''"
| "orgStatusText OrgStatusLow = ''low''"
| "orgStatusText OrgStatusStopped = ''stopped''"
| "orgStatusText OrgStatusHardStopped = ''hard_stopped''"

fun memberStatusText :: "member_status \<Rightarrow> string" where
  "memberStatusText MemberStatusActive = ''active''"
| "memberStatusText MemberStatusDisabled = ''disabled''"
| "memberStatusText MemberStatusOffboarded = ''offboarded''"
| "memberStatusText MemberStatusExpired = ''expired''"
| "memberStatusText MemberStatusPending = ''pending''"
| "memberStatusText MemberStatusProvisioning = ''provisioning''"

fun bootstrapText :: "bootstrap_state \<Rightarrow> string" where
  "bootstrapText BootstrapPending = ''pending''"
| "bootstrapText BootstrapDone = ''done''"
| "bootstrapText BootstrapFailed = ''failed''"

fun grantTypeText :: "grant_type \<Rightarrow> string" where
  "grantTypeText GrantQuotaAdd = ''quota_add''"
| "grantTypeText GrantQuotaSub = ''quota_sub''"
| "grantTypeText GrantModelAdd = ''model_add''"
| "grantTypeText GrantAccountTTL = ''account_ttl''"

fun grantStatusText :: "grant_status \<Rightarrow> string" where
  "grantStatusText GrantStatusActive = ''active''"
| "grantStatusText GrantStatusExpired = ''expired''"
| "grantStatusText GrantStatusRevoked = ''revoked''"

fun approvalStateText :: "approval_state \<Rightarrow> string" where
  "approvalStateText ApprovalPending = ''pending''"
| "approvalStateText ApprovalL1Approved = ''l1_approved''"
| "approvalStateText ApprovalApproved = ''approved''"
| "approvalStateText ApprovalRejected = ''rejected''"
| "approvalStateText ApprovalAutoApprove = ''auto_approved''"
| "approvalStateText ApprovalCancelled = ''cancelled''"

fun requestTypeText :: "request_type \<Rightarrow> string" where
  "requestTypeText ReqQuotaRaise = ''quota_raise''"
| "requestTypeText ReqModelOpen = ''model_open''"

fun billingKindText :: "billing_kind \<Rightarrow> string" where
  "billingKindText BillingKindWallet = ''wallet''"
| "billingKindText BillingKindSub = ''subscription''"

fun backfillText :: "backfill_status \<Rightarrow> string" where
  "backfillText BfPending = ''pending''"
| "backfillText BfRunning = ''running''"
| "backfillText BfDone = ''done''"
| "backfillText BfFailed = ''failed''"

section \<open>People and organizations\<close>

definition viewFields :: "member_view \<Rightarrow> jmembers" where
  "viewFields v =
     [(''id'', intValue (mv_id v)), (''org_id'', intValue (mv_org v)), (''team_id'', optInt (mv_team v)),
      (''login_email'', VStr (mv_email v)), (''display_name'', optText (mv_display v)),
      (''role'', VStr (roleString (mv_role v))), (''tier_id'', optInt (mv_tier v)),
      (''newapi_group'', optText (mv_group v)), (''status'', VStr (memberStatusText (mv_status v))),
      (''key_masked'', optText (mv_key_masked v)), (''bootstrap_state'', VStr (bootstrapText (mv_bootstrap v)))]"

definition memberFields :: "member \<Rightarrow> jmembers" where "memberFields m = viewFields (toMemberView m)"

definition memberView :: "member \<Rightarrow> jvalue" where "memberView m = VObj (memberFields m)"

definition orgView :: "organization \<Rightarrow> jvalue" where
  "orgView o' = VObj [(''id'', intValue (o_id o')), (''name'', VStr (o_name o')), (''slug'', VStr (o_slug o')),
     (''status'', VStr (orgStatusText (o_status o'))), (''timezone'', VStr (o_timezone o')),
     (''default_tier_id'', optInt (o_default_tier o')), (''billing_mode'', VStr ''prepaid''), (''archived'', VBool (o_archived o')),
     (''newapi_created_by_platform'', VBool (o_created_by_platform o')),
     (''billing_kind'', VStr (billingKindText (o_billing_kind o')))]"

definition teamFields :: "team \<Rightarrow> jmembers" where
  "teamFields t = [(''id'', intValue (t_id t)), (''org_id'', intValue (t_org t)), (''name'', VStr (t_name t)),
     (''default_tier_id'', optInt (t_default_tier t)), (''status'', VStr (t_status t))]"

definition teamCountView :: "team \<times> nat \<Rightarrow> jvalue" where
  "teamCountView = (\<lambda>(t, n). VObj (teamFields t @ [(''member_count'', natValue n)]))"

definition tierView :: "tier \<Rightarrow> jvalue" where
  "tierView t = VObj ([(''id'', intValue (tr_id t)), (''org_id'', intValue (tr_org t)), (''name'', VStr (tr_name t)),
     (''model_set'', nilSlice (tr_model_set t))]
     @ (if tr_model_cap t = [] then [] else [(''model_cap'', mapValue intValue (tr_model_cap t))])
     @ [(''monthly_limit_quota'', optInt (tr_monthly t)), (''newapi_group'', optText (tr_group t)),
        (''is_default'', VBool (tr_default t)), (''status'', VStr ''active'')])"

definition grantView :: "grant \<Rightarrow> jvalue" where
  "grantView g = VObj ([(''id'', intValue (g_id g)), (''member_id'', intValue (g_member g)),
       (''grant_type'', VStr (grantTypeText (g_type g)))]
     @ omitInt ''delta'' (gp_delta (g_payload g)) @ omitStr ''model'' (gp_model (g_payload g))
     @ omitStr ''reason'' (case g_reason g of None \<Rightarrow> '''' | Some r \<Rightarrow> r)
     @ [(''operator'', VStr (g_operator g)), (''expire_at'', VStr (timeText (g_expire g))),
        (''status'', VStr (grantStatusText (g_status g)))])"

definition policyView :: "quota_policy \<Rightarrow> jvalue" where
  "policyView p = anyMap [(''id'', intValue (q_id p)), (''scope'', VStr (q_scope p)), (''scope_id'', intValue (q_scope_id p)),
     (''period'', VStr (q_period p)), (''limit_quota'', intValue (q_limit p)), (''reset_anchor'', VStr (q_anchor p)),
     (''status'', VStr (q_status p))]"

definition rulesView :: "int \<times> int \<times> int \<Rightarrow> jvalue" where
  "rulesView = (\<lambda>(autoQuota, autoDays, l1). anyMap [(''auto_max_quota'', intValue autoQuota),
     (''auto_max_days'', intValue autoDays), (''l1_max_quota'', intValue l1)])"

definition approvalView :: "approval \<Rightarrow> jvalue" where
  "approvalView a = VObj ([(''id'', intValue (a_id a)), (''applicant_id'', intValue (a_applicant a)),
       (''team_id'', optInt (a_team a)), (''request_type'', VStr (requestTypeText (a_type a)))]
     @ omitStr ''model'' (ap_model (a_payload a))
     @ [(''amount_quota'', intValue (ap_amount (a_payload a))), (''duration'', VStr (ap_duration (a_payload a)))]
     @ omitStr ''reason'' (ap_reason (a_payload a))
     @ [(''state'', VStr (approvalStateText (a_state a))), (''is_level2'', VBool (a_level2 a))])"

definition notificationView :: "nat \<times> notification \<Rightarrow> jvalue" where
  "notificationView = (\<lambda>(i, n). VObj [(''id'', natValue i), (''type'', VStr (n_type n)), (''is_read'', VBool (n_read n))])"

definition supportFields :: "support_session \<Rightarrow> jmembers" where
  "supportFields ss = [(''session_id'', intValue (ss_id ss)), (''org_id'', intValue (ss_org ss)), (''actor'', VStr (ss_actor ss)),
     (''on_behalf_of'', VStr (''org_admin@org'' @ itoa (ss_org ss))), (''scope'', VStr (ss_scope ss)),
     (''grant_type'', VStr (case ss_grant ss of None \<Rightarrow> '''' | Some g \<Rightarrow> g)), (''state'', VStr (ss_state ss)),
     (''expire_at'', VStr (timeText (ss_expire ss)))]"

definition bulkView :: "bulk_row \<Rightarrow> jvalue" where
  "bulkView b = VObj (omitStr ''name'' (bk_name b) @ omitInt ''member_id'' (bk_member b) @ [(''ok'', VBool (bk_ok b))])"

section \<open>Money\<close>

definition toDisplay :: "int \<Rightarrow> flt" where
  "toDisplay quota = (let f = fl (abs quota, 1); g = fl (fst f, snd f * 500000) in (sgn quota * fst g, snd g))"

definition balanceView :: "int \<times> billing_kind \<Rightarrow> jvalue" where
  "balanceView = (\<lambda>(avail, kind). VObj [(''available_quota'', intValue avail), (''available_display'', floatValue (toDisplay avail)),
     (''billing_kind'', VStr (billingKindText kind)), (''currency'', VStr ''USD'')])"

definition rechargeView :: "recharge \<times> string \<Rightarrow> jvalue" where
  "rechargeView = (\<lambda>(r, nm). VObj ([(''amount_quota'', intValue (r_amount r)), (''transfer_no'', VStr (r_transfer_no r)),
       (''operator'', VStr (r_operator r))] @ omitStr ''operator_name'' nm
     @ omitStr ''note'' (case r_note r of None \<Rightarrow> '''' | Some s \<Rightarrow> s)))"

definition rechargeReqView :: "recharge_request \<Rightarrow> jvalue" where
  "rechargeReqView q = VObj ([(''id'', intValue (rq_id q)), (''request_type'', VStr (rq_type q)),
       (''amount_quota'', intValue (rq_amount q)), (''applicant'', VStr (rq_applicant q)), (''status'', VStr ''pending'')]
     @ omitStr ''note'' (case rq_note q of None \<Rightarrow> '''' | Some s \<Rightarrow> s))"

definition settingsView :: "bool \<times> bool \<times> int \<Rightarrow> jvalue" where
  "settingsView = (\<lambda>(enabled, hardStop, low). anyMap [(''billing_enabled'', VBool enabled), (''hard_stop_enabled'', VBool hardStop),
     (''low_watermark_quota'', intValue low)])"

definition derivedView :: "derived_balance \<Rightarrow> jvalue" where
  "derivedView b = VObj [(''window_quota'', intValue (db_window b)), (''holding_quota'', intValue (db_holding b)),
     (''available_quota'', intValue (db_available b))]"

definition entryView :: "discount_entry \<Rightarrow> jvalue" where
  "entryView e = VObj [(''pct'', floatValue (de_pct e)), (''base'', floatValue (de_base e)), (''abs'', floatValue (de_abs e))]"

definition pricingView :: "pricing_view \<Rightarrow> jvalue" where
  "pricingView v = anyMap [(''mode'', VStr (pv_mode v)), (''user_group'', VStr (pv_user_group v)),
     (''entries'', mapValue entryView (pv_entries v)), (''upstream_special_ratio'', mapValue floatValue (pv_upstream v))]"

definition groupView :: "string \<times> flt \<times> string list \<Rightarrow> jvalue" where
  "groupView = (\<lambda>(g, r, ms). VObj [(''group'', VStr g), (''ratio'', floatValue r), (''models'', nilSlice ms)])"

definition driftView :: "discount_drift \<Rightarrow> jvalue" where
  "driftView x = VObj [(''org_id'', intValue (dd_org x)), (''user_group'', VStr (dd_user_group x)),
     (''token_group'', VStr (dd_token_group x)), (''kind'', VStr (driftString (dd_kind x))),
     (''expected'', floatValue (dd_expected x)), (''actual'', floatValue (dd_actual x))]"

section \<open>Usage\<close>

definition bucketView :: "usage_bucket \<Rightarrow> jvalue" where
  "bucketView b = VObj ([(''key'', VStr (ub_key b))] @ omitStr ''label'' (ub_label b) @ omitInt ''member_id'' (ub_member b)
     @ [(''consumed_quota'', intValue (ub_consumed b)), (''count'', intValue (ub_count b))])"

definition bucketsOf :: "usage_bucket list option \<Rightarrow> jvalue" where
  "bucketsOf = optValue (\<lambda>bs. VArr (map bucketView bs))"

definition usageView :: "usage_report \<Rightarrow> jvalue" where
  "usageView u = anyMap [(''since_hours'', intValue (us_hours u)), (''total_quota'', intValue (us_total u)),
     (''by_model'', VArr (map bucketView (us_by_model u))), (''by_member'', bucketsOf (us_by_member u)),
     (''by_team'', bucketsOf (us_by_team u))]"

definition pointView :: "string \<times> int \<Rightarrow> jvalue" where
  "pointView = (\<lambda>(p, n). VObj [(''period'', VStr p), (''consumed_quota'', intValue n)])"

definition detailView :: "detail_row \<Rightarrow> jvalue" where
  "detailView d = VObj ([(''log_ts'', VStr (timeText (d_ts d))), (''model_name'', VStr (d_model d)), (''key_id'', intValue (d_key d))]
     @ omitInt ''member_id'' (d_member d)
     @ [(''prompt_tokens'', intValue (d_prompt d)), (''completion_tokens'', intValue (d_completion d)),
        (''consumed_quota'', intValue (d_consumed d))])"

definition detailPageView :: "detail_page \<Rightarrow> jvalue" where
  "detailPageView p = VObj [(''records'', VArr (map detailView (dp_records p))), (''total'', intValue (dp_total p)),
     (''page'', intValue (dp_page p)), (''page_size'', intValue (dp_size p))]"

definition backfillView :: "backfill_view \<Rightarrow> jvalue" where
  "backfillView v = VObj [(''status'', VStr (case bv_status v of None \<Rightarrow> ''none'' | Some s \<Rightarrow> backfillText s)),
     (''rows_ingested'', intValue (bv_rows v)), (''earliest_seen_ts'', optInt (bv_earliest v))]"

section \<open>Lists\<close>

definition metaView :: "page_meta \<Rightarrow> jvalue" where
  "metaView m = VObj [(''page'', intValue (pm_page m)), (''page_size'', intValue (pm_size m)),
     (''total'', intValue (pm_total m)), (''total_pages'', intValue (pm_pages m))]"

definition listResp :: "jvalue list \<Rightarrow> page_meta \<Rightarrow> jvalue" where
  "listResp vs m = VObj [(''list'', VArr vs), (''pagination'', metaView m)]"

section \<open>The export\<close>

text \<open>\<open>%.6f\<close> of a number of dollars: six decimals, the nearest, ties to even on the binary value.\<close>

definition usdStr :: "int \<Rightarrow> string" where
  "usdStr quota =
     (let f = toDisplay (abs quota); n = rdiv (fst f * 10 ^ 6) (snd f)
      in (if quota < 0 then ''-'' else []) @ itoa (n div 10 ^ 6) @ ''.'' @ padTo 6 (n mod 10 ^ 6))"

definition csvEsc :: "string \<Rightarrow> string" where
  "csvEsc s0 =
     (let s = (case s0 of c # _ \<Rightarrow> if c \<in> set (''=+-@'' @ [CHR 0x09, CHR 0x0D]) then CHR 0x27 # s0 else s0 | [] \<Rightarrow> s0)
      in if list_ex (\<lambda>c. c \<in> {CHR '','', CHR 0x22, CHR 0x0A}) s
         then CHR 0x22 # concat (map (\<lambda>c. if c = CHR 0x22 then [c, c] else [c]) s) @ [CHR 0x22] else s)"

definition csvHead :: string where
  "csvHead = byteString [0xE7, 0xBB, 0xB4, 0xE5, 0xBA, 0xA6] @ '','' @ byteString [0xE5, 0x90, 0x8D, 0xE7, 0xA7, 0xB0] @ '',''
     @ byteString [0xE8, 0xB4, 0xB9, 0xE7, 0x94, 0xA8] @ ''('' @ byteString [0xE7, 0xBE, 0x8E, 0xE5, 0x85, 0x83] @ ''),''
     @ byteString [0xE8, 0xB0, 0x83, 0xE7, 0x94, 0xA8, 0xE6, 0xAC, 0xA1, 0xE6, 0x95, 0xB0] @ [CHR 0x0A]"

definition csvModel :: string where "csvModel = byteString [0xE6, 0xA8, 0xA1, 0xE5, 0x9E, 0x8B]"
definition csvMember :: string where "csvMember = byteString [0xE5, 0x91, 0x98, 0xE5, 0xB7, 0xA5]"

definition csvUnknown :: "string \<Rightarrow> string" where
  "csvUnknown key = byteString [0xE6, 0x9C, 0xAA, 0xE7, 0x9F, 0xA5, 0xE6, 0x88, 0x90, 0xE5, 0x91, 0x98] @ ''(uid '' @ key @ '')''"

definition csvLine :: "string \<Rightarrow> string \<Rightarrow> usage_bucket \<Rightarrow> string" where
  "csvLine kind nm b = kind @ '','' @ csvEsc nm @ '','' @ usdStr (ub_consumed b) @ '','' @ itoa (ub_count b) @ [CHR 0x0A]"

definition usageSheet :: "usage_report \<Rightarrow> string" where
  "usageSheet u = csvHead @ concat (map (\<lambda>b. csvLine csvModel (ub_key b) b) (us_by_model u))
     @ concat (map (\<lambda>b. csvLine csvMember (if ub_label b = '''' then csvUnknown (ub_key b) else ub_label b) b)
         (case us_by_member u of None \<Rightarrow> [] | Some bs \<Rightarrow> bs))"

end
