(* ===== verification/Handlers.thy ===== *)
theory Handlers
  imports Views
begin

text \<open>
  The handlers of organizations, teams and tiers (\<open>handler/handlers.go\<close>, \<open>handlers_admin.go\<close>,
  \<open>handlers_approval.go\<close> for notifications).  A handler reads its numbers from the path, its body or
  query, calls one operation of the service and writes its view; the first failure is the reply.
\<close>

section \<open>What a handler works with\<close>

text \<open>The data of a reply: that of an envelope, or a body without one (a sheet, a probe, a page).\<close>

datatype payload = Data jvalue | Sheet int string | Probe jvalue | Plain string

record 'u app =
  ap_svc :: "'u service"
  ap_signer :: signer
  ap_version :: string
  ap_mvp :: bool
  ap_metrics_token :: string
  ap_files :: "string \<Rightarrow> int \<times> string"

definition ok :: "int \<Rightarrow> jvalue \<Rightarrow> ('u, payload) handler" where
  "ok status v = answer (writeOK status (Data v))"

definition mapReply :: "('a \<Rightarrow> 'b) \<Rightarrow> 'a reply \<Rightarrow> 'b reply" where
  "mapReply f r = \<lparr>rp_status = rp_status r, rp_code = rp_code r, rp_data = map_option f (rp_data r), rp_retry = rp_retry r\<rparr>"

definition mapHandler :: "('a \<Rightarrow> 'b) \<Rightarrow> ('u, 'a) handler \<Rightarrow> ('u, 'b) handler" where
  "mapHandler f h s = (case h s of (r, s') \<Rightarrow> (mapReply f r, s'))"

text \<open>
  A page of a list.  An offset that has wrapped around to a negative number is an error of the
  database, found when the page is read.
\<close>

definition pageFrom :: "int \<Rightarrow> (nat \<Rightarrow> ('u, 'a) op) \<Rightarrow> ('u, 'a) op" where
  "pageFrom off f = (if off < 0 then bind (f 0) (\<lambda>_. throw (SqlError 1064)) else f (nat off))"

definition listPage :: "wire \<Rightarrow> (nat \<Rightarrow> nat \<Rightarrow> ('u, 'b list \<times> nat) op) \<Rightarrow> ('b \<Rightarrow> jvalue) \<Rightarrow> ('u, payload) handler" where
  "listPage r f view = (case pagingOf r of (pg, sz, off) \<Rightarrow>
     callSvc (pageFrom off (f (nat sz))) (\<lambda>(xs, tot).
     ok 200 (listResp (map view xs) (makePageMeta pg sz (int tot)))))"

section \<open>One's own account\<close>

definition loginEndpoint :: "'u app \<Rightarrow> request \<Rightarrow> wire \<Rightarrow> ('u, payload) handler" where
  "loginEndpoint A rq r =
     mapHandler (\<lambda>(tok, m). Data (anyMap [(''token'', VStr tok), (''member'', VObj (viewFields m))]))
       (handleLogin (ap_svc A) (ap_signer A) rq (obind (firstValue (wi_body r)) decLogin))"

definition changePasswordEndpoint :: "'u app \<Rightarrow> request \<Rightarrow> wire \<Rightarrow> claims \<Rightarrow> ('u, payload) handler" where
  "changePasswordEndpoint A rq r c =
     mapHandler (\<lambda>_. Data (VObj [(''ok'', VBool True)]))
       (handleChangePassword (ap_svc A) rq (obind (firstValue (wi_body r)) decPasswords) c)"

definition handleUpdateMe :: "'u app \<Rightarrow> wire \<Rightarrow> claims \<Rightarrow> ('u, payload) handler" where
  "handleUpdateMe A r c =
     decodeJSON (decOneStr ''display_name'') r (\<lambda>nm.
     callSvc (UpdateMyDisplayName c nm) (\<lambda>m. ok 200 (memberView m)))"

definition handleMe :: "'u app \<Rightarrow> claims \<Rightarrow> ('u, payload) handler" where
  "handleMe A c = callSvc (Me c) (\<lambda>m. ok 200 (VObj (memberFields m @ [(''mvp_mode'', VBool (ap_mvp A))])))"

section \<open>Organizations\<close>

definition handleListOrgs :: "wire \<Rightarrow> claims \<Rightarrow> ('u, payload) handler" where
  "handleListOrgs r c =
     listPage r (\<lambda>sz off. ListOrgs c sz off (queryGet r ''include_archived'' = ''true'')) orgView"

definition archiveOrg :: "bool \<Rightarrow> pathvals \<Rightarrow> claims \<Rightarrow> ('u, payload) handler" where
  "archiveOrg archived vals c =
     pathInt64 vals ''id'' (\<lambda>org.
     callSvc (SetOrgArchived c org archived) (\<lambda>_.
     ok 200 (anyMap [(''id'', intValue org), (''archived'', VBool archived)])))"

definition handleCreateOrg :: "'u app \<Rightarrow> wire \<Rightarrow> claims \<Rightarrow> ('u, payload) handler" where
  "handleCreateOrg A r c =
     decodeJSON decCreateOrg r (\<lambda>inp.
     callSvc (CreateOrg (ap_svc A) c inp) (\<lambda>res.
     ok 201 (anyMap [(''org'', orgView (cor_org res)), (''admin_member_id'', intValue (cor_admin res)),
       (''admin_email'', VStr (co_admin_email inp)), (''admin_initial_password'', VStr (cor_password res)),
       (''imported_members'', intValue (cor_imported res)), (''import_failed'', intValue (cor_failed res))])))"

definition handleHardStop :: "bool \<Rightarrow> 'u app \<Rightarrow> pathvals \<Rightarrow> claims \<Rightarrow> ('u, payload) handler" where
  "handleHardStop stop A vals c =
     pathInt64 vals ''id'' (\<lambda>org.
     callSvc (HardStopOrg (ap_svc A) c org stop) (\<lambda>_. ok 200 (VObj [(''hard_stopped'', VBool stop)])))"

definition handleReimportTokens :: "'u app \<Rightarrow> pathvals \<Rightarrow> claims \<Rightarrow> ('u, payload) handler" where
  "handleReimportTokens A vals c =
     pathInt64 vals ''id'' (\<lambda>org.
     callSvc (ReimportOrgTokens (ap_svc A) c org) (\<lambda>(imported, failed).
     ok 200 (anyMap [(''imported'', intValue imported), (''failed'', intValue failed)])))"

definition handleGetBackfill :: "pathvals \<Rightarrow> claims \<Rightarrow> ('u, payload) handler" where
  "handleGetBackfill vals c =
     pathInt64 vals ''id'' (\<lambda>org. callSvc (GetBackfillStatus c org) (\<lambda>v. ok 200 (backfillView v)))"

definition handleRequeueBackfill :: "pathvals \<Rightarrow> claims \<Rightarrow> ('u, payload) handler" where
  "handleRequeueBackfill vals c =
     pathInt64 vals ''id'' (\<lambda>org. callSvc (RequeueBackfill c org) (\<lambda>_. ok 200 (VObj [(''requeued'', VBool True)])))"

definition handleGetOrg :: "pathvals \<Rightarrow> claims \<Rightarrow> ('u, payload) handler" where
  "handleGetOrg vals c = pathInt64 vals ''id'' (\<lambda>org. callSvc (GetOrg c org) (\<lambda>o'. ok 200 (orgView o')))"

definition handleUpdateOrg :: "'u app \<Rightarrow> wire \<Rightarrow> pathvals \<Rightarrow> claims \<Rightarrow> ('u, payload) handler" where
  "handleUpdateOrg A r vals c =
     pathInt64 vals ''id'' (\<lambda>org.
     decodeJSON decOrgSettings r (\<lambda>(nm, tz, tid).
     callSvc (UpdateOrgSettings (ap_svc A) c org nm tz tid) (\<lambda>o'. ok 200 (orgView o'))))"

definition handleGetApprovalRules :: "pathvals \<Rightarrow> claims \<Rightarrow> ('u, payload) handler" where
  "handleGetApprovalRules vals c =
     pathInt64 vals ''id'' (\<lambda>org. callSvc (GetApprovalRulesService c org) (\<lambda>v. ok 200 (rulesView v)))"

definition handleSetApprovalRules :: "wire \<Rightarrow> pathvals \<Rightarrow> claims \<Rightarrow> ('u, payload) handler" where
  "handleSetApprovalRules r vals c =
     pathInt64 vals ''id'' (\<lambda>org.
     decodeJSON decRules r (\<lambda>(autoQuota, autoDays, l1).
     callSvc (SetApprovalRules c org autoQuota l1 autoDays) (\<lambda>v. ok 200 (rulesView v))))"

definition handleListPolicies :: "pathvals \<Rightarrow> claims \<Rightarrow> ('u, payload) handler" where
  "handleListPolicies vals c =
     pathInt64 vals ''id'' (\<lambda>org.
     callSvc (ListQuotaPoliciesService c org) (\<lambda>ps. ok 200 (VArr (map policyView ps))))"

definition handleSetPolicy :: "wire \<Rightarrow> pathvals \<Rightarrow> claims \<Rightarrow> ('u, payload) handler" where
  "handleSetPolicy r vals c =
     pathInt64 vals ''id'' (\<lambda>org.
     decodeJSON decPolicy r (\<lambda>p.
     callSvc (SetQuotaPolicy c org p) (\<lambda>_. ok 200 (VObj [(''ok'', VBool True)]))))"

section \<open>Teams\<close>

definition handleListTeams :: "pathvals \<Rightarrow> claims \<Rightarrow> ('u, payload) handler" where
  "handleListTeams vals c =
     pathInt64 vals ''id'' (\<lambda>org.
     callSvc (ListTeamsWithCounts c org) (\<lambda>ts. ok 200 (VArr (map teamCountView ts))))"

definition handleGetTeam :: "pathvals \<Rightarrow> claims \<Rightarrow> ('u, payload) handler" where
  "handleGetTeam vals c =
     pathInt64 vals ''id'' (\<lambda>org. pathInt64 vals ''tid'' (\<lambda>tid.
     callSvc (GetTeamDetail c org tid) (\<lambda>t. ok 200 (teamCountView t))))"

definition handleUpdateTeam :: "wire \<Rightarrow> pathvals \<Rightarrow> claims \<Rightarrow> ('u, payload) handler" where
  "handleUpdateTeam r vals c =
     pathInt64 vals ''id'' (\<lambda>org. pathInt64 vals ''tid'' (\<lambda>tid.
     decodeJSON (decOneStr ''name'') r (\<lambda>nm.
     callSvc (UpdateTeam c org tid nm) (\<lambda>t. ok 200 (VObj (teamFields t))))))"

definition teamStatusOp :: "bool \<Rightarrow> pathvals \<Rightarrow> claims \<Rightarrow> ('u, payload) handler" where
  "teamStatusOp archive vals c =
     pathInt64 vals ''id'' (\<lambda>org. pathInt64 vals ''tid'' (\<lambda>tid.
     callSvc (if archive then ArchiveTeam c org tid else UnarchiveTeam c org tid) (\<lambda>_.
     ok 200 (VObj [(''ok'', VBool True)]))))"

definition handleCreateTeam :: "wire \<Rightarrow> pathvals \<Rightarrow> claims \<Rightarrow> ('u, payload) handler" where
  "handleCreateTeam r vals c =
     pathInt64 vals ''id'' (\<lambda>org.
     decodeJSON decCreateTeam r (\<lambda>(nm, tier).
     callSvc (CreateTeam c org nm tier) (\<lambda>t. ok 201 (VObj (teamFields t)))))"

section \<open>Tiers\<close>

definition handleListTiers :: "'u app \<Rightarrow> pathvals \<Rightarrow> claims \<Rightarrow> ('u, payload) handler" where
  "handleListTiers A vals c =
     pathInt64 vals ''id'' (\<lambda>org.
     callSvc (ListTiersService (ap_svc A) c org) (\<lambda>ts. ok 200 (VArr (map tierView ts))))"

definition handleCreateTier :: "'u app \<Rightarrow> wire \<Rightarrow> pathvals \<Rightarrow> claims \<Rightarrow> ('u, payload) handler" where
  "handleCreateTier A r vals c =
     pathInt64 vals ''id'' (\<lambda>org.
     decodeJSON decTier r (\<lambda>t.
     callSvc (CreateTier (ap_svc A) c org t) (\<lambda>t'. ok 201 (tierView t'))))"

definition handleUpdateTier :: "'u app \<Rightarrow> wire \<Rightarrow> pathvals \<Rightarrow> claims \<Rightarrow> ('u, payload) handler" where
  "handleUpdateTier A r vals c =
     pathInt64 vals ''id'' (\<lambda>tid.
     decodeJSON decTierInput r (\<lambda>ti.
     callSvc (UpdateTier (ap_svc A) c (cl_org c) tid ti) (\<lambda>t. ok 200 (tierView t))))"

definition handleDeleteTier :: "pathvals \<Rightarrow> claims \<Rightarrow> ('u, payload) handler" where
  "handleDeleteTier vals c =
     pathInt64 vals ''id'' (\<lambda>tid.
     callSvc (DeleteTier c (cl_org c) tid) (\<lambda>_.
     ok 200 (anyMap [(''tier_id'', intValue tid), (''deleted'', VBool True)])))"

definition handleSetDefaultTier :: "pathvals \<Rightarrow> claims \<Rightarrow> ('u, payload) handler" where
  "handleSetDefaultTier vals c =
     pathInt64 vals ''id'' (\<lambda>tid.
     callSvc (SetDefaultTier c (cl_org c) tid) (\<lambda>_.
     ok 200 (anyMap [(''tier_id'', intValue tid), (''is_default'', VBool True)])))"

section \<open>Notifications and status\<close>

definition handleListNotifications :: "wire \<Rightarrow> claims \<Rightarrow> ('u, payload) handler" where
  "handleListNotifications r c = (case pagingOf r of (pg, sz, off) \<Rightarrow>
     callSvc (pageFrom off (ListNotifications c (nat sz))) (\<lambda>(ns, tot, unread).
     ok 200 (anyMap [(''list'', VArr (map notificationView ns)), (''unread'', natValue unread),
       (''pagination'', metaView (makePageMeta pg sz (int tot)))])))"

definition handleMarkNotificationRead :: "pathvals \<Rightarrow> claims \<Rightarrow> ('u, payload) handler" where
  "handleMarkNotificationRead vals c =
     (let go = (\<lambda>i. callSvc (MarkNotificationRead c i) (\<lambda>_. ok 200 (VObj [(''ok'', VBool True)])))
      in if pathValue vals ''id'' = ''all'' then go 0 else pathInt64 vals ''id'' go)"

definition handleServiceStatus :: "('u, payload) handler" where
  "handleServiceStatus = ok 200 (case GetServiceStatus of (overall, models) \<Rightarrow>
     anyMap [(''overall'', VStr overall), (''models'', VArr (map VStr models))])"

end
