(* ===== verification/HandlersMember.thy ===== *)
theory HandlersMember
  imports Handlers
begin

text \<open>
  The handlers of members, their keys, grants and approvals (\<open>handler/handlers.go\<close>,
  \<open>handlers_quota.go\<close>, \<open>handlers_admin.go\<close>, \<open>handlers_bulk.go\<close>, \<open>handlers_approval.go\<close>).
\<close>

section \<open>Members\<close>

text \<open>The texts a filter may name; the empty text filters nothing, any other matches no row.\<close>

definition memberStatusOf :: "string \<Rightarrow> member_status option" where
  "memberStatusOf s = find (\<lambda>x. memberStatusText x = s) [MemberStatusActive, MemberStatusDisabled,
     MemberStatusOffboarded, MemberStatusExpired, MemberStatusPending, MemberStatusProvisioning]"

definition approvalStateOf :: "string \<Rightarrow> approval_state option" where
  "approvalStateOf s = find (\<lambda>x. approvalStateText x = s) [ApprovalPending, ApprovalL1Approved, ApprovalApproved,
     ApprovalRejected, ApprovalAutoApprove, ApprovalCancelled]"

definition noRows :: "('u, 'b list \<times> nat) op \<Rightarrow> ('u, 'b list \<times> nat) op" where
  "noRows f = bind f (\<lambda>_. return ([], 0))"

definition teamFilter :: "wire \<Rightarrow> int option" where
  "teamFilter r = (let n = atoiDefault (queryGet r ''team_id'') 0 in if 0 < n then Some n else None)"

definition handleListMembers :: "wire \<Rightarrow> pathvals \<Rightarrow> claims \<Rightarrow> ('u, payload) handler" where
  "handleListMembers r vals c =
     pathInt64 vals ''id'' (\<lambda>org. let st = queryGet r ''status'' in
     listPage r (\<lambda>sz off.
       let f = ListMembers c org \<lparr>mf_q = queryGet r ''q'', mf_team = teamFilter r, mf_status = memberStatusOf st,
                 mf_limit = sz, mf_offset = off\<rparr>
       in if st \<noteq> '''' \<and> memberStatusOf st = None then noRows f else f) memberView)"

definition openResult :: "open_result \<Rightarrow> jvalue" where
  "openResult x = anyMap [(''member_id'', intValue (or_member x)), (''api_key'', VStr (or_key x)),
     (''key_masked'', VStr (or_masked x)), (''login_email'', VStr (or_email x)),
     (''initial_password'', VStr (or_password x)), (''tier_id'', intValue (or_tier x)), (''models'', nilSlice (or_models x))]"

definition handleOpenMember :: "'u app \<Rightarrow> wire \<Rightarrow> pathvals \<Rightarrow> claims \<Rightarrow> ('u, payload) handler" where
  "handleOpenMember A r vals c =
     pathInt64 vals ''id'' (\<lambda>org.
     decodeJSON decOpenMember r (\<lambda>(nm, email, tm, tier).
     callSvc (OpenMember (ap_svc A) c org nm email tm tier) (\<lambda>x. ok 201 (openResult x))))"

definition handleBulkOpen :: "'u app \<Rightarrow> wire \<Rightarrow> pathvals \<Rightarrow> claims \<Rightarrow> ('u, payload) handler" where
  "handleBulkOpen A r vals c =
     pathInt64 vals ''id'' (\<lambda>org.
     decodeJSON decBulkOpen r (\<lambda>(nms, tm, tier).
     callSvc (BulkOpenMembers (ap_svc A) c org nms tm tier) (\<lambda>rows.
     let done_n = length (filter bk_ok rows) in
     ok 200 (anyMap [(''results'', VArr (map bulkView rows)), (''success'', natValue done_n),
       (''failed'', natValue (length rows - done_n))]))))"

definition handleBulkStatus :: "'u app \<Rightarrow> wire \<Rightarrow> pathvals \<Rightarrow> claims \<Rightarrow> ('u, payload) handler" where
  "handleBulkStatus A r vals c =
     pathInt64 vals ''id'' (\<lambda>org.
     decodeJSON decBulkStatus r (\<lambda>(ids, enabled).
     callSvc (BulkSetStatus (ap_svc A) c org ids enabled) (\<lambda>rows.
     ok 200 (VObj [(''results'', VArr (map bulkView rows))]))))"

definition handleGetMember :: "pathvals \<Rightarrow> claims \<Rightarrow> ('u, payload) handler" where
  "handleGetMember vals c =
     pathInt64 vals ''id'' (\<lambda>mid. callSvc (GetMemberService c (cl_org c) mid) (\<lambda>m. ok 200 (memberView m)))"

definition handleUpdateMember :: "'u app \<Rightarrow> wire \<Rightarrow> pathvals \<Rightarrow> claims \<Rightarrow> ('u, payload) handler" where
  "handleUpdateMember A r vals c =
     pathInt64 vals ''id'' (\<lambda>mid.
     decodeJSON decUpdateMember r (\<lambda>(tm, tier, nm).
     callSvc (UpdateMember (ap_svc A) c (cl_org c) mid tm tier nm) (\<lambda>m. ok 200 (memberView m))))"

definition handleAssignRole :: "wire \<Rightarrow> pathvals \<Rightarrow> claims \<Rightarrow> ('u, payload) handler" where
  "handleAssignRole r vals c =
     pathInt64 vals ''id'' (\<lambda>mid.
     decodeJSON (decOneStr ''role'') r (\<lambda>ro.
     callSvc (AssignRole c (cl_org c) mid (roleOf ro)) (\<lambda>_.
     ok 200 (anyMap [(''member_id'', intValue mid), (''role'', VStr ro)]))))"

definition handleResetMemberPassword :: "'u app \<Rightarrow> pathvals \<Rightarrow> claims \<Rightarrow> ('u, payload) handler" where
  "handleResetMemberPassword A vals c =
     pathInt64 vals ''id'' (\<lambda>mid.
     callSvc (ResetMemberPassword (ap_svc A) c (cl_org c) mid) (\<lambda>pw. ok 200 (VObj [(''initial_password'', VStr pw)])))"

definition handleSetMemberStatus :: "'u app \<Rightarrow> wire \<Rightarrow> pathvals \<Rightarrow> claims \<Rightarrow> ('u, payload) handler" where
  "handleSetMemberStatus A r vals c =
     pathInt64 vals ''id'' (\<lambda>mid.
     decodeJSON decEnabled r (\<lambda>enabled.
     callSvc (SetMemberStatus (ap_svc A) c (cl_org c) mid enabled) (\<lambda>_.
     ok 200 (anyMap [(''member_id'', intValue mid), (''status'', VStr (if enabled then ''active'' else ''disabled''))]))))"

definition handleOffboardMember :: "'u app \<Rightarrow> pathvals \<Rightarrow> claims \<Rightarrow> ('u, payload) handler" where
  "handleOffboardMember A vals c =
     pathInt64 vals ''id'' (\<lambda>mid.
     callSvc (OffboardMember (ap_svc A) c (cl_org c) mid) (\<lambda>_.
     ok 200 (anyMap [(''member_id'', intValue mid), (''status'', VStr ''offboarded'')])))"

definition handleRestoreMember :: "pathvals \<Rightarrow> claims \<Rightarrow> ('u, payload) handler" where
  "handleRestoreMember vals c =
     pathInt64 vals ''id'' (\<lambda>mid.
     callSvc (RestoreOffboardedMember c (cl_org c) mid) (\<lambda>_.
     ok 200 (anyMap [(''member_id'', intValue mid), (''status'', VStr ''active'')])))"

definition handleListOffboarded :: "wire \<Rightarrow> pathvals \<Rightarrow> claims \<Rightarrow> ('u, payload) handler" where
  "handleListOffboarded r vals c =
     pathInt64 vals ''id'' (\<lambda>org. listPage r (ListOffboardedMembers c org) memberView)"

section \<open>Keys\<close>

definition keyView :: "string \<times> string \<Rightarrow> jvalue" where
  "keyView = (\<lambda>(k, masked). anyMap [(''api_key'', VStr k), (''key_masked'', VStr masked)])"

definition handleRotateKey :: "'u app \<Rightarrow> pathvals \<Rightarrow> claims \<Rightarrow> ('u, payload) handler" where
  "handleRotateKey A vals c =
     pathInt64 vals ''id'' (\<lambda>mid. callSvc (RotateKey (ap_svc A) c (cl_org c) mid) (\<lambda>k. ok 200 (keyView k)))"

definition handleCreateMemberToken :: "'u app \<Rightarrow> wire \<Rightarrow> pathvals \<Rightarrow> claims \<Rightarrow> ('u, payload) handler" where
  "handleCreateMemberToken A r vals c =
     pathInt64 vals ''id'' (\<lambda>mid.
     decodeJSON (decOneStr ''group'') r (\<lambda>grp.
     callSvc (CreateMemberToken (ap_svc A) c mid grp) (\<lambda>k. ok 201 (keyView k))))"

definition handleMemberUsableGroups :: "'u app \<Rightarrow> claims \<Rightarrow> ('u, payload) handler" where
  "handleMemberUsableGroups A c =
     callSvc (MemberUsableGroups (ap_svc A) c) (\<lambda>gs. ok 200 (VObj [(''groups'', VArr (map VStr gs))]))"

definition handleSetKeyIP :: "'u app \<Rightarrow> wire \<Rightarrow> pathvals \<Rightarrow> claims \<Rightarrow> ('u, payload) handler" where
  "handleSetKeyIP A r vals c =
     pathInt64 vals ''id'' (\<lambda>mid.
     decodeJSON (decOneStr ''allow_ips'') r (\<lambda>ips.
     callSvc (SetKeyIPWhitelist (ap_svc A) c (cl_org c) mid ips) (\<lambda>_.
     ok 200 (anyMap [(''member_id'', intValue mid), (''allow_ips'', VStr ips)]))))"

section \<open>Quota and grants\<close>

definition handleAdjustQuota :: "'u app \<Rightarrow> wire \<Rightarrow> pathvals \<Rightarrow> claims \<Rightarrow> ('u, payload) handler" where
  "handleAdjustQuota A r vals c =
     pathInt64 vals ''id'' (\<lambda>mid.
     decodeJSON decAdjust r (\<lambda>(delta, dur, reason).
     callSvc (AdjustQuota (ap_svc A) c (cl_org c) mid delta dur reason) (\<lambda>(cap, gid, expire).
     ok 200 (anyMap [(''member_id'', intValue mid), (''new_cap_quota'', intValue cap), (''grant_id'', intValue gid),
       (''expire_at'', VStr (timeTextAt (if dur \<in> {'''', ''today'', ''3d'', ''week''} then 0 else writtenZone dur) expire))]))))"

text \<open>A type the service does not know is refused by it like any other wrong type.\<close>

definition grantTypeOf :: "string \<Rightarrow> grant_type" where
  "grantTypeOf s = (case find (\<lambda>x. grantTypeText x = s) [GrantModelAdd, GrantAccountTTL] of
     Some t \<Rightarrow> t | None \<Rightarrow> GrantQuotaAdd)"

definition handleSetGrant :: "'u app \<Rightarrow> wire \<Rightarrow> pathvals \<Rightarrow> claims \<Rightarrow> ('u, payload) handler" where
  "handleSetGrant A r vals c =
     pathInt64 vals ''id'' (\<lambda>mid.
     decodeJSON decGrant r (\<lambda>(ty, model, expireText, reason).
     case parseRFC3339 expireText of
       None \<Rightarrow> answer (writeErr InvalidParam)
     | Some expire \<Rightarrow>
         callSvc (SetTempPermission (ap_svc A) c (cl_org c) mid (grantTypeOf ty) model expire reason) (\<lambda>g.
         ok 201 (grantView g))))"

definition handleListGrants :: "wire \<Rightarrow> pathvals \<Rightarrow> claims \<Rightarrow> ('u, payload) handler" where
  "handleListGrants r vals c =
     pathInt64 vals ''id'' (\<lambda>mid. listPage r (ListGrants c (cl_org c) mid) grantView)"

definition handleRevokeGrant :: "'u app \<Rightarrow> pathvals \<Rightarrow> claims \<Rightarrow> ('u, payload) handler" where
  "handleRevokeGrant A vals c =
     pathInt64 vals ''id'' (\<lambda>gid.
     callSvc (RevokeGrant (ap_svc A) c (cl_org c) gid) (\<lambda>_.
     ok 200 (anyMap [(''grant_id'', intValue gid), (''revoked'', VBool True)])))"

section \<open>Approvals\<close>

definition handleSubmitApproval :: "'u app \<Rightarrow> wire \<Rightarrow> claims \<Rightarrow> ('u, payload) handler" where
  "handleSubmitApproval A r c =
     decodeJSON decApproval r (\<lambda>(model, amount, dur, reason).
     callSvc (SubmitApproval (ap_svc A) c model amount dur reason) (\<lambda>a. ok 201 (approvalView a)))"

text \<open>The organization in the path is not read: the list is that of the session's organization.\<close>

definition handleListApprovals :: "wire \<Rightarrow> claims \<Rightarrow> ('u, payload) handler" where
  "handleListApprovals r c = (let st = queryGet r ''state'' in
     listPage r (\<lambda>sz off. let f = ListApprovals c (approvalStateOf st) sz off
       in if st \<noteq> '''' \<and> approvalStateOf st = None then noRows f else f) approvalView)"

definition handleDecideApproval :: "'u app \<Rightarrow> wire \<Rightarrow> pathvals \<Rightarrow> claims \<Rightarrow> ('u, payload) handler" where
  "handleDecideApproval A r vals c =
     pathInt64 vals ''id'' (\<lambda>i.
     decodeJSON decDecision r (\<lambda>(approved, comment).
     callSvc (DecideApproval (ap_svc A) c i approved comment) (\<lambda>a. ok 200 (approvalView a))))"

end
