(* ===== verification/HandlersMoney.thy ===== *)
theory HandlersMoney
  imports Handlers Support
begin

text \<open>
  The handlers of billing, pricing, usage and support sessions (\<open>handler/handlers_billing.go\<close>,
  \<open>handlers_pricing.go\<close>, \<open>handlers_support.go\<close>, the export of \<open>handlers_bulk.go\<close>).
\<close>

section \<open>Billing\<close>

definition actorString :: "claims \<Rightarrow> string" where
  "actorString c = roleString (cl_role c) @ '':'' @ itoa (cl_member c)"

definition handleGetBalance :: "'u app \<Rightarrow> pathvals \<Rightarrow> claims \<Rightarrow> ('u, payload) handler" where
  "handleGetBalance A vals c =
     pathInt64 vals ''id'' (\<lambda>org. callSvc (GetBalance (ap_svc A) c org) (\<lambda>b. ok 200 (balanceView b)))"

definition handleListRecharges :: "'u app \<Rightarrow> wire \<Rightarrow> pathvals \<Rightarrow> claims \<Rightarrow> ('u, payload) handler" where
  "handleListRecharges A r vals c =
     pathInt64 vals ''id'' (\<lambda>org. listPage r (ListRecharges (ap_svc A) c org) rechargeView)"

definition handleRecharge :: "'u app \<Rightarrow> wire \<Rightarrow> pathvals \<Rightarrow> claims \<Rightarrow> ('u, payload) handler" where
  "handleRecharge A r vals c =
     pathInt64 vals ''id'' (\<lambda>org.
     decodeJSON decRecharge r (\<lambda>(amount, transferNo, cny, memo).
     callSvc (Recharge (ap_svc A) c org amount transferNo cny memo) (\<lambda>b.
     ok 201 (anyMap [(''org_id'', intValue org), (''balance_quota_after'', intValue (b_balance b)),
       (''operator'', VStr (actorString c))]))))"

definition handleDebit :: "'u app \<Rightarrow> wire \<Rightarrow> pathvals \<Rightarrow> claims \<Rightarrow> ('u, payload) handler" where
  "handleDebit A r vals c =
     pathInt64 vals ''id'' (\<lambda>org.
     decodeJSON decDebit r (\<lambda>(amount, reason).
     callSvc (DebitBalance (ap_svc A) c org amount reason) (\<lambda>b.
     ok 200 (anyMap [(''org_id'', intValue org), (''balance_quota_after'', intValue (b_balance b))]))))"

definition handleListRechargeRequests :: "'u app \<Rightarrow> wire \<Rightarrow> pathvals \<Rightarrow> claims \<Rightarrow> ('u, payload) handler" where
  "handleListRechargeRequests A r vals c =
     pathInt64 vals ''id'' (\<lambda>org. listPage r (ListRechargeRequests (ap_svc A) c org) rechargeReqView)"

definition handleRequestRecharge :: "'u app \<Rightarrow> wire \<Rightarrow> pathvals \<Rightarrow> claims \<Rightarrow> ('u, payload) handler" where
  "handleRequestRecharge A r vals c =
     pathInt64 vals ''id'' (\<lambda>org.
     decodeJSON decRechargeRequest r (\<lambda>(ty, amount, memo).
     callSvc (RequestRecharge (ap_svc A) c org ty amount memo) (\<lambda>q. ok 201 (rechargeReqView q))))"

definition handleGetBillingSettings :: "'u app \<Rightarrow> pathvals \<Rightarrow> claims \<Rightarrow> ('u, payload) handler" where
  "handleGetBillingSettings A vals c =
     pathInt64 vals ''id'' (\<lambda>org. callSvc (GetBillingSettings (ap_svc A) c org) (\<lambda>v. ok 200 (settingsView v)))"

definition handleSetBillingSettings :: "'u app \<Rightarrow> wire \<Rightarrow> pathvals \<Rightarrow> claims \<Rightarrow> ('u, payload) handler" where
  "handleSetBillingSettings A r vals c =
     pathInt64 vals ''id'' (\<lambda>org.
     decodeJSON decBillingSettings r (\<lambda>(enabled, hardStop, low).
     callSvc (SetBillingSettings (ap_svc A) c org enabled hardStop low) (\<lambda>v. ok 200 (settingsView v))))"

section \<open>Pricing\<close>

definition handleGetPricing :: "'u app \<Rightarrow> pathvals \<Rightarrow> claims \<Rightarrow> ('u, payload) handler" where
  "handleGetPricing A vals c =
     pathInt64 vals ''id'' (\<lambda>org. callSvc (GetPricing (ap_svc A) c org) (\<lambda>v. ok 200 (pricingView v)))"

definition handleListBillingGroups :: "'u app \<Rightarrow> claims \<Rightarrow> ('u, payload) handler" where
  "handleListBillingGroups A c =
     callSvc (ListBillingGroups (ap_svc A) c) (\<lambda>gs. ok 200 (VArr (map groupView gs)))"

definition handleSetOrgDefaultTokenGroup :: "'u app \<Rightarrow> wire \<Rightarrow> pathvals \<Rightarrow> claims \<Rightarrow> ('u, payload) handler" where
  "handleSetOrgDefaultTokenGroup A r vals c =
     pathInt64 vals ''id'' (\<lambda>org.
     decodeJSON decOptGroup r (\<lambda>grp.
     callSvc (SetOrgDefaultTokenGroup (ap_svc A) c org grp) (\<lambda>o'. ok 200 (orgView o'))))"

definition handleReconcileDiscounts :: "'u app \<Rightarrow> claims \<Rightarrow> ('u, payload) handler" where
  "handleReconcileDiscounts A c =
     callSvc (ReconcileDiscountsForOperator (ap_svc A) c) (\<lambda>ds.
     ok 200 (anyMap [(''drift_count'', natValue (length ds)), (''drifts'', VArr (map driftView ds))]))"

definition modeOf :: "string \<Rightarrow> discount_mode" where
  "modeOf s = (if s = ''none'' then DiscountNone else if s = ''total'' then DiscountTotal
     else if s = ''per_group'' then DiscountPerGroup else DiscountOther s)"

definition handleConfigureDiscount :: "'u app \<Rightarrow> wire \<Rightarrow> pathvals \<Rightarrow> claims \<Rightarrow> ('u, payload) handler" where
  "handleConfigureDiscount A r vals c =
     pathInt64 vals ''id'' (\<lambda>org.
     decodeJSON decPricing r (\<lambda>(mode, pct, gs).
     callSvc (ConfigureDiscount (ap_svc A) c org (modeOf mode) pct gs) (\<lambda>v. ok 200 (pricingView v))))"

section \<open>Usage\<close>

definition handleOrgUsage :: "wire \<Rightarrow> pathvals \<Rightarrow> claims \<Rightarrow> ('u, payload) handler" where
  "handleOrgUsage r vals c =
     pathInt64 vals ''id'' (\<lambda>org. callSvc (OrgUsage c org (sinceHours r)) (\<lambda>u. ok 200 (usageView u)))"

definition handleTeamUsage :: "wire \<Rightarrow> pathvals \<Rightarrow> claims \<Rightarrow> ('u, payload) handler" where
  "handleTeamUsage r vals c =
     pathInt64 vals ''id'' (\<lambda>org. pathInt64 vals ''tid'' (\<lambda>tid.
     callSvc (TeamUsage c org tid (sinceHours r)) (\<lambda>u. ok 200 (usageView u))))"

definition handleMemberUsage :: "wire \<Rightarrow> pathvals \<Rightarrow> claims \<Rightarrow> ('u, payload) handler" where
  "handleMemberUsage r vals c =
     pathInt64 vals ''id'' (\<lambda>mid. callSvc (MemberUsage c (cl_org c) mid (sinceHours r)) (\<lambda>u. ok 200 (usageView u)))"

definition seriesView :: "wire \<Rightarrow> (string \<times> int) list \<Rightarrow> jvalue" where
  "seriesView r ps = anyMap [(''series'', VArr (map pointView ps)), (''since_hours'', intValue (sinceHours r))]"

definition handleOrgUsageTimeSeries :: "wire \<Rightarrow> pathvals \<Rightarrow> claims \<Rightarrow> ('u, payload) handler" where
  "handleOrgUsageTimeSeries r vals c =
     pathInt64 vals ''id'' (\<lambda>org.
     callSvc (OrgUsageTimeSeries c org (sinceHours r) (granularityParam r)) (\<lambda>ps. ok 200 (seriesView r ps)))"

definition handleMemberUsageTimeSeries :: "wire \<Rightarrow> pathvals \<Rightarrow> claims \<Rightarrow> ('u, payload) handler" where
  "handleMemberUsageTimeSeries r vals c =
     pathInt64 vals ''id'' (\<lambda>mid.
     callSvc (MemberUsageTimeSeries c (cl_org c) mid (sinceHours r) (granularityParam r)) (\<lambda>ps. ok 200 (seriesView r ps)))"

definition handleOrgUsageDetail :: "wire \<Rightarrow> pathvals \<Rightarrow> claims \<Rightarrow> ('u, payload) handler" where
  "handleOrgUsageDetail r vals c =
     pathInt64 vals ''id'' (\<lambda>org.
     callSvc (OrgUsageDetail c org (sinceHours r) (optInt64 (queryGet r ''member_id'')) (optInt64 (queryGet r ''key_id''))
       (queryGet r ''model'') (atoiDefault (queryGet r ''page'') 1) (atoiDefault (queryGet r ''page_size'') 50)) (\<lambda>p.
     ok 200 (detailPageView p)))"

definition handleMemberUsageDetail :: "wire \<Rightarrow> pathvals \<Rightarrow> claims \<Rightarrow> ('u, payload) handler" where
  "handleMemberUsageDetail r vals c =
     pathInt64 vals ''id'' (\<lambda>mid.
     callSvc (MemberUsageDetail c (cl_org c) mid (sinceHours r)
       (atoiDefault (queryGet r ''page'') 1) (atoiDefault (queryGet r ''page_size'') 50)) (\<lambda>p.
     ok 200 (detailPageView p)))"

definition handleUsageExport :: "wire \<Rightarrow> pathvals \<Rightarrow> claims \<Rightarrow> ('u, payload) handler" where
  "handleUsageExport r vals c =
     pathInt64 vals ''id'' (\<lambda>org.
     callSvc (OrgUsage c org (sinceHours r)) (\<lambda>u. answer (writeOK 200 (Sheet org (usageSheet u)))))"

definition handleBudgetRef :: "pathvals \<Rightarrow> claims \<Rightarrow> ('u, payload) handler" where
  "handleBudgetRef vals c =
     pathInt64 vals ''id'' (\<lambda>org.
     callSvc (OrgBudgetRef c org) (\<lambda>(consumed, recharged).
     ok 200 (anyMap [(''consumed_quota'', intValue consumed), (''recharged_quota'', intValue recharged)])))"

definition handleEscrowBalance :: "'u app \<Rightarrow> pathvals \<Rightarrow> claims \<Rightarrow> ('u, payload) handler" where
  "handleEscrowBalance A vals c =
     pathInt64 vals ''id'' (\<lambda>org. callSvc (GetDerivedBalance (ap_svc A) c org) (\<lambda>b. ok 200 (derivedView b)))"

definition handleEscrowRefill :: "'u app \<Rightarrow> pathvals \<Rightarrow> claims \<Rightarrow> ('u, payload) handler" where
  "handleEscrowRefill A vals c =
     pathInt64 vals ''id'' (\<lambda>org. callSvc (RefillWindow (ap_svc A) c org) (\<lambda>b. ok 200 (derivedView b)))"

section \<open>Support sessions\<close>

text \<open>
  The token is signed by the service between the row and the audit entry; the signer does not fail.
  When the row cannot be read back, the view of the missing session panics, and the reply is that of a
  recovered panic.
\<close>

definition handleOpenSupport :: "'u app \<Rightarrow> wire \<Rightarrow> pathvals \<Rightarrow> claims \<Rightarrow> ('u, payload) handler" where
  "handleOpenSupport A r vals c =
     pathInt64 vals ''id'' (\<lambda>org.
     decodeJSON decOpenSupport r (\<lambda>(scope, grantType, ttl, reason).
     callSvc (OpenSupportSession c org scope grantType ttl) (\<lambda>(cl, ss) s.
       case ss of
         None \<Rightarrow> (writeErr Internal, s)
       | Some x \<Rightarrow> ok 201 (anyMap (supportFields x @ [(''token'', VStr (Issue (ap_signer A) (w_now (se_world s)) cl))])) s)))"

definition handleGetSupport :: "pathvals \<Rightarrow> claims \<Rightarrow> ('u, payload) handler" where
  "handleGetSupport vals c =
     pathInt64 vals ''id'' (\<lambda>sid. callSvc (ReadSupportSession c sid) (\<lambda>ss. ok 200 (anyMap (supportFields ss))))"

definition handleCloseSupport :: "pathvals \<Rightarrow> claims \<Rightarrow> ('u, payload) handler" where
  "handleCloseSupport vals c =
     pathInt64 vals ''id'' (\<lambda>sid. callSvc (CloseSupportSession c sid) (\<lambda>_. ok 200 (VObj [(''closed'', VBool True)])))"

end
