(* ===== verification/Router.thy ===== *)
theory Router
  imports HandlersMember HandlersMoney
begin

text \<open>
  The router and the middlewares around it (\<open>handler/router.go\<close>, \<open>middleware.go\<close>, \<open>metrics.go\<close>,
  \<open>envelope.go\<close>), with the matching of \<open>http.ServeMux\<close>: a pattern's segments against the unescaped
  segments of the cleaned path, a path that is not clean answered with a redirect, \<open>GET\<close> patterns also
  for \<open>HEAD\<close>, the embedded files for every other \<open>GET\<close>, 405 for every other method.  \<open>CONNECT\<close> and the
  server-wide \<open>OPTIONS *\<close> do not come here.  The static files are a parameter, and so are the random
  request identifier and the messages of the errors.
\<close>

section \<open>Routes\<close>

record counters =
  ct_total :: nat
  ct_2xx :: nat
  ct_4xx :: nat
  ct_5xx :: nat
  ct_inflight :: nat
  ct_start :: int

datatype 'u action =
    Open "'u app \<Rightarrow> request \<Rightarrow> wire \<Rightarrow> counters \<Rightarrow> ('u, payload) handler"
  | Authed "'u app \<Rightarrow> request \<Rightarrow> wire \<Rightarrow> pathvals \<Rightarrow> claims \<Rightarrow> ('u, payload) handler"

definition handleHealthz :: "'u app \<Rightarrow> ('u, payload) handler" where
  "handleHealthz A = answer (writeOK 200 (Probe (anyMap [(''status'', VStr ''ok''), (''version'', VStr (ap_version A))])))"

definition Ping :: "('u, unit) op" where "Ping = query (\<lambda>_. ())"

definition handleReadyz :: "('u, payload) handler" where
  "handleReadyz s = (case Ping (se_world s) of
     (Inl _, w) \<Rightarrow> (writeOK 503 (Probe (anyMap [(''status'', VStr ''not_ready''), (''reason'', VStr ''db_unreachable'')])), s\<lparr>se_world := w\<rparr>)
   | (Inr _, w) \<Rightarrow> (writeOK 200 (Probe (anyMap [(''status'', VStr ''ready''), (''milestone'', VStr ''6-feature-complete'')])), s\<lparr>se_world := w\<rparr>))"

definition metricLine :: "string \<Rightarrow> int \<Rightarrow> string" where
  "metricLine nm n = nm @ '' '' @ itoa n @ [CHR 0x0A]"

definition classed :: "string \<Rightarrow> string" where
  "classed k = ''nexus_http_requests_total{class='' @ [CHR 0x22] @ k @ [CHR 0x22] @ ''}''"

text \<open>The comment lines of the format are left out.\<close>

definition metricsText :: "counters \<Rightarrow> int \<Rightarrow> string" where
  "metricsText ct now =
     metricLine ''nexus_http_requests_total'' (int (ct_total ct)) @ metricLine (classed ''2xx'') (int (ct_2xx ct))
     @ metricLine (classed ''4xx'') (int (ct_4xx ct)) @ metricLine (classed ''5xx'') (int (ct_5xx ct))
     @ metricLine ''nexus_http_inflight'' (int (ct_inflight ct))
     @ metricLine ''nexus_uptime_seconds'' (if ct_start ct > 0 then now div 10 ^ 9 - ct_start ct else 0)"

definition handleMetrics :: "'u app \<Rightarrow> wire \<Rightarrow> counters \<Rightarrow> ('u, payload) handler" where
  "handleMetrics A r ct s =
     (if ap_metrics_token A \<noteq> '''' \<and> wi_authorization r \<noteq> ''Bearer '' @ ap_metrics_token A
      then (writeOK 401 (Plain ''''), s)
      else (writeOK 200 (Plain (metricsText ct (w_now (se_world s)))), s))"

definition openRoutes :: "(string \<times> string \<times> 'u action) list" where
  "openRoutes = [
     (''GET'', ''/healthz'', Open (\<lambda>A rq r ct. handleHealthz A)),
     (''GET'', ''/readyz'', Open (\<lambda>A rq r ct. handleReadyz)),
     (''GET'', ''/metrics'', Open (\<lambda>A rq r ct. handleMetrics A r ct)),
     (''POST'', ''/api/v1/auth/login'', Open (\<lambda>A rq r ct. loginEndpoint A rq r))]"

definition orgRoutes :: "(string \<times> string \<times> 'u action) list" where
  "orgRoutes = [
     (''GET'', ''/api/v1/me'', Authed (\<lambda>A rq r p. handleMe A)),
     (''POST'', ''/api/v1/me/password'', Authed (\<lambda>A rq r p. changePasswordEndpoint A rq r)),
     (''PATCH'', ''/api/v1/me'', Authed (\<lambda>A rq r p. handleUpdateMe A r)),
     (''GET'', ''/api/v1/organizations'', Authed (\<lambda>A rq r p. handleListOrgs r)),
     (''POST'', ''/api/v1/organizations'', Authed (\<lambda>A rq r p. handleCreateOrg A r)),
     (''GET'', ''/api/v1/organizations/{id}'', Authed (\<lambda>A rq r. handleGetOrg)),
     (''PATCH'', ''/api/v1/organizations/{id}'', Authed (\<lambda>A rq r. handleUpdateOrg A r)),
     (''POST'', ''/api/v1/organizations/{id}/archive'', Authed (\<lambda>A rq r. archiveOrg True)),
     (''POST'', ''/api/v1/organizations/{id}/unarchive'', Authed (\<lambda>A rq r. archiveOrg False)),
     (''POST'', ''/api/v1/organizations/{id}/import-tokens'', Authed (\<lambda>A rq r. handleReimportTokens A)),
     (''GET'', ''/api/v1/organizations/{id}/backfill'', Authed (\<lambda>A rq r. handleGetBackfill)),
     (''POST'', ''/api/v1/organizations/{id}/backfill/requeue'', Authed (\<lambda>A rq r. handleRequeueBackfill)),
     (''POST'', ''/api/v1/organizations/{id}/hard-stop'', Authed (\<lambda>A rq r. handleHardStop True A)),
     (''POST'', ''/api/v1/organizations/{id}/hard-stop-release'', Authed (\<lambda>A rq r. handleHardStop False A)),
     (''GET'', ''/api/v1/organizations/{id}/approval-rules'', Authed (\<lambda>A rq r. handleGetApprovalRules)),
     (''PUT'', ''/api/v1/organizations/{id}/approval-rules'', Authed (\<lambda>A rq r. handleSetApprovalRules r)),
     (''GET'', ''/api/v1/organizations/{id}/quota-policies'', Authed (\<lambda>A rq r. handleListPolicies)),
     (''PUT'', ''/api/v1/organizations/{id}/quota-policies'', Authed (\<lambda>A rq r. handleSetPolicy r)),
     (''GET'', ''/api/v1/organizations/{id}/teams'', Authed (\<lambda>A rq r. handleListTeams)),
     (''POST'', ''/api/v1/organizations/{id}/teams'', Authed (\<lambda>A rq r. handleCreateTeam r)),
     (''GET'', ''/api/v1/organizations/{id}/teams/{tid}'', Authed (\<lambda>A rq r. handleGetTeam)),
     (''PATCH'', ''/api/v1/organizations/{id}/teams/{tid}'', Authed (\<lambda>A rq r. handleUpdateTeam r)),
     (''POST'', ''/api/v1/organizations/{id}/teams/{tid}/archive'', Authed (\<lambda>A rq r. teamStatusOp True)),
     (''POST'', ''/api/v1/organizations/{id}/teams/{tid}/unarchive'', Authed (\<lambda>A rq r. teamStatusOp False)),
     (''GET'', ''/api/v1/organizations/{id}/teams/{tid}/usage'', Authed (\<lambda>A rq r. handleTeamUsage r)),
     (''GET'', ''/api/v1/organizations/{id}/tiers'', Authed (\<lambda>A rq r. handleListTiers A)),
     (''POST'', ''/api/v1/organizations/{id}/tiers'', Authed (\<lambda>A rq r. handleCreateTier A r)),
     (''PUT'', ''/api/v1/tiers/{id}'', Authed (\<lambda>A rq r. handleUpdateTier A r)),
     (''DELETE'', ''/api/v1/tiers/{id}'', Authed (\<lambda>A rq r. handleDeleteTier)),
     (''POST'', ''/api/v1/tiers/{id}/default'', Authed (\<lambda>A rq r. handleSetDefaultTier))]"

definition memberRoutes :: "(string \<times> string \<times> 'u action) list" where
  "memberRoutes = [
     (''GET'', ''/api/v1/organizations/{id}/members'', Authed (\<lambda>A rq r. handleListMembers r)),
     (''POST'', ''/api/v1/organizations/{id}/members'', Authed (\<lambda>A rq r. handleOpenMember A r)),
     (''POST'', ''/api/v1/organizations/{id}/members:bulk'', Authed (\<lambda>A rq r. handleBulkOpen A r)),
     (''POST'', ''/api/v1/organizations/{id}/members:bulk-status'', Authed (\<lambda>A rq r. handleBulkStatus A r)),
     (''GET'', ''/api/v1/members/{id}'', Authed (\<lambda>A rq r. handleGetMember)),
     (''PATCH'', ''/api/v1/members/{id}'', Authed (\<lambda>A rq r. handleUpdateMember A r)),
     (''POST'', ''/api/v1/members/{id}/role'', Authed (\<lambda>A rq r. handleAssignRole r)),
     (''POST'', ''/api/v1/members/{id}/key:rotate'', Authed (\<lambda>A rq r. handleRotateKey A)),
     (''POST'', ''/api/v1/members/{id}/key:ip-whitelist'', Authed (\<lambda>A rq r. handleSetKeyIP A r)),
     (''POST'', ''/api/v1/members/{id}/tokens'', Authed (\<lambda>A rq r. handleCreateMemberToken A r)),
     (''GET'', ''/api/v1/members/{id}/usable-groups'', Authed (\<lambda>A rq r p. handleMemberUsableGroups A)),
     (''POST'', ''/api/v1/members/{id}/quota:adjust'', Authed (\<lambda>A rq r. handleAdjustQuota A r)),
     (''POST'', ''/api/v1/members/{id}/grants'', Authed (\<lambda>A rq r. handleSetGrant A r)),
     (''GET'', ''/api/v1/members/{id}/grants'', Authed (\<lambda>A rq r. handleListGrants r)),
     (''DELETE'', ''/api/v1/grants/{id}'', Authed (\<lambda>A rq r. handleRevokeGrant A)),
     (''POST'', ''/api/v1/members/{id}/password:reset'', Authed (\<lambda>A rq r. handleResetMemberPassword A)),
     (''POST'', ''/api/v1/members/{id}/status'', Authed (\<lambda>A rq r. handleSetMemberStatus A r)),
     (''POST'', ''/api/v1/members/{id}/offboard'', Authed (\<lambda>A rq r. handleOffboardMember A)),
     (''POST'', ''/api/v1/members/{id}/restore'', Authed (\<lambda>A rq r. handleRestoreMember)),
     (''GET'', ''/api/v1/organizations/{id}/members/offboarded'', Authed (\<lambda>A rq r. handleListOffboarded r))]"

definition moneyRoutes :: "(string \<times> string \<times> 'u action) list" where
  "moneyRoutes = [
     (''GET'', ''/api/v1/organizations/{id}/balance'', Authed (\<lambda>A rq r. handleGetBalance A)),
     (''GET'', ''/api/v1/organizations/{id}/recharges'', Authed (\<lambda>A rq r. handleListRecharges A r)),
     (''POST'', ''/api/v1/organizations/{id}/recharges'', Authed (\<lambda>A rq r. handleRecharge A r)),
     (''GET'', ''/api/v1/organizations/{id}/recharge-requests'', Authed (\<lambda>A rq r. handleListRechargeRequests A r)),
     (''POST'', ''/api/v1/organizations/{id}/recharge-requests'', Authed (\<lambda>A rq r. handleRequestRecharge A r)),
     (''POST'', ''/api/v1/organizations/{id}/debits'', Authed (\<lambda>A rq r. handleDebit A r)),
     (''GET'', ''/api/v1/organizations/{id}/billing-settings'', Authed (\<lambda>A rq r. handleGetBillingSettings A)),
     (''PATCH'', ''/api/v1/organizations/{id}/billing-settings'', Authed (\<lambda>A rq r. handleSetBillingSettings A r)),
     (''GET'', ''/api/v1/organizations/{id}/pricing'', Authed (\<lambda>A rq r. handleGetPricing A)),
     (''PUT'', ''/api/v1/organizations/{id}/pricing'', Authed (\<lambda>A rq r. handleConfigureDiscount A r)),
     (''POST'', ''/api/v1/pricing/reconcile'', Authed (\<lambda>A rq r p. handleReconcileDiscounts A)),
     (''GET'', ''/api/v1/pricing/groups'', Authed (\<lambda>A rq r p. handleListBillingGroups A)),
     (''PUT'', ''/api/v1/organizations/{id}/default-token-group'', Authed (\<lambda>A rq r. handleSetOrgDefaultTokenGroup A r))]"

definition workRoutes :: "(string \<times> string \<times> 'u action) list" where
  "workRoutes = [
     (''POST'', ''/api/v1/approvals'', Authed (\<lambda>A rq r p. handleSubmitApproval A r)),
     (''GET'', ''/api/v1/organizations/{id}/approvals'', Authed (\<lambda>A rq r p. handleListApprovals r)),
     (''POST'', ''/api/v1/approvals/{id}/decide'', Authed (\<lambda>A rq r. handleDecideApproval A r)),
     (''GET'', ''/api/v1/notifications'', Authed (\<lambda>A rq r p. handleListNotifications r)),
     (''POST'', ''/api/v1/notifications/{id}/read'', Authed (\<lambda>A rq r. handleMarkNotificationRead)),
     (''GET'', ''/api/v1/organizations/{id}/usage'', Authed (\<lambda>A rq r. handleOrgUsage r)),
     (''GET'', ''/api/v1/organizations/{id}/usage/timeseries'', Authed (\<lambda>A rq r. handleOrgUsageTimeSeries r)),
     (''GET'', ''/api/v1/organizations/{id}/usage/detail'', Authed (\<lambda>A rq r. handleOrgUsageDetail r)),
     (''GET'', ''/api/v1/organizations/{id}/budget-ref'', Authed (\<lambda>A rq r. handleBudgetRef)),
     (''GET'', ''/api/v1/organizations/{id}/escrow-balance'', Authed (\<lambda>A rq r. handleEscrowBalance A)),
     (''POST'', ''/api/v1/organizations/{id}/escrow/refill'', Authed (\<lambda>A rq r. handleEscrowRefill A)),
     (''GET'', ''/api/v1/members/{id}/usage'', Authed (\<lambda>A rq r. handleMemberUsage r)),
     (''GET'', ''/api/v1/members/{id}/usage/timeseries'', Authed (\<lambda>A rq r. handleMemberUsageTimeSeries r)),
     (''GET'', ''/api/v1/members/{id}/usage/detail'', Authed (\<lambda>A rq r. handleMemberUsageDetail r)),
     (''GET'', ''/api/v1/organizations/{id}/usage/export'', Authed (\<lambda>A rq r. handleUsageExport r)),
     (''GET'', ''/api/v1/service-status'', Authed (\<lambda>A rq r p c. handleServiceStatus)),
     (''POST'', ''/api/v1/organizations/{id}/support-sessions'', Authed (\<lambda>A rq r. handleOpenSupport A r)),
     (''GET'', ''/api/v1/support-sessions/{id}'', Authed (\<lambda>A rq r. handleGetSupport)),
     (''POST'', ''/api/v1/support-sessions/{id}/close'', Authed (\<lambda>A rq r. handleCloseSupport))]"

definition routes :: "(string \<times> string \<times> 'u action) list" where
  "routes = openRoutes @ orgRoutes @ memberRoutes @ moneyRoutes @ workRoutes"

section \<open>Matching\<close>

text \<open>\<open>path.Clean\<close> of a rooted path, its trailing slash kept.\<close>

fun cleanSegs :: "string list \<Rightarrow> string list \<Rightarrow> string list" where
  "cleanSegs acc [] = rev acc"
| "cleanSegs acc (s # ss) =
     (if s = '''' \<or> s = ''.'' then cleanSegs acc ss
      else if s = ''..'' then cleanSegs (tl acc) ss else cleanSegs (s # acc) ss)"

definition cleanPath :: "string \<Rightarrow> string" where
  "cleanPath p =
     (let q = (case p of c # _ \<Rightarrow> if c = CHR ''/'' then p else CHR ''/'' # p | [] \<Rightarrow> ''/'');
          cl = concat (map (\<lambda>s. CHR ''/'' # s) (cleanSegs [] (splitOn CHR ''/'' q)))
      in if cl = [] then ''/'' else if last q = CHR ''/'' then cl @ ''/'' else cl)"

text \<open>The segments of a path: what is between the slashes, unescaped where that is possible.\<close>

definition pathSegs :: "string \<Rightarrow> string list" where
  "pathSegs p = map (\<lambda>s. case unescape False s of Some t \<Rightarrow> t | None \<Rightarrow> s) (tl (splitOn CHR ''/'' p))"

definition wildcard :: "string \<Rightarrow> string option" where
  "wildcard s = (case s of c # t \<Rightarrow> if c = CHR ''{'' then Some (butlast t) else None | [] \<Rightarrow> None)"

fun matchSegs :: "string list \<Rightarrow> string list \<Rightarrow> pathvals option" where
  "matchSegs [] [] = Some []"
| "matchSegs (p # ps) (s # ss) =
     (case wildcard p of
        Some v \<Rightarrow> if s = '''' then None else map_option ((#) (v, s)) (matchSegs ps ss)
      | None \<Rightarrow> if p = s then matchSegs ps ss else None)"
| "matchSegs _ _ = None"

definition methodOf :: "string \<Rightarrow> string" where
  "methodOf m = (if m = ''HEAD'' then ''GET'' else m)"

definition matchRoute :: "string \<Rightarrow> string list \<Rightarrow> string \<times> string \<times> 'u action \<Rightarrow> (pathvals \<times> 'u action) option" where
  "matchRoute m ss = (\<lambda>(verb, pattern, act).
     if verb = methodOf m then map_option (\<lambda>vals. (vals, act)) (matchSegs (segments pattern) ss) else None)"

definition findRoute :: "string \<Rightarrow> string list \<Rightarrow> (pathvals \<times> 'u action) option" where
  "findRoute m ss = (case List.map_filter (matchRoute m ss) routes of [] \<Rightarrow> None | x # _ \<Rightarrow> Some x)"

section \<open>From the request to the reply\<close>

definition bare :: "int \<Rightarrow> string \<Rightarrow> ('u, payload) handler" where
  "bare status t = answer (writeOK status (Plain t))"

definition serveMux :: "'u app \<Rightarrow> request \<Rightarrow> wire \<Rightarrow> counters \<Rightarrow> ('u, payload) handler" where
  "serveMux A rq r ct =
     (if wi_target r = ''*'' then bare 400 ''''
      else if cleanPath (wi_target r) \<noteq> wi_target r then bare 301 (cleanPath (wi_target r))
      else case findRoute (wi_method r) (pathSegs (wi_target r)) of
        Some (vals, Open act) \<Rightarrow> act A rq r ct
      | Some (vals, Authed act) \<Rightarrow> requireAuth (ap_signer A) rq (act A rq r vals)
      | None \<Rightarrow>
          if methodOf (wi_method r) = ''GET'' then (case ap_files A (rq_path rq) of (status, t) \<Rightarrow> bare status t)
          else bare 405 ''Method Not Allowed'')"

definition countReply :: "int \<Rightarrow> counters \<Rightarrow> counters" where
  "countReply status ct =
     (let ct1 = ct\<lparr>ct_total := ct_total ct + 1, ct_inflight := ct_inflight ct - 1\<rparr>
      in if 500 \<le> status then ct1\<lparr>ct_5xx := ct_5xx ct1 + 1\<rparr>
         else if 400 \<le> status then ct1\<lparr>ct_4xx := ct_4xx ct1 + 1\<rparr>
         else if 200 \<le> status \<and> status < 300 then ct1\<lparr>ct_2xx := ct_2xx ct1 + 1\<rparr>
         else ct1)"

text \<open>One request alone: the counters of others do not move meanwhile.\<close>

definition serve :: "'u app \<Rightarrow> wire \<Rightarrow> counters \<times> 'u server \<Rightarrow> payload reply \<times> counters \<times> 'u server" where
  "serve A r = (\<lambda>(ct, s). case headOf r of
      None \<Rightarrow> (writeOK 400 (Plain ''400 Bad Request''), ct, s)
    | Some rq \<Rightarrow>
        let ct1 = ct\<lparr>ct_inflight := ct_inflight ct + 1\<rparr>
        in case mvpGate (ap_mvp A) rq (serveMux A rq r ct1) s of
             (rp, s') \<Rightarrow> (rp, countReply (rp_status rp) ct1, s'))"

section \<open>From the reply to the text\<close>

record response =
  rs_status :: int
  rs_headers :: "(string \<times> string) list"
  rs_body :: string

definition securityHeaders :: "bool \<Rightarrow> (string \<times> string) list" where
  "securityHeaders hsts =
     [(''X-Frame-Options'', ''DENY''), (''X-Content-Type-Options'', ''nosniff''), (''Referrer-Policy'', ''no-referrer'')]
     @ (if hsts then [(''Strict-Transport-Security'', ''max-age=63072000; includeSubDomains'')] else [])"

definition requestID :: "wire \<Rightarrow> string \<Rightarrow> string" where
  "requestID r fresh_id = (if wi_request_id r = '''' then fresh_id else wi_request_id r)"

definition envelopeValue :: "int \<Rightarrow> string \<Rightarrow> jvalue \<Rightarrow> string \<Rightarrow> jvalue" where
  "envelopeValue num message d rid = VObj [(''code'', intValue num), (''message'', VStr message), (''data'', d), (''request_id'', VStr rid)]"

definition jsonType :: "string \<times> string" where "jsonType = (''Content-Type'', ''application/json; charset=utf-8'')"

definition payloadText :: "int \<Rightarrow> string \<Rightarrow> string \<Rightarrow> payload option \<Rightarrow> (string \<times> string) list \<times> string" where
  "payloadText num message rid p = (case p of
      None \<Rightarrow> ([jsonType], jsonText (envelopeValue num message VNull rid) @ [CHR 0x0A])
    | Some (Data v) \<Rightarrow> ([jsonType], jsonText (envelopeValue num message v rid) @ [CHR 0x0A])
    | Some (Probe v) \<Rightarrow> ([jsonType], jsonText v @ [CHR 0x0A])
    | Some (Sheet org t) \<Rightarrow> ([(''Content-Type'', ''text/csv; charset=utf-8''),
         (''Content-Disposition'', ''attachment; filename='' @ [CHR 0x22] @ ''usage_org'' @ itoa org @ ''.csv'' @ [CHR 0x22])], t)
    | Some (Plain t) \<Rightarrow> ([], t))"

definition render :: "bool \<Rightarrow> (payload reply \<Rightarrow> string) \<Rightarrow> wire \<Rightarrow> string \<Rightarrow> payload reply \<Rightarrow> response" where
  "render hsts messages r fresh_id rp =
     (let rid = requestID r fresh_id;
          (hs, t) = payloadText (rp_code rp) (if rp_code rp = 0 then ''ok'' else messages rp) rid (rp_data rp)
      in \<lparr>rs_status = rp_status rp,
          rs_headers = [(''X-Request-Id'', rid)] @ securityHeaders hsts
            @ (case rp_retry rp of None \<Rightarrow> [] | Some n \<Rightarrow> [(''Retry-After'', itoa n)]) @ hs,
          rs_body = t\<rparr>)"

end
