(* ===== verification/RouteTable.thy ===== *)
theory RouteTable
  imports Router
begin

text \<open>
  What the combinators of the handlers preserve: that a handler refuses in every state, that it leaves
  the rows in a given relation and the limiter alone, and that its reply has the type of a reply.
\<close>

section \<open>Refusing\<close>

definition refuses :: "('u, 'a) op \<Rightarrow> bool" where
  "refuses f \<longleftrightarrow> (\<forall>w. \<exists>e. f w = (Inl e, w))"

definition refusing :: "('u, 'a) handler \<Rightarrow> bool" where
  "refusing h \<longleftrightarrow> (\<forall>s. \<exists>e. h s = (writeErr e, s))"

named_theorems refuse_intros \<open>introduction rules for refusing operations and handlers\<close>

lemma refuses_scope [refuse_intros]:
  "cl_role c \<noteq> RoleOperator \<Longrightarrow> cl_org c \<noteq> org \<Longrightarrow> refuses (bind (assertOrgScope c org) k)"
  by (simp add: refuses_def assertOrgScope_def bind_def throw_def)

lemma refuses_role [refuse_intros]: "cl_role c \<noteq> RoleOperator \<Longrightarrow> refuses (bind (assertRole c [RoleOperator]) k)"
  by (simp add: refuses_def assertRole_def ensure_def bind_def throw_def)

lemma refuses_gate [refuse_intros]: "refuses f \<Longrightarrow> refuses (if b then throw e else f)"
  by (simp add: refuses_def throw_def)

lemma refuses_after:
  assumes "refuses f"
  shows "refuses (bind f k)"
proof -
  have "\<exists>e. bind f k w = (Inl e, w)" for w
  proof -
    obtain e where "f w = (Inl e, w)" using assms by (auto simp: refuses_def)
    then have "bind f k w = (Inl e, w)" by (simp add: bind_def)
    then show ?thesis ..
  qed
  then show ?thesis by (simp add: refuses_def)
qed

lemma refusing_path [refuse_intros]:
  "(\<And>n. parseInt (pathValue vals k) = Some n \<Longrightarrow> refusing (go n)) \<Longrightarrow> refusing (pathInt64 vals k go)"
  by (auto simp: refusing_def pathInt64_def answer_def split: option.split)

lemma refusing_decode [refuse_intros]: "(\<And>x. refusing (go x)) \<Longrightarrow> refusing (decodeJSON dec r go)"
  by (auto simp: refusing_def decodeJSON_def answer_def split: option.split)

lemma refusing_call [refuse_intros]:
  fixes f :: "('u, 'b) op"
  assumes "refuses f"
  shows "refusing (callSvc f k)"
proof -
  have "\<exists>e. callSvc f k s = (writeErr e, s)" for s
  proof -
    obtain e where "f (se_world s) = (Inl e, se_world s)" using assms by (auto simp: refuses_def)
    then have "callSvc f k s = (writeErr e, s)" by (simp add: callSvc_def)
    then show ?thesis ..
  qed
  then show ?thesis by (simp add: refusing_def)
qed

lemma refusing_list [refuse_intros]: "(\<And>sz off. refuses (f sz off)) \<Longrightarrow> refusing (listPage r f v)"
  unfolding listPage_def pageFrom_def by (simp split: prod.split) (intro allI refusing_call conjI impI; simp add: refuses_after)

lemma refusing_prod [refuse_intros]: "(\<And>x y. refusing (f x y)) \<Longrightarrow> refusing (case z of (x, y) \<Rightarrow> f x y)"
  by (cases z) simp

lemma refusing_let [refuse_intros]: "(\<And>x. refusing (f x)) \<Longrightarrow> refusing (let x = v in f x)"
  by simp

lemma refuses_guar:
  assumes "guarantee R" "refuses f"
  shows "guar R f"
  using assms guarantee.refl[OF assms(1)] unfolding refuses_def guar_def by (metis snd_conv)

section \<open>Keeping the world in a relation\<close>

definition keeps :: "('u world \<Rightarrow> 'u world \<Rightarrow> bool) \<Rightarrow> ('u, 'a) handler \<Rightarrow> bool" where
  "keeps R h \<longleftrightarrow> (\<forall>s. R (se_world s) (se_world (snd (h s))))"

named_theorems keep_intros \<open>introduction rules for handlers that keep the world in a relation\<close>

lemma keeps_answer [keep_intros]: "guarantee R \<Longrightarrow> keeps R (answer x)"
  by (simp add: keeps_def answer_def guarantee.refl)

lemma keeps_ok [keep_intros]: "guarantee R \<Longrightarrow> keeps R (ok status v)"
  by (simp add: ok_def keeps_answer)

lemma keeps_path [keep_intros]: "guarantee R \<Longrightarrow> (\<And>n. keeps R (go n)) \<Longrightarrow> keeps R (pathInt64 vals k go)"
  by (auto simp: pathInt64_def keeps_answer split: option.split)

lemma keeps_decode [keep_intros]: "guarantee R \<Longrightarrow> (\<And>x. keeps R (go x)) \<Longrightarrow> keeps R (decodeJSON dec r go)"
  by (auto simp: decodeJSON_def keeps_answer split: option.split)

lemma keeps_call [keep_intros]:
  assumes R: "guarantee R" and f: "guar R (f :: ('u, 'b) op)" and k: "\<And>b. keeps R (k b)"
  shows "keeps R (callSvc f k)"
proof -
  have "R (se_world s) (se_world (snd (callSvc f k s)))" for s
  proof -
    obtain r w where run: "f (se_world s) = (r, w)" by force
    have one: "R (se_world s) w" using guarD'[OF f run] .
    show ?thesis
    proof (cases r)
      case (Inl e)
      then show ?thesis using run one by (simp add: callSvc_def)
    next
      case (Inr b)
      have "R w (se_world (snd (k b (s\<lparr>se_world := w\<rparr>))))" using k[of b] by (auto simp: keeps_def dest: spec[of _ "s\<lparr>se_world := w\<rparr>"])
      then show ?thesis using run one Inr guarantee.trans[OF R one] by (simp add: callSvc_def)
    qed
  qed
  then show ?thesis by (simp add: keeps_def)
qed

lemma keeps_prod [keep_intros]: "(\<And>x y. keeps R (f x y)) \<Longrightarrow> keeps R (case z of (x, y) \<Rightarrow> f x y)"
  by (cases z) simp

lemma keeps_let [keep_intros]: "(\<And>x. keeps R (f x)) \<Longrightarrow> keeps R (let x = v in f x)"
  by simp

lemma keeps_list [keep_intros]:
  assumes "guarantee R" "\<And>sz off. guar R (f sz off)"
  shows "keeps R (listPage r f v)"
proof -
  obtain pg sz off where p: "pagingOf r = (pg, sz, off)" by (cases "pagingOf r")
  have "guar R (pageFrom off (f (nat sz)))"
    unfolding pageFrom_def by (intro guar_if guarantee.bind guarantee.throw assms)
  then show ?thesis using assms(1) by (auto simp: listPage_def p intro!: keeps_call keeps_ok keeps_prod)
qed

section \<open>The type of a reply\<close>

text \<open>Data goes with code 0 and a success status; an error has no data and the code and status of its value.\<close>

definition wellTyped :: "payload reply \<Rightarrow> bool" where
  "wellTyped r \<longleftrightarrow> (case rp_data r of
      None \<Rightarrow> \<exists>e. rp_code r = ae_code (Coerce e) \<and> rp_status r = (if ae_http (Coerce e) = 0 then 200 else ae_http (Coerce e))
    | Some (Data v) \<Rightarrow> rp_code r = 0 \<and> rp_status r \<in> {200, 201} \<and> rp_retry r = None
    | Some (Sheet org t) \<Rightarrow> rp_code r = 0 \<and> rp_status r = 200 \<and> rp_retry r = None
    | Some (Probe v) \<Rightarrow> rp_code r = 0 \<and> rp_status r \<in> {200, 503} \<and> rp_retry r = None
    | Some (Plain t) \<Rightarrow> rp_code r = 0 \<and> rp_retry r = None)"

definition typed :: "('u, payload) handler \<Rightarrow> bool" where
  "typed h \<longleftrightarrow> (\<forall>s. wellTyped (fst (h s)))"

named_theorems typed_intros \<open>introduction rules for typed handlers\<close>

lemma wellTyped_err [simp]: "wellTyped (writeErr e)"
  by (auto simp: wellTyped_def writeErr_def Let_def)

lemma wellTyped_ok: "status \<in> {200, 201} \<Longrightarrow> wellTyped (writeOK status (Data v))"
  by (auto simp: wellTyped_def writeOK_def)

lemma typed_err [typed_intros]: "typed (answer (writeErr e))"
  by (simp add: typed_def answer_def)

lemma typed_ok [typed_intros]: "typed (ok 200 v)" "typed (ok 201 v)"
  by (simp_all add: typed_def ok_def answer_def wellTyped_ok)

lemma typed_sheet [typed_intros]: "typed (answer (writeOK 200 (Sheet org t)))"
  by (simp add: typed_def answer_def wellTyped_def writeOK_def)

lemma typed_bare [typed_intros]: "typed (bare status t)"
  by (simp add: typed_def bare_def answer_def wellTyped_def writeOK_def)

lemma typed_path [typed_intros]: "(\<And>n. typed (go n)) \<Longrightarrow> typed (pathInt64 vals k go)"
  by (auto simp: pathInt64_def typed_err split: option.split)

lemma typed_decode [typed_intros]: "(\<And>x. typed (go x)) \<Longrightarrow> typed (decodeJSON dec r go)"
  by (auto simp: decodeJSON_def typed_err split: option.split)

lemma typed_call [typed_intros]: "(\<And>b. typed (k b)) \<Longrightarrow> typed (callSvc f k)"
  by (auto simp: typed_def callSvc_def split: prod.split sum.split)

lemma typed_prod [typed_intros]: "(\<And>x y. typed (f x y)) \<Longrightarrow> typed (case z of (x, y) \<Rightarrow> f x y)"
  by (cases z) simp

lemma typed_list [typed_intros]: "typed (listPage r f v)"
  unfolding listPage_def by (intro typed_prod typed_call typed_ok)

lemma typed_let [typed_intros]: "(\<And>x. typed (f x)) \<Longrightarrow> typed (let x = v in f x)"
  by simp

lemma typed_if [typed_intros]: "typed h \<Longrightarrow> typed g \<Longrightarrow> typed (if b then h else g)"
  by simp

lemma typed_option [typed_intros]: "typed h \<Longrightarrow> (\<And>x. typed (f x)) \<Longrightarrow> typed (case z of None \<Rightarrow> h | Some x \<Rightarrow> f x)"
  by (cases z) auto

section \<open>The routes\<close>

text \<open>
  The routes as segments, and what each of them does by its kind: the routes of an organization refuse
  the callers of another one, the reading routes keep the rows, and every route answers with a typed
  reply.
\<close>

section \<open>The table\<close>

lemma segment_texts:
  "segments ''/api/v1/approvals'' = [''api'', ''v1'', ''approvals'']"
  "segments ''/api/v1/approvals/{id}/decide'' = [''api'', ''v1'', ''approvals'', ''{id}'', ''decide'']"
  "segments ''/api/v1/auth/login'' = [''api'', ''v1'', ''auth'', ''login'']"
  "segments ''/api/v1/grants/{id}'' = [''api'', ''v1'', ''grants'', ''{id}'']"
  "segments ''/api/v1/me'' = [''api'', ''v1'', ''me'']"
  "segments ''/api/v1/me/password'' = [''api'', ''v1'', ''me'', ''password'']"
  "segments ''/api/v1/members/{id}'' = [''api'', ''v1'', ''members'', ''{id}'']"
  "segments ''/api/v1/members/{id}/grants'' = [''api'', ''v1'', ''members'', ''{id}'', ''grants'']"
  "segments ''/api/v1/members/{id}/key:ip-whitelist'' = [''api'', ''v1'', ''members'', ''{id}'', ''key:ip-whitelist'']"
  "segments ''/api/v1/members/{id}/key:rotate'' = [''api'', ''v1'', ''members'', ''{id}'', ''key:rotate'']"
  "segments ''/api/v1/members/{id}/offboard'' = [''api'', ''v1'', ''members'', ''{id}'', ''offboard'']"
  "segments ''/api/v1/members/{id}/password:reset'' = [''api'', ''v1'', ''members'', ''{id}'', ''password:reset'']"
  "segments ''/api/v1/members/{id}/quota:adjust'' = [''api'', ''v1'', ''members'', ''{id}'', ''quota:adjust'']"
  "segments ''/api/v1/members/{id}/restore'' = [''api'', ''v1'', ''members'', ''{id}'', ''restore'']"
  "segments ''/api/v1/members/{id}/role'' = [''api'', ''v1'', ''members'', ''{id}'', ''role'']"
  "segments ''/api/v1/members/{id}/status'' = [''api'', ''v1'', ''members'', ''{id}'', ''status'']"
  "segments ''/api/v1/members/{id}/tokens'' = [''api'', ''v1'', ''members'', ''{id}'', ''tokens'']"
  "segments ''/api/v1/members/{id}/usable-groups'' = [''api'', ''v1'', ''members'', ''{id}'', ''usable-groups'']"
  "segments ''/api/v1/members/{id}/usage'' = [''api'', ''v1'', ''members'', ''{id}'', ''usage'']"
  "segments ''/api/v1/members/{id}/usage/detail'' = [''api'', ''v1'', ''members'', ''{id}'', ''usage'', ''detail'']"
  "segments ''/api/v1/members/{id}/usage/timeseries'' = [''api'', ''v1'', ''members'', ''{id}'', ''usage'', ''timeseries'']"
  "segments ''/api/v1/notifications'' = [''api'', ''v1'', ''notifications'']"
  "segments ''/api/v1/notifications/{id}/read'' = [''api'', ''v1'', ''notifications'', ''{id}'', ''read'']"
  "segments ''/api/v1/organizations'' = [''api'', ''v1'', ''organizations'']"
  "segments ''/api/v1/organizations/{id}'' = [''api'', ''v1'', ''organizations'', ''{id}'']"
  "segments ''/api/v1/organizations/{id}/approval-rules'' = [''api'', ''v1'', ''organizations'', ''{id}'', ''approval-rules'']"
  "segments ''/api/v1/organizations/{id}/approvals'' = [''api'', ''v1'', ''organizations'', ''{id}'', ''approvals'']"
  "segments ''/api/v1/organizations/{id}/archive'' = [''api'', ''v1'', ''organizations'', ''{id}'', ''archive'']"
  "segments ''/api/v1/organizations/{id}/backfill'' = [''api'', ''v1'', ''organizations'', ''{id}'', ''backfill'']"
  "segments ''/api/v1/organizations/{id}/backfill/requeue'' = [''api'', ''v1'', ''organizations'', ''{id}'', ''backfill'', ''requeue'']"
  "segments ''/api/v1/organizations/{id}/balance'' = [''api'', ''v1'', ''organizations'', ''{id}'', ''balance'']"
  "segments ''/api/v1/organizations/{id}/billing-settings'' = [''api'', ''v1'', ''organizations'', ''{id}'', ''billing-settings'']"
  "segments ''/api/v1/organizations/{id}/budget-ref'' = [''api'', ''v1'', ''organizations'', ''{id}'', ''budget-ref'']"
  "segments ''/api/v1/organizations/{id}/debits'' = [''api'', ''v1'', ''organizations'', ''{id}'', ''debits'']"
  "segments ''/api/v1/organizations/{id}/default-token-group'' = [''api'', ''v1'', ''organizations'', ''{id}'', ''default-token-group'']"
  "segments ''/api/v1/organizations/{id}/escrow-balance'' = [''api'', ''v1'', ''organizations'', ''{id}'', ''escrow-balance'']"
  "segments ''/api/v1/organizations/{id}/escrow/refill'' = [''api'', ''v1'', ''organizations'', ''{id}'', ''escrow'', ''refill'']"
  "segments ''/api/v1/organizations/{id}/hard-stop'' = [''api'', ''v1'', ''organizations'', ''{id}'', ''hard-stop'']"
  "segments ''/api/v1/organizations/{id}/hard-stop-release'' = [''api'', ''v1'', ''organizations'', ''{id}'', ''hard-stop-release'']"
  "segments ''/api/v1/organizations/{id}/import-tokens'' = [''api'', ''v1'', ''organizations'', ''{id}'', ''import-tokens'']"
  "segments ''/api/v1/organizations/{id}/members'' = [''api'', ''v1'', ''organizations'', ''{id}'', ''members'']"
  "segments ''/api/v1/organizations/{id}/members/offboarded'' = [''api'', ''v1'', ''organizations'', ''{id}'', ''members'', ''offboarded'']"
  "segments ''/api/v1/organizations/{id}/members:bulk'' = [''api'', ''v1'', ''organizations'', ''{id}'', ''members:bulk'']"
  "segments ''/api/v1/organizations/{id}/members:bulk-status'' = [''api'', ''v1'', ''organizations'', ''{id}'', ''members:bulk-status'']"
  "segments ''/api/v1/organizations/{id}/pricing'' = [''api'', ''v1'', ''organizations'', ''{id}'', ''pricing'']"
  "segments ''/api/v1/organizations/{id}/quota-policies'' = [''api'', ''v1'', ''organizations'', ''{id}'', ''quota-policies'']"
  "segments ''/api/v1/organizations/{id}/recharge-requests'' = [''api'', ''v1'', ''organizations'', ''{id}'', ''recharge-requests'']"
  "segments ''/api/v1/organizations/{id}/recharges'' = [''api'', ''v1'', ''organizations'', ''{id}'', ''recharges'']"
  "segments ''/api/v1/organizations/{id}/support-sessions'' = [''api'', ''v1'', ''organizations'', ''{id}'', ''support-sessions'']"
  "segments ''/api/v1/organizations/{id}/teams'' = [''api'', ''v1'', ''organizations'', ''{id}'', ''teams'']"
  "segments ''/api/v1/organizations/{id}/teams/{tid}'' = [''api'', ''v1'', ''organizations'', ''{id}'', ''teams'', ''{tid}'']"
  "segments ''/api/v1/organizations/{id}/teams/{tid}/archive'' = [''api'', ''v1'', ''organizations'', ''{id}'', ''teams'', ''{tid}'', ''archive'']"
  "segments ''/api/v1/organizations/{id}/teams/{tid}/unarchive'' = [''api'', ''v1'', ''organizations'', ''{id}'', ''teams'', ''{tid}'', ''unarchive'']"
  "segments ''/api/v1/organizations/{id}/teams/{tid}/usage'' = [''api'', ''v1'', ''organizations'', ''{id}'', ''teams'', ''{tid}'', ''usage'']"
  "segments ''/api/v1/organizations/{id}/tiers'' = [''api'', ''v1'', ''organizations'', ''{id}'', ''tiers'']"
  "segments ''/api/v1/organizations/{id}/unarchive'' = [''api'', ''v1'', ''organizations'', ''{id}'', ''unarchive'']"
  "segments ''/api/v1/organizations/{id}/usage'' = [''api'', ''v1'', ''organizations'', ''{id}'', ''usage'']"
  "segments ''/api/v1/organizations/{id}/usage/detail'' = [''api'', ''v1'', ''organizations'', ''{id}'', ''usage'', ''detail'']"
  "segments ''/api/v1/organizations/{id}/usage/export'' = [''api'', ''v1'', ''organizations'', ''{id}'', ''usage'', ''export'']"
  "segments ''/api/v1/organizations/{id}/usage/timeseries'' = [''api'', ''v1'', ''organizations'', ''{id}'', ''usage'', ''timeseries'']"
  "segments ''/api/v1/pricing/groups'' = [''api'', ''v1'', ''pricing'', ''groups'']"
  "segments ''/api/v1/pricing/reconcile'' = [''api'', ''v1'', ''pricing'', ''reconcile'']"
  "segments ''/api/v1/service-status'' = [''api'', ''v1'', ''service-status'']"
  "segments ''/api/v1/support-sessions/{id}'' = [''api'', ''v1'', ''support-sessions'', ''{id}'']"
  "segments ''/api/v1/support-sessions/{id}/close'' = [''api'', ''v1'', ''support-sessions'', ''{id}'', ''close'']"
  "segments ''/api/v1/tiers/{id}'' = [''api'', ''v1'', ''tiers'', ''{id}'']"
  "segments ''/api/v1/tiers/{id}/default'' = [''api'', ''v1'', ''tiers'', ''{id}'', ''default'']"
  "segments ''/healthz'' = [''healthz'']"
  "segments ''/metrics'' = [''metrics'']"
  "segments ''/readyz'' = [''readyz'']"
  by code_simp+

lemma segs_openRoutes: "map (\<lambda>(v, p, a). (v, segments p, a)) openRoutes = [
     (''GET'', [''healthz''], Open (\<lambda>A rq r ct. handleHealthz A)),
     (''GET'', [''readyz''], Open (\<lambda>A rq r ct. handleReadyz)),
     (''GET'', [''metrics''], Open (\<lambda>A rq r ct. handleMetrics A r ct)),
     (''POST'', [''api'', ''v1'', ''auth'', ''login''], Open (\<lambda>A rq r ct. loginEndpoint A rq r))]"
  by (simp add: openRoutes_def segment_texts)

lemma segs_orgRoutes: "map (\<lambda>(v, p, a). (v, segments p, a)) orgRoutes = [
     (''GET'', [''api'', ''v1'', ''me''], Authed (\<lambda>A rq r p. handleMe A)),
     (''POST'', [''api'', ''v1'', ''me'', ''password''], Authed (\<lambda>A rq r p. changePasswordEndpoint A rq r)),
     (''PATCH'', [''api'', ''v1'', ''me''], Authed (\<lambda>A rq r p. handleUpdateMe A r)),
     (''GET'', [''api'', ''v1'', ''organizations''], Authed (\<lambda>A rq r p. handleListOrgs r)),
     (''POST'', [''api'', ''v1'', ''organizations''], Authed (\<lambda>A rq r p. handleCreateOrg A r)),
     (''GET'', [''api'', ''v1'', ''organizations'', ''{id}''], Authed (\<lambda>A rq r. handleGetOrg)),
     (''PATCH'', [''api'', ''v1'', ''organizations'', ''{id}''], Authed (\<lambda>A rq r. handleUpdateOrg A r)),
     (''POST'', [''api'', ''v1'', ''organizations'', ''{id}'', ''archive''], Authed (\<lambda>A rq r. archiveOrg True)),
     (''POST'', [''api'', ''v1'', ''organizations'', ''{id}'', ''unarchive''], Authed (\<lambda>A rq r. archiveOrg False)),
     (''POST'', [''api'', ''v1'', ''organizations'', ''{id}'', ''import-tokens''], Authed (\<lambda>A rq r. handleReimportTokens A)),
     (''GET'', [''api'', ''v1'', ''organizations'', ''{id}'', ''backfill''], Authed (\<lambda>A rq r. handleGetBackfill)),
     (''POST'', [''api'', ''v1'', ''organizations'', ''{id}'', ''backfill'', ''requeue''], Authed (\<lambda>A rq r. handleRequeueBackfill)),
     (''POST'', [''api'', ''v1'', ''organizations'', ''{id}'', ''hard-stop''], Authed (\<lambda>A rq r. handleHardStop True A)),
     (''POST'', [''api'', ''v1'', ''organizations'', ''{id}'', ''hard-stop-release''], Authed (\<lambda>A rq r. handleHardStop False A)),
     (''GET'', [''api'', ''v1'', ''organizations'', ''{id}'', ''approval-rules''], Authed (\<lambda>A rq r. handleGetApprovalRules)),
     (''PUT'', [''api'', ''v1'', ''organizations'', ''{id}'', ''approval-rules''], Authed (\<lambda>A rq r. handleSetApprovalRules r)),
     (''GET'', [''api'', ''v1'', ''organizations'', ''{id}'', ''quota-policies''], Authed (\<lambda>A rq r. handleListPolicies)),
     (''PUT'', [''api'', ''v1'', ''organizations'', ''{id}'', ''quota-policies''], Authed (\<lambda>A rq r. handleSetPolicy r)),
     (''GET'', [''api'', ''v1'', ''organizations'', ''{id}'', ''teams''], Authed (\<lambda>A rq r. handleListTeams)),
     (''POST'', [''api'', ''v1'', ''organizations'', ''{id}'', ''teams''], Authed (\<lambda>A rq r. handleCreateTeam r)),
     (''GET'', [''api'', ''v1'', ''organizations'', ''{id}'', ''teams'', ''{tid}''], Authed (\<lambda>A rq r. handleGetTeam)),
     (''PATCH'', [''api'', ''v1'', ''organizations'', ''{id}'', ''teams'', ''{tid}''], Authed (\<lambda>A rq r. handleUpdateTeam r)),
     (''POST'', [''api'', ''v1'', ''organizations'', ''{id}'', ''teams'', ''{tid}'', ''archive''], Authed (\<lambda>A rq r. teamStatusOp True)),
     (''POST'', [''api'', ''v1'', ''organizations'', ''{id}'', ''teams'', ''{tid}'', ''unarchive''], Authed (\<lambda>A rq r. teamStatusOp False)),
     (''GET'', [''api'', ''v1'', ''organizations'', ''{id}'', ''teams'', ''{tid}'', ''usage''], Authed (\<lambda>A rq r. handleTeamUsage r)),
     (''GET'', [''api'', ''v1'', ''organizations'', ''{id}'', ''tiers''], Authed (\<lambda>A rq r. handleListTiers A)),
     (''POST'', [''api'', ''v1'', ''organizations'', ''{id}'', ''tiers''], Authed (\<lambda>A rq r. handleCreateTier A r)),
     (''PUT'', [''api'', ''v1'', ''tiers'', ''{id}''], Authed (\<lambda>A rq r. handleUpdateTier A r)),
     (''DELETE'', [''api'', ''v1'', ''tiers'', ''{id}''], Authed (\<lambda>A rq r. handleDeleteTier)),
     (''POST'', [''api'', ''v1'', ''tiers'', ''{id}'', ''default''], Authed (\<lambda>A rq r. handleSetDefaultTier))]"
  by (simp add: orgRoutes_def segment_texts)

lemma segs_memberRoutes: "map (\<lambda>(v, p, a). (v, segments p, a)) memberRoutes = [
     (''GET'', [''api'', ''v1'', ''organizations'', ''{id}'', ''members''], Authed (\<lambda>A rq r. handleListMembers r)),
     (''POST'', [''api'', ''v1'', ''organizations'', ''{id}'', ''members''], Authed (\<lambda>A rq r. handleOpenMember A r)),
     (''POST'', [''api'', ''v1'', ''organizations'', ''{id}'', ''members:bulk''], Authed (\<lambda>A rq r. handleBulkOpen A r)),
     (''POST'', [''api'', ''v1'', ''organizations'', ''{id}'', ''members:bulk-status''], Authed (\<lambda>A rq r. handleBulkStatus A r)),
     (''GET'', [''api'', ''v1'', ''members'', ''{id}''], Authed (\<lambda>A rq r. handleGetMember)),
     (''PATCH'', [''api'', ''v1'', ''members'', ''{id}''], Authed (\<lambda>A rq r. handleUpdateMember A r)),
     (''POST'', [''api'', ''v1'', ''members'', ''{id}'', ''role''], Authed (\<lambda>A rq r. handleAssignRole r)),
     (''POST'', [''api'', ''v1'', ''members'', ''{id}'', ''key:rotate''], Authed (\<lambda>A rq r. handleRotateKey A)),
     (''POST'', [''api'', ''v1'', ''members'', ''{id}'', ''key:ip-whitelist''], Authed (\<lambda>A rq r. handleSetKeyIP A r)),
     (''POST'', [''api'', ''v1'', ''members'', ''{id}'', ''tokens''], Authed (\<lambda>A rq r. handleCreateMemberToken A r)),
     (''GET'', [''api'', ''v1'', ''members'', ''{id}'', ''usable-groups''], Authed (\<lambda>A rq r p. handleMemberUsableGroups A)),
     (''POST'', [''api'', ''v1'', ''members'', ''{id}'', ''quota:adjust''], Authed (\<lambda>A rq r. handleAdjustQuota A r)),
     (''POST'', [''api'', ''v1'', ''members'', ''{id}'', ''grants''], Authed (\<lambda>A rq r. handleSetGrant A r)),
     (''GET'', [''api'', ''v1'', ''members'', ''{id}'', ''grants''], Authed (\<lambda>A rq r. handleListGrants r)),
     (''DELETE'', [''api'', ''v1'', ''grants'', ''{id}''], Authed (\<lambda>A rq r. handleRevokeGrant A)),
     (''POST'', [''api'', ''v1'', ''members'', ''{id}'', ''password:reset''], Authed (\<lambda>A rq r. handleResetMemberPassword A)),
     (''POST'', [''api'', ''v1'', ''members'', ''{id}'', ''status''], Authed (\<lambda>A rq r. handleSetMemberStatus A r)),
     (''POST'', [''api'', ''v1'', ''members'', ''{id}'', ''offboard''], Authed (\<lambda>A rq r. handleOffboardMember A)),
     (''POST'', [''api'', ''v1'', ''members'', ''{id}'', ''restore''], Authed (\<lambda>A rq r. handleRestoreMember)),
     (''GET'', [''api'', ''v1'', ''organizations'', ''{id}'', ''members'', ''offboarded''], Authed (\<lambda>A rq r. handleListOffboarded r))]"
  by (simp add: memberRoutes_def segment_texts)

lemma segs_moneyRoutes: "map (\<lambda>(v, p, a). (v, segments p, a)) moneyRoutes = [
     (''GET'', [''api'', ''v1'', ''organizations'', ''{id}'', ''balance''], Authed (\<lambda>A rq r. handleGetBalance A)),
     (''GET'', [''api'', ''v1'', ''organizations'', ''{id}'', ''recharges''], Authed (\<lambda>A rq r. handleListRecharges A r)),
     (''POST'', [''api'', ''v1'', ''organizations'', ''{id}'', ''recharges''], Authed (\<lambda>A rq r. handleRecharge A r)),
     (''GET'', [''api'', ''v1'', ''organizations'', ''{id}'', ''recharge-requests''], Authed (\<lambda>A rq r. handleListRechargeRequests A r)),
     (''POST'', [''api'', ''v1'', ''organizations'', ''{id}'', ''recharge-requests''], Authed (\<lambda>A rq r. handleRequestRecharge A r)),
     (''POST'', [''api'', ''v1'', ''organizations'', ''{id}'', ''debits''], Authed (\<lambda>A rq r. handleDebit A r)),
     (''GET'', [''api'', ''v1'', ''organizations'', ''{id}'', ''billing-settings''], Authed (\<lambda>A rq r. handleGetBillingSettings A)),
     (''PATCH'', [''api'', ''v1'', ''organizations'', ''{id}'', ''billing-settings''], Authed (\<lambda>A rq r. handleSetBillingSettings A r)),
     (''GET'', [''api'', ''v1'', ''organizations'', ''{id}'', ''pricing''], Authed (\<lambda>A rq r. handleGetPricing A)),
     (''PUT'', [''api'', ''v1'', ''organizations'', ''{id}'', ''pricing''], Authed (\<lambda>A rq r. handleConfigureDiscount A r)),
     (''POST'', [''api'', ''v1'', ''pricing'', ''reconcile''], Authed (\<lambda>A rq r p. handleReconcileDiscounts A)),
     (''GET'', [''api'', ''v1'', ''pricing'', ''groups''], Authed (\<lambda>A rq r p. handleListBillingGroups A)),
     (''PUT'', [''api'', ''v1'', ''organizations'', ''{id}'', ''default-token-group''], Authed (\<lambda>A rq r. handleSetOrgDefaultTokenGroup A r))]"
  by (simp add: moneyRoutes_def segment_texts)

lemma segs_workRoutes: "map (\<lambda>(v, p, a). (v, segments p, a)) workRoutes = [
     (''POST'', [''api'', ''v1'', ''approvals''], Authed (\<lambda>A rq r p. handleSubmitApproval A r)),
     (''GET'', [''api'', ''v1'', ''organizations'', ''{id}'', ''approvals''], Authed (\<lambda>A rq r p. handleListApprovals r)),
     (''POST'', [''api'', ''v1'', ''approvals'', ''{id}'', ''decide''], Authed (\<lambda>A rq r. handleDecideApproval A r)),
     (''GET'', [''api'', ''v1'', ''notifications''], Authed (\<lambda>A rq r p. handleListNotifications r)),
     (''POST'', [''api'', ''v1'', ''notifications'', ''{id}'', ''read''], Authed (\<lambda>A rq r. handleMarkNotificationRead)),
     (''GET'', [''api'', ''v1'', ''organizations'', ''{id}'', ''usage''], Authed (\<lambda>A rq r. handleOrgUsage r)),
     (''GET'', [''api'', ''v1'', ''organizations'', ''{id}'', ''usage'', ''timeseries''], Authed (\<lambda>A rq r. handleOrgUsageTimeSeries r)),
     (''GET'', [''api'', ''v1'', ''organizations'', ''{id}'', ''usage'', ''detail''], Authed (\<lambda>A rq r. handleOrgUsageDetail r)),
     (''GET'', [''api'', ''v1'', ''organizations'', ''{id}'', ''budget-ref''], Authed (\<lambda>A rq r. handleBudgetRef)),
     (''GET'', [''api'', ''v1'', ''organizations'', ''{id}'', ''escrow-balance''], Authed (\<lambda>A rq r. handleEscrowBalance A)),
     (''POST'', [''api'', ''v1'', ''organizations'', ''{id}'', ''escrow'', ''refill''], Authed (\<lambda>A rq r. handleEscrowRefill A)),
     (''GET'', [''api'', ''v1'', ''members'', ''{id}'', ''usage''], Authed (\<lambda>A rq r. handleMemberUsage r)),
     (''GET'', [''api'', ''v1'', ''members'', ''{id}'', ''usage'', ''timeseries''], Authed (\<lambda>A rq r. handleMemberUsageTimeSeries r)),
     (''GET'', [''api'', ''v1'', ''members'', ''{id}'', ''usage'', ''detail''], Authed (\<lambda>A rq r. handleMemberUsageDetail r)),
     (''GET'', [''api'', ''v1'', ''organizations'', ''{id}'', ''usage'', ''export''], Authed (\<lambda>A rq r. handleUsageExport r)),
     (''GET'', [''api'', ''v1'', ''service-status''], Authed (\<lambda>A rq r p c. handleServiceStatus)),
     (''POST'', [''api'', ''v1'', ''organizations'', ''{id}'', ''support-sessions''], Authed (\<lambda>A rq r. handleOpenSupport A r)),
     (''GET'', [''api'', ''v1'', ''support-sessions'', ''{id}''], Authed (\<lambda>A rq r. handleGetSupport)),
     (''POST'', [''api'', ''v1'', ''support-sessions'', ''{id}'', ''close''], Authed (\<lambda>A rq r. handleCloseSupport))]"
  by (simp add: workRoutes_def segment_texts)

lemmas segs_routes = segs_openRoutes segs_orgRoutes segs_memberRoutes segs_moneyRoutes segs_workRoutes

definition table :: "(string \<times> string list \<times> 'u action) list" where
  "table = map (\<lambda>(v, p, a). (v, segments p, a)) routes"

text \<open>A property of the table's rows, checked list by list.\<close>

lemma tableI:
  assumes "list_all P (map (\<lambda>(v, p, a). (v, segments p, a)) openRoutes)"
    "list_all P (map (\<lambda>(v, p, a). (v, segments p, a)) orgRoutes)"
    "list_all P (map (\<lambda>(v, p, a). (v, segments p, a)) memberRoutes)"
    "list_all P (map (\<lambda>(v, p, a). (v, segments p, a)) moneyRoutes)"
    "list_all P (map (\<lambda>(v, p, a). (v, segments p, a)) workRoutes)"
  shows "list_all P table"
  using assms by (simp add: table_def routes_def)

lemma findRoute_row:
  assumes "findRoute m ss = Some (vals, act)"
  obtains ps where "(methodOf m, ps, act) \<in> set table" "matchSegs ps ss = Some vals"
proof -
  have "(vals, act) \<in> set (List.map_filter (matchRoute m ss) routes)"
    using assms by (auto simp: findRoute_def split: list.splits)
  then obtain v p a where r: "(v, p, a) \<in> set routes" "matchRoute m ss (v, p, a) = Some (vals, act)"
    by (auto simp: List.map_filter_def)
  then have "v = methodOf m" "a = act" "matchSegs (segments p) ss = Some vals"
    by (auto simp: matchRoute_def split: if_splits)
  moreover have "(v, segments p, a) \<in> set table" using r(1) by (force simp: table_def)
  ultimately show ?thesis using that by blast
qed

section \<open>Organizations keep out others\<close>

lemma refuses_orgs [refuse_intros]:
  assumes "cl_role c \<noteq> RoleOperator"
  shows "refuses (SetOrgArchived c org b)" "refuses (HardStopOrg S c org b)" "refuses (ReimportOrgTokens S c org)"
    "refuses (RequeueBackfill c org)" "refuses (SetOrgDefaultTokenGroup S c org g)" "refuses (ConfigureDiscount S c org m f gs)"
    "refuses (OpenSupportSession c org s gt t)" "refuses (Recharge S c org a tn cny nt)" "refuses (DebitBalance S c org a rs)"
    "refuses (SetBillingSettings S c org bo ho lo)"
  unfolding SetOrgArchived_def HardStopOrg_def ReimportOrgTokens_def RequeueBackfill_def SetOrgDefaultTokenGroup_def
    ConfigureDiscount_def OpenSupportSession_def Recharge_def DebitBalance_def SetBillingSettings_def
  by (intro refuse_intros assms)+

lemma refuses_scoped [refuse_intros]:
  assumes "cl_role c \<noteq> RoleOperator" "cl_org c \<noteq> org"
  shows "refuses (GetBackfillStatus c org)" "refuses (GetOrg c org)" "refuses (UpdateOrgSettings S c org nm tz ti)"
    "refuses (GetApprovalRulesService c org)" "refuses (SetApprovalRules c org a1 a2 a3)"
    "refuses (ListQuotaPoliciesService c org)" "refuses (SetQuotaPolicy c org p)" "refuses (ListTeamsWithCounts c org)"
    "refuses (CreateTeam c org nm' ti)" "refuses (GetTeamDetail c org tid)" "refuses (UpdateTeam c org tid nm')"
    "refuses (ArchiveTeam c org tid)" "refuses (UnarchiveTeam c org tid)" "refuses (TeamUsage c org tid h)"
    "refuses (ListTiersService S c org)" "refuses (CreateTier S c org t)"
  unfolding GetBackfillStatus_def GetOrg_def UpdateOrgSettings_def GetApprovalRulesService_def SetApprovalRules_def
    ListQuotaPoliciesService_def SetQuotaPolicy_def ListTeamsWithCounts_def CreateTeam_def GetTeamDetail_def UpdateTeam_def
    ArchiveTeam_def UnarchiveTeam_def TeamUsage_def ListTiersService_def CreateTier_def
  by (intro refuse_intros assms)+

lemma refuses_members [refuse_intros]:
  assumes "cl_role c \<noteq> RoleOperator" "cl_org c \<noteq> org"
  shows "refuses (ListMembers c org f)" "refuses (OpenMember S c org nm em tm ti)" "refuses (ListOffboardedMembers c org l o')" "refuses (GetBalance S c org)"
    "refuses (ListRecharges S c org l o')" "refuses (ListRechargeRequests S c org l o')" "refuses (RequestRecharge S c org ty a nt)"
    "refuses (GetBillingSettings S c org)" "refuses (GetPricing S c org)" "refuses (OrgUsage c org h)"
    "refuses (OrgUsageTimeSeries c org h g)" "refuses (OrgUsageDetail c org h mf kf md pg sz)" "refuses (OrgBudgetRef c org)"
    "refuses (GetDerivedBalance S c org)" "refuses (RefillWindow S c org)"
  unfolding ListMembers_def OpenMember_def ListOffboardedMembers_def GetBalance_def
    ListRecharges_def ListRechargeRequests_def RequestRecharge_def GetBillingSettings_def GetPricing_def OrgUsage_def
    OrgUsageTimeSeries_def OrgUsageDetail_def OrgBudgetRef_def GetDerivedBalance_def RefillWindow_def
  by (intro refuse_intros assms)+

lemma refuses_status:
  assumes "cl_role c \<noteq> RoleOperator" "cl_org c \<noteq> org"
  shows "refuses (SetMemberStatus S c org mid b)"
  unfolding SetMemberStatus_def loadManageableMember_def by (intro refuses_after refuses_scope assms)

text \<open>What the bulk routes leave of another organization: at most their own entry in its trail.\<close>

definition bulkTrail :: "db \<Rightarrow> db \<Rightarrow> bool" where
  "bulkTrail d d' \<longleftrightarrow> (\<exists>es. d' = d\<lparr>audits := audits d @ es\<rparr> \<and> (\<forall>e \<in> set es. au_action e = ''bulk_open_members''))"

interpretation bulkTrail: db_guarantee bulkTrail
proof
  show "bulkTrail d d" for d by (auto simp: bulkTrail_def intro!: exI[of _ "[]"])
  show "bulkTrail d f" if de: "bulkTrail d e" and ef: "bulkTrail e f" for d e f :: db
  proof -
    obtain es where "e = d\<lparr>audits := audits d @ es\<rparr>" "\<forall>a \<in> set es. au_action a = ''bulk_open_members''"
      using de unfolding bulkTrail_def by blast
    moreover obtain bs where "f = e\<lparr>audits := audits e @ bs\<rparr>" "\<forall>a \<in> set bs. au_action a = ''bulk_open_members''"
      using ef unfolding bulkTrail_def by blast
    ultimately show ?thesis unfolding bulkTrail_def by (intro exI[of _ "es @ bs"]) auto
  qed
qed

lemma bulk_audit:
  "guar (onDb bulkTrail) (audit c org ''bulk_open_members'' ''member'' i x :: ('u, unit) op)"
proof -
  have "bulkTrail d (d\<lparr>audits := audits d @ [e]\<rparr>)" if "au_action e = ''bulk_open_members''" for d e
    using that by (auto simp: bulkTrail_def intro!: exI[of _ "[e]"])
  then show ?thesis unfolding audit_def WriteAudit_def by (intro bulkTrail.ignoreErr bulkTrail.exec) simp
qed

lemma bulk_leaves:
  fixes S :: "'u service"
  assumes o: "cl_role c \<noteq> RoleOperator" "cl_org c \<noteq> org"
  shows "guar (onDb bulkTrail) (BulkOpenMembers S c org nms tm ti)" "guar sameUp (BulkOpenMembers S c org nms tm ti)"
    "guar (onDb bulkTrail) (BulkSetStatus S c org ids b)" "guar sameUp (BulkSetStatus S c org ids b)"
proof -
  have one: "guar R (OpenMember S c org nm em tm' ti')" "guar R (SetMemberStatus S c org mid b')"
    if "guarantee R" for R nm em tm' ti' mid b'
    using that refuses_guar refuses_members(2)[OF o] refuses_status[OF o] by blast+
  note db = one[OF bulkTrail.guarantee_axioms] and up = one[OF sameUp.guarantee_axioms]
  show "guar (onDb bulkTrail) (BulkOpenMembers S c org nms tm ti)"
    unfolding BulkOpenMembers_def bulkOpenStep_def by (intro guar_intros db bulk_audit)
  show "guar sameUp (BulkOpenMembers S c org nms tm ti)"
    unfolding BulkOpenMembers_def bulkOpenStep_def by (intro guar_intros up)
  show "guar (onDb bulkTrail) (BulkSetStatus S c org ids b)" unfolding BulkSetStatus_def by (intro guar_intros db)
  show "guar sameUp (BulkSetStatus S c org ids b)" unfolding BulkSetStatus_def by (intro guar_intros up)
qed

section \<open>What the routes of an organization do for an outsider\<close>

definition outsider :: "claims \<Rightarrow> pathvals \<Rightarrow> bool" where
  "outsider c vals \<longleftrightarrow> cl_role c \<noteq> RoleOperator \<and> parseInt (pathValue vals ''id'') \<noteq> Some (cl_org c)"

definition closed_to :: "'u action \<Rightarrow> bool" where
  "closed_to act \<longleftrightarrow> (case act of Open _ \<Rightarrow> False
     | Authed f \<Rightarrow> \<forall>A rq r vals c. outsider c vals \<longrightarrow> refusing (f A rq r vals c))"

definition leaves_trail :: "'u action \<Rightarrow> bool" where
  "leaves_trail act \<longleftrightarrow> (case act of Open _ \<Rightarrow> False
     | Authed f \<Rightarrow> \<forall>A rq r vals c. outsider c vals \<longrightarrow> keeps (onDb bulkTrail) (f A rq r vals c) \<and> keeps sameUp (f A rq r vals c))"

lemma outsiderD: "outsider c vals \<Longrightarrow> cl_role c \<noteq> RoleOperator"
  "outsider c vals \<Longrightarrow> parseInt (pathValue vals ''id'') = Some n \<Longrightarrow> cl_org c \<noteq> n"
  by (auto simp: outsider_def)

lemma closed_plain:
  assumes "outsider c vals"
  shows "refusing (archiveOrg b vals c)" "refusing (handleHardStop b A vals c)" "refusing (handleReimportTokens A vals c)"
    "refusing (handleGetBackfill vals c)" "refusing (handleRequeueBackfill vals c)" "refusing (handleGetOrg vals c)"
    "refusing (handleUpdateOrg A r vals c)" "refusing (handleGetApprovalRules vals c)" "refusing (handleSetApprovalRules r vals c)"
    "refusing (handleListPolicies vals c)" "refusing (handleSetPolicy r vals c)" "refusing (handleListTeams vals c)"
    "refusing (handleCreateTeam r vals c)" "refusing (handleGetTeam vals c)" "refusing (handleUpdateTeam r vals c)"
    "refusing (handleTeamUsage r vals c)" "refusing (handleListTiers A vals c)" "refusing (handleCreateTier A r vals c)"
  unfolding archiveOrg_def handleHardStop_def handleReimportTokens_def handleGetBackfill_def handleRequeueBackfill_def
    handleGetOrg_def handleUpdateOrg_def handleGetApprovalRules_def handleSetApprovalRules_def handleListPolicies_def
    handleSetPolicy_def handleListTeams_def handleCreateTeam_def handleGetTeam_def handleUpdateTeam_def
    handleTeamUsage_def handleListTiers_def handleCreateTier_def
  by (intro refuse_intros outsiderD[OF assms]; assumption)+

lemma closed_team: "outsider c vals \<Longrightarrow> refusing (teamStatusOp b vals c)"
  unfolding teamStatusOp_def by (cases b) (simp; intro refuse_intros outsiderD; assumption)+

lemma closed_money:
  assumes "outsider c vals"
  shows "refusing (handleGetBalance A vals c)" "refusing (handleListRecharges A r vals c)" "refusing (handleRecharge A r vals c)"
    "refusing (handleDebit A r vals c)" "refusing (handleListRechargeRequests A r vals c)" "refusing (handleRequestRecharge A r vals c)"
    "refusing (handleGetBillingSettings A vals c)" "refusing (handleSetBillingSettings A r vals c)" "refusing (handleGetPricing A vals c)"
    "refusing (handleSetOrgDefaultTokenGroup A r vals c)" "refusing (handleConfigureDiscount A r vals c)"
    "refusing (handleOrgUsage r vals c)" "refusing (handleOrgUsageTimeSeries r vals c)" "refusing (handleOrgUsageDetail r vals c)"
    "refusing (handleUsageExport r vals c)" "refusing (handleBudgetRef vals c)" "refusing (handleEscrowBalance A vals c)"
    "refusing (handleEscrowRefill A vals c)" "refusing (handleOpenSupport A r vals c)" "refusing (handleOpenMember A r vals c)"
    "refusing (handleListOffboarded r vals c)"
  unfolding handleGetBalance_def handleListRecharges_def handleRecharge_def handleDebit_def handleListRechargeRequests_def
    handleRequestRecharge_def handleGetBillingSettings_def handleSetBillingSettings_def handleGetPricing_def
    handleSetOrgDefaultTokenGroup_def handleConfigureDiscount_def handleOrgUsage_def handleOrgUsageTimeSeries_def
    handleOrgUsageDetail_def handleUsageExport_def handleBudgetRef_def handleEscrowBalance_def handleEscrowRefill_def
    handleOpenSupport_def handleOpenMember_def handleListOffboarded_def
  by (intro refuse_intros outsiderD[OF assms]; assumption)+

lemma closed_members: "outsider c vals \<Longrightarrow> refusing (handleListMembers r vals c)"
  unfolding handleListMembers_def Let_def noRows_def
  by (intro refuse_intros guar_if) (auto intro: refuses_after refuses_members dest: outsiderD split: if_splits)

lemma trail_bulk:
  assumes "outsider c vals"
  shows "keeps (onDb bulkTrail) (handleBulkOpen A r vals c)" "keeps sameUp (handleBulkOpen A r vals c)"
    "keeps (onDb bulkTrail) (handleBulkStatus A r vals c)" "keeps sameUp (handleBulkStatus A r vals c)"
  unfolding handleBulkOpen_def handleBulkStatus_def pathInt64_def Let_def
  by (auto split: option.split intro!: keeps_answer keeps_decode keeps_prod keeps_call keeps_ok
      bulkTrail.guarantee_axioms sameUp.guarantee_axioms bulk_leaves outsiderD[OF assms])

definition orgSegs :: "string list" where "orgSegs = [''api'', ''v1'', ''organizations'', ''{id}'']"

text \<open>The rows of an organization's routes: closed to outsiders, but for the two in bulk and the list of approvals.\<close>

definition orgRow :: "string \<times> string list \<times> 'u action \<Rightarrow> bool" where
  "orgRow = (\<lambda>(v, ps, act). take 4 ps = orgSegs \<longrightarrow>
     (if ps = orgSegs @ [''members:bulk''] \<or> ps = orgSegs @ [''members:bulk-status''] then leaves_trail act
      else (v = ''GET'' \<and> ps = orgSegs @ [''approvals'']) \<or> closed_to act))"

lemma closed_iff [simp]: "closed_to (Authed f) = (\<forall>A rq r vals c. outsider c vals \<longrightarrow> refusing (f A rq r vals c))"
  by (simp add: closed_to_def)

lemma leaves_iff [simp]: "leaves_trail (Authed f) = (\<forall>A rq r vals c. outsider c vals \<longrightarrow>
    keeps (onDb bulkTrail) (f A rq r vals c) \<and> keeps sameUp (f A rq r vals c))"
  by (simp add: leaves_trail_def)

lemma table_orgRow: "list_all orgRow table"
  by (rule tableI; simp add: segs_routes orgRow_def orgSegs_def closed_plain closed_team closed_money closed_members trail_bulk)

text \<open>A path of an organization only matches the rows of an organization.\<close>

definition orgPath :: "string \<times> string list \<times> 'u action \<Rightarrow> bool" where
  "orgPath = (\<lambda>(v, ps, act). \<forall>i rest vals. matchSegs ps (''api'' # ''v1'' # ''organizations'' # i # rest) = Some vals \<longrightarrow>
     take 4 ps = orgSegs)"

lemma table_orgPath: "list_all orgPath table"
  by (rule tableI; simp add: segs_routes orgPath_def orgSegs_def wildcard_def)

lemma org_match:
  assumes "matchSegs ps (''api'' # ''v1'' # ''organizations'' # i # rest) = Some vals" "take 4 ps = orgSegs"
  shows "pathValue vals ''id'' = i \<and> matchSegs (drop 4 ps) rest \<noteq> None"
proof -
  obtain qs where ps: "ps = ''api'' # ''v1'' # ''organizations'' # ''{id}'' # qs"
    using assms(2) by (cases ps; cases "tl ps"; cases "tl (tl ps)"; cases "tl (tl (tl ps))") (auto simp: orgSegs_def)
  show ?thesis using assms(1) by (auto simp: ps wildcard_def pathValue_def split: if_splits)
qed

section \<open>Reading\<close>

text \<open>A reading route adds at most the balance row of an organization that has none, with zeros.\<close>

definition addsZeros :: "db \<Rightarrow> db \<Rightarrow> bool" where
  "addsZeros d d' \<longleftrightarrow> (\<exists>orgs'. d' = d\<lparr>balances := balances d @ map zeroBalance orgs'\<rparr>)"

interpretation addsZeros: db_guarantee addsZeros
proof
  show "addsZeros d d" for d by (auto simp: addsZeros_def intro!: exI[of _ "[]"])
  show "addsZeros d f" if de: "addsZeros d e" and ef: "addsZeros e f" for d e f :: db
  proof -
    obtain os where "e = d\<lparr>balances := balances d @ map zeroBalance os\<rparr>" using de unfolding addsZeros_def by blast
    moreover obtain os' where "f = e\<lparr>balances := balances e @ map zeroBalance os'\<rparr>" using ef unfolding addsZeros_def by blast
    ultimately show ?thesis unfolding addsZeros_def by (intro exI[of _ "os @ os'"]) simp
  qed
qed

abbreviation reads :: "('u, 'a) op \<Rightarrow> bool" where "reads f \<equiv> guar (onDb addsZeros) f"

lemma reads_balance [guar_intros]: "reads (GetOrCreateBalance org)"
proof -
  have "addsZeros d (snd (insertBalance org d))" for d
    by (auto simp: addsZeros_def insertBalance_def intro: exI[of _ "[org]"] exI[of _ "[]"])
  then show ?thesis unfolding GetOrCreateBalance_def getBalance_def by (intro guar_intros)
qed

lemma reads_scope [guar_intros]:
  "reads (assertOrgScope c org)" "reads (assertRole c rs)" "reads (assertTeamScope c t)" "reads (assertSelf c m)"
  "reads (mvpHidePrice S c)" "reads (orgUserGroup org)" "reads clock"
  unfolding assertOrgScope_def assertRole_def assertTeamScope_def assertSelf_def mvpHidePrice_def orgUserGroup_def
    GetOrganization_def clock_def
  by (intro guar_intros addsZeros.guarantee_axioms)+

lemma reads_rows [guar_intros]: "reads (ListTeamsRepo org)" "reads (GetMember org m)" "reads (ListOffboardedMembersRepo org l o')"
  "reads (ListApprovalsRepo org st tm ap l o')"
  unfolding ListTeamsRepo_def GetMember_def ListOffboardedMembersRepo_def ListApprovalsRepo_def Let_def
  by (intro guar_intros addsZeros.guarantee_axioms)+

lemma guar_prod_applied [guar_intros]: "(\<And>x y. guar R (f x y a)) \<Longrightarrow> guar R ((case z of (x, y) \<Rightarrow> f x y) a)"
  by (cases z) simp

lemma reads_approvals: "reads (ListApprovals c st l o')"
  unfolding ListApprovals_def by (cases "cl_role c") (simp_all add: reads_rows)

lemma reads_orgs:
  "reads (Me c)" "reads (ListOrgs c l o' b)" "reads (GetOrg c org)" "reads (GetBackfillStatus c org)"
  "reads (GetApprovalRulesService c org)" "reads (ListQuotaPoliciesService c org)" "reads (ListTeamsWithCounts c org)"
  "reads (GetTeamDetail c org tid)" "reads (ListTiersService S c org)"
  unfolding Me_def ListOrgs_def ListOrganizations_def GetOrg_def GetOrganization_def GetBackfillStatus_def GetBackfillJob_def
    GetApprovalRulesService_def GetApprovalRules_def ListQuotaPoliciesService_def ListQuotaPolicies_def ListTeamsWithCounts_def
    ListTeams_def CountActiveMembersByTeam_def GetTeamDetail_def GetTeam_def CountActiveMembersInTeam_def ListTiersService_def
    ListTiers_def Let_def
  by (intro guar_intros addsZeros.guarantee_axioms)+

lemma reads_members:
  "reads (ListMembers c org f)" "reads (GetMemberService c org mid)" "reads (MemberUsableGroups S c)"
  "reads (ListGrants c org mid l o')" "reads (ListOffboardedMembers c org l o')"
  "reads (ListNotifications c l o')" "reads (ReadSupportSession c sid)"
  unfolding ListMembers_def ListMembersRepo_def GetMemberService_def MemberUsableGroups_def ListGrants_def
    loadManageableMember_def ListGrantsByMember_def ListOffboardedMembers_def
    ListNotifications_def ListNotificationsRepo_def ReadSupportSession_def
    GetSupportSession_def Let_def
  by (intro guar_intros addsZeros.guarantee_axioms)+

lemma reads_money:
  "reads (GetBalance S c org)" "reads (ListRecharges S c org l o')" "reads (ListRechargeRequests S c org l o')"
  "reads (GetBillingSettings S c org)" "reads (GetPricing S c org)" "reads (ListBillingGroups S c)"
  "reads (GetDerivedBalance S c org)"
  unfolding GetBalance_def requireOrg_def GetOrganization_def GetOrgNewapiCred_def SumHoldingEscrow_def ListRecharges_def
    ListRechargesRepo_def operatorName_def GetMemberNameByID_def ListRechargeRequests_def ListRechargeRequestsRepo_def
    GetBillingSettings_def GetOrgBillingFlags_def GetPricing_def GetOrgDiscount_def ListBillingGroups_def GetDerivedBalance_def
    Let_def
  by (intro guar_intros addsZeros.guarantee_axioms)+

lemma reads_aggregate [guar_intros]: "reads (aggregateUsage h org mf tf)"
  unfolding aggregateUsage_def AggregateUsageLedgerByTeam_def AggregateUsageLedger_def scanUsage_def CountUsageDetailByDim_def
    memberReport_def labelMember_def labelTeams_def Let_def
  by (intro guar_intros addsZeros.guarantee_axioms)+

lemma reads_usage:
  "reads (OrgUsage c org h)" "reads (TeamUsage c org tid h)" "reads (MemberUsage c org mid h)"
  "reads (OrgUsageTimeSeries c org h g)" "reads (MemberUsageTimeSeries c org mid h g)"
  "reads (OrgUsageDetail c org h mf kf md pg sz)" "reads (MemberUsageDetail c org mid h pg sz)" "reads (OrgBudgetRef c org)"
  unfolding OrgUsage_def TeamUsage_def GetTeam_def MemberUsage_def usageMember_def OrgUsageTimeSeries_def MemberUsageTimeSeries_def
    usageTimeSeries_def AggregateUsageByTime_def OrgUsageDetail_def MemberUsageDetail_def usageDetail_def CountUsageDetail_def
    ListUsageDetail_def OrgBudgetRef_def AggregateUsageLedger_def scanUsage_def Let_def
  by (intro guar_intros addsZeros.guarantee_axioms)+

lemmas read_ops = reads_orgs reads_approvals reads_members reads_money reads_usage

abbreviation readingH :: "('u, 'a) handler \<Rightarrow> bool" where "readingH h \<equiv> keeps (onDb addsZeros) h"

lemma reading_plain:
  "readingH (handleMe A c)" "readingH (handleListOrgs r c)" "readingH (handleGetOrg vals c)" "readingH (handleGetBackfill vals c)"
  "readingH (handleGetApprovalRules vals c)" "readingH (handleListPolicies vals c)" "readingH (handleListTeams vals c)"
  "readingH (handleGetTeam vals c)" "readingH (handleListTiers A vals c)" "readingH (handleGetMember vals c)"
  "readingH (handleMemberUsableGroups A c)" "readingH (handleListGrants r vals c)" "readingH (handleListOffboarded r vals c)"
  "readingH (handleListNotifications r c)" "readingH (handleGetSupport vals c)" "readingH (handleGetBalance A vals c)"
  "readingH (handleListRecharges A r vals c)" "readingH (handleListRechargeRequests A r vals c)"
  "readingH (handleGetBillingSettings A vals c)" "readingH (handleGetPricing A vals c)" "readingH (handleListBillingGroups A c)"
  "readingH (handleEscrowBalance A vals c)" "readingH (handleBudgetRef vals c)"
  unfolding handleMe_def handleListOrgs_def handleGetOrg_def handleGetBackfill_def handleGetApprovalRules_def
    handleListPolicies_def handleListTeams_def handleGetTeam_def handleListTiers_def handleGetMember_def
    handleMemberUsableGroups_def handleListGrants_def handleListOffboarded_def handleListNotifications_def handleGetSupport_def
    handleGetBalance_def handleListRecharges_def handleListRechargeRequests_def handleGetBillingSettings_def
    handleGetPricing_def handleListBillingGroups_def handleEscrowBalance_def handleBudgetRef_def pageFrom_def
  by (intro keep_intros addsZeros.guarantee_axioms read_ops guar_if addsZeros.bind addsZeros.throw)+

lemma reading_usage:
  "readingH (handleOrgUsage r vals c)" "readingH (handleTeamUsage r vals c)" "readingH (handleMemberUsage r vals c)"
  "readingH (handleOrgUsageTimeSeries r vals c)" "readingH (handleMemberUsageTimeSeries r vals c)"
  "readingH (handleOrgUsageDetail r vals c)" "readingH (handleMemberUsageDetail r vals c)" "readingH (handleUsageExport r vals c)"
  "readingH handleServiceStatus"
  unfolding handleOrgUsage_def handleTeamUsage_def handleMemberUsage_def handleOrgUsageTimeSeries_def
    handleMemberUsageTimeSeries_def handleOrgUsageDetail_def handleMemberUsageDetail_def handleUsageExport_def
    handleServiceStatus_def
  by (intro keep_intros addsZeros.guarantee_axioms read_ops)+

lemma reading_filtered: "readingH (handleListMembers r vals c)" "readingH (handleListApprovals r c)"
  unfolding handleListMembers_def handleListApprovals_def noRows_def Let_def
  by (intro keep_intros addsZeros.guarantee_axioms read_ops guar_if addsZeros.bind addsZeros.return)+

lemma reading_login: "readingH (handleLogin (S :: 'v service) sg q body)"
proof -
  have login: "reads (Login (S :: 'v service) sg' email pw)" for sg' email pw
    unfolding Login_def GetMemberByEmail_def by (intro guar_intros addsZeros.guarantee_axioms)
  show ?thesis
    using guarD'[OF login]
    by (auto simp: handleLogin_def gated_def keeps_def answer_def limitFail_def limitReset_def Let_def addsZeros.refl
        split: option.split prod.split sum.split)
qed

lemma reading_open: "readingH (handleHealthz A)" "readingH (handleMetrics A r ct)" "readingH handleReadyz" "readingH (loginEndpoint A rq r)"
proof -
  have ping: "reads (Ping :: ('v, unit) op)" unfolding Ping_def by (intro guar_intros)
  show "readingH (handleHealthz A)" "readingH (handleMetrics A r ct)"
    by (auto simp: handleHealthz_def handleMetrics_def keeps_def answer_def onDb_def addsZeros.db_refl)
  show "readingH handleReadyz"
    using guarD'[OF ping] by (auto simp: handleReadyz_def keeps_def split: prod.split sum.split)
  show "readingH (loginEndpoint A rq r)"
    unfolding loginEndpoint_def mapHandler_def keeps_def
    using reading_login unfolding keeps_def by (simp add: case_prod_beta)
qed

text \<open>The rows of the reading routes, and of those open to everyone.\<close>

definition readRow :: "string \<times> string list \<times> 'u action \<Rightarrow> bool" where
  "readRow = (\<lambda>(v, ps, act). case act of
      Open f \<Rightarrow> \<forall>A rq r ct. readingH (f A rq r ct)
    | Authed f \<Rightarrow> v = ''GET'' \<longrightarrow> (\<forall>A rq r vals c. readingH (f A rq r vals c)))"

lemma table_readRow: "list_all readRow table"
  by (rule tableI; simp add: segs_routes readRow_def reading_plain reading_usage reading_filtered reading_open)

section \<open>Replies\<close>

lemma typed_group1:
  "typed (handleMe A c)" "typed (handleUpdateMe A r c)" "typed (handleListOrgs r c)" "typed (handleCreateOrg A r c)"
  "typed (handleGetOrg vals c)" "typed (handleUpdateOrg A r vals c)" "typed (archiveOrg b vals c)" "typed (handleReimportTokens A vals c)"
  "typed (handleGetBackfill vals c)" "typed (handleRequeueBackfill vals c)" "typed (handleHardStop b A vals c)"
  "typed (handleGetApprovalRules vals c)" "typed (handleSetApprovalRules r vals c)" "typed (handleListPolicies vals c)"
  "typed (handleSetPolicy r vals c)" "typed (handleListTeams vals c)" "typed (handleCreateTeam r vals c)" "typed (handleGetTeam vals c)"
  "typed (handleUpdateTeam r vals c)" "typed (teamStatusOp b vals c)" "typed (handleTeamUsage r vals c)" "typed (handleListTiers A vals c)"
  "typed (handleCreateTier A r vals c)" "typed (handleUpdateTier A r vals c)" "typed (handleDeleteTier vals c)"
  "typed (handleSetDefaultTier vals c)" "typed (handleListNotifications r c)" "typed handleServiceStatus"
  unfolding handleMe_def handleUpdateMe_def handleListOrgs_def handleCreateOrg_def handleGetOrg_def handleUpdateOrg_def archiveOrg_def
    handleReimportTokens_def handleGetBackfill_def handleRequeueBackfill_def handleHardStop_def handleGetApprovalRules_def
    handleSetApprovalRules_def handleListPolicies_def handleSetPolicy_def handleListTeams_def handleCreateTeam_def handleGetTeam_def
    handleUpdateTeam_def teamStatusOp_def handleTeamUsage_def handleListTiers_def handleCreateTier_def handleUpdateTier_def
    handleDeleteTier_def handleSetDefaultTier_def handleListNotifications_def handleServiceStatus_def
  by (intro typed_intros)+

lemma typed_group2:
  "typed (handleListMembers r vals c)" "typed (handleOpenMember A r vals c)" "typed (handleBulkOpen A r vals c)"
  "typed (handleBulkStatus A r vals c)" "typed (handleGetMember vals c)" "typed (handleUpdateMember A r vals c)"
  "typed (handleAssignRole r vals c)" "typed (handleRotateKey A vals c)" "typed (handleSetKeyIP A r vals c)"
  "typed (handleCreateMemberToken A r vals c)" "typed (handleMemberUsableGroups A c)" "typed (handleAdjustQuota A r vals c)"
  "typed (handleSetGrant A r vals c)" "typed (handleListGrants r vals c)" "typed (handleRevokeGrant A vals c)"
  "typed (handleResetMemberPassword A vals c)" "typed (handleSetMemberStatus A r vals c)" "typed (handleOffboardMember A vals c)"
  "typed (handleRestoreMember vals c)" "typed (handleListOffboarded r vals c)" "typed (handleSubmitApproval A r c)"
  "typed (handleListApprovals r c)" "typed (handleDecideApproval A r vals c)" "typed (handleMarkNotificationRead vals c)"
  unfolding handleListMembers_def handleOpenMember_def handleBulkOpen_def handleBulkStatus_def handleGetMember_def
    handleUpdateMember_def handleAssignRole_def handleRotateKey_def handleSetKeyIP_def handleCreateMemberToken_def
    handleMemberUsableGroups_def handleAdjustQuota_def handleSetGrant_def handleListGrants_def handleRevokeGrant_def
    handleResetMemberPassword_def handleSetMemberStatus_def handleOffboardMember_def handleRestoreMember_def
    handleListOffboarded_def handleSubmitApproval_def handleListApprovals_def handleDecideApproval_def
    handleMarkNotificationRead_def Let_def
  by (intro typed_intros)+

lemma typed_group3:
  "typed (handleGetBalance A vals c)" "typed (handleListRecharges A r vals c)" "typed (handleRecharge A r vals c)"
  "typed (handleListRechargeRequests A r vals c)" "typed (handleRequestRecharge A r vals c)" "typed (handleDebit A r vals c)"
  "typed (handleGetBillingSettings A vals c)" "typed (handleSetBillingSettings A r vals c)" "typed (handleGetPricing A vals c)"
  "typed (handleConfigureDiscount A r vals c)" "typed (handleReconcileDiscounts A c)" "typed (handleListBillingGroups A c)"
  "typed (handleSetOrgDefaultTokenGroup A r vals c)" "typed (handleOrgUsage r vals c)" "typed (handleOrgUsageTimeSeries r vals c)"
  "typed (handleOrgUsageDetail r vals c)" "typed (handleBudgetRef vals c)" "typed (handleEscrowBalance A vals c)"
  "typed (handleEscrowRefill A vals c)" "typed (handleMemberUsage r vals c)" "typed (handleMemberUsageTimeSeries r vals c)"
  "typed (handleMemberUsageDetail r vals c)" "typed (handleUsageExport r vals c)" "typed (handleGetSupport vals c)"
  "typed (handleCloseSupport vals c)"
  unfolding handleGetBalance_def handleListRecharges_def handleRecharge_def handleListRechargeRequests_def
    handleRequestRecharge_def handleDebit_def handleGetBillingSettings_def handleSetBillingSettings_def handleGetPricing_def
    handleConfigureDiscount_def handleReconcileDiscounts_def handleListBillingGroups_def handleSetOrgDefaultTokenGroup_def
    handleOrgUsage_def handleOrgUsageTimeSeries_def handleOrgUsageDetail_def handleBudgetRef_def handleEscrowBalance_def
    handleEscrowRefill_def handleMemberUsage_def handleMemberUsageTimeSeries_def handleMemberUsageDetail_def
    handleUsageExport_def handleGetSupport_def handleCloseSupport_def
  by (intro typed_intros)+

lemma typed_support: "typed (handleOpenSupport A r vals c)"
proof -
  have "wellTyped (fst (ok 201 v s))" for v s by (simp add: ok_def answer_def wellTyped_ok)
  then show ?thesis unfolding handleOpenSupport_def
    by (intro typed_intros) (auto simp: typed_def split: option.split)
qed

lemma typed_open: "typed (handleHealthz A)" "typed (handleMetrics A r ct)" "typed handleReadyz"
  "typed (loginEndpoint A rq r)" "typed (changePasswordEndpoint A rq r c)"
  by (auto simp: typed_def wellTyped_def handleHealthz_def handleMetrics_def handleReadyz_def loginEndpoint_def
      changePasswordEndpoint_def mapHandler_def mapReply_def handleLogin_def handleChangePassword_def gated_def answer_def
      writeOK_def writeErr_def Let_def split: prod.split sum.split option.split)

definition typedRow :: "string \<times> string list \<times> 'u action \<Rightarrow> bool" where
  "typedRow = (\<lambda>(v, ps, act). case act of
      Open f \<Rightarrow> \<forall>A rq r ct. typed (f A rq r ct) | Authed f \<Rightarrow> \<forall>A rq r vals c. typed (f A rq r vals c))"

lemma table_typedRow: "list_all typedRow table"
  by (rule tableI; simp add: segs_routes typedRow_def typed_group1 typed_group2 typed_group3 typed_support typed_open)

end
