(* ===== verification/RouterClaims.thy ===== *)
theory RouterClaims
  imports RouteTable HttpClaims GoJson
begin

text \<open>
  What holds of the server as a whole, from a request on the wire to the text of its answer: who can
  change rows at all, what an outsider gets from an organization, and the form of every answer.
  First a server over the sample service and one request that it answers from the wire to the row, an
  administrator bringing a team back, at which the properties are instantiated.
\<close>

section \<open>Tokens in a header\<close>

lemma dropSeqs_plain:
  assumes "\<forall>p \<in> set ps. p \<noteq> [] \<longrightarrow> s \<noteq> [] \<longrightarrow> hd p \<noteq> hd s"
  shows "dropSeqs ps s = s"
proof -
  have "find (\<lambda>p. p \<noteq> [] \<and> s \<noteq> [] \<and> startsWith s p) ps = None"
    using assms by (force simp: find_None_iff startsWith_def neq_Nil_conv)
  then show ?thesis by (subst dropSeqs.simps) simp
qed

definition tokenChar :: "char \<Rightarrow> bool" where
  "tokenChar c \<longleftrightarrow> c = CHR ''.'' \<or> c \<in> set b64Alphabet"

lemma spaces_apart: "\<forall>p \<in> set spaceSeqs \<union> set (map rev spaceSeqs). p \<noteq> [] \<and> \<not> tokenChar (hd p)"
  unfolding tokenChar_def by code_simp

lemma TrimSpace_token: "list_all tokenChar s \<Longrightarrow> TrimSpace s = s"
  unfolding TrimSpace_def
proof -
  assume s: "list_all tokenChar s"
  have h: "s \<noteq> [] \<Longrightarrow> tokenChar (hd s)" "s \<noteq> [] \<Longrightarrow> tokenChar (hd (rev s))"
    using s by (auto simp: list_all_iff hd_rev)
  have apart: "hd p \<noteq> c" if "p \<in> set spaceSeqs \<union> set (map rev spaceSeqs)" "tokenChar c" for p c
    using spaces_apart that by blast
  have "dropSeqs spaceSeqs s = s" by (rule dropSeqs_plain) (intro ballI impI apart UnI1 h(1))
  moreover have "dropSeqs (map rev spaceSeqs) (rev s) = rev s"
    by (rule dropSeqs_plain) (intro ballI impI apart UnI2 h(2), simp_all)
  ultimately show "rev (dropSeqs (map rev spaceSeqs) (rev (dropSeqs spaceSeqs s))) = s" by simp
qed

lemma b64Encode_chars: "list_all tokenChar (b64Encode s)"
proof -
  have "b64Char g \<in> set b64Alphabet" if "g < 64" for g
    unfolding b64Char_def by (rule nth_mem) (use that in \<open>simp add: b64Alphabet_def eval_nat_numeral\<close>)
  then show ?thesis
    by (auto simp: b64Encode_def list_all_iff tokenChar_def intro: b64Groups_range bytes_small)
qed

lemma TrimSpace_Issue: "TrimSpace (Issue sg now c) = Issue sg now c"
  by (rule TrimSpace_token) (simp add: Issue_def Let_def sign_def b64Encode_chars, simp add: tokenChar_def)

definition adminClaims :: claims where "adminClaims = stamp toySigner (1700000000 * 10 ^ 9) (sampleClaims RoleOrgAdmin 1)"

definition adminToken :: string where "adminToken = Issue toySigner (1700000000 * 10 ^ 9) (sampleClaims RoleOrgAdmin 1)"

definition bearer :: string where "bearer = ''Bearer '' @ adminToken"

lemma adminToken_verifies: "Verify toySigner (1700000600 * 10 ^ 9) (TrimSpace (drop 7 bearer)) = Inr adminClaims"
proof -
  have "fitting adminClaims"
    by (simp add: toySigner_def adminClaims_def sampleClaims_def fitting_def fits64_def stamp_def)
  then have "Verify toySigner (1700000600 * 10 ^ 9) adminToken = Inr adminClaims"
    unfolding adminToken_def Issue_def Let_def adminClaims_def
    by (intro Verify_signed claimsOf_Json)
       (simp_all add: claimsJson_not_Nil toySigner_def sampleClaims_def validRole_def stamp_def)
  then show ?thesis by (simp add: bearer_def adminToken_def TrimSpace_Issue)
qed

section \<open>The request\<close>

definition callTo :: "string \<Rightarrow> string \<Rightarrow> wire" where
  "callTo verb path = \<lparr> wi_method = verb, wi_target = path, wi_query = '''', wi_authorization = bearer,
     wi_cf_ip = '''', wi_xff = '''', wi_remote = ''10.0.0.7:5000'', wi_request_id = '''', wi_body = '''' \<rparr>"

definition sampleApp :: "sample app" where
  "sampleApp = \<lparr> ap_svc = sampleSvc [] False True, ap_signer = toySigner, ap_version = ''1'', ap_mvp = True, ap_metrics_token = '''',
     ap_files = (\<lambda>p. (404, ''no such page'')) \<rparr>"

definition idle :: counters where
  "idle = \<lparr> ct_total = 0, ct_2xx = 0, ct_4xx = 0, ct_5xx = 0, ct_inflight = 0, ct_start = 0 \<rparr>"

definition teamDb :: db where
  "teamDb = sampleDb\<lparr> teams := [\<lparr> t_id = 4, t_org = 1, t_name = ''ops'', t_leader = None, t_default_tier = None,
     t_status = ''archived'', t_deleted = False \<rparr>] \<rparr>"

definition sampleServer :: "sample server" where
  "sampleServer = \<lparr> se_world = sampleWorld teamDb 1700000600, se_limiter = newAttemptLimiter \<rparr>"

abbreviation unarchiveTarget :: string where "unarchiveTarget \<equiv> ''/api/v1/organizations/1/teams/4/unarchive''"

lemma target_facts:
  "cleanPath unarchiveTarget = unarchiveTarget" "unescape False unarchiveTarget = Some unarchiveTarget"
  "pathSegs unarchiveTarget = [''api'', ''v1'', ''organizations'', ''1'', ''teams'', ''4'', ''unarchive'']"
  "list_ex (\<lambda>p. matchMVPPattern p ''POST'' unarchiveTarget) mvpWriteAllow" "startsWith unarchiveTarget ''/api/v1/''"
  "parseInt ''1'' = Some 1" "parseInt ''4'' = Some 4"
  by code_simp+

lemma findRoute_table:
  "findRoute m ss = (case List.map_filter (\<lambda>(v, ps, act). if v = methodOf m then map_option (\<lambda>vals. (vals, act)) (matchSegs ps ss) else None)
     (table :: (string \<times> string list \<times> 'u action) list) of [] \<Rightarrow> None | x # _ \<Rightarrow> Some x)"
proof -
  have "matchRoute m ss = (\<lambda>(v, ps, act). if v = methodOf m then map_option (\<lambda>vals. (vals, act :: 'u action)) (matchSegs ps ss) else None)
      \<circ> (\<lambda>(v, p, a). (v, segments p, a))"
    by (auto simp: matchRoute_def fun_eq_iff)
  then show ?thesis unfolding findRoute_def table_def by (simp add: List.map_filter_def comp_def filter_map)
qed

lemma table_all: "table = map (\<lambda>(v, p, a). (v, segments p, a)) openRoutes @ map (\<lambda>(v, p, a). (v, segments p, a)) orgRoutes
   @ map (\<lambda>(v, p, a). (v, segments p, a)) memberRoutes @ map (\<lambda>(v, p, a). (v, segments p, a)) moneyRoutes
   @ map (\<lambda>(v, p, a). (v, segments p, a)) workRoutes"
  by (simp add: table_def routes_def)

lemma route_unarchive:
  "findRoute ''POST'' [''api'', ''v1'', ''organizations'', ''1'', ''teams'', ''4'', ''unarchive'']
     = Some ([(''id'', ''1''), (''tid'', ''4'')], Authed (\<lambda>A rq r. teamStatusOp False) :: 'u action)"
  unfolding findRoute_table table_all segs_routes methodOf_def by (simp add: map_filter_simps wildcard_def)

definition unarchiveRequest :: wire where "unarchiveRequest = callTo ''POST'' unarchiveTarget"

lemma unarchive_runs:
  "rp_data (fst (serve sampleApp unarchiveRequest (idle, sampleServer))) = Some (Data (VObj [(''ok'', VBool True)]))"
  "map t_status (teams (w_db (se_world (snd (snd (serve sampleApp unarchiveRequest (idle, sampleServer))))))) = [''active'']"
proof -
  let ?rq = "\<lparr>rq_method = ''POST'', rq_path = unarchiveTarget, rq_authorization = bearer,
      rq_cf_ip = [], rq_xff = [], rq_remote = ''10.0.0.7:5000''\<rparr>"
  have rq: "headOf unarchiveRequest = Some ?rq" by (simp add: headOf_def unarchiveRequest_def callTo_def target_facts)
  have st: "startsWith bearer ''Bearer ''" by (simp add: bearer_def startsWith_def)
  have app: "ap_mvp sampleApp = True" "ap_signer sampleApp = toySigner" by (simp_all add: sampleApp_def)
  have auth: "requireAuth toySigner ?rq h sampleServer = h adminClaims sampleServer" for h :: "claims \<Rightarrow> (sample, payload) handler"
    using adminToken_verifies st
    by (simp add: requireAuth_def sampleServer_def sampleWorld_def callSvc_def ValidateSession_def CheckSupportGuard_def
        mapErr_def bind_def return_def GetMember_def getRow_def queryRow_def stmt_def findMember_def adminClaims_def stamp_def sampleClaims_def
        teamDb_def sampleDb_def sampleMember_def empty_db_def)
  have gate: "mvpGate True ?rq h = h" for h :: "(sample, payload) handler"
    using target_facts(4) by (simp add: mvpGate_def)
  have mux: "serveMux sampleApp ?rq unarchiveRequest ct sampleServer
      = teamStatusOp False [(''id'', ''1''), (''tid'', ''4'')] adminClaims sampleServer" for ct
    using auth unfolding serveMux_def
    by (simp add: unarchiveRequest_def callTo_def target_facts route_unarchive app)
  have serve: "serve sampleApp unarchiveRequest (idle, sampleServer) =
     (case teamStatusOp False [(''id'', ''1''), (''tid'', ''4'')] adminClaims sampleServer of
        (rp, s') \<Rightarrow> (rp, countReply (rp_status rp) (idle\<lparr>ct_inflight := ct_inflight idle + 1\<rparr>), s'))"
    unfolding serve_def using mux by (simp add: rq gate app Let_def)
  show "rp_data (fst (serve sampleApp unarchiveRequest (idle, sampleServer))) = Some (Data (VObj [(''ok'', VBool True)]))"
    "map t_status (teams (w_db (se_world (snd (snd (serve sampleApp unarchiveRequest (idle, sampleServer))))))) = [''active'']"
    unfolding serve
    by (simp_all add: teamStatusOp_def pathInt64_def pathValue_def target_facts callSvc_def UnarchiveTeam_def assertOrgScope_def assertRole_def
        ensure_def bind_def return_def adminClaims_def stamp_def sampleClaims_def rejectMissing_def mapErr_def attempt_def GetTeam_def getRow_def queryRow_def
        stmt_def sampleServer_def sampleWorld_def teamDb_def sampleDb_def empty_db_def UpdateTeamStatus_def updTeam_def exec_def audit_def WriteAudit_def
        ignoreErr_def ok_def answer_def writeOK_def)
qed

section \<open>The properties of the server\<close>

section \<open>The ways through the router\<close>

definition gateOpen :: "bool \<Rightarrow> request \<Rightarrow> bool" where
  "gateOpen mvp rq \<longleftrightarrow> (mvp \<and> rq_method rq \<noteq> ''GET'' \<and> rq_method rq \<noteq> ''HEAD'' \<and> startsWith (rq_path rq) ''/api/v1/'' \<longrightarrow>
     list_ex (\<lambda>p. matchMVPPattern p (rq_method rq) (rq_path rq)) mvpWriteAllow)"

lemma mvpGate_run: "mvpGate mvp rq h = (if gateOpen mvp rq then h else answer (writeErr NotFound))"
  by (auto simp: mvpGate_def gateOpen_def)

definition noAnswer :: "payload option \<Rightarrow> bool" where
  "noAnswer p \<longleftrightarrow> (case p of None \<Rightarrow> True | Some (Plain _) \<Rightarrow> True | _ \<Rightarrow> False)"

lemma noAnswer_simps [simp]: "noAnswer None" "noAnswer (Some (Plain t))" "\<not> noAnswer (Some (Data v))"
  by (simp_all add: noAnswer_def)

lemma writeErr_data [simp]: "rp_data (writeErr e) = None"
  by (simp add: writeErr_def Let_def)

lemma bare_data: "bare status t s = (rp, s') \<Longrightarrow> s' = s \<and> noAnswer (rp_data rp) \<and> wellTyped rp"
  using typed_bare[of status t] by (auto simp: bare_def answer_def writeOK_def typed_def)

lemma serveMux_run:
  assumes "serveMux A rq r ct s = (rp, s')"
  obtains (plain) "s' = s" "noAnswer (rp_data rp)" "wellTyped rp"
  | (free) vals act where "findRoute (wi_method r) (pathSegs (wi_target r)) = Some (vals, Open act)" "act A rq r ct s = (rp, s')"
  | (guarded) vals act where "findRoute (wi_method r) (pathSegs (wi_target r)) = Some (vals, Authed act)"
      "requireAuth (ap_signer A) rq (act A rq r vals) s = (rp, s')"
proof (cases "wi_target r = ''*'' \<or> cleanPath (wi_target r) \<noteq> wi_target r")
  case True
  then show ?thesis using assms plain by (auto simp: serveMux_def dest!: bare_data split: if_splits)
next
  case clean: False
  show ?thesis
  proof (cases "findRoute (wi_method r) (pathSegs (wi_target r)) :: (pathvals \<times> 'a action) option")
    case None
    then show ?thesis using assms clean plain
      by (auto simp: serveMux_def writeErr_def dest!: bare_data split: if_splits prod.splits)
  next
    case (Some va)
    obtain vals act where va: "va = (vals, act)" by (cases va)
    show ?thesis
    proof (cases act)
      case (Open f)
      then show ?thesis using assms clean Some va free by (simp add: serveMux_def)
    next
      case (Authed f)
      then show ?thesis using assms clean Some va guarded by (simp add: serveMux_def)
    qed
  qed
qed

lemma serve_run:
  assumes "serve A r (ct, s) = (rp, ct', s')"
  obtains (plain) "s' = s" "noAnswer (rp_data rp)" "wellTyped rp"
  | (free) rq ct1 vals act where "findRoute (wi_method r) (pathSegs (wi_target r)) = Some (vals, Open act)" "act A rq r ct1 s = (rp, s')"
  | (guarded) rq vals act where "headOf r = Some rq" "gateOpen (ap_mvp A) rq"
      "findRoute (wi_method r) (pathSegs (wi_target r)) = Some (vals, Authed act)"
      "requireAuth (ap_signer A) rq (act A rq r vals) s = (rp, s')"
proof (cases "headOf r")
  case None
  then show ?thesis using assms plain by (auto simp: serve_def writeOK_def wellTyped_def)
next
  case (Some rq)
  show ?thesis
  proof (cases "gateOpen (ap_mvp A) rq")
    case False
    then show ?thesis using assms Some plain by (auto simp: serve_def mvpGate_run answer_def Let_def)
  next
    case True
    then have "serveMux A rq r (ct\<lparr>ct_inflight := ct_inflight ct + 1\<rparr>) s = (rp, s')"
      using assms Some by (auto simp: serve_def mvpGate_run Let_def split: prod.splits)
    then show ?thesis
    proof (cases rule: serveMux_run)
      case plain
      then show ?thesis by (rule that(1))
    next
      case (free vals act)
      then show ?thesis by (rule that(2))
    next
      case (guarded vals act)
      with Some True show ?thesis by (rule that(3))
    qed
  qed
qed

lemma headOf_fields: "headOf r = Some rq \<Longrightarrow> rq_method rq = wi_method r \<and> rq_authorization rq = wi_authorization r"
  by (auto simp: headOf_def)

lemma row_of: "findRoute m ss = Some (vals, act) \<Longrightarrow> list_all P table \<Longrightarrow> \<exists>ps. P (methodOf m, ps, act) \<and> matchSegs ps ss = Some vals"
  by (erule findRoute_row) (auto simp: list_all_iff)

lemma onDb_keeps: "keeps (onDb R) h \<Longrightarrow> h s = (rp, s') \<Longrightarrow> R (w_db (se_world s)) (w_db (se_world s'))"
  by (auto simp: keeps_def onDb_def dest: spec[of _ s])

section \<open>Who changes rows\<close>

text \<open>C38. Only a session changes rows.  Whatever a request does to the database beyond giving an
  organization its first balance row of zeros, it is no \<open>GET\<close>, it matches one of the routes behind the
  session, its token verifies now for a caller who is admitted, and the restricted deployment lets it
  through: no probe, no login, no reading route and no refusal leaves anything behind.\<close>

theorem only_sessions_change_rows:
  fixes s :: "'u server"
  assumes "serve A r (ct, s) = (rp, ct', s')"
    and "\<not> addsZeros (w_db (se_world s)) (w_db (se_world s'))"
  shows "\<exists>rq c vals act. headOf r = Some rq \<and> gateOpen (ap_mvp A) rq
     \<and> findRoute (wi_method r) (pathSegs (wi_target r)) = Some (vals, Authed act :: 'u action) \<and> methodOf (wi_method r) \<noteq> ''GET''
     \<and> Verify (ap_signer A) (w_now (se_world s)) (TrimSpace (drop 7 (wi_authorization r))) = Inr c \<and> admitted c rq s"
  using assms(1)
proof (cases rule: serve_run)
  case plain
  then show ?thesis using assms(2) addsZeros.db_refl by simp
next
  case (free rq ct1 vals act)
  then have "readingH (act A rq r ct1 :: ('u, payload) handler)"
    using row_of[OF free(1) table_readRow] by (auto simp: readRow_def)
  then show ?thesis using assms(2) onDb_keeps free(2) by blast
next
  case (guarded rq vals act)
  let ?h = "act A rq r vals"
  from requireAuth_cases[of "ap_signer A" s rq ?h] show ?thesis
  proof (elim disjE exE conjE)
    fix c s1
    assume v: "Verify (ap_signer A) (w_now (se_world s)) (TrimSpace (drop 7 (rq_authorization rq))) = Inr c"
      and adm: "admitted c rq s" and same: "sameWorld (se_world s) (se_world s1)" and run: "requireAuth (ap_signer A) rq ?h s = ?h c s1"
    have "methodOf (wi_method r) \<noteq> ''GET''"
    proof
      assume "methodOf (wi_method r) = ''GET''"
      then have "readingH (?h c)" using row_of[OF guarded(3) table_readRow] by (auto simp: readRow_def)
      then show False using assms(2) onDb_keeps[of addsZeros "?h c" s1 rp s'] run guarded(4) same by (simp add: sameWorld_def)
    qed
    then show ?thesis using guarded v adm headOf_fields[of r rq] by auto
  next
    assume "sameWorld (se_world s) (se_world (snd (requireAuth (ap_signer A) rq ?h s)))"
    then show ?thesis using assms(2) guarded(4) addsZeros.db_refl by (simp add: sameWorld_def)
  qed
qed

theorem only_sessions_change_rows_witness:
  "\<exists>rq c vals act. headOf unarchiveRequest = Some rq \<and> gateOpen True rq
     \<and> findRoute ''POST'' (pathSegs (wi_target unarchiveRequest)) = Some (vals, Authed act :: sample action)
     \<and> Verify toySigner (1700000600 * 10 ^ 9) (TrimSpace (drop 7 (wi_authorization unarchiveRequest))) = Inr c \<and> admitted c rq sampleServer"
proof -
  obtain rp ct' s' where run: "serve sampleApp unarchiveRequest (idle, sampleServer) = (rp, ct', s')"
    by (cases "serve sampleApp unarchiveRequest (idle, sampleServer)") auto
  have "map t_status (teams (w_db (se_world s'))) = [''active'']" using unarchive_runs(2) by (simp add: run)
  then have "map t_status (teams (w_db (se_world s'))) \<noteq> map t_status (teams (w_db (se_world sampleServer)))"
    by (simp add: sampleServer_def sampleWorld_def teamDb_def)
  then have "\<not> addsZeros (w_db (se_world sampleServer)) (w_db (se_world s'))" by (auto simp: addsZeros_def)
  from only_sessions_change_rows[OF run this] show ?thesis
    by (auto simp: sampleApp_def sampleServer_def sampleWorld_def unarchiveRequest_def callTo_def)
qed

section \<open>What an outsider gets\<close>

lemma refusing_run: "refusing h \<Longrightarrow> h s = (rp, s') \<Longrightarrow> s' = s \<and> rp_data rp = None"
  by (metis refusing_def fst_conv snd_conv writeErr_data)

lemma keeps_run: "keeps R h \<Longrightarrow> h s = (rp, s') \<Longrightarrow> R (se_world s) (se_world s')"
  by (auto simp: keeps_def dest: spec[of _ s])

definition orgPathOf :: "wire \<Rightarrow> string \<Rightarrow> string list \<Rightarrow> bool" where
  "orgPathOf r i rest \<longleftrightarrow> pathSegs (wi_target r) = ''api'' # ''v1'' # ''organizations'' # i # rest"

lemma route_of_org:
  fixes act :: "'u action"
  assumes "orgPathOf r i rest" "findRoute (wi_method r) (pathSegs (wi_target r)) = Some (vals, act)"
  obtains ps where "orgRow (methodOf (wi_method r), orgSegs @ ps, act)" "matchSegs ps rest \<noteq> None" "pathValue vals ''id'' = i"
proof -
  have all: "list_all (\<lambda>row :: string \<times> string list \<times> 'u action. orgRow row \<and> orgPath row) table"
    using table_orgRow table_orgPath unfolding list_all_iff by blast
  obtain qs where row: "orgRow (methodOf (wi_method r), qs, act)" "orgPath (methodOf (wi_method r), qs, act)"
    and m: "matchSegs qs (pathSegs (wi_target r)) = Some vals"
    using row_of[OF assms(2) all] by blast
  have four: "take 4 qs = orgSegs" using row(2) m assms(1) unfolding orgPath_def orgPathOf_def by auto
  then have "qs = orgSegs @ drop 4 qs" by (metis append_take_drop_id)
  then show ?thesis using that[of "drop 4 qs"] row(1) org_match[of qs i rest vals] m assms(1) four by (simp add: orgPathOf_def)
qed

lemma match_words:
  "matchSegs [w] rest \<noteq> None \<Longrightarrow> wildcard w = None \<Longrightarrow> rest = [w]"
  by (cases rest; cases "tl rest") (auto split: if_splits)

lemma orgRow_cases:
  assumes "orgRow (v, orgSegs @ ps, act)" "matchSegs ps rest \<noteq> None" "\<not> (v = ''GET'' \<and> rest = [''approvals''])"
  shows "closed_to act \<or> rest \<in> {[''members:bulk''], [''members:bulk-status'']} \<and> leaves_trail act"
proof -
  have words: "wildcard ''members:bulk'' = None" "wildcard ''members:bulk-status'' = None" "wildcard ''approvals'' = None"
    by (simp_all add: wildcard_def)
  have "take 4 (orgSegs @ ps) = orgSegs" by (simp add: orgSegs_def)
  then have row: "if ps = [''members:bulk''] \<or> ps = [''members:bulk-status''] then leaves_trail act
      else v = ''GET'' \<and> ps = [''approvals''] \<or> closed_to act"
    using assms(1) by (auto simp: orgRow_def split: if_split_asm)
  show ?thesis
  proof (cases "ps = [''members:bulk''] \<or> ps = [''members:bulk-status'']")
    case True
    then have "rest = [''members:bulk''] \<or> rest = [''members:bulk-status'']" using match_words words assms(2) by blast
    then show ?thesis using row True by simp
  next
    case False
    moreover have "\<not> (v = ''GET'' \<and> ps = [''approvals''])" using match_words words(3) assms(2,3) by blast
    ultimately show ?thesis using row by (auto split: if_split_asm)
  qed
qed

definition outsiderSees :: "string list \<Rightarrow> payload reply \<Rightarrow> 'u world \<Rightarrow> 'u world \<Rightarrow> bool" where
  "outsiderSees rest rp w w' \<longleftrightarrow> w_up w' = w_up w
     \<and> (if rest \<in> {[''members:bulk''], [''members:bulk-status'']} then bulkTrail (w_db w) (w_db w')
        else w_db w' = w_db w \<and> noAnswer (rp_data rp))"

lemma outsiderSees_same: "w_up w' = w_up w \<Longrightarrow> w_db w' = w_db w \<Longrightarrow> noAnswer (rp_data rp) \<Longrightarrow> outsiderSees rest rp w w'"
  using bulkTrail.db_refl by (simp add: outsiderSees_def)

lemma outsider_runs:
  assumes path: "orgPathOf r i rest" "findRoute (wi_method r) (pathSegs (wi_target r)) = Some (vals, Authed act :: 'u action)"
    and out: "cl_role c \<noteq> RoleOperator" "parseInt i \<noteq> Some (cl_org c)" "\<not> (methodOf (wi_method r) = ''GET'' \<and> rest = [''approvals''])"
    and run: "act A rq r vals c s = (rp, s')"
  shows "outsiderSees rest rp (se_world s) (se_world s')"
proof -
  obtain ps where ps: "orgRow (methodOf (wi_method r), orgSegs @ ps, Authed act)" "matchSegs ps rest \<noteq> None" "pathValue vals ''id'' = i"
    using route_of_org[OF path] by blast
  have o: "outsider c vals" using out ps(3) by (simp add: outsider_def)
  from orgRow_cases[OF ps(1,2) out(3)] show ?thesis
  proof (elim disjE conjE)
    assume "closed_to (Authed act)"
    then have "refusing (act A rq r vals c)" using o by simp
    from refusing_run[OF this run] show ?thesis by (intro outsiderSees_same) simp_all
  next
    assume "rest \<in> {[''members:bulk''], [''members:bulk-status'']}" "leaves_trail (Authed act)"
    moreover from this o have k: "keeps (onDb bulkTrail) (act A rq r vals c)" "keeps sameUp (act A rq r vals c)" by auto
    ultimately show ?thesis using keeps_run[OF k(1) run] keeps_run[OF k(2) run] by (auto simp: outsiderSees_def onDb_def sameUp_def)
  qed
qed

text \<open>C39. Organizations are closed to each other.  Whatever a caller who is not the operator sends to
  a path of an organization that is not the caller's own, with whatever method, body and faults, the
  rows and new-api stay as they are and the answer carries none of them; the two routes in bulk may
  add to the trail of audits and do nothing else.  (The list of approvals is not among these: it does not read the
  organization of its path at all.)\<close>

theorem organizations_are_closed_to_outsiders:
  fixes s :: "'u server"
  assumes "orgPathOf r i rest" "\<not> (methodOf (wi_method r) = ''GET'' \<and> rest = [''approvals''])"
    and "Verify (ap_signer A) (w_now (se_world s)) (TrimSpace (drop 7 (wi_authorization r))) = Inr c"
    and "cl_role c \<noteq> RoleOperator" "parseInt i \<noteq> Some (cl_org c)"
  shows "case serve A r (ct, s) of (rp, ct', s') \<Rightarrow> outsiderSees rest rp (se_world s) (se_world s')"
proof -
  obtain rp ct' s' where "serve A r (ct, s) = (rp, ct', s')" by (cases "serve A r (ct, s)") auto
  moreover from this have "outsiderSees rest rp (se_world s) (se_world s')"
  proof (cases rule: serve_run)
    case plain
    then show ?thesis using outsiderSees_same by blast
  next
    case (free rq ct1 vals act)
    obtain ps where "orgRow (methodOf (wi_method r), orgSegs @ ps, Open act)" "matchSegs ps rest \<noteq> None"
      using route_of_org[OF assms(1) free(1)] by blast
    then show ?thesis using orgRow_cases assms(2) by (fastforce simp: closed_to_def leaves_trail_def)
  next
    case (guarded rq vals act)
    let ?h = "act A rq r vals"
    from requireAuth_cases[of "ap_signer A" s rq ?h] show ?thesis
    proof (elim disjE exE conjE)
      fix d s1
      assume v: "Verify (ap_signer A) (w_now (se_world s)) (TrimSpace (drop 7 (rq_authorization rq))) = Inr d"
        and same: "sameWorld (se_world s) (se_world s1)" and run: "requireAuth (ap_signer A) rq ?h s = ?h d s1"
      have "d = c" using v assms(3) headOf_fields[OF guarded(1)] by simp
      then have "outsiderSees rest rp (se_world s1) (se_world s')"
        using outsider_runs[OF assms(1) guarded(3) assms(4,5,2), of A rq s1 rp s'] run guarded(4) by simp
      then show ?thesis using same unfolding outsiderSees_def sameWorld_def by (metis)
    next
      assume "rp_data (fst (requireAuth (ap_signer A) rq ?h s)) = None"
        and "sameWorld (se_world s) (se_world (snd (requireAuth (ap_signer A) rq ?h s)))"
      then show ?thesis using guarded(4) by (intro outsiderSees_same) (simp_all add: sameWorld_def)
    qed
  qed
  ultimately show ?thesis by simp
qed

definition foreignRequest :: wire where "foreignRequest = callTo ''PATCH'' ''/api/v1/organizations/9''"

theorem organizations_are_closed_to_outsiders_witness:
  "case serve sampleApp foreignRequest (idle, sampleServer) of (rp, ct', s') \<Rightarrow>
     outsiderSees [] rp (se_world sampleServer) (se_world s')"
proof -
  have "pathSegs ''/api/v1/organizations/9'' = [''api'', ''v1'', ''organizations'', ''9'']" "parseInt ''9'' = Some 9"
    by code_simp+
  then show ?thesis using adminToken_verifies
    by (intro organizations_are_closed_to_outsiders[where i = "''9''" and c = adminClaims])
       (simp_all add: orgPathOf_def foreignRequest_def callTo_def sampleApp_def sampleServer_def sampleWorld_def adminClaims_def
         stamp_def sampleClaims_def)
qed

text \<open>The trail that the routes in bulk leave is the foreign organization's.\<close>

lemma bulk_open_marks_foreign_trail:
  "map au_org (audits (w_db (snd (BulkOpenMembers (sampleSvc [] False True) (sampleClaims RoleMember 2) 9 [''eve''] None None
     (sampleWorld teamDb 1700000600))))) = [9]"
  by code_simp

text \<open>A large page number wraps to a negative offset, which no list can be read from.\<close>

lemma page_offset_wraps: "parsePaging ''9223372036854775807'' ''100'' 20 = (9223372036854775807, 100, - 200)"
proof -
  have "parseInt ''9223372036854775807'' = Some 9223372036854775807" "parseInt ''100'' = Some 100"
    by (simp_all add: parseInt_def undigits_def isDigit_def fits64_def)
  then show ?thesis by (simp add: parsePaging_def atoiDefault_def i64_def Let_def)
qed

section \<open>The form of an answer\<close>

lemma requireAuth_typed:
  assumes "\<And>c. typed (h c)"
  shows "typed (requireAuth sg rq h)"
  using assms
  by (auto simp: typed_def requireAuth_def callSvc_def split: sum.split prod.split session_err.split)

lemma serve_typed: "wellTyped (fst (serve A r st))"
proof -
  obtain ct s where st: "st = (ct, s)" by (cases st)
  obtain rp ct' s' where run: "serve A r (ct, s) = (rp, ct', s')" by (cases "serve A r (ct, s)") auto
  then have "wellTyped rp"
  proof (cases rule: serve_run)
    case (free rq ct1 vals act)
    then have "typed (act A rq r ct1)" using row_of[OF free(1) table_typedRow] by (auto simp: typedRow_def)
    then show ?thesis using free(2) by (metis typed_def fst_conv)
  next
    case (guarded rq vals act)
    then have "typed (act A rq r vals c)" for c using row_of[OF guarded(3) table_typedRow] by (auto simp: typedRow_def)
    then show ?thesis using requireAuth_typed guarded(4) by (metis typed_def fst_conv)
  qed
  then show ?thesis by (simp add: st run)
qed

lemma envelope_ok: "jsonOk d \<Longrightarrow> jsonOk (envelopeValue n m d rid)"
  using numOk_itoa[of n] by (simp add: envelopeValue_def intValue_def)

lemma parse_line: "jsonOk v \<Longrightarrow> parseJson (jsonText v @ [CHR 0x0A]) = Some v"
  using parse_written(1)[of v "Suc (Suc (length (jsonText v)))" "[CHR 0x0A]"]
  by (simp add: parseJson_def skipWs_def isWs_def del: parseVal.simps)



end
