(* ===== verification/Spec2Isabelle.thy ===== *)
theory Spec2Isabelle
  imports SettlementClaims MoneyClaims EscrowClaims ApprovalClaims Session PeopleClaims
    IdentityClaims ResetClaims HttpClaims Reconcile Support Tiers Validate Reset Admin OrgLifecycle
    Lock Keyring Breaker AdapterClaims UsageClaims Secrets Migrations Startup RouterClaims
begin

text \<open>
  Verification of the enterprise control plane in \<open>src/\<close>, a Go server that sells access to a model
  gateway called new-api to organizations: it keeps their members, balances and usage in MySQL and
  steers the gateway's users, tokens, wallets and prices through its HTTP interface.

  \<^bold>\<open>How the program is modelled.\<close>
  An operation is a function from a world to a result, \<open>Inl\<close> an error or \<open>Inr\<close> a value, and the next
  world (\<open>Prelude\<close>).  The world (\<open>Effects.world\<close>) holds the database \<open>w_db\<close> (a record of tables in
  \<open>Model\<close>, one record per row), the state of new-api \<open>w_up\<close> of an arbitrary type \<open>'u\<close>, the time, the
  faults to come, the locks held, and a counter of random draws.  Each statement consumes one fault:
  \<open>Fine\<close>, \<open>Fails\<close> (an error and no effect) or \<open>LostAck\<close> (an error after the effect); a list that has
  run out means that all is fine.  A property without a hypothesis on \<open>w_faults\<close> holds for every
  schedule of them.  Transactions (\<open>WithTx\<close>) roll back on error, and their commit can fail either way.
  New-api is a record of functions (\<open>newapi\<close>) over \<open>'u\<close>, with nothing assumed but what a property
  names.  Definitions have the names of the Go functions; a name that occurs in two layers has a suffix
  (\<open>Row\<close>, \<open>Repo\<close>, \<open>Service\<close>).

  \<^bold>\<open>The layers and their theories.\<close>
  \<^item> Ground: \<open>Prelude\<close> (monad, weakest preconditions, the locale \<open>guarantee\<close> of two-state relations kept
    by whole operations, 64-bit arithmetic), \<open>Apperr\<close> (\<open>pkg/apperr\<close>, \<open>adapter/newapi/errors.go\<close>), \<open>Model\<close>
    (\<open>model\<close>), \<open>Effects\<close> (\<open>repo/tx.go\<close>), \<open>Triples\<close>, \<open>GoLib\<close>, \<open>GoEncoding\<close>, \<open>GoJson\<close>, \<open>NetIP\<close>
    (what is used of Go's library: binary64 arithmetic, base64, JSON both ways, addresses).
  \<^item> Rows (\<open>repo/*.go\<close>): \<open>StoreMoney\<close>, \<open>OrgCred\<close>, \<open>StoreMember\<close>, \<open>StoreOrg\<close>, \<open>StoreUsage\<close>, \<open>UsageReports\<close>,
    \<open>Notifications\<close>; \<open>Migrations\<close> (\<open>repo/db.go\<close>).
  \<^item> Use cases (\<open>service/*.go\<close>): \<open>Rbac\<close>, \<open>Validate\<close>, \<open>Quota\<close>, \<open>OrgStatus\<close>, \<open>Settlement\<close>, \<open>Escrow\<close>, \<open>Billing\<close>,
    \<open>Backfill\<close>, \<open>Reconcile\<close>, \<open>Approvals\<close>, \<open>Support\<close>, \<open>Tiers\<close>, \<open>Pricing\<close>, \<open>Members\<close>, \<open>OrgLifecycle\<close>, \<open>Admin\<close>,
    \<open>Reset\<close>, \<open>Identity\<close>, \<open>Secrets\<close>.
  \<^item> The gateway's client (\<open>adapter/newapi\<close>): \<open>Breaker\<close> (\<open>ratelimit.go\<close>), \<open>Client\<close>, \<open>Adapter\<close>, \<open>Options\<close>,
    \<open>Bootstrap\<close>; here the environment is a function that answers requests, and \<open>adapterOf\<close> turns the
    methods into the record \<open>newapi\<close> that the services use.
  \<^item> Packages: \<open>Session\<close> (\<open>pkg/session\<close>), \<open>Keyring\<close> (\<open>pkg/crypto\<close>), \<open>Lock\<close> (\<open>pkg/lock\<close>).
  \<^item> The edge (\<open>handler/*.go\<close>): \<open>AuthLimit\<close>, \<open>Http\<close> (envelope, gate, session check, login), \<open>Wire\<close> (what is
    read from a request), \<open>Views\<close> (what is written), \<open>Handlers\<close>, \<open>HandlersMember\<close>, \<open>HandlersMoney\<close> (a
    definition for each Go handler), \<open>Router\<close> (all routes, matching, middlewares, metrics, \<open>serve\<close> and \<open>render\<close>).
  \<^item> The process: \<open>Workers\<close> (\<open>worker\<close>), \<open>Startup\<close> (\<open>cmd/server/main.go\<close>, \<open>service/service.go\<close>:
    the start, and the end as a step relation with \<open>orderly_exit\<close> and \<open>exit_in_reach\<close>).

  A request runs through \<open>serve\<close>: gate, route, session check, handler, service operation, rows and
  new-api; a worker tick runs settlement, escrow, backfill, resets or reconciliation over the same world.

  \<^bold>\<open>What is shown.\<close>
  Most histories are lists of operations chosen freely, with other parts of the system interfering
  between them; a property of histories is proved once as a relation between worlds that each
  operation keeps (\<open>Frames\<close>, \<open>SettleFrames\<close>, \<open>BackfillFrames\<close>, \<open>MemberOps\<close>, \<open>Ambient\<close>, \<open>RouteTable\<close>, with
  the interpretations of \<open>guarantee\<close> and \<open>db_guarantee\<close>) and then by induction on the list.
  \<^item> Money: C1 every log is settled once, forwards and backwards together; C2 the buckets hold what was
    funded; C3 to C5 recharges and refunds; C6 to C8 the window and its threshold; C35 the dashboards add up.
  \<^item> Decisions: C9 and C10 approvals; C18 and C19 the periodic reset.
  \<^item> Identity: C11 and C12 tokens; C13 revocation; C14 and C15 roles and names; C16 and C17 logins; C20
    and C21 the back-off; C22 and C23 what stands before a handler; C38 only sessions change rows; C39
    organizations are closed to each other; C40 the form of every answer.
  \<^item> Machinery: C24 to C26 the keyed lock; C27 the key ring; C28 to C30 the client and its breaker; C31 to
    C34 what is sent to new-api; C36 migrations; C37 the start of the process.

  \<^bold>\<open>Bounds and fuel.\<close>
  \<open>mergeLoop\<close> has two rounds more than there are holding buckets, and each merges one; \<open>purgeLoop\<close> has
  two rounds more than batches of 5000 rows; pages of logs are at most 20 (rescan 5) of 100, of users 20,
  of tokens 100, as in the code; the JSON parser's fuel is the length of its input plus one, which
  \<open>parse_written\<close> shows to be enough for whatever is written; an account is tried five times; the rate
  limiter's rounds are a number of the environment, and \<open>OutOfFuel\<close> is an error value that stands for
  waiting without end.

  \<^bold>\<open>Conventions.\<close>
  Times are nanoseconds as \<open>int\<close>, \<open>Unix()\<close> is \<open>div 10 ^ 9\<close>; within a service operation the clock stands.
  \<open>int64\<close> arithmetic wraps through \<open>i64\<close>, \<open>BIGINT\<close> overflow is an error of the database.  A \<open>float64\<close> is
  a fraction rounded to 53 bits, without denormals and without the ends of the exponent range.  Strings are
  bytes; comparisons are exact (no collation), \<open>ToLower\<close> is ASCII, runes are counted on well-formed UTF-8.
  Iteration over a Go map is a list in the order of insertion, and a sort keeps ties in list order.
  Random values are functions of the draw counter.  Messages of errors are left out, as are columns
  of texts for people and creation times, also in the views.  The HMAC, bcrypt, AES-GCM, the zone
  database and the static files are parameters.  JSON copies bytes above \<open>0x7f\<close>, does not fold case
  beyond ASCII, and a later member replaces an earlier one.  The target of a request is its escaped
  path; \<open>CONNECT\<close> and \<open>OPTIONS *\<close> do not come here; the counters are those of one request alone; a page
  with a negative offset fails when it is read; a notification is identified by its position; the
  metrics are given without comment lines and content types.  Audited times are JSON numbers.  A new-api that stops
  answering \<open>BootstrapMember\<close> midway leaves a partial result that \<open>adapterOf\<close> drops, as its callers do.
  C18 and C19 are about zones whose offset is constant around the period (\<open>steady zones\<close>).  The
  execution of a migration statement is a parameter, statements are atomic, and \<open>mg_cut\<close> says where the
  reading of the applied files breaks off.

  \<^bold>\<open>Not modelled.\<close>
  Concurrency inside one service operation: its locks appear as acquire-or-fail (\<open>holding\<close>), interleaving
  is between operations, and the mutual exclusion itself is theory \<open>Lock\<close>; \<open>Breaker\<close> interleaves calls.  The purge of old
  detail rows is modelled (\<open>PurgeOldUsageDetail\<close>), but is no step of C1's histories.
  Panics of worker ticks, the periods of tickers, deadlines (they show as faults of the calls under way),
  the pauses of the backfill, logging, the connection pool, TLS and timers of HTTP.
  Functions that nothing calls: \<open>AdvanceCursor\<close> and \<open>AddToLedgerBucket\<close> outside a transaction,
  \<open>NextHoldingBucket\<close>, \<open>MaxEscrowSeq\<close>, \<open>ListBillingEnabledOrgs\<close>, \<open>ListAuditLogs\<close>.
  The operator account of
  \<open>SeedOperator\<close> reports a failed hash as an internal error.  The panic of \<open>handleOpenSupport\<close> on a
  missing session is the reply of \<open>recoverPanic\<close>; no other panic is modelled.  The browser front end, tests,
  containers and SQL files hold no Go code of the server (the parts of the SQL that matter, unique
  keys and defaults, are in the row operations).
\<close>

end
